(* ===== verification/Prelude.thy ===== *)
theory Prelude
  imports Main "HOL-Library.Signed_Division" "HOL-Library.Multiset" "HOL-Library.Sublist"
begin

text \<open>
  Shared vocabulary of the development.

  \<^item> JavaScript strings are lists of UTF-16 code units (\<open>jstr\<close>); \<open>u\<close> turns an
    ASCII literal of Isabelle into one.
  \<^item> A thrown value is an \<open>exn\<close>: its class name, its message and, for the error
    classes that carry one, a status.  A computation that may throw returns
    \<open>exn + 'a\<close>.
  \<^item> Decimal numerals: \<open>show_nat\<close>, \<open>show_int\<close> are what \<open>String(n)\<close> and
    \<open>n.toString()\<close> give on integers, \<open>bigint_of\<close> is \<open>BigInt(s)\<close>.
  \<^item> The locale \<open>codec\<close> is the contract of an encoder with a decoder; the theories
    of decimals, hexadecimal and base64url interpret it.
\<close>

named_theorems jstr_simps "evaluation of string operations"
named_theorems result_simps "results and their combinators"

section \<open>Strings\<close>

type_synonym jstr = "nat list"

definition u :: "string \<Rightarrow> jstr" where
  "u s = List.map of_char s"

lemma u_Nil [simp]: "u [] = []"
  by (simp add: u_def)

lemma u_eq_iff [simp]: "u s = u t \<longleftrightarrow> s = t"
proof -
  have "inj (of_char :: char \<Rightarrow> nat)" by (rule inj_of_char)
  then show ?thesis by (simp add: u_def inj_map_eq_map)
qed

lemma u_eq_Nil [simp]: "u s = [] \<longleftrightarrow> s = []" "[] = u s \<longleftrightarrow> s = []"
  by (auto simp: u_def)

lemma length_u [simp]: "length (u s) = length s"
  by (simp add: u_def)

lemma u_append: "u (s @ t) = u s @ u t"
  by (simp add: u_def)

lemma span_all:
  "\<forall>c \<in> set w. P c \<Longrightarrow> takeWhile P w = w" "\<forall>c \<in> set w. P c \<Longrightarrow> dropWhile P w = []"
  by (simp_all add: takeWhile_eq_all_conv dropWhile_eq_Nil_conv)

lemma span_stop:
  "\<forall>c \<in> set w. P c \<Longrightarrow> \<not> P x \<Longrightarrow> takeWhile P (w @ x # f) = w"
  "\<forall>c \<in> set w. P c \<Longrightarrow> \<not> P x \<Longrightarrow> dropWhile P (w @ x # f) = x # f"
  by (simp_all add: takeWhile_append2 dropWhile_append2)

section \<open>Results\<close>

datatype exn = Exn (exn_name: jstr) (exn_msg: jstr) (exn_status: "int option")

definition js_error :: "string \<Rightarrow> jstr \<Rightarrow> exn" where
  "js_error n m = Exn (u n) m None"

definition show_exn :: "exn \<Rightarrow> jstr" where
  "show_exn e = (if exn_msg e = [] then exn_name e else exn_name e @ u '': '' @ exn_msg e)"

type_synonym 'a result = "exn + 'a"

definition bindR :: "'a result \<Rightarrow> ('a \<Rightarrow> 'b result) \<Rightarrow> 'b result" where
  "bindR m f = (case m of Inl e \<Rightarrow> Inl e | Inr x \<Rightarrow> f x)"

lemma bindR_simps [simp, result_simps]:
  "bindR (Inl e) f = Inl e"
  "bindR (Inr x) f = f x"
  by (simp_all add: bindR_def)

lemma bindR_eq_Inr [result_simps]: "bindR m f = Inr y \<longleftrightarrow> (\<exists>x. m = Inr x \<and> f x = Inr y)"
  by (cases m) auto

lemma bindR_eq_Inl [result_simps]:
  "bindR m f = Inl e \<longleftrightarrow> m = Inl e \<or> (\<exists>x. m = Inr x \<and> f x = Inl e)"
  by (cases m) auto

lemma bindR_total: "(\<exists>y. bindR m f = Inr y) \<longleftrightarrow> (\<exists>x. m = Inr x \<and> (\<exists>y. f x = Inr y))"
  by (cases m) auto

lemma bindR_assoc: "bindR (bindR m f) g = bindR m (\<lambda>x. bindR (f x) g)"
  by (cases m) auto

fun mapR :: "('a \<Rightarrow> 'b result) \<Rightarrow> 'a list \<Rightarrow> 'b list result" where
  "mapR f [] = Inr []" |
  "mapR f (x # xs) = bindR (f x) (\<lambda>y. bindR (mapR f xs) (\<lambda>ys. Inr (y # ys)))"

lemma mapR_Inr: "mapR f xs = Inr ys \<longleftrightarrow> list_all2 (\<lambda>x y. f x = Inr y) xs ys"
  by (induction xs arbitrary: ys) (auto simp: list_all2_Cons1 result_simps)

lemma mapR_total: "(\<exists>ys. mapR f xs = Inr ys) \<longleftrightarrow> (\<forall>x \<in> set xs. \<exists>y. f x = Inr y)"
  by (induction xs) (auto simp: result_simps)

lemma mapR_concat_mem:
  "mapR f xs = Inr yss \<Longrightarrow> y \<in> set (concat yss) \<longleftrightarrow> (\<exists>x \<in> set xs. \<exists>ys. f x = Inr ys \<and> y \<in> set ys)"
  by (induction xs arbitrary: yss) (auto simp: result_simps)

lemma mapR_mem: "mapR f xs = Inr ys \<Longrightarrow> y \<in> set ys \<Longrightarrow> \<exists>x \<in> set xs. f x = Inr y"
  by (induction xs arbitrary: ys) (auto simp: result_simps)

lemma mapR_length: "mapR f xs = Inr ys \<Longrightarrow> length ys = length xs"
  by (induction xs arbitrary: ys) (auto simp: result_simps)

section \<open>Encoders and decoders\<close>

locale codec =
  fixes enc :: "'a \<Rightarrow> 'b" and dec :: "'b \<Rightarrow> 'a option" and ok :: "'a \<Rightarrow> bool"
  assumes dec_enc: "ok x \<Longrightarrow> dec (enc x) = Some x"
begin

lemma enc_inj: "ok x \<Longrightarrow> ok y \<Longrightarrow> enc x = enc y \<Longrightarrow> x = y"
  by (metis dec_enc option.inject)

lemma enc_eq_iff: "ok x \<Longrightarrow> ok y \<Longrightarrow> enc x = enc y \<longleftrightarrow> x = y"
  by (metis enc_inj)

lemma decodes: "ok x \<Longrightarrow> \<exists>y. dec (enc x) = Some y \<and> enc y = enc x"
  by (simp add: dec_enc)

end

section \<open>Decimal numerals\<close>

definition is_digit :: "nat \<Rightarrow> bool" where
  "is_digit c \<longleftrightarrow> 48 \<le> c \<and> c \<le> 57"

fun show_nat :: "nat \<Rightarrow> jstr" where
  "show_nat n = (if n < 10 then [48 + n] else show_nat (n div 10) @ [48 + n mod 10])"

declare show_nat.simps [simp del]

definition show_int :: "int \<Rightarrow> jstr" where
  "show_int i = (if i < 0 then 45 # show_nat (nat (- i)) else show_nat (nat i))"

definition dec_val :: "jstr \<Rightarrow> nat" where
  "dec_val ds = foldl (\<lambda>a c. 10 * a + (c - 48)) 0 ds"

lemma dec_val_snoc [simp]: "dec_val (ds @ [c]) = 10 * dec_val ds + (c - 48)"
  by (simp add: dec_val_def)

lemma dec_val_Nil [simp]: "dec_val [] = 0"
  by (simp add: dec_val_def)

lemma dec_val_append: "dec_val (xs @ ys) = dec_val xs * 10 ^ length ys + dec_val ys"
proof (induction ys rule: rev_induct)
  case (snoc y ys)
  have "dec_val (xs @ ys @ [y]) = 10 * dec_val (xs @ ys) + (y - 48)"
    using dec_val_snoc [of "xs @ ys" y] by simp
  with snoc show ?case by (simp add: algebra_simps)
qed simp

lemma dec_val_Cons: "dec_val (c # cs) = (c - 48) * 10 ^ length cs + dec_val cs"
  using dec_val_append [of "[c]" cs] by (simp add: dec_val_def)

lemma dec_val_bound: "\<forall>c \<in> set ds. is_digit c \<Longrightarrow> dec_val ds < 10 ^ length ds"
proof (induction ds rule: rev_induct)
  case (snoc c ds)
  then have "dec_val ds + 1 \<le> 10 ^ length ds" and "c - 48 \<le> 9"
    by (auto simp: is_digit_def)
  then show ?case by simp
qed simp

lemma show_nat_small: "n < 10 \<Longrightarrow> show_nat n = [48 + n]"
  by (subst show_nat.simps) simp

lemma show_nat_big: "\<not> n < 10 \<Longrightarrow> show_nat n = show_nat (n div 10) @ [48 + n mod 10]"
  by (subst show_nat.simps) (simp only: if_False)

lemma show_nat_all_digits: "\<forall>c \<in> set (show_nat n). is_digit c"
proof (induction n rule: show_nat.induct)
  case (1 n)
  have "n mod 10 < 10" by simp
  with 1 show ?case
    by (cases "n < 10") (auto simp: is_digit_def show_nat_small show_nat_big)
qed

lemma show_nat_digits: "c \<in> set (show_nat n) \<Longrightarrow> is_digit c"
  using show_nat_all_digits by blast

lemma show_nat_not_Nil [simp]: "show_nat n \<noteq> []"
  by (subst show_nat.simps) simp

lemma dec_val_show_nat [simp]: "dec_val (show_nat n) = n"
proof (induction n rule: show_nat.induct)
  case (1 n)
  then show ?case
    by (cases "n < 10") (simp_all add: show_nat_small show_nat_big, simp add: dec_val_def)
qed

lemma show_nat_inj [simp]: "show_nat m = show_nat n \<longleftrightarrow> m = n"
  by (metis dec_val_show_nat)

lemma show_nat_hd: "0 < n \<Longrightarrow> hd (show_nat n) \<noteq> 48"
proof (induction n rule: show_nat.induct)
  case (1 n)
  then show ?case
    by (cases "n < 10") (simp_all add: show_nat_small show_nat_big)
qed

lemma show_nat_snoc:
  assumes "0 < n \<or> d = 0" "d < 10"
  shows "show_nat (10 * n + d) = (if n = 0 then [48 + d] else show_nat n @ [48 + d])"
  using assms by (subst show_nat.simps) auto

lemma show_nat_dec_val:
  assumes "ds \<noteq> []" "\<forall>c \<in> set ds. is_digit c" "length ds = 1 \<or> hd ds \<noteq> 48"
  shows "show_nat (dec_val ds) = ds"
  using assms
proof (induction ds rule: rev_induct)
  case (snoc c ds)
  then have c: "is_digit c" by simp
  show ?case
  proof (cases "ds = []")
    case True
    with c show ?thesis by (auto simp: dec_val_def is_digit_def show_nat_small)
  next
    case False
    with snoc.prems have h: "hd ds \<noteq> 48" by simp
    with False snoc have IH: "show_nat (dec_val ds) = ds" by simp
    have "dec_val ds \<noteq> 0"
    proof
      assume "dec_val ds = 0"
      with IH have "ds = [48]" by (simp add: show_nat_small)
      with h show False by simp
    qed
    with IH c False show ?thesis
      using show_nat_snoc [of "dec_val ds" "c - 48"] by (auto simp: is_digit_def less_diff_conv2)
  qed
qed simp

lemma length_show_nat_le: "n < 10 ^ k \<Longrightarrow> 0 < k \<Longrightarrow> length (show_nat n) \<le> k"
proof (induction k arbitrary: n)
  case (Suc k)
  show ?case
  proof (cases "n < 10")
    case True then show ?thesis by (simp add: show_nat_small)
  next
    case False
    with Suc.prems have "n div 10 < 10 ^ k" "0 < k"
      by (auto simp: less_mult_imp_div_less mult.commute intro: gr0I)
    with Suc.IH [of "n div 10"] False show ?thesis by (simp add: show_nat_big)
  qed
qed simp

section \<open>BigInt(s)\<close>

text \<open>White space and line terminators of ECMAScript, which \<open>trim\<close> and the
  string conversions strip.\<close>

definition is_ws :: "nat \<Rightarrow> bool" where
  "is_ws c \<longleftrightarrow> c \<in> {9, 10, 11, 12, 13, 32, 160, 0x1680, 0x2028, 0x2029, 0x202f, 0x205f, 0x3000, 0xfeff}
      \<or> (0x2000 \<le> c \<and> c \<le> 0x200a)"

definition trim :: "jstr \<Rightarrow> jstr" where
  "trim s = rev (dropWhile is_ws (rev (dropWhile is_ws s)))"

definition hex_digit_val :: "nat \<Rightarrow> nat option" where
  "hex_digit_val c =
     (if 48 \<le> c \<and> c \<le> 57 then Some (c - 48)
      else if 97 \<le> c \<and> c \<le> 102 then Some (c - 87)
      else if 65 \<le> c \<and> c \<le> 70 then Some (c - 55) else None)"

definition radix_val :: "nat \<Rightarrow> jstr \<Rightarrow> int option" where
  "radix_val r ds =
     (if ds \<noteq> [] \<and> (\<forall>c \<in> set ds. case hex_digit_val c of None \<Rightarrow> False | Some d \<Rightarrow> d < r)
      then Some (int (foldl (\<lambda>a c. r * a + the (hex_digit_val c)) 0 ds)) else None)"

definition digits_val :: "jstr \<Rightarrow> int option" where
  "digits_val ds = (if ds \<noteq> [] \<and> (\<forall>c \<in> set ds. is_digit c) then Some (int (dec_val ds)) else None)"

text \<open>The string-to-BigInt conversion of ECMAScript: the empty string is zero, a
  decimal may carry a sign, the prefixes \<open>0x\<close>, \<open>0o\<close> and \<open>0b\<close> may not.\<close>

definition bigint_lit :: "jstr \<Rightarrow> int option" where
  "bigint_lit t =
     (case t of
        [] \<Rightarrow> Some 0
      | c # cs \<Rightarrow>
          if c = 45 then map_option uminus (digits_val cs)
          else if c = 43 then digits_val cs
          else if c = 48 \<and> cs \<noteq> [] \<and> hd cs \<in> {88, 120} then radix_val 16 (tl cs)
          else if c = 48 \<and> cs \<noteq> [] \<and> hd cs \<in> {79, 111} then radix_val 8 (tl cs)
          else if c = 48 \<and> cs \<noteq> [] \<and> hd cs \<in> {66, 98} then radix_val 2 (tl cs)
          else digits_val t)"

definition bigint_parse :: "jstr \<Rightarrow> int option" where
  "bigint_parse s = bigint_lit (trim s)"

definition bigint_of :: "jstr \<Rightarrow> int result" where
  "bigint_of s = (case bigint_parse s of
      None \<Rightarrow> Inl (js_error ''SyntaxError'' (u ''Cannot convert '' @ s @ u '' to a BigInt''))
    | Some i \<Rightarrow> Inr i)"

lemma digit_not_ws: "is_digit c \<Longrightarrow> \<not> is_ws c"
  by (auto simp: is_digit_def is_ws_def)

lemma trim_id: "s \<noteq> [] \<Longrightarrow> \<not> is_ws (hd s) \<Longrightarrow> \<not> is_ws (last s) \<Longrightarrow> trim s = s"
  by (metis dropWhile_eq_self_iff hd_rev rev_rev_ident trim_def)

lemma trim_no_ws: "\<forall>c \<in> set s. \<not> is_ws c \<Longrightarrow> trim s = s"
  by (cases "s = []") (auto simp: trim_id, simp add: trim_def)

lemma trim_trim [simp]: "trim (trim s) = trim s"
proof -
  let ?d = "dropWhile is_ws s"
  have "dropWhile is_ws (trim s) = trim s"
  proof (cases "trim s")
    case (Cons c cs)
    have "prefix (trim s) ?d"
      by (metis suffix_dropWhile suffix_to_prefix rev_rev_ident trim_def)
    with Cons obtain zs where "?d = c # zs" by (auto simp del: dropWhile_eq_Cons_conv simp: prefix_def)
    then have "\<not> is_ws c" by (metis hd_dropWhile list.distinct(1) list.sel(1))
    with Cons show ?thesis by simp
  qed simp
  then show ?thesis by (simp add: trim_def)
qed

lemma bigint_digits:
  assumes "ds \<noteq> []" "\<forall>c \<in> set ds. is_digit c"
  shows "bigint_parse ds = Some (int (dec_val ds))"
proof -
  have "trim ds = ds" using assms by (intro trim_no_ws) (auto dest: digit_not_ws)
  moreover obtain c cs where "ds = c # cs" using assms(1) by (cases ds) auto
  ultimately show ?thesis
    using assms by (auto simp: bigint_parse_def bigint_lit_def digits_val_def is_digit_def neq_Nil_conv)
qed

lemma bigint_show_nat [simp]: "bigint_parse (show_nat n) = Some (int n)"
  using bigint_digits [of "show_nat n"] show_nat_digits by auto

lemma bigint_show_int [simp]: "bigint_parse (show_int i) = Some i"
proof (cases "i < 0")
  case True
  let ?d = "show_nat (nat (- i))"
  have "\<forall>c \<in> set (45 # ?d). \<not> is_ws c"
    using show_nat_all_digits digit_not_ws by (auto simp: is_ws_def [of 45])
  then have "trim (45 # ?d) = 45 # ?d" by (rule trim_no_ws)
  moreover have "digits_val ?d = Some (- i)"
    using True show_nat_digits by (auto simp: digits_val_def)
  ultimately show ?thesis using True by (simp add: show_int_def bigint_parse_def bigint_lit_def)
qed (simp add: show_int_def)

lemma bigint_of_show [simp]:
  "bigint_of (show_nat n) = Inr (int n)" "bigint_of (show_int i) = Inr i"
  by (simp_all add: bigint_of_def)

lemma bigint_of_Inr: "bigint_of s = Inr i \<longleftrightarrow> bigint_parse s = Some i"
  by (simp add: bigint_of_def split: option.splits)

lemma bigint_of_cases:
  obtains (parses) i where "bigint_parse s = Some i" "bigint_of s = Inr i"
  | (throws) e where "bigint_parse s = None" "bigint_of s = Inl e"
  by (cases "bigint_parse s") (simp_all add: bigint_of_def)

interpretation decimal: codec show_int bigint_parse "\<lambda>_. True"
  by unfold_locales simp

lemma show_int_inj: "show_int i = show_int j \<Longrightarrow> i = j"
  using decimal.enc_inj by blast

end
