(* ===== verification/Effects.thy ===== *)
theory Effects
  imports Prelude
begin

text \<open>
  State-passing computations that may throw: \<open>'s \<Rightarrow> 'a result \<times> 's\<close>.  A \<open>throw\<close> keeps
  the state reached so far, as an exception of the source does, and \<open>catchM\<close> is its
  \<open>try ... catch\<close>.  \<open>triple P m Q E\<close> is the Hoare triple used for invariants: from a
  state with \<open>P\<close>, \<open>m\<close> returns \<open>x\<close> in a state with \<open>Q x\<close> or throws \<open>e\<close> in a state with \<open>E e\<close>.
\<close>

type_synonym ('s, 'a) comp = "'s \<Rightarrow> 'a result \<times> 's"

definition retM :: "'a \<Rightarrow> ('s, 'a) comp" where
  "retM x s = (Inr x, s)"

definition throwM :: "exn \<Rightarrow> ('s, 'a) comp" where
  "throwM e s = (Inl e, s)"

definition liftR :: "'a result \<Rightarrow> ('s, 'a) comp" where
  "liftR r s = (r, s)"

definition bindM :: "('s, 'a) comp \<Rightarrow> ('a \<Rightarrow> ('s, 'b) comp) \<Rightarrow> ('s, 'b) comp" where
  "bindM m f s = (case m s of (Inl e, s') \<Rightarrow> (Inl e, s') | (Inr x, s') \<Rightarrow> f x s')"

definition catchM :: "('s, 'a) comp \<Rightarrow> (exn \<Rightarrow> ('s, 'a) comp) \<Rightarrow> ('s, 'a) comp" where
  "catchM m h s = (case m s of (Inl e, s') \<Rightarrow> h e s' | (Inr x, s') \<Rightarrow> (Inr x, s'))"

definition getM :: "('s, 's) comp" where
  "getM s = (Inr s, s)"

definition modM :: "('s \<Rightarrow> 's) \<Rightarrow> ('s, unit) comp" where
  "modM f s = (Inr (), f s)"

named_theorems comp_simps "evaluation of state-passing computations"

lemma comp_eval [comp_simps]:
  "retM x s = (Inr x, s)"
  "throwM e s = (Inl e, s)"
  "liftR r s = (r, s)"
  "getM s = (Inr s, s)"
  "modM f s = (Inr (), f s)"
  by (simp_all add: retM_def throwM_def liftR_def getM_def modM_def)

lemma bindM_eval [comp_simps]:
  "m s = (Inl e, s') \<Longrightarrow> bindM m f s = (Inl e, s')"
  "m s = (Inr x, s') \<Longrightarrow> bindM m f s = f x s'"
  by (simp_all add: bindM_def)

lemma catchM_eval [comp_simps]:
  "m s = (Inl e, s') \<Longrightarrow> catchM m h s = h e s'"
  "m s = (Inr x, s') \<Longrightarrow> catchM m h s = (Inr x, s')"
  by (simp_all add: catchM_def)

lemma bindM_leaf [simp]:
  "bindM (retM x) f = f x"
  "bindM (throwM e) f = throwM e"
  "bindM (liftR (Inr x)) f = f x"
  "bindM (liftR (Inl e)) g = throwM e"
  by (auto simp: fun_eq_iff comp_simps)

lemma bindM_assoc: "bindM (bindM m f) g = bindM m (\<lambda>x. bindM (f x) g)"
  by (auto simp: fun_eq_iff bindM_def split: prod.splits sum.splits)

lemma bindM_Inr:
  "bindM m f s = (Inr y, s'') \<longleftrightarrow> (\<exists>x s'. m s = (Inr x, s') \<and> f x s' = (Inr y, s''))"
  by (auto simp: bindM_def split: prod.splits sum.splits)

section \<open>Triples\<close>

definition triple :: "('s \<Rightarrow> bool) \<Rightarrow> ('s, 'a) comp \<Rightarrow> ('a \<Rightarrow> 's \<Rightarrow> bool) \<Rightarrow> (exn \<Rightarrow> 's \<Rightarrow> bool) \<Rightarrow> bool" where
  "triple P m Q E \<longleftrightarrow> (\<forall>s. P s \<longrightarrow> (case m s of (Inr x, s') \<Rightarrow> Q x s' | (Inl e, s') \<Rightarrow> E e s'))"

named_theorems triple_rules "introduction rules for triples"

lemma triple_ret [triple_rules]: "(\<And>s. P s \<Longrightarrow> Q x s) \<Longrightarrow> triple P (retM x) Q E"
  by (simp add: triple_def comp_simps)

lemma triple_throw [triple_rules]: "(\<And>s. P s \<Longrightarrow> E e s) \<Longrightarrow> triple P (throwM e) Q E"
  by (simp add: triple_def comp_simps)

lemma triple_lift [triple_rules]:
  "(\<And>s x. P s \<Longrightarrow> r = Inr x \<Longrightarrow> Q x s) \<Longrightarrow> (\<And>s e. P s \<Longrightarrow> r = Inl e \<Longrightarrow> E e s) \<Longrightarrow> triple P (liftR r) Q E"
  by (simp add: triple_def comp_simps split: sum.splits)

lemma triple_mod [triple_rules]: "(\<And>s. P s \<Longrightarrow> Q () (f s)) \<Longrightarrow> triple P (modM f) Q E"
  by (simp add: triple_def comp_simps)

lemma triple_bind:
  "triple P m R E \<Longrightarrow> (\<And>x. triple (R x) (f x) Q E) \<Longrightarrow> triple P (bindM m f) Q E"
  by (fastforce simp: triple_def bindM_def split: prod.splits sum.splits)

lemma triple_catch:
  "triple P m Q R \<Longrightarrow> (\<And>e. triple (R e) (h e) Q E) \<Longrightarrow> triple P (catchM m h) Q E"
  by (fastforce simp: triple_def catchM_def split: prod.splits sum.splits)

lemma triple_weaken:
  "triple P m Q E \<Longrightarrow> (\<And>s. P' s \<Longrightarrow> P s) \<Longrightarrow> (\<And>x s. Q x s \<Longrightarrow> Q' x s) \<Longrightarrow> (\<And>e s. E e s \<Longrightarrow> E' e s)
    \<Longrightarrow> triple P' m Q' E'"
  by (fastforce simp: triple_def split: prod.splits sum.splits)

lemma triple_Inr: "triple P m Q E \<Longrightarrow> P s \<Longrightarrow> m s = (Inr x, s') \<Longrightarrow> Q x s'"
  by (fastforce simp: triple_def)

lemma triple_Inl: "triple P m Q E \<Longrightarrow> P s \<Longrightarrow> m s = (Inl e, s') \<Longrightarrow> E e s'"
  by (fastforce simp: triple_def)

text \<open>An invariant of every state a computation can leave behind.\<close>

definition keeps :: "('s \<Rightarrow> bool) \<Rightarrow> ('s, 'a) comp \<Rightarrow> bool" where
  "keeps I m \<longleftrightarrow> (\<forall>s. I s \<longrightarrow> I (snd (m s)))"

named_theorems keeps_rules "introduction rules for invariants"

lemma keepsI: "(\<And>s. I s \<Longrightarrow> I (snd (m s))) \<Longrightarrow> keeps I m"
  by (simp add: keeps_def)

lemma keepsD: "keeps I m \<Longrightarrow> I s \<Longrightarrow> I (snd (m s))"
  by (simp add: keeps_def)

lemma keeps_leaf [keeps_rules]:
  "keeps I (retM x)" "keeps I (throwM e)" "keeps I (liftR r)" "keeps I getM"
  by (simp_all add: keeps_def comp_simps)

lemma keeps_mod [keeps_rules]: "(\<And>s. I s \<Longrightarrow> I (f s)) \<Longrightarrow> keeps I (modM f)"
  by (simp add: keeps_def comp_simps)

lemma keeps_bind [keeps_rules]: "keeps I m \<Longrightarrow> (\<And>x. keeps I (f x)) \<Longrightarrow> keeps I (bindM m f)"
  by (fastforce simp: keeps_def bindM_def split: prod.splits sum.splits)

lemma keeps_catch [keeps_rules]: "keeps I m \<Longrightarrow> (\<And>e. keeps I (h e)) \<Longrightarrow> keeps I (catchM m h)"
  by (fastforce simp: keeps_def catchM_def split: prod.splits sum.splits)

lemma keeps_if [keeps_rules]: "(b \<Longrightarrow> keeps I m) \<Longrightarrow> (\<not> b \<Longrightarrow> keeps I n) \<Longrightarrow> keeps I (if b then m else n)"
  by simp

lemma keeps_Let [keeps_rules]: "keeps I (f x) \<Longrightarrow> keeps I (let y = x in f y)"
  by (simp add: Let_def)

lemma triple_keeps: "keeps I m \<Longrightarrow> triple I m (\<lambda>_. I) (\<lambda>_. I)"
  by (fastforce simp: keeps_def triple_def split: prod.splits sum.splits)

lemma keeps_triple:
  assumes "triple I m (\<lambda>_. I) (\<lambda>_. I)"
  shows "keeps I m"
proof (rule keepsI)
  fix s assume "I s"
  with assms show "I (snd (m s))"
    by (cases "m s"; cases "fst (m s)") (auto dest: triple_Inr triple_Inl)
qed

lemma triple_get_bind: "(\<And>s. triple (\<lambda>t. t = s \<and> P s) (f s) Q E) \<Longrightarrow> triple P (bindM getM f) Q E"
  by (simp add: triple_def bindM_def comp_simps)

lemma triple_conj_keeps:
  "triple P m Q E \<Longrightarrow> keeps I m \<Longrightarrow> triple (\<lambda>s. P s \<and> I s) m (\<lambda>x s. Q x s \<and> I s) (\<lambda>e s. E e s \<and> I s)"
  by (fastforce simp: keeps_def triple_def split: prod.splits sum.splits)

lemma triple_False: "triple (\<lambda>_. False) m Q E"
  by (simp add: triple_def)

text \<open>The exceptions that can leave a computation.\<close>

definition throws_only :: "(exn \<Rightarrow> bool) \<Rightarrow> ('s, 'a) comp \<Rightarrow> bool" where
  "throws_only P m \<longleftrightarrow> (\<forall>s e s'. m s = (Inl e, s') \<longrightarrow> P e)"

named_theorems throws_rules "introduction rules for the exceptions of a computation"

lemma throws_onlyD: "throws_only P m \<Longrightarrow> m s = (Inl e, s') \<Longrightarrow> P e"
  by (auto simp: throws_only_def)

lemma throws_leaf [throws_rules]:
  "throws_only P (retM x)" "P e \<Longrightarrow> throws_only P (throwM e)" "throws_only P getM" "throws_only P (modM f)"
  by (simp_all add: throws_only_def comp_simps)

lemma throws_lift [throws_rules]: "(\<And>e. r = Inl e \<Longrightarrow> P e) \<Longrightarrow> throws_only P (liftR r)"
  by (simp add: throws_only_def comp_simps)

lemma throws_bind [throws_rules]:
  "throws_only P m \<Longrightarrow> (\<And>x. throws_only P (f x)) \<Longrightarrow> throws_only P (bindM m f)"
  by (fastforce simp: throws_only_def bindM_def split: prod.splits sum.splits)

lemma throws_catch: "(\<And>e. throws_only P (h e)) \<Longrightarrow> throws_only P (catchM m h)"
  by (fastforce simp: throws_only_def catchM_def split: prod.splits sum.splits)

lemma throws_catch_only:
  "throws_only R m \<Longrightarrow> (\<And>e. R e \<Longrightarrow> throws_only P (h e)) \<Longrightarrow> throws_only P (catchM m h)"
  by (fastforce simp: throws_only_def catchM_def split: prod.splits sum.splits)

lemma throws_if [throws_rules]:
  "(b \<Longrightarrow> throws_only P m) \<Longrightarrow> (\<not> b \<Longrightarrow> throws_only P n) \<Longrightarrow> throws_only P (if b then m else n)"
  by simp

lemma throws_option [throws_rules]:
  "throws_only P m \<Longrightarrow> (\<And>x. throws_only P (f x)) \<Longrightarrow> throws_only P (case v of None \<Rightarrow> m | Some x \<Rightarrow> f x)"
  by (simp split: option.splits)

lemma keeps_option [keeps_rules]:
  "keeps I m \<Longrightarrow> (\<And>x. keeps I (f x)) \<Longrightarrow> keeps I (case v of None \<Rightarrow> m | Some x \<Rightarrow> f x)"
  by (simp split: option.splits)

end
