(* ===== verification/Js_Number.thy ===== *)
theory Js_Number
  imports Prelude Complex_Main
begin

text \<open>
  JavaScript numbers and BigInt arithmetic, as far as the program uses them.

  A number is a rational or positive infinity.  The code keeps amounts in BigInt and
  converts only small ratios to a number, so a double is idealised as the rational it
  stands for; the comparisons made on these values are against whole thresholds,
  where rounding to the nearest double does not change the outcome.  BigInt division
  truncates towards zero and is the \<open>sdiv\<close> of the library.
\<close>

datatype jsnum = Num rat | Infty

definition jn_le :: "rat \<Rightarrow> jsnum \<Rightarrow> bool" where
  "jn_le t x = (case x of Num r \<Rightarrow> t \<le> r | Infty \<Rightarrow> True)"

definition jn_ge :: "rat \<Rightarrow> jsnum \<Rightarrow> bool" where
  "jn_ge t x = (case x of Num r \<Rightarrow> r \<le> t | Infty \<Rightarrow> False)"

definition jn_abs :: "jsnum \<Rightarrow> jsnum" where
  "jn_abs x = (case x of Num r \<Rightarrow> Num \<bar>r\<bar> | Infty \<Rightarrow> Infty)"

lemma jn_simps [simp]:
  "jn_le t (Num r) \<longleftrightarrow> t \<le> r" "jn_le t Infty"
  "jn_ge t (Num r) \<longleftrightarrow> r \<le> t" "\<not> jn_ge t Infty"
  "jn_abs (Num r) = Num \<bar>r\<bar>" "jn_abs Infty = Infty"
  by (simp_all add: jn_le_def jn_ge_def jn_abs_def)

definition pad_left :: "nat \<Rightarrow> jstr \<Rightarrow> jstr" where
  "pad_left k s = replicate (k - length s) 48 @ s"

lemma length_pad_left [simp]: "length (pad_left k s) = max k (length s)"
  by (simp add: pad_left_def)

lemma dec_val_zeros [simp]: "dec_val (replicate k 48 @ s) = dec_val s"
  by (induction k) (simp_all add: dec_val_Cons)

lemma dec_val_pad_left [simp]: "dec_val (pad_left k s) = dec_val s"
  by (simp add: pad_left_def)

lemma pad_left_digits: "\<forall>c \<in> set s. is_digit c \<Longrightarrow> \<forall>c \<in> set (pad_left k s). is_digit c"
  by (auto simp: pad_left_def is_digit_def)

text \<open>\<open>fixed_digits k m\<close> prints \<open>m / 10^k\<close> with \<open>k\<close> decimals.\<close>

definition fixed_digits :: "nat \<Rightarrow> nat \<Rightarrow> jstr" where
  "fixed_digits k m = show_nat (m div 10 ^ k) @ u ''.'' @ pad_left k (show_nat (m mod 10 ^ k))"

text \<open>\<open>toFixed(2)\<close> rounds half up on the magnitude; an infinity prints its name.  (Magnitudes
  of \<open>10^21\<close> and more, which print in exponent form, do not occur.)\<close>

definition to_fixed2 :: "jsnum \<Rightarrow> jstr" where
  "to_fixed2 x = (case x of
      Infty \<Rightarrow> u ''Infinity''
    | Num r \<Rightarrow> (if r < 0 then u ''-'' else []) @ fixed_digits 2 (nat \<lfloor>\<bar>r\<bar> * 100 + 1 / 2\<rfloor>))"

section \<open>Truncating division\<close>

lemma sdiv_nonneg: "0 \<le> x \<Longrightarrow> 0 < d \<Longrightarrow> (x::int) sdiv d = x div d"
  by (cases "x = 0") (simp_all add: signed_divide_int_def)

lemma sdiv_neg: "x < 0 \<Longrightarrow> 0 < d \<Longrightarrow> (x::int) sdiv d = - ((- x) div d)"
  by (simp add: signed_divide_int_def)

lemma le_zdiv_iff: "0 < d \<Longrightarrow> k \<le> (x::int) div d \<longleftrightarrow> k * d \<le> x"
proof
  assume d: "0 < d" and "k \<le> x div d"
  then have "k * d \<le> x div d * d" by simp
  also have "\<dots> \<le> x" using d by (simp add: minus_mod_eq_div_mult [symmetric])
  finally show "k * d \<le> x" .
next
  assume d: "0 < d" and "k * d \<le> x"
  then have "k * d div d \<le> x div d" by (intro zdiv_mono1)
  with d show "k \<le> x div d" by simp
qed

lemma le_sdiv_iff:
  assumes "0 < d" "1 \<le> k"
  shows "k \<le> (x::int) sdiv d \<longleftrightarrow> k * d \<le> x"
proof (cases "0 \<le> x")
  case True
  with assms show ?thesis
    by (simp add: sdiv_nonneg le_zdiv_iff)
next
  case False
  then have "0 \<le> (- x) div d"
    using assms by (subst pos_imp_zdiv_nonneg_iff) simp_all
  moreover have "x sdiv d = - ((- x) div d)" using False assms by (intro sdiv_neg) simp_all
  ultimately have "\<not> k \<le> x sdiv d" using assms by linarith
  moreover have "0 \<le> k * d" using assms by simp
  with False have "\<not> k * d \<le> x" by linarith
  ultimately show ?thesis by blast
qed

lemma sdiv_le_iff:
  assumes "0 < d" "1 \<le> k"
  shows "(x::int) sdiv d \<le> - k \<longleftrightarrow> x \<le> - (k * d)"
  using le_sdiv_iff [OF assms, of "- x"] assms
  by (cases "x = 0"; cases "x < 0") (auto simp: sdiv_neg sdiv_nonneg)

end
