(* ===== verification/Json.thy ===== *)
theory Json
  imports Js_Number
begin

text \<open>
  Values that cross an HTTP boundary are untyped in JavaScript: a TypeScript
  interface is erased, and a field that the server left out reads as \<open>undefined\<close>.
  \<open>json\<close> is such a value (\<open>JUndef\<close> only arises from reading a missing field), \<open>jprop\<close> is
  the property access \<open>v.key\<close>, \<open>jtruthy\<close> the test of an \<open>if\<close>, \<open>big_of_json\<close> is \<open>BigInt(v)\<close>.
  Numbers are integers here: the fields read as numbers are epochs and counters.
\<close>

datatype json =
    JUndef
  | JNull
  | JBool bool
  | JNum int
  | JStr jstr
  | JArr "json list"
  | JObj "(jstr \<times> json) list"

definition jlookup :: "(jstr \<times> json) list \<Rightarrow> jstr \<Rightarrow> json" where
  "jlookup kvs k = (case map_of kvs k of Some v \<Rightarrow> v | None \<Rightarrow> JUndef)"

definition jprop :: "json \<Rightarrow> string \<Rightarrow> json result" where
  "jprop v k = (case v of
      JUndef \<Rightarrow> Inl (js_error ''TypeError'' (u ''Cannot read properties of undefined''))
    | JNull \<Rightarrow> Inl (js_error ''TypeError'' (u ''Cannot read properties of null''))
    | JObj kvs \<Rightarrow> Inr (jlookup kvs (u k))
    | _ \<Rightarrow> Inr JUndef)"

definition jtruthy :: "json \<Rightarrow> bool" where
  "jtruthy v = (case v of
      JUndef \<Rightarrow> False | JNull \<Rightarrow> False | JBool b \<Rightarrow> b | JNum n \<Rightarrow> n \<noteq> 0 | JStr s \<Rightarrow> s \<noteq> [] | _ \<Rightarrow> True)"

fun join :: "jstr \<Rightarrow> jstr list \<Rightarrow> jstr" where
  "join sep [] = []" |
  "join sep [x] = x" |
  "join sep (x # y # r) = x @ sep @ join sep (y # r)"

text \<open>The string conversion of a value; inside an array \<open>null\<close> and \<open>undefined\<close> print nothing.\<close>

fun json_to_string :: "json \<Rightarrow> jstr" where
  "json_to_string JUndef = u ''undefined''" |
  "json_to_string JNull = u ''null''" |
  "json_to_string (JBool b) = (if b then u ''true'' else u ''false'')" |
  "json_to_string (JNum n) = show_int n" |
  "json_to_string (JStr s) = s" |
  "json_to_string (JArr vs) =
     join (u '','') (List.map (\<lambda>v. case v of JUndef \<Rightarrow> [] | JNull \<Rightarrow> [] | _ \<Rightarrow> json_to_string v) vs)" |
  "json_to_string (JObj kvs) = u ''[object Object]''"

definition big_of_json :: "json \<Rightarrow> int result" where
  "big_of_json v = (case v of
      JUndef \<Rightarrow> Inl (js_error ''TypeError'' (u ''Cannot convert undefined to a BigInt''))
    | JNull \<Rightarrow> Inl (js_error ''TypeError'' (u ''Cannot convert null to a BigInt''))
    | JBool b \<Rightarrow> Inr (if b then 1 else 0)
    | JNum n \<Rightarrow> Inr n
    | _ \<Rightarrow> bigint_of (json_to_string v))"

named_theorems json_simps "reading untyped values"

lemma jprop_simps [simp, json_simps]:
  "jprop (JObj kvs) k = Inr (jlookup kvs (u k))"
  "jprop JUndef k = Inl (js_error ''TypeError'' (u ''Cannot read properties of undefined''))"
  "jprop JNull k = Inl (js_error ''TypeError'' (u ''Cannot read properties of null''))"
  by (simp_all add: jprop_def)

lemma jlookup_simps [simp, json_simps]:
  "jlookup [] k = JUndef"
  "jlookup ((k, v) # r) k' = (if k = k' then v else jlookup r k')"
  by (simp_all add: jlookup_def)

lemma big_of_json_simps [simp, json_simps]:
  "big_of_json (JStr s) = bigint_of s" "big_of_json (JNum n) = Inr n"
  by (simp_all add: big_of_json_def)

lemma jtruthy_simps [simp, json_simps]:
  "jtruthy (JBool b) = b" "jtruthy (JStr s) \<longleftrightarrow> s \<noteq> []" "\<not> jtruthy JUndef" "\<not> jtruthy JNull"
  "jtruthy (JObj kvs)" "jtruthy (JArr vs)" "jtruthy (JNum n) \<longleftrightarrow> n \<noteq> 0"
  by (simp_all add: jtruthy_def)

definition is_type_error :: "exn \<Rightarrow> bool" where
  "is_type_error e \<longleftrightarrow> exn_name e = u ''TypeError''"

lemma js_type_error [simp]: "is_type_error (js_error ''TypeError'' m)"
  by (simp add: is_type_error_def js_error_def)

lemma jprop_error: "jprop v k = Inl e \<Longrightarrow> is_type_error e"
  by (auto simp: jprop_def split: json.splits)

section \<open>encodeURIComponent\<close>

text \<open>Unreserved characters pass through, everything else is UTF-8 encoded and
  percent-escaped; an unpaired surrogate throws a \<open>URIError\<close>.\<close>

definition uri_unreserved :: "nat \<Rightarrow> bool" where
  "uri_unreserved c \<longleftrightarrow> is_digit c \<or> (65 \<le> c \<and> c \<le> 90) \<or> (97 \<le> c \<and> c \<le> 122)
     \<or> c \<in> {33, 39, 40, 41, 42, 45, 46, 95, 126}"

definition hex_upper :: "nat \<Rightarrow> nat" where
  "hex_upper d = (if d < 10 then 48 + d else 55 + d)"

definition pct_byte :: "nat \<Rightarrow> jstr" where
  "pct_byte b = [37, hex_upper (b div 16 mod 16), hex_upper (b mod 16)]"

definition utf8_bytes :: "nat \<Rightarrow> nat list" where
  "utf8_bytes p =
     (if p < 0x80 then [p]
      else if p < 0x800 then [0xC0 + p div 64, 0x80 + p mod 64]
      else if p < 0x10000 then [0xE0 + p div 4096, 0x80 + p div 64 mod 64, 0x80 + p mod 64]
      else [0xF0 + p div 262144, 0x80 + p div 4096 mod 64, 0x80 + p div 64 mod 64, 0x80 + p mod 64])"

definition pct_point :: "nat \<Rightarrow> jstr" where
  "pct_point p = concat (List.map pct_byte (utf8_bytes p))"

definition uri_error :: exn where
  "uri_error = js_error ''URIError'' (u ''URI malformed'')"

fun encodeURIComponent :: "jstr \<Rightarrow> jstr result" where
  "encodeURIComponent [] = Inr []" |
  "encodeURIComponent (c # cs) =
     (if uri_unreserved c then bindR (encodeURIComponent cs) (\<lambda>r. Inr (c # r))
      else if 0xDC00 \<le> c \<and> c \<le> 0xDFFF then Inl uri_error
      else if 0xD800 \<le> c \<and> c \<le> 0xDBFF then
        (case cs of
           [] \<Rightarrow> Inl uri_error
         | d # ds \<Rightarrow>
             if 0xDC00 \<le> d \<and> d \<le> 0xDFFF then
               bindR (encodeURIComponent ds) (\<lambda>r.
                 Inr (pct_point ((c - 0xD800) * 0x400 + (d - 0xDC00) + 0x10000) @ r))
             else Inl uri_error)
      else bindR (encodeURIComponent cs) (\<lambda>r. Inr (pct_point c @ r)))"

definition path_safe :: "jstr \<Rightarrow> bool" where
  "path_safe s \<longleftrightarrow> (\<forall>c \<in> set s. uri_unreserved c \<or> c = 37)"

lemma pct_byte_safe: "path_safe (pct_byte b)"
proof -
  have "uri_unreserved (hex_upper (n mod 16))" for n
  proof -
    have "n mod 16 < 16" by simp
    then show ?thesis by (auto simp: hex_upper_def uri_unreserved_def is_digit_def)
  qed
  then show ?thesis by (simp add: path_safe_def pct_byte_def)
qed

lemma path_safe_simps [simp]:
  "path_safe []" "path_safe (c # s) \<longleftrightarrow> (uri_unreserved c \<or> c = 37) \<and> path_safe s"
  "path_safe (s @ t) \<longleftrightarrow> path_safe s \<and> path_safe t"
  by (auto simp: path_safe_def)

lemma pct_point_safe: "path_safe (pct_point p)"
  using pct_byte_safe by (auto simp: pct_point_def path_safe_def)

lemma encodeURIComponent_safe: "encodeURIComponent s = Inr t \<Longrightarrow> path_safe t"
  by (induction s arbitrary: t rule: encodeURIComponent.induct)
    (auto simp: result_simps pct_point_safe split: if_splits list.splits)

lemma path_safe_no_delim: "path_safe s \<Longrightarrow> set s \<inter> {35, 38, 47, 61, 63} = {}"
  by (auto simp: path_safe_def uri_unreserved_def is_digit_def)

lemma encodeURIComponent_plain: "\<forall>c \<in> set s. uri_unreserved c \<Longrightarrow> encodeURIComponent s = Inr s"
  by (induction s) auto

lemma encodeURIComponent_error: "encodeURIComponent s = Inl e \<Longrightarrow> e = uri_error"
  by (induction s rule: encodeURIComponent.induct)
    (auto simp: result_simps split: if_splits list.splits)

end
