(* ===== verification/Network.thy ===== *)
theory Network
  imports Effects Json
begin

text \<open>
  The outside world of the TypeScript services: every request is appended to a log
  and answered by a parameter, a function of the whole log, so nothing is assumed
  of the servers (they may answer the same request differently each time).  A
  failed \<open>fetch\<close> is a thrown value; a response has a status and bodies whose reading may
  throw as well.
\<close>

record http_request =
  rq_method :: jstr
  rq_url :: jstr
  rq_headers :: "(jstr \<times> jstr) list"
  rq_body :: "json option"

record response =
  rs_status :: int
  rs_text :: "jstr result"
  rs_json :: "json result"

definition res_ok :: "response \<Rightarrow> bool" where
  "res_ok r \<longleftrightarrow> 200 \<le> rs_status r \<and> rs_status r \<le> 299"

text \<open>\<open>'c\<close> is the type of other calls that leave the process, such as contract reads.\<close>

datatype 'c event = Http http_request | Call 'c

record 'c world =
  w_log :: "'c event list"

type_synonym 'c http_net = "'c event list \<Rightarrow> http_request \<Rightarrow> response result"

definition logM :: "'c event \<Rightarrow> (('c, 'z) world_scheme, unit) comp" where
  "logM e = modM (\<lambda>s. s\<lparr>w_log := w_log s @ [e]\<rparr>)"

definition fetchM :: "'c http_net \<Rightarrow> http_request \<Rightarrow> (('c, 'z) world_scheme, response) comp" where
  "fetchM net rq = bindM getM (\<lambda>s. bindM (logM (Http rq)) (\<lambda>_. liftR (net (w_log s) rq)))"

lemma fetchM_eval [comp_simps]:
  "fetchM net rq s = (net (w_log s) rq, s\<lparr>w_log := w_log s @ [Http rq]\<rparr>)"
  by (simp add: fetchM_def logM_def bindM_def comp_eval)

lemma keeps_fetch [keeps_rules]:
  "(\<And>s. I s \<Longrightarrow> I (s\<lparr>w_log := w_log s @ [Http rq]\<rparr>)) \<Longrightarrow> keeps I (fetchM net rq)"
  by (simp add: keeps_def comp_simps)

text \<open>Every event of the log satisfies \<open>P\<close>.\<close>

definition log_all :: "('c event \<Rightarrow> bool) \<Rightarrow> ('c, 'z) world_scheme \<Rightarrow> bool" where
  "log_all P s \<longleftrightarrow> (\<forall>e \<in> set (w_log s). P e)"

lemma log_all_snoc [simp]: "log_all P (s\<lparr>w_log := w_log s @ [e]\<rparr>) \<longleftrightarrow> log_all P s \<and> P e"
  by (auto simp: log_all_def)

lemma keeps_fetch_log [keeps_rules]: "P (Http rq) \<Longrightarrow> keeps (log_all P) (fetchM net rq)"
  by (rule keeps_fetch) simp

end
