(* ===== verification/Shared_Types.thy ===== *)
theory Shared_Types
  imports Json
begin

text \<open>
  The data the SDK, the oracle and the web applications exchange
  (packages/shared-types/src/proof.ts, merkle.ts, solvency.ts).  Amounts are decimal
  strings of integer minor units, hashes are hex strings.  The fields of a
  \<open>SolvencyResult\<close> are copied unread from the orchestrator's answer, so they stay untyped
  values.
\<close>

record liability =
  lb_customerIdHash :: jstr
  lb_balance :: jstr

record reserve =
  rv_sourceId :: jstr
  rv_balance :: jstr

record public_inputs =
  pi_reservesTotal :: jstr
  pi_liabilitiesTotal :: jstr
  pi_rootHash :: jstr
  pi_prevReserves :: jstr

record proof_rec =
  pf_id :: jstr
  pf_proof :: jstr
  pf_publicInputs :: public_inputs
  pf_publishedAt :: int

datatype merkle_tree_node =
  MerkleTreeNode (mn_hash: jstr) (mn_sum: jstr) (mn_children: "merkle_tree_node list option")

datatype position = LeftSide | RightSide

record path_node =
  pn_hash :: jstr
  pn_sum :: jstr
  pn_position :: position

record inclusion_ref =
  ir_proofId :: jstr
  ir_customerIdHash :: jstr
  ir_balance :: jstr
  ir_path :: "path_node list"

datatype solvency_status = Solvent | Breach | Unknown

record solvency_result =
  sr_status :: solvency_status
  sr_solvent :: bool
  sr_reservesTotal :: json
  sr_liabilitiesTotal :: json
  sr_proofId :: json
  sr_verifiedOnChain :: bool
  sr_asOf :: json

record inclusion_result =
  ic_included :: bool
  ic_proofId :: jstr

end
