(* ===== verification/Bindings.thy ===== *)
theory Bindings
  imports Network Shared_Types
begin

text \<open>
  The wrapper around the generated Soroban client (packages/contract-bindings/src/index.ts).
  The generated client and the ledger are parameters: a \<open>soroban\<close> answers a contract
  read, or throws, as a function of everything asked before.  Buffers are lists of
  bytes; \<open>bufferToHex\<close> and \<open>hexToBuffer\<close> are Node's \<open>hex\<close> encoding, which stops at the first
  pair that is not hexadecimal.
\<close>

section \<open>Hexadecimal\<close>

definition hex_lower :: "nat \<Rightarrow> nat" where
  "hex_lower d = (if d < 10 then 48 + d else 87 + d)"

definition bufferToHex :: "nat list \<Rightarrow> jstr" where
  "bufferToHex bs = concat (List.map (\<lambda>b. [hex_lower (b div 16), hex_lower (b mod 16)]) bs)"

fun buffer_from_hex :: "jstr \<Rightarrow> nat list" where
  "buffer_from_hex (a # b # r) =
     (case (hex_digit_val a, hex_digit_val b) of
        (Some x, Some y) \<Rightarrow> (16 * x + y) # buffer_from_hex r
      | _ \<Rightarrow> [])" |
  "buffer_from_hex _ = []"

definition strip_0x :: "jstr \<Rightarrow> jstr" where
  "strip_0x s = (if take 2 s = u ''0x'' then drop 2 s else s)"

definition hexToBuffer :: "jstr \<Rightarrow> nat list" where
  "hexToBuffer s = buffer_from_hex (strip_0x s)"

definition bytes :: "nat list \<Rightarrow> bool" where
  "bytes bs \<longleftrightarrow> (\<forall>b \<in> set bs. b < 256)"

lemma bytes_simps [simp]: "bytes []" "bytes (b # bs) \<longleftrightarrow> b < 256 \<and> bytes bs"
  "bytes (xs @ ys) \<longleftrightarrow> bytes xs \<and> bytes ys"
  by (auto simp: bytes_def)

lemma hex_digit_val_lower [simp]: "d < 16 \<Longrightarrow> hex_digit_val (hex_lower d) = Some d"
  by (simp add: hex_digit_val_def hex_lower_def)

lemma buffer_from_hex_inverse: "bytes bs \<Longrightarrow> buffer_from_hex (bufferToHex bs) = bs"
  by (induction bs) (simp_all add: bufferToHex_def less_mult_imp_div_less)

lemma hex_digit_val_bound: "hex_digit_val c = Some d \<Longrightarrow> d < 16"
  by (auto simp: hex_digit_val_def split: if_splits)

lemma buffer_from_hex_bytes: "bytes (buffer_from_hex s)"
proof (induction s rule: buffer_from_hex.induct)
  case (1 a b r)
  show ?case
  proof (cases "hex_digit_val a"; cases "hex_digit_val b")
    fix x y assume xy: "hex_digit_val a = Some x" "hex_digit_val b = Some y"
    then have "x < 16" "y < 16" by (simp_all add: hex_digit_val_bound)
    with xy 1 show ?thesis by simp
  qed simp_all
qed simp_all

lemma hex_lower_not_x: "d < 16 \<Longrightarrow> hex_lower d \<noteq> 120"
  by (simp add: hex_lower_def)

lemma strip_0x_hex: "strip_0x (bufferToHex bs) = bufferToHex bs"
proof (cases bs)
  case (Cons b r)
  have "hex_lower (b mod 16) \<noteq> 120" by (rule hex_lower_not_x) simp
  with Cons show ?thesis by (simp add: bufferToHex_def strip_0x_def u_def)
qed (simp add: bufferToHex_def strip_0x_def)

lemma hexToBuffer_prefix: "hexToBuffer (u ''0x'' @ s) = buffer_from_hex s"
  by (simp add: hexToBuffer_def strip_0x_def u_def)

interpretation hex: codec bufferToHex "\<lambda>s. Some (hexToBuffer s)" bytes
  by unfold_locales (simp add: hexToBuffer_def strip_0x_hex buffer_from_hex_inverse)

section \<open>The generated client\<close>

record contract_options =
  co_contractId :: jstr
  co_rpcUrl :: jstr
  co_networkPassphrase :: jstr

record generated_proof_meta =
  gm_root_h :: "nat list"
  gm_r :: int
  gm_l :: int
  gm_timestamp :: int

record generated_path_node =
  gn_hash :: "nat list"
  gn_sibling_is_left :: bool
  gn_sum :: int

datatype chain_call =
    CallLatestProof
  | CallProof int
  | CallVerifyInclusion int "nat list" int "generated_path_node list"

type_synonym chain_read = "contract_options \<times> chain_call"

text \<open>The answers of the generated client with \<open>tx.result.unwrap()\<close>: a failing simulation, an
  unreachable RPC and an error result all throw.\<close>

record soroban =
  so_meta :: "chain_read event list \<Rightarrow> chain_read \<Rightarrow> generated_proof_meta result"
  so_bool :: "chain_read event list \<Rightarrow> chain_read \<Rightarrow> bool result"

definition call_meta ::
  "soroban \<Rightarrow> contract_options \<Rightarrow> chain_call \<Rightarrow> ((chain_read, 'z) world_scheme, generated_proof_meta) comp" where
  "call_meta ch opts c =
     bindM getM (\<lambda>s. bindM (logM (Call (opts, c))) (\<lambda>_. liftR (so_meta ch (w_log s) (opts, c))))"

definition call_bool ::
  "soroban \<Rightarrow> contract_options \<Rightarrow> chain_call \<Rightarrow> ((chain_read, 'z) world_scheme, bool) comp" where
  "call_bool ch opts c =
     bindM getM (\<lambda>s. bindM (logM (Call (opts, c))) (\<lambda>_. liftR (so_bool ch (w_log s) (opts, c))))"

lemma call_eval [comp_simps]:
  "call_meta ch opts c s = (so_meta ch (w_log s) (opts, c), s\<lparr>w_log := w_log s @ [Call (opts, c)]\<rparr>)"
  "call_bool ch opts c s = (so_bool ch (w_log s) (opts, c), s\<lparr>w_log := w_log s @ [Call (opts, c)]\<rparr>)"
  by (simp_all add: call_meta_def call_bool_def logM_def bindM_def comp_eval)

lemma keeps_call [keeps_rules]:
  "(\<And>s. I s \<Longrightarrow> I (s\<lparr>w_log := w_log s @ [Call (opts, c)]\<rparr>)) \<Longrightarrow> keeps I (call_meta ch opts c)"
  "(\<And>s. I s \<Longrightarrow> I (s\<lparr>w_log := w_log s @ [Call (opts, c)]\<rparr>)) \<Longrightarrow> keeps I (call_bool ch opts c)"
  by (simp_all add: keeps_def comp_simps)

section \<open>The wrapper\<close>

record proof_meta =
  pm_rootHash :: jstr
  pm_reservesTotal :: jstr
  pm_liabilitiesTotal :: jstr
  pm_timestamp :: int

definition toProofMeta :: "generated_proof_meta \<Rightarrow> proof_meta" where
  "toProofMeta m =
     \<lparr>pm_rootHash = bufferToHex (gm_root_h m),
      pm_reservesTotal = show_int (gm_r m),
      pm_liabilitiesTotal = show_int (gm_l m),
      pm_timestamp = gm_timestamp m\<rparr>"

text \<open>\<open>hexToBuffer\<close> on an untyped value: \<open>.replace\<close> exists on strings only.\<close>

definition hex_of_json :: "json \<Rightarrow> nat list result" where
  "hex_of_json v = (case v of
      JStr s \<Rightarrow> Inr (hexToBuffer s)
    | _ \<Rightarrow> Inl (js_error ''TypeError'' (u ''hex.replace is not a function'')))"

definition toContractPathNode :: "json \<Rightarrow> generated_path_node result" where
  "toContractPathNode node =
     bindR (jprop node ''hash'') (\<lambda>h. bindR (hex_of_json h) (\<lambda>hb.
     bindR (jprop node ''position'') (\<lambda>p.
     bindR (jprop node ''sum'') (\<lambda>s. bindR (big_of_json s) (\<lambda>n.
     Inr \<lparr>gn_hash = hb, gn_sibling_is_left = (p = JStr (u ''left'')), gn_sum = n\<rparr>)))))"

definition json_map :: "json \<Rightarrow> (json \<Rightarrow> 'a result) \<Rightarrow> 'a list result" where
  "json_map v f = (case v of
      JArr vs \<Rightarrow> mapR f vs
    | _ \<Rightarrow> Inl (js_error ''TypeError'' (u ''map is not a function'')))"

definition registry_getLatestProof ::
  "soroban \<Rightarrow> contract_options \<Rightarrow> ((chain_read, 'z) world_scheme, proof_meta) comp" where
  "registry_getLatestProof ch opts =
     bindM (call_meta ch opts CallLatestProof) (\<lambda>m. retM (toProofMeta m))"

definition registry_getProof ::
  "soroban \<Rightarrow> contract_options \<Rightarrow> jstr \<Rightarrow> ((chain_read, 'z) world_scheme, proof_meta) comp" where
  "registry_getProof ch opts i =
     bindM (liftR (bigint_of i)) (\<lambda>n.
     bindM (call_meta ch opts (CallProof n)) (\<lambda>m. retM (toProofMeta m)))"

definition inclusion_args :: "json \<Rightarrow> chain_call result" where
  "inclusion_args ref =
     bindR (jprop ref ''proofId'') (\<lambda>p. bindR (big_of_json p) (\<lambda>i.
     bindR (jprop ref ''customerIdHash'') (\<lambda>h. bindR (hex_of_json h) (\<lambda>hb.
     bindR (jprop ref ''balance'') (\<lambda>b. bindR (big_of_json b) (\<lambda>bal.
     bindR (jprop ref ''path'') (\<lambda>ps. bindR (json_map ps toContractPathNode) (\<lambda>path.
     Inr (CallVerifyInclusion i hb bal path)))))))))"

definition registry_verifyInclusion ::
  "soroban \<Rightarrow> contract_options \<Rightarrow> json \<Rightarrow> ((chain_read, 'z) world_scheme, bool) comp" where
  "registry_verifyInclusion ch opts ref =
     bindM (liftR (inclusion_args ref)) (\<lambda>c. call_bool ch opts c)"

end
