(* ===== verification/Sdk.thy ===== *)
theory Sdk
  imports Bindings
begin

text \<open>
  The client SDK (packages/sdk-ts/src): \<open>resolveConfig\<close> (config.ts), the error classes
  (errors.ts), \<open>OrchestratorClient\<close> (orchestrator-client.ts), \<open>ChainClient\<close>
  (chain-client.ts) and \<open>Solva\<close> (solva.ts).  An object's immutable fields are a record
  argument; the one mutable field, the cached chain client of \<open>Solva\<close>, lives in the
  state \<open>sdk\<close> beside the log of requests.
\<close>

section \<open>config.ts\<close>

datatype network = Testnet | Mainnet | Local

record network_config =
  nc_orchestratorUrl :: jstr
  nc_rpcUrl :: jstr
  nc_networkPassphrase :: jstr
  nc_contractId :: jstr

record partial_network_config =
  pc_orchestratorUrl :: "jstr option"
  pc_rpcUrl :: "jstr option"
  pc_networkPassphrase :: "jstr option"
  pc_contractId :: "jstr option"

record solva_config =
  sc_network :: network
  sc_tenant :: jstr
  sc_endpoints :: "partial_network_config option"
  sc_apiKey :: "jstr option"

record resolved_config =
  rc_tenant :: jstr
  rc_apiKey :: "jstr option"
  rc_endpoints :: network_config

definition PUBLIC_NETWORK :: jstr where
  "PUBLIC_NETWORK = u ''Public Global Stellar Network ; September 2015''"

definition TEST_NETWORK :: jstr where
  "TEST_NETWORK = u ''Test SDF Network ; September 2015''"

fun DEFAULTS :: "network \<Rightarrow> network_config" where
  "DEFAULTS Testnet =
     \<lparr>nc_orchestratorUrl = u ''https://api.testnet.solva.dev'', nc_rpcUrl = u ''https://soroban-testnet.stellar.org'',
      nc_networkPassphrase = TEST_NETWORK, nc_contractId = []\<rparr>" |
  "DEFAULTS Mainnet =
     \<lparr>nc_orchestratorUrl = u ''https://api.solva.dev'', nc_rpcUrl = u ''https://soroban.stellar.org'',
      nc_networkPassphrase = PUBLIC_NETWORK, nc_contractId = []\<rparr>" |
  "DEFAULTS Local =
     \<lparr>nc_orchestratorUrl = u ''http://localhost:8080'', nc_rpcUrl = u ''http://localhost:8000/rpc'',
      nc_networkPassphrase = TEST_NETWORK, nc_contractId = []\<rparr>"

definition override :: "'a \<Rightarrow> 'a option \<Rightarrow> 'a" where
  "override d x = (case x of Some v \<Rightarrow> v | None \<Rightarrow> d)"

definition resolveConfig :: "solva_config \<Rightarrow> resolved_config" where
  "resolveConfig config =
     (let base = DEFAULTS (sc_network config) in
      \<lparr>rc_tenant = sc_tenant config, rc_apiKey = sc_apiKey config,
       rc_endpoints = (case sc_endpoints config of
          None \<Rightarrow> base
        | Some e \<Rightarrow>
            \<lparr>nc_orchestratorUrl = override (nc_orchestratorUrl base) (pc_orchestratorUrl e),
             nc_rpcUrl = override (nc_rpcUrl base) (pc_rpcUrl e),
             nc_networkPassphrase = override (nc_networkPassphrase base) (pc_networkPassphrase e),
             nc_contractId = override (nc_contractId base) (pc_contractId e)\<rparr>)\<rparr>)"

section \<open>errors.ts\<close>

definition OrchestratorError :: "jstr \<Rightarrow> int \<Rightarrow> exn" where
  "OrchestratorError msg status = Exn (u ''OrchestratorError'') msg (Some status)"

definition ChainError :: "jstr \<Rightarrow> exn" where
  "ChainError msg = Exn (u ''ChainError'') msg None"

definition is_orchestrator_error :: "exn \<Rightarrow> bool" where
  "is_orchestrator_error e \<longleftrightarrow> exn_name e = u ''OrchestratorError''"

definition is_chain_error :: "exn \<Rightarrow> bool" where
  "is_chain_error e \<longleftrightarrow> exn_name e = u ''ChainError''"

lemma error_simps [simp]:
  "exn_status (OrchestratorError m s) = Some s" "is_orchestrator_error (OrchestratorError m s)"
  "is_chain_error (ChainError m)" "\<not> is_orchestrator_error (ChainError m)"
  "\<not> is_chain_error (OrchestratorError m s)"
  by (simp_all add: OrchestratorError_def ChainError_def is_orchestrator_error_def is_chain_error_def)

section \<open>orchestrator-client.ts\<close>

record orchestrator_client =
  oc_baseUrl :: jstr
  oc_tenant :: jstr
  oc_apiKey :: "jstr option"

definition request_headers :: "orchestrator_client \<Rightarrow> (jstr \<times> jstr) list" where
  "request_headers oc =
     [(u ''content-type'', u ''application/json''), (u ''x-solva-tenant'', oc_tenant oc)]
     @ (case oc_apiKey oc of
          Some k \<Rightarrow> if k \<noteq> [] then [(u ''authorization'', u ''Bearer '' @ k)] else []
        | None \<Rightarrow> [])"

type_synonym sdk_net = "chain_read http_net"

definition the_request :: "orchestrator_client \<Rightarrow> string \<Rightarrow> jstr \<Rightarrow> json option \<Rightarrow> http_request" where
  "the_request oc verb path body =
     \<lparr>rq_method = u verb, rq_url = oc_baseUrl oc @ path, rq_headers = request_headers oc, rq_body = body\<rparr>"

definition request ::
  "sdk_net \<Rightarrow> orchestrator_client \<Rightarrow> string \<Rightarrow> jstr \<Rightarrow> json option
    \<Rightarrow> ((chain_read, 'z) world_scheme, json) comp" where
  "request net oc verb path body =
     bindM (catchM (fetchM net (the_request oc verb path body))
              (\<lambda>cause. throwM (OrchestratorError (u ''request to '' @ path @ u '' failed'') 0)))
       (\<lambda>res.
          if \<not> res_ok res then
            bindM (catchM (liftR (rs_text res)) (\<lambda>_. retM []))
              (\<lambda>detail. throwM (OrchestratorError
                 (u verb @ u '' '' @ path @ u '' returned '' @ show_int (rs_status res) @ u '': '' @ detail)
                 (rs_status res)))
          else liftR (rs_json res))"

definition connectSource ::
  "sdk_net \<Rightarrow> orchestrator_client \<Rightarrow> json \<Rightarrow> ((chain_read, 'z) world_scheme, json) comp" where
  "connectSource net oc config =
     bindM (request net oc ''POST'' (u ''/v1/sources'') (Some config)) (\<lambda>body. liftR (jprop body ''id''))"

definition runProofCycle ::
  "sdk_net \<Rightarrow> orchestrator_client \<Rightarrow> ((chain_read, 'z) world_scheme, json) comp" where
  "runProofCycle net oc =
     bindM (request net oc ''POST'' (u ''/v1/cycles'') (Some (JObj []))) (\<lambda>body. liftR (jprop body ''id''))"

definition getLatestProof ::
  "sdk_net \<Rightarrow> orchestrator_client \<Rightarrow> ((chain_read, 'z) world_scheme, json) comp" where
  "getLatestProof net oc = request net oc ''GET'' (u ''/v1/proofs/latest'') None"

definition getProof ::
  "sdk_net \<Rightarrow> orchestrator_client \<Rightarrow> jstr \<Rightarrow> ((chain_read, 'z) world_scheme, json) comp" where
  "getProof net oc i =
     bindM (liftR (encodeURIComponent i)) (\<lambda>seg. request net oc ''GET'' (u ''/v1/proofs/'' @ seg) None)"

definition getTenantContract ::
  "sdk_net \<Rightarrow> orchestrator_client \<Rightarrow> ((chain_read, 'z) world_scheme, json \<times> json) comp" where
  "getTenantContract net oc =
     bindM (liftR (encodeURIComponent (oc_tenant oc))) (\<lambda>seg.
     bindM (request net oc ''GET'' (u ''/v1/tenants/'' @ seg @ u ''/contract'') None) (\<lambda>dto.
     bindM (liftR (jprop dto ''contract_id'')) (\<lambda>c.
     bindM (liftR (jprop dto ''network'')) (\<lambda>n. retM (c, n)))))"

definition map_path_node :: "json \<Rightarrow> json result" where
  "map_path_node node =
     bindR (jprop node ''hash'') (\<lambda>h. bindR (jprop node ''sum'') (\<lambda>s.
     bindR (jprop node ''sibling_is_left'') (\<lambda>l.
     Inr (JObj [(u ''hash'', h), (u ''sum'', s),
                (u ''position'', JStr (if jtruthy l then u ''left'' else u ''right''))]))))"

definition map_inclusion :: "json \<Rightarrow> json result" where
  "map_inclusion dto =
     bindR (jprop dto ''proof_id'') (\<lambda>i. bindR (jprop dto ''customer_id_hash'') (\<lambda>h.
     bindR (jprop dto ''balance'') (\<lambda>b. bindR (jprop dto ''path'') (\<lambda>p.
     bindR (json_map p map_path_node) (\<lambda>ns.
     Inr (JObj [(u ''proofId'', i), (u ''customerIdHash'', h), (u ''balance'', b), (u ''path'', JArr ns)]))))))"

definition getInclusionRef ::
  "sdk_net \<Rightarrow> orchestrator_client \<Rightarrow> jstr \<Rightarrow> ((chain_read, 'z) world_scheme, json) comp" where
  "getInclusionRef net oc ref =
     bindM (liftR (encodeURIComponent ref)) (\<lambda>seg.
     bindM (request net oc ''GET'' (u ''/v1/proofs/inclusion/'' @ seg) None) (\<lambda>dto.
     liftR (map_inclusion dto)))"

section \<open>chain-client.ts\<close>

text \<open>A \<open>ChainClient\<close> holds nothing but the options of its registry client.  The contract id comes
  from an untyped answer; only a string can be truthy here.\<close>

definition new_chain_client :: "network_config \<Rightarrow> json \<Rightarrow> contract_options result" where
  "new_chain_client endpoints contractId =
     (if \<not> jtruthy contractId then Inl (ChainError (u ''no contractId configured for chain reads''))
      else Inr \<lparr>co_contractId = json_to_string contractId, co_rpcUrl = nc_rpcUrl endpoints,
                co_networkPassphrase = nc_networkPassphrase endpoints\<rparr>)"

definition chain_verifyInclusion ::
  "soroban \<Rightarrow> contract_options \<Rightarrow> json \<Rightarrow> ((chain_read, 'z) world_scheme, bool \<times> json) comp" where
  "chain_verifyInclusion ch opts ref =
     catchM (bindM (registry_verifyInclusion ch opts ref) (\<lambda>included.
             bindM (liftR (jprop ref ''proofId'')) (\<lambda>i. retM (included, i))))
       (\<lambda>cause. throwM (ChainError (u ''verify_inclusion call failed'')))"

definition chain_getLatestProof ::
  "soroban \<Rightarrow> contract_options \<Rightarrow> ((chain_read, 'z) world_scheme, proof_meta) comp" where
  "chain_getLatestProof ch opts =
     catchM (registry_getLatestProof ch opts)
       (\<lambda>cause. throwM (ChainError (u ''get_latest_proof call failed'')))"

section \<open>solva.ts\<close>

record solva =
  sv_orchestrator :: orchestrator_client
  sv_endpoints :: network_config

record sdk = "chain_read world" +
  so_chain :: "contract_options option"

definition new_solva :: "solva_config \<Rightarrow> solva" where
  "new_solva config =
     (let resolved = resolveConfig config in
      \<lparr>sv_orchestrator =
         \<lparr>oc_baseUrl = nc_orchestratorUrl (rc_endpoints resolved), oc_tenant = rc_tenant resolved,
          oc_apiKey = rc_apiKey resolved\<rparr>,
       sv_endpoints = rc_endpoints resolved\<rparr>)"

definition resolveChain :: "sdk_net \<Rightarrow> solva \<Rightarrow> (sdk, contract_options) comp" where
  "resolveChain net sv =
     bindM getM (\<lambda>s. case so_chain s of
        Some c \<Rightarrow> retM c
      | None \<Rightarrow>
          bindM (if nc_contractId (sv_endpoints sv) = [] then
                   bindM (getTenantContract net (sv_orchestrator sv)) (\<lambda>(c, n). retM c)
                 else retM (JStr (nc_contractId (sv_endpoints sv)))) (\<lambda>contractId.
          bindM (liftR (new_chain_client (sv_endpoints sv) contractId)) (\<lambda>c.
          bindM (modM (\<lambda>s. s\<lparr>so_chain := Some c\<rparr>)) (\<lambda>_. retM c))))"

definition getOnChainLatestProof :: "sdk_net \<Rightarrow> soroban \<Rightarrow> solva \<Rightarrow> (sdk, proof_meta) comp" where
  "getOnChainLatestProof net ch sv = bindM (resolveChain net sv) (\<lambda>c. chain_getLatestProof ch c)"

definition verifyInclusion :: "sdk_net \<Rightarrow> soroban \<Rightarrow> solva \<Rightarrow> json \<Rightarrow> (sdk, bool \<times> json) comp" where
  "verifyInclusion net ch sv ref =
     bindM (case ref of JStr r \<Rightarrow> getInclusionRef net (sv_orchestrator sv) r | _ \<Rightarrow> retM ref) (\<lambda>resolved.
     bindM (resolveChain net sv) (\<lambda>c. chain_verifyInclusion ch c resolved))"

text \<open>The public operations of a \<open>Solva\<close> object, and a program that calls them one after the other.\<close>

datatype sdk_op =
    OpConnectSource json
  | OpRunProofCycle
  | OpGetLatestProof
  | OpGetProof jstr
  | OpGetOnChainLatestProof
  | OpVerifyInclusion json

definition discard :: "('s, 'a) comp \<Rightarrow> ('s, unit) comp" where
  "discard m = bindM m (\<lambda>_. retM ())"

fun sdk_call :: "sdk_net \<Rightarrow> soroban \<Rightarrow> solva \<Rightarrow> sdk_op \<Rightarrow> (sdk, unit) comp" where
  "sdk_call net ch sv (OpConnectSource c) = discard (connectSource net (sv_orchestrator sv) c)" |
  "sdk_call net ch sv OpRunProofCycle = discard (runProofCycle net (sv_orchestrator sv))" |
  "sdk_call net ch sv OpGetLatestProof = discard (getLatestProof net (sv_orchestrator sv))" |
  "sdk_call net ch sv (OpGetProof i) = discard (getProof net (sv_orchestrator sv) i)" |
  "sdk_call net ch sv OpGetOnChainLatestProof = discard (getOnChainLatestProof net ch sv)" |
  "sdk_call net ch sv (OpVerifyInclusion r) = discard (verifyInclusion net ch sv r)"

fun sdk_run :: "sdk_net \<Rightarrow> soroban \<Rightarrow> solva \<Rightarrow> sdk_op list \<Rightarrow> sdk \<Rightarrow> sdk" where
  "sdk_run net ch sv [] s = s" |
  "sdk_run net ch sv (op # ops) s = sdk_run net ch sv ops (snd (sdk_call net ch sv op s))"

definition sdk_init :: sdk where
  "sdk_init = \<lparr>w_log = [], so_chain = None\<rparr>"

section \<open>Evaluation\<close>

lemma request_eval [comp_simps]:
  "request net oc verb path body s =
     ((case net (w_log s) (the_request oc verb path body) of
         Inl _ \<Rightarrow> Inl (OrchestratorError (u ''request to '' @ path @ u '' failed'') 0)
       | Inr res \<Rightarrow>
           if res_ok res then rs_json res
           else Inl (OrchestratorError
                  (u verb @ u '' '' @ path @ u '' returned '' @ show_int (rs_status res) @ u '': ''
                   @ (case rs_text res of Inr t \<Rightarrow> t | Inl _ \<Rightarrow> [])) (rs_status res))),
      s\<lparr>w_log := w_log s @ [Http (the_request oc verb path body)]\<rparr>)"
  by (simp add: request_def bindM_def catchM_def comp_simps split: sum.splits)

section \<open>Which errors leave the SDK\<close>

text \<open>The error of one request, as the server or the network caused it.\<close>

definition request_error :: "sdk_net \<Rightarrow> exn \<Rightarrow> bool" where
  "request_error net e \<longleftrightarrow> (\<exists>log rq. case net log rq of
      Inl _ \<Rightarrow> is_orchestrator_error e \<and> exn_status e = Some 0
    | Inr res \<Rightarrow> if res_ok res then rs_json res = Inl e
                else is_orchestrator_error e \<and> exn_status e = Some (rs_status res))"

definition sdk_error :: "sdk_net \<Rightarrow> exn \<Rightarrow> bool" where
  "sdk_error net e \<longleftrightarrow> request_error net e \<or> is_chain_error e \<or> is_type_error e \<or> e = uri_error"

lemma request_throws: "throws_only (request_error net) (request net oc verb path body)"
proof -
  have "request_error net e" if "request net oc verb path body s = (Inl e, s')" for s e s'
    unfolding request_error_def
    by (rule exI [of _ "w_log s"], rule exI [of _ "the_request oc verb path body"])
      (use that in \<open>auto simp: comp_simps split: sum.splits if_splits\<close>)
  then show ?thesis by (auto simp: throws_only_def)
qed

lemma throws_only_mono: "throws_only P m \<Longrightarrow> (\<And>e. P e \<Longrightarrow> Q e) \<Longrightarrow> throws_only Q m"
  by (auto simp: throws_only_def)

lemma throws_request [throws_rules]: "throws_only (sdk_error net) (request net oc verb path body)"
  by (rule throws_only_mono [OF request_throws]) (simp add: sdk_error_def)

lemma json_map_error: "json_map v f = Inl e \<Longrightarrow> (\<And>x. f x = Inl e \<Longrightarrow> is_type_error e) \<Longrightarrow> is_type_error e"
proof -
  assume *: "json_map v f = Inl e" "\<And>x. f x = Inl e \<Longrightarrow> is_type_error e"
  have "mapR f vs = Inl e \<Longrightarrow> is_type_error e" for vs
    using *(2) by (induction vs) (auto simp: result_simps)
  with * show ?thesis by (auto simp: json_map_def split: json.splits)
qed

lemma map_inclusion_error: "map_inclusion dto = Inl e \<Longrightarrow> is_type_error e"
proof -
  have "map_path_node n = Inl e \<Longrightarrow> is_type_error e" for n
    by (auto simp: map_path_node_def result_simps dest: jprop_error)
  then show "map_inclusion dto = Inl e \<Longrightarrow> is_type_error e"
    by (auto simp: map_inclusion_def result_simps dest: jprop_error json_map_error)
qed

lemma sdk_error_intros:
  "is_type_error e \<Longrightarrow> sdk_error net e" "encodeURIComponent s = Inl e \<Longrightarrow> sdk_error net e"
  "is_chain_error e \<Longrightarrow> sdk_error net e"
  by (auto simp: sdk_error_def dest: encodeURIComponent_error)

lemmas sdk_error_leaf = sdk_error_intros jprop_error map_inclusion_error

lemma throws_chain [throws_rules]:
  "throws_only (sdk_error net) (chain_verifyInclusion ch c r)"
  "throws_only (sdk_error net) (chain_getLatestProof ch c)"
  unfolding chain_verifyInclusion_def chain_getLatestProof_def
  by (intro throws_catch throws_leaf sdk_error_intros(3); simp)+

lemma throws_tenant_contract [throws_rules]: "throws_only (sdk_error net) (getTenantContract net oc)"
  unfolding getTenantContract_def by (intro throws_rules) (auto intro: sdk_error_leaf)

lemma throws_resolveChain [throws_rules]: "throws_only (sdk_error net) (resolveChain net sv)"
  unfolding resolveChain_def
  by (intro throws_rules) (auto simp: new_chain_client_def intro!: throws_rules intro: sdk_error_leaf split: if_splits)

lemma throws_inclusion_ref [throws_rules]: "throws_only (sdk_error net) (getInclusionRef net oc r)"
  unfolding getInclusionRef_def by (intro throws_rules) (auto intro: sdk_error_leaf)

lemma sdk_call_throws: "throws_only (sdk_error net) (sdk_call net ch sv op)"
  by (cases op)
    (auto simp: discard_def connectSource_def runProofCycle_def getLatestProof_def getProof_def
      getOnChainLatestProof_def verifyInclusion_def intro!: throws_rules intro: sdk_error_leaf split: json.splits)

text \<open>C2: Every exception a public operation of the SDK can throw is accounted for.  It is a
  \<open>ChainError\<close>; or the \<open>OrchestratorError\<close> of a failed request, with status 0 for a network
  failure and the server's own status for an answer outside 200..299; or it escapes
  untyped: the rejection of \<open>res.json()\<close> on a 2xx answer, a \<open>TypeError\<close> from an answer
  without the expected shape, a \<open>URIError\<close> from a malformed identifier.\<close>

theorem sdk_errors_classified:
  "sdk_call net ch sv op s = (Inl e, s') \<Longrightarrow>
     is_chain_error e
     \<or> (\<exists>log rq. case net log rq of
          Inl _ \<Rightarrow> is_orchestrator_error e \<and> exn_status e = Some 0
        | Inr res \<Rightarrow> if res_ok res then rs_json res = Inl e
                    else is_orchestrator_error e \<and> exn_status e = Some (rs_status res))
     \<or> is_type_error e \<or> e = uri_error"
  using throws_onlyD [OF sdk_call_throws] unfolding sdk_error_def request_error_def by blast

section \<open>Requests and chain reads of one Solva object\<close>

text \<open>Where a contract id may come from: the configuration, or the orchestrator's own answer to
  the contract lookup of this object's tenant.\<close>

definition tenant_contract_request :: "orchestrator_client \<Rightarrow> jstr \<Rightarrow> http_request" where
  "tenant_contract_request oc seg =
     the_request oc ''GET'' (u ''/v1/tenants/'' @ seg @ u ''/contract'') None"

definition contract_source :: "sdk_net \<Rightarrow> solva \<Rightarrow> jstr \<Rightarrow> bool" where
  "contract_source net sv i \<longleftrightarrow>
     (if nc_contractId (sv_endpoints sv) \<noteq> [] then i = nc_contractId (sv_endpoints sv)
      else \<exists>log seg res dto v. encodeURIComponent (oc_tenant (sv_orchestrator sv)) = Inr seg
         \<and> net log (tenant_contract_request (sv_orchestrator sv) seg) = Inr res \<and> res_ok res
         \<and> rs_json res = Inr dto \<and> jprop dto ''contract_id'' = Inr v
         \<and> jtruthy v \<and> i = json_to_string v)"

definition own_options :: "sdk_net \<Rightarrow> solva \<Rightarrow> contract_options \<Rightarrow> bool" where
  "own_options net sv o' \<longleftrightarrow>
     co_rpcUrl o' = nc_rpcUrl (sv_endpoints sv)
     \<and> co_networkPassphrase o' = nc_networkPassphrase (sv_endpoints sv)
     \<and> contract_source net sv (co_contractId o')"

definition own_request :: "solva \<Rightarrow> http_request \<Rightarrow> bool" where
  "own_request sv rq \<longleftrightarrow>
     (\<exists>path. rq_url rq = oc_baseUrl (sv_orchestrator sv) @ path)
     \<and> map_of (rq_headers rq) (u ''x-solva-tenant'') = Some (oc_tenant (sv_orchestrator sv))
     \<and> map_of (rq_headers rq) (u ''authorization'') =
         (case oc_apiKey (sv_orchestrator sv) of
            Some k \<Rightarrow> if k = [] then None else Some (u ''Bearer '' @ k)
          | None \<Rightarrow> None)"

definition sdk_event :: "sdk_net \<Rightarrow> solva \<Rightarrow> contract_options option \<Rightarrow> chain_read event \<Rightarrow> bool" where
  "sdk_event net sv cached e = (case e of
      Http rq \<Rightarrow> own_request sv rq
    | Call rd \<Rightarrow> cached = Some (fst rd) \<and> own_options net sv (fst rd))"

definition sdk_inv :: "sdk_net \<Rightarrow> solva \<Rightarrow> sdk \<Rightarrow> bool" where
  "sdk_inv net sv s \<longleftrightarrow> log_all (sdk_event net sv (so_chain s)) s
     \<and> (\<forall>c. so_chain s = Some c \<longrightarrow> own_options net sv c)"

lemma own_the_request [simp]: "own_request sv (the_request (sv_orchestrator sv) verb path body)"
  by (auto simp: own_request_def the_request_def request_headers_def split: option.splits)

lemma sdk_inv_http [simp]:
  "sdk_inv net sv s \<Longrightarrow> own_request sv rq \<Longrightarrow> sdk_inv net sv (s\<lparr>w_log := w_log s @ [Http rq]\<rparr>)"
  by (auto simp: sdk_inv_def log_all_def sdk_event_def)

lemma sdk_inv_call:
  "sdk_inv net sv s \<Longrightarrow> so_chain s = Some c \<Longrightarrow> sdk_inv net sv (s\<lparr>w_log := w_log s @ [Call (c, k)]\<rparr>)"
  by (auto simp: sdk_inv_def log_all_def sdk_event_def)

lemma keeps_request [keeps_rules]:
  "(\<And>s. I s \<Longrightarrow> I (s\<lparr>w_log := w_log s @ [Http (the_request oc verb path body)]\<rparr>))
    \<Longrightarrow> keeps I (request net oc verb path body)"
  by (simp add: keeps_def comp_simps)

lemma keeps_tenant_contract:
  "(\<And>s rq. I s \<Longrightarrow> own_request sv rq \<Longrightarrow> I (s\<lparr>w_log := w_log s @ [Http rq]\<rparr>))
    \<Longrightarrow> keeps I (getTenantContract net (sv_orchestrator sv))"
  unfolding getTenantContract_def by (intro keeps_rules) simp_all

lemma keeps_chain_calls:
  "keeps (\<lambda>s. sdk_inv net sv s \<and> so_chain s = Some c) (chain_getLatestProof ch c)"
  "keeps (\<lambda>s. sdk_inv net sv s \<and> so_chain s = Some c) (chain_verifyInclusion ch c r)"
  unfolding chain_getLatestProof_def chain_verifyInclusion_def registry_getLatestProof_def
    registry_verifyInclusion_def
  by (intro keeps_rules; simp add: sdk_inv_call)+

lemma tenant_contract_triple:
  "triple (\<lambda>s. sdk_inv net sv s \<and> so_chain s = None) (getTenantContract net (sv_orchestrator sv))
     (\<lambda>(c, n) s. sdk_inv net sv s \<and> so_chain s = None
        \<and> (nc_contractId (sv_endpoints sv) = [] \<longrightarrow> jtruthy c \<longrightarrow> contract_source net sv (json_to_string c)))
     (\<lambda>_. sdk_inv net sv)"
  by (auto simp: triple_def getTenantContract_def bindM_def comp_simps tenant_contract_request_def
      contract_source_def split: sum.splits if_splits)

lemma cache_triple:
  assumes "nc_contractId (sv_endpoints sv) = [] \<Longrightarrow> jtruthy v \<Longrightarrow> contract_source net sv (json_to_string v)"
    "nc_contractId (sv_endpoints sv) \<noteq> [] \<Longrightarrow> v = JStr (nc_contractId (sv_endpoints sv))"
  shows "triple (\<lambda>s. sdk_inv net sv s \<and> so_chain s = None)
     (bindM (liftR (new_chain_client (sv_endpoints sv) v)) (\<lambda>c. bindM (modM (\<lambda>s. s\<lparr>so_chain := Some c\<rparr>)) (\<lambda>_. retM c)))
     (\<lambda>c s. sdk_inv net sv s \<and> so_chain s = Some c) (\<lambda>_. sdk_inv net sv)"
proof -
  have src: "contract_source net sv (json_to_string v)" if "jtruthy v"
    using assms that by (cases "nc_contractId (sv_endpoints sv) = []") (auto simp: contract_source_def)
  have no_calls: "log_all (sdk_event net sv (Some c)) (s\<lparr>so_chain := x\<rparr>)"
    if "log_all (sdk_event net sv None) s" for c s x
    using that by (fastforce simp: log_all_def sdk_event_def split: event.splits)
  show ?thesis
    unfolding new_chain_client_def
    by (auto simp: triple_def comp_simps sdk_inv_def own_options_def src no_calls)
qed

lemma resolveChain_triple:
  "triple (sdk_inv net sv) (resolveChain net sv)
     (\<lambda>c s. sdk_inv net sv s \<and> so_chain s = Some c) (\<lambda>_. sdk_inv net sv)"
  unfolding resolveChain_def
proof (rule triple_get_bind)
  fix s0 :: sdk
  let ?ep = "sv_endpoints sv"
  have fresh: "triple (\<lambda>s. sdk_inv net sv s \<and> so_chain s = None)
     (bindM (if nc_contractId ?ep = [] then bindM (getTenantContract net (sv_orchestrator sv)) (\<lambda>(c, n). retM c)
             else retM (JStr (nc_contractId ?ep))) (\<lambda>v.
        bindM (liftR (new_chain_client ?ep v)) (\<lambda>c. bindM (modM (\<lambda>s. s\<lparr>so_chain := Some c\<rparr>)) (\<lambda>_. retM c))))
     (\<lambda>c s. sdk_inv net sv s \<and> so_chain s = Some c) (\<lambda>_. sdk_inv net sv)"
  proof (cases "nc_contractId ?ep = []")
    case True
    have "triple (\<lambda>s. (sdk_inv net sv s \<and> so_chain s = None)
        \<and> (jtruthy c \<longrightarrow> contract_source net sv (json_to_string c)))
      (bindM (liftR (new_chain_client ?ep c)) (\<lambda>c. bindM (modM (\<lambda>s. s\<lparr>so_chain := Some c\<rparr>)) (\<lambda>_. retM c)))
      (\<lambda>c s. sdk_inv net sv s \<and> so_chain s = Some c) (\<lambda>_. sdk_inv net sv)" for c
    proof (cases "jtruthy c \<longrightarrow> contract_source net sv (json_to_string c)")
      case True
      then show ?thesis
        using cache_triple [of sv c net] \<open>nc_contractId ?ep = []\<close> by simp
    next
      case False
      then show ?thesis unfolding triple_def by blast
    qed
    moreover have "triple (\<lambda>s. sdk_inv net sv s \<and> so_chain s = None)
       (bindM (getTenantContract net (sv_orchestrator sv)) (\<lambda>(c, n). retM c))
       (\<lambda>c s. (sdk_inv net sv s \<and> so_chain s = None)
          \<and> (jtruthy c \<longrightarrow> contract_source net sv (json_to_string c))) (\<lambda>_. sdk_inv net sv)"
      by (rule triple_bind [OF tenant_contract_triple])
        (auto simp: case_prod_beta True intro!: triple_rules)
    ultimately show ?thesis using True by (simp add: triple_bind)
  next
    case False
    with cache_triple [of sv "JStr (nc_contractId ?ep)" net] show ?thesis by simp
  qed
  show "triple (\<lambda>t. t = s0 \<and> sdk_inv net sv s0)
     (case so_chain s0 of Some c \<Rightarrow> retM c
      | None \<Rightarrow> bindM (if nc_contractId ?ep = [] then bindM (getTenantContract net (sv_orchestrator sv)) (\<lambda>(c, n). retM c)
             else retM (JStr (nc_contractId ?ep))) (\<lambda>v.
        bindM (liftR (new_chain_client ?ep v)) (\<lambda>c. bindM (modM (\<lambda>s. s\<lparr>so_chain := Some c\<rparr>)) (\<lambda>_. retM c))))
     (\<lambda>c s. sdk_inv net sv s \<and> so_chain s = Some c) (\<lambda>_. sdk_inv net sv)"
  proof (cases "so_chain s0")
    case None
    show ?thesis
      unfolding None option.simps by (rule triple_weaken [OF fresh]) (auto simp: None)
  next
    case (Some c)
    then show ?thesis by (auto intro!: triple_rules)
  qed
qed

lemma keeps_with_chain:
  assumes "\<And>c. keeps (\<lambda>s. sdk_inv net sv s \<and> so_chain s = Some c) (f c)"
  shows "keeps (sdk_inv net sv) (bindM (resolveChain net sv) f)"
  using triple_keeps [OF assms]
  by (intro keeps_triple triple_bind [OF resolveChain_triple]) (rule triple_weaken, assumption, simp_all)

lemma sdk_call_keeps: "keeps (sdk_inv net sv) (sdk_call net ch sv op)"
  by (cases op)
    (auto simp: discard_def connectSource_def runProofCycle_def getLatestProof_def getProof_def
      getInclusionRef_def getOnChainLatestProof_def verifyInclusion_def
      intro!: keeps_rules keeps_with_chain keeps_chain_calls split: json.splits)

lemma sdk_run_keeps: "sdk_inv net sv s \<Longrightarrow> sdk_inv net sv (sdk_run net ch sv ops s)"
  by (induction ops arbitrary: s) (auto intro: keepsD [OF sdk_call_keeps])

lemma sdk_inv_init: "sdk_inv net sv sdk_init"
  by (simp add: sdk_inv_def sdk_init_def log_all_def)

text \<open>C3: One \<open>Solva\<close> object stays with its institution.  Whatever operations a program calls,
  in whatever order, and whatever the servers answer, every HTTP request of the object
  goes to its own orchestrator with its own tenant header, and carries an
  \<open>Authorization\<close> header exactly when the API key is non-empty; every contract read uses
  the configured RPC and passphrase and one and the same contract (the cached one),
  which is the configured id, or else the id the orchestrator answered to the lookup of
  this very tenant.\<close>

theorem sdk_tenant_isolation:
  "\<forall>e \<in> set (w_log (sdk_run net ch (new_solva cfg) ops sdk_init)). case e of
      Http rq \<Rightarrow>
        (\<exists>path. rq_url rq = nc_orchestratorUrl (rc_endpoints (resolveConfig cfg)) @ path)
        \<and> map_of (rq_headers rq) (u ''x-solva-tenant'') = Some (sc_tenant cfg)
        \<and> map_of (rq_headers rq) (u ''authorization'') =
            (case sc_apiKey cfg of Some k \<Rightarrow> if k = [] then None else Some (u ''Bearer '' @ k) | None \<Rightarrow> None)
    | Call rd \<Rightarrow>
        so_chain (sdk_run net ch (new_solva cfg) ops sdk_init) = Some (fst rd)
        \<and> co_rpcUrl (fst rd) = nc_rpcUrl (rc_endpoints (resolveConfig cfg))
        \<and> co_networkPassphrase (fst rd) = nc_networkPassphrase (rc_endpoints (resolveConfig cfg))
        \<and> contract_source net (new_solva cfg) (co_contractId (fst rd))"
proof -
  have "sc_tenant cfg = oc_tenant (sv_orchestrator (new_solva cfg))"
    "sc_apiKey cfg = oc_apiKey (sv_orchestrator (new_solva cfg))"
    "rc_endpoints (resolveConfig cfg) = sv_endpoints (new_solva cfg)"
    "nc_orchestratorUrl (rc_endpoints (resolveConfig cfg)) = oc_baseUrl (sv_orchestrator (new_solva cfg))"
    by (simp_all add: new_solva_def resolveConfig_def Let_def)
  then show ?thesis
    using sdk_run_keeps [OF sdk_inv_init, of net "new_solva cfg" ch ops]
    unfolding sdk_inv_def log_all_def sdk_event_def own_options_def own_request_def
    by (intro ballI) (force split: event.splits)
qed

section \<open>An inclusion check from the API to the contract\<close>

text \<open>The answer of the inclusion endpoint for a leaf and its path (the fields of
  \<open>InclusionRefDTO\<close>).\<close>

definition api_path_node :: "generated_path_node \<Rightarrow> json" where
  "api_path_node n = JObj
     [(u ''hash'', JStr (bufferToHex (gn_hash n))), (u ''sum'', JStr (show_int (gn_sum n))),
      (u ''sibling_is_left'', JBool (gn_sibling_is_left n))]"

definition api_inclusion :: "int \<Rightarrow> nat list \<Rightarrow> int \<Rightarrow> jstr \<Rightarrow> generated_path_node list \<Rightarrow> json" where
  "api_inclusion i h b rt ns = JObj
     [(u ''proof_id'', JStr (show_int i)), (u ''customer_id_hash'', JStr (bufferToHex h)),
      (u ''balance'', JStr (show_int b)), (u ''root_hash'', JStr rt),
      (u ''path'', JArr (List.map api_path_node ns))]"

lemma hex_inverse [simp]: "bytes bs \<Longrightarrow> hexToBuffer (bufferToHex bs) = bs"
  using hex.dec_enc by simp

lemma path_node_arrives:
  "bytes (gn_hash n) \<Longrightarrow> bindR (map_path_node (api_path_node n)) toContractPathNode = Inr n"
  by (simp add: map_path_node_def api_path_node_def toContractPathNode_def hex_of_json_def)

lemma path_arrives:
  "\<forall>n \<in> set ns. bytes (gn_hash n) \<Longrightarrow>
     \<exists>vs. mapR map_path_node (List.map api_path_node ns) = Inr vs \<and> mapR toContractPathNode vs = Inr ns"
proof (induction ns)
  case (Cons n ns)
  then obtain vs where "mapR map_path_node (List.map api_path_node ns) = Inr vs" "mapR toContractPathNode vs = Inr ns"
    by auto
  with path_node_arrives [of n] Cons.prems show ?case by (auto simp: result_simps)
qed simp

lemma inclusion_arrives:
  assumes "bytes h" "\<forall>n \<in> set ns. bytes (gn_hash n)"
  obtains v where "map_inclusion (api_inclusion i h b rt ns) = Inr v"
    "inclusion_args v = Inr (CallVerifyInclusion i h b ns)" "jprop v ''proofId'' = Inr (JStr (show_int i))"
proof -
  from path_arrives [OF assms(2)] obtain vs where
    "mapR map_path_node (List.map api_path_node ns) = Inr vs" "mapR toContractPathNode vs = Inr ns" by blast
  with assms(1) show ?thesis
    by (intro that [of "JObj [(u ''proofId'', JStr (show_int i)), (u ''customerIdHash'', JStr (bufferToHex h)),
          (u ''balance'', JStr (show_int b)), (u ''path'', JArr vs)]"])
      (simp_all add: map_inclusion_def api_inclusion_def inclusion_args_def hex_of_json_def json_map_def)
qed

text \<open>Which requests finding the contract makes: none when it is cached or configured, else the lookup
  for the object's own tenant.\<close>

definition contract_lookups :: "solva \<Rightarrow> chain_read event list" where
  "contract_lookups sv =
     (if nc_contractId (sv_endpoints sv) \<noteq> [] then []
      else case encodeURIComponent (oc_tenant (sv_orchestrator sv)) of
        Inr seg \<Rightarrow> [Http (tenant_contract_request (sv_orchestrator sv) seg)]
      | Inl _ \<Rightarrow> [])"

lemma resolveChain_facts:
  assumes "resolveChain net sv s = (found, s')"
  shows "case so_chain s of
      Some c \<Rightarrow> found = Inr c \<and> s' = s
    | None \<Rightarrow> w_log s' = w_log s @ contract_lookups sv
        \<and> (case found of Inr c \<Rightarrow> own_options net sv c \<and> so_chain s' = Some c
            | Inl e \<Rightarrow> sdk_error net e \<and> so_chain s' = None)"
proof (cases "so_chain s")
  case None
  have err: "found = Inl e \<Longrightarrow> sdk_error net e" for e
    using throws_onlyD [OF throws_resolveChain] assms by blast
  show ?thesis
  proof (cases "nc_contractId (sv_endpoints sv) = []")
    case True
    with None assms err show ?thesis
      by (auto simp: resolveChain_def getTenantContract_def contract_lookups_def bindM_def comp_simps tenant_contract_request_def
          new_chain_client_def own_options_def contract_source_def split: sum.splits if_splits; blast)+
  next
    case False
    with None assms err show ?thesis
      by (auto simp: resolveChain_def contract_lookups_def bindM_def comp_simps new_chain_client_def own_options_def
          contract_source_def)
  qed
qed (use assms in \<open>simp add: resolveChain_def bindM_def comp_simps\<close>)

text \<open>C4: An inclusion check by reference reaches the contract unchanged.  When the
  orchestrator answers the lookup with a leaf and its path, the object finds its contract: the one
  it holds already, the configured one, or the one of its own tenant by one further request, which
  it then holds.  If that fails, the check ends in that error and no contract is asked.  Otherwise
  the contract is asked about exactly that proof id, hash, balance and path (every sibling with its
  hash, sum and side, in order), once, and the object's answer is the contract's verdict with the
  proof id; a contract failure is a \<open>ChainError\<close>, never a verdict.\<close>

theorem inclusion_end_to_end:
  assumes "encodeURIComponent ref = Inr seg"
    and "net (w_log s) (the_request (sv_orchestrator sv) ''GET'' (u ''/v1/proofs/inclusion/'' @ seg) None) = Inr res"
    and "res_ok res" and "rs_json res = Inr (api_inclusion i h b rt ns)"
    and "bytes h" and "\<forall>n \<in> set ns. bytes (gn_hash n)"
  shows "let s1 = s\<lparr>w_log := w_log s @ [Http (the_request (sv_orchestrator sv) ''GET'' (u ''/v1/proofs/inclusion/'' @ seg) None)]\<rparr>;
         (found, s2) = resolveChain net sv s1
    in verifyInclusion net ch sv (JStr ref) s =
        (case found of
           Inl e \<Rightarrow> (Inl e, s2)
         | Inr c \<Rightarrow>
             ((case so_bool ch (w_log s2) (c, CallVerifyInclusion i h b ns) of
                 Inr included \<Rightarrow> Inr (included, JStr (show_int i))
               | Inl _ \<Rightarrow> Inl (ChainError (u ''verify_inclusion call failed''))),
              s2\<lparr>w_log := w_log s2 @ [Call (c, CallVerifyInclusion i h b ns)]\<rparr>))
      \<and> (case so_chain s of
           Some c \<Rightarrow> found = Inr c \<and> s2 = s1
         | None \<Rightarrow> w_log s2 = w_log s1 @ contract_lookups sv
             \<and> (case found of Inr c \<Rightarrow> own_options net sv c \<and> so_chain s2 = Some c
                 | Inl e \<Rightarrow> sdk_error net e \<and> so_chain s2 = None))"
proof -
  let ?s1 = "s\<lparr>w_log := w_log s @ [Http (the_request (sv_orchestrator sv) ''GET'' (u ''/v1/proofs/inclusion/'' @ seg) None)]\<rparr>"
  obtain found s2 where found: "resolveChain net sv ?s1 = (found, s2)" by fastforce
  from inclusion_arrives [OF assms(5,6)] obtain v where
    "map_inclusion (api_inclusion i h b rt ns) = Inr v"
    "inclusion_args v = Inr (CallVerifyInclusion i h b ns)" "jprop v ''proofId'' = Inr (JStr (show_int i))" .
  with assms(1-4) found have "verifyInclusion net ch sv (JStr ref) s =
        (case found of
           Inl e \<Rightarrow> (Inl e, s2)
         | Inr c \<Rightarrow>
             ((case so_bool ch (w_log s2) (c, CallVerifyInclusion i h b ns) of
                 Inr included \<Rightarrow> Inr (included, JStr (show_int i))
               | Inl _ \<Rightarrow> Inl (ChainError (u ''verify_inclusion call failed''))),
              s2\<lparr>w_log := w_log s2 @ [Call (c, CallVerifyInclusion i h b ns)]\<rparr>))"
    by (simp add: verifyInclusion_def getInclusionRef_def chain_verifyInclusion_def
        registry_verifyInclusion_def bindM_def catchM_def comp_simps split: sum.splits)
  with resolveChain_facts [OF found] found show ?thesis by (simp add: Let_def)
qed

section \<open>Sample servers\<close>

definition sample_config :: solva_config where
  "sample_config = \<lparr>sc_network = Local, sc_tenant = u ''acme'', sc_endpoints = None, sc_apiKey = None\<rparr>"

definition ok_json :: "json \<Rightarrow> response" where
  "ok_json v = \<lparr>rs_status = 200, rs_text = Inr [], rs_json = Inr v\<rparr>"

definition sample_options :: contract_options where
  "sample_options = \<lparr>co_contractId = u ''C1'', co_rpcUrl = [], co_networkPassphrase = []\<rparr>"

definition sample_node :: generated_path_node where
  "sample_node = \<lparr>gn_hash = [7], gn_sibling_is_left = True, gn_sum = 3\<rparr>"

definition yes_chain :: soroban where
  "yes_chain = \<lparr>so_meta = \<lambda>_ _. Inl (js_error ''Error'' []), so_bool = \<lambda>_ _. Inr True\<rparr>"

lemma ok_json_simps [simp]: "res_ok (ok_json v)" "rs_json (ok_json v) = Inr v"
  by (simp_all add: ok_json_def res_ok_def)

lemma sdk_errors_classified_witness:
  "\<exists>e s'. sdk_call (\<lambda>_ _. Inl (js_error ''TypeError'' [])) yes_chain (new_solva sample_config) OpGetLatestProof sdk_init
      = (Inl e, s') \<and> is_orchestrator_error e"
proof -
  let ?net = "\<lambda>_ _. Inl (js_error ''TypeError'' [])"
  let ?c = "sdk_call ?net yes_chain (new_solva sample_config) OpGetLatestProof sdk_init"
  obtain e s' where c: "?c = (Inl e, s')" and e: "e = OrchestratorError (u ''request to /v1/proofs/latest failed'') 0"
    by (simp add: discard_def getLatestProof_def bindM_def comp_simps u_append [symmetric] flip: u_append)
  from sdk_errors_classified [OF c] c e show ?thesis by auto
qed

text \<open>A server that answers the lookup of the contract, whose address ends in a t, and that of the leaf;
  the object is fresh.\<close>

definition lookup_net :: sdk_net where
  "lookup_net = (\<lambda>_ rq. Inr (ok_json
     (if last (rq_url rq) = 116
      then JObj [(u ''contract_id'', JStr (u ''C1'')), (u ''network'', JStr (u ''local''))]
      else api_inclusion 4 [171] 9 [] [sample_node])))"

definition sample_lookup :: http_request where
  "sample_lookup = the_request (sv_orchestrator (new_solva sample_config)) ''GET''
     (u ''/v1/proofs/inclusion/'' @ u ''ref1'') None"

lemma inclusion_end_to_end_witness:
  "\<exists>c s'. verifyInclusion lookup_net yes_chain (new_solva sample_config) (JStr (u ''ref1'')) sdk_init
      = (Inr (True, JStr (show_int 4)), s')
    \<and> co_contractId c = u ''C1'' \<and> so_chain s' = Some c
    \<and> w_log s' = [Http sample_lookup] @ contract_lookups (new_solva sample_config)
        @ [Call (c, CallVerifyInclusion 4 [171] 9 [sample_node])]
    \<and> length (contract_lookups (new_solva sample_config)) = 1"
proof -
  let ?sv = "new_solva sample_config"
  have plain: "encodeURIComponent (u ''ref1'') = Inr (u ''ref1'')" "encodeURIComponent (u ''acme'') = Inr (u ''acme'')"
    by (intro encodeURIComponent_plain; simp add: u_def uri_unreserved_def is_digit_def)+
  have leaf: "lookup_net (w_log sdk_init) sample_lookup = Inr (ok_json (api_inclusion 4 [171] 9 [] [sample_node]))"
    by (simp add: lookup_net_def sample_lookup_def the_request_def u_def)
  note E = inclusion_end_to_end [of "u ''ref1''" "u ''ref1''" lookup_net sdk_init ?sv
      "ok_json (api_inclusion 4 [171] 9 [] [sample_node])" 4 "[171]" 9 "[]" "[sample_node]" yes_chain]
  let ?s1 = "sdk_init\<lparr>w_log := w_log sdk_init @ [Http sample_lookup]\<rparr>"
  obtain found s2 where found: "resolveChain lookup_net ?sv ?s1 = (found, s2)" by fastforce
  let ?J = "JObj [(u ''contract_id'', JStr (u ''C1'')), (u ''network'', JStr (u ''local''))]"
  have J: "jprop ?J ''contract_id'' = Inr (JStr (u ''C1''))" "jprop ?J ''network'' = Inr (JStr (u ''local''))"
    by (simp_all add: jprop_def jlookup_def)
  have sv: "oc_tenant (sv_orchestrator ?sv) = u ''acme''" "nc_contractId (sv_endpoints ?sv) = []"
    by (simp_all add: new_solva_def resolveConfig_def sample_config_def)
  have one: "contract_lookups ?sv = [Http (tenant_contract_request (sv_orchestrator ?sv) (u ''acme''))]"
    by (simp add: contract_lookups_def sv plain(2))
  have tenant: "lookup_net l (the_request (sv_orchestrator ?sv) ''GET'' (u ''/v1/tenants/'' @ u ''acme'' @ u ''/contract'') None)
      = Inr (ok_json ?J)" for l
    by (simp add: lookup_net_def the_request_def) (simp add: u_def)
  have "found = Inr \<lparr>co_contractId = u ''C1'', co_rpcUrl = nc_rpcUrl (sv_endpoints ?sv), co_networkPassphrase = nc_networkPassphrase (sv_endpoints ?sv)\<rparr>"
    using found
    by (auto simp: resolveChain_def getTenantContract_def bindM_def comp_simps sdk_init_def sv plain(2) tenant J
        new_chain_client_def jtruthy_def)
  then obtain c where c: "found = Inr c" "co_contractId c = u ''C1''" by simp
  show ?thesis
    using E [OF plain(1) leaf [unfolded sample_lookup_def]] found c one
    by (simp add: Let_def sample_lookup_def [symmetric] yes_chain_def bytes_def sample_node_def, simp add: sdk_init_def)
qed
lemma sdk_tenant_isolation_witness:
  "\<exists>rq. Http rq \<in> set (w_log (sdk_run (\<lambda>_ _. Inr (ok_json JNull)) yes_chain (new_solva sample_config)
       [OpGetLatestProof] sdk_init))
     \<and> map_of (rq_headers rq) (u ''x-solva-tenant'') = Some (u ''acme'')"
proof -
  let ?rq = "the_request (sv_orchestrator (new_solva sample_config)) ''GET'' (u ''/v1/proofs/latest'') None"
  have "Http ?rq \<in> set (w_log (sdk_run (\<lambda>_ _. Inr (ok_json JNull)) yes_chain (new_solva sample_config)
       [OpGetLatestProof] sdk_init))"
    by (simp add: discard_def getLatestProof_def bindM_def comp_simps)
  with sdk_tenant_isolation [of "\<lambda>_ _. Inr (ok_json JNull)" yes_chain sample_config "[OpGetLatestProof]"]
  have "map_of (rq_headers ?rq) (u ''x-solva-tenant'') = Some (sc_tenant sample_config)" by fastforce
  with \<open>Http ?rq \<in> _\<close> show ?thesis by (auto simp: sample_config_def)
qed

end
