(* ===== verification/Anomaly.thy ===== *)
theory Anomaly
  imports Shared_Types "HOL-Library.Multiset"
begin

text \<open>
  Anomaly detection over the proof history (packages/shared-types/src/anomaly.ts).

  \<open>percentChange\<close>, \<open>reserveDrift\<close>, \<open>liabilitySpike\<close>, \<open>cycleTimingGap\<close> are the features of two
  consecutive proofs, \<open>step_flags\<close> is one iteration of the loop of \<open>detectAnomalies\<close> and
  \<open>scan\<close> the loop.  The theorems give the exact condition of each flag on the integer
  totals, the severities, the size of the result and its independence of the order in
  which the proofs arrive.
\<close>

datatype anomaly_kind = ReserveDrift | LiabilitySpike | CycleTimingGap

datatype anomaly_severity = Info | Warning | Critical

instantiation anomaly_severity :: linorder
begin

definition less_eq_anomaly_severity :: "anomaly_severity \<Rightarrow> anomaly_severity \<Rightarrow> bool" where
  "less_eq_anomaly_severity a b \<longleftrightarrow> a = Info \<or> b = Critical \<or> a = b"

definition less_anomaly_severity :: "anomaly_severity \<Rightarrow> anomaly_severity \<Rightarrow> bool" where
  "less_anomaly_severity a b \<longleftrightarrow> a \<noteq> b \<and> (a = Info \<or> b = Critical)"

instance
  by standard (auto simp: less_eq_anomaly_severity_def less_anomaly_severity_def
      intro: anomaly_severity.exhaust)

end

record anomaly_flag =
  fl_kind :: anomaly_kind
  fl_severity :: anomaly_severity
  fl_proofId :: jstr
  fl_value :: jsnum
  fl_threshold :: rat
  fl_message :: jstr
  fl_detectedAt :: int

record anomaly_thresholds =
  th_reserveDriftPct :: rat
  th_liabilitySpikePct :: rat
  th_cycleTimingGapSec :: rat

definition DEFAULT_THRESHOLDS :: anomaly_thresholds where
  "DEFAULT_THRESHOLDS =
     \<lparr>th_reserveDriftPct = 10, th_liabilitySpikePct = 15, th_cycleTimingGapSec = 60 * 60 * 26\<rparr>"

definition percentChange :: "int \<Rightarrow> int \<Rightarrow> jsnum" where
  "percentChange prev cur =
     (if prev = 0 then (if cur = 0 then Num 0 else Infty)
      else let delta = cur - prev; scaled = (delta * 10000) sdiv prev
           in Num (of_int scaled / 100))"

definition reserveDrift :: "proof_rec \<Rightarrow> proof_rec \<Rightarrow> jsnum result" where
  "reserveDrift prev cur =
     bindR (bigint_of (pi_reservesTotal (pf_publicInputs prev))) (\<lambda>a.
     bindR (bigint_of (pi_reservesTotal (pf_publicInputs cur))) (\<lambda>b.
     Inr (percentChange a b)))"

definition liabilitySpike :: "proof_rec \<Rightarrow> proof_rec \<Rightarrow> jsnum result" where
  "liabilitySpike prev cur =
     bindR (bigint_of (pi_liabilitiesTotal (pf_publicInputs prev))) (\<lambda>a.
     bindR (bigint_of (pi_liabilitiesTotal (pf_publicInputs cur))) (\<lambda>b.
     Inr (percentChange a b)))"

definition cycleTimingGap :: "proof_rec \<Rightarrow> proof_rec \<Rightarrow> int" where
  "cycleTimingGap prev cur = pf_publishedAt cur - pf_publishedAt prev"

definition severityFor :: "jsnum \<Rightarrow> rat \<Rightarrow> anomaly_severity" where
  "severityFor magnitude threshold =
     (if jn_le (threshold * 2) magnitude then Critical
      else if jn_le threshold magnitude then Warning
      else Info)"

definition drift_flag :: "anomaly_thresholds \<Rightarrow> jsnum \<Rightarrow> proof_rec \<Rightarrow> anomaly_flag list" where
  "drift_flag th drift cur =
     (if jn_ge (- th_reserveDriftPct th) drift then
        [\<lparr>fl_kind = ReserveDrift,
          fl_severity = severityFor (jn_abs drift) (th_reserveDriftPct th),
          fl_proofId = pf_id cur,
          fl_value = drift,
          fl_threshold = - th_reserveDriftPct th,
          fl_message = u ''Reserves fell '' @ to_fixed2 (jn_abs drift) @ u ''% from the previous cycle.'',
          fl_detectedAt = pf_publishedAt cur\<rparr>]
      else [])"

definition spike_flag :: "anomaly_thresholds \<Rightarrow> jsnum \<Rightarrow> proof_rec \<Rightarrow> anomaly_flag list" where
  "spike_flag th spike cur =
     (if jn_le (th_liabilitySpikePct th) spike then
        [\<lparr>fl_kind = LiabilitySpike,
          fl_severity = severityFor spike (th_liabilitySpikePct th),
          fl_proofId = pf_id cur,
          fl_value = spike,
          fl_threshold = th_liabilitySpikePct th,
          fl_message = u ''Liabilities rose '' @ to_fixed2 spike @ u ''% from the previous cycle.'',
          fl_detectedAt = pf_publishedAt cur\<rparr>]
      else [])"

definition gap_flag :: "anomaly_thresholds \<Rightarrow> int \<Rightarrow> proof_rec \<Rightarrow> anomaly_flag list" where
  "gap_flag th gap cur =
     (if th_cycleTimingGapSec th < of_int gap then
        [\<lparr>fl_kind = CycleTimingGap,
          fl_severity = severityFor (Num (of_int gap)) (th_cycleTimingGapSec th),
          fl_proofId = pf_id cur,
          fl_value = Num (of_int gap),
          fl_threshold = th_cycleTimingGapSec th,
          fl_message = u ''Cycle arrived '' @ show_int gap @ u ''s after the previous one, past the expected window.'',
          fl_detectedAt = pf_publishedAt cur\<rparr>]
      else [])"

definition step_flags :: "anomaly_thresholds \<Rightarrow> proof_rec \<Rightarrow> proof_rec \<Rightarrow> anomaly_flag list result" where
  "step_flags th prev cur =
     bindR (reserveDrift prev cur) (\<lambda>drift.
     bindR (liabilitySpike prev cur) (\<lambda>spike.
     Inr (drift_flag th drift cur @ spike_flag th spike cur
          @ gap_flag th (cycleTimingGap prev cur) cur)))"

fun scan :: "anomaly_thresholds \<Rightarrow> anomaly_flag list \<Rightarrow> proof_rec list \<Rightarrow> anomaly_flag list result" where
  "scan th flags (prev # cur # rest) =
     bindR (step_flags th prev cur) (\<lambda>fs. scan th (flags @ fs) (cur # rest))" |
  "scan th flags _ = Inr flags"

definition detectAnomalies :: "proof_rec list \<Rightarrow> anomaly_thresholds \<Rightarrow> anomaly_flag list result" where
  "detectAnomalies proofs th = scan th [] (sort_key pf_publishedAt proofs)"

section \<open>Flags of one step\<close>

lemma severityFor_raised: "jn_le t m \<Longrightarrow> severityFor m t \<noteq> Info"
  by (simp add: severityFor_def)

lemma severityFor_mono: "jn_le a (Num b) \<Longrightarrow> severityFor (Num a) t \<le> severityFor (Num b) t"
  by (auto simp: severityFor_def less_eq_anomaly_severity_def)

lemma drift_magnitude: "jn_ge (- t) d \<Longrightarrow> jn_le t (jn_abs d)"
  by (cases d) auto

lemma mem_drift_flag:
  "f \<in> set (drift_flag th d q) \<Longrightarrow> fl_kind f = ReserveDrift \<and> fl_severity f \<noteq> Info
     \<and> fl_proofId f = pf_id q \<and> fl_detectedAt f = pf_publishedAt q"
  using severityFor_raised [OF drift_magnitude] by (simp add: drift_flag_def split: if_splits)

lemma mem_spike_flag:
  "f \<in> set (spike_flag th d q) \<Longrightarrow> fl_kind f = LiabilitySpike \<and> fl_severity f \<noteq> Info
     \<and> fl_proofId f = pf_id q \<and> fl_detectedAt f = pf_publishedAt q"
  using severityFor_raised by (simp add: spike_flag_def split: if_splits)

lemma mem_gap_flag:
  "f \<in> set (gap_flag th g q) \<Longrightarrow> fl_kind f = CycleTimingGap \<and> fl_severity f \<noteq> Info
     \<and> fl_proofId f = pf_id q \<and> fl_detectedAt f = pf_publishedAt q"
  using severityFor_raised [of "th_cycleTimingGapSec th" "Num (of_int g)"]
  by (simp add: gap_flag_def split: if_splits)

lemma length_flags:
  "length (drift_flag th d q) \<le> 1" "length (spike_flag th d q) \<le> 1" "length (gap_flag th g q) \<le> 1"
  by (simp_all add: drift_flag_def spike_flag_def gap_flag_def)

lemma step_flags_cases:
  assumes "step_flags th p q = Inr fs"
  obtains d s where "reserveDrift p q = Inr d" "liabilitySpike p q = Inr s"
    "fs = drift_flag th d q @ spike_flag th s q @ gap_flag th (cycleTimingGap p q) q"
  using assms by (auto simp: step_flags_def result_simps)

lemma step_flags_props:
  assumes "step_flags th p q = Inr fs" "f \<in> set fs"
  shows "fl_severity f \<noteq> Info \<and> fl_proofId f = pf_id q \<and> fl_detectedAt f = pf_publishedAt q"
  using assms by (auto elim!: step_flags_cases dest: mem_drift_flag mem_spike_flag mem_gap_flag)

lemma step_flags_length:
  assumes "step_flags th p q = Inr fs"
  shows "length fs \<le> 3"
proof -
  from assms obtain d s where
    "fs = drift_flag th d q @ spike_flag th s q @ gap_flag th (cycleTimingGap p q) q"
    by (rule step_flags_cases)
  then show ?thesis
    using length_flags(1) [of th d q] length_flags(2) [of th s q]
      length_flags(3) [of th "cycleTimingGap p q" q] by simp
qed

text \<open>The totals of a proof read as integers; \<open>None\<close> where \<open>BigInt\<close> throws.\<close>

definition reserves_of :: "proof_rec \<Rightarrow> int option" where
  "reserves_of p = bigint_parse (pi_reservesTotal (pf_publicInputs p))"

definition liabilities_of :: "proof_rec \<Rightarrow> int option" where
  "liabilities_of p = bigint_parse (pi_liabilitiesTotal (pf_publicInputs p))"

definition totals_ok :: "proof_rec \<Rightarrow> bool" where
  "totals_ok p \<longleftrightarrow> reserves_of p \<noteq> None \<and> liabilities_of p \<noteq> None"

lemma step_flags_Inr_iff:
  "(\<exists>fs. step_flags th p q = Inr fs) \<longleftrightarrow> totals_ok p \<and> totals_ok q"
proof -
  have "(\<exists>d. reserveDrift p q = Inr d) \<longleftrightarrow> reserves_of p \<noteq> None \<and> reserves_of q \<noteq> None"
    unfolding reserveDrift_def reserves_of_def bindR_total bigint_of_Inr by blast
  moreover have "(\<exists>d. liabilitySpike p q = Inr d) \<longleftrightarrow> liabilities_of p \<noteq> None \<and> liabilities_of q \<noteq> None"
    unfolding liabilitySpike_def liabilities_of_def bindR_total bigint_of_Inr by blast
  ultimately show ?thesis
    unfolding step_flags_def bindR_total totals_ok_def by blast
qed

lemma percentChange_fall:
  assumes "0 < prev" "1 \<le> k"
  shows "jn_ge (- (of_int k / 100)) (percentChange prev cur) \<longleftrightarrow> 10000 * cur \<le> (10000 - k) * prev"
proof -
  have "jn_ge (- (of_int k / 100)) (percentChange prev cur)
      \<longleftrightarrow> (of_int (((cur - prev) * 10000) sdiv prev) :: rat) \<le> - of_int k"
    using assms(1) by (simp add: percentChange_def Let_def field_simps)
  also have "\<dots> \<longleftrightarrow> (cur - prev) * 10000 \<le> - (k * prev)"
    by (simp only: of_int_le_iff sdiv_le_iff [OF assms] flip: of_int_minus)
  finally show ?thesis by (simp add: algebra_simps)
qed

lemma percentChange_rise:
  assumes "0 \<le> prev" "0 \<le> cur" "1 \<le> k"
  shows "jn_le (of_int k / 100) (percentChange prev cur)
    \<longleftrightarrow> 0 < cur \<and> (10000 + k) * prev \<le> 10000 * cur"
proof (cases "prev = 0")
  case True
  with assms show ?thesis by (auto simp: percentChange_def)
next
  case False
  with assms have p: "0 < prev" by simp
  have "jn_le (of_int k / 100) (percentChange prev cur)
      \<longleftrightarrow> (of_int k :: rat) \<le> of_int (((cur - prev) * 10000) sdiv prev)"
    using False by (simp add: percentChange_def Let_def field_simps)
  also have "\<dots> \<longleftrightarrow> k * prev \<le> (cur - prev) * 10000"
    using le_sdiv_iff [OF p assms(3)] by (simp only: of_int_le_iff)
  also have "\<dots> \<longleftrightarrow> (10000 + k) * prev \<le> 10000 * cur" by (simp add: algebra_simps)
  also have "\<dots> \<longleftrightarrow> 0 < cur \<and> (10000 + k) * prev \<le> 10000 * cur"
    using p assms mult_pos_pos [of "10000 + k" prev] by linarith
  finally show ?thesis .
qed

section \<open>The loop\<close>

fun pairs :: "'a list \<Rightarrow> ('a \<times> 'a) list" where
  "pairs (x # y # r) = (x, y) # pairs (y # r)" |
  "pairs _ = []"

lemma length_pairs [simp]: "length (pairs xs) = length xs - 1"
  by (induction xs rule: pairs.induct) auto

lemma in_pairs: "(x, y) \<in> set (pairs xs) \<Longrightarrow> x \<in> set xs \<and> y \<in> set xs"
  by (induction xs rule: pairs.induct) auto

lemma pairs_cover: "2 \<le> length xs \<Longrightarrow> x \<in> set xs \<Longrightarrow> \<exists>y. (x, y) \<in> set (pairs xs) \<or> (y, x) \<in> set (pairs xs)"
proof (induction xs rule: pairs.induct)
  case (1 a b r)
  show ?case
  proof (cases r)
    case Nil
    with 1 show ?thesis by auto
  next
    case (Cons c r')
    with 1 show ?thesis by (cases "x = a") auto
  qed
qed auto

lemma scan_concat:
  "scan th acc ps = bindR (mapR (\<lambda>pq. step_flags th (fst pq) (snd pq)) (pairs ps)) (\<lambda>fss. Inr (acc @ concat fss))"
  by (induction th acc ps rule: scan.induct) (auto simp: bindR_assoc)

lemma detect_Inr:
  "detectAnomalies ps th = Inr fs \<longleftrightarrow>
   (\<exists>fss. mapR (\<lambda>pq. step_flags th (fst pq) (snd pq)) (pairs (sort_key pf_publishedAt ps)) = Inr fss
      \<and> concat fss = fs)"
  by (simp add: detectAnomalies_def scan_concat result_simps)

text \<open>Two proofs next to each other once the history is sorted by publish time.\<close>

definition consecutive :: "proof_rec list \<Rightarrow> proof_rec \<Rightarrow> proof_rec \<Rightarrow> bool" where
  "consecutive ps p q \<longleftrightarrow> (p, q) \<in> set (pairs (sort_key pf_publishedAt ps))"

lemma consecutive_mem: "consecutive ps p q \<Longrightarrow> p \<in> set ps \<and> q \<in> set ps"
  unfolding consecutive_def by (drule in_pairs) simp

lemma detect_mem:
  assumes "detectAnomalies ps th = Inr fs"
  shows "f \<in> set fs \<longleftrightarrow> (\<exists>p q gs. consecutive ps p q \<and> step_flags th p q = Inr gs \<and> f \<in> set gs)"
proof -
  from assms obtain fss where
    m: "mapR (\<lambda>pq. step_flags th (fst pq) (snd pq)) (pairs (sort_key pf_publishedAt ps)) = Inr fss"
    and fs: "fs = concat fss" by (auto simp: detect_Inr)
  show ?thesis
    unfolding fs mapR_concat_mem [OF m] consecutive_def Bex_def split_paired_Ex fst_conv snd_conv by blast
qed

lemma detect_step:
  assumes "detectAnomalies ps th = Inr fs" "consecutive ps p q"
  shows "\<exists>gs. step_flags th p q = Inr gs"
proof -
  from assms(1) obtain fss where
    "mapR (\<lambda>pq. step_flags th (fst pq) (snd pq)) (pairs (sort_key pf_publishedAt ps)) = Inr fss"
    by (auto simp: detect_Inr)
  then have "\<forall>pq \<in> set (pairs (sort_key pf_publishedAt ps)). \<exists>gs. step_flags th (fst pq) (snd pq) = Inr gs"
    unfolding mapR_total [symmetric] by blast
  with assms(2) show ?thesis unfolding consecutive_def by fastforce
qed

section \<open>What detectAnomalies promises\<close>

lemma drift_flag_mem_iff:
  "(\<exists>f \<in> set fs. fl_kind f = ReserveDrift \<and> P f) \<longleftrightarrow> (\<exists>f \<in> set (drift_flag th d q). P f)"
  if "fs = drift_flag th d q @ spike_flag th s q @ gap_flag th g q"
  using that by (auto dest: mem_drift_flag mem_spike_flag mem_gap_flag)

lemma spike_flag_mem_iff:
  "(\<exists>f \<in> set fs. fl_kind f = LiabilitySpike \<and> P f) \<longleftrightarrow> (\<exists>f \<in> set (spike_flag th s q). P f)"
  if "fs = drift_flag th d q @ spike_flag th s q @ gap_flag th g q"
  using that by (auto dest: mem_drift_flag mem_spike_flag mem_gap_flag)

lemma detect_totals:
  assumes "detectAnomalies ps th = Inr fs" "consecutive ps p q"
  shows "\<exists>a b c d. reserves_of p = Some a \<and> reserves_of q = Some b
    \<and> liabilities_of p = Some c \<and> liabilities_of q = Some d"
  using detect_step [OF assms] unfolding step_flags_Inr_iff by (auto simp: totals_ok_def)

lemma flag_exact:
  assumes "detectAnomalies ps th = Inr fs"
    and step: "\<And>p q gs. consecutive ps p q \<Longrightarrow> step_flags th p q = Inr gs \<Longrightarrow>
      (\<exists>f \<in> set gs. Q f) \<longleftrightarrow> W p q"
  shows "(\<exists>f \<in> set fs. Q f) \<longleftrightarrow> (\<exists>p q. consecutive ps p q \<and> W p q)"
proof
  assume "\<exists>f \<in> set fs. Q f"
  then show "\<exists>p q. consecutive ps p q \<and> W p q"
    using detect_mem [OF assms(1)] step by blast
next
  assume "\<exists>p q. consecutive ps p q \<and> W p q"
  then obtain p q where "consecutive ps p q" "W p q" by blast
  moreover from detect_step [OF assms(1) this(1)] obtain gs where "step_flags th p q = Inr gs" by blast
  ultimately show "\<exists>f \<in> set fs. Q f" using step detect_mem [OF assms(1)] by blast
qed

lemma drift_step:
  assumes "step_flags th p q = Inr gs" "reserves_of p = Some a" "reserves_of q = Some b" "0 \<le> a"
    "th_reserveDriftPct th = of_int k / 100" "1 \<le> k"
  shows "(\<exists>f \<in> set gs. fl_kind f = ReserveDrift \<and> fl_proofId f = i \<and> fl_detectedAt f = t)
      \<longleftrightarrow> pf_id q = i \<and> pf_publishedAt q = t \<and> 0 < a \<and> 10000 * b \<le> (10000 - k) * a"
proof -
  have "reserveDrift p q = Inr (percentChange a b)"
    using assms(2,3) by (simp add: reserveDrift_def reserves_of_def bigint_of_def)
  with assms(1) obtain s where gs: "gs = drift_flag th (percentChange a b) q @ spike_flag th s q
      @ gap_flag th (cycleTimingGap p q) q" by (auto elim: step_flags_cases)
  have "(\<exists>f \<in> set (drift_flag th (percentChange a b) q). fl_proofId f = i \<and> fl_detectedAt f = t)
      \<longleftrightarrow> pf_id q = i \<and> pf_publishedAt q = t \<and> jn_ge (- (of_int k / 100)) (percentChange a b)"
    by (simp add: drift_flag_def assms(5)) blast
  also have "jn_ge (- (of_int k / 100)) (percentChange a b) \<longleftrightarrow> 0 < a \<and> 10000 * b \<le> (10000 - k) * a"
    using percentChange_fall [OF _ assms(6), of a b] assms(4,6)
    by (cases "a = 0") (auto simp: percentChange_def)
  finally show ?thesis unfolding drift_flag_mem_iff [OF gs] .
qed

lemma spike_step:
  assumes "step_flags th p q = Inr gs" "liabilities_of p = Some a" "liabilities_of q = Some b"
    "0 \<le> a" "0 \<le> b" "th_liabilitySpikePct th = of_int k / 100" "1 \<le> k"
  shows "(\<exists>f \<in> set gs. fl_kind f = LiabilitySpike \<and> fl_proofId f = i \<and> fl_detectedAt f = t)
      \<longleftrightarrow> pf_id q = i \<and> pf_publishedAt q = t \<and> 0 < b \<and> (10000 + k) * a \<le> 10000 * b"
proof -
  have "liabilitySpike p q = Inr (percentChange a b)"
    using assms(2,3) by (simp add: liabilitySpike_def liabilities_of_def bigint_of_def)
  with assms(1) obtain d where gs: "gs = drift_flag th d q @ spike_flag th (percentChange a b) q
      @ gap_flag th (cycleTimingGap p q) q" by (auto elim: step_flags_cases)
  have "(\<exists>f \<in> set (spike_flag th (percentChange a b) q). fl_proofId f = i \<and> fl_detectedAt f = t)
      \<longleftrightarrow> pf_id q = i \<and> pf_publishedAt q = t \<and> jn_le (of_int k / 100) (percentChange a b)"
    by (simp add: spike_flag_def assms(6)) blast
  also have "jn_le (of_int k / 100) (percentChange a b) \<longleftrightarrow> 0 < b \<and> (10000 + k) * a \<le> 10000 * b"
    by (rule percentChange_rise [OF assms(4,5,7)])
  finally show ?thesis unfolding spike_flag_mem_iff [OF gs] .
qed

lemma gap_step:
  assumes "step_flags th p q = Inr gs"
  shows "(\<exists>f \<in> set gs. fl_kind f = CycleTimingGap \<and> fl_proofId f = i \<and> fl_detectedAt f = t)
      \<longleftrightarrow> pf_id q = i \<and> pf_publishedAt q = t \<and>
        th_cycleTimingGapSec th < of_int (pf_publishedAt q - pf_publishedAt p)"
  using assms by (rule step_flags_cases)
    (auto simp: gap_flag_def cycleTimingGap_def dest: mem_drift_flag mem_spike_flag)

text \<open>C1: The reserve alarm is exact.  For any history the code accepts, with
  non-negative reserve totals and a threshold given in hundredths of a percent
  (\<open>k >= 1\<close>), the result holds a reserve-drift flag for proof id \<open>i\<close> raised at time \<open>t\<close>
  exactly when some proof with that id and time directly follows, in publish order, a
  proof with positive reserves \<open>a\<close> and has fallen to reserves \<open>b\<close> of at most
  \<open>(10000 - k) / 10000\<close> of \<open>a\<close>: the truncating integer division and the conversion to a
  number never hide a drop nor invent one.\<close>

theorem reserve_drift_exact:
  assumes "detectAnomalies ps th = Inr fs"
    and "th_reserveDriftPct th = of_int k / 100" and "1 \<le> k"
    and "\<forall>p \<in> set ps. \<forall>r. reserves_of p = Some r \<longrightarrow> 0 \<le> r"
  shows "(\<exists>f \<in> set fs. fl_kind f = ReserveDrift \<and> fl_proofId f = i \<and> fl_detectedAt f = t)
    \<longleftrightarrow> (\<exists>p q. consecutive ps p q \<and> (\<exists>a b. reserves_of p = Some a \<and> reserves_of q = Some b
          \<and> pf_id q = i \<and> pf_publishedAt q = t \<and> 0 < a \<and> 10000 * b \<le> (10000 - k) * a))"
proof (rule flag_exact [OF assms(1)])
  fix p q gs
  assume c: "consecutive ps p q" and g: "step_flags th p q = Inr gs"
  from detect_totals [OF assms(1) c] obtain a b where
    r: "reserves_of p = Some a" "reserves_of q = Some b" by blast
  with c consecutive_mem assms(4) have "0 \<le> a" by blast
  from drift_step [OF g r this assms(2,3)] r
  show "(\<exists>f \<in> set gs. fl_kind f = ReserveDrift \<and> fl_proofId f = i \<and> fl_detectedAt f = t) \<longleftrightarrow>
    (\<exists>a b. reserves_of p = Some a \<and> reserves_of q = Some b
      \<and> pf_id q = i \<and> pf_publishedAt q = t \<and> 0 < a \<and> 10000 * b \<le> (10000 - k) * a)" by simp
qed

text \<open>The liability alarm is exact in the same sense: a spike flag for \<open>i\<close> at \<open>t\<close> is in the
  result exactly when liabilities went from \<open>a\<close> to a positive \<open>b\<close> with
  \<open>10000 b >= (10000 + k) a\<close>; growth from a zero total (an infinite percentage) is
  included.\<close>

theorem liability_spike_exact:
  assumes "detectAnomalies ps th = Inr fs"
    and "th_liabilitySpikePct th = of_int k / 100" and "1 \<le> k"
    and "\<forall>p \<in> set ps. \<forall>r. liabilities_of p = Some r \<longrightarrow> 0 \<le> r"
  shows "(\<exists>f \<in> set fs. fl_kind f = LiabilitySpike \<and> fl_proofId f = i \<and> fl_detectedAt f = t)
    \<longleftrightarrow> (\<exists>p q. consecutive ps p q \<and> (\<exists>a b. liabilities_of p = Some a \<and> liabilities_of q = Some b
          \<and> pf_id q = i \<and> pf_publishedAt q = t \<and> 0 < b \<and> (10000 + k) * a \<le> 10000 * b))"
proof (rule flag_exact [OF assms(1)])
  fix p q gs
  assume c: "consecutive ps p q" and g: "step_flags th p q = Inr gs"
  from detect_totals [OF assms(1) c] obtain a b where
    r: "liabilities_of p = Some a" "liabilities_of q = Some b" by blast
  with c consecutive_mem assms(4) have "0 \<le> a" "0 \<le> b" by blast+
  from spike_step [OF g r this assms(2,3)] r
  show "(\<exists>f \<in> set gs. fl_kind f = LiabilitySpike \<and> fl_proofId f = i \<and> fl_detectedAt f = t) \<longleftrightarrow>
    (\<exists>a b. liabilities_of p = Some a \<and> liabilities_of q = Some b
      \<and> pf_id q = i \<and> pf_publishedAt q = t \<and> 0 < b \<and> (10000 + k) * a \<le> 10000 * b)" by simp
qed

lemma sort_pairs_cover:
  assumes "2 \<le> length ps" "p \<in> set ps"
  shows "\<exists>q. consecutive ps p q \<or> consecutive ps q p"
  using pairs_cover [of "sort_key pf_publishedAt ps" p] assms by (simp add: consecutive_def)

lemma detect_total:
  "(\<exists>fs. detectAnomalies ps th = Inr fs) \<longleftrightarrow> length ps \<le> 1 \<or> (\<forall>p \<in> set ps. totals_ok p)"
proof
  assume "\<exists>fs. detectAnomalies ps th = Inr fs"
  then obtain fs where d: "detectAnomalies ps th = Inr fs" by blast
  show "length ps \<le> 1 \<or> (\<forall>p \<in> set ps. totals_ok p)"
  proof (cases "length ps \<le> 1")
    case False
    then show ?thesis
      using sort_pairs_cover [of ps] detect_totals [OF d] by (fastforce simp: totals_ok_def)
  qed simp
next
  assume "length ps \<le> 1 \<or> (\<forall>p \<in> set ps. totals_ok p)"
  then have "\<forall>pq \<in> set (pairs (sort_key pf_publishedAt ps)). \<exists>gs. step_flags th (fst pq) (snd pq) = Inr gs"
  proof
    assume "length ps \<le> 1"
    then have "pairs (sort_key pf_publishedAt ps) = []" by (simp flip: length_0_conv)
    then show ?thesis by simp
  next
    assume "\<forall>p \<in> set ps. totals_ok p"
    then show ?thesis unfolding step_flags_Inr_iff using in_pairs by fastforce
  qed
  then show "\<exists>fs. detectAnomalies ps th = Inr fs"
    unfolding mapR_total [symmetric] detect_Inr by blast
qed

text \<open>The answer does not depend on the order in which the proofs arrive: two
  histories with the same proofs, no two published at the same second, give the same
  flags in the same order (or the same error).\<close>

theorem detect_order_independent:
  assumes "mset ps = mset qs" "distinct (List.map pf_publishedAt ps)"
  shows "detectAnomalies ps th = detectAnomalies qs th"
proof -
  from assms(2) have "inj_on pf_publishedAt (set ps)" by (simp add: distinct_map)
  moreover have "mset ps = mset (sort_key pf_publishedAt qs)" using assms(1) by simp
  ultimately have "sort_key pf_publishedAt ps = sort_key pf_publishedAt qs"
    by (intro sort_key_inj_key_eq) simp_all
  then show ?thesis by (simp add: detectAnomalies_def)
qed

lemma severity_critical:
  assumes "0 \<le> th_reserveDriftPct th" "0 \<le> th_liabilitySpikePct th" "0 \<le> th_cycleTimingGapSec th"
    "step_flags th p q = Inr gs" "f \<in> set gs"
  shows "fl_severity f = Critical \<longleftrightarrow> jn_le (2 * \<bar>fl_threshold f\<bar>) (jn_abs (fl_value f))"
proof -
  have "f \<in> set (drift_flag th d q) \<Longrightarrow> ?thesis" for d
    using assms(1) by (simp add: drift_flag_def severityFor_def mult.commute split: if_splits)
  moreover have "f \<in> set (spike_flag th d q) \<Longrightarrow> ?thesis" for d
    using assms(2) by (cases d) (auto simp: spike_flag_def severityFor_def mult.commute split: if_splits)
  moreover have "f \<in> set (gap_flag th g q) \<Longrightarrow> ?thesis" for g
    using assms(3) by (auto simp: gap_flag_def severityFor_def mult.commute split: if_splits)
  moreover obtain d s where "gs = drift_flag th d q @ spike_flag th s q @ gap_flag th (cycleTimingGap p q) q"
    using assms(4) by (rule step_flags_cases)
  ultimately show ?thesis using assms(5) by (metis Un_iff set_append)
qed

text \<open>Shape of the result under non-negative thresholds.  The scan succeeds exactly when
  there is nothing to compare or every total is an integer; it returns at most three
  flags for each pair of neighbours; and every flag names a proof of the history with
  its publish time, never has severity \<open>Info\<close> (that branch of \<open>severityFor\<close> is dead), and is
  critical exactly when its value is at least twice its threshold.\<close>

theorem detect_shape:
  assumes "0 \<le> th_reserveDriftPct th" "0 \<le> th_liabilitySpikePct th" "0 \<le> th_cycleTimingGapSec th"
  shows "((\<exists>fs. detectAnomalies ps th = Inr fs) \<longleftrightarrow> length ps \<le> 1 \<or> (\<forall>p \<in> set ps. totals_ok p))
    \<and> (\<forall>fs. detectAnomalies ps th = Inr fs \<longrightarrow> length fs \<le> 3 * (length ps - 1)
        \<and> (\<forall>f \<in> set fs.
              (\<exists>q \<in> set ps. fl_proofId f = pf_id q \<and> fl_detectedAt f = pf_publishedAt q)
              \<and> fl_severity f \<noteq> Info
              \<and> (fl_severity f = Critical \<longleftrightarrow> jn_le (2 * \<bar>fl_threshold f\<bar>) (jn_abs (fl_value f)))))"
proof (intro conjI detect_total allI impI ballI)
  fix fs assume d: "detectAnomalies ps th = Inr fs"
  from d obtain fss where
    m: "mapR (\<lambda>pq. step_flags th (fst pq) (snd pq)) (pairs (sort_key pf_publishedAt ps)) = Inr fss"
    and fs: "fs = concat fss" by (auto simp: detect_Inr)
  have "\<forall>gs \<in> set fss. length gs \<le> 3"
    using mapR_mem [OF m] step_flags_length by blast
  then have "length (concat fss) \<le> 3 * length fss" by (induction fss) auto
  with mapR_length [OF m] show "length fs \<le> 3 * (length ps - 1)" by (simp add: fs)
  fix f assume "f \<in> set fs"
  then obtain p q gs where c: "consecutive ps p q" and g: "step_flags th p q = Inr gs" "f \<in> set gs"
    using detect_mem [OF d] by blast
  show "\<exists>q \<in> set ps. fl_proofId f = pf_id q \<and> fl_detectedAt f = pf_publishedAt q" "fl_severity f \<noteq> Info"
    using consecutive_mem [OF c] step_flags_props [OF g] by blast+
  show "fl_severity f = Critical \<longleftrightarrow> jn_le (2 * \<bar>fl_threshold f\<bar>) (jn_abs (fl_value f))"
    by (rule severity_critical [OF assms g])
qed

section \<open>A sample history\<close>

definition sample_proof :: "string \<Rightarrow> int \<Rightarrow> int \<Rightarrow> int \<Rightarrow> proof_rec" where
  "sample_proof i r l t =
     \<lparr>pf_id = u i, pf_proof = [],
      pf_publicInputs = \<lparr>pi_reservesTotal = show_int r, pi_liabilitiesTotal = show_int l,
        pi_rootHash = [], pi_prevReserves = show_int r\<rparr>,
      pf_publishedAt = t\<rparr>"

lemma sample_proof_simps [simp]:
  "pf_id (sample_proof i r l t) = u i" "pf_publishedAt (sample_proof i r l t) = t"
  "reserves_of (sample_proof i r l t) = Some r" "liabilities_of (sample_proof i r l t) = Some l"
  "totals_ok (sample_proof i r l t)"
  by (simp_all add: sample_proof_def reserves_of_def liabilities_of_def totals_ok_def)

definition sample_history :: "proof_rec list" where
  "sample_history = [sample_proof ''p2'' 90 120 86400, sample_proof ''p1'' 100 100 0]"

lemma sample_sorted:
  "sort_key pf_publishedAt sample_history = [sample_proof ''p1'' 100 100 0, sample_proof ''p2'' 90 120 86400]"
  by (simp add: sample_history_def)

lemma sample_consecutive: "consecutive sample_history p q \<longleftrightarrow>
    p = sample_proof ''p1'' 100 100 0 \<and> q = sample_proof ''p2'' 90 120 86400"
  by (simp add: consecutive_def sample_sorted)

lemma sample_detect: "\<exists>fs. detectAnomalies sample_history DEFAULT_THRESHOLDS = Inr fs"
  by (simp add: detect_total) (simp add: sample_history_def)

lemma default_simps [simp]:
  "th_reserveDriftPct DEFAULT_THRESHOLDS = 10" "th_liabilitySpikePct DEFAULT_THRESHOLDS = 15"
  "th_cycleTimingGapSec DEFAULT_THRESHOLDS = 93600"
  by (simp_all add: DEFAULT_THRESHOLDS_def)

lemma reserve_drift_exact_witness:
  "\<exists>fs. detectAnomalies sample_history DEFAULT_THRESHOLDS = Inr fs
     \<and> (\<exists>f \<in> set fs. fl_kind f = ReserveDrift \<and> fl_proofId f = u ''p2'' \<and> fl_detectedAt f = 86400)"
proof -
  obtain fs where d: "detectAnomalies sample_history DEFAULT_THRESHOLDS = Inr fs"
    using sample_detect by blast
  have "\<forall>p \<in> set sample_history. \<forall>r. reserves_of p = Some r \<longrightarrow> 0 \<le> r"
    by (simp add: sample_history_def)
  from reserve_drift_exact [OF d, of 1000 "u ''p2''" 86400] this
  have "\<exists>f \<in> set fs. fl_kind f = ReserveDrift \<and> fl_proofId f = u ''p2'' \<and> fl_detectedAt f = 86400"
    by (simp add: sample_consecutive)
  with d show ?thesis by blast
qed

lemma liability_spike_exact_witness:
  "\<exists>fs. detectAnomalies sample_history DEFAULT_THRESHOLDS = Inr fs
     \<and> (\<exists>f \<in> set fs. fl_kind f = LiabilitySpike \<and> fl_proofId f = u ''p2'' \<and> fl_detectedAt f = 86400)"
proof -
  obtain fs where d: "detectAnomalies sample_history DEFAULT_THRESHOLDS = Inr fs"
    using sample_detect by blast
  have "\<forall>p \<in> set sample_history. \<forall>r. liabilities_of p = Some r \<longrightarrow> 0 \<le> r"
    by (simp add: sample_history_def)
  from liability_spike_exact [OF d, of 1500 "u ''p2''" 86400] this
  have "\<exists>f \<in> set fs. fl_kind f = LiabilitySpike \<and> fl_proofId f = u ''p2'' \<and> fl_detectedAt f = 86400"
    by (simp add: sample_consecutive)
  with d show ?thesis by blast
qed

lemma detect_order_independent_witness:
  "detectAnomalies sample_history DEFAULT_THRESHOLDS = detectAnomalies (rev sample_history) DEFAULT_THRESHOLDS"
  by (rule detect_order_independent) (simp_all add: sample_history_def)

lemma detect_shape_witness:
  "\<exists>fs. detectAnomalies sample_history DEFAULT_THRESHOLDS = Inr fs \<and> length fs \<le> 3"
proof -
  obtain fs where d: "detectAnomalies sample_history DEFAULT_THRESHOLDS = Inr fs"
    using sample_detect by blast
  with detect_shape [of DEFAULT_THRESHOLDS sample_history] have "length fs \<le> 3"
    by (simp add: sample_history_def)
  with d show ?thesis by blast
qed

end
