(* ===== verification/Oracle.thy ===== *)
theory Oracle
  imports Sdk Anomaly
begin

text \<open>
  The solvency oracle (services/oracle/src): \<open>getSolvency\<close> and its production dependencies
  \<open>chainSolvencyDeps\<close> (solvency.ts), the two MCP tools (tools.ts) and their wiring
  (server.ts).  The locale \<open>solvency_provider\<close> is the contract of \<open>SolvencyDeps\<close>: the
  on-chain check answers, it does not throw.  The process environment is the record
  \<open>oracle_env\<close>; the state is the log of requests.
\<close>

section \<open>solvency.ts\<close>

definition reservesCoverLiabilities :: "json \<Rightarrow> json \<Rightarrow> bool result" where
  "reservesCoverLiabilities R L =
     bindR (big_of_json R) (\<lambda>r. bindR (big_of_json L) (\<lambda>l. Inr (l \<le> r)))"

record 's solvency_deps =
  sd_getLatestProof :: "jstr \<Rightarrow> ('s, json) comp"
  sd_verifyOnChain :: "jstr \<Rightarrow> json \<Rightarrow> ('s, bool) comp"

definition getSolvency :: "jstr \<Rightarrow> 's solvency_deps \<Rightarrow> ('s, solvency_result) comp" where
  "getSolvency tenant deps =
     bindM (sd_getLatestProof deps tenant) (\<lambda>pf.
     bindM (liftR (jprop pf ''publicInputs'')) (\<lambda>inputs.
     bindM (liftR (jprop inputs ''reservesTotal'')) (\<lambda>R.
     bindM (liftR (jprop inputs ''liabilitiesTotal'')) (\<lambda>L.
     bindM (sd_verifyOnChain deps tenant pf) (\<lambda>verifiedOnChain.
     bindM (if verifiedOnChain then liftR (reservesCoverLiabilities R L) else retM False) (\<lambda>solvent.
     bindM (liftR (jprop pf ''id'')) (\<lambda>i.
     bindM (liftR (jprop pf ''publishedAt'')) (\<lambda>t.
     retM \<lparr>sr_status = (if solvent then Solvent else Breach), sr_solvent = solvent,
           sr_reservesTotal = R, sr_liabilitiesTotal = L, sr_proofId = i,
           sr_verifiedOnChain = verifiedOnChain, sr_asOf = t\<rparr>))))))))"

record oracle_env =
  oe_network :: "jstr option"
  oe_orchestratorUrl :: "jstr option"
  oe_rpcUrl :: "jstr option"
  oe_contractId :: "jstr option"
  oe_apiToken :: "jstr option"

definition env_set :: "jstr option \<Rightarrow> jstr option" where
  "env_set v = (case v of Some s \<Rightarrow> if s \<noteq> [] then Some s else None | None \<Rightarrow> None)"

definition sdkConfig :: "oracle_env \<Rightarrow> network \<Rightarrow> jstr \<Rightarrow> solva_config" where
  "sdkConfig env n tenant =
     (let endpoints = \<lparr>pc_orchestratorUrl = env_set (oe_orchestratorUrl env), pc_rpcUrl = env_set (oe_rpcUrl env),
                       pc_networkPassphrase = None, pc_contractId = env_set (oe_contractId env)\<rparr>
      in \<lparr>sc_network = n, sc_tenant = tenant,
          sc_endpoints =
            (if env_set (oe_orchestratorUrl env) = None \<and> env_set (oe_rpcUrl env) = None
                \<and> env_set (oe_contractId env) = None then None else Some endpoints),
          sc_apiKey = env_set (oe_apiToken env)\<rparr>)"

text \<open>Each call of the dependencies builds a fresh \<open>Solva\<close> object.\<close>

type_synonym oracle_state = "chain_read world"

definition fresh_solva :: "(sdk, 'a) comp \<Rightarrow> (oracle_state, 'a) comp" where
  "fresh_solva m s =
     (case m \<lparr>w_log = w_log s, so_chain = None\<rparr> of (r, s') \<Rightarrow> (r, \<lparr>w_log = w_log s'\<rparr>))"

definition chainSolvencyDeps :: "sdk_net \<Rightarrow> soroban \<Rightarrow> oracle_env \<Rightarrow> network \<Rightarrow> oracle_state solvency_deps" where
  "chainSolvencyDeps net ch env n =
     \<lparr>sd_getLatestProof = (\<lambda>tenant.
        fresh_solva (getLatestProof net (sv_orchestrator (new_solva (sdkConfig env n tenant))))),
      sd_verifyOnChain = (\<lambda>tenant _.
        catchM
          (bindM (fresh_solva (getOnChainLatestProof net ch (new_solva (sdkConfig env n tenant)))) (\<lambda>onChain.
           liftR (reservesCoverLiabilities (JStr (pm_reservesTotal onChain)) (JStr (pm_liabilitiesTotal onChain)))))
          (\<lambda>_. retM False))\<rparr>"

section \<open>tools.ts and server.ts\<close>

record 's oracle_deps =
  od_solvency :: "'s solvency_deps"
  od_getProofHistory :: "jstr \<Rightarrow> ('s, json list) comp"
  od_thresholds :: "anomaly_thresholds option"

text \<open>The typed view of a proof that the anomaly scan reads.\<close>

definition json_str :: "json \<Rightarrow> string \<Rightarrow> jstr" where
  "json_str v k = (case jprop v k of Inr (JStr s) \<Rightarrow> s | _ \<Rightarrow> [])"

definition proof_of_json :: "json \<Rightarrow> proof_rec" where
  "proof_of_json v =
     (let inputs = (case jprop v ''publicInputs'' of Inr i \<Rightarrow> i | Inl _ \<Rightarrow> JUndef) in
      \<lparr>pf_id = json_str v ''id'', pf_proof = json_str v ''proof'',
       pf_publicInputs =
         \<lparr>pi_reservesTotal = json_str inputs ''reservesTotal'', pi_liabilitiesTotal = json_str inputs ''liabilitiesTotal'',
          pi_rootHash = json_str inputs ''rootHash'', pi_prevReserves = json_str inputs ''prevReserves''\<rparr>,
       pf_publishedAt = (case jprop v ''publishedAt'' of Inr (JNum t) \<Rightarrow> t | _ \<Rightarrow> 0)\<rparr>)"

definition invalid_input :: exn where
  "invalid_input = js_error ''McpError'' (u ''Invalid arguments'')"

definition tool_get_solvency :: "'s oracle_deps \<Rightarrow> jstr \<Rightarrow> ('s, solvency_result) comp" where
  "tool_get_solvency deps institution_id =
     (if institution_id = [] then throwM invalid_input
      else getSolvency institution_id (od_solvency deps))"

definition tool_get_anomalies :: "'s oracle_deps \<Rightarrow> jstr \<Rightarrow> ('s, anomaly_flag list) comp" where
  "tool_get_anomalies deps institution_id =
     (if institution_id = [] then throwM invalid_input
      else bindM (od_getProofHistory deps institution_id) (\<lambda>history.
           liftR (detectAnomalies (List.map proof_of_json history)
             (case od_thresholds deps of Some th \<Rightarrow> th | None \<Rightarrow> DEFAULT_THRESHOLDS))))"

definition networkFromEnv :: "oracle_env \<Rightarrow> network" where
  "networkFromEnv env =
     (if oe_network env = Some (u ''mainnet'') then Mainnet
      else if oe_network env = Some (u ''local'') then Local
      else Testnet)"

definition buildDeps :: "sdk_net \<Rightarrow> soroban \<Rightarrow> oracle_env \<Rightarrow> network \<Rightarrow> oracle_state oracle_deps" where
  "buildDeps net ch env n =
     \<lparr>od_solvency = chainSolvencyDeps net ch env n,
      od_getProofHistory = (\<lambda>institutionId.
        bindM (fresh_solva (getLatestProof net (sv_orchestrator (new_solva
          \<lparr>sc_network = n, sc_tenant = institutionId, sc_endpoints = None, sc_apiKey = None\<rparr>)))) (\<lambda>latest.
        retM [latest])),
      od_thresholds = None\<rparr>"

section \<open>The contract of the dependencies\<close>

locale solvency_provider =
  fixes deps :: "'s solvency_deps" and backed :: "jstr \<Rightarrow> 's \<Rightarrow> bool"
  assumes verify_answers: "\<exists>b s'. sd_verifyOnChain deps t p s = (Inr b, s')"
    and verify_backed: "sd_verifyOnChain deps t p s = (Inr True, s') \<Longrightarrow> backed t s'"
begin

lemma solvency_verdict:
  assumes "getSolvency t deps s = (Inr r, s')"
  shows "sr_status r = (if sr_solvent r then Solvent else Breach)
    \<and> (sr_solvent r \<longleftrightarrow> sr_verifiedOnChain r
          \<and> reservesCoverLiabilities (sr_reservesTotal r) (sr_liabilitiesTotal r) = Inr True)
    \<and> (sr_verifiedOnChain r \<longrightarrow> backed t s')"
  using assms
  by (auto simp: getSolvency_def bindM_Inr comp_eval dest: verify_backed split: if_splits)

lemma solvency_fails_only_on_input:
  assumes "getSolvency t deps s = (Inl e, s')" "sd_getLatestProof deps t s = (Inr pf, s1)"
    "jprop pf ''publicInputs'' = Inr inp" "jprop inp ''reservesTotal'' = Inr R"
    "jprop inp ''liabilitiesTotal'' = Inr L"
    "reservesCoverLiabilities R L = Inr b"
  shows False
proof -
  obtain v s2 where v: "sd_verifyOnChain deps t pf s1 = (Inr v, s2)" using verify_answers by blast
  from assms(3) have "\<exists>x. jprop pf k = Inr x" for k
    by (cases pf) (auto simp: jprop_def)
  then obtain i tt where "jprop pf ''id'' = Inr i" "jprop pf ''publishedAt'' = Inr tt" by blast
  with assms v show False
    by (cases v) (auto simp: getSolvency_def bindM_def comp_simps)
qed

end

text \<open>The contract totals a positive check was read from.\<close>

definition chain_backed :: "soroban \<Rightarrow> jstr \<Rightarrow> oracle_state \<Rightarrow> bool" where
  "chain_backed ch t s \<longleftrightarrow>
     (\<exists>log rd m. Call rd \<in> set (w_log s) \<and> so_meta ch log rd = Inr m \<and> gm_l m \<le> gm_r m)"

lemma cover_decimal [simp]:
  "reservesCoverLiabilities (JStr (show_int r)) (JStr (show_int l)) = Inr (l \<le> r)"
  by (simp add: reservesCoverLiabilities_def)

lemma onchain_backed:
  assumes "getOnChainLatestProof net ch sv s = (Inr m, s')"
  shows "\<exists>log rd g. Call rd \<in> set (w_log s') \<and> so_meta ch log rd = Inr g \<and> m = toProofMeta g"
proof -
  from assms obtain c s1 where "chain_getLatestProof ch c s1 = (Inr m, s')"
    by (auto simp: getOnChainLatestProof_def bindM_Inr)
  then obtain g where "so_meta ch (w_log s1) (c, CallLatestProof) = Inr g" "m = toProofMeta g"
    "s' = s1\<lparr>w_log := w_log s1 @ [Call (c, CallLatestProof)]\<rparr>"
    by (auto simp: chain_getLatestProof_def registry_getLatestProof_def catchM_def bindM_def comp_simps
        split: sum.splits)
  then show ?thesis
    by (intro exI [of _ "w_log s1"] exI [of _ "(c, CallLatestProof)"] exI [of _ g]) simp
qed

interpretation chain_deps: solvency_provider "chainSolvencyDeps net ch env n" "chain_backed ch"
proof unfold_locales
  fix t p s
  show "\<exists>b s'. sd_verifyOnChain (chainSolvencyDeps net ch env n) t p s = (Inr b, s')"
    by (auto simp: chainSolvencyDeps_def catchM_def comp_simps split: prod.splits sum.splits)
next
  fix t p s s'
  assume "sd_verifyOnChain (chainSolvencyDeps net ch env n) t p s = (Inr True, s')"
  then obtain m s1 where
    m: "getOnChainLatestProof net ch (new_solva (sdkConfig env n t)) \<lparr>w_log = w_log s, so_chain = None\<rparr> = (Inr m, s1)"
    and s': "w_log s' = w_log s1"
    and c: "reservesCoverLiabilities (JStr (pm_reservesTotal m)) (JStr (pm_liabilitiesTotal m)) = Inr True"
    by (auto simp: chainSolvencyDeps_def catchM_def comp_simps bindM_Inr fresh_solva_def
        split: prod.splits sum.splits)
  from onchain_backed [OF m] obtain log rd g where
    g: "Call rd \<in> set (w_log s1)" "so_meta ch log rd = Inr g" "m = toProofMeta g" by blast
  with c have "gm_l g \<le> gm_r g" by (simp add: toProofMeta_def)
  with g s' show "chain_backed ch t s'" unfolding chain_backed_def s' by blast
qed

section \<open>What the tools promise\<close>

lemma big_of_json_leq:
  "reservesCoverLiabilities R L = Inr b \<longleftrightarrow>
     (\<exists>r l. big_of_json R = Inr r \<and> big_of_json L = Inr l \<and> b = (l \<le> r))"
  by (auto simp: reservesCoverLiabilities_def result_simps)

text \<open>C5: Soundness of the solvency verdict.  When the production tool answers, the status is
  \<open>Solvent\<close> or \<open>Breach\<close> (\<open>Unknown\<close> is never produced) and follows the flag; the flag is set
  exactly when the on-chain check passed and the reported totals are integers with
  \<open>R >= L\<close>; and the on-chain check only passes on an answer of a contract read made by
  this object's calls in which the contract's own totals satisfy \<open>r >= l\<close>.\<close>

theorem solvency_verdict_sound:
  assumes "tool_get_solvency (buildDeps net ch env n) t s = (Inr r, s')"
  shows "sr_status r \<noteq> Unknown \<and> (sr_status r = Solvent \<longleftrightarrow> sr_solvent r)
    \<and> (sr_solvent r \<longleftrightarrow> sr_verifiedOnChain r \<and> (\<exists>R L. big_of_json (sr_reservesTotal r) = Inr R
          \<and> big_of_json (sr_liabilitiesTotal r) = Inr L \<and> L \<le> R))
    \<and> (sr_verifiedOnChain r \<longrightarrow>
         (\<exists>log rd m. Call rd \<in> set (w_log s') \<and> so_meta ch log rd = Inr m \<and> gm_l m \<le> gm_r m))"
proof -
  from assms have "getSolvency t (chainSolvencyDeps net ch env n) s = (Inr r, s')"
    by (simp add: tool_get_solvency_def buildDeps_def throwM_def split: if_splits)
  from chain_deps.solvency_verdict [OF this] show ?thesis
    by (auto simp: big_of_json_leq chain_backed_def)
qed

lemma fresh_solva_Inr: "m \<lparr>w_log = w_log s, so_chain = None\<rparr> = (r, s1) \<Longrightarrow> fresh_solva m s = (r, \<lparr>w_log = w_log s1\<rparr>)"
  by (simp add: fresh_solva_def)

lemma unreachable_not_verified:
  assumes "\<And>log rd. \<exists>e. so_meta ch log rd = Inl e"
    "sd_verifyOnChain (chainSolvencyDeps net ch env n) t p s = (Inr b, s')"
  shows "\<not> b"
proof
  assume b
  with assms(2) have "chain_backed ch t s'" by (auto intro: chain_deps.verify_backed)
  then obtain log rd m where "so_meta ch log rd = Inr m" by (auto simp: chain_backed_def)
  with assms(1) [of log rd] show False by auto
qed

text \<open>An unreachable contract is a breach, not an error.  If every contract read fails and the
  orchestrator answers the latest proof with integer totals, the tool answers
  \<open>Breach\<close>, not verified, with the totals, id and time of that proof.\<close>

theorem unreachable_contract_is_breach:
  assumes "t \<noteq> []"
    and "\<And>log rd. \<exists>e. so_meta ch log rd = Inl e"
    and "net (w_log s) (the_request (sv_orchestrator (new_solva (sdkConfig env n t))) ''GET''
            (u ''/v1/proofs/latest'') None) = Inr res" and "res_ok res"
    and "rs_json res = Inr pf" and "jprop pf ''publicInputs'' = Inr inp"
    and "jprop inp ''reservesTotal'' = Inr R" and "jprop inp ''liabilitiesTotal'' = Inr L"
    and "jprop pf ''id'' = Inr i" and "jprop pf ''publishedAt'' = Inr a"
  shows "fst (tool_get_solvency (buildDeps net ch env n) t s) =
    Inr \<lparr>sr_status = Breach, sr_solvent = False, sr_reservesTotal = R, sr_liabilitiesTotal = L,
         sr_proofId = i, sr_verifiedOnChain = False, sr_asOf = a\<rparr>"
proof -
  let ?d = "chainSolvencyDeps net ch env n"
  have "\<exists>s1. sd_getLatestProof ?d t s = (Inr pf, s1)"
    using assms(3-5) by (simp add: chainSolvencyDeps_def fresh_solva_def getLatestProof_def comp_simps)
  then obtain s1 where l: "sd_getLatestProof ?d t s = (Inr pf, s1)" by blast
  obtain b s2 where v: "sd_verifyOnChain ?d t pf s1 = (Inr b, s2)"
    using chain_deps.verify_answers by blast
  with unreachable_not_verified [OF assms(2) v] l assms show ?thesis
    by (simp add: tool_get_solvency_def buildDeps_def getSolvency_def bindM_def comp_simps)
qed

text \<open>The anomaly tool as wired cannot report anything.  Its history is the single latest
  proof, so every answer it gives is the empty list; and that proof is read from the
  network's default orchestrator, whatever \<open>SOLVA_ORCHESTRATOR_URL\<close> and
  \<open>SOLVA_API_TOKEN\<close> say, while the solvency tool beside it follows them.\<close>

theorem anomaly_tool_is_silent:
  assumes "tool_get_anomalies (buildDeps net ch env n) t s = (Inr fs, s')"
  shows "fs = [] \<and> (\<exists>rq. w_log s' = w_log s @ [Http rq]
    \<and> rq_url rq = nc_orchestratorUrl (DEFAULTS n) @ u ''/v1/proofs/latest''
    \<and> map_of (rq_headers rq) (u ''authorization'') = None)"
  using assms
  by (auto simp: tool_get_anomalies_def buildDeps_def bindM_Inr comp_simps fresh_solva_def getLatestProof_def
      detectAnomalies_def new_solva_def resolveConfig_def Let_def the_request_def request_headers_def
      split: if_splits)

text \<open>The latest-proof call cannot succeed against an orchestrator that insists on its
  documented query.  The SDK asks for \<open>/v1/proofs/latest\<close> without a \<open>tenant_id\<close> parameter;
  if the orchestrator answers 400 to every request for the latest proof whose URL has no
  query string (as its handler does), then for every tenant, network and environment
  whose base URL has none, the solvency tool fails with an \<open>OrchestratorError\<close> of status
  400.\<close>

theorem solvency_needs_tenant_query:
  assumes "t \<noteq> []"
    and "\<And>log rq. 63 \<notin> set (rq_url rq) \<Longrightarrow> \<exists>res. net log rq = Inr res \<and> rs_status res = 400"
    and "63 \<notin> set (nc_orchestratorUrl (rc_endpoints (resolveConfig (sdkConfig env n t))))"
  shows "\<exists>e. fst (tool_get_solvency (buildDeps net ch env n) t s) = Inl e
    \<and> is_orchestrator_error e \<and> exn_status e = Some 400"
proof -
  let ?oc = "sv_orchestrator (new_solva (sdkConfig env n t))"
  let ?rq = "the_request ?oc ''GET'' (u ''/v1/proofs/latest'') None"
  have "63 \<notin> set (rq_url ?rq)"
    using assms(3) by (simp add: the_request_def new_solva_def Let_def u_def)
  with assms(2) obtain res where "net (w_log s) ?rq = Inr res" "rs_status res = 400" by blast
  then show ?thesis
    using assms(1)
    by (simp add: tool_get_solvency_def buildDeps_def getSolvency_def chainSolvencyDeps_def bindM_def
        fresh_solva_def getLatestProof_def comp_simps res_ok_def)
qed

section \<open>Sample runs\<close>

definition no_env :: oracle_env where
  "no_env = \<lparr>oe_network = None, oe_orchestratorUrl = None, oe_rpcUrl = None, oe_contractId = None, oe_apiToken = None\<rparr>"

definition sample_inputs :: json where
  "sample_inputs = JObj [(u ''reservesTotal'', JStr (show_int 120)), (u ''liabilitiesTotal'', JStr (show_int 100))]"

definition sample_answer :: json where
  "sample_answer = JObj [(u ''contract_id'', JStr (u ''C1'')), (u ''id'', JStr (u ''7'')),
     (u ''publicInputs'', sample_inputs), (u ''publishedAt'', JNum 5)]"

definition sample_net :: sdk_net where
  "sample_net = (\<lambda>_ _. Inr (ok_json sample_answer))"

definition sample_chain :: soroban where
  "sample_chain = \<lparr>so_meta = \<lambda>_ _. Inr \<lparr>gm_root_h = [], gm_r = 120, gm_l = 100, gm_timestamp = 5\<rparr>,
                   so_bool = \<lambda>_ _. Inr True\<rparr>"

definition no_chain :: soroban where
  "no_chain = \<lparr>so_meta = \<lambda>_ _. Inl (js_error ''Error'' []), so_bool = \<lambda>_ _. Inl (js_error ''Error'' [])\<rparr>"

definition idle :: oracle_state where
  "idle = \<lparr>w_log = []\<rparr>"

lemma sample_answer_simps [simp]:
  "jprop sample_answer ''publicInputs'' = Inr sample_inputs"
  "jprop sample_inputs ''reservesTotal'' = Inr (JStr (show_int 120))"
  "jprop sample_inputs ''liabilitiesTotal'' = Inr (JStr (show_int 100))"
  "jprop sample_answer ''id'' = Inr (JStr (u ''7''))"
  "jprop sample_answer ''publishedAt'' = Inr (JNum 5)"
  "jprop sample_answer ''contract_id'' = Inr (JStr (u ''C1''))"
  "jprop sample_answer ''network'' = Inr JUndef"
  by (simp_all add: sample_answer_def sample_inputs_def)

lemma plain_acme [simp]: "encodeURIComponent (u ''acme'') = Inr (u ''acme'')"
  by (rule encodeURIComponent_plain) (simp add: u_def uri_unreserved_def is_digit_def)

lemma sample_solvency:
  "\<exists>r s'. tool_get_solvency (buildDeps sample_net sample_chain no_env Local) (u ''acme'') idle = (Inr r, s')
     \<and> sr_verifiedOnChain r \<and> sr_reservesTotal r = JStr (show_int 120) \<and> sr_liabilitiesTotal r = JStr (show_int 100)"
  by (simp add: tool_get_solvency_def buildDeps_def getSolvency_def chainSolvencyDeps_def bindM_def catchM_def
      fresh_solva_def getLatestProof_def getOnChainLatestProof_def resolveChain_def getTenantContract_def
      new_chain_client_def chain_getLatestProof_def registry_getLatestProof_def sample_net_def sample_chain_def
      comp_simps new_solva_def sdkConfig_def resolveConfig_def Let_def no_env_def env_set_def idle_def
      toProofMeta_def)

lemma solvency_verdict_sound_witness:
  "\<exists>r s'. tool_get_solvency (buildDeps sample_net sample_chain no_env Local) (u ''acme'') idle = (Inr r, s')
     \<and> sr_solvent r \<and> sr_status r = Solvent"
proof -
  obtain r s' where r: "tool_get_solvency (buildDeps sample_net sample_chain no_env Local) (u ''acme'') idle = (Inr r, s')"
    "sr_verifiedOnChain r" "sr_reservesTotal r = JStr (show_int 120)" "sr_liabilitiesTotal r = JStr (show_int 100)"
    using sample_solvency by blast
  from solvency_verdict_sound [OF r(1)] r(2-4) have "sr_solvent r \<and> sr_status r = Solvent" by simp
  with r(1) show ?thesis by blast
qed

lemma unreachable_contract_is_breach_witness:
  "\<exists>r. fst (tool_get_solvency (buildDeps sample_net no_chain no_env Local) (u ''acme'') idle) = Inr r
     \<and> sr_status r = Breach"
  by (subst unreachable_contract_is_breach [where res = "ok_json sample_answer" and pf = sample_answer
        and inp = sample_inputs and R = "JStr (show_int 120)" and L = "JStr (show_int 100)"
        and i = "JStr (u ''7'')" and a = "JNum 5"])
    (simp_all add: no_chain_def sample_net_def)

lemma anomaly_tool_is_silent_witness:
  "\<exists>fs s'. tool_get_anomalies (buildDeps sample_net no_chain no_env Local) (u ''acme'') idle = (Inr fs, s') \<and> fs = []"
proof -
  obtain fs s' where r: "tool_get_anomalies (buildDeps sample_net no_chain no_env Local) (u ''acme'') idle = (Inr fs, s')"
    by (simp add: tool_get_anomalies_def buildDeps_def bindM_def fresh_solva_def getLatestProof_def comp_simps
        sample_net_def detectAnomalies_def)
  from anomaly_tool_is_silent [OF r] r show ?thesis by blast
qed

definition strict_net :: sdk_net where
  "strict_net = (\<lambda>_ _. Inr \<lparr>rs_status = 400, rs_text = Inr [], rs_json = Inl (js_error ''SyntaxError'' [])\<rparr>)"

lemma solvency_needs_tenant_query_witness:
  "\<exists>e. fst (tool_get_solvency (buildDeps strict_net sample_chain no_env Local) (u ''acme'') idle) = Inl e
    \<and> exn_status e = Some 400"
proof -
  have "63 \<notin> set (nc_orchestratorUrl (rc_endpoints (resolveConfig (sdkConfig no_env Local (u ''acme'')))))"
    by (simp add: sdkConfig_def no_env_def env_set_def resolveConfig_def Let_def u_def)
  with solvency_needs_tenant_query [of "u ''acme''" strict_net no_env Local sample_chain idle]
  show ?thesis by (auto simp: strict_net_def)
qed

end
