(* ===== verification/Amounts.thy ===== *)
theory Amounts
  imports Json
begin

text \<open>
  Amounts as the web sites print and read them: apps/website/src/lib/amount.ts,
  lib/coverage.ts, lib/demo-institutions.ts (balances and their display), the coverage
  checker of the home page (features/home/hooks/use-coverage-check.ts) and
  apps/web/src/lib/format.ts.  All arithmetic is on integers of base units; the theorems are
  round trips between the printed and the exact amount.
\<close>

section \<open>lib/amount.ts\<close>

text \<open>The replacement of \<open>GROUPING\<close> by a comma on a string of digits.\<close>

fun group_digits :: "jstr \<Rightarrow> jstr" where
  "group_digits [] = []" |
  "group_digits (c # cs) =
     (if cs \<noteq> [] \<and> length cs mod 3 = 0 then c # 44 # group_digits cs else c # group_digits cs)"

definition formatAmount :: "int \<Rightarrow> nat \<Rightarrow> jstr" where
  "formatAmount baseUnits decimals =
     (let negative = baseUnits < 0;
          absolute = (if negative then - baseUnits else baseUnits);
          scale = 10 ^ decimals;
          whole = group_digits (show_int (absolute div scale));
          sign = (if negative then u ''-'' else [])
      in if decimals = 0 then sign @ whole
         else sign @ whole @ u ''.'' @ pad_left decimals (show_int (absolute mod scale)))"

definition clean_amount :: "jstr \<Rightarrow> jstr" where
  "clean_amount s = filter (\<lambda>c. c \<noteq> 44 \<and> \<not> is_ws c) s"

definition amount_re :: "jstr \<Rightarrow> bool" where
  "amount_re s \<longleftrightarrow> takeWhile is_digit s \<noteq> []
     \<and> (case dropWhile is_digit s of [] \<Rightarrow> True | c # cs \<Rightarrow> c = 46 \<and> (\<forall>d \<in> set cs. is_digit d))"

text \<open>The two parts of \<open>split\<close> at the dot that the destructuring reads.\<close>

definition dot_whole :: "jstr \<Rightarrow> jstr" where
  "dot_whole s = takeWhile (\<lambda>c. c \<noteq> 46) s"

definition dot_fraction :: "jstr \<Rightarrow> jstr" where
  "dot_fraction s = takeWhile (\<lambda>c. c \<noteq> 46) (drop 1 (dropWhile (\<lambda>c. c \<noteq> 46) s))"

definition parseAmount :: "jstr \<Rightarrow> nat \<Rightarrow> int option" where
  "parseAmount input decimals =
     (let cleaned = clean_amount input in
      if \<not> amount_re cleaned then None
      else let padded = take decimals (dot_fraction cleaned @ replicate decimals 48)
           in Some (int (dec_val (dot_whole cleaned)) * 10 ^ decimals
                    + int (dec_val (if padded = [] then u ''0'' else padded))))"

definition coveragePercent :: "int \<Rightarrow> int \<Rightarrow> jstr option" where
  "coveragePercent owed held =
     (if owed \<le> 0 then None
      else let basis = (held * 10000) sdiv owed; whole = basis sdiv 100
           in Some (show_int whole @ u ''.'' @ pad_left 2 (show_int (basis smod 100)) @ u ''%''))"

section \<open>lib/coverage.ts\<close>

datatype coverage_state = Covered | Short | Stale

datatype record_kind = Anchor | Custodial

record coverage_record =
  cr_institution :: jstr
  cr_asset :: jstr
  cr_kind :: record_kind
  cr_owed :: int
  cr_held :: int
  cr_decimals :: nat
  cr_state :: coverage_state
  cr_ledger :: int
  cr_provenAgo :: jstr
  cr_customers :: "int option"

definition coverageShortfall :: "coverage_record \<Rightarrow> int" where
  "coverageShortfall r = (if cr_owed r \<le> cr_held r then 0 else cr_owed r - cr_held r)"

definition heldShare :: "coverage_record \<Rightarrow> rat" where
  "heldShare r = (if cr_owed r \<le> 0 then 1 else of_int ((cr_held r * 10000) sdiv cr_owed r) / 10000)"

fun stateLabel :: "coverage_state \<Rightarrow> jstr" where
  "stateLabel Covered = u ''Covered''" |
  "stateLabel Short = u ''Short''" |
  "stateLabel Stale = u ''Stale''"

section \<open>use-coverage-check.ts\<close>

definition OWED :: int where "OWED = 24311840000"
definition DECIMALS :: nat where "DECIMALS = 2"
definition START :: int where "START = 10361"

record coverage_check =
  cc_basisPoints :: int
  cc_fresh :: bool

record coverage_view =
  cv_state :: coverage_state
  cv_held :: jstr
  cv_owed :: jstr
  cv_percent :: "jstr option"
  cv_shortfall :: jstr
  cv_surplus :: jstr

definition check_start :: coverage_check where
  "check_start = \<lparr>cc_basisPoints = START, cc_fresh = True\<rparr>"

definition coverage_view_of :: "coverage_check \<Rightarrow> coverage_view" where
  "coverage_view_of c =
     (let held = (OWED * cc_basisPoints c) sdiv 10000; covered = OWED \<le> held
      in \<lparr>cv_state = (if \<not> cc_fresh c then Stale else if covered then Covered else Short),
          cv_held = formatAmount held DECIMALS,
          cv_owed = formatAmount OWED DECIMALS,
          cv_percent = coveragePercent OWED held,
          cv_shortfall = formatAmount (if covered then 0 else OWED - held) DECIMALS,
          cv_surplus = formatAmount (if covered then held - OWED else 0) DECIMALS\<rparr>)"

section \<open>lib/demo-institutions.ts\<close>

definition STROOP_DIGITS :: nat where "STROOP_DIGITS = 7"

record balance_line =
  bl_asset_type :: jstr
  bl_asset_code :: "jstr option"
  bl_asset_issuer :: "jstr option"
  bl_balance :: jstr

definition pad_right :: "nat \<Rightarrow> jstr \<Rightarrow> jstr" where
  "pad_right k s = s @ replicate (k - length s) 48"

definition stroops_of_balance :: "jstr \<Rightarrow> jstr result" where
  "stroops_of_balance b =
     bindR (bigint_of (dot_whole b @ take STROOP_DIGITS (pad_right STROOP_DIGITS (dot_fraction b))))
       (\<lambda>n. Inr (show_int n))"

definition holdingBalance :: "balance_line list \<Rightarrow> jstr \<Rightarrow> jstr \<Rightarrow> jstr option result" where
  "holdingBalance balances code issuer =
     (case find (\<lambda>l. bl_asset_code l = Some code \<and> bl_asset_issuer l = Some issuer) balances of
        None \<Rightarrow> Inr None
      | Some line \<Rightarrow> bindR (stroops_of_balance (bl_balance line)) (\<lambda>s. Inr (Some s)))"

definition strip_zeros :: "jstr \<Rightarrow> jstr" where
  "strip_zeros s = rev (dropWhile (\<lambda>c. c = 48) (rev s))"

definition formatUsdc :: "jstr \<Rightarrow> jstr" where
  "formatUsdc stroops =
     (let padded = pad_left (STROOP_DIGITS + 1) stroops;
          whole = take (length padded - STROOP_DIGITS) padded;
          fraction = strip_zeros (drop (length padded - STROOP_DIGITS) padded)
      in whole @ (if fraction \<noteq> [] then u ''.'' @ fraction else []) @ u '' USDC'')"

section \<open>apps/web/src/lib/format.ts\<close>

definition formatAmount_web :: "jstr \<Rightarrow> jstr" where
  "formatAmount_web value =
     (let negative = take 1 value = u ''-'';
          kept = filter is_digit (if negative then drop 1 value else value);
          digits = (if kept = [] then u ''0'' else kept);
          grouped = group_digits digits
      in if negative then u ''-'' @ grouped else grouped)"

definition marginBps :: "jstr \<Rightarrow> jstr \<Rightarrow> int" where
  "marginBps reserves liabilities =
     (case bindR (bigint_of reserves) (\<lambda>r. bindR (bigint_of liabilities) (\<lambda>l.
             Inr (if l \<le> 0 then 0 else ((r - l) * 10000) sdiv l))) of
        Inr m \<Rightarrow> m | Inl _ \<Rightarrow> 0)"

definition round_div :: "int \<Rightarrow> int \<Rightarrow> int" where
  "round_div n d = (2 * n + d) div (2 * d)"

definition formatRelativeTime :: "int \<Rightarrow> int \<Rightarrow> jstr" where
  "formatRelativeTime now_ms unixSeconds =
     (let diff = max 0 (now_ms div 1000 - unixSeconds) in
      if diff < 45 then u ''just now''
      else if diff < 90 then u ''a minute ago''
      else let minutes = round_div diff 60 in
        if minutes < 60 then show_int minutes @ u '' minutes ago''
        else let hours = round_div diff 3600 in
          if hours < 24 then show_int hours @ u '' hour'' @ (if hours = 1 then [] else u ''s'') @ u '' ago''
          else let days = round_div diff 86400 in
            show_int days @ u '' day'' @ (if days = 1 then [] else u ''s'') @ u '' ago'')"

text \<open>\<open>0x2026\<close> is the ellipsis; \<open>slice(-0)\<close> is the whole string.\<close>

definition truncateMiddle :: "jstr \<Rightarrow> nat \<Rightarrow> nat \<Rightarrow> jstr" where
  "truncateMiddle value hd_len tl_len =
     (if length value \<le> hd_len + tl_len + 1 then value
      else take hd_len value @ [0x2026] @ (if tl_len = 0 then value else drop (length value - tl_len) value))"

section \<open>Printing and parsing\<close>

lemma clean_simps [simp]:
  "clean_amount [] = []" "clean_amount (xs @ ys) = clean_amount xs @ clean_amount ys"
  by (simp_all add: clean_amount_def)

lemma clean_digits: "\<forall>c \<in> set s. is_digit c \<Longrightarrow> clean_amount s = s"
  by (auto simp: clean_amount_def filter_id_conv is_digit_def dest: digit_not_ws)
    (metis digit_not_ws is_digit_def)

lemma clean_group: "\<forall>c \<in> set s. is_digit c \<Longrightarrow> clean_amount (group_digits s) = s"
proof (induction s)
  case (Cons c s)
  then have "is_digit c" by simp
  then have "c \<noteq> 44 \<and> \<not> is_ws c" using digit_not_ws by (auto simp: is_digit_def)
  with Cons show ?case by (simp add: clean_amount_def)
qed (simp add: clean_amount_def)

lemma clean_dot [simp]: "clean_amount (46 # s) = 46 # clean_amount s"
  by (simp add: clean_amount_def is_ws_def)

lemma digit_not_dot: "is_digit c \<Longrightarrow> c \<noteq> 46"
  by (auto simp: is_digit_def)

lemma digits_no_dot: "\<forall>c \<in> set s. is_digit c \<Longrightarrow> \<forall>c \<in> set s. c \<noteq> 46"
  by (auto simp: is_digit_def)

lemma dot_parts:
  assumes "\<forall>c \<in> set w. c \<noteq> 46" "\<forall>c \<in> set f. c \<noteq> 46"
  shows "dot_whole (w @ 46 # f) = w" "dot_fraction (w @ 46 # f) = f"
    "dot_whole w = w" "dot_fraction w = []"
  using assms by (simp_all add: dot_whole_def dot_fraction_def span_all span_stop)

lemma amount_re_dot:
  assumes "\<forall>c \<in> set w. is_digit c" "\<forall>c \<in> set f. is_digit c" "w \<noteq> []"
  shows "amount_re (w @ 46 # f)" "amount_re w"
proof -
  have "\<not> is_digit 46" by (simp add: is_digit_def)
  with assms show "amount_re (w @ 46 # f)" "amount_re w"
    by (simp_all add: amount_re_def span_all span_stop)
qed

text \<open>What \<open>parseAmount\<close> reads: the digits before the dot, and the first \<open>d\<close> digits after it.\<close>

lemma parseAmount_dot:
  assumes "clean_amount s = w @ 46 # f" "\<forall>c \<in> set w. is_digit c" "\<forall>c \<in> set f. is_digit c" "w \<noteq> []"
  shows "parseAmount s d = Some (int (dec_val w) * 10 ^ d + int (dec_val (take d (f @ replicate d 48))))"
  using assms amount_re_dot [OF assms(2-4)] dot_parts [OF digits_no_dot digits_no_dot, OF assms(2,3)]
  by (auto simp: parseAmount_def Let_def u_def dec_val_def)

lemma parseAmount_whole:
  assumes "clean_amount s = w" "\<forall>c \<in> set w. is_digit c" "w \<noteq> []"
  shows "parseAmount s d = Some (int (dec_val w) * 10 ^ d)"
proof -
  have "amount_re w" using amount_re_dot(2) [OF assms(2), of "[]"] assms(3) by simp
  moreover have "dot_whole w = w" "dot_fraction w = []"
    using dot_parts(3,4) [OF digits_no_dot [OF assms(2)], of "[]"] by simp_all
  moreover have "dec_val (replicate d 48) = 0" using dec_val_zeros [of d "[]"] by simp
  ultimately show ?thesis using assms by (auto simp: parseAmount_def Let_def u_def dec_val_def)
qed

lemma show_int_nonneg: "0 \<le> i \<Longrightarrow> show_int i = show_nat (nat i)"
  by (simp add: show_int_def)

lemma pad_show_length: "n < 10 ^ d \<Longrightarrow> 0 < d \<Longrightarrow> length (pad_left d (show_nat n)) = d"
  using length_show_nat_le [of n d] by simp

lemma parse_format_nonneg:
  assumes "0 \<le> n"
  shows "parseAmount (formatAmount n d) d = Some n"
proof -
  let ?s = "10 ^ d :: int" and ?w = "show_nat (nat (n div 10 ^ d))" and ?f = "show_nat (nat (n mod 10 ^ d))"
  have w: "\<forall>c \<in> set ?w. is_digit c" and f: "\<forall>c \<in> set (pad_left d ?f). is_digit c"
    using show_nat_all_digits pad_left_digits by blast+
  have nn: "0 \<le> n div ?s" "0 \<le> n mod ?s" using assms by (simp_all add: pos_imp_zdiv_nonneg_iff)
  show ?thesis
  proof (cases "d = 0")
    case True
    then have "clean_amount (formatAmount n d) = show_nat (nat n)"
      using assms by (simp add: formatAmount_def Let_def show_int_nonneg clean_group show_nat_all_digits)
    with True assms show ?thesis
      by (subst parseAmount_whole) (auto simp: show_nat_all_digits)
  next
    case False
    have c: "clean_amount (formatAmount n d) = ?w @ 46 # pad_left d ?f"
      using assms False nn w f
      by (simp add: formatAmount_def Let_def show_int_nonneg clean_group clean_digits u_def)
    have "nat (n mod 10 ^ d) < 10 ^ d"
      by (metis nn(2) nat_less_iff of_nat_numeral of_nat_power pos_mod_bound zero_less_numeral zero_less_power)
    with False have "length (pad_left d ?f) = d" by (intro pad_show_length) simp_all
    then have "take d (pad_left d ?f @ replicate d 48) = pad_left d ?f" by simp
    with parseAmount_dot [OF c w f, of d] nn show ?thesis by (simp add: div_mult_mod_eq)
  qed
qed

lemma parse_format_neg: "n < 0 \<Longrightarrow> parseAmount (formatAmount n d) d = None"
  by (simp add: parseAmount_def formatAmount_def Let_def u_def amount_re_def clean_amount_def is_ws_def is_digit_def)

text \<open>C6: Printing an amount and reading it back gives the amount, for every number of decimals:
  the grouping commas, the padding of the fraction and the truncation to \<open>decimals\<close> digits
  lose nothing.  A negative amount prints with a sign, which the reader rejects rather
  than misreads.\<close>

theorem amount_round_trip:
  "parseAmount (formatAmount n d) d = (if n < 0 then None else Some n)"
  by (simp add: parse_format_nonneg parse_format_neg)

lemma sdiv_nonneg' [simp]: "0 \<le> x \<Longrightarrow> 0 < d \<Longrightarrow> (x::int) smod d = x mod d"
  by (metis add_left_cancel mult_div_mod_eq mult_sdiv_smod_eq sdiv_nonneg)

lemma coveragePercent_nonneg:
  assumes "0 < owed" "0 \<le> held"
  shows "coveragePercent owed held = Some (fixed_digits 2 (nat (held * 10000 div owed)) @ u ''%'')"
proof -
  have b: "0 \<le> held * 10000 div owed" using assms by (simp add: pos_imp_zdiv_nonneg_iff)
  with assms show ?thesis
    by (simp add: coveragePercent_def Let_def sdiv_nonneg fixed_digits_def show_int_nonneg
        pos_imp_zdiv_nonneg_iff nat_div_distrib nat_mod_distrib)
qed

text \<open>The printed coverage never overstates.  For a positive amount owed and a non-negative
  amount held, the percentage is \<open>b / 100\<close> with two decimals, where \<open>b\<close> is the largest number of
  basis points with \<open>b owed <= 10000 held\<close>; so it reads 100.00% or more exactly when the
  amount held covers the amount owed.\<close>

theorem coverage_percent_sound:
  assumes "0 < owed" "0 \<le> held"
  shows "\<exists>b. coveragePercent owed held = Some (fixed_digits 2 b @ u ''%'')
    \<and> int b * owed \<le> 10000 * held \<and> 10000 * held < (int b + 1) * owed
    \<and> (10000 \<le> b \<longleftrightarrow> owed \<le> held)"
proof (intro exI conjI)
  let ?b = "held * 10000 div owed"
  have b: "0 \<le> ?b" using assms by (simp add: pos_imp_zdiv_nonneg_iff)
  show "coveragePercent owed held = Some (fixed_digits 2 (nat ?b) @ u ''%'')"
    by (rule coveragePercent_nonneg [OF assms])
  show "int (nat ?b) * owed \<le> 10000 * held"
    using b assms le_zdiv_iff [of owed ?b "held * 10000"] by (simp add: mult.commute)
  show "10000 * held < (int (nat ?b) + 1) * owed"
    using b assms le_zdiv_iff [of owed "?b + 1" "held * 10000"] by (simp add: mult.commute)
  show "10000 \<le> nat ?b \<longleftrightarrow> owed \<le> held"
    using b assms le_zdiv_iff [of owed 10000 "held * 10000"] by (simp add: le_nat_iff mult.commute)
qed

lemma coverage_percent_sound_witness:
  "\<exists>b. coveragePercent 290455000 286100410 = Some (fixed_digits 2 b @ u ''%'') \<and> b < 10000"
  using coverage_percent_sound [of 290455000 286100410] by (force simp: not_le)

section \<open>The coverage checker of the home page\<close>

lemma owed_exact: "0 \<le> bp \<Longrightarrow> (OWED * bp) sdiv 10000 = 2431184 * bp"
proof -
  assume "0 \<le> bp"
  have "(2431184 * bp) * 10000 div 10000 = 2431184 * bp" by (rule nonzero_mult_div_cancel_right) simp
  with \<open>0 \<le> bp\<close> show ?thesis by (simp add: OWED_def sdiv_nonneg mult.commute mult.left_commute)
qed

text \<open>The coverage checker tells one consistent story.  For every slider position
  \<open>bp >= 0\<close> the percentage shown is exactly \<open>bp / 100\<close>; a fresh record is covered exactly from
  10000 basis points on; and the printed amounts read back to integers with
  held + shortfall = owed + surplus, one of shortfall and surplus being zero.\<close>

theorem coverage_check_consistent:
  assumes "0 \<le> cc_basisPoints c"
  shows "cv_percent (coverage_view_of c) = Some (fixed_digits 2 (nat (cc_basisPoints c)) @ u ''%'')
    \<and> cv_state (coverage_view_of c) =
        (if \<not> cc_fresh c then Stale else if 10000 \<le> cc_basisPoints c then Covered else Short)
    \<and> (\<exists>h s p. parseAmount (cv_held (coverage_view_of c)) 2 = Some h
        \<and> parseAmount (cv_shortfall (coverage_view_of c)) 2 = Some s
        \<and> parseAmount (cv_surplus (coverage_view_of c)) 2 = Some p
        \<and> parseAmount (cv_owed (coverage_view_of c)) 2 = Some OWED
        \<and> h + s = OWED + p \<and> (s = 0 \<or> p = 0))"
proof -
  let ?bp = "cc_basisPoints c" and ?held = "2431184 * cc_basisPoints c"
  have covered: "OWED \<le> ?held \<longleftrightarrow> 10000 \<le> ?bp" by (simp add: OWED_def)
  have "?held * 10000 div OWED = ?bp"
    using nonzero_mult_div_cancel_left [of OWED ?bp] by (simp add: OWED_def)
  then have pct: "coveragePercent OWED ?held = Some (fixed_digits 2 (nat ?bp) @ u ''%'')"
    using assms coveragePercent_nonneg [of OWED ?held] by (simp add: OWED_def)
  have pos: "0 \<le> OWED" by (simp add: OWED_def)
  show ?thesis
  proof (cases "10000 \<le> ?bp")
    case True
    with assms covered pct pos show ?thesis
      by (simp add: coverage_view_of_def Let_def owed_exact DECIMALS_def parse_format_nonneg)
  next
    case False
    with assms covered pct pos show ?thesis
      by (simp add: coverage_view_of_def Let_def owed_exact DECIMALS_def parse_format_nonneg)
  qed
qed

lemma coverage_check_consistent_witness:
  "cv_percent (coverage_view_of check_start) = Some (fixed_digits 2 10361 @ u ''%'')
   \<and> cv_state (coverage_view_of check_start) = Covered"
  using coverage_check_consistent [of check_start] by (simp add: check_start_def START_def)

section \<open>Stroops\<close>

lemma strip_zeros_pad: "strip_zeros f @ replicate (length f - length (strip_zeros f)) 48 = f"
proof -
  let ?z = "takeWhile (\<lambda>c. c = 48) (rev f)"
  have "replicate (length ?z) 48 = ?z"
    by (rule replicate_length_same) (auto dest: set_takeWhileD)
  then have z: "rev ?z = replicate (length ?z) 48" by (metis rev_replicate)
  have "rev f = ?z @ dropWhile (\<lambda>c. c = 48) (rev f)" by simp
  then have "f = strip_zeros f @ rev ?z" unfolding strip_zeros_def by (metis rev_append rev_rev_ident)
  then have f: "f = strip_zeros f @ replicate (length ?z) 48" by (simp only: z)
  then have "length f - length (strip_zeros f) = length ?z"
    by (metis add_diff_cancel_left' length_append length_replicate)
  with f show ?thesis by simp
qed

lemma split_last7: "8 \<le> length p \<Longrightarrow> length (drop (length p - 7) p) = 7 \<and> take (length p - 7) p \<noteq> []"
  by auto

lemma strip_zeros_length: "length (strip_zeros f) \<le> length f"
  by (simp add: strip_zeros_def length_dropWhile_le order.trans [OF length_dropWhile_le])

lemma strip_zeros_set: "set (strip_zeros f) \<subseteq> set f"
  by (auto simp: strip_zeros_def dest: set_dropWhileD)

text \<open>A Horizon balance survives its trip through the sandbox.  The balance
  \<open>n / 10^7\<close> as Horizon prints it (seven decimals) becomes the decimal string of \<open>n\<close>
  stroops; and what the panel prints for \<open>n\<close> stroops, without its unit, reads back as
  exactly \<open>n\<close>.\<close>

theorem stroops_round_trip:
  "stroops_of_balance (fixed_digits 7 n) = Inr (show_nat n)
   \<and> (\<exists>t. formatUsdc (show_nat n) = t @ u '' USDC'' \<and> parseAmount t 7 = Some (int n))"
proof
  let ?w = "show_nat (n div 10 ^ 7)" and ?f = "pad_left 7 (show_nat (n mod 10 ^ 7))"
  have lf: "length ?f = 7" by (rule pad_show_length) simp_all
  have d: "\<forall>c \<in> set ?w. is_digit c" "\<forall>c \<in> set ?f. is_digit c"
    using show_nat_all_digits pad_left_digits by blast+
  have parts: "dot_whole (fixed_digits 7 n) = ?w" "dot_fraction (fixed_digits 7 n) = ?f"
    using dot_parts(1,2) [OF digits_no_dot digits_no_dot, OF d] by (simp_all add: fixed_digits_def u_def)
  have "bigint_parse (?w @ ?f) = Some (int (dec_val (?w @ ?f)))"
    by (rule bigint_digits) (use d in auto)
  also have "dec_val (?w @ ?f) = n" using lf by (simp add: dec_val_append)
  finally have "bigint_of (?w @ ?f) = Inr (int n)" by (simp add: bigint_of_Inr)
  then show "stroops_of_balance (fixed_digits 7 n) = Inr (show_nat n)"
    using lf by (simp add: stroops_of_balance_def parts STROOP_DIGITS_def pad_right_def show_int_nonneg)
  let ?p = "pad_left 8 (show_nat n)"
  let ?k = "length ?p - 7"
  let ?ww = "take ?k ?p" and ?ff = "drop ?k ?p"
  have dp: "\<forall>c \<in> set ?p. is_digit c" using show_nat_all_digits pad_left_digits by blast
  then have dw: "\<forall>c \<in> set ?ww. is_digit c" and dff: "\<forall>c \<in> set ?ff. is_digit c"
    by (auto dest: in_set_takeD in_set_dropD)
  then have ds: "\<forall>c \<in> set (strip_zeros ?ff). is_digit c" using strip_zeros_set by blast
  have "8 \<le> length ?p" by simp
  then have len: "length ?ff = 7" "?ww \<noteq> []" using split_last7 by blast+
  have val: "dec_val ?ww * 10 ^ 7 + dec_val ?ff = n"
    using dec_val_append [of ?ww ?ff] len by simp
  let ?t = "?ww @ (if strip_zeros ?ff \<noteq> [] then u ''.'' @ strip_zeros ?ff else [])"
  have f: "formatUsdc (show_nat n) = ?t @ u '' USDC''"
    by (simp add: formatUsdc_def Let_def STROOP_DIGITS_def)
  have "parseAmount ?t 7 = Some (int n)"
  proof (cases "strip_zeros ?ff = []")
    case True
    then have "dec_val ?ff = 0" using strip_zeros_pad [of ?ff] dec_val_zeros [of 7 "[]"] len by simp
    with val have v: "dec_val ?ww * 10 ^ 7 = n" by simp
    have "parseAmount ?ww 7 = Some (int (dec_val ?ww) * 10 ^ 7)"
      by (rule parseAmount_whole [OF clean_digits [OF dw] dw len(2)])
    with True v show ?thesis by simp
  next
    case False
    have "take 7 (strip_zeros ?ff @ replicate 7 48) = ?ff"
      using strip_zeros_pad [of ?ff] strip_zeros_length [of ?ff] len by (simp add: min_def)
    moreover have "clean_amount (?ww @ 46 # strip_zeros ?ff) = ?ww @ 46 # strip_zeros ?ff"
      using dw ds by (simp add: clean_digits)
    ultimately show ?thesis
      using parseAmount_dot [OF _ dw ds len(2), of "?ww @ 46 # strip_zeros ?ff" 7] False val
      by (simp add: u_def flip: of_nat_mult of_nat_add)
  qed
  with f show "\<exists>t. formatUsdc (show_nat n) = t @ u '' USDC'' \<and> parseAmount t 7 = Some (int n)" by blast
qed

section \<open>Margins and relative times\<close>

text \<open>What a margin says.  For integer totals with positive liabilities, the margin in basis
  points is never negative when reserves cover liabilities, and is negative exactly when
  the shortfall is at least one basis point of the liabilities: a smaller shortfall shows as
  zero, so only a comparison of the totals, not the margin, decides coverage.\<close>

theorem marginBps_sign:
  assumes "bigint_parse reserves = Some r" "bigint_parse liabilities = Some l" "0 < l"
  shows "(l \<le> r \<longrightarrow> 0 \<le> marginBps reserves liabilities)
    \<and> (marginBps reserves liabilities < 0 \<longleftrightarrow> l \<le> 10000 * (l - r))
    \<and> (0 < marginBps reserves liabilities \<longleftrightarrow> l \<le> 10000 * (r - l))"
proof -
  have m: "marginBps reserves liabilities = ((r - l) * 10000) sdiv l"
    using assms by (simp add: marginBps_def bigint_of_def)
  have "(m' < 0 \<longleftrightarrow> m' \<le> - 1) \<and> (0 < m' \<longleftrightarrow> 1 \<le> m')" for m' :: int by auto
  then show ?thesis
    unfolding m using le_sdiv_iff [OF assms(3), of 1 "(r - l) * 10000"] sdiv_le_iff [OF assms(3), of 1 "(r - l) * 10000"]
      assms(3) by (auto simp: sdiv_nonneg pos_imp_zdiv_nonneg_iff algebra_simps)
qed

lemma marginBps_sign_witness:
  "0 \<le> marginBps (show_nat 99999) (show_nat 100000)"
  using marginBps_sign [of "show_nat 99999" 99999 "show_nat 100000" 100000] by simp

lemma round_div_bounds:
  assumes "0 < d"
  shows "2 * round_div n d * d \<le> 2 * n + d" "2 * n + d < 2 * round_div n d * d + 2 * d"
proof -
  have "0 < 2 * d" using assms by simp
  from le_zdiv_iff [OF this, of "round_div n d" "2 * n + d"] le_zdiv_iff [OF this, of "round_div n d + 1" "2 * n + d"]
  show "2 * round_div n d * d \<le> 2 * n + d" "2 * n + d < 2 * round_div n d * d + 2 * d"
    by (simp_all add: round_div_def algebra_simps)
qed

definition relative_text :: "int \<Rightarrow> string \<Rightarrow> jstr" where
  "relative_text k unit_name = show_int k @ u '' '' @ u unit_name @ (if k = 1 then [] else u ''s'') @ u '' ago''"

text \<open>Relative times are well formed and accurate.  The text is one of the two fixed phrases, or
  a count of minutes in 2..59, hours in 1..23 or days from 1 on, the unit in the plural
  exactly when the count is not 1, and the count is the elapsed time in that unit rounded to
  the nearest: no gap reads as \<open>0 hours\<close>, \<open>60 minutes\<close> or \<open>24 hours\<close>.\<close>

theorem relative_time_well_formed:
  "let diff = max 0 (now_ms div 1000 - t); s = formatRelativeTime now_ms t in
     (s = u ''just now'' \<and> diff < 45) \<or> (s = u ''a minute ago'' \<and> 45 \<le> diff \<and> diff < 90)
     \<or> (\<exists>k. s = relative_text k ''minute'' \<and> 2 \<le> k \<and> k < 60 \<and> \<bar>2 * (diff - 60 * k)\<bar> \<le> 60)
     \<or> (\<exists>k. s = relative_text k ''hour'' \<and> 1 \<le> k \<and> k < 24 \<and> \<bar>2 * (diff - 3600 * k)\<bar> \<le> 3600)
     \<or> (\<exists>k. s = relative_text k ''day'' \<and> 1 \<le> k \<and> \<bar>2 * (diff - 86400 * k)\<bar> \<le> 86400)"
proof -
  define diff where "diff = max 0 (now_ms div 1000 - t)"
  have m: "120 * round_div diff 60 \<le> 2 * diff + 60" "2 * diff + 60 < 120 * round_div diff 60 + 120"
    using round_div_bounds [of 60 diff] by simp_all
  have h: "7200 * round_div diff 3600 \<le> 2 * diff + 3600" "2 * diff + 3600 < 7200 * round_div diff 3600 + 7200"
    using round_div_bounds [of 3600 diff] by simp_all
  have d: "172800 * round_div diff 86400 \<le> 2 * diff + 86400" "2 * diff + 86400 < 172800 * round_div diff 86400 + 172800"
    using round_div_bounds [of 86400 diff] by simp_all
  have text_m: "show_int k @ u '' minutes ago'' = relative_text k ''minute''" if "k \<noteq> 1" for k
    using that by (simp add: relative_text_def flip: u_append)
  have text_hd: "show_int k @ u '' hour'' @ (if k = 1 then [] else u ''s'') @ u '' ago'' = relative_text k ''hour''"
    "show_int k @ u '' day'' @ (if k = 1 then [] else u ''s'') @ u '' ago'' = relative_text k ''day''" for k
    by (simp_all add: relative_text_def flip: u_append)
  consider "diff < 45" | "45 \<le> diff" "diff < 90" | "90 \<le> diff" "round_div diff 60 < 60"
    | "60 \<le> round_div diff 60" "round_div diff 3600 < 24" | "60 \<le> round_div diff 60" "24 \<le> round_div diff 3600"
    by linarith
  then show ?thesis
  proof cases
    case 3
    then have "formatRelativeTime now_ms t = relative_text (round_div diff 60) ''minute''"
      using m by (simp add: formatRelativeTime_def Let_def text_m flip: diff_def)
    with 3 m show ?thesis unfolding Let_def diff_def [symmetric] by (auto simp: abs_le_iff)
  next
    case 4
    then have "formatRelativeTime now_ms t = relative_text (round_div diff 3600) ''hour''"
      using m by (simp add: formatRelativeTime_def Let_def text_hd flip: diff_def)
    moreover have "\<bar>2 * (diff - 3600 * round_div diff 3600)\<bar> \<le> 3600" "1 \<le> round_div diff 3600"
      using 4 m h by (auto simp: abs_le_iff)
    ultimately show ?thesis using 4 unfolding Let_def diff_def [symmetric] by blast
  next
    case 5
    then have "formatRelativeTime now_ms t = relative_text (round_div diff 86400) ''day''"
      using m by (simp add: formatRelativeTime_def Let_def text_hd flip: diff_def)
    moreover have "\<bar>2 * (diff - 86400 * round_div diff 86400)\<bar> \<le> 86400" "1 \<le> round_div diff 86400"
      using 5 h d by (auto simp: abs_le_iff)
    ultimately show ?thesis unfolding Let_def diff_def [symmetric] by blast
  qed (auto simp: formatRelativeTime_def Let_def simp flip: diff_def)
qed

end
