(* ===== verification/Sandbox_Api.thy ===== *)
theory Sandbox_Api
  imports Oracle Amounts
begin

text \<open>
  The sandbox routes of the marketing site (apps/website/src/app/api/sandbox/*/route.ts) with
  the modules they share (lib/demo-institutions.ts, lib/sandbox-backend.ts,
  lib/sandbox-paths.ts, lib/horizon-reserves.ts, lib/onchain-record.ts).  A route is a
  computation over the log of outgoing requests that returns a reply; the
  orchestrator, the sandbox services, Horizon and the ledger are the network and ledger
  parameters.  \<open>JSON.parse\<close> of an error detail is the parameter \<open>parse\<close>.
\<close>

section \<open>The demo institutions\<close>

datatype reserve_source = Attested | OnChain (rs_account: jstr) (rs_code: jstr) (rs_issuer: jstr)

record demo_institution =
  di_name :: jstr
  di_kind :: jstr
  di_owes :: jstr
  di_tenantId :: jstr
  di_reserves :: reserve_source

definition TESTNET_USDC_ISSUER :: jstr where
  "TESTNET_USDC_ISSUER = u ''GBBD47IF6LWK7P7MDEVSCWR7DPUWV3NY3DTQEVFL4NAT4AQH3ZLLFLA5''"

definition DEMO_INSTITUTIONS :: "demo_institution list" where
  "DEMO_INSTITUTIONS =
     [\<lparr>di_name = u ''Solstice'', di_kind = u ''Custodial app'', di_owes = u ''Customer balances, committed as one value'',
       di_tenantId = u ''22222222-2222-2222-2222-222222222222'', di_reserves = Attested\<rparr>,
      \<lparr>di_name = u ''Kestrel'', di_kind = u ''Anchor'', di_owes = u ''Holder balances, committed as one value'',
       di_tenantId = u ''11111111-1111-1111-1111-111111111111'', di_reserves = Attested\<rparr>,
      \<lparr>di_name = u ''Harbor Wallet'', di_kind = u ''Custodial app'',
       di_owes = u ''Customer balances in USDC, with reserves read from Stellar'',
       di_tenantId = u ''33333333-3333-3333-3333-333333333333'',
       di_reserves = OnChain (u ''GCPBHMM7KSE74LO757SPKBE3PHWYRTKKKVBCVZURBFM6B2GSOPAJAR4R'') (u ''USDC'') TESTNET_USDC_ISSUER\<rparr>]"

definition demoInstitution :: "json \<Rightarrow> demo_institution option" where
  "demoInstitution tenantId = find (\<lambda>i. JStr (di_tenantId i) = tenantId) DEMO_INSTITUTIONS"

section \<open>The back ends\<close>

record sandbox_env =
  se_orchestrator_url :: "jstr option"
  se_sandbox_url :: "jstr option"
  se_orch_api_token :: "jstr option"
  se_client_id :: "jstr option"
  se_accounts :: "jstr option"
  se_horizon_url :: "jstr option"
  se_rpc_url :: "jstr option"

definition env_or :: "jstr option \<Rightarrow> string \<Rightarrow> jstr" where
  "env_or v d = (case v of Some s \<Rightarrow> s | None \<Rightarrow> u d)"

definition ORCHESTRATOR_URL :: "sandbox_env \<Rightarrow> jstr" where
  "ORCHESTRATOR_URL env = env_or (se_orchestrator_url env) ''http://localhost:8080''"

definition SANDBOX_URL :: "sandbox_env \<Rightarrow> jstr" where
  "SANDBOX_URL env = env_or (se_sandbox_url env) ''http://localhost:8090''"

definition HORIZON_URL :: "sandbox_env \<Rightarrow> jstr" where
  "HORIZON_URL env = env_or (se_horizon_url env) ''https://horizon-testnet.stellar.org''"

definition RPC_URL :: "sandbox_env \<Rightarrow> jstr" where
  "RPC_URL env = env_or (se_rpc_url env) ''https://soroban-testnet.stellar.org''"

definition RESERVE_CLIENT_ID :: "sandbox_env \<Rightarrow> jstr" where
  "RESERVE_CLIENT_ID env = env_or (se_client_id env) ''solva-orchestrator''"

text \<open>\<open>split\<close> at a separator character.\<close>

fun split_at :: "nat \<Rightarrow> jstr \<Rightarrow> jstr list" where
  "split_at c [] = [[]]" |
  "split_at c (x # xs) =
     (if x = c then [] # split_at c xs
      else case split_at c xs of [] \<Rightarrow> [[x]] | w # ws \<Rightarrow> (x # w) # ws)"

definition RESERVE_ACCOUNTS :: "sandbox_env \<Rightarrow> jstr list" where
  "RESERVE_ACCOUNTS env =
     filter (\<lambda>a. a \<noteq> []) (List.map trim
       (split_at 44 (env_or (se_accounts env) ''acct-anchor,acct-beacon,acct-cedar'')))"

definition orchestratorHeaders :: "sandbox_env \<Rightarrow> (jstr \<times> jstr) list \<Rightarrow> (jstr \<times> jstr) list" where
  "orchestratorHeaders env extra =
     extra @ (if env_or (se_orch_api_token env) '''' \<noteq> []
              then [(u ''authorization'', u ''Bearer '' @ env_or (se_orch_api_token env) '''')] else [])"

definition unreachable :: "exn \<Rightarrow> json" where
  "unreachable e = JObj [(u ''error'', JStr (u ''backend unreachable: '' @ show_exn e))]"

type_synonym api_state = "chain_read world"

definition http_get :: "sdk_net \<Rightarrow> jstr \<Rightarrow> (jstr \<times> jstr) list \<Rightarrow> (api_state, response) comp" where
  "http_get net url headers =
     fetchM net \<lparr>rq_method = u ''GET'', rq_url = url, rq_headers = headers, rq_body = None\<rparr>"

definition http_post :: "sdk_net \<Rightarrow> jstr \<Rightarrow> (jstr \<times> jstr) list \<Rightarrow> json option \<Rightarrow> (api_state, response) comp" where
  "http_post net url headers body =
     fetchM net \<lparr>rq_method = u ''POST'', rq_url = url, rq_headers = headers, rq_body = body\<rparr>"

text \<open>\<open>new URLSearchParams({ code }).toString()\<close>: form encoding, where a space is a plus and an
  unpaired surrogate becomes the replacement character.\<close>

definition form_plain :: "nat \<Rightarrow> bool" where
  "form_plain c \<longleftrightarrow> is_digit c \<or> (65 \<le> c \<and> c \<le> 90) \<or> (97 \<le> c \<and> c \<le> 122) \<or> c \<in> {42, 45, 46, 95}"

fun form_encode :: "jstr \<Rightarrow> jstr" where
  "form_encode [] = []" |
  "form_encode (c # cs) =
     (if form_plain c then c # form_encode cs
      else if c = 32 then 43 # form_encode cs
      else if 0xDC00 \<le> c \<and> c \<le> 0xDFFF then pct_point 0xFFFD @ form_encode cs
      else if 0xD800 \<le> c \<and> c \<le> 0xDBFF then
        (case cs of
           [] \<Rightarrow> pct_point 0xFFFD
         | d # ds \<Rightarrow>
             if 0xDC00 \<le> d \<and> d \<le> 0xDFFF then
               pct_point ((c - 0xD800) * 0x400 + (d - 0xDC00) + 0x10000) @ form_encode ds
             else pct_point 0xFFFD @ form_encode cs)
      else pct_point c @ form_encode cs)"

definition code_form :: "json \<Rightarrow> json" where
  "code_form code = JStr (u ''code='' @ form_encode (json_to_string code))"

definition authorize_url :: "sandbox_env \<Rightarrow> jstr result" where
  "authorize_url env =
     bindR (encodeURIComponent (RESERVE_CLIENT_ID env)) (\<lambda>c.
     Inr (SANDBOX_URL env @ u ''/oauth/authorize?client_id='' @ c))"

definition token_request :: "sdk_net \<Rightarrow> sandbox_env \<Rightarrow> json \<Rightarrow> (api_state, response) comp" where
  "token_request net env code =
     http_post net (SANDBOX_URL env @ u ''/oauth/token'')
       [(u ''content-type'', u ''application/x-www-form-urlencoded'')] (Some (code_form code))"

definition reserveSourceToken :: "sdk_net \<Rightarrow> sandbox_env \<Rightarrow> (api_state, json) comp" where
  "reserveSourceToken net env =
     bindM (liftR (authorize_url env)) (\<lambda>url.
     bindM (http_get net url []) (\<lambda>auth.
     if \<not> res_ok auth then retM JNull
     else bindM (liftR (rs_json auth)) (\<lambda>a. bindM (liftR (jprop a ''code'')) (\<lambda>code.
          bindM (token_request net env code) (\<lambda>token.
          if \<not> res_ok token then retM JNull
          else bindM (liftR (rs_json token)) (\<lambda>b. liftR (jprop b ''access_token'')))))))"

text \<open>\<open>base.replace(/\/+$/, "")\<close>.\<close>

definition strip_slashes :: "jstr \<Rightarrow> jstr" where
  "strip_slashes s = rev (dropWhile (\<lambda>c. c = 47) (rev s))"

definition reserveBalanceUrl :: "jstr \<Rightarrow> jstr \<Rightarrow> jstr result" where
  "reserveBalanceUrl base account =
     bindR (encodeURIComponent account) (\<lambda>a.
     Inr (strip_slashes base @ u ''/v1/accounts/'' @ a @ u ''/balance''))"

section \<open>Reads from Horizon and the ledger\<close>

text \<open>The balance lines of an account answer; a value without a list of lines throws.\<close>

definition json_lines :: "json \<Rightarrow> balance_line list result" where
  "json_lines v =
     bindR (jprop v ''balances'') (\<lambda>b.
     json_map b (\<lambda>l. bindR (jprop l ''asset_code'') (\<lambda>c. bindR (jprop l ''asset_issuer'') (\<lambda>i.
       bindR (jprop l ''balance'') (\<lambda>a.
       Inr \<lparr>bl_asset_type = [],
            bl_asset_code = (case c of JStr s \<Rightarrow> Some s | _ \<Rightarrow> None),
            bl_asset_issuer = (case i of JStr s \<Rightarrow> Some s | _ \<Rightarrow> None),
            bl_balance = json_to_string a\<rparr>)))))"

definition readHolding :: "sdk_net \<Rightarrow> sandbox_env \<Rightarrow> jstr \<Rightarrow> jstr \<Rightarrow> jstr \<Rightarrow> (api_state, jstr) comp" where
  "readHolding net env account code issuer =
     bindM (liftR (encodeURIComponent account)) (\<lambda>a.
     bindM (http_get net (HORIZON_URL env @ u ''/accounts/'' @ a) []) (\<lambda>res.
     if \<not> res_ok res then
       throwM (js_error ''Error'' (u ''Horizon returned HTTP '' @ show_int (rs_status res) @ u '' for the reserve account''))
     else bindM (liftR (rs_json res)) (\<lambda>v. bindM (liftR (json_lines v)) (\<lambda>ls.
          bindM (liftR (holdingBalance ls code issuer)) (\<lambda>b.
          case b of
            None \<Rightarrow> throwM (js_error ''Error'' (u ''the reserve account holds no '' @ code))
          | Some s \<Rightarrow> retM s)))))"

definition record_client :: "sandbox_env \<Rightarrow> jstr \<Rightarrow> solva" where
  "record_client env tenantId = new_solva
     \<lparr>sc_network = Testnet, sc_tenant = tenantId,
      sc_endpoints = Some \<lparr>pc_orchestratorUrl = Some (ORCHESTRATOR_URL env), pc_rpcUrl = Some (RPC_URL env),
                          pc_networkPassphrase = None, pc_contractId = None\<rparr>,
      sc_apiKey = None\<rparr>"

definition readOnChainRecord :: "sdk_net \<Rightarrow> soroban \<Rightarrow> sandbox_env \<Rightarrow> jstr \<Rightarrow> (api_state, json) comp" where
  "readOnChainRecord net ch env tenantId =
     bindM (fresh_solva (getOnChainLatestProof net ch (record_client env tenantId))) (\<lambda>m.
     retM (JObj [(u ''reserves'', JStr (pm_reservesTotal m)), (u ''liabilities'', JStr (pm_liabilitiesTotal m)),
                 (u ''rootHash'', JStr (pm_rootHash m)), (u ''timestamp'', JNum (pm_timestamp m))]))"

definition checkInclusionOnChain ::
  "sdk_net \<Rightarrow> soroban \<Rightarrow> sandbox_env \<Rightarrow> jstr \<Rightarrow> jstr \<Rightarrow> (api_state, bool) comp" where
  "checkInclusionOnChain net ch env tenantId ref =
     bindM (fresh_solva (verifyInclusion net ch (record_client env tenantId) (JStr ref))) (\<lambda>r. retM (fst r))"

section \<open>Routes\<close>

record api_reply =
  ap_status :: int
  ap_body :: json

definition reply :: "int \<Rightarrow> json \<Rightarrow> api_reply" where
  "reply st body = \<lparr>ap_status = st, ap_body = body\<rparr>"

definition error_reply :: "int \<Rightarrow> jstr \<Rightarrow> api_reply" where
  "error_reply st msg = reply st (JObj [(u ''error'', JStr msg)])"

definition guarded :: "(api_state, api_reply) comp \<Rightarrow> (api_state, api_reply) comp" where
  "guarded m = catchM m (\<lambda>e. retM (reply 502 (unreachable e)))"

subsection \<open>connect\<close>

definition connect_POST :: "sdk_net \<Rightarrow> sandbox_env \<Rightarrow> (api_state, api_reply) comp" where
  "connect_POST net env = guarded
     (bindM (liftR (authorize_url env)) (\<lambda>url.
      bindM (http_get net url []) (\<lambda>auth.
      if \<not> res_ok auth then retM (error_reply 502 (u ''authorisation failed''))
      else bindM (liftR (rs_json auth)) (\<lambda>a. bindM (liftR (jprop a ''code'')) (\<lambda>code.
           bindM (token_request net env code) (\<lambda>token.
           if \<not> res_ok token then retM (error_reply 502 (u ''token exchange failed''))
           else bindM (liftR (rs_json token)) (\<lambda>b.
                bindM (liftR (jprop b ''access_token'')) (\<lambda>tok.
                bindM (liftR (jprop b ''token_type'')) (\<lambda>tt.
                bindM (liftR (jprop b ''expires_in'')) (\<lambda>ei.
                retM (reply 200 (JObj
                  [(u ''clientId'', JStr (RESERVE_CLIENT_ID env)), (u ''code'', code), (u ''accessToken'', tok),
                   (u ''tokenType'', tt), (u ''expiresIn'', ei)]))))))))))))"

subsection \<open>status\<close>

definition fetchJSON :: "sdk_net \<Rightarrow> sandbox_env \<Rightarrow> jstr \<Rightarrow> (api_state, json) comp" where
  "fetchJSON net env url =
     bindM (http_get net url (orchestratorHeaders env [])) (\<lambda>res.
     if res_ok res then liftR (rs_json res) else retM JNull)"

definition status_GET :: "sdk_net \<Rightarrow> sandbox_env \<Rightarrow> jstr option \<Rightarrow> (api_state, api_reply) comp" where
  "status_GET net env tenant =
     (case tenant of
        None \<Rightarrow> retM (error_reply 400 (u ''tenant is required''))
      | Some t \<Rightarrow>
          if t = [] then retM (error_reply 400 (u ''tenant is required''))
          else guarded
            (bindM (liftR (encodeURIComponent t)) (\<lambda>e.
             bindM (fetchJSON net env (ORCHESTRATOR_URL env @ u ''/v1/tenants/'' @ e @ u ''/contract'')) (\<lambda>contract.
             bindM (fetchJSON net env (ORCHESTRATOR_URL env @ u ''/v1/proofs/latest?tenant_id='' @ e)) (\<lambda>pf.
             retM (reply 200 (JObj [(u ''contract'', contract), (u ''proof'', pf)])))))))"

subsection \<open>record\<close>

definition record_GET :: "sdk_net \<Rightarrow> soroban \<Rightarrow> sandbox_env \<Rightarrow> jstr option \<Rightarrow> (api_state, api_reply) comp" where
  "record_GET net ch env tenant_param =
     (let tenant = env_or tenant_param [] in
      if demoInstitution (JStr tenant) = None then retM (error_reply 400 (u ''unknown institution''))
      else catchM (bindM (readOnChainRecord net ch env tenant) (\<lambda>r. retM (reply 200 (JObj [(u ''record'', r)]))))
        (\<lambda>e. retM (error_reply 502 (u ''could not read the record from Stellar: '' @ show_exn e))))"

subsection \<open>reserves\<close>

text \<open>The loop over the reserve accounts: an early return is a reply, the end of the loop the
  balances read.\<close>

fun read_balances ::
  "sdk_net \<Rightarrow> sandbox_env \<Rightarrow> json \<Rightarrow> jstr list \<Rightarrow> json list \<Rightarrow> (api_state, api_reply + json list) comp" where
  "read_balances net env token [] balances = retM (Inr balances)" |
  "read_balances net env token (account # rest) balances =
     bindM (liftR (reserveBalanceUrl (SANDBOX_URL env) account)) (\<lambda>url.
     bindM (http_get net url [(u ''authorization'', u ''Bearer '' @ json_to_string token)]) (\<lambda>res.
     if \<not> res_ok res then
       retM (Inl (error_reply 502 (u ''could not read the signed balance of '' @ account @ u '' (HTTP ''
                  @ show_int (rs_status res) @ u '')'')))
     else bindM (liftR (rs_json res)) (\<lambda>b. read_balances net env token rest (balances @ [b]))))"

definition item_balance :: "json \<Rightarrow> int result" where
  "item_balance item =
     bindR (jprop item ''balance'') (\<lambda>b. if jtruthy b then big_of_json b else Inr 0)"

fun sum_balances :: "int \<Rightarrow> json list \<Rightarrow> int result" where
  "sum_balances acc [] = Inr acc" |
  "sum_balances acc (item # rest) = bindR (item_balance item) (\<lambda>b. sum_balances (acc + b) rest)"

definition attested_reserves :: "sdk_net \<Rightarrow> sandbox_env \<Rightarrow> (api_state, api_reply) comp" where
  "attested_reserves net env =
     bindM (reserveSourceToken net env) (\<lambda>token.
     if \<not> jtruthy token then retM (error_reply 502 (u ''could not obtain a reserve-source token''))
     else bindM (read_balances net env token (RESERVE_ACCOUNTS env) []) (\<lambda>r.
       case r of
         Inl early \<Rightarrow> retM early
       | Inr balances \<Rightarrow>
           bindM (liftR (sum_balances 0 balances)) (\<lambda>total.
           retM (reply 200 (JObj [(u ''balances'', JArr balances), (u ''total'', JStr (show_int total))])))))"

definition reserves_GET :: "sdk_net \<Rightarrow> sandbox_env \<Rightarrow> jstr option \<Rightarrow> (api_state, api_reply) comp" where
  "reserves_GET net env tenant_param =
     (case demoInstitution (JStr (env_or tenant_param [])) of
        None \<Rightarrow> retM (error_reply 400 (u ''unknown institution''))
      | Some institution \<Rightarrow>
          (case di_reserves institution of
             OnChain account code issuer \<Rightarrow>
               catchM (bindM (readHolding net env account code issuer) (\<lambda>b.
                       retM (reply 200 (JObj [(u ''onchain'', JBool True), (u ''total'', JStr b)]))))
                 (\<lambda>e. retM (error_reply 502 (u ''could not read the reserve account: '' @ show_exn e)))
           | Attested \<Rightarrow> guarded (attested_reserves net env)))"

subsection \<open>run\<close>

definition cycleError :: "(jstr \<Rightarrow> json result) \<Rightarrow> int \<Rightarrow> jstr \<Rightarrow> jstr" where
  "cycleError parse st detail =
     (let fallback = u ''the proof cycle could not complete'';
          reason = (case bindR (parse detail) (\<lambda>v. jprop v ''error'') of
              Inr e \<Rightarrow> if jtruthy e then json_to_string e else fallback
            | Inl _ \<Rightarrow> if trim detail \<noteq> [] then trim detail else fallback)
      in u ''Cycle failed (HTTP '' @ show_int st @ u ''): '' @ reason)"

definition fetchProof :: "sdk_net \<Rightarrow> sandbox_env \<Rightarrow> json \<Rightarrow> (api_state, json) comp" where
  "fetchProof net env tenantId =
     bindM (liftR (encodeURIComponent (json_to_string tenantId))) (\<lambda>e.
     bindM (http_get net (ORCHESTRATOR_URL env @ u ''/v1/proofs/latest?tenant_id='' @ e) (orchestratorHeaders env []))
       (\<lambda>res. if res_ok res then liftR (rs_json res) else retM JNull))"

definition seed_request :: "sdk_net \<Rightarrow> sandbox_env \<Rightarrow> json \<Rightarrow> (api_state, response) comp" where
  "seed_request net env scenario =
     bindM (liftR (encodeURIComponent (json_to_string scenario))) (\<lambda>e.
     http_post net (SANDBOX_URL env @ u ''/admin/scenarios/'' @ e) [] None)"

definition cycle_body :: "json \<Rightarrow> json" where
  "cycle_body tenantId = JObj [(u ''tenant_id'', tenantId)]"

definition cycle_request :: "sdk_net \<Rightarrow> sandbox_env \<Rightarrow> json \<Rightarrow> json \<Rightarrow> int \<Rightarrow> (api_state, response) comp" where
  "cycle_request net env tenantId scenario now =
     http_post net (ORCHESTRATOR_URL env @ u ''/v1/cycles'')
       (orchestratorHeaders env [(u ''content-type'', u ''application/json''),
          (u ''Idempotency-Key'', u ''website-'' @ (if scenario = JUndef \<or> scenario = JNull then u ''onchain''
             else json_to_string scenario) @ u ''-'' @ show_int now)])
       (Some (cycle_body tenantId))"

definition trigger_cycle ::
  "sdk_net \<Rightarrow> sandbox_env \<Rightarrow> (jstr \<Rightarrow> json result) \<Rightarrow> json \<Rightarrow> json \<Rightarrow> int \<Rightarrow> (api_state, api_reply) comp" where
  "trigger_cycle net env parse tenantId scenario now =
     bindM (cycle_request net env tenantId scenario now) (\<lambda>cycle.
     if rs_status cycle = 409 then
       retM (reply 200 (JObj [(u ''published'', JBool False), (u ''busy'', JBool True)]))
     else if rs_status cycle = 422 then
       retM (reply 200 (JObj [(u ''published'', JBool False), (u ''rejected'', JBool True)]))
     else if rs_status cycle < 200 \<or> 300 \<le> rs_status cycle then
       bindM (catchM (liftR (rs_text cycle)) (\<lambda>_. retM [])) (\<lambda>detail.
       retM (reply 200 (JObj [(u ''published'', JBool False),
                              (u ''error'', JStr (cycleError parse (rs_status cycle) detail))])))
     else bindM (fetchProof net env tenantId) (\<lambda>pf.
          retM (reply 200 (JObj [(u ''published'', JBool True), (u ''proof'', pf)]))))"

definition run_POST ::
  "sdk_net \<Rightarrow> sandbox_env \<Rightarrow> (jstr \<Rightarrow> json result) \<Rightarrow> json result \<Rightarrow> int \<Rightarrow> (api_state, api_reply) comp" where
  "run_POST net env parse request_json now =
     (case request_json of
        Inl _ \<Rightarrow> retM (error_reply 400 (u ''invalid request body''))
      | Inr body \<Rightarrow>
          bindM (liftR (jprop body ''tenantId'')) (\<lambda>tenantId.
          bindM (liftR (jprop body ''scenario'')) (\<lambda>scenario.
          case (if jtruthy tenantId then demoInstitution tenantId else None) of
            None \<Rightarrow> retM (error_reply 400 (u ''a known tenantId is required''))
          | Some institution \<Rightarrow>
              if di_reserves institution = Attested \<and> \<not> jtruthy scenario then
                retM (error_reply 400 (u ''scenario is required''))
              else guarded
                (if di_reserves institution = Attested \<and> jtruthy scenario then
                   bindM (seed_request net env scenario) (\<lambda>seeded.
                   if \<not> res_ok seeded then
                     retM (error_reply 502 (u ''sandbox rejected scenario '' @ json_to_string scenario))
                   else trigger_cycle net env parse tenantId scenario now)
                 else trigger_cycle net env parse tenantId scenario now))))"

subsection \<open>inclusion\<close>

definition no_proof_reply :: api_reply where
  "no_proof_reply = error_reply 404 (u ''no proof to check against yet'')"

definition inclusion_reply :: "json \<Rightarrow> bool \<Rightarrow> api_reply result" where
  "inclusion_reply d onChain =
     bindR (jprop d ''proof_id'') (\<lambda>a. bindR (jprop d ''customer_id_hash'') (\<lambda>b.
     bindR (jprop d ''balance'') (\<lambda>c. bindR (jprop d ''root_hash'') (\<lambda>f.
     bindR (jprop d ''path'') (\<lambda>p.
     Inr (reply 200 (JObj
       [(u ''included'', JBool True), (u ''onChain'', JBool onChain), (u ''chainProofId'', a),
        (u ''customerIdHash'', b), (u ''balance'', c), (u ''rootHash'', f),
        (u ''pathLength'', JNum (case p of JArr ns \<Rightarrow> int (length ns) | _ \<Rightarrow> 0))])))))))"

definition inclusion_lookup ::
  "sdk_net \<Rightarrow> soroban \<Rightarrow> sandbox_env \<Rightarrow> jstr \<Rightarrow> jstr \<Rightarrow> (api_state, api_reply) comp" where
  "inclusion_lookup net ch env tenant ref =
     bindM (liftR (encodeURIComponent ref)) (\<lambda>r.
     bindM (http_get net (ORCHESTRATOR_URL env @ u ''/v1/proofs/inclusion/'' @ r) (orchestratorHeaders env []))
       (\<lambda>inc.
     if rs_status inc = 404 then
       retM (reply 200 (JObj [(u ''included'', JBool False), (u ''reason'', JStr (u ''holder not in this proof''))]))
     else if \<not> res_ok inc then retM (error_reply 502 (u ''inclusion lookup failed''))
     else bindM (liftR (rs_json inc)) (\<lambda>d.
          bindM (checkInclusionOnChain net ch env tenant ref) (\<lambda>onChain.
          liftR (inclusion_reply d onChain)))))"

definition inclusion_GET ::
  "sdk_net \<Rightarrow> soroban \<Rightarrow> sandbox_env \<Rightarrow> jstr option \<Rightarrow> jstr option \<Rightarrow> (api_state, api_reply) comp" where
  "inclusion_GET net ch env tenant_param hash_param =
     (let tenant = env_or tenant_param []; idHash = env_or hash_param [] in
      if tenant = [] \<or> idHash = [] \<or> demoInstitution (JStr tenant) = None then
        retM (error_reply 400 (u ''a known tenant and id_hash are required''))
      else guarded
        (bindM (liftR (encodeURIComponent tenant)) (\<lambda>e.
         bindM (http_get net (ORCHESTRATOR_URL env @ u ''/v1/proofs/latest?tenant_id='' @ e) (orchestratorHeaders env []))
           (\<lambda>latest.
         if \<not> res_ok latest then retM no_proof_reply
         else bindM (liftR (rs_json latest)) (\<lambda>pf. bindM (liftR (jprop pf ''id'')) (\<lambda>i.
           if \<not> jtruthy i then retM no_proof_reply
           else inclusion_lookup net ch env tenant (json_to_string i @ u '':'' @ idHash)))))))"

section \<open>What the routes promise\<close>

lemma http_eval [comp_simps]:
  "http_get net url hs s =
     (net (w_log s) \<lparr>rq_method = u ''GET'', rq_url = url, rq_headers = hs, rq_body = None\<rparr>,
      s\<lparr>w_log := w_log s @ [Http \<lparr>rq_method = u ''GET'', rq_url = url, rq_headers = hs, rq_body = None\<rparr>]\<rparr>)"
  "http_post net url hs b s =
     (net (w_log s) \<lparr>rq_method = u ''POST'', rq_url = url, rq_headers = hs, rq_body = b\<rparr>,
      s\<lparr>w_log := w_log s @ [Http \<lparr>rq_method = u ''POST'', rq_url = url, rq_headers = hs, rq_body = b\<rparr>]\<rparr>)"
  by (simp_all add: http_get_def http_post_def comp_simps)

lemma error_reply_simps [simp]:
  "ap_status (error_reply st m) = st" "ap_status (reply st v) = st" "ap_body (reply st v) = v"
  by (simp_all add: error_reply_def reply_def)

lemma jprop_error_reply [simp]:
  "jprop (ap_body (error_reply st m)) k = Inr (if k = ''error'' then JStr m else JUndef)"
  by (simp add: error_reply_def)

lemma guarded_answers: "\<exists>rep s'. guarded m s = (Inr rep, s')"
  by (auto simp: guarded_def catchM_def comp_eval split: prod.splits sum.splits)

lemma guarded_Inr: "guarded m s = (Inr rep, s') \<longleftrightarrow>
    m s = (Inr rep, s') \<or> (\<exists>e. m s = (Inl e, s') \<and> rep = reply 502 (unreachable e))"
  by (auto simp: guarded_def catchM_def comp_eval split: prod.splits sum.splits)

text \<open>An unknown institution never reaches a back end.  The routes \<open>record\<close>, \<open>reserves\<close>,
  \<open>inclusion\<close> and \<open>run\<close> answer 400 to a tenant that is not one of the demo institutions and
  send no request and make no contract read.\<close>

theorem unknown_institution_no_requests:
  assumes "demoInstitution (JStr t) = None" "jprop body ''tenantId'' = Inr (JStr t)"
  shows "(\<exists>rep. record_GET net ch env (Some t) s = (Inr rep, s) \<and> ap_status rep = 400)
    \<and> (\<exists>rep. reserves_GET net env (Some t) s = (Inr rep, s) \<and> ap_status rep = 400)
    \<and> (\<exists>rep. inclusion_GET net ch env (Some t) h s = (Inr rep, s) \<and> ap_status rep = 400)
    \<and> (\<exists>rep. run_POST net env parse (Inr body) now s = (Inr rep, s) \<and> ap_status rep = 400)"
proof (intro conjI)
  show "\<exists>rep. record_GET net ch env (Some t) s = (Inr rep, s) \<and> ap_status rep = 400"
    "\<exists>rep. reserves_GET net env (Some t) s = (Inr rep, s) \<and> ap_status rep = 400"
    "\<exists>rep. inclusion_GET net ch env (Some t) h s = (Inr rep, s) \<and> ap_status rep = 400"
    using assms(1)
    by (simp_all add: record_GET_def reserves_GET_def inclusion_GET_def env_or_def Let_def comp_eval)
  from assms(2) obtain v where "jprop body ''scenario'' = Inr v"
    by (cases body) (auto simp: jprop_def)
  with assms show "\<exists>rep. run_POST net env parse (Inr body) now s = (Inr rep, s) \<and> ap_status rep = 400"
    by (simp add: run_POST_def comp_eval)
qed

subsection \<open>Publishing\<close>

definition seed_http :: "sandbox_env \<Rightarrow> jstr \<Rightarrow> http_request" where
  "seed_http env seg = \<lparr>rq_method = u ''POST'', rq_url = SANDBOX_URL env @ u ''/admin/scenarios/'' @ seg,
     rq_headers = [], rq_body = None\<rparr>"

lemma seed_Inr:
  "seed_request net env scenario s = (Inr res, s') \<Longrightarrow>
     \<exists>seg. encodeURIComponent (json_to_string scenario) = Inr seg \<and> net (w_log s) (seed_http env seg) = Inr res
       \<and> w_log s' = w_log s @ [Http (seed_http env seg)]"
  by (auto simp: seed_request_def seed_http_def bindM_Inr comp_simps)

lemma trigger_published:
  assumes "trigger_cycle net env parse tid scenario now s = (Inr rep, s')"
    "jprop (ap_body rep) ''published'' = Inr (JBool True)"
  shows "\<exists>rq prq res. w_log s' = w_log s @ [Http rq, Http prq] \<and> net (w_log s) rq = Inr res \<and> res_ok res
    \<and> rq_method rq = u ''POST'' \<and> rq_url rq = ORCHESTRATOR_URL env @ u ''/v1/cycles''
    \<and> rq_body rq = Some (cycle_body tid)"
  using assms
  by (auto simp: trigger_cycle_def cycle_request_def bindM_Inr comp_simps catchM_def fetchProof_def res_ok_def
      split: if_splits sum.splits)

lemma unreachable_not_published: "jprop (unreachable e) ''published'' = Inr JUndef"
  by (simp add: unreachable_def)

text \<open>C8: What it takes to be told \<open>published\<close>.  When the run route answers \<open>published: true\<close>, the
  body named a demo institution, and the log shows exactly the requests made: for an attested
  institution first the seeding of the chosen scenario, which the sandbox accepted; then one
  POST to \<open>/v1/cycles\<close> for that very tenant, which the orchestrator answered with a status in
  200..299; then the read of the proof.  No cycle is triggered after a failed seeding, and a
  busy (409), rejected (422) or failed cycle is never reported as published.\<close>

theorem run_published:
  assumes "run_POST net env parse request_json now s = (Inr rep, s')"
    and "jprop (ap_body rep) ''published'' = Inr (JBool True)"
  shows "\<exists>body tid inst rq prq res.
    request_json = Inr body \<and> jprop body ''tenantId'' = Inr tid \<and> demoInstitution tid = Some inst
    \<and> rq_method rq = u ''POST'' \<and> rq_url rq = ORCHESTRATOR_URL env @ u ''/v1/cycles''
    \<and> rq_body rq = Some (cycle_body tid) \<and> res_ok res
    \<and> (if di_reserves inst = Attested then
         \<exists>scenario seg seeded. jprop body ''scenario'' = Inr scenario
           \<and> encodeURIComponent (json_to_string scenario) = Inr seg
           \<and> net (w_log s) (seed_http env seg) = Inr seeded \<and> res_ok seeded
           \<and> net (w_log s @ [Http (seed_http env seg)]) rq = Inr res
           \<and> w_log s' = w_log s @ [Http (seed_http env seg), Http rq, Http prq]
       else net (w_log s) rq = Inr res \<and> w_log s' = w_log s @ [Http rq, Http prq])"
proof -
  from assms obtain body tid scenario where b: "request_json = Inr body" "jprop body ''tenantId'' = Inr tid"
    "jprop body ''scenario'' = Inr scenario"
    by (auto simp: run_POST_def bindM_Inr comp_eval split: sum.splits)
  then obtain inst where i: "jtruthy tid" "demoInstitution tid = Some inst"
    using assms by (auto simp: run_POST_def comp_eval split: option.splits if_splits)
  have nb: "rep \<noteq> reply 502 (unreachable e)" for e
    using assms(2) unreachable_not_published [of e] by auto
  have ne: "rep \<noteq> error_reply st m" for st m
    using assms(2) by auto
  show ?thesis
  proof (cases "di_reserves inst = Attested")
    case True
    then have "jtruthy scenario" using assms b i ne by (auto simp: run_POST_def comp_eval split: if_splits)
    with assms(1) b i nb True have g: "bindM (seed_request net env scenario) (\<lambda>seeded.
        if \<not> res_ok seeded then retM (error_reply 502 (u ''sandbox rejected scenario '' @ json_to_string scenario))
        else trigger_cycle net env parse tid scenario now) s = (Inr rep, s')"
      by (simp add: run_POST_def guarded_Inr)
    then obtain seeded s1 where sd: "seed_request net env scenario s = (Inr seeded, s1)"
      and ok: "res_ok seeded" and t: "trigger_cycle net env parse tid scenario now s1 = (Inr rep, s')"
      using ne by (auto simp: bindM_Inr comp_eval split: if_splits)
    from seed_Inr [OF sd] obtain seg where
      seg: "encodeURIComponent (json_to_string scenario) = Inr seg" "net (w_log s) (seed_http env seg) = Inr seeded"
        "w_log s1 = w_log s @ [Http (seed_http env seg)]" by blast
    from trigger_published [OF t assms(2)] seg(3) obtain rq prq res where
      "w_log s' = w_log s @ [Http (seed_http env seg), Http rq, Http prq]"
      "net (w_log s @ [Http (seed_http env seg)]) rq = Inr res" "res_ok res"
      "rq_method rq = u ''POST''" "rq_url rq = ORCHESTRATOR_URL env @ u ''/v1/cycles''"
      "rq_body rq = Some (cycle_body tid)" by auto
    with True b i seg ok show ?thesis by (simp, blast)
  next
    case False
    with assms(1) b i nb have "trigger_cycle net env parse tid scenario now s = (Inr rep, s')"
      by (simp add: run_POST_def guarded_Inr)
    from trigger_published [OF this assms(2)] False b i show ?thesis by (simp, blast)
  qed
qed

subsection \<open>Reading reserves\<close>

lemma sum_balances_mapR: "sum_balances acc bs = bindR (mapR item_balance bs) (\<lambda>ns. Inr (acc + sum_list ns))"
  by (induction acc bs rule: sum_balances.induct) (simp_all add: bindR_assoc add.assoc)

lemma read_balances_Inr:
  "read_balances net env token accounts acc s = (Inr (Inr bs), s') \<Longrightarrow> length bs = length acc + length accounts"
proof (induction accounts arbitrary: acc s)
  case (Cons a rest)
  then show ?case by (fastforce simp: bindM_Inr comp_eval split: if_splits)
qed (simp add: comp_eval)

lemma read_balances_early:
  "read_balances net env token accounts acc s = (Inr (Inl early), s') \<Longrightarrow> \<exists>st m. early = error_reply st m"
  by (induction accounts arbitrary: acc s) (auto simp: bindM_Inr comp_eval split: if_splits)

text \<open>The reserves route adds up what it read.  When it answers a list of signed balances, there
  is one for every configured account, the total is the exact integer sum of the balances in
  the list (a missing or empty balance counting as zero), and the answer is a 200; if any
  balance cannot be read there is no total at all.\<close>

theorem reserves_total_is_sum:
  assumes "demoInstitution (JStr t) = Some inst" "di_reserves inst = Attested"
    and "reserves_GET net env (Some t) s = (Inr rep, s')"
    and "jprop (ap_body rep) ''balances'' = Inr (JArr bs)"
  shows "ap_status rep = 200 \<and> length bs = length (RESERVE_ACCOUNTS env)
    \<and> (\<exists>ns. mapR item_balance bs = Inr ns \<and> jprop (ap_body rep) ''total'' = Inr (JStr (show_int (sum_list ns))))"
proof -
  have "rep \<noteq> reply 502 (unreachable e)" for e using assms(4) by (auto simp: unreachable_def)
  with assms(1-3) have "attested_reserves net env s = (Inr rep, s')"
    by (auto simp: reserves_GET_def env_or_def guarded_Inr)
  moreover have ne: "rep \<noteq> error_reply st m" for st m using assms(4) by auto
  ultimately obtain token s1 r s2 where
    r: "read_balances net env token (RESERVE_ACCOUNTS env) [] s1 = (Inr r, s2)"
    and k: "(case r of Inl early \<Rightarrow> retM early
       | Inr balances \<Rightarrow> bindM (liftR (sum_balances 0 balances)) (\<lambda>total.
           retM (reply 200 (JObj [(u ''balances'', JArr balances), (u ''total'', JStr (show_int total))])))) s2
       = (Inr rep, s')"
    by (auto simp: attested_reserves_def bindM_Inr comp_eval split: if_splits)
  show ?thesis
  proof (cases r)
    case (Inl early)
    with r obtain st m where "early = error_reply st m" using read_balances_early by blast
    with k Inl ne show ?thesis by (auto simp: comp_eval)
  next
    case (Inr balances)
    with k read_balances_Inr [of net env token "RESERVE_ACCOUNTS env" "[]" s1 balances s2] r assms(4)
    show ?thesis by (auto simp: bindM_Inr comp_eval sum_balances_mapR result_simps)
  qed
qed

subsection \<open>Inclusion\<close>

lemma chain_verify_Inr:
  assumes "chain_verifyInclusion ch c ref s = (Inr (b, i), s')"
  shows "\<exists>log rd. Call rd \<in> set (w_log s') \<and> so_bool ch log rd = Inr b"
proof -
  from assms obtain k where "so_bool ch (w_log s) (c, k) = Inr b" "s' = s\<lparr>w_log := w_log s @ [Call (c, k)]\<rparr>"
    by (auto simp: chain_verifyInclusion_def registry_verifyInclusion_def catchM_def bindM_def comp_simps
        split: sum.splits prod.splits)
  then show ?thesis by (intro exI [of _ "w_log s"] exI [of _ "(c, k)"]) simp
qed

lemma check_inclusion_Inr:
  assumes "checkInclusionOnChain net ch env tenant ref s = (Inr b, s')"
  shows "\<exists>log rd. Call rd \<in> set (w_log s') \<and> so_bool ch log rd = Inr b"
proof -
  from assms obtain i s1 where
    v: "verifyInclusion net ch (record_client env tenant) (JStr ref) \<lparr>w_log = w_log s, so_chain = None\<rparr> = (Inr (b, i), s1)"
    and s': "w_log s' = w_log s1"
    by (auto simp: checkInclusionOnChain_def bindM_Inr comp_eval fresh_solva_def split: prod.splits)
  then obtain c r s2 where "chain_verifyInclusion ch c r s2 = (Inr (b, i), s1)"
    by (auto simp: verifyInclusion_def bindM_Inr)
  from chain_verify_Inr [OF this] s' show ?thesis by simp
qed

text \<open>The inclusion route reports the contract's word only.  An answer with \<open>onChain: true\<close>
  (or \<open>false\<close>) carries the verdict of a contract read made while answering; neither the
  orchestrator's lookup nor a failing ledger can produce it.\<close>

theorem inclusion_onchain_is_contract:
  assumes "inclusion_GET net ch env t h s = (Inr rep, s')"
    and "jprop (ap_body rep) ''onChain'' = Inr (JBool b)"
  shows "\<exists>log rd. Call rd \<in> set (w_log s') \<and> so_bool ch log rd = Inr b"
proof -
  have u: "rep \<noteq> reply 502 (unreachable e)" for e using assms(2) by (auto simp: unreachable_def)
  have ne: "rep \<noteq> error_reply st m" for st m using assms(2) by auto
  obtain tenant ref s1 where l: "inclusion_lookup net ch env tenant ref s1 = (Inr rep, s')"
    using assms(1) u ne
    by (auto simp: inclusion_GET_def Let_def comp_eval guarded_Inr bindM_Inr no_proof_reply_def split: if_splits)
  moreover have "rep \<noteq> reply 200 (JObj [(u ''included'', JBool False), (u ''reason'', v)])" for v
    using assms(2) by auto
  ultimately obtain d b' s2 where c: "checkInclusionOnChain net ch env tenant ref s2 = (Inr b', s')"
    and i: "inclusion_reply d b' = Inr rep"
    using ne by (auto simp: inclusion_lookup_def bindM_Inr comp_eval split: if_splits)
  from i assms(2) have "b' = b" by (auto simp: inclusion_reply_def result_simps)
  with check_inclusion_Inr [OF c] show ?thesis by simp
qed

subsection \<open>Samples\<close>

definition sample_env :: sandbox_env where
  "sample_env = \<lparr>se_orchestrator_url = None, se_sandbox_url = None, se_orch_api_token = None, se_client_id = None,
     se_accounts = None, se_horizon_url = None, se_rpc_url = None\<rparr>"

definition solstice :: jstr where "solstice = u ''22222222-2222-2222-2222-222222222222''"

definition solstice_institution :: demo_institution where
  "solstice_institution = hd DEMO_INSTITUTIONS"

lemma solstice_known [simp]:
  "demoInstitution (JStr solstice) = Some solstice_institution"
  "di_reserves solstice_institution = Attested"
  by (simp_all add: demoInstitution_def DEMO_INSTITUTIONS_def solstice_def solstice_institution_def)

lemma unknown_nobody [simp]: "demoInstitution (JStr (u ''nobody'')) = None"
  by (simp add: demoInstitution_def DEMO_INSTITUTIONS_def)

lemma unknown_institution_no_requests_witness:
  "\<exists>rep. run_POST sample_net sample_env (\<lambda>_. Inl uri_error) (Inr (JObj [(u ''tenantId'', JStr (u ''nobody''))])) 0 idle
     = (Inr rep, idle) \<and> ap_status rep = 400"
  using unknown_institution_no_requests [of "u ''nobody''" "JObj [(u ''tenantId'', JStr (u ''nobody''))]" sample_net
      yes_chain sample_env idle None "\<lambda>_. Inl uri_error" 0] by simp

definition run_body :: json where
  "run_body = JObj [(u ''tenantId'', JStr solstice), (u ''scenario'', JStr (u ''solvent''))]"

lemma plain_strings [simp]:
  "encodeURIComponent solstice = Inr solstice" "encodeURIComponent (u ''solvent'') = Inr (u ''solvent'')"
  "encodeURIComponent (u ''solva-orchestrator'') = Inr (u ''solva-orchestrator'')"
  "encodeURIComponent (u ''acct-anchor'') = Inr (u ''acct-anchor'')"
  by (rule encodeURIComponent_plain, simp add: solstice_def u_def uri_unreserved_def is_digit_def)+

lemma run_published_witness:
  "\<exists>rep s'. run_POST sample_net sample_env (\<lambda>_. Inl uri_error) (Inr run_body) 0 idle = (Inr rep, s')
     \<and> (\<exists>rq prq. w_log s' = [Http (seed_http sample_env (u ''solvent'')), Http rq, Http prq]
        \<and> rq_body rq = Some (cycle_body (JStr solstice)))"
proof -
  let ?r = "run_POST sample_net sample_env (\<lambda>_. Inl uri_error) (Inr run_body) 0 idle"
  have "\<exists>rep. fst ?r = Inr rep \<and> jprop (ap_body rep) ''published'' = Inr (JBool True)"
    by (simp add: run_POST_def run_body_def guarded_def catchM_def bindM_def comp_simps seed_request_def
        trigger_cycle_def cycle_request_def fetchProof_def sample_net_def ok_json_def res_ok_def solstice_def [symmetric])
      (simp add: solstice_def)?
  then obtain rep s' where r: "?r = (Inr rep, s')" "jprop (ap_body rep) ''published'' = Inr (JBool True)"
    by (metis prod.collapse)
  from run_published [OF r] obtain rq prq where
    "w_log s' = w_log idle @ [Http (seed_http sample_env (u ''solvent'')), Http rq, Http prq]"
    "rq_body rq = Some (cycle_body (JStr solstice))"
    by (auto simp: run_body_def)
  with r show ?thesis by (auto simp: idle_def)
qed

definition one_account_env :: sandbox_env where
  "one_account_env = sample_env\<lparr>se_accounts := Some (u ''acct-anchor'')\<rparr>"

lemma split_at_none: "\<forall>c \<in> set s. c \<noteq> k \<Longrightarrow> split_at k s = [s]"
  by (induction s) auto

lemma one_account [simp]: "RESERVE_ACCOUNTS one_account_env = [u ''acct-anchor'']"
proof -
  have "split_at 44 (u ''acct-anchor'') = [u ''acct-anchor'']"
    by (rule split_at_none) (simp add: u_def)
  moreover have "trim (u ''acct-anchor'') = u ''acct-anchor''"
    by (rule trim_no_ws) (simp add: u_def is_ws_def)
  ultimately show ?thesis by (simp add: RESERVE_ACCOUNTS_def one_account_env_def env_or_def)
qed

definition bank_answer :: json where
  "bank_answer = JObj [(u ''code'', JStr (u ''c'')), (u ''access_token'', JStr (u ''t'')), (u ''balance'', JStr (show_int 15))]"

lemma bank_answer_simps [simp]:
  "jprop bank_answer ''code'' = Inr (JStr (u ''c''))" "jprop bank_answer ''access_token'' = Inr (JStr (u ''t''))"
  "jprop bank_answer ''balance'' = Inr (JStr (show_int 15))"
  by (simp_all add: bank_answer_def)

lemma show_int_not_Nil [simp]: "show_int i \<noteq> []"
  by (simp add: show_int_def)

lemma bank_urls [simp]:
  "\<exists>url. reserveBalanceUrl base (u ''acct-anchor'') = Inr url" "\<exists>url. authorize_url one_account_env = Inr url"
  by (simp_all add: reserveBalanceUrl_def authorize_url_def RESERVE_CLIENT_ID_def one_account_env_def sample_env_def
      env_or_def)

lemma bank_run:
  "\<exists>s'. reserves_GET (\<lambda>_ _. Inr (ok_json bank_answer)) one_account_env (Some solstice) idle =
     (Inr (reply 200 (JObj [(u ''balances'', JArr [bank_answer]), (u ''total'', JStr (show_int 15))])), s')"
proof -
  obtain url where url: "reserveBalanceUrl (SANDBOX_URL one_account_env) (u ''acct-anchor'') = Inr url"
    using bank_urls(1) by blast
  obtain url' where url': "authorize_url one_account_env = Inr url'" using bank_urls(2) by blast
  show ?thesis
    by (simp add: reserves_GET_def env_or_def guarded_def catchM_def attested_reserves_def reserveSourceToken_def
        bindM_def comp_simps url url' token_request_def item_balance_def)
qed

lemma reserves_total_is_sum_witness:
  "\<exists>rep s'. reserves_GET (\<lambda>_ _. Inr (ok_json bank_answer)) one_account_env (Some solstice) idle = (Inr rep, s')
     \<and> jprop (ap_body rep) ''total'' = Inr (JStr (show_int 15))"
proof -
  obtain s' where r: "reserves_GET (\<lambda>_ _. Inr (ok_json bank_answer)) one_account_env (Some solstice) idle =
     (Inr (reply 200 (JObj [(u ''balances'', JArr [bank_answer]), (u ''total'', JStr (show_int 15))])), s')"
    using bank_run by blast
  from reserves_total_is_sum [OF solstice_known r, of "[bank_answer]"] r show ?thesis
    by (auto simp: item_balance_def)
qed

definition holder_answer :: json where
  "holder_answer = JObj
     [(u ''id'', JStr (u ''7'')), (u ''contract_id'', JStr (u ''C1'')), (u ''proof_id'', JStr (show_int 4)),
      (u ''customer_id_hash'', JStr (bufferToHex [1])), (u ''balance'', JStr (show_int 9)), (u ''path'', JArr [])]"

lemma holder_answer_simps [simp]:
  "jprop holder_answer ''id'' = Inr (JStr (u ''7''))" "jprop holder_answer ''contract_id'' = Inr (JStr (u ''C1''))"
  "jprop holder_answer ''proof_id'' = Inr (JStr (show_int 4))" "jprop holder_answer ''network'' = Inr JUndef"
  "jprop holder_answer ''customer_id_hash'' = Inr (JStr (bufferToHex [1]))"
  "jprop holder_answer ''balance'' = Inr (JStr (show_int 9))" "jprop holder_answer ''root_hash'' = Inr JUndef"
  "jprop holder_answer ''path'' = Inr (JArr [])"
  by (simp_all add: holder_answer_def)

lemma holder_ref [simp]: "\<exists>r. encodeURIComponent (u ''7'' @ u '':'' @ u ''aa'') = Inr r"
  by (simp add: u_def uri_unreserved_def is_digit_def)

lemma inclusion_onchain_is_contract_witness:
  "\<exists>rep s'. inclusion_GET (\<lambda>_ _. Inr (ok_json holder_answer)) yes_chain sample_env (Some solstice) (Some (u ''aa'')) idle
       = (Inr rep, s') \<and> (\<exists>log rd. Call rd \<in> set (w_log s') \<and> so_bool yes_chain log rd = Inr True)"
proof -
  let ?r = "inclusion_GET (\<lambda>_ _. Inr (ok_json holder_answer)) yes_chain sample_env (Some solstice) (Some (u ''aa'')) idle"
  obtain r where ref: "encodeURIComponent (u ''7'' @ u '':'' @ u ''aa'') = Inr r" using holder_ref by blast
  have 404: "rs_status (ok_json v) \<noteq> 404" for v by (simp add: ok_json_def)
  have ne: "solstice \<noteq> []" by (simp add: solstice_def)
  have "\<exists>rep. fst ?r = Inr rep \<and> jprop (ap_body rep) ''onChain'' = Inr (JBool True)"
    by (simp add: inclusion_GET_def Let_def env_or_def solstice_def [symmetric] guarded_def catchM_def bindM_def
        comp_simps inclusion_lookup_def ref 404 ne checkInclusionOnChain_def fresh_solva_def verifyInclusion_def
        getInclusionRef_def map_inclusion_def json_map_def resolveChain_def getTenantContract_def record_client_def
        new_solva_def resolveConfig_def override_def new_chain_client_def chain_verifyInclusion_def
        registry_verifyInclusion_def inclusion_args_def hex_of_json_def yes_chain_def inclusion_reply_def)
  then obtain rep s' where "?r = (Inr rep, s')" "jprop (ap_body rep) ''onChain'' = Inr (JBool True)"
    by (metis prod.collapse)
  with inclusion_onchain_is_contract [OF this] show ?thesis by blast
qed

end
