(* ===== verification/Supply.thy ===== *)
theory Supply
  imports Amounts Network
begin

text \<open>
  The market-supply panel's data (apps/website/src/lib/stellar-supply.ts): reading Horizon's
  asset and ledger records, and the module-level cache of \<open>readSupplySnapshot\<close>.  Horizon is
  a parameter; a read starts at time \<open>t0\<close> and stores its snapshot at time \<open>t1\<close>, the two
  calls of \<open>Date.now()\<close>.
\<close>

record stellar_asset =
  sa_code :: jstr
  sa_issuer :: jstr
  sa_issuerName :: jstr
  sa_homeDomain :: jstr
  sa_currency :: jstr

definition STELLAR_DECIMALS :: nat where "STELLAR_DECIMALS = 7"

definition watchedAssets :: "stellar_asset list" where
  "watchedAssets =
     List.map (\<lambda>(c, i, n, d, m). \<lparr>sa_code = u c, sa_issuer = u i, sa_issuerName = u n, sa_homeDomain = u d, sa_currency = u m\<rparr>)
       [(''USDC'', ''GA5ZSEJYB37JRC5AVCIA5MOP4RHTM335X2KGX3IHOJAPP5RE34K4KZVN'', ''Circle'', ''circle.com'', ''USD''),
        (''EURC'', ''GDHU6WRG4IEQXM5NZ4BMPKOXHW76MZM4Y2IEMFDVXBSDP6SJY4ITNPP2'', ''Circle'', ''circle.com'', ''EUR''),
        (''ARST'', ''GCSAZVWXZKWS4XS223M5F54H2B6XPIIXZZGP7KEAIU6YSL5HDRGCI3DG'', ''Latamex'', ''pubnet-sep.latamex.com'', ''ARS''),
        (''ARS'', ''GCYE7C77EB5AWAA25R5XMWNI2EDOKTTFTTPZKM2SR5DI4B4WFD52DARS'', ''Anclap'', ''anclap.com'', ''ARS''),
        (''GYEN'', ''GDF6VOEGRWLOZ64PQQGKD2IYWA22RLT37GJKS2EJXZHT2VLAGWLC5TOB'', ''GMO Trust'', ''stablecoin.z.com'', ''JPY''),
        (''CLPX'', ''GDYSPBVZHPQTYMGSYNOHRZQNLB3ZWFVQ2F7EP7YBOLRGD42XIC3QUX5G'', ''CLPX'', ''clpx.finance'', ''CLP''),
        (''AUDD'', ''GDC7X2MXTYSAKUUGAIQ7J7RPEIM7GXSAIWFYWWH4GLNFECQVJJLB2EEU'', ''Novatti'', ''audd.digital'', ''AUD'')]"

definition horizon_url :: jstr where "horizon_url = u ''https://horizon.stellar.org''"

definition assetExplorerUrl :: "stellar_asset \<Rightarrow> jstr" where
  "assetExplorerUrl a = u ''https://stellar.expert/explorer/public/asset/'' @ sa_code a @ u ''-'' @ sa_issuer a"

definition wholeUnits :: "int \<Rightarrow> jstr" where
  "wholeUnits v = dot_whole (formatAmount v STELLAR_DECIMALS)"

record asset_supply =
  as_asset :: stellar_asset
  as_supply :: int
  as_holders :: json

record supply_snapshot =
  ss_rows :: "asset_supply list"
  ss_ledger :: json
  ss_closedAt :: json

record supply_cache =
  ca_at :: int
  ca_snapshot :: supply_snapshot

definition TTL_MS :: int where "TTL_MS = 5 * 60 * 1000"

text \<open>Optional chaining \<open>v?.key\<close> and \<open>v?.[0]\<close>.\<close>

definition jopt :: "json \<Rightarrow> string \<Rightarrow> json" where
  "jopt v k = (case v of JObj kvs \<Rightarrow> jlookup kvs (u k) | _ \<Rightarrow> JUndef)"

definition jfirst :: "json \<Rightarrow> json" where
  "jfirst v = (case v of JArr (x # _) \<Rightarrow> x | _ \<Rightarrow> JUndef)"

definition units :: "json \<Rightarrow> int result" where
  "units value =
     (if \<not> jtruthy value then Inr 0
      else case value of
          JStr s \<Rightarrow> Inr (case parseAmount s STELLAR_DECIMALS of Some n \<Rightarrow> n | None \<Rightarrow> 0)
        | _ \<Rightarrow> Inl (js_error ''TypeError'' (u ''input.replace is not a function'')))"

definition supplyFromRecord :: "json \<Rightarrow> int result" where
  "supplyFromRecord r =
     bindR (units (jopt (jopt r ''balances'') ''authorized'')) (\<lambda>a.
     bindR (units (jopt (jopt r ''balances'') ''authorized_to_maintain_liabilities'')) (\<lambda>b.
     bindR (units (jopt r ''claimable_balances_amount'')) (\<lambda>c.
     bindR (units (jopt r ''liquidity_pools_amount'')) (\<lambda>d.
     bindR (units (jopt r ''contracts_amount'')) (\<lambda>e.
     Inr (a + b + c + d + e))))))"

record supply_state = "unit world" +
  sp_cached :: "supply_cache option"

type_synonym supply_net = "unit http_net"

definition get_request :: "jstr \<Rightarrow> http_request" where
  "get_request url =
     \<lparr>rq_method = u ''GET'', rq_url = url, rq_headers = [(u ''accept'', u ''application/json'')], rq_body = None\<rparr>"

definition getJson :: "supply_net \<Rightarrow> jstr \<Rightarrow> (supply_state, json option) comp" where
  "getJson net url =
     catchM (bindM (fetchM net (get_request url)) (\<lambda>res.
             if \<not> res_ok res then retM None
             else bindM (liftR (rs_json res)) (\<lambda>v. retM (Some v))))
       (\<lambda>_. retM None)"

definition embedded_record :: "json option \<Rightarrow> json" where
  "embedded_record data =
     (case data of None \<Rightarrow> JUndef | Some v \<Rightarrow> jfirst (jopt (jopt v ''_embedded'') ''records''))"

definition asset_url :: "stellar_asset \<Rightarrow> jstr" where
  "asset_url a = horizon_url @ u ''/assets?asset_code='' @ sa_code a @ u ''&asset_issuer='' @ sa_issuer a"

definition nullish :: "json \<Rightarrow> json \<Rightarrow> json" where
  "nullish v d = (if v = JUndef \<or> v = JNull then d else v)"

definition readAsset :: "supply_net \<Rightarrow> stellar_asset \<Rightarrow> (supply_state, asset_supply option) comp" where
  "readAsset net a =
     bindM (getJson net (asset_url a)) (\<lambda>data.
     let r = embedded_record data in
     if \<not> jtruthy r then retM None
     else bindM (liftR (supplyFromRecord r)) (\<lambda>n.
          retM (Some \<lparr>as_asset = a, as_supply = n,
                      as_holders = nullish (jopt (jopt r ''accounts'') ''authorized'') (JNum 0)\<rparr>)))"

definition ledgers_url :: jstr where
  "ledgers_url = horizon_url @ u ''/ledgers?order=desc&limit=1''"

definition readLedger :: "supply_net \<Rightarrow> (supply_state, (json \<times> json) option) comp" where
  "readLedger net =
     bindM (getJson net ledgers_url) (\<lambda>data.
     let r = embedded_record data in
     if \<not> jtruthy (jopt r ''sequence'') \<or> \<not> jtruthy (jopt r ''closed_at'') then retM None
     else retM (Some (jopt r ''sequence'', jopt r ''closed_at'')))"

fun read_assets :: "supply_net \<Rightarrow> stellar_asset list \<Rightarrow> (supply_state, asset_supply option list) comp" where
  "read_assets net [] = retM []" |
  "read_assets net (a # rest) =
     bindM (readAsset net a) (\<lambda>r. bindM (read_assets net rest) (\<lambda>rs. retM (r # rs)))"

definition present_rows :: "asset_supply option list \<Rightarrow> asset_supply list" where
  "present_rows rows = List.map_filter id rows"

definition readSupplySnapshot ::
  "supply_net \<Rightarrow> stellar_asset list \<Rightarrow> int \<Rightarrow> int \<Rightarrow> (supply_state, supply_snapshot option) comp" where
  "readSupplySnapshot net assets t0 t1 =
     bindM getM (\<lambda>s.
     let fetch =
       bindM (readLedger net) (\<lambda>ledger. bindM (read_assets net assets) (\<lambda>rows.
       case ledger of
         None \<Rightarrow> retM None
       | Some (seq_no, closedAt) \<Rightarrow>
           if present_rows rows = [] then retM None
           else let snapshot = \<lparr>ss_rows = present_rows rows, ss_ledger = seq_no, ss_closedAt = closedAt\<rparr> in
             bindM (modM (\<lambda>s. s\<lparr>sp_cached := Some \<lparr>ca_at = t1, ca_snapshot = snapshot\<rparr>\<rparr>)) (\<lambda>_.
             retM (Some snapshot))))
     in case sp_cached s of
          Some c \<Rightarrow> if t0 - ca_at c < TTL_MS then retM (Some (ca_snapshot c)) else fetch
        | None \<Rightarrow> fetch)"

definition closed_at_re :: "jstr \<Rightarrow> bool" where
  "closed_at_re s \<longleftrightarrow> 16 \<le> length s \<and> s ! 4 = 45 \<and> s ! 7 = 45 \<and> s ! 10 = 84 \<and> s ! 13 = 58
     \<and> list_all is_digit (take 4 s @ take 2 (drop 5 s) @ take 2 (drop 8 s) @ take 2 (drop 11 s) @ take 2 (drop 14 s))"

definition formatClosedAt :: "jstr \<Rightarrow> jstr" where
  "formatClosedAt t =
     (if closed_at_re t then take 10 t @ u '' '' @ take 5 (drop 11 t) @ u '' UTC'' else t)"

text \<open>A server process that reads the snapshot again and again; each read has its two clock readings.\<close>

fun supply_runs ::
  "supply_net \<Rightarrow> stellar_asset list \<Rightarrow> (int \<times> int) list \<Rightarrow> supply_state \<Rightarrow> supply_state" where
  "supply_runs net assets [] s = s" |
  "supply_runs net assets ((t0, t1) # ts) s =
     supply_runs net assets ts (snd (readSupplySnapshot net assets t0 t1 s))"

section \<open>The cache\<close>

lemma keeps_getJson [keeps_rules]:
  "(\<And>s e. I s \<Longrightarrow> I (s\<lparr>w_log := w_log s @ [e]\<rparr>)) \<Longrightarrow> keeps I (getJson net url)"
  unfolding getJson_def by (intro keeps_rules) simp_all

lemma keeps_readAsset [keeps_rules]:
  "(\<And>s e. I s \<Longrightarrow> I (s\<lparr>w_log := w_log s @ [e]\<rparr>)) \<Longrightarrow> keeps I (readAsset net a)"
  unfolding readAsset_def Let_def by (intro keeps_rules) simp_all

lemma keeps_readLedger [keeps_rules]:
  "(\<And>s e. I s \<Longrightarrow> I (s\<lparr>w_log := w_log s @ [e]\<rparr>)) \<Longrightarrow> keeps I (readLedger net)"
  unfolding readLedger_def Let_def by (intro keeps_rules) simp_all

lemma keeps_read_assets [keeps_rules]:
  "(\<And>s e. I s \<Longrightarrow> I (s\<lparr>w_log := w_log s @ [e]\<rparr>)) \<Longrightarrow> keeps I (read_assets net assets)"
  by (induction assets) (auto intro!: keeps_rules)

lemma cached_unchanged:
  "readLedger net s = (r, s1) \<Longrightarrow> sp_cached s1 = sp_cached s"
  "read_assets net assets s = (q, s1) \<Longrightarrow> sp_cached s1 = sp_cached s"
  using keepsD [OF keeps_readLedger [of "\<lambda>t. sp_cached t = sp_cached s" net], of s]
    keepsD [OF keeps_read_assets [of "\<lambda>t. sp_cached t = sp_cached s" net assets], of s] by simp_all

lemma readAsset_asset: "readAsset net a s = (Inr (Some r), s') \<Longrightarrow> as_asset r = a"
  by (auto simp: readAsset_def Let_def bindM_Inr comp_eval split: if_splits)

lemma read_assets_rows:
  "read_assets net assets s = (Inr rows, s') \<Longrightarrow> subseq (List.map as_asset (present_rows rows)) assets"
proof (induction assets arbitrary: s rows)
  case (Cons a assets)
  then obtain r rs s1 where r: "readAsset net a s = (Inr r, s1)"
    and rs: "read_assets net assets s1 = (Inr rs, s')" and rows: "rows = r # rs"
    by (auto simp: bindM_Inr comp_eval)
  from Cons.IH [OF rs] r rows show ?case
    by (cases r) (auto simp: present_rows_def List.map_filter_simps dest: readAsset_asset)
qed (simp add: comp_eval present_rows_def List.map_filter_simps)

text \<open>C7: The snapshot cache.  A read either finds a cached snapshot younger than five minutes and
  returns it without a request and without touching the state; or there is none, and then it
  stores exactly what it returns, stamped with the time it finished, with at least one row and
  its rows a subsequence of the watched assets, while a read that fails or comes back empty
  leaves the cache as it was, so an outage never evicts and is never remembered.\<close>

theorem supply_cache:
  assumes "readSupplySnapshot net assets t0 t1 s = (r, s')"
  shows "(\<exists>c. sp_cached s = Some c \<and> t0 - ca_at c < TTL_MS \<and> r = Inr (Some (ca_snapshot c)) \<and> s' = s)
    \<or> ((\<forall>c. sp_cached s = Some c \<longrightarrow> TTL_MS \<le> t0 - ca_at c)
       \<and> (case r of
            Inr (Some snap) \<Rightarrow> sp_cached s' = Some \<lparr>ca_at = t1, ca_snapshot = snap\<rparr> \<and> ss_rows snap \<noteq> []
              \<and> subseq (List.map as_asset (ss_rows snap)) assets
          | _ \<Rightarrow> sp_cached s' = sp_cached s))"
proof (cases "\<exists>c. sp_cached s = Some c \<and> t0 - ca_at c < TTL_MS")
  case True
  with assms show ?thesis by (auto simp: readSupplySnapshot_def bindM_def comp_eval Let_def)
next
  case False
  let ?fetch = "bindM (readLedger net) (\<lambda>ledger. bindM (read_assets net assets) (\<lambda>rows.
       case ledger of
         None \<Rightarrow> retM None
       | Some (seq_no, closedAt) \<Rightarrow>
           if present_rows rows = [] then retM None
           else let snapshot = \<lparr>ss_rows = present_rows rows, ss_ledger = seq_no, ss_closedAt = closedAt\<rparr> in
             bindM (modM (\<lambda>s. s\<lparr>sp_cached := Some \<lparr>ca_at = t1, ca_snapshot = snapshot\<rparr>\<rparr>)) (\<lambda>_.
             retM (Some snapshot))))"
  from False assms have f: "?fetch s = (r, s')"
    by (auto simp: readSupplySnapshot_def bindM_def comp_eval Let_def split: option.splits)
  obtain lr s1 where l: "readLedger net s = (lr, s1)" by (cases "readLedger net s")
  obtain ar s2 where a: "read_assets net assets s1 = (ar, s2)" by (cases "read_assets net assets s1")
  have same: "sp_cached s1 = sp_cached s" "sp_cached s2 = sp_cached s"
    using cached_unchanged(1) [OF l] cached_unchanged(2) [OF a] by simp_all
  have "case r of
            Inr (Some snap) \<Rightarrow> sp_cached s' = Some \<lparr>ca_at = t1, ca_snapshot = snap\<rparr> \<and> ss_rows snap \<noteq> []
              \<and> subseq (List.map as_asset (ss_rows snap)) assets
          | _ \<Rightarrow> sp_cached s' = sp_cached s"
    using f l a same read_assets_rows [of net assets s1 _ s2]
    by (auto simp: bindM_def comp_eval Let_def split: sum.splits option.splits if_splits)
  with False show ?thesis by (auto simp: not_less)
qed

section \<open>The supply of an asset\<close>

lemma parse_fixed:
  assumes "0 < d"
  shows "parseAmount (fixed_digits d n) d = Some (int n)"
proof -
  let ?w = "show_nat (n div 10 ^ d)" and ?f = "pad_left d (show_nat (n mod 10 ^ d))"
  have w: "\<forall>c \<in> set ?w. is_digit c" and f: "\<forall>c \<in> set ?f. is_digit c"
    using show_nat_all_digits pad_left_digits by blast+
  have "length ?f = d" using assms by (intro pad_show_length) simp_all
  then have "take d (?f @ replicate d 48) = ?f" by simp
  moreover have "clean_amount (fixed_digits d n) = ?w @ 46 # ?f"
    using w f by (simp add: fixed_digits_def u_def clean_digits)
  ultimately show ?thesis
    using parseAmount_dot [OF _ w f, of "fixed_digits d n" d]
      arg_cong [OF div_mult_mod_eq [of n "10 ^ d"], of int] by simp
qed

lemma units_printed [simp]: "units (JStr (fixed_digits 7 n)) = Inr (int n)" "units JUndef = Inr 0"
proof -
  have "fixed_digits 7 n \<noteq> []" by (simp add: fixed_digits_def)
  then show "units (JStr (fixed_digits 7 n)) = Inr (int n)"
    using parse_fixed [of 7 n] by (simp add: units_def STELLAR_DECIMALS_def)
qed (simp add: units_def)

text \<open>The supply adds the five places Horizon counts an asset in.\<close>

lemma supply_of_printed:
  "supplyFromRecord (JObj
     [(u ''balances'', JObj [(u ''authorized'', JStr (fixed_digits 7 a)),
                             (u ''authorized_to_maintain_liabilities'', JStr (fixed_digits 7 b))]),
      (u ''claimable_balances_amount'', JStr (fixed_digits 7 c)),
      (u ''liquidity_pools_amount'', JStr (fixed_digits 7 d)),
      (u ''contracts_amount'', JStr (fixed_digits 7 e))]) = Inr (int a + int b + int c + int d + int e)"
  by (simp add: supplyFromRecord_def jopt_def)

lemma supply_cache_witness:
  "\<exists>r s'. readSupplySnapshot (\<lambda>_ _. Inl (js_error ''TypeError'' [])) [] 5 6 \<lparr>w_log = [], sp_cached = None\<rparr> = (r, s')
     \<and> sp_cached s' = None"
proof -
  let ?m = "readSupplySnapshot (\<lambda>_ _. Inl (js_error ''TypeError'' [])) [] 5 6 \<lparr>w_log = [], sp_cached = None\<rparr>"
  obtain r s' where m: "?m = (r, s')" by (cases ?m)
  have "fst ?m = Inr None"
    by (simp add: readSupplySnapshot_def bindM_def comp_eval comp_simps readLedger_def getJson_def catchM_def
        Let_def embedded_record_def jopt_def)
  with supply_cache [OF m] m show ?thesis by auto
qed

end
