(* ===== verification/Sandbox_Machine.thy ===== *)
theory Sandbox_Machine
  imports Sandbox_Api Supply
begin

text \<open>
  The sandbox panel of the product page: its data and log lines
  (apps/website/src/features/product/lib/sandbox.ts), the state of the hook \<open>useSandbox\<close>
  (hooks/use-sandbox.ts) and, as the guards of the transitions, the controls the panel
  enables (components/demo/sandbox.tsx).  A transition is an interaction or the settling of
  a promise: \<open>sb_load\<close> holds the registry load of the current effect (a cancelled load has
  no transition), \<open>sb_inflight\<close> the step a click started with the institution and scenario
  its closure captured.
\<close>

section \<open>lib/sandbox.ts\<close>

record scenario =
  sn_id :: jstr
  sn_label :: jstr
  sn_reserves :: jstr
  sn_note :: jstr

definition SCENARIOS :: "scenario list" where
  "SCENARIOS =
     [\<lparr>sn_id = u ''solvent'', sn_label = u ''Covered'', sn_reserves = u ''16,000,000'',
       sn_note = u ''Reserves comfortably cover what is owed.''\<rparr>,
      \<lparr>sn_id = u ''near-breach'', sn_label = u ''Just covered'', sn_reserves = u ''9,500,000'',
       sn_note = u ''Reserves only just cover what is owed.''\<rparr>,
      \<lparr>sn_id = u ''insolvent'', sn_label = u ''Short'', sn_reserves = u ''4,500,000'',
       sn_note = u ''Reserves are below what is owed, so no proof can be made.''\<rparr>]"

datatype step_id = Registry | Connect | Reserves | Prove | Verify | Inclusion

definition STEPS :: "step_id list" where
  "STEPS = [Registry, Connect, Reserves, Prove, Verify, Inclusion]"

datatype step_status = Locked | Ready | Running | Done | Failed

datatype log_kind = LInfo | LData | LOk | LWarn

record log_line =
  ll_kind :: log_kind
  ll_text :: jstr

definition line :: "log_kind \<Rightarrow> jstr \<Rightarrow> log_line" where
  "line k t = \<lparr>ll_kind = k, ll_text = t\<rparr>"

fun NEXT_STEP :: "step_id \<Rightarrow> step_id option" where
  "NEXT_STEP Registry = Some Connect" |
  "NEXT_STEP Connect = Some Reserves" |
  "NEXT_STEP Reserves = Some Prove" |
  "NEXT_STEP Prove = Some Verify" |
  "NEXT_STEP Verify = Some Inclusion" |
  "NEXT_STEP Inclusion = None"

definition DEMO_ID_HASH :: jstr where
  "DEMO_ID_HASH = u ''0000000000000000000000000000000000000000000000000000000000000001''"

text \<open>The thousands separators of \<open>commas\<close>: the regular expression also groups inside a value with
  other characters; the totals it is given are digits.\<close>

definition commas :: "jstr option \<Rightarrow> jstr" where
  "commas v = (case v of None \<Rightarrow> u ''0'' | Some s \<Rightarrow> if s = [] then u ''0'' else group_digits s)"

definition opt_str :: "json \<Rightarrow> jstr option" where
  "opt_str v = (if v = JUndef \<or> v = JNull then None else Some (json_to_string v))"

definition text_or :: "json \<Rightarrow> string \<Rightarrow> jstr" where
  "text_or v d = (case opt_str v of Some s \<Rightarrow> s | None \<Rightarrow> u d)"

definition amount :: "json \<Rightarrow> demo_institution \<Rightarrow> jstr" where
  "amount v i = (case di_reserves i of
      OnChain _ _ _ \<Rightarrow> formatUsdc (text_or v ''0'')
    | Attested \<Rightarrow> commas (opt_str v))"

definition truncate_text :: "jstr \<Rightarrow> nat \<Rightarrow> jstr" where
  "truncate_text s n = (if n < length s then take n s @ [0x2026] else s)"

definition initialStatus :: "step_id \<Rightarrow> step_status" where
  "initialStatus = (\<lambda>_. Locked)"

definition emptyLogs :: "step_id \<Rightarrow> log_line list" where
  "emptyLogs = (\<lambda>_. [])"

definition completedSteps :: "(step_id \<Rightarrow> step_status) \<Rightarrow> nat" where
  "completedSteps st = length (filter (\<lambda>i. st i = Done) STEPS)"

definition registryLines :: "demo_institution \<Rightarrow> json \<Rightarrow> log_line list" where
  "registryLines i contract =
     [line LOk (u ''Registry entry found for '' @ di_name i @ u ''.''),
      line LData (u ''contract  '' @ text_or (jopt contract ''contract_id'') ''unknown''),
      line LData (u ''network   '' @ text_or (jopt contract ''network'') ''testnet''),
      line LInfo (u ''Owner only. Nobody but the institution can publish to it.'')]"

definition arrow :: jstr where "arrow = [0x2192]"

definition connectLines :: "json \<Rightarrow> log_line list" where
  "connectLines r =
     [line LInfo (u ''GET  /oauth/authorize?client_id='' @ text_or (jopt r ''clientId'') ''''),
      line LData (arrow @ u '' code '' @ text_or (jopt r ''code'') ''''),
      line LInfo (u ''POST /oauth/token  (grant: authorization_code)''),
      line LData (arrow @ u '' '' @ text_or (jopt r ''tokenType'') ''Bearer'' @ u '' ''
         @ truncate_text (json_to_string (jopt r ''accessToken'')) 28
         @ u ''  (expires in '' @ text_or (jopt r ''expiresIn'') ''0'' @ u ''s)''),
      line LOk (u ''Connected to the reserve source.'')]"

definition onchainConnectLines :: "demo_institution \<Rightarrow> log_line list" where
  "onchainConnectLines i = (case di_reserves i of
      OnChain account code _ \<Rightarrow>
        [line LInfo (u ''Reserves are held on Stellar Testnet in account''),
         line LData (u ''  '' @ account),
         line LData (u ''  asset '' @ code @ u '' (Circle)''),
         line LOk (u ''No authorisation is needed: balances on Stellar are public.'')]
    | Attested \<Rightarrow> [])"

definition onchainReservesLines :: "demo_institution \<Rightarrow> jstr \<Rightarrow> log_line list" where
  "onchainReservesLines i balance = (case di_reserves i of
      OnChain account code _ \<Rightarrow>
        [line LInfo (u ''GET  horizon-testnet.stellar.org/accounts/'' @ truncate_text account 12),
         line LData (code @ u '' balance  '' @ formatUsdc balance @ u ''  (read from Stellar Testnet)''),
         line LOk (u ''Reserves R = '' @ formatUsdc balance @ u '' (read from the account on Stellar).'')]
    | Attested \<Rightarrow> [])"

definition pad_end :: "nat \<Rightarrow> jstr \<Rightarrow> jstr" where
  "pad_end n s = s @ replicate (n - length s) 32"

definition reservesLines :: "json list \<Rightarrow> jstr option \<Rightarrow> log_line list" where
  "reservesLines balances sum_text =
     concat (List.map (\<lambda>b.
       [line LData (pad_end 12 (json_to_string (jopt b ''source_id'')) @ u '' '' @ commas (opt_str (jopt b ''balance''))),
        line LInfo (u ''  sig '' @ truncate_text (json_to_string (jopt b ''signature'')) 40 @ u ''  '' @ [0x2713]
          @ u '' signature verified'')]) balances)
     @ [line LOk (u ''Reserves R = '' @ commas sum_text @ u '' (signed by the reserve source).'')]"

definition rejectedLines :: "log_line list" where
  "rejectedLines =
     [line LInfo (u ''Committing what is owed'' @ [0x2026]),
      line LWarn (u ''Refused: reserves are below what is owed (R < L).''),
      line LWarn (u ''No proof was made. A short position is never written as covered.'')]"

definition publishedLines :: "json \<Rightarrow> demo_institution \<Rightarrow> log_line list" where
  "publishedLines pf i =
     [line LInfo (u ''Committing what is owed'' @ [0x2026]),
      line LData (u ''commitment  0x'' @ strip_0x (text_or (jopt pf ''root_hash'') '''')),
      line LInfo (u ''Generating the proof'' @ [0x2026]),
      line LData (u ''proven totals  R='' @ amount (jopt pf ''reserves_total'') i
        @ u ''  L='' @ amount (jopt pf ''liabilities_total'') i),
      line LInfo (u ''publish_proof  '' @ arrow @ u ''  signed by the registry owner''),
      line LOk (u ''Published on Stellar as proof #'' @ text_or (jopt pf ''chain_proof_id'') ''?'' @ u ''.'')]"

definition verifyLines :: "json \<Rightarrow> demo_institution \<Rightarrow> (bool \<times> log_line list) result" where
  "verifyLines r i =
     bindR (reservesCoverLiabilities (jopt r ''reserves'') (jopt r ''liabilities'')) (\<lambda>covers.
     Inr (covers,
       [line LInfo (u ''get_latest_proof  '' @ arrow @ u ''  read from the registry on Stellar''),
        line LData (u ''R='' @ amount (jopt r ''reserves'') i @ u ''  L='' @ amount (jopt r ''liabilities'') i),
        if covers then line LOk (u ''R '' @ [0x2265] @ u '' L on Stellar. The published record covers what is owed.'')
        else line LWarn (u ''R < L on Stellar. Reserves do not cover what is owed.'')]))"

definition inclusionLines :: "json \<Rightarrow> bool \<Rightarrow> demo_institution \<Rightarrow> log_line list" where
  "inclusionLines r onChain i =
     [line LInfo (u ''Holder cust-001  (id hash 0x'' @ take 8 DEMO_ID_HASH @ [0x2026] @ u '')''),
      line LData (u ''committed balance  '' @ amount (jopt r ''balance'') i),
      line LData (u ''inclusion path     '' @ text_or (jopt r ''pathLength'') ''0'' @ u '' steps to the commitment'')]
     @ (if \<not> onChain then
          [line LWarn (u ''verify_inclusion  '' @ arrow @ u ''  false. The contract did not confirm this holder.'')]
        else
          [line LInfo (u ''verify_inclusion  '' @ arrow @ u ''  true, on the registry on Stellar''),
           line LOk (u ''Counted in proof #'' @ text_or (jopt r ''chainProofId'') ''?''
             @ u '', confirmed by the contract. No customer is named.'')])"

section \<open>The runners of use-sandbox.ts\<close>

record run_result =
  rr_ok :: bool
  rr_lines :: "log_line list"
  rr_retry :: bool
  rr_proof :: "json option"

definition ok_run :: "log_line list \<Rightarrow> run_result" where
  "ok_run ls = \<lparr>rr_ok = True, rr_lines = ls, rr_retry = False, rr_proof = None\<rparr>"

definition failed_run :: "log_line list \<Rightarrow> run_result" where
  "failed_run ls = \<lparr>rr_ok = False, rr_lines = ls, rr_retry = False, rr_proof = None\<rparr>"

definition warn_run :: "jstr \<Rightarrow> run_result" where
  "warn_run t = failed_run [line LWarn t]"

text \<open>What a runner makes of the answer of its route: \<open>answer\<close> is the parsed body (whatever its
  status) or the failure of the request.\<close>

definition connect_runner :: "demo_institution \<Rightarrow> json result \<Rightarrow> run_result result" where
  "connect_runner i answer =
     (if di_reserves i \<noteq> Attested then Inr (ok_run (onchainConnectLines i))
      else bindR answer (\<lambda>data. bindR (jprop data ''error'') (\<lambda>e.
        if jtruthy e \<or> \<not> jtruthy (jopt data ''accessToken'')
        then Inr (warn_run (text_or e ''authorisation failed''))
        else Inr (ok_run (connectLines data)))))"

definition reserves_runner :: "demo_institution \<Rightarrow> json result \<Rightarrow> run_result result" where
  "reserves_runner i answer =
     bindR answer (\<lambda>data. bindR (jprop data ''onchain'') (\<lambda>oc.
       if jtruthy oc \<and> jtruthy (jopt data ''total'')
       then Inr (ok_run (onchainReservesLines i (json_to_string (jopt data ''total''))))
       else if jtruthy (jopt data ''error'') \<or> \<not> jtruthy (jopt data ''balances'')
       then Inr (warn_run (text_or (jopt data ''error'') ''could not read the signed balances''))
       else case jopt data ''balances'' of
           JArr bs \<Rightarrow> Inr (ok_run (reservesLines bs (opt_str (jopt data ''total''))))
         | _ \<Rightarrow> Inl (js_error ''TypeError'' (u ''balances is not iterable''))))"

definition prove_runner :: "demo_institution \<Rightarrow> json result \<Rightarrow> run_result result" where
  "prove_runner i answer =
     bindR answer (\<lambda>data. bindR (jprop data ''busy'') (\<lambda>b.
       if jtruthy b then
         Inr \<lparr>rr_ok = False,
              rr_lines = [line LWarn (u ''Another run is in progress for this institution. Give it a moment and run again.'')],
              rr_retry = True, rr_proof = None\<rparr>
       else if jtruthy (jopt data ''rejected'') then Inr (failed_run rejectedLines)
       else if \<not> jtruthy (jopt data ''published'') \<or> \<not> jtruthy (jopt data ''proof'') then
         Inr (warn_run (text_or (jopt data ''error'') ''the backend is unreachable''))
       else Inr \<lparr>rr_ok = True, rr_lines = publishedLines (jopt data ''proof'') i, rr_retry = False,
                 rr_proof = Some (jopt data ''proof'')\<rparr>))"

definition verify_runner :: "demo_institution \<Rightarrow> json result \<Rightarrow> run_result result" where
  "verify_runner i answer =
     bindR answer (\<lambda>data. bindR (jprop data ''record'') (\<lambda>r.
       if \<not> jtruthy r then Inr (warn_run (text_or (jopt data ''error'') ''no published record to check''))
       else bindR (verifyLines r i) (\<lambda>(covers, ls).
         Inr \<lparr>rr_ok = covers, rr_lines = ls, rr_retry = False, rr_proof = None\<rparr>)))"

definition inclusion_runner :: "demo_institution \<Rightarrow> json result \<Rightarrow> run_result result" where
  "inclusion_runner i answer =
     bindR answer (\<lambda>data. bindR (jprop data ''error'') (\<lambda>e.
       if jtruthy e \<or> \<not> jtruthy (jopt data ''included'')
       then Inr (warn_run (text_or e ''holder not found in this proof''))
       else let onChain = (jopt data ''onChain'' = JBool True) in
         Inr \<lparr>rr_ok = onChain, rr_lines = inclusionLines data onChain i, rr_retry = False, rr_proof = None\<rparr>))"

fun runner :: "step_id \<Rightarrow> demo_institution \<Rightarrow> json result \<Rightarrow> run_result result" where
  "runner Registry i answer = Inr (ok_run [])" |
  "runner Connect i answer = connect_runner i answer" |
  "runner Reserves i answer = reserves_runner i answer" |
  "runner Prove i answer = prove_runner i answer" |
  "runner Verify i answer = verify_runner i answer" |
  "runner Inclusion i answer = inclusion_runner i answer"

section \<open>The state of useSandbox\<close>

record sandbox =
  sb_institution :: demo_institution
  sb_scenario :: scenario
  sb_status :: "step_id \<Rightarrow> step_status"
  sb_logs :: "step_id \<Rightarrow> log_line list"
  sb_contract :: json
  sb_proof :: json
  sb_busy :: bool
  sb_reachable :: "bool option"
  sb_runId :: nat
  sb_load :: "demo_institution option"
  sb_inflight :: "(step_id \<times> demo_institution \<times> scenario) option"

definition startingStatus :: "step_id \<Rightarrow> step_status" where
  "startingStatus = initialStatus(Registry := Running)"

definition sandbox_start :: sandbox where
  "sandbox_start =
     \<lparr>sb_institution = hd DEMO_INSTITUTIONS, sb_scenario = hd SCENARIOS, sb_status = startingStatus,
      sb_logs = emptyLogs, sb_contract = JNull, sb_proof = JNull, sb_busy = False, sb_reachable = None,
      sb_runId = 0, sb_load = Some (hd DEMO_INSTITUTIONS), sb_inflight = None\<rparr>"

definition setStep :: "step_id \<Rightarrow> step_status \<Rightarrow> log_line list option \<Rightarrow> sandbox \<Rightarrow> sandbox" where
  "setStep i next_status ls s =
     s\<lparr>sb_status := (sb_status s)(i := next_status),
       sb_logs := (case ls of Some l \<Rightarrow> (sb_logs s)(i := l) | None \<Rightarrow> sb_logs s)\<rparr>"

definition clear :: "sandbox \<Rightarrow> sandbox" where
  "clear s = s\<lparr>sb_status := startingStatus, sb_logs := emptyLogs, sb_proof := JNull\<rparr>"

text \<open>Selecting an institution or restarting changes a dependency of the effect, so the load
  under way is cancelled and one for the current institution starts.\<close>

definition setInstitution :: "demo_institution \<Rightarrow> sandbox \<Rightarrow> sandbox" where
  "setInstitution i s = clear (s\<lparr>sb_institution := i, sb_load := Some i\<rparr>)"

definition reset_run :: "sandbox \<Rightarrow> sandbox" where
  "reset_run s = clear (s\<lparr>sb_runId := Suc (sb_runId s), sb_load := Some (sb_institution s)\<rparr>)"

record registry =
  rg_reachable :: bool
  rg_contract :: json
  rg_proof :: json

text \<open>\<open>loadRegistry\<close>: a thrown request, a status outside 200..299 and an unreadable body all give
  an unreachable registry.\<close>

definition loadRegistry :: "response result \<Rightarrow> registry" where
  "loadRegistry answer =
     (case answer of
        Inr res \<Rightarrow>
          if res_ok res then
            (case bindR (rs_json res) (\<lambda>d. bindR (jprop d ''contract'') (\<lambda>c. bindR (jprop d ''proof'') (\<lambda>p. Inr (c, p)))) of
               Inr (c, p) \<Rightarrow> \<lparr>rg_reachable = True, rg_contract = nullish c JNull, rg_proof = nullish p JNull\<rparr>
             | Inl _ \<Rightarrow> \<lparr>rg_reachable = False, rg_contract = JNull, rg_proof = JNull\<rparr>)
          else \<lparr>rg_reachable = False, rg_contract = JNull, rg_proof = JNull\<rparr>
      | Inl _ \<Rightarrow> \<lparr>rg_reachable = False, rg_contract = JNull, rg_proof = JNull\<rparr>)"

definition registry_loaded :: "demo_institution \<Rightarrow> registry \<Rightarrow> sandbox \<Rightarrow> sandbox" where
  "registry_loaded i rg s0 =
     (let s = s0\<lparr>sb_load := None, sb_reachable := Some (rg_reachable rg), sb_contract := rg_contract rg,
                 sb_proof := rg_proof rg\<rparr> in
      if \<not> rg_reachable rg then
        setStep Registry Failed (Some [line LWarn (u ''The sandbox backend is not reachable from this page right now.'')]) s
      else if jtruthy (jopt (rg_contract rg) ''contract_id'') then
        setStep Connect Ready None (setStep Registry Done (Some (registryLines i (rg_contract rg))) s)
      else setStep Registry Failed (Some [line LWarn (di_name i @ u '' has no registry entry on Testnet yet.'')]) s)"

definition run_started :: "step_id \<Rightarrow> sandbox \<Rightarrow> sandbox" where
  "run_started i s =
     (setStep i Running None (s\<lparr>sb_busy := True\<rparr>))\<lparr>sb_inflight := Some (i, sb_institution s, sb_scenario s)\<rparr>"

definition run_settled :: "step_id \<Rightarrow> run_result result \<Rightarrow> sandbox \<Rightarrow> sandbox" where
  "run_settled i r s0 =
     (let s = s0\<lparr>sb_inflight := None, sb_busy := False\<rparr> in
      case r of
        Inl e \<Rightarrow> setStep i Failed (Some [line LWarn (u ''Step failed: '' @ show_exn e)]) s
      | Inr res \<Rightarrow>
          (let s = (case rr_proof res of Some p \<Rightarrow> s\<lparr>sb_proof := p\<rparr> | None \<Rightarrow> s) in
           if \<not> rr_ok res \<and> rr_retry res then setStep i Ready (Some (rr_lines res)) s
           else let s = setStep i (if rr_ok res then Done else Failed) (Some (rr_lines res)) s in
             case (if rr_ok res then NEXT_STEP i else None) of
               Some n \<Rightarrow> setStep n Ready None s
             | None \<Rightarrow> s))"

datatype sandbox_event =
    Select demo_institution
  | PickScenario scenario
  | Restart
  | Loaded "response result"
  | Click step_id
  | Settled "json result"

inductive sandbox_step :: "sandbox \<Rightarrow> sandbox_event \<Rightarrow> sandbox \<Rightarrow> bool" where
  select: "\<not> sb_busy s \<Longrightarrow> i \<in> set DEMO_INSTITUTIONS \<Longrightarrow> i \<noteq> sb_institution s \<Longrightarrow>
     sandbox_step s (Select i) (setInstitution i s)"
| scenario: "\<not> sb_busy s \<Longrightarrow> sc \<in> set SCENARIOS \<Longrightarrow> di_reserves (sb_institution s) = Attested \<Longrightarrow>
     sandbox_step s (PickScenario sc) (s\<lparr>sb_scenario := sc\<rparr>)"
| restart: "\<not> sb_busy s \<Longrightarrow> sandbox_step s Restart (reset_run s)"
| loaded: "sb_load s = Some i \<Longrightarrow> sandbox_step s (Loaded answer) (registry_loaded i (loadRegistry answer) s)"
| click: "sb_status s i = Ready \<Longrightarrow> \<not> sb_busy s \<Longrightarrow> sandbox_step s (Click i) (run_started i s)"
| settled: "sb_inflight s = Some (i, inst, sc) \<Longrightarrow>
     sandbox_step s (Settled answer) (run_settled i (runner i inst answer) s)"

inductive_cases sandbox_stepE: "sandbox_step s e s'"

inductive sandbox_reach :: "sandbox \<Rightarrow> bool" where
  start: "sandbox_reach sandbox_start"
| step: "sandbox_reach s \<Longrightarrow> sandbox_step s e s' \<Longrightarrow> sandbox_reach s'"

section \<open>The order of the steps\<close>

text \<open>The statuses along the list of steps: done steps, then at most one step that is not, then
  locked steps.\<close>

fun staged :: "step_status list \<Rightarrow> bool" where
  "staged [] = True" |
  "staged (Done # r) = staged r" |
  "staged (Locked # r) = False" |
  "staged (x # r) = (\<forall>y \<in> set r. y = Locked)"

lemma staged_Cons:
  "staged (x # r) \<longleftrightarrow> (if x = Done then staged r else x \<noteq> Locked \<and> (\<forall>y \<in> set r. y = Locked))"
  by (cases x) auto

declare staged.simps [simp del]
declare staged.simps(1) [simp] staged_Cons [simp]

definition sandbox_inv :: "sandbox \<Rightarrow> bool" where
  "sandbox_inv s \<longleftrightarrow>
     staged (List.map (sb_status s) STEPS)
     \<and> (sb_busy s \<longleftrightarrow> sb_inflight s \<noteq> None)
     \<and> (\<forall>i inst sc. sb_inflight s = Some (i, inst, sc) \<longrightarrow>
          i \<noteq> Registry \<and> sb_status s i = Running \<and> inst = sb_institution s \<and> sc = sb_scenario s \<and> sb_load s = None)
     \<and> (\<forall>i. sb_load s = Some i \<longrightarrow> i = sb_institution s \<and> sb_status s Registry = Running)
     \<and> (sb_status s Registry = Running \<longrightarrow> sb_load s \<noteq> None)
     \<and> sb_status s Registry \<noteq> Ready
     \<and> (\<forall>i. sb_status s i = Running \<longrightarrow> i \<noteq> Registry \<longrightarrow> (\<exists>inst sc. sb_inflight s = Some (i, inst, sc)))
     \<and> sb_institution s \<in> set DEMO_INSTITUTIONS"

lemma all_steps: "(\<forall>i. P i) \<longleftrightarrow> P Registry \<and> P Connect \<and> P Reserves \<and> P Prove \<and> P Verify \<and> P Inclusion"
  by (metis step_id.exhaust)

lemma sandbox_inv_start: "sandbox_inv sandbox_start"
  by (simp add: sandbox_inv_def sandbox_start_def STEPS_def startingStatus_def initialStatus_def DEMO_INSTITUTIONS_def)

lemma sandbox_inv_clear:
  "sandbox_inv s \<Longrightarrow> \<not> sb_busy s \<Longrightarrow> i \<in> set DEMO_INSTITUTIONS \<Longrightarrow>
     sandbox_inv (clear (s\<lparr>sb_institution := i, sb_load := Some i\<rparr>))"
  by (simp add: sandbox_inv_def clear_def STEPS_def startingStatus_def initialStatus_def)

lemma sandbox_inv_reset: "sandbox_inv s \<Longrightarrow> \<not> sb_busy s \<Longrightarrow> sandbox_inv (reset_run s)"
  by (simp add: sandbox_inv_def reset_run_def clear_def STEPS_def startingStatus_def initialStatus_def)

lemma sandbox_inv_loaded: "sandbox_inv s \<Longrightarrow> sb_load s = Some i \<Longrightarrow> sandbox_inv (registry_loaded i rg s)"
  by (auto simp: sandbox_inv_def registry_loaded_def Let_def setStep_def STEPS_def)

lemma sandbox_inv_started:
  "sandbox_inv s \<Longrightarrow> sb_status s i = Ready \<Longrightarrow> \<not> sb_busy s \<Longrightarrow> sandbox_inv (run_started i s)"
  by (cases i) (auto simp: sandbox_inv_def run_started_def setStep_def STEPS_def split: if_splits)

lemma sandbox_inv_finish:
  assumes "sandbox_inv s" "sb_inflight s = Some (i, inst, sc)" "st = Failed \<or> st = Ready"
  shows "sandbox_inv (setStep i st ls (s\<lparr>sb_inflight := None, sb_busy := False, sb_proof := p\<rparr>))"
  using assms by (cases i) (auto simp: sandbox_inv_def setStep_def STEPS_def split: if_splits)

lemma sandbox_inv_done:
  assumes "sandbox_inv s" "sb_inflight s = Some (i, inst, sc)" "NEXT_STEP i = Some n"
  shows "sandbox_inv (setStep n Ready None (setStep i Done ls (s\<lparr>sb_inflight := None, sb_busy := False, sb_proof := p\<rparr>)))"
  using assms by (cases i) (auto simp: sandbox_inv_def setStep_def STEPS_def split: if_splits)

lemma sandbox_inv_last:
  assumes "sandbox_inv s" "sb_inflight s = Some (Inclusion, inst, sc)"
  shows "sandbox_inv (setStep Inclusion Done ls (s\<lparr>sb_inflight := None, sb_busy := False, sb_proof := p\<rparr>))"
  using assms by (auto simp: sandbox_inv_def setStep_def STEPS_def split: if_splits)

lemma run_settled_cases:
  obtains (stays) st ls p where "st = Failed \<or> st = Ready"
      "run_settled i r s = setStep i st ls (s\<lparr>sb_inflight := None, sb_busy := False, sb_proof := p\<rparr>)"
  | (onwards) n ls p where "NEXT_STEP i = Some n" "run_settled i r s =
      setStep n Ready None (setStep i Done ls (s\<lparr>sb_inflight := None, sb_busy := False, sb_proof := p\<rparr>))"
  | (final) ls p where "NEXT_STEP i = None" "run_settled i r s =
      setStep i Done ls (s\<lparr>sb_inflight := None, sb_busy := False, sb_proof := p\<rparr>)"
proof (cases r)
  case (Inl e)
  then show ?thesis by (intro stays [of Failed _ "sb_proof s"]) (auto simp: run_settled_def)
next
  case (Inr res)
  let ?p = "case rr_proof res of Some p \<Rightarrow> p | None \<Rightarrow> sb_proof s"
  show ?thesis
  proof (cases "rr_ok res")
    case True
    show ?thesis
    proof (cases "NEXT_STEP i")
      case None
      with Inr True show ?thesis
        by (intro final [of "Some (rr_lines res)" ?p]) (auto simp: run_settled_def Let_def split: option.splits)
    next
      case (Some n)
      with Inr True show ?thesis
        by (intro onwards [of n "Some (rr_lines res)" ?p]) (auto simp: run_settled_def Let_def split: option.splits)
    qed
  next
    case False
    with Inr show ?thesis
      by (intro stays [of "if rr_retry res then Ready else Failed" "Some (rr_lines res)" ?p])
        (auto simp: run_settled_def Let_def split: option.splits)
  qed
qed

lemma sandbox_inv_settled:
  assumes "sandbox_inv s" "sb_inflight s = Some (i, inst, sc)"
  shows "sandbox_inv (run_settled i r s)"
proof (cases rule: run_settled_cases [of i r s, case_names stays onwards final])
  case (final ls p)
  then have "i = Inclusion" by (cases i) simp_all
  with final assms show ?thesis by (simp add: sandbox_inv_last)
qed (use assms in \<open>auto intro: sandbox_inv_finish sandbox_inv_done\<close>)

lemma sandbox_inv_step: "sandbox_inv s \<Longrightarrow> sandbox_step s e s' \<Longrightarrow> sandbox_inv s'"
proof (erule sandbox_stepE)
  fix i assume "sandbox_inv s" "\<not> sb_busy s" "i \<in> set DEMO_INSTITUTIONS" "s' = setInstitution i s"
  then show "sandbox_inv s'" by (simp add: setInstitution_def sandbox_inv_clear)
qed (auto simp: sandbox_inv_reset sandbox_inv_loaded sandbox_inv_started sandbox_inv_settled,
     auto simp: sandbox_inv_def)

lemma sandbox_reach_inv: "sandbox_reach s \<Longrightarrow> sandbox_inv s"
  by (induction rule: sandbox_reach.induct) (auto intro: sandbox_inv_start sandbox_inv_step)

text \<open>C9: The panel runs its steps strictly in order, one at a time.  In every reachable state the
  six statuses are done steps, then at most one step that is ready, running or failed, then
  locked steps; the panel is busy exactly while one step is in flight, that step is running,
  was started for the institution and scenario still selected, and no registry load can
  interfere with it; and the registry is running exactly while its load for the selected
  institution is pending.\<close>

theorem sandbox_in_order:
  assumes "sandbox_reach s"
  shows "staged (List.map (sb_status s) STEPS)
    \<and> (sb_busy s \<longleftrightarrow> (\<exists>i. sb_inflight s = Some (i, sb_institution s, sb_scenario s) \<and> sb_status s i = Running))
    \<and> (sb_busy s \<longrightarrow> sb_load s = None)
    \<and> (sb_status s Registry = Running \<longleftrightarrow> sb_load s = Some (sb_institution s))"
  using sandbox_reach_inv [OF assms] unfolding sandbox_inv_def by auto

section \<open>What a done step means\<close>

lemma settled_done:
  assumes "sandbox_reach s" "sandbox_step s (Settled answer) s'" "sb_status s' k = Done" "sb_status s k \<noteq> Done"
  obtains res where "sb_inflight s = Some (k, sb_institution s, sb_scenario s)"
    "runner k (sb_institution s) answer = Inr res" "rr_ok res"
proof -
  from assms(2) obtain i inst sc where f: "sb_inflight s = Some (i, inst, sc)"
    and s': "s' = run_settled i (runner i inst answer) s" by (auto elim: sandbox_stepE)
  from sandbox_reach_inv [OF assms(1)] f have "inst = sb_institution s" "sc = sb_scenario s"
    by (auto simp: sandbox_inv_def)
  moreover have "\<exists>res. runner i inst answer = Inr res \<and> rr_ok res \<and> k = i"
    using assms(3,4) s'
    by (auto simp: run_settled_def setStep_def Let_def split: sum.splits option.splits if_splits)
  ultimately show ?thesis using f that by auto
qed

text \<open>C10: A step turns done only on the strength of its answer.  When a settled request makes \<open>Verify\<close>
  done, the record it brought has integer reserves not below its liabilities; when it makes
  \<open>Inclusion\<close> done, the answer says \<open>onChain: true\<close>, nothing merely truthy; when it makes
  \<open>Prove\<close> done, the answer says published, neither busy nor rejected, and the proof in the state
  is the one it brought.\<close>

theorem done_needs_evidence:
  assumes "sandbox_reach s" "sandbox_step s (Settled answer) s'" "sb_status s' k = Done" "sb_status s k \<noteq> Done"
  shows "(k = Verify \<longrightarrow> (\<exists>data R L. answer = Inr data
            \<and> big_of_json (jopt (jopt data ''record'') ''reserves'') = Inr R
            \<and> big_of_json (jopt (jopt data ''record'') ''liabilities'') = Inr L \<and> L \<le> R))
    \<and> (k = Inclusion \<longrightarrow> (\<exists>data. answer = Inr data \<and> jopt data ''onChain'' = JBool True))
    \<and> (k = Prove \<longrightarrow> (\<exists>data. answer = Inr data \<and> jtruthy (jopt data ''published'')
            \<and> \<not> jtruthy (jopt data ''busy'') \<and> \<not> jtruthy (jopt data ''rejected'')
            \<and> sb_proof s' = jopt data ''proof''))"
proof -
  have jp: "jprop v f = Inr x \<Longrightarrow> x = jopt v f" for v f x
    by (cases v) (auto simp: jprop_def jopt_def)
  from assms obtain res where fl: "sb_inflight s = Some (k, sb_institution s, sb_scenario s)"
    and r: "runner k (sb_institution s) answer = Inr res" "rr_ok res" by (rule settled_done)
  from assms(2) fl have s': "s' = run_settled k (Inr res) s"
    using r by (auto elim: sandbox_stepE)
  show ?thesis
  proof (intro conjI impI)
    assume k: "k = Verify"
    with r obtain data where d: "answer = Inr data" by (auto simp: verify_runner_def result_simps)
    with r k show "\<exists>data R L. answer = Inr data
            \<and> big_of_json (jopt (jopt data ''record'') ''reserves'') = Inr R
            \<and> big_of_json (jopt (jopt data ''record'') ''liabilities'') = Inr L \<and> L \<le> R"
      by (auto simp: verify_runner_def verifyLines_def result_simps big_of_json_leq warn_run_def failed_run_def
          split: if_splits dest!: jp)
  next
    assume "k = Inclusion"
    with r show "\<exists>data. answer = Inr data \<and> jopt data ''onChain'' = JBool True"
      by (auto simp: inclusion_runner_def result_simps warn_run_def failed_run_def Let_def split: if_splits)
  next
    assume k: "k = Prove"
    with r s' show "\<exists>data. answer = Inr data \<and> jtruthy (jopt data ''published'')
            \<and> \<not> jtruthy (jopt data ''busy'') \<and> \<not> jtruthy (jopt data ''rejected'')
            \<and> sb_proof s' = jopt data ''proof''"
      by (auto simp: prove_runner_def result_simps warn_run_def failed_run_def run_settled_def setStep_def Let_def
          split: if_splits dest!: jp)
  qed
qed

text \<open>C11: The panel never gets stuck.  Whatever a request brings (an answer of any shape or a
  failure), the step in flight settles and the panel is idle again; a busy back end puts the
  step back to ready, so it can be clicked again; and an idle panel can always be restarted,
  which starts a fresh registry load.\<close>

theorem sandbox_recovers:
  assumes "sandbox_reach s"
  shows "(sb_busy s \<longrightarrow> (\<forall>answer. \<exists>s'. sandbox_step s (Settled answer) s' \<and> \<not> sb_busy s' \<and> sb_inflight s' = None
            \<and> (\<forall>k i sc res. sb_inflight s = Some (k, i, sc) \<longrightarrow> runner k i answer = Inr res \<longrightarrow> \<not> rr_ok res \<longrightarrow>
                rr_retry res \<longrightarrow> sandbox_step s' (Click k) (run_started k s'))))
    \<and> (\<not> sb_busy s \<longrightarrow> (\<exists>s'. sandbox_step s Restart s' \<and> sb_status s' Registry = Running
            \<and> sb_load s' = Some (sb_institution s)))"
proof (intro conjI impI allI)
  fix answer assume "sb_busy s"
  with sandbox_reach_inv [OF assms] obtain k i sc where f: "sb_inflight s = Some (k, i, sc)"
    by (auto simp: sandbox_inv_def)
  let ?s' = "run_settled k (runner k i answer) s"
  have idle: "\<not> sb_busy ?s'" "sb_inflight ?s' = None"
    by (auto simp: run_settled_def setStep_def Let_def split: sum.splits option.splits)
  have "sb_status ?s' k = Ready" if "runner k i answer = Inr res" "\<not> rr_ok res" "rr_retry res" for res
    using that by (auto simp: run_settled_def setStep_def Let_def split: option.splits)
  with f idle show "\<exists>s'. sandbox_step s (Settled answer) s' \<and> \<not> sb_busy s' \<and> sb_inflight s' = None
      \<and> (\<forall>k i sc res. sb_inflight s = Some (k, i, sc) \<longrightarrow> runner k i answer = Inr res \<longrightarrow> \<not> rr_ok res \<longrightarrow>
          rr_retry res \<longrightarrow> sandbox_step s' (Click k) (run_started k s'))"
    by (intro exI [of _ ?s']) (auto intro: sandbox_step.intros)
next
  assume "\<not> sb_busy s"
  then have "sandbox_step s Restart (reset_run s)" by (rule sandbox_step.restart)
  moreover have "sb_status (reset_run s) Registry = Running" "sb_load (reset_run s) = Some (sb_institution s)"
    by (simp_all add: reset_run_def clear_def startingStatus_def)
  ultimately show "\<exists>s'. sandbox_step s Restart s' \<and> sb_status s' Registry = Running \<and> sb_load s' = Some (sb_institution s)"
    by blast
qed

section \<open>A sample run\<close>

definition live_registry :: json where
  "live_registry = JObj [(u ''contract'', JObj [(u ''contract_id'', JStr (u ''C1''))]), (u ''proof'', JNull)]"

text \<open>From the start: the registry loads, the first three steps succeed, \<open>Prove\<close> publishes.\<close>

definition oauth_answer :: json where
  "oauth_answer = JObj [(u ''accessToken'', JStr (u ''t''))]"

definition balances_answer :: json where
  "balances_answer = JObj [(u ''balances'', JArr []), (u ''total'', JStr (u ''0''))]"

definition published_answer :: json where
  "published_answer = JObj [(u ''published'', JBool True), (u ''proof'', JObj [])]"

definition record_answer :: json where
  "record_answer = JObj [(u ''record'', JObj [(u ''reserves'', JStr (show_nat 12)), (u ''liabilities'', JStr (show_nat 10))])]"

lemma reach_loaded: "\<exists>s. sandbox_reach s \<and> sb_status s Connect = Ready \<and> \<not> sb_busy s
    \<and> sb_institution s = solstice_institution"
proof -
  let ?s = "registry_loaded (hd DEMO_INSTITUTIONS) (loadRegistry (Inr (ok_json live_registry))) sandbox_start"
  have "sandbox_step sandbox_start (Loaded (Inr (ok_json live_registry))) ?s"
    by (rule sandbox_step.loaded) (simp add: sandbox_start_def)
  then have "sandbox_reach ?s" using sandbox_reach.intros by blast
  moreover have "sb_status ?s Connect = Ready \<and> \<not> sb_busy ?s \<and> sb_institution ?s = solstice_institution"
    by (simp add: registry_loaded_def loadRegistry_def live_registry_def nullish_def jopt_def setStep_def Let_def
        sandbox_start_def solstice_institution_def)
  ultimately show ?thesis by blast
qed

lemma reach_next:
  assumes "sandbox_reach s" "sb_status s k = Ready" "\<not> sb_busy s"
    "runner k (sb_institution s) answer = Inr res" "rr_ok res"
  shows "\<exists>s1 s2. sandbox_reach s1 \<and> sb_inflight s1 = Some (k, sb_institution s, sb_scenario s)
    \<and> sb_busy s1 \<and> sb_status s1 k = Running
    \<and> sandbox_step s1 (Settled answer) s2 \<and> sandbox_reach s2 \<and> sb_status s2 k = Done
    \<and> (\<forall>n. NEXT_STEP k = Some n \<longrightarrow> sb_status s2 n = Ready) \<and> \<not> sb_busy s2 \<and> sb_institution s2 = sb_institution s"
proof -
  let ?s1 = "run_started k s" and ?s2 = "run_settled k (Inr res) (run_started k s)"
  have r1: "sandbox_reach ?s1" using assms sandbox_step.click sandbox_reach.step by blast
  have f: "sb_inflight ?s1 = Some (k, sb_institution s, sb_scenario s)" "sb_busy ?s1" "sb_status ?s1 k = Running"
    by (simp_all add: run_started_def setStep_def)
  have st: "sandbox_step ?s1 (Settled answer) ?s2"
    using sandbox_step.settled [OF f(1), of answer] assms(4) by simp
  have ne: "NEXT_STEP k \<noteq> Some k" by (cases k) simp_all
  have "sb_status ?s2 k = Done" "\<forall>n. NEXT_STEP k = Some n \<longrightarrow> sb_status ?s2 n = Ready" "\<not> sb_busy ?s2"
    "sb_institution ?s2 = sb_institution s"
    using assms(5) ne by (auto simp: run_settled_def run_started_def setStep_def Let_def split: option.splits)
  with r1 f st sandbox_reach.step [OF r1 st] show ?thesis by blast
qed

lemma reach_verify: "\<exists>s1 s2. sandbox_reach s1 \<and> sb_busy s1 \<and> sandbox_step s1 (Settled (Inr record_answer)) s2
    \<and> sb_status s2 Verify = Done \<and> sb_status s1 Verify \<noteq> Done"
proof -
  obtain s0 where s0: "sandbox_reach s0" "sb_status s0 Connect = Ready" "\<not> sb_busy s0"
    "sb_institution s0 = solstice_institution" using reach_loaded by blast
  have "\<exists>res. runner Connect solstice_institution (Inr oauth_answer) = Inr res \<and> rr_ok res"
    by (simp add: connect_runner_def oauth_answer_def jopt_def ok_run_def)
  with reach_next [OF s0(1-3)] s0(4) obtain a where a: "sandbox_reach a" "sb_status a Reserves = Ready" "\<not> sb_busy a"
    "sb_institution a = solstice_institution" by fastforce
  have "\<exists>res. runner Reserves solstice_institution (Inr balances_answer) = Inr res \<and> rr_ok res"
    by (simp add: reserves_runner_def balances_answer_def jopt_def ok_run_def)
  with reach_next [OF a(1-3)] a(4) obtain b where b: "sandbox_reach b" "sb_status b Prove = Ready" "\<not> sb_busy b"
    "sb_institution b = solstice_institution" by fastforce
  have "\<exists>res. runner Prove solstice_institution (Inr published_answer) = Inr res \<and> rr_ok res"
    by (simp add: prove_runner_def published_answer_def jopt_def)
  with reach_next [OF b(1-3)] b(4) obtain c where c: "sandbox_reach c" "sb_status c Verify = Ready" "\<not> sb_busy c"
    "sb_institution c = solstice_institution" by fastforce
  have "\<exists>res. runner Verify solstice_institution (Inr record_answer) = Inr res \<and> rr_ok res"
    by (simp add: verify_runner_def record_answer_def jopt_def verifyLines_def reservesCoverLiabilities_def)
  with reach_next [OF c(1-3), of "Inr record_answer"] c(4) show ?thesis by fastforce
qed

lemma sandbox_in_order_witness: "staged (List.map (sb_status sandbox_start) STEPS) \<and> \<not> sb_busy sandbox_start"
  using sandbox_in_order [OF sandbox_reach.start] by (simp add: sandbox_start_def)

lemma done_needs_evidence_witness:
  "\<exists>R L. big_of_json (jopt (jopt record_answer ''record'') ''reserves'') = Inr R
     \<and> big_of_json (jopt (jopt record_answer ''record'') ''liabilities'') = Inr L \<and> L \<le> R"
proof -
  obtain s1 s2 where "sandbox_reach s1" "sandbox_step s1 (Settled (Inr record_answer)) s2"
    "sb_status s2 Verify = Done" "sb_status s1 Verify \<noteq> Done" using reach_verify by blast
  from done_needs_evidence [OF this] show ?thesis by simp
qed

lemma sandbox_recovers_witness:
  "\<exists>s s'. sandbox_reach s \<and> sb_busy s \<and> sandbox_step s (Settled (Inl uri_error)) s' \<and> \<not> sb_busy s'"
proof -
  obtain s where "sandbox_reach s" "sb_busy s" using reach_verify by blast
  with sandbox_recovers [OF this(1)] show ?thesis by blast
qed

end
