(* ===== verification/Dom.thy ===== *)
theory Dom
  imports Prelude
begin

text \<open>
  Documents: what a component renders and what the motion hooks search.  An element has a tag,
  attributes and children; a node is addressed by its path from the root, so an ancestor is a
  prefix.  \<open>paths\<close> is the document order of \<open>querySelectorAll\<close>, \<open>closest\<close> walks up from an
  element, \<open>contains\<close> is inclusive as in the DOM.  \<open>texts\<close>, \<open>links\<close> and \<open>buttons\<close> read what a
  rendered view shows and offers.  Class names that only style are left out of the views.
\<close>

datatype dom = Txt jstr | El string "(string \<times> jstr) list" "dom list"

type_synonym path = "nat list"

section \<open>Reading a document\<close>

fun children :: "dom \<Rightarrow> dom list" where
  "children (Txt s) = []" |
  "children (El t a cs) = cs"

fun tag :: "dom \<Rightarrow> string option" where
  "tag (Txt s) = None" |
  "tag (El t a cs) = Some t"

fun attr :: "string \<Rightarrow> dom \<Rightarrow> jstr option" where
  "attr k (Txt s) = None" |
  "attr k (El t a cs) = map_of a k"

fun node_at :: "dom \<Rightarrow> path \<Rightarrow> dom option" where
  "node_at d [] = Some d" |
  "node_at d (i # p) = (if i < length (children d) then node_at (children d ! i) p else None)"

text \<open>The elements of a document in document order.\<close>

fun paths :: "dom \<Rightarrow> path list" and kid_paths :: "nat \<Rightarrow> dom list \<Rightarrow> path list" where
  "paths (Txt s) = []" |
  "paths (El t a cs) = [] # kid_paths 0 cs" |
  "kid_paths i [] = []" |
  "kid_paths i (c # cs) = List.map ((#) i) (paths c) @ kid_paths (Suc i) cs"

fun element_kids :: "nat \<Rightarrow> dom list \<Rightarrow> nat list" where
  "element_kids i [] = []" |
  "element_kids i (Txt s # cs) = element_kids (Suc i) cs" |
  "element_kids i (El t a ks # cs) = i # element_kids (Suc i) cs"

definition kids :: "dom \<Rightarrow> path \<Rightarrow> path list" where
  "kids d p = (case node_at d p of None \<Rightarrow> [] | Some e \<Rightarrow> List.map (\<lambda>i. p @ [i]) (element_kids 0 (children e)))"

text \<open>Selectors are predicates on paths; a document fixes what they look at.\<close>

definition has_tag :: "dom \<Rightarrow> string list \<Rightarrow> path \<Rightarrow> bool" where
  "has_tag d ts p = (case node_at d p of None \<Rightarrow> False | Some e \<Rightarrow> (case tag e of None \<Rightarrow> False | Some t \<Rightarrow> t \<in> set ts))"

definition has_attr :: "dom \<Rightarrow> string list \<Rightarrow> path \<Rightarrow> bool" where
  "has_attr d ks p = (case node_at d p of None \<Rightarrow> False | Some e \<Rightarrow> list_ex (\<lambda>k. attr k e \<noteq> None) ks)"

definition attr_is :: "dom \<Rightarrow> string \<Rightarrow> string \<Rightarrow> path \<Rightarrow> bool" where
  "attr_is d k v p = (case node_at d p of None \<Rightarrow> False | Some e \<Rightarrow> attr k e = Some (u v))"

fun split_spaces :: "jstr \<Rightarrow> jstr \<Rightarrow> jstr list" where
  "split_spaces acc [] = (if acc = [] then [] else [rev acc])" |
  "split_spaces acc (c # cs) =
     (if is_ws c then (if acc = [] then [] else [rev acc]) @ split_spaces [] cs else split_spaces (c # acc) cs)"

definition has_class :: "dom \<Rightarrow> string list \<Rightarrow> path \<Rightarrow> bool" where
  "has_class d ks p =
     (case node_at d p of None \<Rightarrow> False
      | Some e \<Rightarrow> (case attr ''class'' e of None \<Rightarrow> False
          | Some s \<Rightarrow> list_ex (\<lambda>k. u k \<in> set (split_spaces [] s)) ks))"

definition contains :: "path \<Rightarrow> path \<Rightarrow> bool" where
  "contains a b = prefix a b"

definition ancestors :: "path \<Rightarrow> path list" where
  "ancestors p = rev (prefixes p)"

definition closest :: "(path \<Rightarrow> bool) \<Rightarrow> path \<Rightarrow> path option" where
  "closest sel p = find sel (ancestors p)"

definition inside :: "(path \<Rightarrow> bool) \<Rightarrow> path \<Rightarrow> bool" where
  "inside sel p = (p \<noteq> [] \<and> closest sel (butlast p) \<noteq> None)"

definition select_all :: "dom \<Rightarrow> (path \<Rightarrow> bool) \<Rightarrow> path list" where
  "select_all d sel = filter sel (paths d)"

definition select_in :: "dom \<Rightarrow> path \<Rightarrow> (path \<Rightarrow> bool) \<Rightarrow> path list" where
  "select_in d p sel = filter (\<lambda>q. strict_prefix p q \<and> sel q) (paths d)"

section \<open>What a view shows\<close>

fun texts :: "dom \<Rightarrow> jstr list" where
  "texts (Txt s) = [s]" |
  "texts (El t a cs) = concat (List.map texts cs)"

definition text_of :: "dom \<Rightarrow> jstr" where
  "text_of d = concat (texts d)"

fun with_attr :: "string \<Rightarrow> dom \<Rightarrow> jstr list" where
  "with_attr k (Txt s) = []" |
  "with_attr k (El t a cs) =
     (case map_of a k of Some v \<Rightarrow> [v] | None \<Rightarrow> []) @ concat (List.map (with_attr k) cs)"

definition links :: "dom \<Rightarrow> jstr list" where
  "links d = with_attr ''href'' d"

text \<open>The controls a view offers, with the text on them and whether they are enabled.\<close>

fun controls :: "dom \<Rightarrow> (jstr \<times> bool) list" where
  "controls (Txt s) = []" |
  "controls (El t a cs) =
     (if t = ''button'' \<or> t = ''select'' then [(concat (concat (List.map texts cs)), map_of a ''disabled'' = None)]
      else concat (List.map controls cs))"

abbreviation tx :: "string \<Rightarrow> dom" where "tx s \<equiv> Txt (u s)"

definition flag :: "string \<Rightarrow> bool \<Rightarrow> (string \<times> jstr) list" where
  "flag k b = (if b then [(k, [])] else [])"

lemma view_append [simp]:
  "texts (El t a (xs @ ys)) = texts (El t a xs) @ texts (El t a ys)"
  by simp

section \<open>Reading a view\<close>

lemma flag_simps [simp]: "flag k True = [(k, [])]" "flag k False = []" "map_of (flag k b) k' = (if b \<and> k' = k then Some [] else None)"
  by (simp_all add: flag_def)

lemma concat_map_none [simp]: "concat (List.map (\<lambda>x. []) xs) = []"
  by (induction xs) simp_all

lemma links_fun: "with_attr ''href'' = links"
  by (rule ext) (simp add: links_def)

lemma links_El: "links (El t a cs) = (case map_of a ''href'' of Some v \<Rightarrow> [v] | None \<Rightarrow> []) @ concat (List.map links cs)"
  by (simp add: links_fun [symmetric])

lemma links_Txt [simp]: "links (Txt s) = []"
  by (simp add: links_def)

section \<open>Document order\<close>

lemma node_at_append: "node_at d (p @ q) = (case node_at d p of None \<Rightarrow> None | Some e \<Rightarrow> node_at e q)"
  by (induction d p rule: node_at.induct) auto

lemma ex_nat_0_Suc: "(\<exists>j::nat. P j) \<longleftrightarrow> P 0 \<or> (\<exists>j. P (Suc j))"
  by (metis not0_implies_Suc)

lemma kid_paths_mem: "p \<in> set (kid_paths i cs) \<longleftrightarrow> (\<exists>j q. p = (i + j) # q \<and> j < length cs \<and> q \<in> set (paths (cs ! j)))"
proof (induction cs arbitrary: i)
  case (Cons c cs)
  have "(\<exists>j q. p = (i + j) # q \<and> j < length (c # cs) \<and> q \<in> set (paths ((c # cs) ! j))) \<longleftrightarrow>
      (\<exists>q. p = i # q \<and> q \<in> set (paths c)) \<or> (\<exists>j q. p = (Suc i + j) # q \<and> j < length cs \<and> q \<in> set (paths (cs ! j)))"
    by (subst ex_nat_0_Suc) simp
  then show ?case by (auto simp: Cons)
qed simp

lemma paths_mem: "p \<in> set (paths d) \<longleftrightarrow> (\<exists>t a cs. node_at d p = Some (El t a cs))"
proof (induction d arbitrary: p)
  case (El t a cs)
  show ?case
  proof (cases p)
    case (Cons i q)
    show ?thesis
    proof (cases "i < length cs")
      case True
      then have "cs ! i \<in> set cs" by simp
      from El [OF this, of q] True Cons show ?thesis by (simp add: kid_paths_mem)
    qed (simp add: Cons kid_paths_mem)
  qed simp
next
  case (Txt s)
  show ?case by (cases p) simp_all
qed

text \<open>No element comes after one it is contained in, and none comes twice.\<close>

lemma paths_order:
  "sorted_wrt (\<lambda>p q. \<not> prefix q p) (paths d)"
  "sorted_wrt (\<lambda>p q. \<not> prefix q p) (kid_paths i cs)"
proof (induction d and i cs rule: paths_kid_paths.induct)
  case (2 t a cs)
  then show ?case by (auto simp: kid_paths_mem)
next
  case (4 i c cs)
  then show ?case by (auto simp: sorted_wrt_append sorted_wrt_map kid_paths_mem)
qed simp_all

lemma sorted_prefix_distinct: "sorted_wrt (\<lambda>p q. \<not> prefix q p) ps \<Longrightarrow> distinct ps"
  by (induction ps) auto

lemma select_all_order [simp]:
  "sorted_wrt (\<lambda>p q. \<not> prefix q p) (select_all d sel)" "distinct (select_all d sel)"
  using sorted_wrt_filter [OF paths_order(1)] sorted_prefix_distinct by (auto simp: select_all_def)

lemma set_select_all [simp]: "p \<in> set (select_all d sel) \<longleftrightarrow> p \<in> set (paths d) \<and> sel p"
  by (auto simp: select_all_def)

lemma closest_None [simp]: "closest sel p = None \<longleftrightarrow> (\<forall>q. prefix q p \<longrightarrow> \<not> sel q)"
  by (auto simp: closest_def ancestors_def find_None_iff)

lemma closest_Some: "closest sel p = Some q \<Longrightarrow> prefix q p \<and> sel q"
proof -
  assume "closest sel p = Some q"
  then obtain i where "i < length (ancestors p)" "sel (ancestors p ! i)" "q = ancestors p ! i"
    by (auto simp: closest_def find_Some_iff)
  then have "q \<in> set (ancestors p)" "sel q" by simp_all
  then show ?thesis by (simp add: ancestors_def)
qed

lemma kids_under: "q \<in> set (kids d p) \<Longrightarrow> strict_prefix p q"
  by (auto simp: kids_def strict_prefix_def split: option.splits)

end
