(* ===== verification/Record_History.thy ===== *)
theory Record_History
  imports Amounts
begin

text \<open>
  The record history of the web site: apps/website/src/lib/record-history.ts with the example
  records of lib/example-records.ts, the day picker (features/product/hooks/use-day-picker.ts),
  the day strips of the solution pages (features/solutions/lib/history.ts) and the collateral
  rule (lib/collateral.ts, hooks/use-collateral-rule.ts).  The first section is the calendar of
  ECMAScript's \<open>Date\<close> on UTC dates: day numbers, the year and the month of a day, and the
  texts \<open>Date.parse\<close> and \<open>toISOString\<close> agree on.
\<close>

section \<open>UTC dates\<close>

type_synonym civil = "int \<times> nat \<times> int"

definition leap_year :: "int \<Rightarrow> bool" where
  "leap_year y \<longleftrightarrow> y mod 4 = 0 \<and> (y mod 100 \<noteq> 0 \<or> y mod 400 = 0)"

definition month_length :: "bool \<Rightarrow> nat \<Rightarrow> int" where
  "month_length leap m =
     (if m = 2 then (if leap then 29 else 28) else if m = 4 \<or> m = 6 \<or> m = 9 \<or> m = 11 then 30 else 31)"

text \<open>The number of days from 1970-01-01 to the first of January of a year, and of the days
  of a year before a month.\<close>

definition year_start :: "int \<Rightarrow> int" where
  "year_start y = 365 * (y - 1970) + (y - 1969) div 4 - (y - 1901) div 100 + (y - 1601) div 400"

fun days_before :: "bool \<Rightarrow> nat \<Rightarrow> int" where
  "days_before leap 0 = 0" |
  "days_before leap (Suc m) = (if m = 0 then 0 else days_before leap m + month_length leap m)"

fun make_day :: "civil \<Rightarrow> int" where
  "make_day (y, m, d) = year_start y + days_before (leap_year y) m + (d - 1)"

text \<open>The year is guessed from the mean length of a year and corrected by at most one.\<close>

definition year_of_day :: "int \<Rightarrow> int" where
  "year_of_day n =
     (let g = n * 400 div 146097 + 1970
      in if n < year_start g then g - 1 else if n < year_start (g + 1) then g else g + 1)"

function month_walk :: "bool \<Rightarrow> nat \<Rightarrow> int \<Rightarrow> nat \<times> int" where
  "month_walk leap m k =
     (if 12 \<le> m \<or> k < month_length leap m then (m, k + 1)
      else month_walk leap (Suc m) (k - month_length leap m))"
  by auto
termination by (relation "measure (\<lambda>(_, m, _). 12 - m)") auto

declare month_walk.simps [simp del]

definition civil_of :: "int \<Rightarrow> civil" where
  "civil_of n = (let y = year_of_day n in (y, month_walk (leap_year y) 1 (n - year_start y)))"

definition valid_civil :: "civil \<Rightarrow> bool" where
  "valid_civil c \<longleftrightarrow> (case c of (y, m, d) \<Rightarrow> 1 \<le> m \<and> m \<le> 12 \<and> 1 \<le> d \<and> d \<le> month_length (leap_year y) m)"

text \<open>\<open>toISOString\<close> pads a year of four digits and gives any other a sign and six digits.\<close>

definition year_text :: "int \<Rightarrow> jstr" where
  "year_text y =
     (if 0 \<le> y \<and> y \<le> 9999 then pad_left 4 (show_nat (nat y))
      else (if y < 0 then 45 else 43) # pad_left 6 (show_nat (nat \<bar>y\<bar>)))"

fun date_text :: "civil \<Rightarrow> jstr" where
  "date_text (y, m, d) = year_text y @ 45 # pad_left 2 (show_nat m) @ 45 # pad_left 2 (show_nat (nat d))"

definition parse_date :: "jstr \<Rightarrow> int option" where
  "parse_date s =
     (let ys = take 4 s; ms = take 2 (drop 5 s); ds = take 2 (drop 8 s);
          c = (int (dec_val ys), dec_val ms, int (dec_val ds))
      in if length s = 10 \<and> s ! 4 = 45 \<and> s ! 7 = 45 \<and> list_all is_digit (ys @ ms @ ds) \<and> valid_civil c
         then Some (make_day c) else None)"

definition MAX_DAY :: int where "MAX_DAY = 100000000"

section \<open>lib/record-history.ts\<close>

definition shiftDate :: "jstr \<Rightarrow> int \<Rightarrow> jstr result" where
  "shiftDate isoDate days =
     (case parse_date isoDate of
        Some n \<Rightarrow>
          if \<bar>n + days\<bar> \<le> MAX_DAY then Inr (take 10 (date_text (civil_of (n + days))))
          else Inl (js_error ''RangeError'' (u ''Invalid time value''))
      | None \<Rightarrow> Inl (js_error ''RangeError'' (u ''Invalid time value'')))"

record day_result =
  dr_date :: jstr
  dr_state :: coverage_state
  dr_owed :: int
  dr_held :: int
  dr_ledger :: "int option"

record state_count =
  sc_covered :: nat
  sc_short :: nat
  sc_stale :: nat

definition LEDGERS_PER_DAY :: int where "LEDGERS_PER_DAY = 15840"
definition SUPPLY_GROWTH_PER_DAY :: int where "SUPPLY_GROWTH_PER_DAY = 31250000"

record history_plan =
  hp_latest :: coverage_record
  hp_latestDate :: jstr
  hp_days :: nat
  hp_shortDays :: "nat list"
  hp_staleDays :: "nat list"

text \<open>The totals and the ledger of a day on which a proof landed, and the loop over the days
  with the totals proven last.\<close>

definition day_owed :: "history_plan \<Rightarrow> nat \<Rightarrow> int" where
  "day_owed p i = cr_owed (hp_latest p) - (int (hp_days p) - 1 - int i) * SUPPLY_GROWTH_PER_DAY"

definition basis_points :: "history_plan \<Rightarrow> nat \<Rightarrow> int" where
  "basis_points p i = (if i \<in> set (hp_shortDays p) then 9940 else 10200 + int (i * 37 mod 41) * 10)"

definition day_held :: "history_plan \<Rightarrow> nat \<Rightarrow> int" where
  "day_held p i = (day_owed p i * basis_points p i) sdiv 10000"

definition day_ledger :: "history_plan \<Rightarrow> nat \<Rightarrow> int" where
  "day_ledger p i =
     cr_ledger (hp_latest p) - (int (hp_days p) - 1 - int i) * LEDGERS_PER_DAY - int (i * 37 mod 211)"

fun history_loop :: "history_plan \<Rightarrow> nat list \<Rightarrow> int \<times> int \<Rightarrow> day_result list result" where
  "history_loop p [] lastProven = Inr []" |
  "history_loop p (i # is) lastProven =
     (let back = int (hp_days p) - 1 - int i in
      bindR (shiftDate (hp_latestDate p) (- back)) (\<lambda>date.
      let (day, lastProven') =
        (if back = 0 then
           (\<lparr>dr_date = date, dr_state = cr_state (hp_latest p), dr_owed = cr_owed (hp_latest p),
             dr_held = cr_held (hp_latest p), dr_ledger = Some (cr_ledger (hp_latest p))\<rparr>, lastProven)
         else if i \<in> set (hp_staleDays p) then
           (\<lparr>dr_date = date, dr_state = Stale, dr_owed = fst lastProven, dr_held = snd lastProven,
             dr_ledger = None\<rparr>, lastProven)
         else
           (\<lparr>dr_date = date, dr_state = (if day_owed p i \<le> day_held p i then Covered else Short),
             dr_owed = day_owed p i, dr_held = day_held p i, dr_ledger = Some (day_ledger p i)\<rparr>,
            (day_owed p i, day_held p i)))
      in bindR (history_loop p is lastProven') (\<lambda>days. Inr (day # days))))"

definition buildHistory :: "history_plan \<Rightarrow> day_result list result" where
  "buildHistory p = history_loop p [0..<hp_days p] (cr_owed (hp_latest p), cr_held (hp_latest p))"

fun count_day :: "coverage_state \<Rightarrow> state_count \<Rightarrow> state_count" where
  "count_day Covered c = c\<lparr>sc_covered := sc_covered c + 1\<rparr>" |
  "count_day Short c = c\<lparr>sc_short := sc_short c + 1\<rparr>" |
  "count_day Stale c = c\<lparr>sc_stale := sc_stale c + 1\<rparr>"

definition countStates :: "day_result list \<Rightarrow> state_count" where
  "countStates days =
     foldl (\<lambda>c d. count_day (dr_state d) c) \<lparr>sc_covered = 0, sc_short = 0, sc_stale = 0\<rparr> days"

definition truncateAddress :: "jstr \<Rightarrow> jstr" where
  "truncateAddress a = (if 12 < length a then take 4 a @ u ''...'' @ drop (length a - 4) a else a)"

definition daysInMonth :: "day_result list \<Rightarrow> jstr \<Rightarrow> day_result list" where
  "daysInMonth days yearMonth = filter (\<lambda>d. prefix (yearMonth @ [45]) (dr_date d)) days"

definition proofDays :: "day_result list \<Rightarrow> bool list" where
  "proofDays days = List.map (\<lambda>d. dr_ledger d \<noteq> None) days"

text \<open>lib/example-records.ts.\<close>

definition exampleRecords :: "coverage_record list" where
  "exampleRecords =
     [\<lparr>cr_institution = u ''Kestrel Anchor'', cr_asset = u ''ARSK'', cr_kind = Anchor, cr_owed = 24311840000,
       cr_held = 25190211550, cr_decimals = 2, cr_state = Covered, cr_ledger = 3412088,
       cr_provenAgo = u ''2 hours ago'', cr_customers = None\<rparr>,
      \<lparr>cr_institution = u ''Northway Custody'', cr_asset = u ''USDC'', cr_kind = Custodial, cr_owed = 1842090512,
       cr_held = 1877122000, cr_decimals = 2, cr_state = Covered, cr_ledger = 3411902,
       cr_provenAgo = u ''3 hours ago'', cr_customers = Some 41206\<rparr>,
      \<lparr>cr_institution = u ''Arden Pay'', cr_asset = u ''EURC'', cr_kind = Custodial, cr_owed = 290455000,
       cr_held = 286100410, cr_decimals = 2, cr_state = Short, cr_ledger = 3411640,
       cr_provenAgo = u ''4 hours ago'', cr_customers = Some 9318\<rparr>,
      \<lparr>cr_institution = u ''Halden Exchange'', cr_asset = u ''USDC'', cr_kind = Custodial, cr_owed = 615000000,
       cr_held = 640200000, cr_decimals = 2, cr_state = Stale, cr_ledger = 3389212,
       cr_provenAgo = u ''31 hours ago'', cr_customers = Some 12740\<rparr>]"

definition kestrelRecord :: "coverage_record result" where
  "kestrelRecord =
     (case find (\<lambda>r. cr_asset r = u ''ARSK'') exampleRecords of
        Some r \<Rightarrow> Inr r
      | None \<Rightarrow> Inl (js_error ''Error'' (u ''The Kestrel Anchor example record is missing from example-records.'')))"

definition YEAR_DAYS :: nat where "YEAR_DAYS = 365"
definition HISTORY_DAYS :: nat where "HISTORY_DAYS = 90"
definition HISTORY_START :: nat where "HISTORY_START = YEAR_DAYS - HISTORY_DAYS"

definition kestrel_plan :: "coverage_record \<Rightarrow> history_plan" where
  "kestrel_plan r =
     \<lparr>hp_latest = r, hp_latestDate = u ''2026-11-02'', hp_days = YEAR_DAYS,
      hp_shortDays = [HISTORY_START + 52],
      hp_staleDays = [HISTORY_START + 17, HISTORY_START + 18, HISTORY_START + 71]\<rparr>"

definition kestrelYear :: "day_result list result" where
  "kestrelYear = bindR kestrelRecord (\<lambda>r. buildHistory (kestrel_plan r))"

definition kestrelHistory :: "day_result list result" where
  "kestrelHistory = bindR kestrelYear (\<lambda>days. Inr (drop (length days - HISTORY_DAYS) days))"

section \<open>use-day-picker.ts\<close>

definition nextDayIndex :: "jstr \<Rightarrow> int \<Rightarrow> int \<Rightarrow> int option" where
  "nextDayIndex key index days =
     (if days \<le> 0 then None
      else if key = u ''ArrowRight'' \<or> key = u ''ArrowDown'' then Some (min (index + 1) (days - 1))
      else if key = u ''ArrowLeft'' \<or> key = u ''ArrowUp'' then Some (max (index - 1) 0)
      else if key = u ''Home'' then Some 0
      else if key = u ''End'' then Some (days - 1)
      else None)"

record day_picker =
  dp_selected :: int
  dp_focus :: "int option"

definition picker_start :: "int \<Rightarrow> day_picker" where
  "picker_start days = \<lparr>dp_selected = days - 1, dp_focus = None\<rparr>"

definition picker_select :: "int \<Rightarrow> int \<Rightarrow> day_picker \<Rightarrow> day_picker" where
  "picker_select days index p = (if 0 \<le> index \<and> index < days then p\<lparr>dp_selected := index\<rparr> else p)"

definition picker_key :: "int \<Rightarrow> jstr \<Rightarrow> int \<Rightarrow> day_picker \<Rightarrow> day_picker" where
  "picker_key days key index p =
     (case nextDayIndex key index days of
        None \<Rightarrow> p
      | Some next \<Rightarrow> p\<lparr>dp_selected := next, dp_focus := Some next\<rparr>)"

section \<open>The solution pages\<close>

definition ORDER :: "coverage_state list" where "ORDER = [Covered, Short, Stale]"

definition dailyHistory :: "int \<Rightarrow> (nat \<Rightarrow> coverage_state option) \<Rightarrow> coverage_state list" where
  "dailyHistory days exceptions =
     (if days < 0 then []
      else List.map (\<lambda>day. case exceptions day of Some s \<Rightarrow> s | None \<Rightarrow> Covered) [0..<nat days])"

definition label_lower :: "jstr \<Rightarrow> jstr" where
  "label_lower = List.map (\<lambda>c. if 65 \<le> c \<and> c \<le> 90 then c + 32 else c)"

fun join_comma :: "jstr list \<Rightarrow> jstr" where
  "join_comma [] = []" |
  "join_comma [s] = s" |
  "join_comma (s # ss) = s @ u '', '' @ join_comma ss"

definition summarizeDays :: "coverage_state list \<Rightarrow> jstr" where
  "summarizeDays days =
     (if days = [] then u ''No results yet''
      else join_comma (List.map (\<lambda>(s, n). show_nat n @ u '' '' @ label_lower (stateLabel s))
             (filter (\<lambda>(s, n). 0 < n) (List.map (\<lambda>s. (s, count_list days s)) ORDER))))"

record collateral_decision =
  cd_isAccepting :: bool
  cd_status :: jstr
  cd_reason :: jstr

fun collateralDecision :: "jstr \<Rightarrow> coverage_state \<Rightarrow> collateral_decision" where
  "collateralDecision asset Covered =
     \<lparr>cd_isAccepting = True, cd_status = u ''Accepting deposits'',
      cd_reason = asset @ u '' is covered, so new deposits count as collateral.''\<rparr>" |
  "collateralDecision asset Short =
     \<lparr>cd_isAccepting = False, cd_status = u ''Deposits paused'',
      cd_reason = asset @ u '' is short. New deposits wait until a proof shows it covered again.''\<rparr>" |
  "collateralDecision asset Stale =
     \<lparr>cd_isAccepting = False, cd_status = u ''Deposits paused'',
      cd_reason = asset @ u '' is stale. With no recent proof, the pool treats coverage as unknown.''\<rparr>"

section \<open>The calendar\<close>

definition next_date :: "civil \<Rightarrow> civil" where
  "next_date c = (case c of (y, m, d) \<Rightarrow>
     if d < month_length (leap_year y) m then (y, m, d + 1)
     else if m < 12 then (y, m + 1, 1) else (y + 1, 1, 1))"

definition year_length :: "bool \<Rightarrow> int" where
  "year_length leap = (if leap then 366 else 365)"

lemma div_floor: "0 < (k::int) \<Longrightarrow> k * (x div k) \<le> x" "0 < (k::int) \<Longrightarrow> x < k * (x div k) + k"
  using mult_div_mod_eq [of k x] pos_mod_sign [of k x] pos_mod_bound [of k x] by linarith+

lemma div_step:
  assumes "0 < (k::int)" "c mod k = 0"
  shows "(x + 1 - (c + 1)) div k = (x - (c + 1)) div k + (if x mod k = 0 then 1 else 0)"
proof -
  define q r where "q = (x - (c + 1)) div k" and "r = (x - (c + 1)) mod k"
  have x: "x - (c + 1) = k * q + r" "0 \<le> r" "r < k" using assms(1) by (simp_all add: q_def r_def)
  have m: "x mod k = (r + 1) mod k"
  proof -
    have "(x - c) mod k = (r + 1 + k * q) mod k" using x(1) by (simp add: algebra_simps)
    moreover have "(x - c) mod k = x mod k" using assms(2) mod_diff_right_eq [of x c k] by simp
    ultimately show ?thesis by simp
  qed
  have "(x + 1 - (c + 1)) div k = (r + 1 + k * q) div k" using x(1) by (simp add: algebra_simps)
  also have "\<dots> = q + (r + 1) div k" using assms(1) by simp
  also have "(r + 1) div k = (if x mod k = 0 then 1 else 0)"
    using x m assms(1) by (cases "r + 1 = k") (simp_all add: div_pos_pos_trivial mod_pos_pos_trivial)
  finally show ?thesis by (simp add: q_def)
qed

lemma div_step':
  assumes "0 < (k::int)" "(c - 1) mod k = 0"
  shows "(x + 1 - c) div k = (x - c) div k + (if x mod k = 0 then 1 else 0)"
  using div_step [OF assms, of x] by (simp only: diff_add_cancel)

lemma year_start_step: "year_start (y + 1) = year_start y + year_length (leap_year y)"
proof -
  have l: "year_length (leap_year y) = 365 + (if y mod 4 = 0 then 1 else 0) - (if y mod 100 = 0 then 1 else 0)
      + (if y mod 400 = 0 then 1 else 0)"
  proof -
    have "(100::int) dvd 400" "(4::int) dvd 100" by (rule dvdI [of _ _ 4], simp) (rule dvdI [of _ _ 25], simp)
    then have "y mod 400 = 0 \<Longrightarrow> y mod 100 = 0" "y mod 100 = 0 \<Longrightarrow> y mod 4 = 0"
      by (metis mod_eq_0_iff_dvd dvd_trans)+
    then show ?thesis
      by (cases "y mod 4 = 0"; cases "y mod 100 = 0"; cases "y mod 400 = 0") (simp_all only: year_length_def leap_year_def if_True if_False simp_thms)
  qed
  have sum: "A' = A + i \<Longrightarrow> B' = B + j \<Longrightarrow> C' = C + k \<Longrightarrow>
      365 * (y + 1 - 1970) + A' - B' + C' = 365 * (y - 1970) + A - B + C + (365 + i - j + k)"
    for A A' B B' C C' i j k :: int by simp
  have "(y + 1 - 1969) div 4 = (y - 1969) div 4 + (if y mod 4 = 0 then 1 else 0)"
    "(y + 1 - 1901) div 100 = (y - 1901) div 100 + (if y mod 100 = 0 then 1 else 0)"
    "(y + 1 - 1601) div 400 = (y - 1601) div 400 + (if y mod 400 = 0 then 1 else 0)"
    by (rule div_step'; simp)+
  then show ?thesis unfolding l year_start_def by (rule sum)
qed

lemma year_start_mono: "x < y \<Longrightarrow> year_start (x + 1) \<le> year_start y"
proof (induction "nat (y - x)" arbitrary: y)
  case (Suc n)
  show ?case
  proof (cases "y = x + 1")
    case False
    with Suc have "year_start (x + 1) \<le> year_start (y - 1)" by (intro Suc.hyps) auto
    with year_start_step [of "y - 1"] show ?thesis by (simp add: year_length_def split: if_splits)
  qed simp
qed simp

lemma year_start_approx:
  "400 * year_start y < 146097 * (y - 1970) + 800" "146097 * (y - 1970) - 800 < 400 * year_start y"
proof -
  define a b c where "a = (y - 1969) div 4" and "b = (y - 1901) div 100" and "c = (y - 1601) div 400"
  have e: "4 * a \<le> y - 1969" "y - 1969 < 4 * a + 4" "100 * b \<le> y - 1901" "y - 1901 < 100 * b + 100"
    "400 * c \<le> y - 1601" "y - 1601 < 400 * c + 400"
    using div_floor [of 4 "y - 1969"] div_floor [of 100 "y - 1901"] div_floor [of 400 "y - 1601"]
    by (simp_all only: a_def b_def c_def zero_less_numeral simp_thms)
  have s: "year_start y = 365 * (y - 1970) + a - b + c" by (simp add: year_start_def a_def b_def c_def)
  have "400 * a \<le> 100 * (y - 1969)" "4 * (y - 1901) < 400 * b + 400" using e by auto
  with e(5) show "400 * year_start y < 146097 * (y - 1970) + 800" unfolding s by (simp add: algebra_simps)
  have "100 * (y - 1969) < 400 * a + 400" "400 * b \<le> 4 * (y - 1901)" using e by auto
  with e(6) show "146097 * (y - 1970) - 800 < 400 * year_start y" unfolding s by (simp add: algebra_simps)
qed

lemma year_of_guess:
  fixes a b g n :: int
  assumes "400 * a < 146097 * (g - 1 - 1970) + 800" "146097 * (g + 2 - 1970) - 800 < 400 * b"
    and "146097 * (g - 1970) \<le> 400 * n" "400 * n < 146097 * (g - 1970) + 146097"
  shows "a \<le> n" "n < b"
proof -
  define X where "X = 146097 * (g - 1970)"
  have X: "146097 * (g - 1 - 1970) = X - 146097" "146097 * (g + 2 - 1970) = X + 292194"
    by (simp_all add: X_def algebra_simps)
  have "400 * a < X - 145297" "X + 291394 < 400 * b" "X \<le> 400 * n" "400 * n < X + 146097"
    using assms unfolding X X_def [symmetric] by simp_all
  then show "a \<le> n" "n < b" by linarith+
qed

lemma year_of_day_bounds: "year_start (year_of_day n) \<le> n \<and> n < year_start (year_of_day n + 1)"
proof -
  define g where "g = n * 400 div 146097 + 1970"
  have g: "146097 * (g - 1970) \<le> 400 * n" "400 * n < 146097 * (g - 1970) + 146097"
    using div_floor [of 146097 "n * 400"] by (simp_all add: g_def)
  note year_of_guess [OF year_start_approx(1) [of "g - 1"] year_start_approx(2) [of "g + 2"] g]
  then show ?thesis
    by (auto simp: year_of_day_def Let_def add.assoc simp flip: g_def)
qed

lemma year_of_day_unique: "year_start y \<le> n \<Longrightarrow> n < year_start (y + 1) \<Longrightarrow> year_of_day n = y"
  using year_of_day_bounds [of n] year_start_mono [of y "year_of_day n"] year_start_mono [of "year_of_day n" y]
  by linarith

lemma month_length_bounds: "28 \<le> month_length leap m" "month_length leap m \<le> 31"
  by (auto simp: month_length_def)

lemma days_before_12: "days_before leap 13 = year_length leap"
  by (simp add: numeral_eq_Suc month_length_def year_length_def)

lemma days_before_mono: "m \<le> n \<Longrightarrow> days_before leap m \<le> days_before leap n"
proof (induction rule: dec_induct)
  case (step n)
  then show ?case using month_length_bounds(1) [of leap n] by (cases n) simp_all
qed simp

text \<open>A walk that starts before the month finds it.\<close>

lemma month_walk_finds:
  assumes "1 \<le> m0" "m0 \<le> m" "m \<le> 12" "1 \<le> d" "d \<le> month_length leap m"
  shows "month_walk leap m0 (days_before leap m - days_before leap m0 + (d - 1)) = (m, d)"
  using assms
proof (induction "m - m0" arbitrary: m0)
  case 0
  then show ?case by (subst month_walk.simps) simp
next
  case (Suc k)
  let ?k = "days_before leap m - days_before leap m0 + (d - 1)"
  have e: "days_before leap (Suc m0) = days_before leap m0 + month_length leap m0" using Suc.prems by simp
  have "days_before leap (Suc m0) \<le> days_before leap m" using Suc by (intro days_before_mono) simp
  then have "\<not> ?k < month_length leap m0" using e Suc.prems by linarith
  moreover have "month_walk leap (Suc m0) (days_before leap m - days_before leap (Suc m0) + (d - 1)) = (m, d)"
    using Suc by (intro Suc.hyps(1)) auto
  moreover have "\<not> 12 \<le> m0" using Suc by linarith
  ultimately show ?case using e by (subst month_walk.simps) (simp add: algebra_simps)
qed

lemma valid_in_year:
  assumes "valid_civil (y, m, d)"
  shows "year_start y \<le> make_day (y, m, d)" "make_day (y, m, d) < year_start (y + 1)"
proof -
  have v: "1 \<le> m" "m \<le> 12" "1 \<le> d" "d \<le> month_length (leap_year y) m" using assms by (auto simp: valid_civil_def)
  have "0 \<le> days_before (leap_year y) m" using days_before_mono [of 0 m "leap_year y"] by simp
  with v show "year_start y \<le> make_day (y, m, d)" by simp
  have "days_before (leap_year y) (Suc m) \<le> days_before (leap_year y) 13" using v by (intro days_before_mono) simp
  with v days_before_12 year_start_step [of y] show "make_day (y, m, d) < year_start (y + 1)" by simp
qed

lemma civil_of_make_day: "valid_civil c \<Longrightarrow> civil_of (make_day c) = c"
proof (cases c)
  case (fields y m d)
  assume "valid_civil c"
  with fields have v: "valid_civil (y, m, d)" by simp
  with month_walk_finds [of 1 m d "leap_year y"] year_of_day_unique [OF valid_in_year [OF v]] fields
  show ?thesis by (auto simp: civil_of_def valid_civil_def Let_def)
qed

lemma next_date_valid: "valid_civil c \<Longrightarrow> valid_civil (next_date c)"
  using month_length_bounds by (auto simp: valid_civil_def next_date_def split: prod.splits intro: order_trans [OF _ month_length_bounds(1)])

lemma make_day_next: "valid_civil c \<Longrightarrow> make_day (next_date c) = make_day c + 1"
proof (cases c)
  case (fields y m d)
  assume "valid_civil c"
  with fields have v: "1 \<le> m" "m \<le> 12" "1 \<le> d" "d \<le> month_length (leap_year y) m" by (auto simp: valid_civil_def)
  have s: "m = 12 \<Longrightarrow> days_before (leap_year y) 12 + month_length (leap_year y) 12 = year_length (leap_year y)"
    using days_before_12 [of "leap_year y"] by (simp add: numeral_eq_Suc)
  have "days_before b 1 = 0" for b by simp
  with v s year_start_step [of y] show ?thesis
    by (auto simp: fields next_date_def)
qed

lemma next_dates:
  assumes "valid_civil c"
  shows "valid_civil ((next_date ^^ k) c)" "make_day ((next_date ^^ k) c) = make_day c + int k"
  by (induction k) (simp_all add: assms next_date_valid make_day_next)

lemma next_dates_civil: "valid_civil c \<Longrightarrow> civil_of (make_day c + int k) = (next_date ^^ k) c"
  using civil_of_make_day [OF next_dates(1)] next_dates(2) by metis

lemma next_date_year: "fst c \<le> fst (next_date c)"
  by (auto simp: next_date_def split: prod.splits)

lemma next_dates_year: "fst c \<le> fst ((next_date ^^ k) c)"
  by (induction k) (auto intro: order_trans [OF _ next_date_year])

lemma year_days_civil:
  assumes "y = year_of_day n"
  shows "civil_of n = (next_date ^^ nat (n - year_start y)) (y, 1, 1)"
proof -
  have v: "valid_civil (y, 1, 1)" by (simp add: valid_civil_def month_length_def)
  have "make_day (y, 1, 1) + int (nat (n - year_start y)) = n"
    using year_of_day_bounds [of n] assms by (simp add: One_nat_def)
  with next_dates_civil [OF v] show ?thesis by metis
qed

lemma civil_of_valid [simp]: "valid_civil (civil_of n)" "make_day (civil_of n) = n"
proof -
  let ?y = "year_of_day n"
  have v: "valid_civil (?y, 1, 1)" by (simp add: valid_civil_def month_length_def)
  show "valid_civil (civil_of n)" "make_day (civil_of n) = n"
    using next_dates [OF v] year_of_day_bounds [of n]
    by (simp_all add: year_days_civil One_nat_def)
qed

definition plain_year :: "civil \<Rightarrow> bool" where
  "plain_year c \<longleftrightarrow> 0 \<le> fst c \<and> fst c \<le> 9999"

lemma date_text_parts:
  assumes "valid_civil (y, m, d)" "plain_year (y, m, d)"
  obtains ys ms ds where "date_text (y, m, d) = ys @ 45 # ms @ 45 # ds" "length ys = 4" "length ms = 2" "length ds = 2"
    "list_all is_digit (ys @ ms @ ds)" "dec_val ys = nat y" "dec_val ms = m" "dec_val ds = nat d"
proof
  have b: "nat y < 10 ^ 4" "m < 10 ^ 2" "nat d < 10 ^ 2"
    using assms month_length_bounds(2) [of "leap_year y" m] by (auto simp: valid_civil_def plain_year_def)
  let ?y = "pad_left 4 (show_nat (nat y))" and ?m = "pad_left 2 (show_nat m)" and ?d = "pad_left 2 (show_nat (nat d))"
  show "date_text (y, m, d) = ?y @ 45 # ?m @ 45 # ?d"
    using assms(2) by (simp add: year_text_def plain_year_def)
  show "length ?y = 4" "length ?m = 2" "length ?d = 2" using b by (simp_all only: pad_show_length zero_less_numeral)
  show "list_all is_digit (?y @ ?m @ ?d)"
    by (auto simp: list_all_iff dest: bspec [OF pad_left_digits [OF show_nat_all_digits]])
qed simp_all

lemma parse_date_text:
  assumes "valid_civil c" "plain_year c"
  shows "parse_date (date_text c) = Some (make_day c)" "length (date_text c) = 10"
proof -
  obtain y m d where c: "c = (y, m, d)" by (cases c)
  obtain ys ms ds where p: "date_text (y, m, d) = ys @ 45 # ms @ 45 # ds" "length ys = 4" "length ms = 2" "length ds = 2"
    "list_all is_digit (ys @ ms @ ds)" "dec_val ys = nat y" "dec_val ms = m" "dec_val ds = nat d"
    using date_text_parts assms unfolding c by blast
  have "int (nat y) = y" "int (nat d) = d" using assms by (simp_all add: c valid_civil_def plain_year_def)
  with p assms show "parse_date (date_text c) = Some (make_day c)"
    by (simp add: c parse_date_def nth_append Let_def del: date_text.simps make_day.simps)
  show "length (date_text c) = 10" using p by (simp add: c del: date_text.simps)
qed

text \<open>The texts of the days of the years 0 to 9999 are a code of the day numbers.\<close>

interpretation utc_date: codec "\<lambda>n. date_text (civil_of n)" parse_date "\<lambda>n. plain_year (civil_of n)"
  by unfold_locales (simp add: parse_date_text)

lemma year_start_le: "x \<le> y \<Longrightarrow> year_start x \<le> year_start y"
  using year_start_mono [of x y] year_start_step [of x] by (cases "x = y") (auto simp: year_length_def split: if_splits)

lemma plain_year_days: "plain_year (civil_of n) \<longleftrightarrow> year_start 0 \<le> n \<and> n < year_start 10000"
proof -
  have f: "fst (civil_of n) = year_of_day n" by (simp add: civil_of_def Let_def)
  note b = year_of_day_bounds [of n]
  show ?thesis
  proof
    assume "plain_year (civil_of n)"
    then have "0 \<le> year_of_day n" "year_of_day n + 1 \<le> 10000" by (simp_all add: plain_year_def f)
    with b year_start_le show "year_start 0 \<le> n \<and> n < year_start 10000" by (meson order.trans order.strict_trans2)
  next
    assume n: "year_start 0 \<le> n \<and> n < year_start 10000"
    have "\<not> year_of_day n + 1 \<le> 0" using year_start_le [of "year_of_day n + 1" 0] b n by auto
    moreover have "\<not> 10000 \<le> year_of_day n" using year_start_le [of 10000 "year_of_day n"] b n by auto
    ultimately show "plain_year (civil_of n)" by (simp add: plain_year_def f)
  qed
qed

lemma shiftDate_plain:
  assumes "parse_date s = Some n" "plain_year (civil_of (n + k))"
  shows "shiftDate s k = Inr (date_text (civil_of (n + k)))"
proof -
  have "\<bar>n + k\<bar> \<le> MAX_DAY" using assms(2) by (simp add: plain_year_days year_start_def MAX_DAY_def abs_le_iff)
  with assms show ?thesis by (simp add: shiftDate_def parse_date_text(2))
qed

lemma parse_date_plain:
  assumes "parse_date s = Some n"
  shows "plain_year (civil_of n)"
proof -
  obtain y m d where c: "valid_civil (y, m, d)" "n = make_day (y, m, d)" "y = int (dec_val (take 4 s))"
    and ys: "list_all is_digit (take 4 s)"
    using assms by (auto simp: parse_date_def Let_def split: if_splits)
  have "dec_val (take 4 s) < 10 ^ length (take 4 s)" using ys by (intro dec_val_bound) (simp add: list_all_iff)
  also have "\<dots> \<le> 10 ^ 4" by (rule power_increasing) simp_all
  finally have "plain_year (y, m, d)" using c(3) by (simp add: plain_year_def)
  with c(1,2) civil_of_make_day show ?thesis by metis
qed

text \<open>C30: The dates of the history follow the calendar.  Shifting the text of a date by some
  number of days gives the text of the date that many steps of the calendar later, with its
  month lengths and leap years, and shifting it back by as many gives the first text again, as
  long as the years have four digits.\<close>

theorem shift_date_calendar:
  assumes "valid_civil c" "plain_year c" "plain_year ((next_date ^^ k) c)"
  shows "shiftDate (date_text c) (int k) = Inr (date_text ((next_date ^^ k) c))
    \<and> shiftDate (date_text ((next_date ^^ k) c)) (- int k) = Inr (date_text c)"
proof -
  let ?c = "(next_date ^^ k) c"
  have d: "valid_civil ?c" "make_day ?c = make_day c + int k" using next_dates assms(1) by blast+
  have e: "civil_of (make_day c + int k) = ?c" "civil_of (make_day ?c + - int k) = c"
    using next_dates_civil civil_of_make_day assms(1) by (simp_all add: d(2))
  show ?thesis
    using shiftDate_plain [OF parse_date_text(1), of c "int k"] shiftDate_plain [OF parse_date_text(1), of ?c "- int k"]
      assms d(1) e by simp
qed

lemma shift_date_calendar_witness:
  "shiftDate (u ''2028-02-28'') 2 = Inr (u ''2028-03-01'') \<and> shiftDate (u ''2028-03-01'') (- 2) = Inr (u ''2028-02-28'')"
proof -
  have n: "(next_date ^^ 2) (2028, 2, 28) = (2028, 3, 1)"
    by (simp add: next_date_def month_length_def leap_year_def numeral_eq_Suc)
  have t: "date_text (2028, 2, 28) = u ''2028-02-28''" "date_text (2028, 3, 1) = u ''2028-03-01''"
    by (simp_all add: year_text_def pad_left_def show_nat.simps u_def)
  show ?thesis
    using shift_date_calendar [of "(2028, 2, 28)" 2]
    by (simp add: n t plain_year_def valid_civil_def month_length_def leap_year_def del: date_text.simps)
qed

section \<open>The history\<close>

fun carried :: "history_plan \<Rightarrow> nat \<Rightarrow> int \<times> int" where
  "carried p 0 = (cr_owed (hp_latest p), cr_held (hp_latest p))" |
  "carried p (Suc i) = (if i \<in> set (hp_staleDays p) then carried p i else (day_owed p i, day_held p i))"

definition day_entry :: "history_plan \<Rightarrow> (nat \<Rightarrow> jstr) \<Rightarrow> nat \<Rightarrow> day_result" where
  "day_entry p date i =
     (if Suc i = hp_days p then
        \<lparr>dr_date = date i, dr_state = cr_state (hp_latest p), dr_owed = cr_owed (hp_latest p),
         dr_held = cr_held (hp_latest p), dr_ledger = Some (cr_ledger (hp_latest p))\<rparr>
      else if i \<in> set (hp_staleDays p) then
        \<lparr>dr_date = date i, dr_state = Stale, dr_owed = fst (carried p i), dr_held = snd (carried p i), dr_ledger = None\<rparr>
      else
        \<lparr>dr_date = date i, dr_state = (if day_owed p i \<le> day_held p i then Covered else Short),
         dr_owed = day_owed p i, dr_held = day_held p i, dr_ledger = Some (day_ledger p i)\<rparr>)"

lemma history_loop_entries:
  assumes "k \<le> hp_days p"
    and "\<And>i. i < hp_days p \<Longrightarrow> shiftDate (hp_latestDate p) (- (int (hp_days p) - 1 - int i)) = Inr (date i)"
  shows "history_loop p [k..<hp_days p] (carried p k) = Inr (List.map (day_entry p date) [k..<hp_days p])"
  using assms(1)
proof (induction rule: inc_induct)
  case (step k)
  have e: "int (hp_days p) - 1 - int k = 0 \<longleftrightarrow> Suc k = hp_days p" using step.hyps by auto
  have u: "[k..<hp_days p] = k # [Suc k..<hp_days p]" using step.hyps by (simp add: upt_conv_Cons)
  show ?case
  proof (cases "Suc k = hp_days p")
    case True
    with assms(2) [OF step.hyps(2)] e u show ?thesis by (simp add: day_entry_def Let_def)
  next
    case False
    with assms(2) [OF step.hyps(2)] e u step.IH show ?thesis by (auto simp: day_entry_def Let_def)
  qed
qed simp

definition history_date :: "int \<Rightarrow> nat \<Rightarrow> nat \<Rightarrow> jstr" where
  "history_date n days i = date_text (civil_of (n - int (days - 1 - i)))"

lemma history_dates:
  assumes "parse_date s = Some n" "year_start 0 \<le> n - int days" "i < days"
  shows "shiftDate s (- (int days - 1 - int i)) = Inr (history_date n days i)"
    and "parse_date (history_date n days i) = Some (n - int (days - 1 - i))"
proof -
  have e: "- (int days - 1 - int i) = - int (days - 1 - i)" using assms(3) by simp
  have "plain_year (civil_of (n - int (days - 1 - i)))"
    using parse_date_plain [OF assms(1)] assms(2) by (auto simp: plain_year_days)
  then show "shiftDate s (- (int days - 1 - int i)) = Inr (history_date n days i)"
    "parse_date (history_date n days i) = Some (n - int (days - 1 - i))"
    unfolding e history_date_def using shiftDate_plain [OF assms(1), of "- int (days - 1 - i)"] utc_date.dec_enc
    by simp_all
qed

lemma buildHistory_entries:
  assumes "parse_date (hp_latestDate p) = Some n" "year_start 0 \<le> n - int (hp_days p)"
  shows "buildHistory p = Inr (List.map (day_entry p (history_date n (hp_days p))) [0..<hp_days p])"
  unfolding buildHistory_def
  using history_loop_entries [where k = 0 and p = p, OF _ history_dates(1) [OF assms]] by simp

lemma carried_step: "0 < i \<Longrightarrow> Suc i < hp_days p \<Longrightarrow>
  carried p i = (dr_owed (day_entry p date (i - 1)), dr_held (day_entry p date (i - 1)))"
  by (cases i) (simp_all add: day_entry_def)

lemma stale_entry:
  assumes "i \<in> set (hp_staleDays p)" "0 < i" "Suc i < hp_days p"
  shows "dr_state (day_entry p date i) = Stale" "dr_ledger (day_entry p date i) = None"
    "dr_owed (day_entry p date i) = dr_owed (day_entry p date (i - 1))"
    "dr_held (day_entry p date i) = dr_held (day_entry p date (i - 1))"
proof -
  have "day_entry p date i = \<lparr>dr_date = date i, dr_state = Stale, dr_owed = fst (carried p i), dr_held = snd (carried p i), dr_ledger = None\<rparr>"
    using assms by (simp add: day_entry_def)
  then show "dr_state (day_entry p date i) = Stale" "dr_ledger (day_entry p date i) = None"
    "dr_owed (day_entry p date i) = dr_owed (day_entry p date (i - 1))"
    "dr_held (day_entry p date i) = dr_held (day_entry p date (i - 1))"
    using carried_step [OF assms(2,3), of date] by simp_all
qed

lemma ledger_rises:
  assumes "i < j" "j < hp_days p" "dr_ledger (day_entry p date i) = Some a" "dr_ledger (day_entry p date j) = Some b"
  shows "a < b"
proof -
  have m: "int (i * 37 mod 211) \<ge> 0" "int (j * 37 mod 211) < 211" by simp_all
  have "(int j - int i) * 15840 \<ge> 15840" "(int (hp_days p) - 1 - int i) * 15840 > 0" using assms(1,2) by simp_all
  with m assms show ?thesis
    by (auto simp: day_entry_def day_ledger_def LEDGERS_PER_DAY_def algebra_simps split: if_splits)
qed

text \<open>C31: The record history is honest, whatever plan it is built from.  It has one entry per
  day, dated without a gap up to the latest record, which it ends with unchanged.  A stale day
  carries the totals of the day before and no ledger; any other day has a ledger and is called
  covered exactly when its reserves reach what is owed and short otherwise; and the ledgers of
  proven days rise strictly.\<close>

theorem history_honest:
  assumes "parse_date (hp_latestDate p) = Some n" "year_start 0 \<le> n - int (hp_days p)"
  shows "\<exists>ds. buildHistory p = Inr ds \<and> length ds = hp_days p
    \<and> (\<forall>i < length ds. parse_date (dr_date (ds ! i)) = Some (n - int (length ds - 1 - i)))
    \<and> (\<forall>i < length ds. Suc i = length ds \<longrightarrow> dr_state (ds ! i) = cr_state (hp_latest p)
        \<and> dr_owed (ds ! i) = cr_owed (hp_latest p) \<and> dr_held (ds ! i) = cr_held (hp_latest p)
        \<and> dr_ledger (ds ! i) = Some (cr_ledger (hp_latest p)))
    \<and> (\<forall>i \<in> set (hp_staleDays p). 0 < i \<and> Suc i < length ds \<longrightarrow> dr_state (ds ! i) = Stale \<and> dr_ledger (ds ! i) = None
        \<and> dr_owed (ds ! i) = dr_owed (ds ! (i - 1)) \<and> dr_held (ds ! i) = dr_held (ds ! (i - 1)))
    \<and> (\<forall>i. i \<notin> set (hp_staleDays p) \<and> Suc i < length ds \<longrightarrow> dr_ledger (ds ! i) \<noteq> None
        \<and> dr_state (ds ! i) = (if dr_owed (ds ! i) \<le> dr_held (ds ! i) then Covered else Short))
    \<and> (\<forall>i j a b. i < j \<and> j < length ds \<and> dr_ledger (ds ! i) = Some a \<and> dr_ledger (ds ! j) = Some b \<longrightarrow> a < b)"
proof -
  let ?date = "history_date n (hp_days p)"
  let ?ds = "List.map (day_entry p ?date) [0..<hp_days p]"
  have nth: "i < hp_days p \<Longrightarrow> ?ds ! i = day_entry p ?date i" for i by simp
  have "\<forall>i < hp_days p. parse_date (dr_date (?ds ! i)) = Some (n - int (hp_days p - 1 - i))"
    using history_dates(2) [OF assms] by (simp add: day_entry_def)
  moreover have "\<forall>i \<in> set (hp_staleDays p). 0 < i \<and> Suc i < hp_days p \<longrightarrow> dr_state (?ds ! i) = Stale \<and> dr_ledger (?ds ! i) = None
      \<and> dr_owed (?ds ! i) = dr_owed (?ds ! (i - 1)) \<and> dr_held (?ds ! i) = dr_held (?ds ! (i - 1))"
  proof (intro ballI impI)
    fix i assume i: "i \<in> set (hp_staleDays p)" "0 < i \<and> Suc i < hp_days p"
    then have "?ds ! i = day_entry p ?date i" "?ds ! (i - 1) = day_entry p ?date (i - 1)" using nth by auto
    then show "dr_state (?ds ! i) = Stale \<and> dr_ledger (?ds ! i) = None
        \<and> dr_owed (?ds ! i) = dr_owed (?ds ! (i - 1)) \<and> dr_held (?ds ! i) = dr_held (?ds ! (i - 1))"
      using stale_entry i by metis
  qed
  moreover have "\<forall>i j a b. i < j \<and> j < hp_days p \<and> dr_ledger (?ds ! i) = Some a \<and> dr_ledger (?ds ! j) = Some b \<longrightarrow> a < b"
  proof (intro allI impI)
    fix i j a b
    assume h: "i < j \<and> j < hp_days p \<and> dr_ledger (?ds ! i) = Some a \<and> dr_ledger (?ds ! j) = Some b"
    then have "?ds ! i = day_entry p ?date i" "?ds ! j = day_entry p ?date j" using nth by auto
    with h show "a < b" using ledger_rises [of i j p ?date a b] by simp
  qed
  ultimately show ?thesis
    by (intro exI [of _ ?ds] conjI buildHistory_entries [OF assms]) (simp_all add: day_entry_def)
qed

text \<open>The year of Kestrel Anchor is built without an error, and its last ninety days hold one
  short and three stale days.\<close>

lemma kestrel_latest: "parse_date (u ''2026-11-02'') = Some (make_day (2026, 11, 2))"
  by (simp add: parse_date_def u_def dec_val_def is_digit_def valid_civil_def month_length_def leap_year_def)

lemma history_honest_witness:
  "\<exists>ds. kestrelYear = Inr ds \<and> length ds = 365 \<and> dr_state (ds ! 292) = Stale \<and> dr_held (ds ! 292) = dr_held (ds ! 291)"
proof -
  obtain r where r: "kestrelRecord = Inr r" by (simp add: kestrelRecord_def exampleRecords_def)
  let ?p = "kestrel_plan r"
  have "parse_date (hp_latestDate ?p) = Some (make_day (2026, 11, 2))" by (simp only: kestrel_plan_def kestrel_latest history_plan.simps)
  moreover have "year_start 0 \<le> make_day (2026, 11, 2) - int (hp_days ?p)"
    by (simp add: kestrel_plan_def YEAR_DAYS_def year_start_def numeral_eq_Suc month_length_def)
  ultimately obtain ds where "buildHistory ?p = Inr ds" "length ds = hp_days ?p"
    "\<forall>i \<in> set (hp_staleDays ?p). 0 < i \<and> Suc i < length ds \<longrightarrow> dr_state (ds ! i) = Stale \<and> dr_ledger (ds ! i) = None
        \<and> dr_owed (ds ! i) = dr_owed (ds ! (i - 1)) \<and> dr_held (ds ! i) = dr_held (ds ! (i - 1))"
    using history_honest [of ?p "make_day (2026, 11, 2)"] by blast
  then show ?thesis by (simp add: kestrelYear_def r kestrel_plan_def YEAR_DAYS_def HISTORY_START_def HISTORY_DAYS_def)
qed

text \<open>The day picker never leaves the days it shows.\<close>

definition picker_ok :: "int \<Rightarrow> day_picker \<Rightarrow> bool" where
  "picker_ok days p \<longleftrightarrow> 0 \<le> dp_selected p \<and> dp_selected p < days \<and> (\<forall>i. dp_focus p = Some i \<longrightarrow> 0 \<le> i \<and> i < days)"

lemma picker_keeps:
  assumes "picker_ok days p" "0 \<le> i" "i < days"
  shows "picker_ok days (picker_select days j p)" "picker_ok days (picker_key days key i p)"
  using assms by (auto simp: picker_ok_def picker_select_def picker_key_def nextDayIndex_def split: option.splits if_splits)

lemma picker_starts: "0 < days \<Longrightarrow> picker_ok days (picker_start days)"
  by (simp add: picker_ok_def picker_start_def)

lemma collateral_only_covered: "cd_isAccepting (collateralDecision asset s) \<longleftrightarrow> s = Covered"
  by (cases s) simp_all

lemma dailyHistory_days:
  "length (dailyHistory n ex) = nat n"
  "i < nat n \<Longrightarrow> dailyHistory n ex ! i = (case ex i of Some s \<Rightarrow> s | None \<Rightarrow> Covered)"
  by (auto simp: dailyHistory_def)

end
