(* ===== verification/Site_Widgets.thy ===== *)
theory Site_Widgets
  imports Record_History
begin

text \<open>
  Interactive parts of the web site: the scroll lock (apps/website/src/lib/scroll-lock.ts,
  lib/scroll-to.ts) with the hooks that use it (hooks/use-popover-scroll-lock.ts,
  hooks/use-smooth-scroll.ts), the inclusion checker of the solution pages
  (features/solutions/lib/inclusion.ts, hooks/use-inclusion-check.ts), the steps of the scroll
  stage (features/home/lib/stage-steps.ts), scroll progress, the tracked section and step, the
  archive image loader and the blog's texts.  Progress values are rationals.
\<close>

section \<open>lib/scroll-lock.ts and its hooks\<close>

text \<open>The registered scroller is there or not, and runs or is stopped; \<open>sl_class\<close> is the class
  \<open>scroll-locked\<close> of the document, \<open>sl_hooks\<close> holds the flag \<open>locked\<close> of every mounted
  popover hook, \<open>sl_started\<close> whether the smooth-scroll hook has a scroller to stop, and
  \<open>sl_smooth\<close> whether one is registered with lib/scroll-to.ts.\<close>

record scroll_page =
  sl_locks :: int
  sl_scroller :: "bool option"
  sl_class :: bool
  sl_hooks :: "nat \<Rightarrow> bool option"
  sl_started :: bool
  sl_smooth :: bool

definition registerScroller :: "bool option \<Rightarrow> scroll_page \<Rightarrow> scroll_page" where
  "registerScroller next s =
     s\<lparr>sl_scroller := (if next \<noteq> None \<and> 0 < sl_locks s then Some False else next)\<rparr>"

definition lockScroll :: "scroll_page \<Rightarrow> scroll_page" where
  "lockScroll s =
     s\<lparr>sl_locks := sl_locks s + 1, sl_class := True, sl_scroller := map_option (\<lambda>_. False) (sl_scroller s)\<rparr>"

definition unlockScroll :: "scroll_page \<Rightarrow> scroll_page" where
  "unlockScroll s =
     (let s = s\<lparr>sl_locks := max 0 (sl_locks s - 1)\<rparr> in
      if 0 < sl_locks s then s
      else s\<lparr>sl_class := False, sl_scroller := map_option (\<lambda>_. True) (sl_scroller s)\<rparr>)"

definition hook_mount :: "nat \<Rightarrow> scroll_page \<Rightarrow> scroll_page" where
  "hook_mount i s = s\<lparr>sl_hooks := (sl_hooks s)(i \<mapsto> False)\<rparr>"

definition onToggle :: "nat \<Rightarrow> bool \<Rightarrow> scroll_page \<Rightarrow> scroll_page" where
  "onToggle i opened s =
     (case sl_hooks s i of
        None \<Rightarrow> s
      | Some locked \<Rightarrow>
          if opened \<and> \<not> locked then lockScroll (s\<lparr>sl_hooks := (sl_hooks s)(i \<mapsto> True)\<rparr>)
          else if \<not> opened \<and> locked then unlockScroll (s\<lparr>sl_hooks := (sl_hooks s)(i \<mapsto> False)\<rparr>)
          else s)"

definition hook_unmount :: "nat \<Rightarrow> scroll_page \<Rightarrow> scroll_page" where
  "hook_unmount i s =
     (let s' = s\<lparr>sl_hooks := (sl_hooks s)(i := None)\<rparr>
      in if sl_hooks s i = Some True then unlockScroll s' else s')"

definition registerSmoothScroller :: "bool \<Rightarrow> scroll_page \<Rightarrow> scroll_page" where
  "registerSmoothScroller next s = s\<lparr>sl_smooth := next\<rparr>"

datatype scroll_call = SmoothTo int | WindowTo int

definition scrollToY :: "int \<Rightarrow> scroll_page \<Rightarrow> scroll_call" where
  "scrollToY y s = (if sl_smooth s then SmoothTo y else WindowTo y)"

text \<open>The effect of use-smooth-scroll.ts: a new scroller runs until it is stopped.\<close>

definition smooth_start :: "scroll_page \<Rightarrow> scroll_page" where
  "smooth_start s = registerSmoothScroller True (registerScroller (Some True) s)"

definition smooth_stop :: "scroll_page \<Rightarrow> scroll_page" where
  "smooth_stop s = registerScroller None (registerSmoothScroller False s)"

definition smooth_sync :: "bool \<Rightarrow> scroll_page \<Rightarrow> scroll_page" where
  "smooth_sync reduced s =
     (if reduced then (if sl_started s then smooth_stop s else s)\<lparr>sl_started := False\<rparr>
      else if sl_started s then s else (smooth_start s)\<lparr>sl_started := True\<rparr>)"

definition smooth_unmount :: "scroll_page \<Rightarrow> scroll_page" where
  "smooth_unmount s = (if sl_started s then smooth_stop s else s)\<lparr>sl_started := False\<rparr>"

definition scroll_init :: scroll_page where
  "scroll_init =
     \<lparr>sl_locks = 0, sl_scroller = None, sl_class = False, sl_hooks = (\<lambda>_. None), sl_started = False, sl_smooth = False\<rparr>"

inductive scroll_step :: "scroll_page \<Rightarrow> scroll_page \<Rightarrow> bool" where
  mount: "sl_hooks s i = None \<Longrightarrow> scroll_step s (hook_mount i s)" |
  toggle: "scroll_step s (onToggle i opened s)" |
  unmount: "scroll_step s (hook_unmount i s)" |
  sync: "scroll_step s (smooth_sync reduced s)" |
  leave: "scroll_step s (smooth_unmount s)"

section \<open>features/solutions/lib/inclusion.ts and hooks/use-inclusion-check.ts\<close>

record customer_leaf =
  cl_reference :: jstr
  cl_balance :: int

record inclusion_snapshot =
  is_institution :: jstr
  is_asset :: jstr
  is_decimals :: nat
  is_total :: int
  is_ledger :: int
  is_customers :: "customer_leaf list"

datatype snapshot_result =
    IIdle
  | IInvalid jstr
  | INot_found jstr
  | ICounted jstr int int int

definition upper_ascii :: "nat \<Rightarrow> nat" where
  "upper_ascii c = (if 97 \<le> c \<and> c \<le> 122 then c - 32 else c)"

definition is_upper :: "nat \<Rightarrow> bool" where "is_upper c \<longleftrightarrow> 65 \<le> c \<and> c \<le> 90"

definition reference_re :: "jstr \<Rightarrow> bool" where
  "reference_re s \<longleftrightarrow> length s = 8 \<and> list_all is_upper (take 3 s) \<and> s ! 3 = 45 \<and> list_all is_digit (drop 4 s)"

definition undashed_re :: "jstr \<Rightarrow> bool" where
  "undashed_re s \<longleftrightarrow> length s = 7 \<and> list_all is_upper (take 3 s) \<and> list_all is_digit (drop 3 s)"

definition normalizeReference :: "(jstr \<Rightarrow> jstr) \<Rightarrow> jstr \<Rightarrow> jstr option" where
  "normalizeReference toUpper input =
     (let compact = filter (\<lambda>c. \<not> is_ws c) (toUpper (trim input));
          withDash = (if undashed_re compact then take 3 compact @ [45] @ drop 3 compact else compact)
      in if reference_re withDash then Some withDash else None)"

definition snapshot_check :: "(jstr \<Rightarrow> jstr) \<Rightarrow> jstr \<Rightarrow> inclusion_snapshot \<Rightarrow> snapshot_result" where
  "snapshot_check toUpper input snap =
     (case normalizeReference toUpper input of
        None \<Rightarrow> IInvalid input
      | Some reference \<Rightarrow>
          (case find (\<lambda>c. cl_reference c = reference) (is_customers snap) of
             None \<Rightarrow> INot_found reference
           | Some leaf \<Rightarrow> ICounted reference (cl_balance leaf) (is_total snap) (is_ledger snap)))"

record checker =
  ck_query :: jstr
  ck_result :: snapshot_result

datatype checker_action = CType jstr | CPick jstr | CSubmit

fun checker_reducer :: "(jstr \<Rightarrow> jstr) \<Rightarrow> inclusion_snapshot \<Rightarrow> checker \<Rightarrow> checker_action \<Rightarrow> checker" where
  "checker_reducer up snap s (CType q) = \<lparr>ck_query = q, ck_result = IIdle\<rparr>" |
  "checker_reducer up snap s (CPick r) = \<lparr>ck_query = r, ck_result = snapshot_check up r snap\<rparr>" |
  "checker_reducer up snap s CSubmit = s\<lparr>ck_result := snapshot_check up (ck_query s) snap\<rparr>"

definition checker_start :: "(jstr \<Rightarrow> jstr) \<Rightarrow> inclusion_snapshot \<Rightarrow> jstr option \<Rightarrow> checker" where
  "checker_start up snap initial =
     (case initial of
        Some r \<Rightarrow> \<lparr>ck_query = r, ck_result = (if r = [] then IIdle else snapshot_check up r snap)\<rparr>
      | None \<Rightarrow> \<lparr>ck_query = [], ck_result = IIdle\<rparr>)"

definition northwaySnapshot :: inclusion_snapshot where
  "northwaySnapshot =
     \<lparr>is_institution = u ''Northway Custody'', is_asset = u ''USDC'', is_decimals = 2,
      is_total = 1842090512, is_ledger = 3411902,
      is_customers = List.map (\<lambda>(r, b). \<lparr>cl_reference = u r, cl_balance = b\<rparr>)
        [(''NWC-0418'', 248015), (''NWC-1172'', 1290000), (''NWC-2035'', 6250), (''NWC-2961'', 48733120),
         (''NWC-3304'', 91540), (''NWC-4480'', 2100075), (''NWC-5127'', 15000), (''NWC-6893'', 733418)]\<rparr>"

section \<open>features/home/lib/stage-steps.ts and lib/scroll-progress.ts\<close>

definition stepAt :: "rat \<Rightarrow> int \<Rightarrow> int" where
  "stepAt progress steps = min steps (max 1 (\<lfloor>progress * of_int steps\<rfloor> + 1))"

definition stepOffset :: "int \<Rightarrow> int \<Rightarrow> rat" where
  "stepOffset step steps = (of_int step - 1 + 45 / 100) / of_int steps"

definition nextDay :: "int \<Rightarrow> int \<Rightarrow> int" where
  "nextDay index days = (if days \<le> 0 then 0 else (index + 1) smod days)"

definition scrollProgress :: "rat \<Rightarrow> rat \<Rightarrow> rat \<Rightarrow> rat" where
  "scrollProgress scrollY scrollHeight viewport =
     (let range = scrollHeight - viewport in if range \<le> 0 then 0 else min 1 (max 0 (scrollY / range)))"

definition showBackToTop :: "rat \<Rightarrow> rat \<Rightarrow> bool" where
  "showBackToTop scrollY viewport \<longleftrightarrow> viewport * (8 / 10) < scrollY"

section \<open>use-active-section.ts (legal) and use-active-step.ts\<close>

record section_tracker =
  st_active :: "jstr option"
  st_visible :: "jstr list"

definition track_entry :: "jstr \<times> bool \<Rightarrow> jstr list \<Rightarrow> jstr list" where
  "track_entry e visible = (if snd e then List.insert (fst e) visible else removeAll (fst e) visible)"

definition section_entries :: "jstr list \<Rightarrow> (jstr \<times> bool) list \<Rightarrow> section_tracker \<Rightarrow> section_tracker" where
  "section_entries targets entries s =
     (let visible = fold track_entry entries (st_visible s)
      in s\<lparr>st_visible := visible,
           st_active := (case find (\<lambda>t. t \<in> set visible) targets of Some t \<Rightarrow> Some t | None \<Rightarrow> st_active s)\<rparr>)"

definition section_start :: "jstr list \<Rightarrow> section_tracker" where
  "section_start ids = \<lparr>st_active = (case ids of [] \<Rightarrow> None | i # _ \<Rightarrow> Some i), st_visible = []\<rparr>"

text \<open>An entry of the step observer: whether it intersects and the number its \<open>data-step\<close> reads as.\<close>

definition step_entries :: "int \<Rightarrow> (bool \<times> rat option) list \<Rightarrow> int \<Rightarrow> int" where
  "step_entries steps entries active =
     fold (\<lambda>(intersecting, index) a.
        case index of
          Some q \<Rightarrow> if intersecting \<and> q \<in> \<int> \<and> 0 \<le> q \<and> q < of_int steps then \<lfloor>q\<rfloor> else a
        | None \<Rightarrow> a) entries active"

section \<open>lib/image-loader.ts\<close>

definition WIDTHS :: "(nat \<times> string) list" where
  "WIDTHS = [(400, ''400''), (800, ''800''), (1600, ''1600'')]"

definition line_break_char :: "nat \<Rightarrow> bool" where "line_break_char c \<longleftrightarrow> c \<in> {10, 13, 0x2028, 0x2029}"

definition sized_match :: "jstr \<Rightarrow> jstr option" where
  "sized_match src =
     (case find (\<lambda>(_, w). suffix (u ''-'' @ u w @ u ''.webp'') src) WIDTHS of
        None \<Rightarrow> None
      | Some (_, w) \<Rightarrow>
          (let base = take (length src - length (u ''-'' @ u w @ u ''.webp'')) src
           in if prefix (u ''/images/archive/'') base \<and> length (u ''/images/archive/'') < length base
                 \<and> list_all (\<lambda>c. \<not> line_break_char c) (drop (length (u ''/images/archive/'')) base)
              then Some base else None))"

definition imageLoader :: "jstr \<Rightarrow> nat \<Rightarrow> jstr" where
  "imageLoader src width =
     (case sized_match src of
        None \<Rightarrow> src
      | Some base \<Rightarrow>
          base @ u ''-'' @ (case find (\<lambda>(n, _). width \<le> n) WIDTHS of Some (_, w) \<Rightarrow> u w | None \<Rightarrow> u ''1600'') @ u ''.webp'')"

section \<open>The scroll lock holds exactly while a menu is open\<close>

definition locked_in :: "(nat \<Rightarrow> bool option) \<Rightarrow> nat set" where
  "locked_in h = {i. h i = Some True}"

definition scroll_sound :: "scroll_page \<Rightarrow> bool" where
  "scroll_sound s \<longleftrightarrow> finite (locked_in (sl_hooks s)) \<and> sl_locks s = int (card (locked_in (sl_hooks s)))
     \<and> (sl_class s \<longleftrightarrow> locked_in (sl_hooks s) \<noteq> {})
     \<and> sl_scroller s = (if sl_started s then Some (locked_in (sl_hooks s) = {}) else None)
     \<and> sl_smooth s = sl_started s"

lemma locked_in_simps [simp]:
  "locked_in (h(i \<mapsto> True)) = insert i (locked_in h)"
  "locked_in (h(i \<mapsto> False)) = locked_in h - {i}"
  "locked_in (h(i := None)) = locked_in h - {i}"
  by (auto simp: locked_in_def split: if_splits)

lemma locked_in_iff: "h i = Some b \<Longrightarrow> i \<in> locked_in h \<longleftrightarrow> b" "h i = None \<Longrightarrow> i \<notin> locked_in h"
  by (auto simp: locked_in_def)

lemma lock_sound:
  assumes "scroll_sound s" "i \<notin> locked_in (sl_hooks s)"
  shows "scroll_sound (lockScroll (s\<lparr>sl_hooks := (sl_hooks s)(i \<mapsto> True)\<rparr>))"
  using assms by (simp add: scroll_sound_def lockScroll_def)

lemma unlock_sound:
  assumes "scroll_sound s" "i \<in> locked_in (sl_hooks s)" "h = (sl_hooks s)(i \<mapsto> False) \<or> h = (sl_hooks s)(i := None)"
  shows "scroll_sound (unlockScroll (s\<lparr>sl_hooks := h\<rparr>))"
proof -
  have f: "finite (locked_in (sl_hooks s))" "sl_locks s = int (card (locked_in (sl_hooks s)))" using assms(1) by (simp_all add: scroll_sound_def)
  have h: "locked_in h = locked_in (sl_hooks s) - {i}" using assms(3) by auto
  have c: "sl_locks s - 1 = int (card (locked_in (sl_hooks s) - {i}))"
    using f assms(2) card_Suc_Diff1 [OF f(1) assms(2)] by simp
  define K where "K = locked_in (sl_hooks s) - {i}"
  have K: "finite K" "sl_locks s - 1 = int (card K)" "locked_in h = K" "locked_in (sl_hooks s) \<noteq> {}"
    using f(1) c h assms(2) by (auto simp: K_def)
  have r: "sl_scroller s = (if sl_started s then Some False else None)" "sl_class s" "sl_smooth s = sl_started s"
    using assms(1) K(4) by (simp_all add: scroll_sound_def)
  show ?thesis
  proof (cases "K = {}")
    case True
    with K r show ?thesis by (simp add: scroll_sound_def unlockScroll_def Let_def)
  next
    case False
    with K(1) have "0 < card K" by (simp add: card_gt_0_iff)
    with False K(1-3) r show ?thesis by (simp add: scroll_sound_def unlockScroll_def Let_def)
  qed
qed

lemma scroll_step_sound: "scroll_step s s' \<Longrightarrow> scroll_sound s \<Longrightarrow> scroll_sound s'"
proof (induction rule: scroll_step.induct)
  case (mount s i)
  then have "i \<notin> locked_in (sl_hooks s)" by (simp add: locked_in_def)
  with mount show ?case by (simp add: scroll_sound_def hook_mount_def)
next
  case (toggle s i opened)
  show ?case
  proof (cases "sl_hooks s i")
    case (Some locked)
    with locked_in_iff(1) have "locked \<longleftrightarrow> i \<in> locked_in (sl_hooks s)" by metis
    with Some toggle lock_sound [of s i] unlock_sound [of s i] show ?thesis
      by (simp add: onToggle_def)
  qed (use toggle in \<open>simp add: onToggle_def\<close>)
next
  case (unmount s i)
  show ?case
  proof (cases "sl_hooks s i = Some True")
    case True
    with unmount unlock_sound [of s i] show ?thesis by (simp add: hook_unmount_def locked_in_def)
  next
    case False
    then have "i \<notin> locked_in (sl_hooks s)" by (simp add: locked_in_def)
    with False unmount show ?thesis by (simp add: hook_unmount_def scroll_sound_def)
  qed
qed (auto simp: scroll_sound_def smooth_sync_def smooth_unmount_def smooth_start_def smooth_stop_def
      registerScroller_def registerSmoothScroller_def card_gt_0_iff split: if_splits)

text \<open>The page is locked exactly while a menu holds it.  However menus mount, open, close
  and unmount, and however the smooth scroller comes and goes with the motion preference, the
  document is marked as locked exactly while some mounted hook has seen its menu open, a
  scroller that is there runs exactly while none has, the number of locks is the number of such
  hooks, and scroll commands go to the scroller exactly while there is one.\<close>

theorem scroll_lock_sound:
  assumes "scroll_step\<^sup>*\<^sup>* scroll_init s"
  shows "(sl_class s \<longleftrightarrow> (\<exists>i. sl_hooks s i = Some True))
    \<and> sl_scroller s = (if sl_started s then Some (\<forall>i. sl_hooks s i \<noteq> Some True) else None)
    \<and> sl_locks s = int (card {i. sl_hooks s i = Some True})
    \<and> scrollToY y s = (if sl_scroller s \<noteq> None then SmoothTo y else WindowTo y)"
proof -
  have "scroll_sound s" using assms
  proof induction
    case base
    show ?case by (simp add: scroll_sound_def scroll_init_def locked_in_def)
  qed (rule scroll_step_sound)
  then show ?thesis by (auto simp: scroll_sound_def locked_in_def scrollToY_def)
qed

lemma scroll_lock_sound_witness:
  "sl_class (onToggle 7 True (hook_mount 7 (smooth_sync False scroll_init)))
    \<and> sl_scroller (onToggle 7 True (hook_mount 7 (smooth_sync False scroll_init))) = Some False"
proof -
  let ?a = "smooth_sync False scroll_init" and ?b = "hook_mount 7 (smooth_sync False scroll_init)"
  have "scroll_step scroll_init ?a" by (rule scroll_step.sync)
  moreover have "scroll_step ?a ?b"
    by (rule scroll_step.mount)
      (simp add: smooth_sync_def smooth_start_def registerScroller_def registerSmoothScroller_def scroll_init_def)
  moreover have "scroll_step ?b (onToggle 7 True ?b)" by (rule scroll_step.toggle)
  ultimately have "scroll_step\<^sup>*\<^sup>* scroll_init (onToggle 7 True ?b)" by (meson rtranclp.rtrancl_into_rtrancl rtranclp.rtrancl_refl)
  from scroll_lock_sound [OF this, of 0] show ?thesis
    by (simp add: onToggle_def hook_mount_def lockScroll_def smooth_sync_def smooth_start_def registerScroller_def
        registerSmoothScroller_def scroll_init_def)
qed

section \<open>The inclusion checker\<close>

lemma normalizeReference_re: "normalizeReference up input = Some r \<Longrightarrow> reference_re r"
  by (auto simp: normalizeReference_def Let_def split: if_splits)

text \<open>What the page shows is the check of the text in the field, or nothing yet.\<close>

definition checker_fresh :: "(jstr \<Rightarrow> jstr) \<Rightarrow> inclusion_snapshot \<Rightarrow> checker \<Rightarrow> bool" where
  "checker_fresh up snap s \<longleftrightarrow> ck_result s = IIdle \<or> ck_result s = snapshot_check up (ck_query s) snap"

lemma checker_stays_fresh: "checker_fresh up snap (foldl (checker_reducer up snap) (checker_start up snap initial) acts)"
proof (induction acts rule: rev_induct)
  case (snoc a acts)
  then show ?case by (cases a) (simp_all add: checker_fresh_def)
qed (simp add: checker_fresh_def checker_start_def split: option.split)

lemma counted_is_committed:
  assumes "snapshot_check up q snap = ICounted r b t l"
  shows "\<lparr>cl_reference = r, cl_balance = b\<rparr> \<in> set (is_customers snap) \<and> t = is_total snap \<and> l = is_ledger snap \<and> reference_re r"
proof -
  obtain leaf where n: "normalizeReference up q = Some r" and f: "find (\<lambda>c. cl_reference c = r) (is_customers snap) = Some leaf"
    and e: "b = cl_balance leaf" "t = is_total snap" "l = is_ledger snap"
    using assms by (auto simp: snapshot_check_def split: option.splits)
  from f have "leaf \<in> set (is_customers snap)" "cl_reference leaf = r" by (auto simp: find_Some_iff)
  then have "\<lparr>cl_reference = r, cl_balance = b\<rparr> \<in> set (is_customers snap)" using e(1)
    by (metis customer_leaf.surjective unit.exhaust)
  with n e show ?thesis using normalizeReference_re by simp
qed

section \<open>Steps, progress and sizes\<close>

lemma stepAt_range: "1 \<le> steps \<Longrightarrow> 1 \<le> stepAt p steps \<and> stepAt p steps \<le> steps"
  by (simp add: stepAt_def)

lemma stepAt_stepOffset:
  assumes "1 \<le> k" "k \<le> steps"
  shows "stepAt (stepOffset k steps) steps = k"
proof -
  have "stepOffset k steps * of_int steps = of_int (k - 1) + 45 / 100"
    using assms by (simp add: stepOffset_def)
  then have "\<lfloor>stepOffset k steps * of_int steps\<rfloor> = k - 1" by linarith
  with assms show ?thesis by (simp add: stepAt_def)
qed

lemma nextDay_range: "0 \<le> i \<Longrightarrow> 0 < n \<Longrightarrow> 0 \<le> nextDay i n \<and> nextDay i n < n"
  by (simp add: nextDay_def smod_int_range smod_int_mod_0)

lemma scrollProgress_range: "0 \<le> scrollProgress y h v \<and> scrollProgress y h v \<le> 1"
  by (simp add: scrollProgress_def Let_def)

lemma section_active_known: "st_active s = Some t \<Longrightarrow> t \<in> set ids \<Longrightarrow> set targets \<subseteq> set ids
  \<Longrightarrow> \<exists>t'. st_active (section_entries targets es s) = Some t' \<and> t' \<in> set ids"
  by (auto simp: section_entries_def Let_def find_Some_iff split: option.split)

lemma step_entries_range: "0 \<le> a \<Longrightarrow> a < steps \<Longrightarrow> 0 \<le> step_entries steps es a \<and> step_entries steps es a < steps"
proof (induction es arbitrary: a)
  case (Cons e es)
  obtain b q where e: "e = (b, q)" by (cases e)
  let ?a = "case q of Some q \<Rightarrow> if b \<and> q \<in> \<int> \<and> 0 \<le> q \<and> q < of_int steps then \<lfloor>q\<rfloor> else a | None \<Rightarrow> a"
  have "0 \<le> ?a" "?a < steps" using Cons.prems by (auto simp: floor_less_iff split: option.split)
  with Cons.IH [of ?a] show ?case by (simp add: step_entries_def e)
qed (simp add: step_entries_def)

end
