(* ===== verification/Record_Pages.thy ===== *)
theory Record_Pages
  imports Site_Widgets
begin

text \<open>
  What the record pages of the web site print: the Seal (apps/website/src/components/ui/
  seal-instrument.tsx), the record document (components/ui/record-document.tsx), the history
  page with its table and day panel (features/product/components/coverage-record/
  record-history.tsx, records-table.tsx), the proof schedule (how-it-works/update-cadence.tsx),
  the auditor's figure (coverage-record/reader-views.tsx), the hero (features/home/components/
  opening.tsx), the coverage checker's panel (features/home/components/coverage-check.tsx) and
  the result of the inclusion check (features/solutions/components/inclusion-result.tsx).
  A view is a record of the printed texts; \<open>fd\<close> is \<open>formatDay\<close>, whose \<open>Intl\<close> format is a
  parameter.
\<close>

section \<open>components/ui/seal-instrument.tsx\<close>

datatype seal_mode =
    Meter rat coverage_state
  | Calendar "bool list" "nat option"
  | Progress rat rat

record tick_style =
  ti_class :: jstr
  ti_dashed :: bool

definition plain_tick :: "string \<Rightarrow> tick_style" where
  "plain_tick c = \<lparr>ti_class = u c, ti_dashed = False\<rparr>"

definition dashed_tick :: "string \<Rightarrow> tick_style" where
  "dashed_tick c = \<lparr>ti_class = u c, ti_dashed = True\<rparr>"

text \<open>\<open>Math.round\<close>.\<close>

definition round_half_up :: "rat \<Rightarrow> int" where
  "round_half_up x = \<lfloor>x + 1 / 2\<rfloor>"

definition meter_lit :: "rat \<Rightarrow> coverage_state \<Rightarrow> nat \<Rightarrow> int" where
  "meter_lit share state ticks =
     (if state = Stale then 0 else round_half_up (min (max share 0) 1 * of_nat ticks))"

fun tickStyle :: "seal_mode \<Rightarrow> nat \<Rightarrow> nat \<Rightarrow> tick_style" where
  "tickStyle (Meter share state) index ticks =
     (let lit = meter_lit share state ticks in
      if state = Stale then dashed_tick ''stroke-stale-fill''
      else if lit \<le> int index then plain_tick ''stroke-line-strong opacity-60''
      else if state = Short then plain_tick ''stroke-short-fill''
      else if int index = lit - 1 then plain_tick ''stroke-signal'' else plain_tick ''stroke-text'')" |
  "tickStyle (Calendar days today) index ticks =
     (if Some index = today then plain_tick ''stroke-signal''
      else if length days \<le> index then plain_tick ''stroke-line opacity-50''
      else if days ! index then plain_tick ''stroke-text'' else dashed_tick ''stroke-line-strong'')" |
  "tickStyle (Progress step steps) index ticks =
     (let per = of_nat ticks / steps; lit = round_half_up (step * per) in
      if lit \<le> int index then plain_tick ''stroke-line-strong opacity-60''
      else if round_half_up ((step - 1) * per) \<le> int index then plain_tick ''stroke-signal''
      else plain_tick ''stroke-text'')"

definition seal_ticks :: "nat option \<Rightarrow> bool \<Rightarrow> seal_mode \<Rightarrow> nat" where
  "seal_ticks ticks default_size mode =
     (case ticks of Some n \<Rightarrow> n
      | None \<Rightarrow> (case mode of Calendar days _ \<Rightarrow> length days | _ \<Rightarrow> if default_size then 72 else 24))"

text \<open>The arc beyond the ring: the share of a full turn it sweeps.\<close>

definition surplus_turn :: "bool \<Rightarrow> seal_mode \<Rightarrow> rat option" where
  "surplus_turn default_size mode =
     (case mode of
        Meter share Covered \<Rightarrow>
          if default_size \<and> 0 < min (share - 1) (1 / 2) then Some (min (share - 1) (1 / 2)) else None
      | _ \<Rightarrow> None)"

section \<open>Printed numbers\<close>

text \<open>\<open>toLocaleString\<close> of an integer in the locale en-US.\<close>

definition locale_int :: "int \<Rightarrow> jstr" where
  "locale_int i = (if i < 0 then 45 # group_digits (show_nat (nat (- i))) else group_digits (show_nat (nat i)))"

definition ledgerLabel :: "int \<Rightarrow> jstr" where
  "ledgerLabel ledger = u ''Ledger '' @ locale_int ledger"

text \<open>\<open>day.ledger ? ... : other\<close>: a ledger of zero counts as none.\<close>

definition ledger_text :: "int option \<Rightarrow> jstr \<Rightarrow> jstr" where
  "ledger_text ledger other = (case ledger of Some l \<Rightarrow> if l \<noteq> 0 then locale_int l else other | None \<Rightarrow> other)"

section \<open>components/ui/record-document.tsx\<close>

record record_view =
  rv_stamp :: coverage_state
  rv_seal :: seal_mode
  rv_percent :: jstr
  rv_owed :: "jstr \<times> jstr"
  rv_held :: "jstr \<times> jstr"
  rv_margin :: "jstr \<times> jstr"
  rv_parts :: "jstr list"

definition RecordDocument :: "coverage_record \<Rightarrow> record_view" where
  "RecordDocument r =
     (let surplus = (if cr_owed r < cr_held r then cr_held r - cr_owed r else 0) in
      \<lparr>rv_stamp = cr_state r,
       rv_seal = Meter (heldShare r) (cr_state r),
       rv_percent = (case coveragePercent (cr_owed r) (cr_held r) of Some p \<Rightarrow> p | None \<Rightarrow> u ''Unknown''),
       rv_owed = ((if cr_kind r = Anchor then u ''Owed to holders'' else u ''Owed to customers''),
                  formatAmount (cr_owed r) (cr_decimals r)),
       rv_held = (u ''Held in reserve'', formatAmount (cr_held r) (cr_decimals r)),
       rv_margin = (if cr_state r = Short
                    then (u ''Shortfall'', formatAmount (coverageShortfall r) (cr_decimals r))
                    else (u ''Surplus'', formatAmount surplus (cr_decimals r))),
       rv_parts = [ledgerLabel (cr_ledger r), cr_provenAgo r,
                   (if cr_state r = Stale then u ''No proof today'' else u ''Example, not read from a contract'')]\<rparr>)"

section \<open>The history page and its tables\<close>

record day_panel =
  pn_date :: jstr
  pn_stamp :: coverage_state
  pn_text :: jstr
  pn_label :: jstr
  pn_coverage :: "jstr option"
  pn_ledger :: jstr

definition day_panel_of :: "(jstr \<Rightarrow> jstr) \<Rightarrow> coverage_record \<Rightarrow> day_result \<Rightarrow> day_panel" where
  "day_panel_of fd kestrel day =
     \<lparr>pn_date = fd (dr_date day),
      pn_stamp = dr_state day,
      pn_text =
        (case dr_state day of
           Stale \<Rightarrow> u ''No proof was recorded that day. Treat coverage as unknown until the next proof lands.''
         | Short \<Rightarrow> u ''Reserves were short by '' @ formatAmount (dr_owed day - dr_held day) (cr_decimals kestrel)
                     @ u '' '' @ cr_asset kestrel @ u '' at this ledger.''
         | Covered \<Rightarrow> u ''Reserves were at least what was owed at this ledger.''),
      pn_label = (if dr_state day = Stale then u ''Last known'' else u ''Coverage''),
      pn_coverage = coveragePercent (dr_owed day) (dr_held day),
      pn_ledger = ledger_text (dr_ledger day) (u ''None'')\<rparr>"

record history_page =
  hg_seal :: seal_mode
  hg_proofs :: int
  hg_year :: state_count
  hg_count :: state_count
  hg_ticks :: "(jstr \<times> bool \<times> coverage_state) list"
  hg_panel :: "day_panel option"

text \<open>The page of the selected day.  The tick of a day carries its label, whether it is the
  selected one and its state; \<open>seal_days\<close> are the days of the year.\<close>

definition RecordHistory :: "(jstr \<Rightarrow> jstr) \<Rightarrow> coverage_record \<Rightarrow> day_result list \<Rightarrow> day_result list \<Rightarrow> day_picker \<Rightarrow> history_page" where
  "RecordHistory fd kestrel year days p =
     \<lparr>hg_seal = Calendar (proofDays year) (if year = [] then None else Some (length year - 1)),
      hg_proofs = int (length (proofDays year)) - int (sc_stale (countStates year)),
      hg_year = countStates year,
      hg_count = countStates days,
      hg_ticks = List.map (\<lambda>(i, d). (fd (dr_date d) @ u '', '' @ stateLabel (dr_state d), int i = dp_selected p, dr_state d))
                   (List.enumerate 0 days),
      hg_panel = (if 0 \<le> dp_selected p \<and> nat (dp_selected p) < length days
                  then Some (day_panel_of fd kestrel (days ! nat (dp_selected p))) else None)\<rparr>"

record table_row =
  tr_date :: jstr
  tr_ledger :: jstr
  tr_owed :: jstr
  tr_held :: jstr
  tr_coverage :: "jstr option"
  tr_state :: coverage_state
  tr_check :: jstr

definition day_row :: "coverage_record \<Rightarrow> day_result \<Rightarrow> table_row" where
  "day_row kestrel day =
     \<lparr>tr_date = dr_date day,
      tr_ledger = ledger_text (dr_ledger day) (u ''none''),
      tr_owed = formatAmount (dr_owed day) (cr_decimals kestrel),
      tr_held = formatAmount (dr_held day) (cr_decimals kestrel),
      tr_coverage = (if dr_state day = Stale then Some (u ''unknown'') else coveragePercent (dr_owed day) (dr_held day)),
      tr_state = dr_state day,
      tr_check = (if dr_ledger day \<noteq> None \<and> dr_ledger day \<noteq> Some 0 then u ''Verified'' else u ''No proof'')\<rparr>"

definition ROWS :: nat where "ROWS = 10"

definition RecordsTable :: "coverage_record \<Rightarrow> day_result list \<Rightarrow> table_row list" where
  "RecordsTable kestrel history = List.map (day_row kestrel) (rev (drop (length history - ROWS) history))"

definition UpdateCadence :: "coverage_record \<Rightarrow> day_result list \<Rightarrow> (jstr \<times> jstr \<times> jstr option \<times> coverage_state) list" where
  "UpdateCadence kestrel history =
     List.map (\<lambda>day. (dr_date day, ledger_text (dr_ledger day) (u ''none''),
         (if dr_state day = Stale then Some (u ''unknown'') else coveragePercent (dr_owed day) (dr_held day)), dr_state day))
       (rev (drop (length history - 7) history))"

section \<open>coverage-record/reader-views.tsx\<close>

definition mid_dot :: jstr where "mid_dot = [32, 183, 32]"

definition percent_text :: "int \<Rightarrow> int \<Rightarrow> jstr" where
  "percent_text owed held = (case coveragePercent owed held of Some p \<Rightarrow> p | None \<Rightarrow> u ''null'')"

definition lower_day :: "day_result option \<Rightarrow> day_result \<Rightarrow> day_result option" where
  "lower_day low day =
     (case low of
        None \<Rightarrow> Some day
      | Some l \<Rightarrow> if dr_held day * dr_owed l < dr_held l * dr_owed day then Some day else low)"

record auditor_figure =
  af_results :: nat
  af_count :: state_count
  af_stale :: jstr
  af_lowest :: "jstr option"
  af_supply :: jstr

definition AuditorFigure :: "(jstr \<Rightarrow> jstr) \<Rightarrow> coverage_record \<Rightarrow> day_result list \<Rightarrow> auditor_figure" where
  "AuditorFigure fd kestrel history =
     (let october = daysInMonth history (u ''2026-10''); count = countStates october;
          staleDays = filter (\<lambda>d. dr_state d = Stale) october;
          lowest = foldl lower_day None (filter (\<lambda>d. dr_state d \<noteq> Stale) october)
      in \<lparr>af_results = length october, af_count = count,
          af_stale = show_nat (sc_stale count) @ mid_dot @ join_comma (List.map (\<lambda>d. fd (dr_date d)) staleDays),
          af_lowest = map_option (\<lambda>l. percent_text (dr_owed l) (dr_held l) @ mid_dot @ fd (dr_date l)) lowest,
          af_supply = formatAmount (cr_owed kestrel) (cr_decimals kestrel)\<rparr>)"

definition LENDING_RULES :: "(jstr \<times> jstr \<times> coverage_state) list" where
  "LENDING_RULES =
     [(u ''Accept new deposits'', u ''while covered'', Covered),
      (u ''Pause new deposits'', u ''while short'', Short),
      (u ''Pause new deposits'', u ''while stale'', Stale)]"

definition active_rules :: "coverage_record \<Rightarrow> bool list" where
  "active_rules kestrel = List.map (\<lambda>(_, _, s). s = cr_state kestrel) LENDING_RULES"

section \<open>features/home/components/opening.tsx\<close>

record hero_view =
  he_seal :: seal_mode
  he_percent :: jstr
  he_stamp :: coverage_state
  he_parts :: "jstr list"
  he_day :: jstr

definition Opening :: "(jstr \<Rightarrow> jstr) \<Rightarrow> coverage_record \<Rightarrow> day_result list \<Rightarrow> nat \<Rightarrow> hero_view option" where
  "Opening fd kestrel history index =
     (let DAYS = drop (length history - 7) history in
      if DAYS = [] then None
      else let day = (if index < length DAYS then DAYS ! index else last DAYS);
               r = kestrel\<lparr>cr_owed := dr_owed day, cr_held := dr_held day, cr_state := dr_state day\<rparr>
           in Some \<lparr>he_seal = Meter (heldShare r) (cr_state r),
                    he_percent = (case coveragePercent (dr_owed day) (dr_held day) of Some p \<Rightarrow> p | None \<Rightarrow> u ''Unknown''),
                    he_stamp = cr_state r,
                    he_parts = [u ''Example record'', fd (dr_date day),
                      (case dr_ledger day of Some l \<Rightarrow> if l \<noteq> 0 then ledgerLabel l else u ''No proof that day''
                       | None \<Rightarrow> u ''No proof that day'')],
                    he_day = u ''Day '' @ show_nat (index + 1) @ u '' of '' @ show_nat (length DAYS)
                      @ u ''. A new proof, a new line, every day.''\<rparr>)"

section \<open>features/home/components/coverage-check.tsx\<close>

definition MIN_POINTS :: int where "MIN_POINTS = 8500"
definition MAX_POINTS :: int where "MAX_POINTS = 11500"

record check_panel =
  cp_seal :: seal_mode
  cp_output :: "jstr option"
  cp_caption :: jstr
  cp_owed :: jstr
  cp_held :: jstr
  cp_margin :: "jstr \<times> jstr"
  cp_progress :: rat
  cp_proof :: jstr

definition CoverageCheck :: "coverage_check \<Rightarrow> check_panel" where
  "CoverageCheck c =
     (let v = coverage_view_of c in
      \<lparr>cp_seal = Meter (of_int (cc_basisPoints c) / 10000) (cv_state v),
       cp_output = (if cv_state v = Stale then Some (u ''Unknown'') else cv_percent v),
       cp_caption = (if cv_state v = Stale then u ''No recent proof'' else u ''Coverage''),
       cp_owed = cv_owed v,
       cp_held = cv_held v,
       cp_margin = (if cv_state v = Short then (u ''Shortfall'', cv_shortfall v) else (u ''Surplus'', cv_surplus v)),
       cp_progress = of_int (cc_basisPoints c - MIN_POINTS) / of_int (MAX_POINTS - MIN_POINTS) * 100,
       cp_proof = (if cc_fresh c then u ''Proof 2 h ago'' else u ''Proof 3 d ago'')\<rparr>)"

text \<open>The slider stays within its bounds in steps of five; the radio buttons set the age.\<close>

inductive check_step :: "coverage_check \<Rightarrow> coverage_check \<Rightarrow> bool" where
  slide: "MIN_POINTS \<le> b \<Longrightarrow> b \<le> MAX_POINTS \<Longrightarrow> (b - MIN_POINTS) mod 5 = 0 \<Longrightarrow> check_step c (c\<lparr>cc_basisPoints := b\<rparr>)" |
  age: "check_step c (c\<lparr>cc_fresh := fresh\<rparr>)"

section \<open>features/solutions/components/inclusion-result.tsx and inclusion-check.tsx\<close>

record result_panel =
  rp_title :: jstr
  rp_stamp :: "(coverage_state \<times> jstr) option"
  rp_rows :: "(jstr \<times> jstr) list"

fun InclusionResultPanel :: "snapshot_result \<Rightarrow> inclusion_snapshot \<Rightarrow> result_panel" where
  "InclusionResultPanel (ICounted r b t l) snap =
     \<lparr>rp_title = u ''Your balance was counted'', rp_stamp = Some (Covered, u ''Counted''),
      rp_rows = [(u ''Account'', r),
                 (u ''Your balance'', formatAmount b (is_decimals snap) @ u '' '' @ is_asset snap),
                 (u ''Part of the total owed'', formatAmount t (is_decimals snap) @ u '' '' @ is_asset snap),
                 (u ''Proof at ledger'', locale_int (is_ledger snap))]\<rparr>" |
  "InclusionResultPanel (INot_found r) snap =
     \<lparr>rp_title = u ''No balance found'', rp_stamp = Some (Short, u ''Not found''),
      rp_rows = [(r, locale_int (is_ledger snap))]\<rparr>" |
  "InclusionResultPanel (IInvalid i) snap = \<lparr>rp_title = u ''Check the reference'', rp_stamp = None, rp_rows = []\<rparr>" |
  "InclusionResultPanel IIdle snap = \<lparr>rp_title = u ''Ready to check'', rp_stamp = None, rp_rows = []\<rparr>"

definition picked :: "snapshot_result \<Rightarrow> jstr option" where
  "picked r = (case r of ICounted ref _ _ _ \<Rightarrow> Some ref | _ \<Rightarrow> None)"

section \<open>What the pages say about a day\<close>

lemma history_entry:
  assumes "parse_date (hp_latestDate p) = Some n" "year_start 0 \<le> n - int (hp_days p)" "buildHistory p = Inr ds" "Suc i < length ds"
  shows "i \<in> set (hp_staleDays p) \<Longrightarrow> dr_state (ds ! i) = Stale \<and> dr_ledger (ds ! i) = None"
    and "i \<notin> set (hp_staleDays p) \<Longrightarrow> dr_state (ds ! i) = (if dr_owed (ds ! i) \<le> dr_held (ds ! i) then Covered else Short)"
proof -
  have ds: "ds = List.map (day_entry p (history_date n (hp_days p))) [0..<hp_days p]"
    using buildHistory_entries [OF assms(1,2)] assms(3) by simp
  with assms(4) have "ds ! i = day_entry p (history_date n (hp_days p)) i" "Suc i \<noteq> hp_days p" by auto
  then show "i \<in> set (hp_staleDays p) \<Longrightarrow> dr_state (ds ! i) = Stale \<and> dr_ledger (ds ! i) = None"
    "i \<notin> set (hp_staleDays p) \<Longrightarrow> dr_state (ds ! i) = (if dr_owed (ds ! i) \<le> dr_held (ds ! i) then Covered else Short)"
    by (simp_all add: day_entry_def)
qed

text \<open>The totals of a proven day before the latest: reserves are not negative when anything is owed.\<close>

lemma history_held:
  assumes "parse_date (hp_latestDate p) = Some n" "year_start 0 \<le> n - int (hp_days p)"
    and "buildHistory p = Inr ds" "Suc i < length ds" "i \<notin> set (hp_staleDays p)" "0 < dr_owed (ds ! i)"
  shows "0 \<le> dr_held (ds ! i)"
proof -
  have "ds = List.map (day_entry p (history_date n (hp_days p))) [0..<hp_days p]"
    using buildHistory_entries [OF assms(1,2)] assms(3) by simp
  moreover have "0 \<le> basis_points p i" by (simp add: basis_points_def)
  ultimately show ?thesis using assms(4-6) by (auto simp: day_entry_def day_held_def sdiv_nonneg pos_imp_zdiv_nonneg_iff)
qed

text \<open>C32: The history page and its table never round a shortfall away.  For every day of a
  built history before the latest record: a day without a proof reads as unknown in the table,
  with no ledger and no check, while the page says that no proof was recorded and coverage is to be
  treated as unknown, and prints the share of the totals carried from the last proven day (those of the latest record when
  none came before) labelled as last known.  On
  any other day both print the same share: none when nothing is owed, otherwise the held share cut
  off at two decimals, which reads 100.00% or more exactly when the day is stamped covered.  A day
  is stamped covered exactly when reserves reach what is owed, and a day that is short names the
  exact gap.\<close>

theorem record_pages_honest:
  assumes "parse_date (hp_latestDate p) = Some n" "year_start 0 \<le> n - int (hp_days p)"
    and "buildHistory p = Inr ds" "Suc i < length ds" "d = ds ! i"
    and "panel = day_panel_of fd kestrel d" "row = day_row kestrel d"
  shows "if i \<in> set (hp_staleDays p)
    then tr_coverage row = Some (u ''unknown'') \<and> tr_check row = u ''No proof'' \<and> tr_ledger row = u ''none''
      \<and> pn_stamp panel = Stale \<and> pn_ledger panel = u ''None''
      \<and> pn_text panel = u ''No proof was recorded that day. Treat coverage as unknown until the next proof lands.''
      \<and> pn_label panel = u ''Last known'' \<and> pn_coverage panel = coveragePercent (fst (carried p i)) (snd (carried p i))
    else pn_coverage panel = tr_coverage row \<and> tr_state row = pn_stamp panel \<and> pn_label panel = u ''Coverage''
      \<and> (pn_stamp panel = Covered \<longleftrightarrow> dr_owed d \<le> dr_held d)
      \<and> (if dr_owed d \<le> 0 then tr_coverage row = None
         else \<exists>b. tr_coverage row = Some (fixed_digits 2 b @ u ''%'')
           \<and> int b * dr_owed d \<le> 10000 * dr_held d \<and> 10000 * dr_held d < (int b + 1) * dr_owed d
           \<and> (pn_stamp panel = Covered \<longleftrightarrow> 10000 \<le> b))
      \<and> (dr_held d < dr_owed d \<longrightarrow> (\<exists>gap. pn_text panel = u ''Reserves were short by '' @ gap @ u '' '' @ cr_asset kestrel @ u '' at this ledger.''
          \<and> parseAmount gap (cr_decimals kestrel) = Some (dr_owed d - dr_held d)))"
proof (cases "i \<in> set (hp_staleDays p)")
  case True
  have "ds = List.map (day_entry p (history_date n (hp_days p))) [0..<hp_days p]"
    using buildHistory_entries [OF assms(1,2)] assms(3) by simp
  with True assms(4,5) have "d = \<lparr>dr_date = dr_date d, dr_state = Stale, dr_owed = fst (carried p i), dr_held = snd (carried p i), dr_ledger = None\<rparr>"
    by (auto simp: day_entry_def)
  then obtain date where d: "d = \<lparr>dr_date = date, dr_state = Stale, dr_owed = fst (carried p i), dr_held = snd (carried p i), dr_ledger = None\<rparr>"
    by blast
  from True show ?thesis by (simp add: d assms(6,7) day_panel_of_def day_row_def ledger_text_def)
next
  case False
  with history_entry(2) [OF assms(1-4)] assms(5)
  have s: "dr_state d = (if dr_owed d \<le> dr_held d then Covered else Short)" by simp
  have share: "\<exists>b. coveragePercent (dr_owed d) (dr_held d) = Some (fixed_digits 2 b @ u ''%'')
      \<and> int b * dr_owed d \<le> 10000 * dr_held d \<and> 10000 * dr_held d < (int b + 1) * dr_owed d
      \<and> (10000 \<le> b \<longleftrightarrow> dr_owed d \<le> dr_held d)" if "0 < dr_owed d"
    using coverage_percent_sound [OF that] history_held [OF assms(1-4) False] that assms(5) by blast
  have none: "coveragePercent (dr_owed d) (dr_held d) = None" if "dr_owed d \<le> 0"
    using that by (simp add: coveragePercent_def)
  have g: "dr_held d < dr_owed d \<Longrightarrow> parseAmount (formatAmount (dr_owed d - dr_held d) (cr_decimals kestrel)) (cr_decimals kestrel)
      = Some (dr_owed d - dr_held d)" by (rule parse_format_nonneg) simp
  have v: "pn_stamp panel = dr_state d" "tr_state row = dr_state d" "pn_coverage panel = coveragePercent (dr_owed d) (dr_held d)"
    "tr_coverage row = coveragePercent (dr_owed d) (dr_held d)" "pn_label panel = u ''Coverage''"
    "dr_held d < dr_owed d \<Longrightarrow> pn_text panel = u ''Reserves were short by '' @ formatAmount (dr_owed d - dr_held d) (cr_decimals kestrel)
      @ u '' '' @ cr_asset kestrel @ u '' at this ledger.''"
    using s by (simp_all add: assms(6,7) day_panel_of_def day_row_def)
  have "\<exists>gap. pn_text panel = u ''Reserves were short by '' @ gap @ u '' '' @ cr_asset kestrel @ u '' at this ledger.''
      \<and> parseAmount gap (cr_decimals kestrel) = Some (dr_owed d - dr_held d)" if "dr_held d < dr_owed d"
    using v(6) [OF that] g [OF that] by blast
  with False share none s v(1-5) show ?thesis by auto
qed

definition demo_plan :: history_plan where
  "demo_plan = \<lparr>hp_latest = hd exampleRecords, hp_latestDate = u ''2026-11-02'', hp_days = 2, hp_shortDays = [0], hp_staleDays = []\<rparr>"

lemma record_pages_honest_witness:
  "\<exists>ds b. buildHistory demo_plan = Inr ds \<and> tr_coverage (day_row (hd exampleRecords) (ds ! 0)) = Some (fixed_digits 2 b @ u ''%'') \<and> b < 10000"
proof -
  let ?n = "make_day (2026, 11, 2)"
  have p: "parse_date (hp_latestDate demo_plan) = Some ?n" "year_start 0 \<le> ?n - int (hp_days demo_plan)"
    by (simp_all only: demo_plan_def history_plan.simps kestrel_latest)
      (simp add: year_start_def numeral_eq_Suc month_length_def)
  note built = buildHistory_entries [OF p]
  then obtain ds where ds: "buildHistory demo_plan = Inr ds" "ds = List.map (day_entry demo_plan (history_date ?n (hp_days demo_plan))) [0..<hp_days demo_plan]"
    by blast
  have d: "Suc 0 < length ds" "dr_owed (ds ! 0) = 24280590000" "dr_held (ds ! 0) = 24134906460"
    by (simp_all add: ds(2) demo_plan_def day_entry_def day_owed_def day_held_def basis_points_def SUPPLY_GROWTH_PER_DAY_def
        exampleRecords_def sdiv_nonneg)
  have "0 \<notin> set (hp_staleDays demo_plan)" by (simp add: demo_plan_def)
  with record_pages_honest [OF p ds(1) d(1) refl, of "day_panel_of (\<lambda>t. t) (hd exampleRecords) (ds ! 0)" "\<lambda>t. t" "hd exampleRecords"
      "day_row (hd exampleRecords) (ds ! 0)"] ds(1) d
  obtain b where "tr_coverage (day_row (hd exampleRecords) (ds ! 0)) = Some (fixed_digits 2 b @ u ''%'')"
    "int b * 24280590000 \<le> 10000 * 24134906460" by auto
  moreover from this(2) have "b < 10000" by simp
  ultimately show ?thesis using ds(1) by blast
qed

text \<open>The ring of the Seal, unlike the percentage, is rounded to the nearest tick: it is full for
  every covered share, and also for the short day of the example history.\<close>

lemma meter_lit_covered: "1 \<le> share \<Longrightarrow> state \<noteq> Stale \<Longrightarrow> meter_lit share state ticks = int ticks"
proof -
  assume "1 \<le> share" "state \<noteq> Stale"
  moreover have "\<lfloor>of_nat ticks + 1 / 2 :: rat\<rfloor> = int ticks" by linarith
  ultimately show ?thesis by (simp add: meter_lit_def round_half_up_def min_def max_def)
qed

lemma seal_short_looks_full: "meter_lit (9940 / 10000) Short 72 = 72"
  by (simp add: meter_lit_def round_half_up_def floor_eq_iff)

lemma surplus_only_covered: "surplus_turn b m = Some t \<Longrightarrow> \<exists>share. m = Meter share Covered \<and> 1 < share \<and> t \<le> 1 / 2"
  by (auto simp: surplus_turn_def split: seal_mode.splits coverage_state.splits if_splits)

text \<open>The auditor's figure of October: one of its days has no ledger.\<close>

lemma kestrel_days:
  assumes "kestrelHistory = Inr ds" "i < 90"
  shows "length ds = 90 \<and> (\<exists>r. kestrelRecord = Inr r \<and> ds ! i = day_entry (kestrel_plan r) (history_date (make_day (2026, 11, 2)) 365) (275 + i))"
proof -
  obtain r where r: "kestrelRecord = Inr r" by (simp add: kestrelRecord_def exampleRecords_def)
  have p: "parse_date (hp_latestDate (kestrel_plan r)) = Some (make_day (2026, 11, 2))"
      "year_start 0 \<le> make_day (2026, 11, 2) - int (hp_days (kestrel_plan r))" "hp_days (kestrel_plan r) = 365"
    by (simp_all only: kestrel_plan_def history_plan.simps kestrel_latest YEAR_DAYS_def)
      (simp add: year_start_def numeral_eq_Suc month_length_def)
  have "ds = drop 275 (List.map (day_entry (kestrel_plan r) (history_date (make_day (2026, 11, 2)) 365)) [0..<365])"
    using assms(1) buildHistory_entries [OF p(1,2)] p(3) by (simp add: kestrelHistory_def kestrelYear_def r HISTORY_DAYS_def)
  then have "length ds = 90" "ds ! i = day_entry (kestrel_plan r) (history_date (make_day (2026, 11, 2)) 365) (275 + i)"
    using assms(2) by simp_all
  with r show ?thesis by blast
qed

lemma october_row_without_ledger:
  assumes "kestrelHistory = Inr ds"
  shows "\<exists>d \<in> set (daysInMonth ds (u ''2026-10'')). dr_state d = Stale \<and> dr_ledger d = None"
proof -
  let ?d = "ds ! 71"
  obtain r where l: "length ds = 90"
    and d: "?d = day_entry (kestrel_plan r) (history_date (make_day (2026, 11, 2)) 365) (275 + 71)"
    using kestrel_days [OF assms, of 71] by auto
  have c: "civil_of (make_day (2026, 11, 2) - int 18) = (2026, 10, 15)"
    using civil_of_make_day [of "(2026, 10, 15)"]
    by (simp add: valid_civil_def month_length_def numeral_eq_Suc leap_year_def)
  have "dr_date ?d = date_text (2026, 10, 15)"
    using c by (simp add: d day_entry_def kestrel_plan_def YEAR_DAYS_def HISTORY_START_def HISTORY_DAYS_def history_date_def
        del: date_text.simps make_day.simps)
  also have "\<dots> = u ''2026-10-15''" by (simp add: year_text_def pad_left_def show_nat.simps u_def)
  finally have "prefix (u ''2026-10'' @ [45]) (dr_date ?d)" by (simp add: u_def)
  moreover have "?d \<in> set ds" using l by simp
  moreover have "dr_state ?d = Stale" "dr_ledger ?d = None"
    by (simp_all add: d day_entry_def kestrel_plan_def YEAR_DAYS_def HISTORY_START_def HISTORY_DAYS_def)
  ultimately show ?thesis by (auto simp: daysInMonth_def)
qed

text \<open>The slider of the checker stays on its track.\<close>

lemma check_track:
  assumes "check_step\<^sup>*\<^sup>* check_start c"
  shows "0 \<le> cp_progress (CoverageCheck c) \<and> cp_progress (CoverageCheck c) \<le> 100"
proof -
  from assms have "MIN_POINTS \<le> cc_basisPoints c \<and> cc_basisPoints c \<le> MAX_POINTS"
  proof induction
    case base
    show ?case by (simp add: check_start_def START_def MIN_POINTS_def MAX_POINTS_def)
  next
    case (step b c)
    from step.hyps(2) step.IH show ?case by cases simp_all
  qed
  then show ?thesis by (simp add: CoverageCheck_def Let_def MIN_POINTS_def MAX_POINTS_def)
qed

lemma check_unknown: "\<not> cc_fresh c \<Longrightarrow> cp_output (CoverageCheck c) = Some (u ''Unknown'')"
  by (simp add: CoverageCheck_def coverage_view_of_def Let_def)

end
