(* ===== verification/Contact.thy ===== *)
theory Contact
  imports Network
begin

text \<open>
  The contact and waitlist forms of the website (apps/website/src/features/contact): field
  schemas and validation (lib/schema.ts), the messages (lib/message.ts), the prefilled values
  (lib/prefill.ts), the mail environment and the mailer (server/env.ts, mailer.ts), the two
  submissions (server/submit.ts, waitlist.ts, actions.ts) and the field bindings
  (hooks/use-submission.ts).  The Resend API and zod's e-mail pattern are the parameters in
  \<open>mail_service\<close>; every call to Resend is an event of the log.
\<close>

section \<open>Forms\<close>

datatype form_value = FText jstr | FFile

type_synonym form_data = "(jstr \<times> form_value) list"

datatype contact_field = FName | FEmail | FOrganisation | FRole | FAsset | FMessage

definition field_name :: "contact_field \<Rightarrow> jstr" where
  "field_name f = (case f of FName \<Rightarrow> u ''name'' | FEmail \<Rightarrow> u ''email'' | FOrganisation \<Rightarrow> u ''organisation''
     | FRole \<Rightarrow> u ''role'' | FAsset \<Rightarrow> u ''asset'' | FMessage \<Rightarrow> u ''message'')"

definition CONTACT_FIELDS :: "contact_field list" where
  "CONTACT_FIELDS = [FName, FEmail, FOrganisation, FRole, FAsset, FMessage]"

definition WAITLIST_FIELDS :: "contact_field list" where
  "WAITLIST_FIELDS = [FEmail, FOrganisation, FRole]"

definition ROLES :: "jstr list" where
  "ROLES = List.map u [''Anchor'', ''Custodial app'', ''Exchange'', ''Wallet'', ''Lending pool'', ''Auditor'', ''Other'']"

definition HONEYPOT_FIELD :: jstr where "HONEYPOT_FIELD = u ''website''"

type_synonym field_values = "(contact_field \<times> jstr) list"

definition form_get :: "form_data \<Rightarrow> jstr \<Rightarrow> jstr" where
  "form_get fd k = (case map_of fd k of Some (FText s) \<Rightarrow> s | _ \<Rightarrow> [])"

definition readFields :: "form_data \<Rightarrow> contact_field list \<Rightarrow> field_values" where
  "readFields fd names = List.map (\<lambda>f. (f, form_get fd (field_name f))) names"

definition isBot :: "form_data \<Rightarrow> bool" where
  "isBot fd \<longleftrightarrow> trim (form_get fd HONEYPOT_FIELD) \<noteq> []"

section \<open>Schemas\<close>

text \<open>\<open>value.replace(/\s+/g, " ")\<close>: every run of white space becomes one space.\<close>

fun squeeze :: "jstr \<Rightarrow> jstr" where
  "squeeze [] = []" |
  "squeeze (c # s) =
     (if is_ws c then (if s \<noteq> [] \<and> is_ws (hd s) then squeeze s else 32 # squeeze s) else c # squeeze s)"

definition normalise :: "jstr \<Rightarrow> jstr" where
  "normalise s = trim (squeeze s)"

text \<open>A field's schema gives its output or the list of its issues, in the order of the checks.\<close>

definition check :: "bool \<Rightarrow> string \<Rightarrow> jstr list" where
  "check failed m = (if failed then [u m] else [])"

definition parse_line :: "string \<Rightarrow> nat \<Rightarrow> string \<Rightarrow> jstr \<Rightarrow> jstr list + jstr" where
  "parse_line missing max_len too_long raw =
     (let v = normalise raw; issues = check (length v < 1) missing @ check (max_len < length v) too_long
      in if issues = [] then Inr v else Inl issues)"

definition parse_email :: "(jstr \<Rightarrow> bool) \<Rightarrow> jstr \<Rightarrow> jstr list + jstr" where
  "parse_email is_email raw =
     (let v = trim raw;
          issues = check (length v < 1) ''Add your work email.'' @ check (320 < length v) ''Keep this under 320 characters.''
            @ check (\<not> is_email v) ''Enter an email address like name@company.com.''
      in if issues = [] then Inr v else Inl issues)"

definition parse_role :: "jstr \<Rightarrow> jstr list + jstr" where
  "parse_role raw = (if raw \<in> set ROLES then Inr raw else Inl [u ''Choose the option that fits you best.''])"

definition parse_asset :: "jstr \<Rightarrow> jstr list + jstr" where
  "parse_asset raw =
     (let v = normalise raw; issues = check (120 < length v) ''Keep this under 120 characters.''
      in if issues = [] then Inr v else Inl issues)"

definition parse_message :: "jstr \<Rightarrow> jstr list + jstr" where
  "parse_message raw =
     (let v = trim raw;
          issues = check (length v < 1) ''Tell us a little about what you need.''
            @ check (5000 < length v) ''Keep this under 5,000 characters.''
      in if issues = [] then Inr v else Inl issues)"

definition field_schema :: "(jstr \<Rightarrow> bool) \<Rightarrow> contact_field \<Rightarrow> jstr \<Rightarrow> jstr list + jstr" where
  "field_schema is_email f =
     (case f of
        FName \<Rightarrow> parse_line ''Add your name.'' 120 ''Keep this under 120 characters.''
      | FEmail \<Rightarrow> parse_email is_email
      | FOrganisation \<Rightarrow> parse_line ''Add your organisation.'' 160 ''Keep this under 160 characters.''
      | FRole \<Rightarrow> parse_role
      | FAsset \<Rightarrow> parse_asset
      | FMessage \<Rightarrow> parse_message)"

datatype validation = Valid field_values | Invalid field_values

text \<open>The object schema parses every field; on failure each failing field keeps its first issue.\<close>

definition validate :: "(jstr \<Rightarrow> bool) \<Rightarrow> field_values \<Rightarrow> validation" where
  "validate is_email values =
     (if \<forall>(f, v) \<in> set values. \<not> isl (field_schema is_email f v)
      then Valid (List.map (\<lambda>(f, v). (f, projr (field_schema is_email f v))) values)
      else Invalid (List.map_filter (\<lambda>(f, v). case field_schema is_email f v of
          Inl (m # _) \<Rightarrow> if m \<noteq> [] then Some (f, m) else None | _ \<Rightarrow> None) values))"

definition field :: "field_values \<Rightarrow> contact_field \<Rightarrow> jstr" where
  "field d f = (case map_of d f of Some v \<Rightarrow> v | None \<Rightarrow> [])"

section \<open>Messages and prefilled values\<close>

definition contactEmail :: jstr where "contactEmail = u ''hello@joinsolva.xyz''"
definition site_url :: jstr where "site_url = u ''https://joinsolva.xyz''"

record outgoing_message =
  om_to :: jstr
  om_subject :: jstr
  om_text :: jstr
  om_replyTo :: jstr

definition contactMessage :: "field_values \<Rightarrow> outgoing_message" where
  "contactMessage d =
     \<lparr>om_to = contactEmail,
      om_subject = u ''Contact: '' @ field d FOrganisation @ u '' ('' @ field d FRole @ u '')'',
      om_text = join [10]
        [u ''Name: '' @ field d FName, u ''Email: '' @ field d FEmail, u ''Organisation: '' @ field d FOrganisation,
         u ''Role: '' @ field d FRole,
         u ''Asset or product: '' @ (if field d FAsset = [] then u ''Not given'' else field d FAsset),
         [], field d FMessage],
      om_replyTo = field d FEmail\<rparr>"

definition waitlistConfirmation :: "field_values \<Rightarrow> outgoing_message" where
  "waitlistConfirmation d =
     \<lparr>om_to = field d FEmail, om_subject = u ''You are on the Solva waitlist'',
      om_text = join [10]
        [u ''Hello,'', [], u ''You are on the Solva waitlist for '' @ field d FOrganisation @ u ''.'', [],
         u ''Publishing a coverage record opens to pilot partners first. We will write to this address when publishing opens to your organisation.'',
         [], u ''If you want to talk about a pilot sooner, reply to this email.'', [], u ''The Solva team'', site_url],
      om_replyTo = contactEmail\<rparr>"

text \<open>A search parameter may be missing, one string or several.\<close>

datatype search_param = Missing | One jstr | Several "jstr list"

definition first_param :: "search_param \<Rightarrow> jstr" where
  "first_param p = (case p of Missing \<Rightarrow> [] | One s \<Rightarrow> s | Several [] \<Rightarrow> [] | Several (s # _) \<Rightarrow> s)"

text \<open>Lower case as far as it can reach a role name: the ASCII letters and the Kelvin sign.\<close>

definition lower :: "jstr \<Rightarrow> jstr" where
  "lower s = List.map (\<lambda>c. if 65 \<le> c \<and> c \<le> 90 then c + 32 else if c = 0x212A then 107 else c) s"

definition readPrefill :: "search_param \<Rightarrow> search_param \<Rightarrow> jstr \<times> jstr" where
  "readPrefill organisation role =
     (let wanted = lower (trim (first_param role)) in
      (take 160 (normalise (first_param organisation)),
       case List.find (\<lambda>r. lower r = wanted) ROLES of Some r \<Rightarrow> r | None \<Rightarrow> []))"

section \<open>The mail service\<close>

record mail_env =
  me_resendApiKey :: "jstr option"
  me_waitlistSegmentId :: "jstr option"

definition optionalSetting :: "jstr option \<Rightarrow> jstr option" where
  "optionalSetting v = (case v of None \<Rightarrow> None | Some s \<Rightarrow> if trim s = [] then None else Some (trim s))"

definition readMailEnv :: "jstr option \<Rightarrow> jstr option \<Rightarrow> mail_env" where
  "readMailEnv apiKey segmentId =
     \<lparr>me_resendApiKey = optionalSetting apiKey, me_waitlistSegmentId = optionalSetting segmentId\<rparr>"

definition MAIL_FROM :: jstr where "MAIL_FROM = u ''Solva <hello@send.joinsolva.xyz>''"

datatype resend_call =
    SendEmail jstr outgoing_message
  | GetContact jstr
  | CreateContact field_values jstr

type_synonym mail_log = "resend_call event list"

text \<open>Resend answers an email or a new contact with the name of an error or none, a lookup with
  whether it carries data and the name of its error; each may also throw.\<close>

record mail_service =
  ms_isEmail :: "jstr \<Rightarrow> bool"
  ms_env :: mail_env
  ms_send :: "mail_log \<Rightarrow> outgoing_message \<Rightarrow> jstr option result"
  ms_get :: "mail_log \<Rightarrow> jstr \<Rightarrow> (bool \<times> jstr option) result"
  ms_create :: "mail_log \<Rightarrow> field_values \<Rightarrow> jstr option result"

type_synonym 'a mail_comp = "(resend_call world, 'a) comp"

definition resend :: "(mail_log \<Rightarrow> 'a result) \<Rightarrow> resend_call \<Rightarrow> 'a mail_comp" where
  "resend answer c = bindM getM (\<lambda>s. bindM (logM (Call c)) (\<lambda>_. liftR (answer (w_log s))))"

lemma resend_eval [comp_simps]: "resend answer c s = (answer (w_log s), s\<lparr>w_log := w_log s @ [Call c]\<rparr>)"
  by (simp add: resend_def logM_def bindM_def comp_eval)

datatype failure_reason = Unconfigured | Delivery

definition send :: "mail_service \<Rightarrow> outgoing_message \<Rightarrow> (failure_reason option) mail_comp" where
  "send ms m =
     catchM (bindM (resend (\<lambda>l. ms_send ms l m) (SendEmail MAIL_FROM m)) (\<lambda>err.
             retM (case err of Some _ \<Rightarrow> Some Delivery | None \<Rightarrow> None)))
       (\<lambda>_. retM (Some Delivery))"

definition deliver :: "mail_service \<Rightarrow> outgoing_message \<Rightarrow> (failure_reason option) mail_comp" where
  "deliver ms m =
     (case me_resendApiKey (ms_env ms) of None \<Rightarrow> retM (Some Unconfigured) | Some _ \<Rightarrow> send ms m)"

section \<open>Submissions\<close>

datatype submission_state =
    Idle
  | InvalidState field_values field_values
  | Failed failure_reason field_values
  | Sent jstr

definition submit ::
  "mail_service \<Rightarrow> contact_field list \<Rightarrow> (field_values \<Rightarrow> outgoing_message) \<Rightarrow> form_data \<Rightarrow> submission_state mail_comp" where
  "submit ms names compose fd =
     (let vals = readFields fd names in
      case validate (ms_isEmail ms) vals of
        Invalid errors \<Rightarrow> retM (InvalidState errors vals)
      | Valid d \<Rightarrow>
          let m = compose d in
          if isBot fd then retM (Sent (om_replyTo m))
          else bindM (deliver ms m) (\<lambda>failure.
               case failure of
                 Some reason \<Rightarrow> retM (Failed reason vals)
               | None \<Rightarrow> retM (Sent (om_replyTo m))))"

definition sendContact :: "mail_service \<Rightarrow> submission_state \<Rightarrow> form_data \<Rightarrow> submission_state mail_comp" where
  "sendContact ms previous fd = submit ms CONTACT_FIELDS contactMessage fd"

datatype listing = Added | Listed | NotAdded

definition ALREADY_LISTED :: jstr where "ALREADY_LISTED = u ''This email is already on the waitlist.''"

definition addToWaitlist :: "mail_service \<Rightarrow> jstr \<Rightarrow> field_values \<Rightarrow> listing mail_comp" where
  "addToWaitlist ms segmentId d =
     catchM
       (bindM (resend (\<lambda>l. ms_get ms l (field d FEmail)) (GetContact (field d FEmail))) (\<lambda>(found, err).
        if found then retM Listed
        else if \<exists>e. err = Some e \<and> e \<noteq> u ''not_found'' then retM NotAdded
        else bindM (resend (\<lambda>l. ms_create ms l d) (CreateContact d segmentId)) (\<lambda>created.
             case created of Some _ \<Rightarrow> retM NotAdded | None \<Rightarrow> retM Added)))
       (\<lambda>_. retM NotAdded)"

definition submitWaitlist :: "mail_service \<Rightarrow> form_data \<Rightarrow> submission_state mail_comp" where
  "submitWaitlist ms fd =
     (let vals = readFields fd WAITLIST_FIELDS in
      case validate (ms_isEmail ms) vals of
        Invalid errors \<Rightarrow> retM (InvalidState errors vals)
      | Valid d \<Rightarrow>
          if isBot fd then retM (Sent (field d FEmail))
          else case (me_resendApiKey (ms_env ms), me_waitlistSegmentId (ms_env ms)) of
              (Some _, Some segmentId) \<Rightarrow>
                bindM (addToWaitlist ms segmentId d) (\<lambda>listing.
                case listing of
                  Listed \<Rightarrow> retM (InvalidState [(FEmail, ALREADY_LISTED)] vals)
                | NotAdded \<Rightarrow> retM (Failed Delivery vals)
                | Added \<Rightarrow> bindM (send ms (waitlistConfirmation d)) (\<lambda>_. retM (Sent (field d FEmail))))
            | _ \<Rightarrow> retM (Failed Unconfigured vals))"

definition joinWaitlist :: "mail_service \<Rightarrow> submission_state \<Rightarrow> form_data \<Rightarrow> submission_state mail_comp" where
  "joinWaitlist ms previous fd = submitWaitlist ms fd"

section \<open>use-submission.ts\<close>

record field_binding =
  fb_id :: jstr
  fb_name :: contact_field
  fb_errorId :: jstr
  fb_error :: "jstr option"
  fb_defaultValue :: jstr
  fb_aria_invalid :: bool
  fb_aria_describedby :: "jstr option"

definition submission_values :: "submission_state \<Rightarrow> field_values \<Rightarrow> field_values" where
  "submission_values st initialValues =
     (case st of InvalidState _ v \<Rightarrow> v | Failed _ v \<Rightarrow> v | _ \<Rightarrow> initialValues)"

definition submission_errors :: "submission_state \<Rightarrow> field_values" where
  "submission_errors st = (case st of InvalidState e _ \<Rightarrow> e | _ \<Rightarrow> [])"

definition bind_field :: "jstr \<Rightarrow> submission_state \<Rightarrow> field_values \<Rightarrow> contact_field \<Rightarrow> field_binding" where
  "bind_field baseId st initialValues name =
     (let i = baseId @ u ''-'' @ field_name name; errorId = i @ u ''-error'';
          err = map_of (submission_errors st) name; shown = (\<exists>m. err = Some m \<and> m \<noteq> [])
      in \<lparr>fb_id = i, fb_name = name, fb_errorId = errorId, fb_error = err,
          fb_defaultValue = field (submission_values st initialValues) name,
          fb_aria_invalid = shown, fb_aria_describedby = (if shown then Some errorId else None)\<rparr>)"

definition errorCount :: "submission_state \<Rightarrow> nat" where
  "errorCount st = length (submission_errors st)"

section \<open>Validated values\<close>

text \<open>What the schemas promise about the output of each field.\<close>

definition single_spaced :: "jstr \<Rightarrow> bool" where
  "single_spaced s \<longleftrightarrow> squeeze s = s \<and> trim s = s"

definition field_ok :: "(jstr \<Rightarrow> bool) \<Rightarrow> contact_field \<Rightarrow> jstr \<Rightarrow> bool" where
  "field_ok is_email f v =
     (case f of
        FName \<Rightarrow> v \<noteq> [] \<and> length v \<le> 120 \<and> single_spaced v
      | FEmail \<Rightarrow> v \<noteq> [] \<and> length v \<le> 320 \<and> is_email v \<and> trim v = v
      | FOrganisation \<Rightarrow> v \<noteq> [] \<and> length v \<le> 160 \<and> single_spaced v
      | FRole \<Rightarrow> v \<in> set ROLES
      | FAsset \<Rightarrow> length v \<le> 120 \<and> single_spaced v
      | FMessage \<Rightarrow> v \<noteq> [] \<and> length v \<le> 5000 \<and> trim v = v)"

lemma squeeze_hd: "squeeze s \<noteq> [] \<longleftrightarrow> s \<noteq> []"
  by (induction s rule: squeeze.induct) auto

lemma squeeze_head_ws: "s \<noteq> [] \<Longrightarrow> is_ws (hd (squeeze s)) \<longleftrightarrow> is_ws (hd s)"
proof (induction s rule: squeeze.induct)
  case (2 c s)
  have "is_ws 32" by (simp add: is_ws_def)
  with 2 show ?case by auto
qed simp

lemma squeeze_squeeze [simp]: "squeeze (squeeze s) = squeeze s"
proof (induction s rule: squeeze.induct)
  case (2 c s)
  have "is_ws 32" by (simp add: is_ws_def)
  with 2 show ?case using squeeze_head_ws [of s] squeeze_hd [of s] by auto
qed simp

text \<open>Squeezed strings: white space is a lone space.  Trimming keeps that.\<close>

fun squeezed :: "jstr \<Rightarrow> bool" where
  "squeezed [] \<longleftrightarrow> True" |
  "squeezed (c # s) \<longleftrightarrow> (is_ws c \<longrightarrow> c = 32) \<and> (s \<noteq> [] \<longrightarrow> \<not> (is_ws c \<and> is_ws (hd s))) \<and> squeezed s"

lemma squeeze_squeezed: "squeezed (squeeze s)"
proof (induction s rule: squeeze.induct)
  case (2 c s)
  then show ?case using squeeze_head_ws [of s] squeeze_hd [of s] by auto
qed simp

lemma squeezed_id: "squeezed s \<Longrightarrow> squeeze s = s"
  by (induction s) auto

lemma squeezed_sublist: "squeezed (xs @ ys @ zs) \<Longrightarrow> squeezed ys"
proof -
  have r: "squeezed (ys @ zs) \<Longrightarrow> squeezed ys"
    by (induction ys) (auto simp: hd_append split: if_splits)
  assume "squeezed (xs @ ys @ zs)"
  then have "squeezed (ys @ zs)" by (induction xs) auto
  with r show ?thesis by blast
qed

lemma trim_sublist: "\<exists>xs zs. s = xs @ trim s @ zs"
proof -
  let ?d = "dropWhile is_ws s"
  have "s = takeWhile is_ws s @ ?d" by simp
  moreover have "?d = trim s @ rev (takeWhile is_ws (rev ?d))"
    by (metis rev_append rev_rev_ident takeWhile_dropWhile_id trim_def)
  ultimately show ?thesis by metis
qed

lemma normalise_single_spaced: "single_spaced (normalise s)"
proof -
  obtain xs zs where "squeeze s = xs @ trim (squeeze s) @ zs" using trim_sublist by blast
  then have "squeezed (trim (squeeze s))" using squeeze_squeezed [of s] squeezed_sublist by metis
  then show ?thesis by (simp add: single_spaced_def normalise_def squeezed_id)
qed

lemma check_simps [simp]: "check b m = [] \<longleftrightarrow> \<not> b"
  by (simp add: check_def)

lemma parse_ok:
  "parse_line m k t raw = Inr v \<Longrightarrow> v \<noteq> [] \<and> length v \<le> k \<and> single_spaced v"
  "parse_email is_email raw = Inr v \<Longrightarrow> v \<noteq> [] \<and> length v \<le> 320 \<and> is_email v \<and> trim v = v"
  "parse_role raw = Inr v \<Longrightarrow> v \<in> set ROLES"
  "parse_asset raw = Inr v \<Longrightarrow> length v \<le> 120 \<and> single_spaced v"
  "parse_message raw = Inr v \<Longrightarrow> v \<noteq> [] \<and> length v \<le> 5000 \<and> trim v = v"
  using normalise_single_spaced [of raw]
  by (auto simp: parse_line_def parse_email_def parse_role_def parse_asset_def parse_message_def Let_def
      simp del: u_eq_iff split: if_splits)

lemma field_schema_ok: "field_schema is_email f raw = Inr v \<Longrightarrow> field_ok is_email f v"
  by (cases f) (auto simp: field_schema_def field_ok_def dest: parse_ok)

lemma validate_Valid:
  assumes "validate is_email vals = Valid d"
  shows "List.map fst d = List.map fst vals" "\<forall>(f, v) \<in> set d. field_ok is_email f v"
proof -
  have ok: "\<forall>(f, v) \<in> set vals. \<not> isl (field_schema is_email f v)"
    and d: "d = List.map (\<lambda>(f, v). (f, projr (field_schema is_email f v))) vals"
    using assms unfolding validate_def by (simp_all split: if_splits)
  show "List.map fst d = List.map fst vals" by (simp add: d case_prod_beta)
  have "field_ok is_email f (projr (field_schema is_email f v))" if "(f, v) \<in> set vals" for f v
    using ok that by (intro field_schema_ok [of is_email f v]) (auto simp: isl_def)
  then show "\<forall>(f, v) \<in> set d. field_ok is_email f v" by (auto simp: d)
qed

lemma field_schema_issue:
  assumes "field_schema is_email f raw = Inl es"
  obtains m ms where "es = m # ms" "m \<noteq> []"
proof -
  have "\<forall>m \<in> set es. m \<noteq> []" and "es \<noteq> []"
    using assms by (cases f; simp add: field_schema_def parse_line_def parse_email_def parse_role_def parse_asset_def
      parse_message_def Let_def check_def split: if_splits; auto)+
  then show ?thesis using that by (cases es) auto
qed

text \<open>A rejected form names exactly the failing fields.\<close>

lemma validate_Invalid:
  assumes "validate is_email vals = Invalid errors"
  shows "fst ` set errors = {f. \<exists>v. (f, v) \<in> set vals \<and> isl (field_schema is_email f v)}" "errors \<noteq> []"
proof -
  let ?g = "\<lambda>(f, v). case field_schema is_email f v of
          Inl (m # _) \<Rightarrow> if m \<noteq> [] then Some (f, m) else None | _ \<Rightarrow> None"
  have e: "errors = List.map_filter ?g vals"
    and some_left: "\<not> (\<forall>(f, v) \<in> set vals. \<not> isl (field_schema is_email f v))"
    using assms unfolding validate_def by (simp_all split: if_splits)
  have g: "(\<exists>m. ?g (f, v) = Some (f, m)) \<longleftrightarrow> isl (field_schema is_email f v)" for f v
  proof (cases "field_schema is_email f v")
    case (Inl es)
    then obtain m ms where "es = m # ms" "m \<noteq> []" by (rule field_schema_issue)
    with Inl show ?thesis by simp
  qed simp
  have fst_g: "?g (f, v) = Some fm \<Longrightarrow> fst fm = f" for f v fm
    by (auto split: sum.splits list.splits if_splits)
  show eq: "fst ` set errors = {f. \<exists>v. (f, v) \<in> set vals \<and> isl (field_schema is_email f v)}" (is "?L = ?R")
  proof (intro set_eqI iffI)
    fix f assume "f \<in> ?L"
    then obtain fm where "fm \<in> set errors" "f = fst fm" by blast
    then obtain f' v where "(f', v) \<in> set vals" "?g (f', v) = Some fm"
      unfolding e List.map_filter_def by auto
    with fst_g \<open>f = fst fm\<close> g [of f' v] show "f \<in> ?R" by (cases fm) force
  next
    fix f assume "f \<in> ?R"
    then obtain v m where "(f, v) \<in> set vals" "?g (f, v) = Some (f, m)" using g by blast
    then have "(f, m) \<in> set errors" unfolding e List.map_filter_def by force
    then show "f \<in> ?L" by force
  qed
  show "errors \<noteq> []" using some_left eq by auto
qed

section \<open>What a submission does\<close>

lemma send_eval [comp_simps]:
  "send ms m s = (Inr (if ms_send ms (w_log s) m = Inr None then None else Some Delivery),
     s\<lparr>w_log := w_log s @ [Call (SendEmail MAIL_FROM m)]\<rparr>)"
  by (simp add: send_def bindM_def catchM_def comp_simps split: sum.splits option.splits)

text \<open>C18: The contact form says what happened.  An invalid form is returned with an error for
  exactly its failing fields and nothing is sent.  A valid one has normalised values (trimmed,
  single-spaced lines within their limits, a listed role, an accepted address).  A bot gets the
  answer of success and no mail goes out; without an API key the failure is reported; otherwise
  exactly one mail goes to the team with the sender as reply address, and success is claimed
  exactly when Resend accepted it, the values being kept for another try when not.\<close>

theorem contact_delivery:
  assumes "sendContact ms previous fd s = (r, s')"
  shows "let vals = readFields fd CONTACT_FIELDS in
    case validate (ms_isEmail ms) vals of
      Invalid errors \<Rightarrow> r = Inr (InvalidState errors vals) \<and> s' = s \<and> errors \<noteq> []
        \<and> fst ` set errors = {f. \<exists>v. (f, v) \<in> set vals \<and> isl (field_schema (ms_isEmail ms) f v)}
    | Valid d \<Rightarrow>
        (\<forall>(f, v) \<in> set d. field_ok (ms_isEmail ms) f v)
        \<and> (let m = contactMessage d in
            om_to m = contactEmail \<and> om_replyTo m = field d FEmail
            \<and> (if isBot fd then r = Inr (Sent (field d FEmail)) \<and> s' = s
               else if me_resendApiKey (ms_env ms) = None then r = Inr (Failed Unconfigured vals) \<and> s' = s
               else s' = s\<lparr>w_log := w_log s @ [Call (SendEmail MAIL_FROM m)]\<rparr>
                 \<and> r = Inr (if ms_send ms (w_log s) m = Inr None then Sent (field d FEmail) else Failed Delivery vals)))"
proof (cases "validate (ms_isEmail ms) (readFields fd CONTACT_FIELDS)")
  case (Valid d)
  have "om_to (contactMessage d) = contactEmail" "om_replyTo (contactMessage d) = field d FEmail"
    by (simp_all add: contactMessage_def)
  with assms Valid validate_Valid(2) [OF Valid] show ?thesis
    by (auto simp: sendContact_def submit_def deliver_def bindM_def comp_simps Let_def split: option.splits if_splits)
next
  case (Invalid errors)
  with assms validate_Invalid [OF Invalid] show ?thesis
    by (simp add: sendContact_def submit_def comp_simps Let_def)
qed

definition demo_mail :: mail_service where
  "demo_mail =
     \<lparr>ms_isEmail = (\<lambda>s. 64 \<in> set s), ms_env = readMailEnv (Some (u ''re_test'')) (Some (u ''seg'')),
      ms_send = (\<lambda>_ _. Inr None), ms_get = (\<lambda>l e. Inr (False, Some (u ''not_found''))), ms_create = (\<lambda>_ _. Inr None)\<rparr>"

definition demo_form :: form_data where
  "demo_form =
     [(u ''name'', FText (u ''Ines'')), (u ''email'', FText (u ''ines@arden.example'')),
      (u ''organisation'', FText (u ''Arden  Pay'')), (u ''role'', FText (u ''Wallet'')), (u ''message'', FText (u ''Hello''))]"

lemma demo_schemas:
  "parse_email (\<lambda>s. 64 \<in> set s) (u ''ines@arden.example'') = Inr (u ''ines@arden.example'')"
  "parse_line m 160 t (u ''Arden  Pay'') = Inr (u ''Arden Pay'')"
  "parse_line m 120 t (u ''Ines'') = Inr (u ''Ines'')"
  "parse_role (u ''Wallet'') = Inr (u ''Wallet'')"
  "parse_message (u ''Hello'') = Inr (u ''Hello'')"
  "parse_asset [] = Inr []"
  by (simp_all add: parse_email_def parse_line_def parse_role_def parse_message_def parse_asset_def Let_def check_def normalise_def
      trim_def u_def is_ws_def ROLES_def)

lemma demo_values:
  "validate (ms_isEmail demo_mail) (readFields demo_form CONTACT_FIELDS) =
     Valid [(FName, u ''Ines''), (FEmail, u ''ines@arden.example''), (FOrganisation, u ''Arden Pay''), (FRole, u ''Wallet''),
       (FAsset, []), (FMessage, u ''Hello'')]"
  "validate (ms_isEmail demo_mail) (readFields demo_form WAITLIST_FIELDS) =
     Valid [(FEmail, u ''ines@arden.example''), (FOrganisation, u ''Arden Pay''), (FRole, u ''Wallet'')]"
  by (simp_all add: validate_def readFields_def CONTACT_FIELDS_def WAITLIST_FIELDS_def form_get_def demo_form_def field_schema_def
      field_name_def demo_mail_def demo_schemas)

lemma demo_sender: "\<not> isBot demo_form" "\<exists>key seg. me_resendApiKey (ms_env demo_mail) = Some key \<and> me_waitlistSegmentId (ms_env demo_mail) = Some seg"
  by (simp add: isBot_def form_get_def demo_form_def HONEYPOT_FIELD_def trim_def)
    (simp add: demo_mail_def readMailEnv_def optionalSetting_def trim_def u_def is_ws_def)

lemma contact_delivery_witness:
  "\<exists>d s'. sendContact demo_mail Idle demo_form \<lparr>w_log = []\<rparr> = (Inr (Sent (u ''ines@arden.example'')), s')
    \<and> w_log s' = [Call (SendEmail MAIL_FROM (contactMessage d))] \<and> field d FOrganisation = u ''Arden Pay''"
proof -
  obtain r s' where run: "sendContact demo_mail Idle demo_form \<lparr>w_log = []\<rparr> = (r, s')"
    by (cases "sendContact demo_mail Idle demo_form \<lparr>w_log = []\<rparr>")
  have sent: "ms_send demo_mail l m = Inr None" for l m by (simp add: demo_mail_def)
  from contact_delivery [OF run] run demo_sender show ?thesis
    by (auto simp: Let_def demo_values sent field_def)
qed

lemma addToWaitlist_eval:
  "addToWaitlist ms seg d s =
    (case ms_get ms (w_log s) (field d FEmail) of
       Inl _ \<Rightarrow> (Inr NotAdded, s\<lparr>w_log := (w_log s @ [Call (GetContact (field d FEmail))])\<rparr>)
     | Inr (True, _) \<Rightarrow> (Inr Listed, s\<lparr>w_log := (w_log s @ [Call (GetContact (field d FEmail))])\<rparr>)
     | Inr (False, err) \<Rightarrow>
         if err \<in> {None, Some (u ''not_found'')}
         then (Inr (if ms_create ms (w_log s @ [Call (GetContact (field d FEmail))]) d = Inr None then Added else NotAdded), s\<lparr>w_log := (w_log s @ [Call (GetContact (field d FEmail))]) @ [Call (CreateContact d seg)]\<rparr>)
         else (Inr NotAdded, s\<lparr>w_log := (w_log s @ [Call (GetContact (field d FEmail))])\<rparr>))"
proof (cases "ms_get ms (w_log s) (field d FEmail)")
  case (Inl x)
  then show ?thesis by (simp add: addToWaitlist_def bindM_def catchM_def comp_simps)
next
  case (Inr found)
  obtain b err where found: "found = (b, err)" by (cases found)
  have created: "bindM (resend (\<lambda>l. ms_create ms l d) (CreateContact d seg)) (\<lambda>created.
           case created of Some _ \<Rightarrow> retM NotAdded | None \<Rightarrow> retM Added) t
      = (case ms_create ms (w_log t) d of Inl x \<Rightarrow> Inl x | Inr None \<Rightarrow> Inr Added | Inr (Some _) \<Rightarrow> Inr NotAdded,
         t\<lparr>w_log := w_log t @ [Call (CreateContact d seg)]\<rparr>)" for t
    by (simp add: bindM_def comp_simps split: sum.split option.split)
  consider b | "\<not> b" "\<exists>e. err = Some e \<and> e \<noteq> u ''not_found''" | "\<not> b" "err = None" | "\<not> b" "err = Some (u ''not_found'')"
    by (cases err) auto
  then show ?thesis
  proof cases
    case 1
    with Inr found show ?thesis by (simp add: addToWaitlist_def bindM_def [of "resend _ (GetContact _)"] catchM_def comp_simps)
  next
    case 2
    with Inr found show ?thesis
      by (auto simp: addToWaitlist_def bindM_def [of "resend _ (GetContact _)"] catchM_def comp_simps)
  next
    case 3
    with Inr found show ?thesis
      by (simp add: addToWaitlist_def bindM_def [of "resend _ (GetContact _)"] catchM_def created comp_simps split: sum.split option.split)
  next
    case 4
    with Inr found show ?thesis
      by (simp add: addToWaitlist_def bindM_def [of "resend _ (GetContact _)"] catchM_def created comp_simps split: sum.split option.split)
  qed
qed

lemma joinWaitlist_eval:
  assumes Valid: "validate (ms_isEmail ms) (readFields fd WAITLIST_FIELDS) = Valid d"
  shows "joinWaitlist ms previous fd s =
     (if isBot fd then (Inr (Sent (field d FEmail)), s)
      else case (me_resendApiKey (ms_env ms), me_waitlistSegmentId (ms_env ms)) of
        (Some _, Some seg) \<Rightarrow>
          (case addToWaitlist ms seg d s of
             (Inr Listed, s1) \<Rightarrow> (Inr (InvalidState [(FEmail, ALREADY_LISTED)] (readFields fd WAITLIST_FIELDS)), s1)
           | (Inr NotAdded, s1) \<Rightarrow> (Inr (Failed Delivery (readFields fd WAITLIST_FIELDS)), s1)
           | (Inr Added, s1) \<Rightarrow> (Inr (Sent (field d FEmail)), snd (send ms (waitlistConfirmation d) s1))
           | (Inl x, s1) \<Rightarrow> (Inl x, s1))
      | _ \<Rightarrow> (Inr (Failed Unconfigured (readFields fd WAITLIST_FIELDS)), s))"
proof (cases "isBot fd \<or> me_resendApiKey (ms_env ms) = None \<or> me_waitlistSegmentId (ms_env ms) = None")
    case True
    with Valid show ?thesis
      by (auto simp: joinWaitlist_def submitWaitlist_def comp_eval Let_def split: option.split)
  next
    case False
    then obtain key seg where env: "\<not> isBot fd" "me_resendApiKey (ms_env ms) = Some key" "me_waitlistSegmentId (ms_env ms) = Some seg"
      by auto
    obtain q s1 where q: "addToWaitlist ms seg d s = (q, s1)" by (cases "addToWaitlist ms seg d s")
    have "bindM (send ms m) (\<lambda>_. retM x) s1 = (Inr x, snd (send ms m s1))" for m and x :: submission_state
      by (simp add: bindM_def comp_simps)
    with Valid env q show ?thesis
      by (cases q; cases "projr q") (simp_all add: joinWaitlist_def submitWaitlist_def bindM_eval comp_eval Let_def)
  qed

text \<open>A complete entry on a configured site: what the list answers decides what is returned and
  what is written.\<close>

lemma joinWaitlist_configured:
  assumes run: "joinWaitlist ms previous fd s = (r, s')" and Valid: "validate (ms_isEmail ms) (readFields fd WAITLIST_FIELDS) = Valid d"
    and env: "\<not> isBot fd" "me_resendApiKey (ms_env ms) = Some key" "me_waitlistSegmentId (ms_env ms) = Some seg"
  shows "let vals = readFields fd WAITLIST_FIELDS; e = field d FEmail; l = w_log s; l1 = l @ [Call (GetContact e)];
      found = ms_get ms l e; absent = (\<exists>err. found = Inr (False, err) \<and> err \<in> {None, Some (u ''not_found'')})
    in (\<exists>err. found = Inr (True, err)) \<and> r = Inr (InvalidState [(FEmail, ALREADY_LISTED)] vals) \<and> w_log s' = l1
      \<or> (\<forall>err. found \<noteq> Inr (True, err)) \<and> \<not> absent \<and> r = Inr (Failed Delivery vals) \<and> w_log s' = l1
      \<or> absent \<and> ms_create ms l1 d \<noteq> Inr None \<and> r = Inr (Failed Delivery vals)
          \<and> w_log s' = l1 @ [Call (CreateContact d seg)]
      \<or> absent \<and> ms_create ms l1 d = Inr None \<and> r = Inr (Sent e)
          \<and> w_log s' = l1 @ [Call (CreateContact d seg), Call (SendEmail MAIL_FROM (waitlistConfirmation d))]"
proof -
  let ?e = "field d FEmail" and ?l = "w_log s"
  let ?l1 = "?l @ [Call (GetContact ?e)]"
  note join = joinWaitlist_eval [OF Valid] and add = addToWaitlist_eval
  show ?thesis
  proof (cases "ms_get ms ?l ?e")
    case (Inl x)
    with run Valid env show ?thesis unfolding join by (auto simp: add Let_def)
  next
    case (Inr found)
    obtain b err where found: "found = (b, err)" by (cases found)
    consider b | "\<not> b" "err \<in> {None, Some (u ''not_found'')}" "ms_create ms ?l1 d = Inr None"
      | "\<not> b" "err \<in> {None, Some (u ''not_found'')}" "ms_create ms ?l1 d \<noteq> Inr None"
      | "\<not> b" "err \<notin> {None, Some (u ''not_found'')}" by blast
    then show ?thesis
      using Inr found run Valid env unfolding join by cases (auto simp: add Let_def comp_simps)
  qed
qed

text \<open>C19: The waitlist lists an address once and never claims more than it did.  Every call goes
  to Resend in the order lookup, creation, confirmation, and each only when the one before
  allowed it: a contact is created only for the address the lookup answered it does not have.
  A sender that is no bot is told "sent" exactly when the contact was created (the confirmation
  mail is best effort), "already on the waitlist" exactly when the lookup found the address, and a
  failure otherwise.  An invalid form causes no call and is returned with its errors; a form with
  the hidden field filled in, the mark of a bot, causes no call either and is answered as if it had
  been sent, so that a bot learns nothing.\<close>

theorem waitlist_lists_once:
  assumes "joinWaitlist ms previous fd s = (r, s')"
  shows "let vals = readFields fd WAITLIST_FIELDS in
    case validate (ms_isEmail ms) vals of
      Invalid errors \<Rightarrow> r = Inr (InvalidState errors vals) \<and> s' = s
    | Valid d \<Rightarrow>
        (let e = field d FEmail; l = w_log s; l1 = l @ [Call (GetContact e)];
             found = ms_get ms l e; absent = (\<exists>err. found = Inr (False, err) \<and> err \<in> {None, Some (u ''not_found'')})
         in if isBot fd then r = Inr (Sent e) \<and> s' = s
            else case (me_resendApiKey (ms_env ms), me_waitlistSegmentId (ms_env ms)) of
              (Some _, Some seg) \<Rightarrow>
                (\<exists>err. found = Inr (True, err)) \<and> r = Inr (InvalidState [(FEmail, ALREADY_LISTED)] vals) \<and> w_log s' = l1
                \<or> (\<forall>err. found \<noteq> Inr (True, err)) \<and> \<not> absent \<and> r = Inr (Failed Delivery vals) \<and> w_log s' = l1
                \<or> absent \<and> ms_create ms l1 d \<noteq> Inr None \<and> r = Inr (Failed Delivery vals)
                    \<and> w_log s' = l1 @ [Call (CreateContact d seg)]
                \<or> absent \<and> ms_create ms l1 d = Inr None \<and> r = Inr (Sent e)
                    \<and> w_log s' = l1 @ [Call (CreateContact d seg), Call (SendEmail MAIL_FROM (waitlistConfirmation d))]
            | _ \<Rightarrow> r = Inr (Failed Unconfigured vals) \<and> s' = s)"
proof (cases "validate (ms_isEmail ms) (readFields fd WAITLIST_FIELDS)")
  case (Invalid errors)
  with assms show ?thesis by (simp add: joinWaitlist_def submitWaitlist_def comp_simps Let_def)
next
  case (Valid d)
  show ?thesis
  proof (cases "isBot fd \<or> me_resendApiKey (ms_env ms) = None \<or> me_waitlistSegmentId (ms_env ms) = None")
    case True
    with assms Valid show ?thesis
      unfolding joinWaitlist_eval [OF Valid] by (auto simp: Let_def split: if_splits option.splits)
  next
    case False
    then obtain key seg where env: "\<not> isBot fd" "me_resendApiKey (ms_env ms) = Some key" "me_waitlistSegmentId (ms_env ms) = Some seg"
      by auto
    from joinWaitlist_configured [OF assms Valid env] show ?thesis using Valid env by (simp add: Let_def)
  qed
qed

lemma waitlist_lists_once_witness:
  "\<exists>d seg s'. joinWaitlist demo_mail Idle demo_form \<lparr>w_log = []\<rparr> = (Inr (Sent (u ''ines@arden.example'')), s')
    \<and> w_log s' = [Call (GetContact (u ''ines@arden.example'')), Call (CreateContact d seg),
        Call (SendEmail MAIL_FROM (waitlistConfirmation d))]"
proof -
  obtain r s' where run: "joinWaitlist demo_mail Idle demo_form \<lparr>w_log = []\<rparr> = (r, s')"
    by (cases "joinWaitlist demo_mail Idle demo_form \<lparr>w_log = []\<rparr>")
  have ms: "ms_get demo_mail l a = Inr (False, Some (u ''not_found''))" "ms_create demo_mail l d = Inr None" for l a d
    by (simp_all add: demo_mail_def)
  from waitlist_lists_once [OF run] run demo_sender show ?thesis
    by (auto simp: Let_def demo_values ms field_def)
qed

end
