(* ===== verification/Site_Nav.thy ===== *)
theory Site_Nav
  imports Dom Record_Pages Contact "HOL-Library.List_Lexorder"
begin

text \<open>
  How the web site hangs together: the routes and the navigation (apps/website/src/config/
  navigation.ts, config/site.ts, config/evidence.ts), the header with its menus, the footer and the
  closing cards (components/layout), the opening of a page, the page that is not found
  (app/not-found.tsx), the site map (app/sitemap.ts) and the redirects of next.config.ts.  Pages are
  \<open>Dom\<close> trees; icons and the drawings of the brand are left out.
\<close>

section \<open>config\<close>

definition routes :: "(string \<times> string) list" where
  "routes =
     [(''home'', ''/''), (''anchors'', ''/anchors''), (''custodialApps'', ''/custodial-apps''), (''howItWorks'', ''/how-it-works''),
      (''coverageRecord'', ''/coverage-record''), (''partners'', ''/partners''), (''trust'', ''/trust''), (''demo'', ''/demo''),
      (''about'', ''/about''), (''blog'', ''/blog''), (''contact'', ''/contact''), (''waitlist'', ''/waitlist''), (''legal'', ''/legal'')]"

definition route :: "string \<Rightarrow> jstr" where
  "route k = (case map_of routes k of Some p \<Rightarrow> u p | None \<Rightarrow> [])"

definition site_origin :: string where "site_origin = ''https://joinsolva.xyz''"
definition docsUrl :: string where "docsUrl = ''https://docs.joinsolva.xyz''"
definition githubUrl :: string where "githubUrl = ''https://github.com/jes-labs/solva''"
definition xUrl :: string where "xUrl = ''https://x.com/joinsolva''"

record verifier_evidence =
  ve_network :: jstr
  ve_contractId :: jstr
  ve_wasmHash :: jstr
  ve_verifyTx :: jstr
  ve_verifiedAtLedger :: int
  ve_feeStroops :: int
  ve_feeXlm :: jstr
  ve_protocol :: nat

definition verifierEvidence :: verifier_evidence where
  "verifierEvidence =
     \<lparr>ve_network = u ''Testnet'', ve_contractId = u ''CA3KQYYAGUEIURJSB5CSWVMNIY2FF2EG3YTM7SBBRSN7DQWZXCCXWXN3'',
      ve_wasmHash = u ''f271e16470a46b30eb9ab9f450b510202b5fcdb09e0ee68bbec1429ebc5e3c6f'',
      ve_verifyTx = u ''de9c70fcf69d9327eef127c9260993ac9551a3b42bc901d9910188b8fded2901'',
      ve_verifiedAtLedger = 3191042, ve_feeStroops = 122514, ve_feeXlm = u ''0.0122514'', ve_protocol = 27\<rparr>"

definition SITE_EXPLORER :: string where "SITE_EXPLORER = ''https://stellar.expert/explorer/testnet''"

definition explorer_contract :: "jstr \<Rightarrow> jstr" where "explorer_contract i = u SITE_EXPLORER @ u ''/contract/'' @ i"
definition explorer_tx :: "jstr \<Rightarrow> jstr" where "explorer_tx h = u SITE_EXPLORER @ u ''/tx/'' @ h"
definition explorer_account :: "jstr \<Rightarrow> jstr" where "explorer_account i = u SITE_EXPLORER @ u ''/account/'' @ i"

definition shortHash :: "jstr \<Rightarrow> nat \<Rightarrow> nat \<Rightarrow> jstr" where
  "shortHash value head_len tail_len =
     (if length value \<le> head_len + tail_len + 1 then value
      else take head_len value @ [0x2026] @ (if tail_len = 0 then value else drop (length value - tail_len) value))"

record nav_link =
  nl_label :: jstr
  nl_href :: jstr
  nl_description :: "jstr option"
  nl_external :: bool

type_synonym nav_group = "jstr \<times> nav_link list"

definition inner_link :: "string \<Rightarrow> string \<Rightarrow> string option \<Rightarrow> nav_link" where
  "inner_link l k d = \<lparr>nl_label = u l, nl_href = route k, nl_description = map_option u d, nl_external = False\<rparr>"

definition outer_link :: "string \<Rightarrow> string \<Rightarrow> nav_link" where
  "outer_link l h = \<lparr>nl_label = u l, nl_href = u h, nl_description = None, nl_external = True\<rparr>"

definition headerGroups :: "nav_group list" where
  "headerGroups =
     [(u ''Solutions'',
       [inner_link ''For anchors'' ''anchors'' (Some ''Show holders and partners that your token is backed.''),
        inner_link ''For custodial apps'' ''custodialApps'' (Some ''Prove your reserves cover what you owe customers, and let each one check.''),
        inner_link ''For partners'' ''partners'' (Some ''Wallets, lending pools and auditors read coverage for free.'')]),
      (u ''Product'',
       [inner_link ''How it works'' ''howItWorks'' (Some ''From your reserves to a public record, in five steps.''),
        inner_link ''The coverage record'' ''coverageRecord'' (Some ''What your holders, partners and auditors see.''),
        inner_link ''See it work'' ''demo'' (Some ''Run a real proof against Stellar Testnet, step by step.'')]),
      (u ''Company'',
       [inner_link ''About'' ''about'' (Some ''Why Solva exists and how it is run.''),
        inner_link ''Trust'' ''trust'' (Some ''What a record proves, what it does not, and where the product stands.''),
        inner_link ''Blog'' ''blog'' (Some ''Notes from the team on reserves and coverage.'')])]"

definition docsLink :: nav_link where "docsLink = outer_link ''Docs'' docsUrl"

definition footerColumns :: "nav_group list" where
  "footerColumns =
     [(u ''Solutions'',
       [inner_link ''For anchors'' ''anchors'' None, inner_link ''For custodial apps'' ''custodialApps'' None,
        inner_link ''For partners'' ''partners'' None]),
      (u ''Product'',
       [inner_link ''How it works'' ''howItWorks'' None, inner_link ''The coverage record'' ''coverageRecord'' None,
        inner_link ''See it work'' ''demo'' None, inner_link ''Join the waitlist'' ''waitlist'' None]),
      (u ''Company'',
       [inner_link ''About'' ''about'' None, inner_link ''Trust'' ''trust'' None, inner_link ''Blog'' ''blog'' None,
        inner_link ''Contact'' ''contact'' None]),
      (u ''Resources'',
       [outer_link ''Documentation'' docsUrl, outer_link ''GitHub'' githubUrl, outer_link ''X'' xUrl,
        inner_link ''Legal'' ''legal'' None])]"

section \<open>The header and its menus\<close>

definition link_to :: "jstr \<Rightarrow> dom list \<Rightarrow> dom" where
  "link_to href content = El ''a'' [(''href'', href)] content"

text \<open>A link of a menu closes the popover it names when it is pressed.\<close>

definition PopoverLink :: "jstr \<Rightarrow> jstr \<Rightarrow> dom list \<Rightarrow> dom" where
  "PopoverLink popoverId href content = El ''a'' [(''href'', href), (''popover-id'', popoverId)] content"

fun dash_spaces :: "jstr \<Rightarrow> jstr" where
  "dash_spaces [] = []" |
  "dash_spaces (c # cs) =
     (if is_ws c then (case cs of [] \<Rightarrow> [45] | d # _ \<Rightarrow> if is_ws d then dash_spaces cs else 45 # dash_spaces cs)
      else c # dash_spaces cs)"

definition menuId :: "jstr \<Rightarrow> jstr" where
  "menuId label = u ''menu-'' @ dash_spaces (label_lower label)"

definition StateStamp :: "coverage_state \<Rightarrow> jstr option \<Rightarrow> dom" where
  "StateStamp state label =
     El ''span'' [] [El (if state = Short then ''svg'' else ''span'') [(''aria-hidden'', u ''true'')] [],
       Txt (case label of Some l \<Rightarrow> l | None \<Rightarrow> stateLabel state)]"

definition latest_record :: coverage_record where "latest_record = hd exampleRecords"

definition menu_note :: "nav_link \<Rightarrow> dom list" where
  "menu_note l =
     (case nl_description l of Some d \<Rightarrow> if d = [] then [] else [El ''span'' [] [Txt d]] | None \<Rightarrow> [])"

definition menu_panel :: "nav_group \<Rightarrow> dom" where
  "menu_panel g =
     El ''div'' [(''id'', menuId (fst g)), (''popover'', u ''auto'')]
       [El ''div'' []
         (List.map (\<lambda>l. PopoverLink (menuId (fst g)) (nl_href l)
             ([El ''span'' [(''aria-hidden'', u ''true'')] [], El ''span'' [] [Txt (nl_label l)]] @ menu_note l)) (snd g)
          @ [PopoverLink (menuId (fst g)) (route ''coverageRecord'')
               [El ''span'' [] [tx ''Example record '', Txt [0xB7, 32], Txt (cr_asset latest_record)],
                El ''span'' []
                  [El ''span'' []
                     [El ''span'' [] [Txt (case coveragePercent (cr_owed latest_record) (cr_held latest_record) of Some p \<Rightarrow> p | None \<Rightarrow> [])],
                      El ''span'' [] [Txt (cr_institution latest_record)]],
                   StateStamp (cr_state latest_record) None]]])]"

definition DesktopNav :: dom where
  "DesktopNav =
     El ''ul'' []
       (List.map (\<lambda>g. El ''li'' []
          [El ''button'' [(''type'', u ''button''), (''popovertarget'', menuId (fst g))] [Txt (fst g)], menu_panel g]) headerGroups)"

definition MENU_ID :: jstr where "MENU_ID = u ''mobile-menu''"

definition BrandLockup :: dom where "BrandLockup = El ''svg'' [] []"

definition MobileMenu :: "dom list" where
  "MobileMenu =
     [El ''button'' [(''type'', u ''button''), (''popovertarget'', MENU_ID), (''aria-label'', u ''Open menu'')] [],
      El ''div'' [(''id'', MENU_ID), (''popover'', u ''auto''), (''aria-label'', u ''Menu''), (''data-lenis-prevent'', u ''true'')]
        [El ''div'' []
           [El ''a'' [(''href'', route ''home''), (''aria-label'', u ''Solva home'')] [BrandLockup],
            El ''button'' [(''type'', u ''button''), (''popovertarget'', MENU_ID), (''popovertargetaction'', u ''hide''),
              (''aria-label'', u ''Close menu'')] []],
         El ''nav'' [(''aria-label'', u ''Mobile'')]
           (List.map (\<lambda>g. El ''section'' [(''aria-label'', fst g)]
              [El ''p'' [] [Txt (fst g)],
               El ''ul'' [] (List.map (\<lambda>l. El ''li'' [] [PopoverLink MENU_ID (nl_href l) [Txt (nl_label l)]]) (snd g))]) headerGroups
            @ [link_to (nl_href docsLink) [Txt (nl_label docsLink)]]),
         El ''div'' []
           [PopoverLink MENU_ID (route ''contact'') [tx ''Talk to us''], PopoverLink MENU_ID (route ''waitlist'') [tx ''Waitlist'']]]]"

definition SiteHeader :: dom where
  "SiteHeader =
     El ''header'' []
       [El ''div'' []
         [El ''a'' [(''href'', route ''home''), (''aria-label'', u ''Solva home'')] [BrandLockup],
          El ''nav'' [(''aria-label'', u ''Main'')] [DesktopNav, link_to (nl_href docsLink) [Txt (nl_label docsLink)]],
          El ''div'' []
            ([El ''button'' [(''aria-label'', u ''Switch between light and dark mode'')] [],
              link_to (route ''waitlist'') [tx ''Waitlist''], link_to (route ''contact'') [tx ''Talk to us'']] @ MobileMenu)]]"

text \<open>The popovers: at most one of the menus is open, a trigger toggles or hides it, and a link of a menu
  hides the popover it names.\<close>

definition press_target :: "jstr \<Rightarrow> bool \<Rightarrow> jstr option \<Rightarrow> jstr option" where
  "press_target target hide opened = (if opened = Some target then None else if hide then opened else Some target)"

definition press_popover_link :: "jstr \<Rightarrow> jstr option \<Rightarrow> jstr option" where
  "press_popover_link popoverId opened = (if opened = Some popoverId then None else opened)"

section \<open>The footer and the closing cards\<close>

record evidence_item =
  ev_label :: jstr
  ev_value :: jstr
  ev_href :: "jstr option"

definition EVIDENCE :: "evidence_item list" where
  "EVIDENCE =
     [\<lparr>ev_label = u ''Verifier contract'', ev_value = shortHash (ve_contractId verifierEvidence) 10 6,
       ev_href = Some (explorer_contract (ve_contractId verifierEvidence))\<rparr>,
      \<lparr>ev_label = u ''Verified proof'',
       ev_value = shortHash (ve_verifyTx verifierEvidence) 8 6 @ [32, 0xB7, 32] @ u ''ledger '' @ locale_int (ve_verifiedAtLedger verifierEvidence),
       ev_href = Some (explorer_tx (ve_verifyTx verifierEvidence))\<rparr>,
      \<lparr>ev_label = u ''Fee per verification'', ev_value = ve_feeXlm verifierEvidence @ u '' XLM'', ev_href = None\<rparr>,
      \<lparr>ev_label = u ''Network'',
       ev_value = u ''Stellar '' @ ve_network verifierEvidence @ [32, 0xB7, 32] @ u ''protocol '' @ show_nat (ve_protocol verifierEvidence),
       ev_href = None\<rparr>]"

definition SOCIAL :: "(jstr \<times> jstr) list" where
  "SOCIAL = [(u ''Solva on X'', u xUrl), (u ''Solva on GitHub'', u githubUrl)]"

definition YEAR :: nat where "YEAR = 2026"

definition SiteFooter :: dom where
  "SiteFooter =
     El ''footer'' []
       [El ''div'' []
         [El ''div'' []
            [El ''div'' []
               [BrandLockup,
                El ''p'' [] [tx ''A public record that the reserves of an anchor or custodial app on Stellar cover what it owes, checked by a contract on Stellar. Live on Testnet; daily publishing coming soon.''],
                El ''ul'' [] (List.map (\<lambda>(l, h). El ''li'' [] [El ''a'' [(''href'', h), (''aria-label'', l)] []]) SOCIAL)],
             El ''div'' []
               (List.map (\<lambda>g. El ''div'' []
                  [El ''h2'' [] [Txt (fst g)],
                   El ''ul'' [] (List.map (\<lambda>l. El ''li'' [] [link_to (nl_href l) [Txt (nl_label l)]]) (snd g))]) footerColumns)],
          El ''dl'' []
            (List.map (\<lambda>e. El ''div'' []
               [El ''dt'' [] [Txt (ev_label e)],
                El ''dd'' [] [case ev_href e of Some h \<Rightarrow> link_to h [Txt (ev_value e)] | None \<Rightarrow> Txt (ev_value e)]]) EVIDENCE),
          El ''div'' [] [El ''div'' [(''data-reveal'', u ''true'')] []],
          El ''div'' []
            [El ''p'' [] [tx ''Built by the Solva team. Open source under Apache 2.0.''],
             El ''div'' []
               [El ''span'' [] [Txt ([0xA9, 32] @ show_nat YEAR @ u '' Solva. All rights reserved.'')],
                link_to (route ''legal'') [tx ''Terms and privacy'']]]]]"

record close_card =
  cl_label :: jstr
  cl_title :: jstr
  cl_body :: jstr
  cl_action :: "jstr \<times> jstr"

text \<open>The fields a page may replace; what is missing keeps its default.\<close>

record close_patch =
  cp_label :: "jstr option"
  cp_title :: "jstr option"
  cp_body :: "jstr option"
  cp_action :: "(jstr \<times> jstr) option"

definition DEFAULT_INSTITUTIONS :: close_card where
  "DEFAULT_INSTITUTIONS =
     \<lparr>cl_label = u ''For institutions'', cl_title = u ''Put an asset on the record.'',
      cl_body = u ''Tell us which asset you issue or hold for customers. We plan a pilot with you and publish your first record together.'',
      cl_action = (u ''Talk to us'', route ''contact'')\<rparr>"

definition DEFAULT_READERS :: close_card where
  "DEFAULT_READERS =
     \<lparr>cl_label = u ''For readers'', cl_title = u ''Read a record.'',
      cl_body = u ''See what a holder, a wallet, a lending pool or an auditor sees, and how one record answers the question each of them asks.'',
      cl_action = (u ''The coverage record'', route ''coverageRecord'')\<rparr>"

definition or_default :: "'a option \<Rightarrow> 'a \<Rightarrow> 'a" where
  "or_default x d = (case x of Some y \<Rightarrow> y | None \<Rightarrow> d)"

definition patch_card :: "close_card \<Rightarrow> close_patch option \<Rightarrow> close_card" where
  "patch_card d patch =
     (case patch of None \<Rightarrow> d
      | Some p \<Rightarrow> \<lparr>cl_label = or_default (cp_label p) (cl_label d), cl_title = or_default (cp_title p) (cl_title d),
                   cl_body = or_default (cp_body p) (cl_body d), cl_action = or_default (cp_action p) (cl_action d)\<rparr>)"

definition Close :: "close_patch option \<Rightarrow> close_patch option \<Rightarrow> dom" where
  "Close institutions readers =
     El ''section'' [(''aria-label'', u ''Next steps'')]
       [El ''div'' [(''data-rows'', u ''true'')]
         (List.map (\<lambda>c. El ''div'' []
            [El ''div'' [] [El ''p'' [] [Txt (cl_label c)], El ''h2'' [] [Txt (cl_title c)], El ''p'' [] [Txt (cl_body c)]],
             link_to (snd (cl_action c)) [Txt (fst (cl_action c))]])
            [patch_card DEFAULT_INSTITUTIONS institutions, patch_card DEFAULT_READERS readers])]"

section \<open>The closing cards of the pages\<close>

text \<open>A page may send its readers to the contact form with a role filled in.\<close>

definition contactHref :: "string \<Rightarrow> jstr" where
  "contactHref query = route ''contact'' @ u ''?role='' @ u query"

definition anchors_card :: close_patch where
  "anchors_card =
     \<lparr>cp_label = Some (u ''For anchors''), cp_title = Some (u ''Put your reserves on the record.''),
      cp_body = Some (u ''Tell us which token you issue and we will plan a pilot around it, from the first reserve account to the first public record.''),
      cp_action = Some (u ''Talk to us'', contactHref ''Anchor'')\<rparr>"

definition custodial_card :: close_patch where
  "custodial_card =
     \<lparr>cp_label = Some (u ''For custodial apps''), cp_title = Some (u ''Prove it to every customer.''),
      cp_body = Some (u ''Tell us which assets you hold for customers and we will plan a pilot around them, with the customer check built in from day one.''),
      cp_action = Some (u ''Talk to us'', contactHref ''Custodial%20app'')\<rparr>"

definition partners_cards :: "close_patch \<times> close_patch" where
  "partners_cards =
     (\<lparr>cp_label = Some (u ''For readers''), cp_title = Some (u ''Build coverage into your product.''),
       cp_body = Some (u ''Tell us what you want to read and where you want to show it. We will help you wire it in.''),
       cp_action = Some (u ''Read the docs'', u docsUrl)\<rparr>,
      \<lparr>cp_label = Some (u ''For institutions''), cp_title = Some (u ''Put an asset on the record.''),
       cp_body = Some (u ''Tell us which asset you issue or hold for customers. We plan a pilot with you and publish your first record together.''),
       cp_action = Some (u ''Talk to us'', contactHref ''Partner'')\<rparr>)"

definition demo_card :: close_patch where
  "demo_card =
     \<lparr>cp_label = None, cp_title = Some (u ''Run this on your own reserves.''),
      cp_body = Some (u ''Pilots are open to anchors and custodial apps on Stellar. Tell us about your asset and we will plan your first real record with you.''),
      cp_action = None\<rparr>"

definition trust_card :: close_patch where
  "trust_card =
     \<lparr>cp_label = Some (u ''For auditors''), cp_title = Some (u ''Evidence for the audit file.''),
      cp_body = Some (u ''Read a record the way an auditor would: the ledger, the proof and the verifier. Daily history and a CSV export for the audit file are coming soon.''),
      cp_action = Some (u ''The coverage record'', route ''coverageRecord'')\<rparr>"

definition record_card :: close_patch where
  "record_card =
     \<lparr>cp_label = None, cp_title = Some (u ''Watch a record being made.''),
      cp_body = Some (u ''Run the pipeline against Stellar Testnet and watch the contract check the proof before the record is written.''),
      cp_action = Some (u ''See it work'', route ''demo'')\<rparr>"

text \<open>The pages that close with the two cards, by the name of their route, and what they replace.\<close>

definition page_closes :: "(string \<times> dom) list" where
  "page_closes =
     [(''home'', Close None None), (''howItWorks'', Close None None), (''about'', Close None None), (''blog'', Close None None),
      (''waitlist'', Close None None), (''anchors'', Close (Some anchors_card) None), (''custodialApps'', Close (Some custodial_card) None),
      (''partners'', Close (Some (fst partners_cards)) (Some (snd partners_cards))), (''demo'', Close (Some demo_card) None),
      (''trust'', Close None (Some trust_card)), (''coverageRecord'', Close None (Some record_card))]"

text \<open>An address is a path and, after a question mark, a query.  What the contact page reads of its
  \<open>role\<close> parameter is decoded: a plus is a space, and a percent sign starts a byte in two digits.\<close>

definition link_path :: "jstr \<Rightarrow> jstr" where
  "link_path h = takeWhile (\<lambda>c. c \<noteq> 63) h"

definition hex_value :: "nat \<Rightarrow> nat" where
  "hex_value c = (if c \<le> 57 then c - 48 else if c \<le> 70 then c - 55 else c - 87)"

fun query_decode :: "jstr \<Rightarrow> jstr" where
  "query_decode (c # a # b # s) =
     (if c = 37 then (16 * hex_value a + hex_value b) # query_decode s
      else (if c = 43 then 32 else c) # query_decode (a # b # s))" |
  "query_decode (c # s) = (if c = 43 then 32 else c) # query_decode s" |
  "query_decode [] = []"

definition role_param :: "jstr \<Rightarrow> search_param" where
  "role_param h =
     (let q = drop (Suc (length (link_path h))) h in
      if prefix (u ''role='') q then One (query_decode (drop 5 q)) else Missing)"

section \<open>The opening of a page and the page that is not found\<close>

definition Provenance :: "dom list \<Rightarrow> dom" where
  "Provenance parts =
     El ''p'' [] (List.map (\<lambda>(i, p). El ''span'' []
        ((if 0 < i then [El ''span'' [(''aria-hidden'', u ''true'')] [Txt [0xB7]]] else []) @ [p])) (enumerate 0 parts))"

text \<open>components/ui/ledger: the parts pages are built of.\<close>

definition opt_attr :: "string \<Rightarrow> jstr option \<Rightarrow> (string \<times> jstr) list" where
  "opt_attr k v = (case v of Some x \<Rightarrow> [(k, x)] | None \<Rightarrow> [])"

definition Chapter :: "jstr option \<Rightarrow> jstr option \<Rightarrow> jstr option \<Rightarrow> dom list \<Rightarrow> dom" where
  "Chapter ident index labelledBy content =
     El ''section'' (opt_attr ''id'' ident @ opt_attr ''aria-labelledby'' labelledBy)
       ((case index of Some i \<Rightarrow> if i = [] then [] else [El ''span'' [(''aria-hidden'', u ''true'')] [Txt i]] | None \<Rightarrow> [])
        @ [El ''div'' [] content])"

definition ChapterHead :: "jstr \<Rightarrow> jstr option \<Rightarrow> jstr \<Rightarrow> jstr option \<Rightarrow> dom" where
  "ChapterHead ident label title lead =
     El ''div'' [(''data-reveal'', u ''true'')]
       ((case label of Some l \<Rightarrow> if l = [] then [] else [El ''p'' [] [Txt l]] | None \<Rightarrow> [])
        @ [El ''h2'' [(''id'', ident)] [Txt title]]
        @ (case lead of Some l \<Rightarrow> if l = [] then [] else [El ''p'' [] [Txt l]] | None \<Rightarrow> []))"

definition Ruled :: "bool \<Rightarrow> dom list \<Rightarrow> dom" where
  "Ruled marks content =
     El ''div'' ((''data-reveal'', u ''true'') # (if marks then [(''class'', u ''ruled-marks'')] else [])) content"

definition RuledGrid :: "dom list \<Rightarrow> dom" where
  "RuledGrid content = El ''div'' [(''data-rows'', u ''true''), (''class'', u ''ruled-grid'')] content"

definition Cell :: "dom \<Rightarrow> dom \<Rightarrow> dom option \<Rightarrow> dom" where
  "Cell label value note =
     El ''div'' [] ([El ''p'' [] [label], El ''p'' [] [value]] @ (case note of Some n \<Rightarrow> [El ''p'' [] [n]] | None \<Rightarrow> []))"

definition LeaderRow :: "dom \<Rightarrow> dom \<Rightarrow> dom" where
  "LeaderRow label value =
     El ''div'' [] [El ''span'' [] [label], El ''span'' [(''aria-hidden'', u ''true'')] [], El ''span'' [] [value]]"

definition SealInstrument :: "seal_mode \<Rightarrow> nat option \<Rightarrow> bool \<Rightarrow> jstr option \<Rightarrow> dom list \<Rightarrow> dom" where
  "SealInstrument mode ticks default_size title content =
     (let n = seal_ticks ticks default_size mode;
          line = (\<lambda>i. let style = tickStyle mode i n in
             El ''line'' ((''class'', u ''gauge-tick '' @ ti_class style)
               # (if ti_dashed style then [(''stroke-dasharray'', u ''2 2.5'')] else [])) [])
      in El ''div'' [(''data-seal'', u ''true'')]
           (El ''svg'' (case title of Some t \<Rightarrow> [(''role'', u ''img'')] | None \<Rightarrow> [(''aria-hidden'', u ''true'')])
              ((case title of Some t \<Rightarrow> [El ''title'' [] [Txt t]] | None \<Rightarrow> []) @ [El ''g'' [] (List.map line [0..<n])]
               @ (if surplus_turn default_size mode = None then [] else [El ''path'' [] []]))
            # [El ''div'' [] content]))"

record page_opening =
  po_label :: jstr
  po_title :: jstr
  po_lead :: jstr
  po_primary :: "(jstr \<times> jstr) option"
  po_secondary :: "(jstr \<times> jstr) option"
  po_figure :: "dom option"
  po_provenance :: "dom list option"
  po_titleId :: jstr

definition PageOpening :: "page_opening \<Rightarrow> dom" where
  "PageOpening o' =
     (let action = (\<lambda>x. case x of Some (l, h) \<Rightarrow> [link_to h [Txt l]] | None \<Rightarrow> []) in
      El ''section'' [(''aria-labelledby'', po_titleId o')]
        ([El ''p'' [] [Txt (po_label o')],
          El ''div'' []
            (El ''div'' []
               ([El ''h1'' [(''id'', po_titleId o')] [Txt (po_title o')], El ''p'' [] [Txt (po_lead o')]]
                @ (if po_primary o' \<noteq> None \<or> po_secondary o' \<noteq> None
                   then [El ''div'' [] (action (po_primary o') @ action (po_secondary o'))] else []))
             # (case po_figure o' of Some f \<Rightarrow> [El ''div'' [(''data-reveal'', u ''true'')] [f]] | None \<Rightarrow> []))]
         @ (case po_provenance o' of Some ps \<Rightarrow> [El ''div'' [(''data-reveal'', u ''true'')] [Provenance ps]] | None \<Rightarrow> [])))"

definition DESTINATIONS :: "(string \<times> string \<times> string) list" where
  "DESTINATIONS =
     [(''Home'', ''What Solva records, who reads it, and how a result is proven on Stellar.'', ''home''),
      (''For anchors'', ''Show holders and partners that your token is backed, checked by a contract on Stellar.'', ''anchors''),
      (''For custodial apps'', ''Prove your reserves cover what you owe customers, and let each one check that their balance was counted.'', ''custodialApps''),
      (''Contact'', ''Write to the team about a pilot for your asset. A person reads every message and replies.'', ''contact'')]"

definition MissingRecord :: dom where
  "MissingRecord =
     El ''article'' [(''aria-label'', u ''No record at this address''), (''class'', u ''ruled-marks'')]
       [El ''header'' []
          [El ''div'' [] [El ''p'' [] [tx ''joinsolva.xyz''], El ''p'' [] [tx ''This address'']], StateStamp Stale (Some (u ''No record''))],
        El ''div'' []
          [SealInstrument (Meter 0 Stale) None False None [El ''span'' [] [tx ''404'']],
           El ''dl'' []
             [El ''div'' [] [El ''dt'' [] [tx ''Published''], El ''dd'' [] [tx ''Never'']],
              El ''div'' [] [El ''dt'' [] [tx ''Last proof''], El ''dd'' [] [tx ''None'']]]],
        Provenance [tx ''No ledger'', tx ''No date'', tx ''Nothing to verify'']]"

definition NotFound :: "dom list" where
  "NotFound =
     [PageOpening
        \<lparr>po_label = u ''Page not found'', po_title = u ''This page is not on the record.'',
         po_lead = u ''Nothing is published at this address. The page may have moved when the site was rebuilt, or the link has a typo.'',
         po_primary = Some (u ''Back to the home page'', route ''home''), po_secondary = None, po_figure = Some MissingRecord,
         po_provenance = None, po_titleId = u ''page-title''\<rparr>,
      Chapter None None (Some (u ''destinations-title''))
        [ChapterHead (u ''destinations-title'') (Some (u ''Where to go'')) (u ''Where to go instead.'')
           (Some (u ''Most old addresses forward to their new page on their own. If a link from another site brought you here, one of these pages holds what it pointed to.'')),
         El ''ul'' []
           (List.map (\<lambda>(l, n, k). El ''li'' []
              [link_to (route k) [El ''span'' [] [tx l], El ''span'' [] [tx n]]]) DESTINATIONS)]]"

section \<open>app/layout.tsx, app/sitemap.ts and next.config.ts\<close>

definition RootLayout :: "dom list \<Rightarrow> dom" where
  "RootLayout page =
     El ''body'' []
       [link_to (u ''#main'') [tx ''Skip to content''], SiteHeader,
        El ''main'' [(''id'', u ''main''), (''tabindex'', u ''-1'')] page, SiteFooter,
        El ''button'' [(''aria-label'', u ''Back to top'')] []]"

record site_entry =
  se_url :: jstr
  se_changeFrequency :: jstr
  se_priority :: rat

definition postPaths :: "jstr list \<Rightarrow> jstr list" where
  "postPaths slugs = sort (List.map (\<lambda>s. route ''blog'' @ u ''/'' @ s) slugs)"

definition sitemap :: "jstr list \<Rightarrow> site_entry list" where
  "sitemap slugs =
     List.map (\<lambda>path.
         \<lparr>se_url = (if path = u ''/'' then u site_origin else u site_origin @ path),
          se_changeFrequency = (if prefix (route ''blog'') path then u ''weekly'' else u ''monthly''),
          se_priority = (if path = u ''/'' then 1 else 7 / 10)\<rparr>)
       (List.map (\<lambda>(k, p). u p) routes @ postPaths slugs)"

definition redirects :: "(string \<times> string) list" where
  "redirects =
     [(''/solutions'', ''/anchors''), (''/pricing'', ''/contact''), (''/request-a-demo'', ''/contact''),
      (''/status'', ''/coverage-record''), (''/sandbox'', ''/demo''), (''/developers'', ''/partners''),
      (''/solvency-oracle'', ''/partners''), (''/security'', ''/trust''), (''/research'', ''/blog''),
      (''/blog/merkle-sum-tree-in-noir'', ''/blog/why-no-balance-can-be-left-out''),
      (''/blog/telling-a-regulator-one-number'', ''/blog/telling-a-supervisor-one-number'')]"

section \<open>Every link leads somewhere\<close>

lemma route_simps [simp]:
  "route ''home'' = u ''/''" "route ''anchors'' = u ''/anchors''" "route ''custodialApps'' = u ''/custodial-apps''"
  "route ''howItWorks'' = u ''/how-it-works''" "route ''coverageRecord'' = u ''/coverage-record''" "route ''partners'' = u ''/partners''"
  "route ''trust'' = u ''/trust''" "route ''demo'' = u ''/demo''" "route ''about'' = u ''/about''" "route ''blog'' = u ''/blog''"
  "route ''contact'' = u ''/contact''" "route ''waitlist'' = u ''/waitlist''" "route ''legal'' = u ''/legal''"
  by (simp_all add: route_def routes_def)

lemma menu_ids [simp]:
  "menuId (u ''Solutions'') = u ''menu-solutions''" "menuId (u ''Product'') = u ''menu-product''" "menuId (u ''Company'') = u ''menu-company''"
  by (simp_all add: menuId_def label_lower_def u_def is_ws_def)

lemma attr_plain [simp]:
  "with_attr k (El t [] cs) = concat (List.map (with_attr k) cs)" "with_attr k (StateStamp st l) = []" if "k \<noteq> ''aria-hidden''" for k
  using that by (simp_all add: StateStamp_def)

lemma attr_link [simp]:
  "with_attr k (link_to h cs) = (if k = ''href'' then [h] else []) @ concat (List.map (with_attr k) cs)"
  "with_attr k (PopoverLink p h cs) = (if k = ''href'' then [h] else if k = ''popover-id'' then [p] else []) @ concat (List.map (with_attr k) cs)"
  by (simp_all add: link_to_def PopoverLink_def)

lemma note_attr [simp]: "concat (List.map (with_attr k) (menu_note l)) = []"
  by (cases "nl_description l") (simp_all add: menu_note_def)

lemma seal_attr [simp]:
  "k \<notin> {''data-seal'', ''role'', ''aria-hidden'', ''class'', ''stroke-dasharray''} \<Longrightarrow>
   with_attr k (SealInstrument m t d ti cs) = concat (List.map (with_attr k) cs)"
  by (cases ti) (auto simp: SealInstrument_def Let_def)

lemma header_links:
  "links SiteHeader =
     List.map u [''/'', ''/anchors'', ''/custodial-apps'', ''/partners'', ''/coverage-record'', ''/how-it-works'', ''/coverage-record'', ''/demo'',
       ''/coverage-record'', ''/about'', ''/trust'', ''/blog'', ''/coverage-record'', docsUrl, ''/waitlist'', ''/contact'', ''/'', ''/anchors'',
       ''/custodial-apps'', ''/partners'', ''/how-it-works'', ''/coverage-record'', ''/demo'', ''/about'', ''/trust'', ''/blog'', docsUrl,
       ''/contact'', ''/waitlist'']"
  by (simp add: links_def SiteHeader_def DesktopNav_def MobileMenu_def BrandLockup_def menu_panel_def headerGroups_def inner_link_def
      docsLink_def outer_link_def)

lemma footer_links:
  "links SiteFooter =
     List.map u [xUrl, githubUrl, ''/anchors'', ''/custodial-apps'', ''/partners'', ''/how-it-works'', ''/coverage-record'', ''/demo'', ''/waitlist'',
       ''/about'', ''/trust'', ''/blog'', ''/contact'', docsUrl, githubUrl, xUrl, ''/legal'']
     @ [explorer_contract (ve_contractId verifierEvidence), explorer_tx (ve_verifyTx verifierEvidence), u ''/legal'']"
  by (simp add: links_def SiteFooter_def SOCIAL_def BrandLockup_def footerColumns_def EVIDENCE_def inner_link_def outer_link_def)

lemma header_ids:
  "with_attr ''id'' SiteHeader = List.map u [''menu-solutions'', ''menu-product'', ''menu-company'', ''mobile-menu'']"
  "with_attr ''popovertarget'' SiteHeader = List.map u [''menu-solutions'', ''menu-product'', ''menu-company'', ''mobile-menu'', ''mobile-menu'']"
  by (simp_all add: SiteHeader_def DesktopNav_def MobileMenu_def BrandLockup_def menu_panel_def headerGroups_def inner_link_def
      docsLink_def outer_link_def MENU_ID_def)

lemma missing_links:
  "concat (List.map links NotFound) = List.map u [''/'', ''/'', ''/anchors'', ''/custodial-apps'', ''/contact'']"
  by (simp add: links_def NotFound_def PageOpening_def MissingRecord_def DESTINATIONS_def Provenance_def Chapter_def ChapterHead_def
      opt_attr_def Let_def enumerate_eq_zip upt_rec)

definition inner_paths :: "jstr list" where "inner_paths = List.map (\<lambda>(k, p). u p) routes"

definition outer_paths :: "jstr list" where
  "outer_paths = List.map u [docsUrl, githubUrl, xUrl]
     @ [explorer_contract (ve_contractId verifierEvidence), explorer_tx (ve_verifyTx verifierEvidence)]"

text \<open>The names of the posts in content/blog.\<close>

definition content_slugs :: "string list" where
  "content_slugs = [''proof-of-reserves-is-the-easy-half'', ''telling-a-supervisor-one-number'', ''why-no-balance-can-be-left-out'', ''why-solva-settles-on-stellar'']"

lemma menu_closes_itself: "set (with_attr ''popover-id'' (menu_panel g)) = {menuId (fst g)} \<and> with_attr ''id'' (menu_panel g) = [menuId (fst g)]"
  by (auto simp: menu_panel_def comp_def)

lemma close_reads:
  "links (Close i r) = [snd (cl_action (patch_card DEFAULT_INSTITUTIONS i)), snd (cl_action (patch_card DEFAULT_READERS r))]"
  by (simp add: links_def Close_def)

lemma closing_paths:
  "link_path (contactHref q) = route ''contact''" "contactHref q \<noteq> route ''contact''"
  "link_path (u ''/contact'') = u ''/contact''" "link_path (u ''/coverage-record'') = u ''/coverage-record''"
  "link_path (u ''/demo'') = u ''/demo''" "link_path (u docsUrl) = u docsUrl"
  by (simp_all add: link_path_def contactHref_def route_def routes_def docsUrl_def u_def)

lemma closing_roles:
  "snd (readPrefill Missing (role_param (contactHref ''Anchor''))) = u ''Anchor''"
  "snd (readPrefill Missing (role_param (contactHref ''Custodial%20app''))) = u ''Custodial app''"
  "snd (readPrefill Missing (role_param (contactHref ''Partner''))) = []"
proof -
  have drop: "drop (Suc (length (link_path (contactHref q)))) (contactHref q) = u ''role='' @ u q" for q
    unfolding closing_paths by (simp add: contactHref_def route_def routes_def u_def)
  have param: "role_param (contactHref q) = One (query_decode (u q))" for q
  proof -
    have "drop 5 (u ''role='' @ u q) = u q" by (simp add: u_def)
    then show ?thesis by (simp add: role_param_def Let_def drop)
  qed
  have roles: "query_decode (u ''Anchor'') = u ''Anchor''" "query_decode (u ''Custodial%20app'') = u ''Custodial app''"
    "query_decode (u ''Partner'') = u ''Partner''"
    by (simp_all add: u_def hex_value_def)
  show "snd (readPrefill Missing (role_param (contactHref ''Anchor''))) = u ''Anchor''"
    "snd (readPrefill Missing (role_param (contactHref ''Custodial%20app''))) = u ''Custodial app''"
    "snd (readPrefill Missing (role_param (contactHref ''Partner''))) = []"
    unfolding param roles
    by (simp_all add: readPrefill_def first_param_def ROLES_def Let_def trim_def lower_def u_def is_ws_def)
qed

definition closing_target :: "string \<Rightarrow> jstr \<Rightarrow> bool" where
  "closing_target page h \<longleftrightarrow>
     h \<in> {route ''contact'', route ''coverageRecord'', route ''demo'', u docsUrl}
     \<or> (\<exists>q. h = contactHref q \<and> (page, q) \<in> {(''anchors'', ''Anchor''), (''custodialApps'', ''Custodial%20app''), (''partners'', ''Partner'')})"

lemma closing_targets: "\<forall>(page, close) \<in> set page_closes. \<forall>h \<in> set (links close). closing_target page h"
  by (simp add: page_closes_def close_reads patch_card_def or_default_def DEFAULT_INSTITUTIONS_def DEFAULT_READERS_def anchors_card_def
      custodial_card_def partners_cards_def demo_card_def trust_card_def record_card_def closing_target_def del: route_simps)

lemma closing_leads:
  assumes "closing_target page h"
  shows "link_path h \<in> set inner_paths \<union> set outer_paths"
    "h = link_path h \<or> link_path h = route ''contact''
      \<and> (page, snd (readPrefill Missing (role_param h))) \<in>
          {(''anchors'', u ''Anchor''), (''custodialApps'', u ''Custodial app''), (''partners'', [])}"
proof -
  have known: "route ''contact'' \<in> set inner_paths" "route ''coverageRecord'' \<in> set inner_paths" "route ''demo'' \<in> set inner_paths"
    "u docsUrl \<in> set outer_paths"
    by (simp_all add: inner_paths_def routes_def outer_paths_def)
  have plain: "link_path (route ''contact'') = route ''contact''" "link_path (route ''coverageRecord'') = route ''coverageRecord''"
    "link_path (route ''demo'') = route ''demo''"
    using closing_paths(3-5) by simp_all
  consider "h \<in> {route ''contact'', route ''coverageRecord'', route ''demo'', u docsUrl}"
    | "page = ''anchors''" "h = contactHref ''Anchor''" | "page = ''custodialApps''" "h = contactHref ''Custodial%20app''"
    | "page = ''partners''" "h = contactHref ''Partner''"
    using assms unfolding closing_target_def by blast
  then show "link_path h \<in> set inner_paths \<union> set outer_paths"
    by cases (use known plain closing_paths(1,6) in \<open>auto simp del: route_simps\<close>)
  from \<open>closing_target page h\<close> consider "h = link_path h"
    | "page = ''anchors''" "h = contactHref ''Anchor''" | "page = ''custodialApps''" "h = contactHref ''Custodial%20app''"
    | "page = ''partners''" "h = contactHref ''Partner''"
    using plain closing_paths(6) unfolding closing_target_def by auto
  then show "h = link_path h \<or> link_path h = route ''contact''
      \<and> (page, snd (readPrefill Missing (role_param h))) \<in>
          {(''anchors'', u ''Anchor''), (''custodialApps'', u ''Custodial app''), (''partners'', [])}"
    by cases (simp_all add: closing_paths(1) closing_roles del: route_simps)
qed

text \<open>C35: The navigation of the web site is closed.  Every link of the header, its menus, the footer
  and the page that is not found is a route, one of the project's three other sites, or the
  evidence on the explorer, and every route is linked from header or footer; a link is marked external
  exactly when it leaves the site.  The closing cards of all pages lead to the same places, up to a
  query, and only the contact page is given one: the role its form is to start with.  That role is
  what the page says of itself for anchors and custodial apps; the role the partners page gives is
  none of the form's, which starts empty.  Every menu button names the one menu with that id, and every
  link in a menu closes that menu.  A redirect starts at no route and at no other redirect's end, and
  ends at a route or at a post, so every old address is one hop away from a page.\<close>

theorem site_navigation_closed:
  "set (links SiteHeader @ links SiteFooter @ concat (List.map links NotFound)) \<subseteq> set inner_paths \<union> set outer_paths
   \<and> set inner_paths \<subseteq> set (links SiteHeader @ links SiteFooter)
   \<and> (\<forall>(page, close) \<in> set page_closes. \<forall>h \<in> set (links close).
        link_path h \<in> set inner_paths \<union> set outer_paths \<and> (h = link_path h \<or> link_path h = route ''contact''
          \<and> (page, snd (readPrefill Missing (role_param h))) \<in>
              {(''anchors'', u ''Anchor''), (''custodialApps'', u ''Custodial app''), (''partners'', [])}))
   \<and> (\<forall>l \<in> set (docsLink # concat (List.map snd (headerGroups @ footerColumns))). nl_external l \<longleftrightarrow> nl_href l \<notin> set inner_paths)
   \<and> distinct (with_attr ''id'' SiteHeader) \<and> set (with_attr ''popovertarget'' SiteHeader) = set (with_attr ''id'' SiteHeader)
   \<and> (\<forall>g. set (with_attr ''popover-id'' (menu_panel g)) = set (with_attr ''id'' (menu_panel g)))
   \<and> distinct (List.map fst redirects)
   \<and> (\<forall>(s, d) \<in> set redirects. u s \<notin> set inner_paths \<and> s \<notin> set (List.map snd redirects)
        \<and> (u d \<in> set inner_paths \<or> (\<exists>p \<in> set content_slugs. u d = route ''blog'' @ u ''/'' @ u p)))"
proof (intro conjI)
  have inner: "inner_paths = List.map u (List.map snd routes)" by (simp add: inner_paths_def case_prod_unfold)
  note paths = inner routes_def outer_paths_def
  show "set (links SiteHeader @ links SiteFooter @ concat (List.map links NotFound)) \<subseteq> set inner_paths \<union> set outer_paths"
    by (simp add: header_links footer_links missing_links paths)
  show "\<forall>(page, close) \<in> set page_closes. \<forall>h \<in> set (links close).
        link_path h \<in> set inner_paths \<union> set outer_paths \<and> (h = link_path h \<or> link_path h = route ''contact''
          \<and> (page, snd (readPrefill Missing (role_param h))) \<in>
              {(''anchors'', u ''Anchor''), (''custodialApps'', u ''Custodial app''), (''partners'', [])})"
    unfolding case_prod_beta
  proof (intro ballI conjI)
    fix c h assume "c \<in> set page_closes" "h \<in> set (links (snd c))"
    then have c: "closing_target (fst c) h" using closing_targets unfolding case_prod_beta by (elim ballE; blast)
    show "link_path h \<in> set inner_paths \<union> set outer_paths" by (rule closing_leads(1) [OF c])
    show "h = link_path h \<or> link_path h = route ''contact''
        \<and> (fst c, snd (readPrefill Missing (role_param h))) \<in>
            {(''anchors'', u ''Anchor''), (''custodialApps'', u ''Custodial app''), (''partners'', [])}"
      by (rule closing_leads(2) [OF c])
  qed
  show "set inner_paths \<subseteq> set (links SiteHeader @ links SiteFooter)"
    by (simp add: header_links footer_links paths)
  show "\<forall>l \<in> set (docsLink # concat (List.map snd (headerGroups @ footerColumns))). nl_external l \<longleftrightarrow> nl_href l \<notin> set inner_paths"
    by (simp add: paths docsLink_def outer_link_def inner_link_def headerGroups_def footerColumns_def docsUrl_def githubUrl_def xUrl_def)
  show "distinct (with_attr ''id'' SiteHeader)" "set (with_attr ''popovertarget'' SiteHeader) = set (with_attr ''id'' SiteHeader)"
    by (simp_all add: header_ids)
  show "\<forall>g. set (with_attr ''popover-id'' (menu_panel g)) = set (with_attr ''id'' (menu_panel g))"
    using menu_closes_itself by simp
  show "distinct (List.map fst redirects)" by (simp add: redirects_def)
  show "\<forall>(s, d) \<in> set redirects. u s \<notin> set inner_paths \<and> s \<notin> set (List.map snd redirects)
        \<and> (u d \<in> set inner_paths \<or> (\<exists>p \<in> set content_slugs. u d = route ''blog'' @ u ''/'' @ u p))"
    by (simp add: redirects_def paths content_slugs_def flip: u_append)
qed

lemma site_navigation_closed_witness:
  "u ''/demo'' \<in> set inner_paths \<and> u ''/sandbox'' \<notin> set inner_paths \<and> u ''/demo'' \<in> set (links SiteHeader @ links SiteFooter)"
proof -
  have "(''/sandbox'', ''/demo'') \<in> set redirects" by (simp add: redirects_def)
  then have "u ''/sandbox'' \<notin> set inner_paths" using site_navigation_closed by fast
  moreover have "u ''/demo'' \<in> set inner_paths" by (simp add: inner_paths_def routes_def)
  ultimately show ?thesis using site_navigation_closed by blast
qed

section \<open>The site map\<close>

text \<open>The site map lists every route and every post, and exactly the blog's pages as weekly.\<close>

lemma sitemap_complete:
  "length (sitemap slugs) = length routes + length slugs
    \<and> set (List.map se_url (sitemap slugs)) =
        (\<lambda>p. if p = u ''/'' then u site_origin else u site_origin @ p) ` (set inner_paths \<union> (\<lambda>s. route ''blog'' @ u ''/'' @ s) ` set slugs)
    \<and> (\<forall>e \<in> set (sitemap slugs). se_changeFrequency e = u ''weekly'' \<longleftrightarrow> prefix (u site_origin @ route ''blog'') (se_url e))"
proof (intro conjI)
  show "length (sitemap slugs) = length routes + length slugs" by (simp add: sitemap_def postPaths_def)
  show "set (List.map se_url (sitemap slugs)) =
      (\<lambda>p. if p = u ''/'' then u site_origin else u site_origin @ p) ` (set inner_paths \<union> (\<lambda>s. route ''blog'' @ u ''/'' @ s) ` set slugs)"
    by (simp only: sitemap_def postPaths_def inner_paths_def set_map set_append set_sort image_Un image_image site_entry.simps)
  have "prefix (u site_origin @ route ''blog'') (if p = u ''/'' then u site_origin else u site_origin @ p) \<longleftrightarrow> prefix (route ''blog'') p" for p
    by (auto dest: prefix_length_le)
  then show "\<forall>e \<in> set (sitemap slugs). se_changeFrequency e = u ''weekly'' \<longleftrightarrow> prefix (u site_origin @ route ''blog'') (se_url e)"
    unfolding sitemap_def by (simp only: set_map ball_simps site_entry.simps u_eq_iff) auto
qed

end
