(* ===== verification/Site_Parts.thy ===== *)
theory Site_Parts
  imports Site_Nav
begin

text \<open>
  The parts the pages of the web site share beside the ledger parts of \<open>Site_Nav\<close>: the button
  (apps/website/src/components/ui/button.tsx), the tag of a feature that is not out yet
  (status-tag.tsx), the record document (record-document.tsx) as a view, and what a form is read
  by: the attributes of its input elements and the entries a browser submits for them.
\<close>

definition site_button :: "bool \<Rightarrow> dom list \<Rightarrow> dom" where
  "site_button disabled content = El ''button'' ((''data-slot'', u ''button'') # flag ''disabled'' disabled) content"

datatype feature_status = ComingSoon | InDevelopment

definition statusLabel :: "feature_status \<Rightarrow> jstr" where
  "statusLabel st = (case st of ComingSoon \<Rightarrow> u ''Coming soon'' | InDevelopment \<Rightarrow> u ''In development'')"

definition StatusTag :: "feature_status \<Rightarrow> dom" where
  "StatusTag st = El ''span'' [] [Txt (statusLabel st)]"

text \<open>The document prints what \<open>RecordDocument\<close> computes of a record.\<close>

definition owed_note :: "coverage_record \<Rightarrow> jstr" where
  "owed_note r = (if cr_kind r = Anchor then u ''Holder balances, committed as one value'' else u ''Customer balances, committed as one value'')"

definition record_article :: "coverage_record \<Rightarrow> bool \<Rightarrow> jstr \<Rightarrow> dom" where
  "record_article r full caption =
     (let v = RecordDocument r; row = (\<lambda>(l, x). LeaderRow (Txt l) (Txt x)) in
      El ''article'' [(''aria-label'', u ''Coverage record for '' @ cr_institution r @ u '', '' @ cr_asset r),
                      (''data-reveal'', u ''true''), (''class'', u ''ruled-marks'')]
        [El ''header'' []
           [El ''div'' []
              [El ''p'' [] [Txt (u ''Coverage record'' @ mid_dot @ caption)],
               El ''p'' [] [Txt (cr_institution r @ u '' ''), El ''span'' [] [Txt ([0xB7, 32] @ cr_asset r)]]],
            StateStamp (rv_stamp v) None],
         El ''div'' []
           [SealInstrument (rv_seal v) None full None
              [El ''span'' [(''data-count'', u ''true'')] [Txt (rv_percent v)], El ''span'' [] [tx ''Coverage'']],
            El ''div'' []
              ([row (rv_owed v), row (rv_held v), row (rv_margin v)]
               @ (if full then [El ''p'' [] [Txt (owed_note r
                    @ u ''. Reserves are the balance of the reserve accounts, signed by the custodian or read from Stellar.'')]]
                  else []))],
         El ''footer'' [] [Provenance (List.map Txt (rv_parts v))]])"

section \<open>Inputs\<close>

text \<open>The attributes of the input elements of a view, in document order; a text area keeps its text
  in the attribute \<open>value\<close>.\<close>

fun inputs :: "dom \<Rightarrow> (string \<times> jstr) list list" where
  "inputs (Txt s) = []" |
  "inputs (El t a cs) = (if t = ''input'' \<or> t = ''textarea'' then [a] else []) @ concat (List.map inputs cs)"

definition has_flag :: "string \<Rightarrow> (string \<times> jstr) list \<Rightarrow> bool" where
  "has_flag k a \<longleftrightarrow> map_of a k \<noteq> None"

definition radio :: "jstr \<Rightarrow> jstr option \<Rightarrow> bool \<Rightarrow> bool \<Rightarrow> dom" where
  "radio name v checked disabled =
     El ''input'' ([(''type'', u ''radio''), (''name'', name)] @ opt_attr ''value'' v
       @ flag ''checked'' checked @ flag ''disabled'' disabled) []"

section \<open>Reading the parts\<close>

text \<open>What the parts hold are the links, the controls and the inputs of what is put into them.\<close>

lemma provenance_reads [simp]:
  "links (Provenance ps) = concat (List.map links ps)"
  "controls (Provenance ps) = concat (List.map controls ps)"
  "inputs (Provenance ps) = concat (List.map inputs ps)"
proof -
  have gen: "concat (List.map (f \<circ> (\<lambda>(i, p). El ''span'' []
        ((if 0 < i then [El ''span'' [(''aria-hidden'', u ''true'')] [Txt [0xB7]]] else []) @ [p]))) (enumerate n ps))
      = concat (List.map f ps)"
    if "\<And>cs. f (El ''span'' [] cs) = concat (List.map f cs)" "f (El ''span'' [(''aria-hidden'', u ''true'')] [Txt [0xB7]]) = []"
    for f :: "dom \<Rightarrow> 'a list" and n
    by (induction ps arbitrary: n) (auto simp: that)
  show "links (Provenance ps) = concat (List.map links ps)" "controls (Provenance ps) = concat (List.map controls ps)"
    "inputs (Provenance ps) = concat (List.map inputs ps)"
    unfolding Provenance_def by (simp_all add: links_El gen)
qed

lemma seal_reads [simp]:
  "links (SealInstrument m t d ti cs) = concat (List.map links cs)"
  "controls (SealInstrument m t d ti cs) = concat (List.map controls cs)"
  "inputs (SealInstrument m t d ti cs) = concat (List.map inputs cs)"
  by (cases ti; simp add: SealInstrument_def Let_def links_El comp_def)+

lemma seal_texts [simp]:
  "texts (SealInstrument m t d ti cs) = (case ti of Some x \<Rightarrow> [x] | None \<Rightarrow> []) @ concat (List.map texts cs)"
  by (cases ti; simp add: SealInstrument_def Let_def comp_def)

lemma parts_read [simp]:
  "links (StateStamp st l) = []" "controls (StateStamp st l) = []" "inputs (StateStamp st l) = []"
  "links (StatusTag f) = []" "controls (StatusTag f) = []" "inputs (StatusTag f) = []"
  "links (LeaderRow a b) = links a @ links b" "controls (LeaderRow a b) = controls a @ controls b"
  "inputs (LeaderRow a b) = inputs a @ inputs b"
  "links (ChapterHead i l t le) = []" "controls (ChapterHead i l t le) = []" "inputs (ChapterHead i l t le) = []"
  "links (site_button dis cs) = concat (List.map links cs)" "inputs (site_button dis cs) = concat (List.map inputs cs)"
  "controls (site_button dis cs) = [(concat (concat (List.map texts cs)), \<not> dis)]"
  "links (link_to h cs) = h # concat (List.map links cs)" "controls (link_to h cs) = concat (List.map controls cs)"
  "inputs (link_to h cs) = concat (List.map inputs cs)"
  by (auto simp: StateStamp_def StatusTag_def LeaderRow_def ChapterHead_def site_button_def link_to_def links_El flag_def
      split: option.split)

lemma chapter_reads [simp]:
  "links (Chapter i x l cs) = concat (List.map links cs)" "controls (Chapter i x l cs) = concat (List.map controls cs)"
  "inputs (Chapter i x l cs) = concat (List.map inputs cs)"
  by (auto simp: Chapter_def links_El opt_attr_def split: option.split)

lemma radio_reads [simp]:
  "links (radio n v c d) = []" "controls (radio n v c d) = []"
  "inputs (radio n v c d) = [[(''type'', u ''radio''), (''name'', n)] @ opt_attr ''value'' v @ flag ''checked'' c @ flag ''disabled'' d]"
  by (auto simp: radio_def links_El opt_attr_def flag_def split: option.split)

lemma has_flag_simps [simp]:
  "\<not> has_flag k []" "has_flag k ((k', v) # a) \<longleftrightarrow> k = k' \<or> has_flag k a"
  "has_flag k (a @ b) \<longleftrightarrow> has_flag k a \<or> has_flag k b"
  "has_flag k (flag k' c) \<longleftrightarrow> c \<and> k = k'" "has_flag k (opt_attr k' x) \<longleftrightarrow> x \<noteq> None \<and> k = k'"
  by (auto simp: has_flag_def flag_def opt_attr_def map_add_def split: option.splits)

lemma record_reads [simp]:
  "links (record_article r f c) = []" "controls (record_article r f c) = []" "inputs (record_article r f c) = []"
  by (simp_all add: record_article_def Let_def links_El comp_def case_prod_unfold)

end
