(* ===== verification/Sandbox_View.thy ===== *)
theory Sandbox_View
  imports Sandbox_Machine Site_Parts
begin

text \<open>
  What the sandbox panel draws (apps/website/src/features/product/components/demo/sandbox.tsx) in a
  state of \<open>useSandbox\<close>, and what a visitor can do with it.  A row of the panel is a definition of
  its own, as is a choice of an institution or a scenario; icons and class names are left out.  The
  theorems relate the controls that are drawn and enabled to the steps of \<open>Sandbox_Machine\<close>.
\<close>

section \<open>The panel\<close>

fun step_title :: "step_id \<Rightarrow> jstr" where
  "step_title Registry = u ''Your registry entry''" |
  "step_title Connect = u ''Connect the reserve source''" |
  "step_title Reserves = u ''Read the reserve balance''" |
  "step_title Prove = u ''Prove coverage and publish''" |
  "step_title Verify = u ''Check the published record''" |
  "step_title Inclusion = u ''A holder checks they were counted''"

fun step_summary :: "step_id \<Rightarrow> jstr" where
  "step_summary Registry = u ''The institution's own contract on Stellar Testnet.''" |
  "step_summary Connect = u ''Open access to the accounts that hold the reserves.''" |
  "step_summary Reserves = u ''One balance per reserve account, signed by the custodian or read from Stellar.''" |
  "step_summary Prove = u ''Prove that reserves cover the committed total, then publish it on Stellar.''" |
  "step_summary Verify = u ''Read the record from the contract on Stellar and check that reserves cover what is owed.''" |
  "step_summary Inclusion = u ''The contract confirms one holder's balance was counted.''"

fun LOG_PREFIX :: "log_kind \<Rightarrow> jstr" where
  "LOG_PREFIX LOk = [0x2713, 32]" |
  "LOG_PREFIX LWarn = [0x2717, 32]" |
  "LOG_PREFIX LData = u ''  ''" |
  "LOG_PREFIX LInfo = u ''  ''"

definition Marker :: "nat \<Rightarrow> step_status \<Rightarrow> dom" where
  "Marker n status = El ''span'' [] [Txt (case status of Done \<Rightarrow> [0x2713] | step_status.Failed \<Rightarrow> u ''!'' | _ \<Rightarrow> show_nat n)]"

definition contractUrl :: "sandbox \<Rightarrow> jstr option" where
  "contractUrl s =
     (let c = jopt (sb_contract s) ''contract_id'' in if jtruthy c then Some (explorer_contract (json_to_string c)) else None)"

definition proofUrl :: "sandbox \<Rightarrow> step_id \<Rightarrow> jstr option" where
  "proofUrl s k =
     (if k = Prove \<and> jopt (sb_proof s) ''chain_proof_id'' \<notin> {JUndef, JNull} then contractUrl s else None)"

definition institution_choice :: "sandbox \<Rightarrow> demo_institution \<Rightarrow> dom" where
  "institution_choice s i =
     El ''label'' []
       [radio (u ''institution'') None (di_tenantId i = di_tenantId (sb_institution s)) (sb_busy s),
        El ''span'' [(''aria-hidden'', u ''true'')] [],
        El ''span'' [] [Txt (di_name i @ u '' ''), El ''span'' [] [Txt ([0xB7, 32] @ di_kind i)]],
        El ''span'' [] [Txt (di_owes i)]]"

definition scenario_choice :: "sandbox \<Rightarrow> scenario \<Rightarrow> dom" where
  "scenario_choice s sc =
     El ''label'' []
       [radio (u ''scenario'') None (sn_id sc = sn_id (sb_scenario s)) (sb_busy s),
        El ''span'' [(''aria-hidden'', u ''true'')] [],
        El ''span'' [] [El ''span'' [] [Txt (sn_label sc)], El ''span'' [] [Txt (u ''R = '' @ sn_reserves sc)]],
        El ''span'' [] [Txt (sn_note sc)]]"

definition reserves_choice :: "sandbox \<Rightarrow> dom" where
  "reserves_choice s =
     (case di_reserves (sb_institution s) of
        OnChain account code issuer \<Rightarrow>
          El ''div'' []
            [El ''p'' [] [tx ''Reserves''],
             El ''p'' []
               [Txt (u ''Read from Stellar Testnet on every run: the '' @ code @ u '' balance of account ''),
                El ''a'' [(''href'', explorer_account account)] [Txt account],
                tx ''. No scenario applies: the proof uses whatever the account holds.'']]
      | Attested \<Rightarrow>
          El ''fieldset'' [] [El ''legend'' [] [tx ''Scenario''], El ''div'' [] (List.map (scenario_choice s) SCENARIOS)])"

definition run_label :: "step_id \<Rightarrow> jstr" where
  "run_label k = (if k = Prove then u ''Prove and publish'' else u ''Run'')"

definition step_log :: "sandbox \<Rightarrow> step_id \<Rightarrow> dom list" where
  "step_log s k =
     (if sb_logs s k = [] then []
      else [El ''div'' []
        ([El ''pre'' [] (List.map (\<lambda>l. El ''div'' [] [Txt (LOG_PREFIX (ll_kind l)), Txt (ll_text l)]) (sb_logs s k))]
         @ (case contractUrl s of Some c \<Rightarrow> if k = Registry then [El ''a'' [(''href'', c)] [tx ''Open the contract on Stellar'']] else []
            | None \<Rightarrow> [])
         @ (case proofUrl s k of Some p \<Rightarrow> [El ''a'' [(''href'', p)]
               [Txt (u ''Open proof #'' @ json_to_string (jopt (sb_proof s) ''chain_proof_id'') @ u '' on Stellar'')]]
            | None \<Rightarrow> []))])"

definition step_row :: "sandbox \<Rightarrow> nat \<Rightarrow> step_id \<Rightarrow> dom" where
  "step_row s index k =
     (let status = sb_status s k in
      El ''li'' []
        (El ''div'' []
           ([Marker (index + 1) status,
             El ''div'' [] [El ''p'' [] [Txt (step_title k)], El ''p'' [] [Txt (step_summary k)]]]
            @ (if status = Ready then [site_button (sb_busy s) [Txt (run_label k)]] else [])
            @ (if status = Running then [El ''span'' [] [Txt (u ''running'' @ [0x2026])]] else []))
         # step_log s k))"

definition step_rows :: "sandbox \<Rightarrow> dom list" where
  "step_rows s = List.map (\<lambda>(index, k). step_row s index k) (enumerate 0 STEPS)"

definition Sandbox_panel :: "sandbox \<Rightarrow> dom" where
  "Sandbox_panel s =
     (let done = completedSteps (sb_status s) in
      El ''section'' [(''id'', u ''run''), (''aria-labelledby'', u ''run-title'')]
        [El ''span'' [(''aria-hidden'', u ''true'')] [tx ''01''],
         El ''div'' []
           ([El ''div'' []
               [ChapterHead (u ''run-title'') (Some (u ''Run it'')) (u ''Six steps, all of them real.'')
                  (Some (u ''Pick an institution, then run the steps one at a time. Kestrel and Solstice use a stand-in custodian run by Solva, with three scenarios. Harbor Wallet's reserves are real Testnet USDC, read from Stellar on every run. Every published proof lands on Stellar Testnet, where you can open it.'')),
                SealInstrument (Progress (of_nat done) (of_nat (length STEPS))) None True None
                  [El ''span'' [] [Txt (show_nat done @ u ''/'' @ show_nat (length STEPS))], El ''span'' [] [tx ''steps done'']]]]
            @ (if sb_reachable s = Some False then
                 [El ''p'' [] [tx ''The sandbox is not reachable from this page right now, so the steps below cannot run. Nothing is simulated in its place.'']]
               else [])
            @ [El ''div'' []
                 [El ''div'' []
                    [El ''fieldset'' [] [El ''legend'' [] [tx ''Institution''],
                       El ''div'' [] (List.map (institution_choice s) DEMO_INSTITUTIONS)],
                     reserves_choice s,
                     El ''button'' (flag ''disabled'' (sb_busy s)) [tx ''Restart the run'']],
                  El ''ol'' [] (step_rows s)],
               Provenance
                 [tx ''Stellar Testnet'',
                  Txt (if di_reserves (sb_institution s) = Attested then u ''Reserve source: Solva's sandbox, signed balances''
                       else u ''Reserve source: Testnet USDC read from Stellar''),
                  tx ''Example customer balances'']])])"

section \<open>What a visitor can do\<close>

lemma step_rows_eval:
  "step_rows s = [step_row s 0 Registry, step_row s 1 Connect, step_row s 2 Reserves, step_row s 3 Prove,
     step_row s 4 Verify, step_row s 5 Inclusion]"
  by (simp add: step_rows_def STEPS_def numeral_eq_Suc)

lemma log_reads [simp]: "concat (List.map controls (step_log s k)) = []" "concat (List.map inputs (step_log s k)) = []"
  by (auto simp: step_log_def comp_def split: option.split)

lemma row_controls: "controls (step_row s n k) = (if sb_status s k = Ready then [(run_label k, \<not> sb_busy s)] else [])"
  by (auto simp: step_row_def Let_def Marker_def)

lemma row_inputs [simp]: "inputs (step_row s n k) = []"
  by (auto simp: step_row_def Let_def Marker_def)

lemma row_links:
  "links (step_row s n k) =
     (if sb_logs s k = [] then []
      else (if k = Registry then case contractUrl s of Some c \<Rightarrow> [c] | None \<Rightarrow> [] else [])
        @ (case proofUrl s k of Some p \<Rightarrow> [p] | None \<Rightarrow> []))"
  by (auto simp: step_row_def step_log_def Let_def Marker_def links_El comp_def split: option.split)

lemma choice_reads [simp]:
  "controls (institution_choice s i) = []" "links (institution_choice s i) = []"
  "controls (scenario_choice s sc) = []" "links (scenario_choice s sc) = []"
  "controls (reserves_choice s) = []"
  "links (reserves_choice s) = (case di_reserves (sb_institution s) of OnChain a c i \<Rightarrow> [explorer_account a] | Attested \<Rightarrow> [])"
  by (auto simp: institution_choice_def scenario_choice_def reserves_choice_def links_El SCENARIOS_def split: reserve_source.split)

lemma sandbox_panel_controls:
  "controls (Sandbox_panel s) = (u ''Restart the run'', \<not> sb_busy s) # concat (List.map controls (step_rows s))"
  by (simp add: Sandbox_panel_def Let_def comp_def)

lemma panel_links:
  "links (Sandbox_panel s) = links (reserves_choice s) @ concat (List.map links (step_rows s))"
  by (simp add: Sandbox_panel_def Let_def comp_def links_El)

lemma staged_one_ready: "staged ss \<Longrightarrow> length (filter (\<lambda>x. x = Ready) ss) \<le> 1"
proof (induction ss)
  case (Cons a ss)
  have "filter (\<lambda>x. x = Ready) ss = []" if "\<forall>y \<in> set ss. y = Locked" using that by (auto simp: filter_empty_conv)
  with Cons show ?case by (auto split: if_splits)
qed simp

lemma reach_logs: "sandbox_reach s \<Longrightarrow> sb_load s \<noteq> None \<Longrightarrow> sb_logs s = emptyLogs"
proof (induction rule: sandbox_reach.induct)
  case (step s e s')
  from sandbox_reach_inv [OF step.hyps(1)] have load: "sb_load s = None" if "sb_inflight s \<noteq> None"
    using that by (auto simp: sandbox_inv_def)
  from step.hyps(2) step.IH step.prems show ?case
    by (cases rule: sandbox_step.cases)
      (auto simp: setInstitution_def clear_def reset_run_def registry_loaded_def run_started_def setStep_def Let_def load
        run_settled_def split: if_splits sum.splits option.splits)
qed (simp add: sandbox_start_def)


text \<open>A step is possible exactly when some control of the panel asks for it.\<close>

lemma click_offered: "(\<exists>l. (l, True) \<in> set (controls (step_row s n k))) \<longleftrightarrow> (\<exists>s'. sandbox_step s (Click k) s')"
  by (auto simp: row_controls elim: sandbox_stepE intro: sandbox_step.click)

lemma restart_offered: "(u ''Restart the run'', True) \<in> set (controls (Sandbox_panel s)) \<longleftrightarrow> (\<exists>s'. sandbox_step s Restart s')"
  by (auto simp: sandbox_panel_controls step_rows_eval row_controls run_label_def elim: sandbox_stepE intro: sandbox_step.restart)

lemma select_offered:
  assumes "sb_institution s \<in> set DEMO_INSTITUTIONS" "i \<in> set DEMO_INSTITUTIONS"
  shows "(\<exists>a \<in> set (inputs (institution_choice s i)). \<not> has_flag ''checked'' a \<and> \<not> has_flag ''disabled'' a)
    \<longleftrightarrow> (\<exists>s'. sandbox_step s (Select i) s')"
proof -
  have "di_tenantId i = di_tenantId (sb_institution s) \<longleftrightarrow> i = sb_institution s"
    using assms by (auto simp: DEMO_INSTITUTIONS_def)
  then show ?thesis using assms(2)
    by (auto simp: institution_choice_def elim: sandbox_stepE intro: sandbox_step.select)
qed

lemma scenario_offered:
  assumes "sc \<in> set SCENARIOS"
  shows "(\<exists>a \<in> set (inputs (reserves_choice s)). \<not> has_flag ''disabled'' a) \<longleftrightarrow> (\<exists>s'. sandbox_step s (PickScenario sc) s')"
proof -
  have "(\<exists>a \<in> set (inputs (reserves_choice s)). \<not> has_flag ''disabled'' a)
      \<longleftrightarrow> di_reserves (sb_institution s) = Attested \<and> \<not> sb_busy s"
    by (auto simp: reserves_choice_def scenario_choice_def SCENARIOS_def split: reserve_source.split)
  with assms show ?thesis by (auto elim: sandbox_stepE intro: sandbox_step.scenario)
qed

lemma ticks_counted:
  "length (filter (\<lambda>k. hd (texts (step_row s n k)) = [0x2713]) STEPS) = completedSteps (sb_status s)"
proof -
  have "show_nat (n + 1) \<noteq> [0x2713]"
  proof
    assume "show_nat (n + 1) = [0x2713]"
    with show_nat_all_digits [of "n + 1"] show False by (simp add: is_digit_def)
  qed
  then have "hd (texts (step_row s n k)) = [0x2713] \<longleftrightarrow> sb_status s k = Done" for k
    by (cases "sb_status s k") (auto simp: step_row_def Let_def Marker_def u_def)
  then show ?thesis by (simp add: completedSteps_def)
qed

lemma panel_number:
  "show_nat (completedSteps (sb_status s)) @ u ''/'' @ show_nat (length STEPS) \<in> set (texts (Sandbox_panel s))"
  by (simp add: Sandbox_panel_def Let_def)

lemma six_steps: "u ''/'' @ show_nat (length STEPS) = u ''/6''"
  by (simp add: STEPS_def show_nat_small u_def)

text \<open>C38: The sandbox panel is driven by what it draws.  In every reachable state the button of a step is drawn
  and enabled exactly when that step can be started, the restart button exactly when the run can be
  restarted, a choice of another institution exactly when it can be selected, and the choices of a
  scenario exactly when one can be picked; at most one run button is offered; while a registry
  is being loaded no contract or proof of another institution is linked; and the number of steps
  the seal calls done is the number of rows with a tick.\<close>

theorem sandbox_view_drives:
  assumes "sandbox_reach s"
  shows "(\<forall>k n. (\<exists>l. (l, True) \<in> set (controls (step_row s n k))) \<longleftrightarrow> (\<exists>s'. sandbox_step s (Click k) s'))
    \<and> ((u ''Restart the run'', True) \<in> set (controls (Sandbox_panel s)) \<longleftrightarrow> (\<exists>s'. sandbox_step s Restart s'))
    \<and> (\<forall>i \<in> set DEMO_INSTITUTIONS.
        (\<exists>a \<in> set (inputs (institution_choice s i)). \<not> has_flag ''checked'' a \<and> \<not> has_flag ''disabled'' a)
          \<longleftrightarrow> (\<exists>s'. sandbox_step s (Select i) s'))
    \<and> (\<forall>sc \<in> set SCENARIOS. (\<exists>a \<in> set (inputs (reserves_choice s)). \<not> has_flag ''disabled'' a)
          \<longleftrightarrow> (\<exists>s'. sandbox_step s (PickScenario sc) s'))
    \<and> length (controls (El ''ol'' [] (step_rows s))) \<le> 1
    \<and> (sb_load s \<noteq> None \<longrightarrow> set (links (Sandbox_panel s))
          \<subseteq> {explorer_account a |a c i. di_reserves (sb_institution s) = OnChain a c i})
    \<and> (\<forall>n. show_nat (length (filter (\<lambda>k. hd (texts (step_row s n k)) = [0x2713]) STEPS)) @ u ''/6''
          \<in> set (texts (Sandbox_panel s)))"
proof (intro conjI allI ballI impI)
  have inv: "sandbox_inv s" by (rule sandbox_reach_inv [OF assms])
  then have inst: "sb_institution s \<in> set DEMO_INSTITUTIONS" and "staged (List.map (sb_status s) STEPS)"
    by (simp_all add: sandbox_inv_def)
  from staged_one_ready [OF this(2)] show "length (controls (El ''ol'' [] (step_rows s))) \<le> 1"
    by (simp add: step_rows_eval row_controls STEPS_def split: if_splits)
  show "(\<exists>a \<in> set (inputs (institution_choice s i)). \<not> has_flag ''checked'' a \<and> \<not> has_flag ''disabled'' a)
      \<longleftrightarrow> (\<exists>s'. sandbox_step s (Select i) s')" if "i \<in> set DEMO_INSTITUTIONS" for i
    by (rule select_offered [OF inst that])
  show "set (links (Sandbox_panel s)) \<subseteq> {explorer_account a |a c i. di_reserves (sb_institution s) = OnChain a c i}"
    if "sb_load s \<noteq> None"
    using reach_logs [OF assms that] by (cases "di_reserves (sb_institution s)") (auto simp: panel_links step_rows_eval row_links emptyLogs_def)
  show "show_nat (length (filter (\<lambda>k. hd (texts (step_row s n k)) = [0x2713]) STEPS)) @ u ''/6'' \<in> set (texts (Sandbox_panel s))" for n
    using panel_number [of s] unfolding ticks_counted six_steps .
qed (fact click_offered restart_offered scenario_offered)+


lemma sandbox_view_drives_witness:
  "(u ''Restart the run'', True) \<in> set (controls (Sandbox_panel sandbox_start)) \<and> links (Sandbox_panel sandbox_start) = []
    \<and> length (controls (El ''ol'' [] (step_rows sandbox_start))) \<le> 1"
proof -
  note drives = sandbox_view_drives [OF sandbox_reach.start]
  have "sandbox_step sandbox_start Restart (reset_run sandbox_start)"
    by (rule sandbox_step.restart) (simp add: sandbox_start_def)
  moreover have "sb_load sandbox_start \<noteq> None" "di_reserves (sb_institution sandbox_start) = Attested"
    by (simp_all add: sandbox_start_def DEMO_INSTITUTIONS_def)
  ultimately show ?thesis using drives by auto
qed

section \<open>A refused run\<close>

text \<open>The proof in the state is the last one published, and a refused run leaves it there.\<close>

lemma settle_reach:
  assumes "sandbox_reach s" "sb_status s k = Ready" "\<not> sb_busy s" "runner k (sb_institution s) answer = Inr res"
  shows "sandbox_reach (run_settled k (Inr res) (run_started k s))"
proof -
  have "sandbox_step s (Click k) (run_started k s)" using assms by (intro sandbox_step.click)
  moreover have "sandbox_step (run_started k s) (Settled answer) (run_settled k (Inr res) (run_started k s))"
    using sandbox_step.settled [of "run_started k s" k "sb_institution s" "sb_scenario s" answer] assms(4)
    by (simp add: run_started_def setStep_def)
  ultimately show ?thesis using assms(1) sandbox_reach.step by blast
qed

definition published_registry :: json where
  "published_registry =
     JObj [(u ''contract'', JObj [(u ''contract_id'', JStr (u ''C1''))]), (u ''proof'', JObj [(u ''chain_proof_id'', JNum 7)])]"

definition same_record :: "sandbox \<Rightarrow> sandbox \<Rightarrow> bool" where
  "same_record s s' \<longleftrightarrow> sb_institution s' = sb_institution s \<and> sb_contract s' = sb_contract s \<and> sb_proof s' = sb_proof s"

lemma settle_next:
  assumes "sandbox_reach s" "sb_status s k = Ready" "\<not> sb_busy s" "runner k (sb_institution s) answer = Inr (ok_run ls)"
    "NEXT_STEP k = Some n"
  obtains s' where "sandbox_reach s'" "sb_status s' n = Ready" "\<not> sb_busy s'" "same_record s s'"
  using settle_reach [OF assms(1-4)] assms(5)
  by (intro that [of "run_settled k (Inr (ok_run ls)) (run_started k s)"])
    (auto simp: run_settled_def run_started_def setStep_def ok_run_def same_record_def)

text \<open>A run that is refused still links a proof.  There is a run in which the proof step failed, its log says
  that no proof was made because the reserves are below what is owed, and the same row links the
  proof of an earlier run: \<open>Open proof #7 on Stellar\<close>.\<close>

theorem refused_run_links_older_proof:
  "\<exists>s. sandbox_reach s \<and> sb_status s Prove = step_status.Failed \<and> sb_logs s Prove = rejectedLines
     \<and> u ''Open proof #7 on Stellar'' \<in> set (texts (step_row s 3 Prove))
     \<and> links (step_row s 3 Prove) = [explorer_contract (u ''C1'')]"
proof -
  let ?i = "hd DEMO_INSTITUTIONS" and ?answer = "Inr (ok_json published_registry)"
  let ?s0 = "registry_loaded ?i (loadRegistry ?answer) sandbox_start"
  have "sandbox_step sandbox_start (Loaded ?answer) ?s0"
    by (rule sandbox_step.loaded) (simp add: sandbox_start_def)
  then have s0: "sandbox_reach ?s0" using sandbox_reach.intros by blast
  have r0: "sb_status ?s0 Connect = Ready" "\<not> sb_busy ?s0" "sb_institution ?s0 = solstice_institution"
    "jopt (sb_contract ?s0) ''contract_id'' = JStr (u ''C1'')" "jopt (sb_proof ?s0) ''chain_proof_id'' = JNum 7"
    by (simp_all add: registry_loaded_def loadRegistry_def published_registry_def nullish_def jopt_def setStep_def Let_def
        sandbox_start_def solstice_institution_def)
  have "runner Connect (sb_institution ?s0) (Inr oauth_answer) = Inr (ok_run (connectLines oauth_answer))"
    by (simp add: r0 connect_runner_def oauth_answer_def jopt_def)
  then obtain a where a: "sandbox_reach a" "sb_status a Reserves = Ready" "\<not> sb_busy a" "same_record ?s0 a"
    by (rule settle_next [OF s0 r0(1,2) _ NEXT_STEP.simps(2)])
  have "runner Reserves (sb_institution a) (Inr balances_answer) = Inr (ok_run (reservesLines [] (Some (u ''0''))))"
    by (simp add: reserves_runner_def balances_answer_def jopt_def opt_str_def)
  then obtain b where b: "sandbox_reach b" "sb_status b Prove = Ready" "\<not> sb_busy b" "same_record a b"
    by (rule settle_next [OF a(1-3) _ NEXT_STEP.simps(3)])
  let ?s = "run_settled Prove (Inr (failed_run rejectedLines)) (run_started Prove b)"
  have "runner Prove (sb_institution b) (Inr (JObj [(u ''rejected'', JBool True)])) = Inr (failed_run rejectedLines)"
    by (simp add: prove_runner_def jopt_def)
  from settle_reach [OF b(1-3) this] have "sandbox_reach ?s" .
  moreover have settled: "sb_status ?s Prove = step_status.Failed" "sb_logs ?s Prove = rejectedLines" "same_record b ?s"
    by (simp_all add: run_settled_def run_started_def setStep_def failed_run_def same_record_def Let_def)
  moreover have "jopt (sb_contract ?s) ''contract_id'' = JStr (u ''C1'')" "jopt (sb_proof ?s) ''chain_proof_id'' = JNum 7"
    using a(4) b(4) settled(3) r0(4,5) by (simp_all add: same_record_def)
  ultimately obtain s where s: "sandbox_reach s" "sb_status s Prove = step_status.Failed" "sb_logs s Prove = rejectedLines"
    "jopt (sb_contract s) ''contract_id'' = JStr (u ''C1'')" "jopt (sb_proof s) ''chain_proof_id'' = JNum 7" by blast
  then have drawn: "sb_logs s Prove \<noteq> []" "contractUrl s = Some (explorer_contract (u ''C1''))"
    "proofUrl s Prove = Some (explorer_contract (u ''C1''))"
    by (simp_all add: rejectedLines_def contractUrl_def proofUrl_def)
  have "u ''Open proof #7 on Stellar'' = u ''Open proof #'' @ show_int 7 @ u '' on Stellar''"
    by (simp add: show_int_def show_nat_small u_def)
  with drawn s(5) have "u ''Open proof #7 on Stellar'' \<in> set (texts (step_row s 3 Prove))"
    by (simp add: step_row_def step_log_def Let_def)
  moreover have "links (step_row s 3 Prove) = [explorer_contract (u ''C1'')]" using drawn by (simp add: row_links)
  ultimately show ?thesis using s(1-3) by blast
qed

end
