(* ===== verification/Passkey_Bytes.thy ===== *)
theory Passkey_Bytes
  imports Bindings
begin

text \<open>
  The byte layer of the passkey wallet (apps/web/src/lib/passkey/bytes.ts, public-key.ts):
  base64url over the platform's \<open>btoa\<close> and \<open>atob\<close>, and the extraction of the signer's
  P-256 point from a DER SubjectPublicKeyInfo or from authenticator data with its
  CBOR-encoded COSE key.  A \<open>Uint8Array\<close> is a list of naturals below 256 (\<open>bytes\<close>);
  \<open>subarray\<close> clamps as \<open>take\<close> and \<open>drop\<close> do.  The curve equation of the noble library is the
  parameter \<open>on_curve\<close>.
\<close>

unbundle bit_operations_syntax

section \<open>base64\<close>

definition b64_char :: "nat \<Rightarrow> nat" where
  "b64_char n =
     (if n < 26 then 65 + n else if n < 52 then 71 + n else if n < 62 then n - 4
      else if n = 62 then 43 else 47)"

definition b64_val :: "nat \<Rightarrow> nat option" where
  "b64_val c =
     (if 65 \<le> c \<and> c \<le> 90 then Some (c - 65)
      else if 97 \<le> c \<and> c \<le> 122 then Some (c - 71)
      else if 48 \<le> c \<and> c \<le> 57 then Some (c + 4)
      else if c = 43 then Some 62 else if c = 47 then Some 63 else None)"

fun sextets :: "nat list \<Rightarrow> nat list" where
  "sextets [] = []" |
  "sextets [a] = [a div 4, a mod 4 * 16]" |
  "sextets [a, b] = [a div 4, a mod 4 * 16 + b div 16, b mod 16 * 4]" |
  "sextets (a # b # c # r) =
     [a div 4, a mod 4 * 16 + b div 16, b mod 16 * 4 + c div 64, c mod 64] @ sextets r"

fun octets :: "nat list \<Rightarrow> nat list" where
  "octets (w # x # y # z # r) =
     [w * 4 + x div 16, x mod 16 * 16 + y div 4, y mod 4 * 64 + z] @ octets r" |
  "octets [w, x, y] = [w * 4 + x div 16, x mod 16 * 16 + y div 4]" |
  "octets [w, x] = [w * 4 + x div 16]" |
  "octets _ = []"

definition btoa :: "nat list \<Rightarrow> jstr" where
  "btoa bs = List.map b64_char (sextets bs) @ replicate ((3 - length bs mod 3) mod 3) 61"

definition atob_ws :: "nat \<Rightarrow> bool" where
  "atob_ws c \<longleftrightarrow> c \<in> {9, 10, 12, 13, 32}"

text \<open>The forgiving decoder of the platform: white space is dropped, one or two padding signs at the
  end of a multiple of four are removed, and the leftover bits of the last group are
  discarded.\<close>

definition unpad :: "jstr \<Rightarrow> jstr" where
  "unpad s =
     (if length s mod 4 = 0 \<and> s \<noteq> [] \<and> last s = 61
      then (if butlast s \<noteq> [] \<and> last (butlast s) = 61 then butlast (butlast s) else butlast s)
      else s)"

definition atob :: "jstr \<Rightarrow> nat list result" where
  "atob s0 =
     (let s = unpad (filter (\<lambda>c. \<not> atob_ws c) s0) in
      if length s mod 4 = 1 \<or> (\<exists>c \<in> set s. b64_val c = None)
      then Inl (js_error ''InvalidCharacterError'' (u ''The string to be decoded is not correctly encoded.''))
      else Inr (octets (List.map (the \<circ> b64_val) s)))"

definition toBase64Url :: "nat list \<Rightarrow> jstr" where
  "toBase64Url bs =
     rev (dropWhile (\<lambda>c. c = 61) (rev (List.map (\<lambda>c. if c = 43 then 45 else if c = 47 then 95 else c) (btoa bs))))"

definition fromBase64Url :: "jstr \<Rightarrow> nat list result" where
  "fromBase64Url v =
     (let base64 = List.map (\<lambda>c. if c = 45 then 43 else if c = 95 then 47 else c) v;
          padLength = (4 - length base64 mod 4) mod 4
      in atob (base64 @ replicate padLength 61))"

definition url_char :: "nat \<Rightarrow> nat" where
  "url_char n = (if n = 62 then 45 else if n = 63 then 95 else b64_char n)"

definition base64url_alphabet :: "nat \<Rightarrow> bool" where
  "base64url_alphabet c \<longleftrightarrow> is_digit c \<or> (65 \<le> c \<and> c \<le> 90) \<or> (97 \<le> c \<and> c \<le> 122) \<or> c = 45 \<or> c = 95"

lemma sextet_bounds:
  assumes "a < 256" "b < (256::nat)" "c < 256"
  shows "a div 4 < 64" "a mod 4 * 16 + b div 16 < 64" "b mod 16 * 4 + c div 64 < 64"
proof -
  show "a div 4 < 64" using assms(1) by (intro less_mult_imp_div_less) simp
  have "b div 16 < 16" using assms(2) by (intro less_mult_imp_div_less) simp
  moreover have "a mod 4 < 4" by simp
  ultimately show "a mod 4 * 16 + b div 16 < 64" by linarith
  have "c div 64 < 4" using assms(3) by (intro less_mult_imp_div_less) simp
  moreover have "b mod 16 < 16" by simp
  ultimately show "b mod 16 * 4 + c div 64 < 64" by linarith
qed

lemma sextets_bound: "bytes bs \<Longrightarrow> \<forall>n \<in> set (sextets bs). n < 64"
proof (induction bs rule: sextets.induct)
  case (4 a b c r)
  then show ?case using sextet_bounds [of a b c] by simp
next
  case (2 a)
  then show ?case using sextet_bounds(1,2) [of a 0 0] by simp
next
  case (3 a b)
  then show ?case using sextet_bounds [of a b 0] by simp
qed simp

lemma b64_inverse: "n < 64 \<Longrightarrow> b64_val (b64_char n) = Some n"
  by (auto simp: b64_val_def b64_char_def)

lemma octets_sextets: "bytes bs \<Longrightarrow> octets (sextets bs) = bs"
  by (induction bs rule: sextets.induct) auto

lemma length_sextets: "length (sextets bs) = (4 * length bs + 2) div 3"
  by (induction bs rule: sextets.induct) auto

lemma sextets_rest: "length (sextets bs) mod 4 \<noteq> 1"
  by (induction bs rule: sextets.induct) auto

lemma url_char_map: "n < 64 \<Longrightarrow> (if b64_char n = 43 then 45 else if b64_char n = 47 then 95 else b64_char n) = url_char n"
  by (auto simp: b64_char_def url_char_def)

lemma url_char_back: "n < 64 \<Longrightarrow> (if url_char n = 45 then 43 else if url_char n = 95 then 47 else url_char n) = b64_char n"
  by (auto simp: b64_char_def url_char_def)

lemma url_char_props: "n < 64 \<Longrightarrow> base64url_alphabet (url_char n)" "n < 64 \<Longrightarrow> url_char n \<noteq> 61"
  "n < 64 \<Longrightarrow> \<not> atob_ws (b64_char n)" "n < 64 \<Longrightarrow> b64_char n \<noteq> 61"
  by (auto simp: b64_char_def url_char_def base64url_alphabet_def is_digit_def atob_ws_def)

lemma dropWhile_replicate: "dropWhile (\<lambda>c. c = x) (replicate k x @ s) = dropWhile (\<lambda>c. c = x) s"
  by (induction k) auto

lemma toBase64Url_sextets:
  assumes "bytes bs"
  shows "toBase64Url bs = List.map url_char (sextets bs)"
proof -
  let ?f = "\<lambda>c. if c = 43 then 45 else if c = 47 then 95 else (c :: nat)"
  have b: "\<forall>n \<in> set (sextets bs). n < 64" by (rule sextets_bound [OF assms])
  then have m: "List.map ?f (List.map b64_char (sextets bs)) = List.map url_char (sextets bs)"
    unfolding map_map by (intro map_cong) (simp_all add: url_char_map)
  have "\<forall>c \<in> set (rev (List.map url_char (sextets bs))). c \<noteq> 61"
    using b url_char_props(2) by auto
  then have "dropWhile (\<lambda>c. c = 61) (rev (List.map url_char (sextets bs))) = rev (List.map url_char (sextets bs))"
    by (cases "rev (List.map url_char (sextets bs))") auto
  with m show ?thesis
    by (simp add: toBase64Url_def btoa_def dropWhile_replicate del: map_map)
qed

lemma unpad_plain: "(\<forall>c \<in> set s. c \<noteq> 61) \<Longrightarrow> unpad s = s"
  by (auto simp: unpad_def)

lemma unpad_padded:
  assumes "\<forall>c \<in> set s. c \<noteq> 61" "length s mod 4 \<noteq> 1"
  shows "unpad (s @ replicate ((4 - length s mod 4) mod 4) 61) = s"
proof -
  consider "length s mod 4 = 0" | "length s mod 4 = 2" | "length s mod 4 = 3"
    using assms(2) by (metis mod_less_divisor One_nat_def less_Suc_eq numeral_2_eq_2 numeral_3_eq_3 numeral_eq_Suc
        pred_numeral_simps(2) semiring_norm(26) semiring_norm(27) not_less_zero zero_less_numeral)
  then show ?thesis
  proof cases
    case 1
    then show ?thesis using unpad_plain [OF assms(1)] by simp
  next
    case 2
    then have "(length s + 2) mod 4 = 0" by presburger
    with 2 show ?thesis by (simp add: unpad_def numeral_2_eq_2 butlast_append)
  next
    case 3
    then have l: "(length s + 1) mod 4 = 0" and ne: "s \<noteq> []" by (presburger, auto)
    have "last s \<noteq> 61" using assms(1) ne by simp
    with 3 l ne show ?thesis by (simp add: unpad_def)
  qed
qed

lemma fromBase64Url_inverse:
  assumes "bytes bs"
  shows "fromBase64Url (toBase64Url bs) = Inr bs"
proof -
  let ?s = "List.map b64_char (sextets bs)"
  have b: "\<forall>n \<in> set (sextets bs). n < 64" by (rule sextets_bound [OF assms])
  have m: "List.map (\<lambda>c. if c = 45 then 43 else if c = 95 then 47 else c) (List.map url_char (sextets bs)) = ?s"
    using b unfolding map_map by (intro map_cong) (simp_all add: url_char_back)
  have ne: "\<forall>c \<in> set ?s. c \<noteq> 61" and ws: "\<forall>c \<in> set ?s. \<not> atob_ws c"
    using b url_char_props(3,4) by auto
  have "filter (\<lambda>c. \<not> atob_ws c) (?s @ replicate k 61) = ?s @ replicate k 61" for k
    using ws by (simp add: filter_id_conv atob_ws_def)
  moreover have "length ?s mod 4 \<noteq> 1" using sextets_rest by simp
  moreover have "List.map (the \<circ> b64_val) ?s = sextets bs" "\<forall>c \<in> set ?s. b64_val c \<noteq> None"
    using b b64_inverse by (auto intro: map_idI)
  ultimately have "atob (?s @ replicate ((4 - length ?s mod 4) mod 4) 61) = Inr (octets (sextets bs))"
    using unpad_padded [OF ne] by (auto simp: atob_def Let_def)
  then show ?thesis
    using m by (simp add: fromBase64Url_def toBase64Url_sextets [OF assms] octets_sextets [OF assms] Let_def del: map_map)
qed

interpretation base64url: codec toBase64Url "\<lambda>s. case fromBase64Url s of Inr bs \<Rightarrow> Some bs | Inl _ \<Rightarrow> None" bytes
  by unfold_locales (simp add: fromBase64Url_inverse)

text \<open>C12: Base64url is a faithful, URL-safe encoding of credential ids.  Every byte string decodes
  back from its encoding, whatever its length; the encoding uses only the unpadded URL-safe
  alphabet and has \<open>ceil (4 n / 3)\<close> characters; so distinct ids have distinct encodings.\<close>

theorem base64url_faithful:
  assumes "bytes bs"
  shows "fromBase64Url (toBase64Url bs) = Inr bs
    \<and> (\<forall>c \<in> set (toBase64Url bs). base64url_alphabet c)
    \<and> length (toBase64Url bs) = (4 * length bs + 2) div 3
    \<and> (\<forall>cs. bytes cs \<longrightarrow> toBase64Url cs = toBase64Url bs \<longrightarrow> cs = bs)"
  using fromBase64Url_inverse [OF assms] toBase64Url_sextets [OF assms] sextets_bound [OF assms]
    url_char_props(1) length_sextets base64url.enc_inj [OF _ assms] by auto

lemma base64url_faithful_witness:
  "fromBase64Url (toBase64Url [255, 254, 253, 252]) = Inr [255, 254, 253, 252]
   \<and> length (toBase64Url [255, 254, 253, 252]) = 6"
  using base64url_faithful [of "[255, 254, 253, 252]"] by simp

section \<open>public-key.ts\<close>

definition UNCOMPRESSED_POINT_LENGTH :: nat where "UNCOMPRESSED_POINT_LENGTH = 65"
definition UNCOMPRESSED_POINT_PREFIX :: nat where "UNCOMPRESSED_POINT_PREFIX = 4"

definition SPKI_P256_HEADER :: "nat list" where
  "SPKI_P256_HEADER =
     [0x30, 0x59, 0x30, 0x13, 0x06, 0x07, 0x2a, 0x86, 0x48, 0xce, 0x3d, 0x02, 0x01, 0x06, 0x08, 0x2a, 0x86, 0x48,
      0xce, 0x3d, 0x03, 0x01, 0x07, 0x03, 0x42, 0x00]"

definition plain_error :: "jstr \<Rightarrow> exn" where
  "plain_error m = js_error ''Error'' m"

definition byteAt :: "nat list \<Rightarrow> nat \<Rightarrow> nat result" where
  "byteAt buffer i =
     (if i < length buffer then Inr (buffer ! i)
      else Inl (plain_error (u ''unexpected end of buffer at index '' @ show_nat i)))"

definition validatePoint :: "(nat list \<Rightarrow> bool) \<Rightarrow> nat list \<Rightarrow> nat list result" where
  "validatePoint on_curve point =
     (if length point \<noteq> UNCOMPRESSED_POINT_LENGTH \<or> hd point \<noteq> UNCOMPRESSED_POINT_PREFIX
      then Inl (plain_error (u ''expected a 65-byte uncompressed P-256 point''))
      else if \<not> on_curve point then Inl (plain_error (u ''bad point: not on curve''))
      else Inr point)"

definition publicKeyFromSpki :: "(nat list \<Rightarrow> bool) \<Rightarrow> nat list \<Rightarrow> nat list result" where
  "publicKeyFromSpki on_curve spki =
     (let expectedLength = length SPKI_P256_HEADER + UNCOMPRESSED_POINT_LENGTH in
      if length spki \<noteq> expectedLength then
        Inl (plain_error (u ''unexpected SPKI length: got '' @ show_nat (length spki) @ u '', expected '' @ show_nat expectedLength))
      else validatePoint on_curve (drop (length SPKI_P256_HEADER) spki))"

subsection \<open>The CBOR reader\<close>

text \<open>A read takes the position and returns the value with the position after it.\<close>

datatype cbor_item = CInt int | CBytes "nat list"

definition readLength :: "nat list \<Rightarrow> nat \<Rightarrow> nat \<Rightarrow> (nat \<times> nat) result" where
  "readLength cose info pos =
     (if info < 24 then Inr (info, pos)
      else if info = 24 then bindR (byteAt cose pos) (\<lambda>b. Inr (b, pos + 1))
      else if info = 25 then
        bindR (byteAt cose pos) (\<lambda>a. bindR (byteAt cose (pos + 1)) (\<lambda>b. Inr (push_bit 8 a OR b, pos + 2)))
      else Inl (plain_error (u ''unsupported CBOR length encoding in COSE key'')))"

definition readItem :: "nat list \<Rightarrow> nat \<Rightarrow> (cbor_item \<times> nat) result" where
  "readItem cose pos =
     bindR (byteAt cose pos) (\<lambda>h.
     let majorType = drop_bit 5 h; info = h AND 0x1f; pos = pos + 1 in
     if majorType = 0 then bindR (readLength cose info pos) (\<lambda>(n, pos). Inr (CInt (int n), pos))
     else if majorType = 1 then bindR (readLength cose info pos) (\<lambda>(n, pos). Inr (CInt (- 1 - int n), pos))
     else if majorType = 2 \<or> majorType = 3 then
       bindR (readLength cose info pos) (\<lambda>(n, pos). Inr (CBytes (take n (drop pos cose)), pos + n))
     else Inl (plain_error (u ''unsupported CBOR major type '' @ show_nat majorType @ u '' in COSE key'')))"

definition coordinate :: "int \<Rightarrow> cbor_item \<Rightarrow> cbor_item \<Rightarrow> nat list option \<Rightarrow> nat list option" where
  "coordinate k label v old = (case v of CBytes b \<Rightarrow> if label = CInt k then Some b else old | CInt _ \<Rightarrow> old)"

fun read_entries ::
  "nat list \<Rightarrow> nat \<Rightarrow> nat \<Rightarrow> nat list option \<Rightarrow> nat list option \<Rightarrow> (nat list option \<times> nat list option) result" where
  "read_entries cose 0 pos x y = Inr (x, y)" |
  "read_entries cose (Suc n) pos x y =
     bindR (readItem cose pos) (\<lambda>(label, pos). bindR (readItem cose pos) (\<lambda>(v, pos).
     read_entries cose n pos (coordinate (- 2) label v x) (coordinate (- 3) label v y)))"

definition decodeCoseP256Key :: "nat list \<Rightarrow> (nat list \<times> nat list) result" where
  "decodeCoseP256Key cose =
     bindR (byteAt cose 0) (\<lambda>mapHead.
     if drop_bit 5 mapHead \<noteq> 5 then Inl (plain_error (u ''COSE key is not a CBOR map''))
     else bindR (read_entries cose (mapHead AND 0x1f) 1 None None) (\<lambda>(x, y).
       case (x, y) of
         (Some x, Some y) \<Rightarrow>
           if length x \<noteq> 32 \<or> length y \<noteq> 32 then Inl (plain_error (u ''COSE key is missing valid P-256 coordinates''))
           else Inr (x, y)
       | _ \<Rightarrow> Inl (plain_error (u ''COSE key is missing valid P-256 coordinates''))))"

definition publicKeyFromAuthenticatorData :: "(nat list \<Rightarrow> bool) \<Rightarrow> nat list \<Rightarrow> nat list result" where
  "publicKeyFromAuthenticatorData on_curve d =
     bindR (byteAt d 32) (\<lambda>flags.
     if flags AND 0x40 = 0 then Inl (plain_error (u ''authenticator data has no attested credential data''))
     else bindR (byteAt d 53) (\<lambda>hi. bindR (byteAt d 54) (\<lambda>lo.
       let credentialIdLength = push_bit 8 hi OR lo in
       bindR (decodeCoseP256Key (drop (55 + credentialIdLength) d)) (\<lambda>(x, y).
       validatePoint on_curve (UNCOMPRESSED_POINT_PREFIX # x @ y)))))"

subsection \<open>Reading what an encoder writes\<close>

lemma and_31: "(h::nat) AND 31 = h mod 32"
proof -
  have "h AND mask 5 = take_bit 5 h" by (simp add: take_bit_eq_mask)
  then show ?thesis by (simp add: mask_eq_exp_minus_1 take_bit_eq_mod)
qed

lemma shift_5: "drop_bit 5 (h::nat) = h div 32"
  by (simp add: drop_bit_eq_div)

lemma two_bytes:
  assumes "b < (256::nat)"
  shows "push_bit 8 a OR b = 256 * a + b"
proof -
  have "\<not> bit (push_bit 8 a) n \<or> \<not> bit b n" for n
  proof (cases "n < 8")
    case False
    then have "(2::nat) ^ 8 \<le> 2 ^ n" by (intro power_increasing) simp_all
    with assms have "b div 2 ^ n = 0" by simp
    then have "\<not> bit b n" by (simp add: bit_iff_odd)
    then show ?thesis by simp
  qed (simp add: bit_push_bit_iff)
  then have "push_bit 8 a OR b = push_bit 8 a + b" by (simp add: disjunctive_add)
  then show ?thesis by (simp add: push_bit_eq_mult)
qed

definition enc_head :: "nat \<Rightarrow> nat \<Rightarrow> nat list" where
  "enc_head m n =
     (if n < 24 then [32 * m + n] else if n < 256 then [32 * m + 24, n] else [32 * m + 25, n div 256, n mod 256])"

fun enc_item :: "cbor_item \<Rightarrow> nat list" where
  "enc_item (CInt i) = (if 0 \<le> i then enc_head 0 (nat i) else enc_head 1 (nat (- 1 - i)))" |
  "enc_item (CBytes b) = enc_head 2 (length b) @ b"

fun item_ok :: "cbor_item \<Rightarrow> bool" where
  "item_ok (CInt i) \<longleftrightarrow> - 65536 \<le> i \<and> i < 65536" |
  "item_ok (CBytes b) \<longleftrightarrow> length b < 65536"

lemma byteAt_append [simp]: "byteAt (pre @ b # post) (length pre) = Inr b"
  by (simp add: byteAt_def)

lemma byteAt_append' [simp]: "byteAt (pre @ a # b # post) (Suc (length pre)) = Inr b"
  by (simp add: byteAt_def nth_append)

lemma read_head:
  assumes "n < 65536"
  obtains h r where "enc_head m n = h # r" "h div 32 = m"
    "readLength (pre @ h # r @ post) (h mod 32) (Suc (length pre)) = Inr (n, Suc (length pre) + length r)"
proof -
  consider "n < 24" | "\<not> n < 24" "n < 256" | "\<not> n < 24" "\<not> n < 256" by linarith
  then show ?thesis
  proof cases
    case 1
    then show ?thesis by (intro that [of "32 * m + n" "[]"]) (simp_all add: enc_head_def readLength_def)
  next
    case 2
    have "byteAt (pre @ (32 * m + 24) # n # post) (Suc (length pre)) = Inr n" by simp
    with 2 show ?thesis
      by (intro that [of "32 * m + 24" "[n]"]) (simp_all add: enc_head_def readLength_def)
  next
    case 3
    let ?h = "32 * m + 25"
    have "byteAt (pre @ ?h # n div 256 # n mod 256 # post) (Suc (length pre)) = Inr (n div 256)"
      "byteAt (pre @ ?h # n div 256 # n mod 256 # post) (Suc (Suc (length pre))) = Inr (n mod 256)"
      by (simp_all add: byteAt_def nth_append)
    moreover have "push_bit 8 (n div 256) OR n mod 256 = n" by (subst two_bytes) simp_all
    ultimately show ?thesis using 3
      by (intro that [of ?h "[n div 256, n mod 256]"]) (simp_all add: enc_head_def readLength_def)
  qed
qed

lemma readItem_enc:
  assumes "item_ok it"
  shows "readItem (pre @ enc_item it @ post) (length pre) = Inr (it, length pre + length (enc_item it))"
proof (cases it)
  case (CInt i)
  show ?thesis
  proof (cases "0 \<le> i")
    case True
    with CInt assms have "nat i < 65536" by simp
    then obtain h r where "enc_head 0 (nat i) = h # r" "h div 32 = 0"
      "readLength (pre @ h # r @ post) (h mod 32) (Suc (length pre)) = Inr (nat i, Suc (length pre) + length r)"
      by (rule read_head)
    with CInt True show ?thesis by (simp add: readItem_def and_31 shift_5 Let_def)
  next
    case False
    with CInt assms have "nat (- 1 - i) < 65536" by simp
    then obtain h r where "enc_head 1 (nat (- 1 - i)) = h # r" "h div 32 = 1"
      "readLength (pre @ h # r @ post) (h mod 32) (Suc (length pre)) = Inr (nat (- 1 - i), Suc (length pre) + length r)"
      by (rule read_head)
    with CInt False show ?thesis by (simp add: readItem_def and_31 shift_5 Let_def)
  qed
next
  case (CBytes b)
  with assms have "length b < 65536" by simp
  then obtain h r where "enc_head 2 (length b) = h # r" "h div 32 = 2"
    "readLength (pre @ h # r @ (b @ post)) (h mod 32) (Suc (length pre)) = Inr (length b, Suc (length pre) + length r)"
    by (rule read_head)
  with CBytes show ?thesis by (simp add: readItem_def and_31 shift_5 Let_def)
qed

definition enc_entries :: "(cbor_item \<times> cbor_item) list \<Rightarrow> nat list" where
  "enc_entries es = concat (List.map (\<lambda>(l, v). enc_item l @ enc_item v) es)"

definition coord_of :: "int \<Rightarrow> (cbor_item \<times> cbor_item) list \<Rightarrow> nat list option \<Rightarrow> nat list option" where
  "coord_of k es old = fold (\<lambda>(l, v). coordinate k l v) es old"

lemma read_entries_enc:
  "\<forall>(l, v) \<in> set es. item_ok l \<and> item_ok v \<Longrightarrow>
   read_entries (pre @ enc_entries es @ post) (length es) (length pre) x y
     = Inr (coord_of (- 2) es x, coord_of (- 3) es y)"
proof (induction es arbitrary: pre x y)
  case (Cons e es)
  obtain l v where e: "e = (l, v)" by (cases e)
  with Cons.prems have ok: "item_ok l" "item_ok v" "\<forall>(l, v) \<in> set es. item_ok l \<and> item_ok v" by auto
  let ?c = "pre @ enc_item l @ enc_item v @ enc_entries es @ post"
  have "readItem ?c (length pre) = Inr (l, length pre + length (enc_item l))"
    by (rule readItem_enc [OF ok(1)])
  moreover have "readItem ?c (length pre + length (enc_item l))
      = Inr (v, length pre + length (enc_item l) + length (enc_item v))"
    using readItem_enc [OF ok(2), of "pre @ enc_item l" "enc_entries es @ post"] by simp
  moreover have "read_entries ?c (length es) (length pre + length (enc_item l) + length (enc_item v)) x' y'
      = Inr (coord_of (- 2) es x', coord_of (- 3) es y')" for x' y'
    using Cons.IH [OF ok(3), of "pre @ enc_item l @ enc_item v" x' y'] by (simp add: add.assoc)
  ultimately show ?case
    by (simp add: e enc_entries_def coord_of_def)
qed (simp add: enc_entries_def coord_of_def)

definition enc_cose :: "(cbor_item \<times> cbor_item) list \<Rightarrow> nat list" where
  "enc_cose es = (160 + length es) # enc_entries es"

lemma decode_enc_cose:
  assumes "\<forall>(l, v) \<in> set es. item_ok l \<and> item_ok v" "length es < 24"
    "coord_of (- 2) es None = Some x" "coord_of (- 3) es None = Some y" "length x = 32" "length y = 32"
  shows "decodeCoseP256Key (enc_cose es @ post) = Inr (x, y)"
proof -
  have "(160 + length es) div 32 = 5" "(160 + length es) mod 32 = length es"
    using assms(2) by (simp_all add: div_eq_dividend_iff mod_if)
  moreover have "read_entries ((160 + length es) # enc_entries es @ post) (length es) 1 None None = Inr (Some x, Some y)"
    using read_entries_enc [OF assms(1), of "[160 + length es]" post None None] assms(3,4) by simp
  ultimately show ?thesis
    using assms(5,6) by (simp add: decodeCoseP256Key_def enc_cose_def byteAt_def and_31 shift_5)
qed

subsection \<open>The signer's key\<close>

definition attested_data :: "nat list \<Rightarrow> nat \<Rightarrow> nat list \<Rightarrow> nat list \<Rightarrow> nat list \<Rightarrow> nat list \<Rightarrow> nat list" where
  "attested_data rpIdHash flags signCount aaguid cid cose =
     rpIdHash @ [flags] @ signCount @ aaguid @ [length cid div 256, length cid mod 256] @ cid @ cose"

lemma attested_layout:
  assumes "length rpIdHash = 32" "length signCount = 4" "length aaguid = 16"
  shows "byteAt (attested_data rpIdHash flags signCount aaguid cid cose) 32 = Inr flags"
    "byteAt (attested_data rpIdHash flags signCount aaguid cid cose) 53 = Inr (length cid div 256)"
    "byteAt (attested_data rpIdHash flags signCount aaguid cid cose) 54 = Inr (length cid mod 256)"
    "drop (55 + length cid) (attested_data rpIdHash flags signCount aaguid cid cose) = cose"
proof -
  let ?P = "rpIdHash @ [flags] @ signCount @ aaguid @ [length cid div 256, length cid mod 256] @ cid"
  have "length ?P = 55 + length cid" using assms by simp
  moreover have "attested_data rpIdHash flags signCount aaguid cid cose = ?P @ cose"
    by (simp add: attested_data_def)
  ultimately show "drop (55 + length cid) (attested_data rpIdHash flags signCount aaguid cid cose) = cose"
    by (metis append_eq_conv_conj)
qed (use assms in \<open>simp_all add: attested_data_def byteAt_def nth_append\<close>)

lemma validatePoint_Inr: "validatePoint on_curve p = Inr k \<longleftrightarrow>
    k = p \<and> length p = 65 \<and> hd p = 4 \<and> on_curve p"
  by (auto simp: validatePoint_def UNCOMPRESSED_POINT_LENGTH_def UNCOMPRESSED_POINT_PREFIX_def)

text \<open>Both shapes of an attestation give the same key.  For a point \<open>(x, y)\<close> on the curve, the
  key is read out of authenticator data laid out as the specification says (32 bytes of RP
  hash, flags with the attested bit, counter, AAGUID, a credential id of any length below
  2^16, then a COSE map of fewer than 24 entries in any order whose last byte-string entries
  for labels -2 and -3 are \<open>x\<close> and \<open>y\<close>, then anything), and the same 65 bytes are read out of
  the SubjectPublicKeyInfo of that point.\<close>

theorem public_key_shapes_agree:
  assumes "length rpIdHash = 32" "length signCount = 4" "length aaguid = 16" "length cid < 65536"
    and "flags AND 0x40 \<noteq> 0"
    and "\<forall>(l, v) \<in> set es. item_ok l \<and> item_ok v" "length es < 24"
    and "coord_of (- 2) es None = Some x" "coord_of (- 3) es None = Some y" "length x = 32" "length y = 32"
    and "on_curve (4 # x @ y)"
  shows "publicKeyFromAuthenticatorData on_curve
      (attested_data rpIdHash flags signCount aaguid cid (enc_cose es @ extensions)) = Inr (4 # x @ y)
    \<and> publicKeyFromSpki on_curve (SPKI_P256_HEADER @ 4 # x @ y) = Inr (4 # x @ y)"
proof
  have "push_bit 8 (length cid div 256) OR length cid mod 256 = length cid"
    by (subst two_bytes) simp_all
  then show "publicKeyFromAuthenticatorData on_curve
      (attested_data rpIdHash flags signCount aaguid cid (enc_cose es @ extensions)) = Inr (4 # x @ y)"
    using attested_layout [OF assms(1-3), where flags = flags and cid = cid and cose = "enc_cose es @ extensions"] assms(5)
      decode_enc_cose [OF assms(6-11), of extensions] assms(10-12)
    by (simp add: publicKeyFromAuthenticatorData_def UNCOMPRESSED_POINT_PREFIX_def validatePoint_Inr)
  show "publicKeyFromSpki on_curve (SPKI_P256_HEADER @ 4 # x @ y) = Inr (4 # x @ y)"
    using assms(10-12)
    by (simp add: publicKeyFromSpki_def SPKI_P256_HEADER_def UNCOMPRESSED_POINT_LENGTH_def validatePoint_Inr)
qed

lemma public_key_shapes_agree_witness:
  "publicKeyFromAuthenticatorData (\<lambda>_. True)
     (attested_data (replicate 32 0) 64 (replicate 4 0) (replicate 16 0) [9]
       (enc_cose [(CInt 1, CInt 2), (CInt (- 3), CBytes (replicate 32 2)), (CInt (- 2), CBytes (replicate 32 1))] @ []))
     = Inr (4 # replicate 32 1 @ replicate 32 2)
   \<and> publicKeyFromSpki (\<lambda>_. True) (SPKI_P256_HEADER @ 4 # replicate 32 1 @ replicate 32 2)
     = Inr (4 # replicate 32 1 @ replicate 32 2)"
  by (rule public_key_shapes_agree) (simp_all add: coord_of_def coordinate_def)

text \<open>Whatever the authenticator returns, a key that is accepted is a 65-byte uncompressed point
  that passed the curve check; authenticator data without the attested-credential flag, and
  blobs of another length than the 91 bytes of a P-256 SubjectPublicKeyInfo, are always
  rejected.  Authenticator data too short to hold the credential id's length is rejected too.\<close>

theorem accepted_keys_are_points:
  "(publicKeyFromSpki on_curve d = Inr k \<or> publicKeyFromAuthenticatorData on_curve d = Inr k \<longrightarrow>
      length k = 65 \<and> hd k = 4 \<and> on_curve k)
   \<and> (length d \<noteq> 91 \<longrightarrow> (\<exists>e. publicKeyFromSpki on_curve d = Inl e))
   \<and> (length d < 55 \<or> (d ! 32) AND 0x40 = 0 \<longrightarrow> (\<exists>e. publicKeyFromAuthenticatorData on_curve d = Inl e))"
proof (intro conjI impI)
  assume "publicKeyFromSpki on_curve d = Inr k \<or> publicKeyFromAuthenticatorData on_curve d = Inr k"
  then obtain p where "validatePoint on_curve p = Inr k"
    by (auto simp: publicKeyFromSpki_def publicKeyFromAuthenticatorData_def Let_def result_simps split: if_splits)
  then show "length k = 65" "hd k = 4" "on_curve k" by (simp_all add: validatePoint_Inr)
next
  assume "length d \<noteq> 91"
  then show "\<exists>e. publicKeyFromSpki on_curve d = Inl e"
    by (simp add: publicKeyFromSpki_def SPKI_P256_HEADER_def UNCOMPRESSED_POINT_LENGTH_def Let_def)
next
  assume "length d < 55 \<or> (d ! 32) AND 0x40 = 0"
  then show "\<exists>e. publicKeyFromAuthenticatorData on_curve d = Inl e"
    by (auto simp add: publicKeyFromAuthenticatorData_def byteAt_def)
qed

lemma accepted_keys_are_points_witness:
  "\<exists>e. publicKeyFromSpki (\<lambda>_. True) [] = Inl e"
  using accepted_keys_are_points [of "\<lambda>_. True" "[]" "[]"] by simp

end
