(* ===== verification/Passkey_Wallet.thy ===== *)
theory Passkey_Wallet
  imports Passkey_Bytes
begin

text \<open>
  The smart wallet behind a passkey (apps/web/src/lib/passkey: address.ts, challenge.ts,
  encoder.ts, wallet-state.ts, config.ts, session.ts, tx.ts, wallet.ts, signer.ts, provision.ts).
  XDR values are the datatypes below; what \<open>@stellar/stellar-stellar_sdk\<close> computes on them (hashing,
  serialisation, address codecs, key pairs) and what the RPC server, friendbot and the user's
  authenticator answer are the fields of \<open>stellar_sdk\<close>.  An answer is a function of the whole log of
  calls, so that nothing is assumed about the network, and may be an exception.
\<close>

section \<open>XDR values\<close>

datatype sc_val =
    ScSymbol jstr
  | ScBytes "nat list"
  | ScVec "sc_val list"
  | ScMap "(sc_val \<times> sc_val) list"
  | ScVoid
  | ScLedgerKeyContractInstance

datatype durability = Persistent | Temporary

type_synonym sc_address = "nat list"

record ledger_key =
  lk_contract :: sc_address
  lk_key :: sc_val
  lk_durability :: durability

record contract_id_preimage =
  cp_networkId :: "nat list"
  cp_address :: sc_address
  cp_salt :: "nat list"

text \<open>An invocation is identified with its serialisation.\<close>

type_synonym invocation = "nat list"

record authorization_preimage =
  ap_networkId :: "nat list"
  ap_nonce :: int
  ap_signatureExpirationLedger :: int
  ap_invocation :: invocation

record address_credentials =
  ac_address :: sc_address
  ac_nonce :: int
  ac_signatureExpirationLedger :: int
  ac_signature :: sc_val

datatype credentials = SourceAccount | AddressCredentials address_credentials

record auth_entry =
  ae_credentials :: credentials
  ae_rootInvocation :: invocation

text \<open>The signer of a wallet, as the generated bindings type it: expiration and limits are
  one-field tuples of options, and a limit maps a contract to the keys that must co-sign.\<close>

datatype signer_key = PolicyKey jstr | Ed25519Key "nat list" | Secp256r1Key "nat list"

type_synonym signer_expiration = "int option"
type_synonym signer_limits = "(jstr \<times> signer_key list option) list option"

datatype wallet_signer =
    PolicySigner jstr signer_expiration signer_limits durability
  | Ed25519Signer "nat list" signer_expiration signer_limits durability
  | Secp256r1Signer "nat list" "nat list" signer_expiration signer_limits durability

record account =
  acc_id :: jstr
  acc_sequence :: int

datatype host_function = InvokeContract sc_address jstr "sc_val list"

record operation =
  op_func :: host_function
  op_auth :: "auth_entry list"

record transaction =
  tx_account :: account
  tx_fee :: jstr
  tx_networkPassphrase :: jstr
  tx_operation :: operation
  tx_timeout :: nat
  tx_signatures :: "jstr list"

datatype send_status = SendPending | SendDuplicate | SendTryAgain | SendError

record send_response =
  sr_status :: send_status
  sr_hash :: jstr
  sr_errorText :: jstr

datatype tx_status = TxSuccess | TxFailed | TxNotFound

datatype simulation = SimError jstr | SimResult "auth_entry list option"

record deploy_args =
  da_signer :: wallet_signer
  da_rpcUrl :: jstr
  da_networkPassphrase :: jstr
  da_wasmHash :: jstr
  da_salt :: "nat list"
  da_publicKey :: jstr
  da_fee :: jstr
  da_timeoutInSeconds :: nat

record assertion =
  as_credentialId :: "nat list"
  as_credentialIdBase64Url :: jstr
  as_authenticatorData :: "nat list"
  as_clientDataJSON :: "nat list"
  as_sig :: "nat list"
  as_signedDigest :: "nat list"

section \<open>config.ts\<close>

definition WALLET_RPC_URL :: jstr where "WALLET_RPC_URL = u ''https://soroban-testnet.stellar.org''"
definition NETWORK_PASSPHRASE :: jstr where "NETWORK_PASSPHRASE = u ''Test SDF Network ; September 2015''"
definition WALLET_WASM_HASH :: jstr where
  "WALLET_WASM_HASH = u ''8991e3262e6099e2a18acb3583af4d9d1da886403609e7170467df4337450dca''"
definition NATIVE_SAC :: jstr where "NATIVE_SAC = u ''CDLZFC3SYJYDZT7K67VZ75HPJVIEUVNIXF47ZG2FB2RMQQVU2HHGCYSC''"
definition EXPLORER :: jstr where "EXPLORER = u ''https://stellar.expert/explorer/testnet''"

section \<open>The SDK and the network\<close>

datatype wallet_call =
    GetAccount jstr
  | GetContractData jstr sc_val durability
  | BuildDeploy deploy_args
  | SignAndSend deploy_args
  | Prepare transaction
  | Send transaction
  | GetTransaction jstr
  | Simulate transaction
  | GetLatestLedger
  | GetLedgerEntries ledger_key
  | SignPayload "nat list"
  | Phase jstr
  | Sleep nat

type_synonym wallet_log = "wallet_call event list"

text \<open>A key pair is identified with its secret; \<open>sk_public\<close> is its address.\<close>

record stellar_sdk =
  sk_hash :: "nat list \<Rightarrow> nat list"
  sk_utf8 :: "jstr \<Rightarrow> nat list"
  sk_scAddress :: "jstr \<Rightarrow> sc_address result"
  sk_contract :: "jstr \<Rightarrow> sc_address result"
  sk_contractIdXdr :: "contract_id_preimage \<Rightarrow> nat list"
  sk_authorizationXdr :: "authorization_preimage \<Rightarrow> nat list"
  sk_encodeContract :: "nat list \<Rightarrow> jstr"
  sk_decodeEd25519 :: "jstr \<Rightarrow> nat list result"
  sk_addSignerArgs :: "wallet_signer \<Rightarrow> sc_val list result"
  sk_public :: "jstr \<Rightarrow> jstr"
  sk_fromSecret :: "jstr \<Rightarrow> jstr result"
  sk_random :: "wallet_log \<Rightarrow> jstr"
  sk_storageReads :: "wallet_log \<Rightarrow> bool"
  sk_storageWrites :: "wallet_log \<Rightarrow> bool"
  sk_fetch :: "wallet_call http_net"
  sk_getAccount :: "wallet_log \<Rightarrow> jstr \<Rightarrow> account result"
  sk_getContractData :: "wallet_log \<Rightarrow> jstr \<Rightarrow> unit result"
  sk_deploy :: "wallet_log \<Rightarrow> deploy_args \<Rightarrow> unit result"
  sk_signAndSend :: "wallet_log \<Rightarrow> deploy_args \<Rightarrow> unit result"
  sk_prepare :: "wallet_log \<Rightarrow> transaction \<Rightarrow> transaction result"
  sk_send :: "wallet_log \<Rightarrow> transaction \<Rightarrow> send_response result"
  sk_getTransaction :: "wallet_log \<Rightarrow> jstr \<Rightarrow> tx_status result"
  sk_simulate :: "wallet_log \<Rightarrow> transaction \<Rightarrow> simulation result"
  sk_latestLedger :: "wallet_log \<Rightarrow> int result"
  sk_ledgerEntries :: "wallet_log \<Rightarrow> ledger_key \<Rightarrow> ledger_key list result"
  sk_signPayload :: "wallet_log \<Rightarrow> nat list \<Rightarrow> assertion result"

record session =
  se_keypair :: jstr
  se_publicKey :: jstr

text \<open>The page: the log, the module variable \<open>sessionPromise\<close> (once settled) and the item of
  \<open>localStorage\<close> that holds the deployer's secret.\<close>

record page = "wallet_call world" +
  pg_sessionPromise :: "session result option"
  pg_stored :: "jstr option"

definition ask :: "(wallet_log \<Rightarrow> 'a result) \<Rightarrow> wallet_call \<Rightarrow> (page, 'a) comp" where
  "ask answer c = bindM getM (\<lambda>s. bindM (logM (Call c)) (\<lambda>_. liftR (answer (w_log s))))"

definition sleep :: "nat \<Rightarrow> (page, unit) comp" where
  "sleep ms = logM (Call (Sleep ms))"

lemma ask_eval [comp_simps]: "ask answer c s = (answer (w_log s), s\<lparr>w_log := w_log s @ [Call c]\<rparr>)"
  by (simp add: ask_def logM_def bindM_def comp_eval)

lemma sleep_eval [comp_simps]: "sleep ms s = (Inr (), s\<lparr>w_log := w_log s @ [Call (Sleep ms)]\<rparr>)"
  by (simp add: sleep_def logM_def comp_eval)

lemma keeps_ask [keeps_rules]:
  "(\<And>s. I s \<Longrightarrow> I (s\<lparr>w_log := w_log s @ [Call c]\<rparr>)) \<Longrightarrow> keeps I (ask answer c)"
  "(\<And>s. I s \<Longrightarrow> I (s\<lparr>w_log := w_log s @ [Call (Sleep ms)]\<rparr>)) \<Longrightarrow> keeps I (sleep ms)"
  by (simp_all add: keeps_def comp_simps)

section \<open>address.ts, challenge.ts, encoder.ts\<close>

definition deriveWalletAddress :: "stellar_sdk \<Rightarrow> jstr \<Rightarrow> nat list \<Rightarrow> jstr \<Rightarrow> jstr result" where
  "deriveWalletAddress k deployer keyId networkPassphrase =
     (let networkId = sk_hash k (sk_utf8 k networkPassphrase) in
      bindR (sk_scAddress k deployer) (\<lambda>address.
      Inr (sk_encodeContract k (sk_hash k (sk_contractIdXdr k
        \<lparr>cp_networkId = networkId, cp_address = address, cp_salt = sk_hash k keyId\<rparr>)))))"

definition authorizationPayload :: "stellar_sdk \<Rightarrow> jstr \<Rightarrow> int \<Rightarrow> int \<Rightarrow> invocation \<Rightarrow> nat list" where
  "authorizationPayload k networkPassphrase nonce signatureExpirationLedger invocation =
     sk_hash k (sk_authorizationXdr k
       \<lparr>ap_networkId = sk_hash k (sk_utf8 k networkPassphrase), ap_nonce = nonce,
        ap_signatureExpirationLedger = signatureExpirationLedger, ap_invocation = invocation\<rparr>)"

definition payloadForAuthEntry :: "stellar_sdk \<Rightarrow> auth_entry \<Rightarrow> jstr \<Rightarrow> nat list result" where
  "payloadForAuthEntry k entry networkPassphrase =
     (case ae_credentials entry of
        AddressCredentials a \<Rightarrow>
          Inr (authorizationPayload k networkPassphrase (ac_nonce a) (ac_signatureExpirationLedger a)
                 (ae_rootInvocation entry))
      | SourceAccount \<Rightarrow> Inl (plain_error (u ''authorization entry does not use address credentials'')))"

definition mapEntry :: "string \<Rightarrow> nat list \<Rightarrow> sc_val \<times> sc_val" where
  "mapEntry symbol bs = (ScSymbol (u symbol), ScBytes bs)"

definition passkeyKitSignatureScVal :: "nat list \<Rightarrow> nat list \<Rightarrow> nat list \<Rightarrow> nat list \<Rightarrow> sc_val" where
  "passkeyKitSignatureScVal credentialId authenticatorData clientDataJSON signature_bytes =
     (let signerKey = ScVec [ScSymbol (u ''Secp256r1''), ScBytes credentialId];
          signatureStruct = ScMap [mapEntry ''authenticator_data'' authenticatorData,
                                   mapEntry ''client_data_json'' clientDataJSON,
                                   mapEntry ''signature'' signature_bytes];
          sig_val = ScVec [ScSymbol (u ''Secp256r1''), signatureStruct]
      in ScVec [ScMap [(signerKey, sig_val)]])"

text \<open>The arm of the union that an entry without address credentials does not have throws.\<close>

definition on_address :: "(address_credentials \<Rightarrow> address_credentials) \<Rightarrow> auth_entry \<Rightarrow> auth_entry result" where
  "on_address f entry =
     (case ae_credentials entry of
        AddressCredentials a \<Rightarrow> Inr (entry\<lparr>ae_credentials := AddressCredentials (f a)\<rparr>)
      | SourceAccount \<Rightarrow> Inl (js_error ''TypeError'' (u ''address not set'')))"

definition attachSignatureToEntry :: "auth_entry \<Rightarrow> sc_val \<Rightarrow> auth_entry result" where
  "attachSignatureToEntry entry sig_val = on_address (\<lambda>a. a\<lparr>ac_signature := sig_val\<rparr>) entry"

section \<open>wallet-state.ts\<close>

definition secp256r1SignerLedgerKey :: "stellar_sdk \<Rightarrow> jstr \<Rightarrow> nat list \<Rightarrow> ledger_key result" where
  "secp256r1SignerLedgerKey k walletAddress credentialId =
     bindR (sk_scAddress k walletAddress) (\<lambda>a.
     Inr \<lparr>lk_contract = a, lk_key = ScVec [ScSymbol (u ''Secp256r1''), ScBytes credentialId],
          lk_durability = Persistent\<rparr>)"

definition contractInstanceLedgerKey :: "stellar_sdk \<Rightarrow> jstr \<Rightarrow> ledger_key result" where
  "contractInstanceLedgerKey k walletAddress =
     bindR (sk_scAddress k walletAddress) (\<lambda>a.
     Inr \<lparr>lk_contract = a, lk_key = ScLedgerKeyContractInstance, lk_durability = Persistent\<rparr>)"

definition reader_lookup :: "stellar_sdk \<Rightarrow> ledger_key result \<Rightarrow> (page, bool) comp" where
  "reader_lookup k lk =
     bindM (liftR lk) (\<lambda>key.
     bindM (ask (\<lambda>l. sk_ledgerEntries k l key) (GetLedgerEntries key)) (\<lambda>entries. retM (entries \<noteq> [])))"

definition reader_contractExists :: "stellar_sdk \<Rightarrow> jstr \<Rightarrow> (page, bool) comp" where
  "reader_contractExists k walletAddress = reader_lookup k (contractInstanceLedgerKey k walletAddress)"

definition reader_hasSecp256r1Signer :: "stellar_sdk \<Rightarrow> jstr \<Rightarrow> nat list \<Rightarrow> (page, bool) comp" where
  "reader_hasSecp256r1Signer k walletAddress credentialId =
     reader_lookup k (secp256r1SignerLedgerKey k walletAddress credentialId)"

section \<open>session.ts\<close>

definition restore :: "stellar_sdk \<Rightarrow> (page, jstr option) comp" where
  "restore k =
     bindM getM (\<lambda>s.
     if \<not> sk_storageReads k (w_log s) then retM None
     else case pg_stored s of
         None \<Rightarrow> retM None
       | Some secret \<Rightarrow>
           if secret = [] then retM None
           else retM (case sk_fromSecret k secret of Inl _ \<Rightarrow> None | Inr kp \<Rightarrow> Some kp))"

definition persist :: "stellar_sdk \<Rightarrow> jstr \<Rightarrow> (page, unit) comp" where
  "persist k keypair =
     modM (\<lambda>s. if sk_storageWrites k (w_log s) then s\<lparr>pg_stored := Some keypair\<rparr> else s)"

definition friendbot_request :: "jstr \<Rightarrow> http_request" where
  "friendbot_request publicKey =
     \<lparr>rq_method = u ''GET'', rq_url = u ''https://friendbot.stellar.org?addr='' @ publicKey, rq_headers = [], rq_body = None\<rparr>"

fun fund_attempts :: "stellar_sdk \<Rightarrow> session \<Rightarrow> nat \<Rightarrow> nat \<Rightarrow> (page, session) comp" where
  "fund_attempts k se attempt 0 =
     throwM (plain_error (u ''Could not fund the deployer account via friendbot. Try again.''))" |
  "fund_attempts k se attempt (Suc left_over) =
     bindM (catchM
       (bindM (fetchM (sk_fetch k) (friendbot_request (se_publicKey se))) (\<lambda>res.
        if res_ok res then bindM (persist k (se_keypair se)) (\<lambda>_. retM (Some se)) else retM None))
       (\<lambda>_. retM None)) (\<lambda>r.
     case r of
       Some se \<Rightarrow> retM se
     | None \<Rightarrow> bindM (sleep (1500 * attempt)) (\<lambda>_. fund_attempts k se (attempt + 1) left_over))"

definition createSession :: "stellar_sdk \<Rightarrow> (page, session) comp" where
  "createSession k =
     bindM (restore k) (\<lambda>restored. bindM getM (\<lambda>s.
     let keypair = (case restored of Some kp \<Rightarrow> kp | None \<Rightarrow> sk_random k (w_log s));
         publicKey = sk_public k keypair;
         se = \<lparr>se_keypair = keypair, se_publicKey = publicKey\<rparr>
     in bindM (catchM
          (bindM (ask (\<lambda>l. sk_getAccount k l publicKey) (GetAccount publicKey)) (\<lambda>_.
           bindM (persist k keypair) (\<lambda>_. retM (Some se))))
          (\<lambda>_. retM None)) (\<lambda>r.
        case r of Some se \<Rightarrow> retM se | None \<Rightarrow> fund_attempts k se 1 3)))"

text \<open>\<open>getSession\<close> hands out the one promise of the module: the first call settles it, every later
  call gets what it settled to, a rejection included.\<close>

definition getSession :: "stellar_sdk \<Rightarrow> (page, session) comp" where
  "getSession k s =
     (case pg_sessionPromise s of
        Some r \<Rightarrow> (r, s)
      | None \<Rightarrow> (case createSession k s of (r, s') \<Rightarrow> (r, s'\<lparr>pg_sessionPromise := Some r\<rparr>)))"

section \<open>tx.ts\<close>

definition buildTx :: "stellar_sdk \<Rightarrow> session \<Rightarrow> operation \<Rightarrow> (page, transaction) comp" where
  "buildTx k se op =
     bindM (ask (\<lambda>l. sk_getAccount k l (se_publicKey se)) (GetAccount (se_publicKey se))) (\<lambda>acc.
     retM \<lparr>tx_account = acc, tx_fee = u ''10000000'', tx_networkPassphrase = NETWORK_PASSPHRASE,
           tx_operation = op, tx_timeout = 300, tx_signatures = []\<rparr>)"

definition sign :: "stellar_sdk \<Rightarrow> jstr \<Rightarrow> transaction \<Rightarrow> transaction" where
  "sign k keypair tx = tx\<lparr>tx_signatures := tx_signatures tx @ [sk_public k keypair]\<rparr>"

fun await_settled :: "stellar_sdk \<Rightarrow> jstr \<Rightarrow> nat \<Rightarrow> (page, jstr) comp" where
  "await_settled k h 0 = throwM (plain_error (u ''the transaction did not settle in time''))" |
  "await_settled k h (Suc n) =
     bindM (sleep 2000) (\<lambda>_.
     bindM (ask (\<lambda>l. sk_getTransaction k l h) (GetTransaction h)) (\<lambda>got.
     if got = TxSuccess then retM h
     else if got = TxFailed then throwM (plain_error (u ''the transaction failed on-chain''))
     else await_settled k h n))"

definition prepareSignSubmit :: "stellar_sdk \<Rightarrow> session \<Rightarrow> transaction \<Rightarrow> (page, jstr) comp" where
  "prepareSignSubmit k se tx =
     bindM (ask (\<lambda>l. sk_prepare k l tx) (Prepare tx)) (\<lambda>prepared.
     let ready = sign k (se_keypair se) prepared in
     bindM (ask (\<lambda>l. sk_send k l ready) (Send ready)) (\<lambda>sent.
     if sr_status sent = SendError
     then throwM (plain_error (u ''submission rejected: '' @ sr_errorText sent))
     else await_settled k (sr_hash sent) 90))"

section \<open>wallet.ts, provision.ts\<close>

definition walletAddressFor :: "stellar_sdk \<Rightarrow> session \<Rightarrow> nat list \<Rightarrow> jstr result" where
  "walletAddressFor k se credentialId = deriveWalletAddress k (se_publicKey se) credentialId NETWORK_PASSPHRASE"

definition contractExists :: "stellar_sdk \<Rightarrow> jstr \<Rightarrow> (page, bool) comp" where
  "contractExists k contractId =
     catchM
       (bindM (ask (\<lambda>l. sk_getContractData k l contractId)
                 (GetContractData contractId ScLedgerKeyContractInstance Persistent)) (\<lambda>_. retM True))
       (\<lambda>_. retM False)"

record deploy_result =
  dr_walletAddress :: jstr
  dr_deployed :: bool

fun await_contract :: "stellar_sdk \<Rightarrow> jstr \<Rightarrow> nat \<Rightarrow> (page, deploy_result) comp" where
  "await_contract k walletAddress 0 =
     throwM (plain_error (u ''Wallet deployment has not confirmed yet. Testnet may be busy; try again.''))" |
  "await_contract k walletAddress (Suc n) =
     bindM (contractExists k walletAddress) (\<lambda>b.
     if b then retM \<lparr>dr_walletAddress = walletAddress, dr_deployed = True\<rparr>
     else bindM (sleep 2000) (\<lambda>_. await_contract k walletAddress n))"

definition deploy_options :: "stellar_sdk \<Rightarrow> session \<Rightarrow> nat list \<Rightarrow> nat list \<Rightarrow> deploy_args" where
  "deploy_options k se credentialId publicKey =
     \<lparr>da_signer = Secp256r1Signer credentialId publicKey None None Persistent,
      da_rpcUrl = WALLET_RPC_URL, da_networkPassphrase = NETWORK_PASSPHRASE, da_wasmHash = WALLET_WASM_HASH,
      da_salt = sk_hash k credentialId, da_publicKey = se_publicKey se, da_fee = u ''1000000'',
      da_timeoutInSeconds = 120\<rparr>"

definition deployWallet :: "stellar_sdk \<Rightarrow> session \<Rightarrow> nat list \<Rightarrow> nat list \<Rightarrow> (page, deploy_result) comp" where
  "deployWallet k se credentialId publicKey =
     bindM (liftR (walletAddressFor k se credentialId)) (\<lambda>walletAddress.
     bindM (contractExists k walletAddress) (\<lambda>b.
     if b then retM \<lparr>dr_walletAddress = walletAddress, dr_deployed = False\<rparr>
     else
       let args = deploy_options k se credentialId publicKey in
       bindM (ask (\<lambda>l. sk_deploy k l args) (BuildDeploy args)) (\<lambda>_.
       bindM (catchM (ask (\<lambda>l. sk_signAndSend k l args) (SignAndSend args)) (\<lambda>_. retM ())) (\<lambda>_.
       await_contract k walletAddress 45))))"

record provision_result =
  pr_contractAddress :: jstr
  pr_deployed :: bool

definition provisionWallet :: "stellar_sdk \<Rightarrow> nat list \<Rightarrow> nat list \<Rightarrow> (page, provision_result) comp" where
  "provisionWallet k credentialId publicKey =
     bindM (getSession k) (\<lambda>se.
     bindM (deployWallet k se credentialId publicKey) (\<lambda>d.
     retM \<lparr>pr_contractAddress = dr_walletAddress d, pr_deployed = dr_deployed d\<rparr>))"

section \<open>signer.ts\<close>

definition orchestrator_signer :: "nat list \<Rightarrow> jstr \<Rightarrow> wallet_signer" where
  "orchestrator_signer pubKey registryContract =
     Ed25519Signer pubKey None (Some [(registryContract, None)]) Persistent"

definition phase :: "string \<Rightarrow> (page, unit) comp" where
  "phase p = logM (Call (Phase (u p)))"

definition addOrchestratorSigner :: "stellar_sdk \<Rightarrow> session \<Rightarrow> jstr \<Rightarrow> jstr \<Rightarrow> jstr \<Rightarrow> (page, jstr) comp" where
  "addOrchestratorSigner k se walletAddress orchestratorAddress registryContract =
     bindM (liftR (sk_decodeEd25519 k orchestratorAddress)) (\<lambda>pubKey.
     bindM (liftR (sk_addSignerArgs k (orchestrator_signer pubKey registryContract))) (\<lambda>callArgs.
     bindM (liftR (sk_contract k walletAddress)) (\<lambda>wallet.
     let func = InvokeContract wallet (u ''add_signer'') callArgs in
     bindM (buildTx k se \<lparr>op_func = func, op_auth = []\<rparr>) (\<lambda>unsignedTx.
     bindM (phase ''simulate'') (\<lambda>_.
     bindM (ask (\<lambda>l. sk_simulate k l unsignedTx) (Simulate unsignedTx)) (\<lambda>sim.
     case sim of
       SimError err \<Rightarrow> throwM (plain_error (u ''simulation failed: '' @ err))
     | SimResult auth \<Rightarrow>
         (case auth of
            Some (entry # _) \<Rightarrow>
              bindM (ask (sk_latestLedger k) GetLatestLedger) (\<lambda>latest.
              bindM (liftR (on_address (\<lambda>a. a\<lparr>ac_signatureExpirationLedger := latest + 100\<rparr>) entry)) (\<lambda>entry.
              bindM (liftR (payloadForAuthEntry k entry NETWORK_PASSPHRASE)) (\<lambda>payload.
              bindM (phase ''sign'') (\<lambda>_.
              bindM (ask (\<lambda>l. sk_signPayload k l payload) (SignPayload payload)) (\<lambda>a.
              bindM (liftR (attachSignatureToEntry entry (passkeyKitSignatureScVal (as_credentialId a)
                       (as_authenticatorData a) (as_clientDataJSON a) (as_sig a)))) (\<lambda>entry.
              bindM (buildTx k se \<lparr>op_func = op_func (tx_operation unsignedTx), op_auth = [entry]\<rparr>) (\<lambda>signedTx.
              bindM (phase ''submit'') (\<lambda>_.
              prepareSignSubmit k se signedTx))))))))
          | _ \<Rightarrow> throwM (plain_error (u ''simulation returned no auth entry for the wallet''))))))))) "

section \<open>Opening a session\<close>

definition is_friendbot :: "wallet_call event \<Rightarrow> bool" where
  "is_friendbot e = (case e of Http _ \<Rightarrow> True | Call _ \<Rightarrow> False)"

lemma is_friendbot_simps [simp]: "is_friendbot (Http rq)" "\<not> is_friendbot (Call c)"
  by (simp_all add: is_friendbot_def)

text \<open>The log shows that the account of \<open>pub\<close> exists: it was read, or friendbot funded it.\<close>

definition funded :: "stellar_sdk \<Rightarrow> jstr \<Rightarrow> wallet_log \<Rightarrow> bool" where
  "funded k pub l \<longleftrightarrow>
     (\<exists>pre post a. l = pre @ Call (GetAccount pub) # post \<and> sk_getAccount k pre pub = Inr a)
     \<or> (\<exists>pre post res. l = pre @ Http (friendbot_request pub) # post
          \<and> sk_fetch k pre (friendbot_request pub) = Inr res \<and> res_ok res)"

definition persisted :: "stellar_sdk \<Rightarrow> jstr \<Rightarrow> page \<Rightarrow> jstr option \<Rightarrow> bool" where
  "persisted k kp s old \<longleftrightarrow> pg_stored s = (if sk_storageWrites k (w_log s) then Some kp else old)"

lemma persist_eval [comp_simps]:
  "persist k kp s = (Inr (), if sk_storageWrites k (w_log s) then s\<lparr>pg_stored := Some kp\<rparr> else s)"
  by (simp add: persist_def comp_eval)

lemma fund_step:
  "fund_attempts k se a (Suc n) s =
     (case sk_fetch k (w_log s) (friendbot_request (se_publicKey se)) of
        Inr res \<Rightarrow> if res_ok res
          then (Inr se, snd (persist k (se_keypair se) (s\<lparr>w_log := w_log s @ [Http (friendbot_request (se_publicKey se))]\<rparr>)))
          else fund_attempts k se (a + 1) n
                 (s\<lparr>w_log := w_log s @ [Http (friendbot_request (se_publicKey se)), Call (Sleep (1500 * a))]\<rparr>)
      | Inl _ \<Rightarrow> fund_attempts k se (a + 1) n
                 (s\<lparr>w_log := w_log s @ [Http (friendbot_request (se_publicKey se)), Call (Sleep (1500 * a))]\<rparr>))"
  by (simp add: bindM_def catchM_def comp_simps split: sum.splits)

text \<open>What opening a session for \<open>se\<close> with at most \<open>n\<close> friendbot requests leaves behind.\<close>

definition session_outcome :: "stellar_sdk \<Rightarrow> session \<Rightarrow> nat \<Rightarrow> page \<Rightarrow> session result \<Rightarrow> page \<Rightarrow> bool" where
  "session_outcome k se n s r s' \<longleftrightarrow>
     pg_sessionPromise s' = pg_sessionPromise s
     \<and> (\<exists>evs. w_log s' = w_log s @ evs \<and> length (filter is_friendbot evs) \<le> n)
     \<and> (\<forall>x. r = Inr x \<longrightarrow> x = se \<and> funded k (se_publicKey se) (w_log s') \<and> persisted k (se_keypair se) s' (pg_stored s))
     \<and> (\<forall>e. r = Inl e \<longrightarrow> pg_stored s' = pg_stored s)"

lemma fund_attempts_outcome:
  "fund_attempts k se a n s = (r, s') \<Longrightarrow> session_outcome k se n s r s'"
proof (induction n arbitrary: a s)
  case 0
  then show ?case by (auto simp: comp_simps session_outcome_def)
next
  case (Suc n)
  let ?rq = "friendbot_request (se_publicKey se)"
  let ?s = "s\<lparr>w_log := w_log s @ [Http ?rq, Call (Sleep (1500 * a))]\<rparr>"
  show ?case
  proof (cases "\<exists>res. sk_fetch k (w_log s) ?rq = Inr res \<and> res_ok res")
    case True
    then obtain res where res: "sk_fetch k (w_log s) ?rq = Inr res" "res_ok res" by blast
    then have "funded k (se_publicKey se) (w_log s @ [Http ?rq])"
      unfolding funded_def by blast
    with Suc.prems res show ?thesis
      by (auto simp: fund_step comp_simps persisted_def session_outcome_def split: if_splits)
  next
    case False
    with Suc.prems have "fund_attempts k se (a + 1) n ?s = (r, s')"
      by (auto simp: fund_step simp del: fund_attempts.simps split: sum.splits if_splits)
    from Suc.IH [OF this] show ?thesis by (auto simp: session_outcome_def)
  qed
qed

definition session_keypair :: "stellar_sdk \<Rightarrow> page \<Rightarrow> jstr" where
  "session_keypair k s = (case fst (restore k s) of Inr (Some kp) \<Rightarrow> kp | _ \<Rightarrow> sk_random k (w_log s))"

lemma restore_eval: "\<exists>r. restore k s = (Inr r, s) \<and> session_keypair k s = (case r of Some kp \<Rightarrow> kp | None \<Rightarrow> sk_random k (w_log s))"
  by (simp add: session_keypair_def restore_def bindM_def comp_simps split: option.splits)

definition session_of :: "stellar_sdk \<Rightarrow> page \<Rightarrow> session" where
  "session_of k s = \<lparr>se_keypair = session_keypair k s, se_publicKey = sk_public k (session_keypair k s)\<rparr>"

lemma createSession_outcome:
  assumes "createSession k s = (r, s')"
  shows "session_outcome k (session_of k s) 3 s r s'"
proof -
  let ?kp = "session_keypair k s"
  let ?pub = "sk_public k ?kp"
  let ?s = "s\<lparr>w_log := w_log s @ [Call (GetAccount ?pub)]\<rparr>"
  obtain o' where o': "restore k s = (Inr o', s)" "?kp = (case o' of Some kp \<Rightarrow> kp | None \<Rightarrow> sk_random k (w_log s))"
    using restore_eval by blast
  have run: "createSession k s = (case sk_getAccount k (w_log s) ?pub of
      Inr _ \<Rightarrow> (Inr (session_of k s), snd (persist k ?kp ?s)) | Inl _ \<Rightarrow> fund_attempts k (session_of k s) 1 3 ?s)"
    by (simp add: createSession_def bindM_def catchM_def comp_simps o'(1) o'(2) [symmetric] Let_def session_of_def
        del: fund_attempts.simps split: sum.splits)
  show ?thesis
  proof (cases "sk_getAccount k (w_log s) ?pub")
    case (Inr a)
    then have "funded k ?pub (w_log ?s)" unfolding funded_def by auto
    with Inr assms show ?thesis
      by (auto simp: run comp_simps persisted_def session_outcome_def session_of_def split: if_splits)
  next
    case (Inl e)
    with assms have "fund_attempts k (session_of k s) 1 3 ?s = (r, s')" by (simp add: run del: fund_attempts.simps)
    from fund_attempts_outcome [OF this] show ?thesis
      by (auto simp: session_outcome_def)
  qed
qed

lemma session_opened_facts:
  assumes "pg_sessionPromise s = None" "getSession k s = (r, s')"
  shows "pg_sessionPromise s' = Some r"
    "\<exists>evs. w_log s' = w_log s @ evs \<and> length (filter is_friendbot evs) \<le> 3"
    "\<And>x. r = Inr x \<Longrightarrow> x = session_of k s \<and> funded k (se_publicKey x) (w_log s')
       \<and> pg_stored s' = (if sk_storageWrites k (w_log s') then Some (se_keypair x) else pg_stored s)"
    "\<And>e. r = Inl e \<Longrightarrow> pg_stored s' = pg_stored s"
proof -
  obtain s1 where "createSession k s = (r, s1)" and s': "s' = s1\<lparr>pg_sessionPromise := Some r\<rparr>"
    using assms by (auto simp: getSession_def split: prod.splits)
  from createSession_outcome [OF this(1)]
  show "pg_sessionPromise s' = Some r"
    "\<exists>evs. w_log s' = w_log s @ evs \<and> length (filter is_friendbot evs) \<le> 3"
    "\<And>x. r = Inr x \<Longrightarrow> x = session_of k s \<and> funded k (se_publicKey x) (w_log s')
       \<and> pg_stored s' = (if sk_storageWrites k (w_log s') then Some (se_keypair x) else pg_stored s)"
    "\<And>e. r = Inl e \<Longrightarrow> pg_stored s' = pg_stored s"
    by (auto simp: session_outcome_def s' persisted_def)
qed

text \<open>C13: The deployer session is opened once per page.  The first call settles the promise that
  every later call returns, without a request; it makes at most three friendbot requests; a
  session it returns is the key pair that was stored (or a new one), whose account was seen to
  exist or was funded, and is stored if the browser allows it; a failure leaves the store as it
  was.  A failure is settled too: until the page is reloaded every later call fails the same
  way without asking anyone, although its message says to try again.\<close>

theorem session_opened_once:
  assumes "pg_sessionPromise s = None" "getSession k s = (r, s')"
  shows "getSession k s' = (r, s') \<and> pg_sessionPromise s' = Some r
    \<and> (\<exists>evs. w_log s' = w_log s @ evs \<and> length (filter is_friendbot evs) \<le> 3)
    \<and> (case r of
         Inr se \<Rightarrow> se = session_of k s \<and> funded k (se_publicKey se) (w_log s')
           \<and> pg_stored s' = (if sk_storageWrites k (w_log s') then Some (se_keypair se) else pg_stored s)
       | Inl _ \<Rightarrow> pg_stored s' = pg_stored s)"
  using session_opened_facts [OF assms] by (auto simp: getSession_def split: sum.splits)

text \<open>A concrete SDK for the witnesses: identity hash, transparent codecs, a network where nothing
  exists, friendbot is down and no transaction is ever found.\<close>

definition no_answer :: exn where "no_answer = plain_error (u ''network'')"

definition offline_sdk :: stellar_sdk where
  "offline_sdk =
     \<lparr>sk_hash = id, sk_utf8 = id, sk_scAddress = Inr, sk_contract = Inr,
      sk_contractIdXdr = (\<lambda>p. cp_address p @ cp_salt p),
      sk_authorizationXdr = (\<lambda>p. ap_invocation p), sk_encodeContract = id, sk_decodeEd25519 = Inr,
      sk_addSignerArgs = (\<lambda>_. Inr []), sk_public = (\<lambda>x. x), sk_fromSecret = Inr, sk_random = (\<lambda>_. [7]),
      sk_storageReads = (\<lambda>_. True), sk_storageWrites = (\<lambda>_. True), sk_fetch = (\<lambda>_ _. Inl no_answer),
      sk_getAccount = (\<lambda>_ _. Inl no_answer), sk_getContractData = (\<lambda>_ _. Inl no_answer),
      sk_deploy = (\<lambda>_ _. Inr ()), sk_signAndSend = (\<lambda>_ _. Inl no_answer), sk_prepare = (\<lambda>_ tx. Inr tx),
      sk_send = (\<lambda>_ _. Inr \<lparr>sr_status = SendPending, sr_hash = [9], sr_errorText = []\<rparr>),
      sk_getTransaction = (\<lambda>_ _. Inr TxNotFound), sk_simulate = (\<lambda>_ _. Inr (SimResult None)),
      sk_latestLedger = (\<lambda>_. Inr 1000), sk_ledgerEntries = (\<lambda>_ _. Inr []),
      sk_signPayload = (\<lambda>_ _. Inr \<lparr>as_credentialId = [1], as_credentialIdBase64Url = [], as_authenticatorData = [2],
        as_clientDataJSON = [3], as_sig = [4], as_signedDigest = [5]\<rparr>)\<rparr>"

definition online_sdk :: stellar_sdk where
  "online_sdk = offline_sdk\<lparr>sk_getAccount := (\<lambda>_ a. Inr \<lparr>acc_id = a, acc_sequence = 1\<rparr>),
     sk_getContractData := (\<lambda>l _. if length l < 4 then Inl no_answer else Inr ()),
     sk_getTransaction := (\<lambda>_ _. Inr TxSuccess),
     sk_simulate := (\<lambda>_ _. Inr (SimResult (Some
       [\<lparr>ae_credentials = AddressCredentials \<lparr>ac_address = [], ac_nonce = 5, ac_signatureExpirationLedger = 0, ac_signature = ScVoid\<rparr>,
         ae_rootInvocation = [8]\<rparr>])))\<rparr>"

lemma online_answers:
  "sk_getContractData online_sdk l w = (if length l < 4 then Inl no_answer else Inr ())"
  "sk_deploy online_sdk l d = Inr ()" "sk_signAndSend online_sdk l d = Inl no_answer"
  "sk_prepare online_sdk l t = Inr t" "sk_getTransaction online_sdk l h = Inr TxSuccess"
  "sk_send online_sdk l t = Inr \<lparr>sr_status = SendPending, sr_hash = [9], sr_errorText = []\<rparr>"
  "sk_getAccount online_sdk l a = Inr \<lparr>acc_id = a, acc_sequence = 1\<rparr>"
  "sk_decodeEd25519 online_sdk a = Inr a" "sk_addSignerArgs online_sdk g = Inr []" "sk_contract online_sdk a = Inr a"
  "sk_simulate online_sdk l t = Inr (SimResult (Some
       [\<lparr>ae_credentials = AddressCredentials \<lparr>ac_address = [], ac_nonce = 5, ac_signatureExpirationLedger = 0, ac_signature = ScVoid\<rparr>,
         ae_rootInvocation = [8]\<rparr>]))"
  "sk_latestLedger online_sdk l = Inr 1000"
  "sk_storageReads online_sdk l" "sk_storageWrites online_sdk l" "sk_random online_sdk l = [7]"
  "sk_fromSecret online_sdk x = Inr x" "sk_public online_sdk x = x" "sk_scAddress online_sdk x = Inr x"
  "sk_signPayload online_sdk l b = Inr \<lparr>as_credentialId = [1], as_credentialIdBase64Url = [], as_authenticatorData = [2],
        as_clientDataJSON = [3], as_sig = [4], as_signedDigest = [5]\<rparr>"
  by (simp_all add: online_sdk_def offline_sdk_def)

definition fresh_page :: page where
  "fresh_page = \<lparr>w_log = [], pg_sessionPromise = None, pg_stored = None\<rparr>"

lemma session_opened_once_witness:
  "\<exists>e s'. getSession offline_sdk fresh_page = (Inl e, s') \<and> getSession offline_sdk s' = (Inl e, s')"
proof -
  obtain r s' where run: "getSession offline_sdk fresh_page = (r, s')" by (cases "getSession offline_sdk fresh_page")
  moreover have "\<exists>e. fst (getSession offline_sdk fresh_page) = Inl e"
    by (simp add: getSession_def createSession_def restore_def bindM_def catchM_def comp_simps offline_sdk_def fresh_page_def
        eval_nat_numeral Let_def)
  ultimately show ?thesis
    using session_opened_once [of fresh_page offline_sdk r s'] by (auto simp: fresh_page_def)
qed

section \<open>Deploying a wallet\<close>

definition exists_check :: "jstr \<Rightarrow> wallet_call event" where
  "exists_check w = Call (GetContractData w ScLedgerKeyContractInstance Persistent)"

definition exists_polls :: "jstr \<Rightarrow> nat \<Rightarrow> wallet_log" where
  "exists_polls w n = concat (replicate n [exists_check w, Call (Sleep 2000)])"

lemma exists_polls_simps [simp]:
  "exists_polls w 0 = []" "exists_polls w (Suc n) = exists_check w # Call (Sleep 2000) # exists_polls w n"
  by (simp_all add: exists_polls_def)

lemma contractExists_eval [comp_simps]:
  "contractExists k w s =
     (Inr (\<not> isl (sk_getContractData k (w_log s) w)), s\<lparr>w_log := w_log s @ [exists_check w]\<rparr>)"
  by (simp add: contractExists_def bindM_def catchM_def comp_simps exists_check_def split: sum.splits)

lemma await_contract_eval:
  "await_contract k w (numeral v) s =
     (if isl (sk_getContractData k (w_log s) w)
      then await_contract k w (pred_numeral v) (s\<lparr>w_log := w_log s @ [exists_check w, Call (Sleep 2000)]\<rparr>)
      else (Inr \<lparr>dr_walletAddress = w, dr_deployed = True\<rparr>, s\<lparr>w_log := w_log s @ [exists_check w]\<rparr>))"
  by (simp add: numeral_eq_Suc bindM_def comp_simps)

lemma await_contract_outcome:
  "await_contract k w n s = (r, s') \<Longrightarrow>
     (\<exists>m < n. s' = s\<lparr>w_log := w_log s @ exists_polls w m @ [exists_check w]\<rparr>
        \<and> r = Inr \<lparr>dr_walletAddress = w, dr_deployed = True\<rparr>
        \<and> \<not> isl (sk_getContractData k (w_log s @ exists_polls w m) w))
     \<or> s' = s\<lparr>w_log := w_log s @ exists_polls w n\<rparr> \<and> (\<exists>e. r = Inl e)"
proof (induction n arbitrary: s)
  case (Suc n)
  show ?case
  proof (cases "isl (sk_getContractData k (w_log s) w)")
    case True
    with Suc.prems have "await_contract k w n (s\<lparr>w_log := w_log s @ [exists_check w, Call (Sleep 2000)]\<rparr>) = (r, s')"
      by (simp add: bindM_def comp_simps)
    from Suc.IH [OF this] show ?thesis
    proof (elim disjE exE conjE)
      fix m
      assume "m < n" "s' = s\<lparr>w_log := w_log s @ [exists_check w, Call (Sleep 2000)]\<rparr>
          \<lparr>w_log := w_log (s\<lparr>w_log := w_log s @ [exists_check w, Call (Sleep 2000)]\<rparr>) @ exists_polls w m @ [exists_check w]\<rparr>"
        "r = Inr \<lparr>dr_walletAddress = w, dr_deployed = True\<rparr>"
        "\<not> isl (sk_getContractData k (w_log (s\<lparr>w_log := w_log s @ [exists_check w, Call (Sleep 2000)]\<rparr>) @ exists_polls w m) w)"
      then show ?thesis by (intro disjI1 exI [of _ "Suc m"]) simp
    qed simp
  next
    case False
    with Suc.prems show ?thesis
      by (intro disjI1 exI [of _ 0]) (auto simp: bindM_def comp_simps)
  qed
qed (auto simp: comp_simps)

lemma deploy_wallet_outcome:
  assumes "deployWallet k se cid pub s = (Inr d, s')"
  shows "walletAddressFor k se cid = Inr (dr_walletAddress d)"
  using assms
  by (auto simp: deployWallet_def bindM_def comp_simps Let_def catchM_def simp del: await_contract.simps
      split: sum.splits if_splits prod.splits dest!: await_contract_outcome)

text \<open>C14: Deploying is idempotent, bounded and reports the truth.  If the first look finds the wallet
  it is returned with \<open>deployed\<close> false and nothing is submitted.  Otherwise the deployment is
  submitted once, from the very deployer, salt and network from which the address that is
  returned and polled was derived, with the passkey as the only signer, for ever and without
  limits; success is reported only after a look at that address found the contract, after
  fewer than 45 that did not, whatever the submission itself answered, and after 45 misses it
  is an error.\<close>

theorem deploy_wallet:
  assumes "deployWallet k se cid pub s = (r, s')" "walletAddressFor k se cid = Inr w"
  shows "let args = deploy_options k se cid pub;
             evs = [exists_check w, Call (BuildDeploy args), Call (SignAndSend args)] in
    (\<exists>a. sk_scAddress k (da_publicKey args) = Inr a
       \<and> w = sk_encodeContract k (sk_hash k (sk_contractIdXdr k
             \<lparr>cp_networkId = sk_hash k (sk_utf8 k (da_networkPassphrase args)), cp_address = a, cp_salt = da_salt args\<rparr>)))
    \<and> da_signer args = Secp256r1Signer cid pub None None Persistent
    \<and> (r = Inr \<lparr>dr_walletAddress = w, dr_deployed = False\<rparr> \<and> \<not> isl (sk_getContractData k (w_log s) w)
         \<and> w_log s' = w_log s @ [exists_check w]
       \<or> isl r \<and> w_log s' = w_log s @ take 2 evs
       \<or> isl r \<and> w_log s' = w_log s @ evs @ exists_polls w 45
       \<or> r = Inr \<lparr>dr_walletAddress = w, dr_deployed = True\<rparr>
         \<and> (\<exists>m < 45. w_log s' = w_log s @ evs @ exists_polls w m @ [exists_check w]
              \<and> \<not> isl (sk_getContractData k (w_log s @ evs @ exists_polls w m) w)))"
proof -
  let ?args = "deploy_options k se cid pub"
  let ?evs = "[exists_check w, Call (BuildDeploy ?args), Call (SignAndSend ?args)]"
  have addr: "\<exists>a. sk_scAddress k (da_publicKey ?args) = Inr a
       \<and> w = sk_encodeContract k (sk_hash k (sk_contractIdXdr k
             \<lparr>cp_networkId = sk_hash k (sk_utf8 k (da_networkPassphrase ?args)), cp_address = a, cp_salt = da_salt ?args\<rparr>))"
    using assms(2) by (auto simp: walletAddressFor_def deriveWalletAddress_def deploy_options_def Let_def result_simps)
  show ?thesis
  proof (cases "isl (sk_getContractData k (w_log s) w)")
    case False
    with assms show ?thesis using addr
      by (auto simp: deployWallet_def bindM_def comp_simps deploy_options_def Let_def)
  next
    case miss: True
    show ?thesis
    proof (cases "sk_deploy k (w_log s @ [exists_check w]) ?args")
      case (Inl e)
      with miss assms show ?thesis using addr
        by (auto simp: deployWallet_def bindM_def comp_simps Let_def deploy_options_def)
    next
      case (Inr v)
      with miss assms have "await_contract k w 45 (s\<lparr>w_log := w_log s @ ?evs\<rparr>) = (r, s')"
        by (simp add: deployWallet_def bindM_def catchM_def comp_simps Let_def del: await_contract.simps split: sum.splits)
      from await_contract_outcome [OF this] show ?thesis using addr
        by (auto simp: Let_def deploy_options_def)
    qed
  qed
qed

lemma deploy_wallet_witness:
  "fst (deployWallet online_sdk \<lparr>se_keypair = [7], se_publicKey = [7]\<rparr> [2] [4] fresh_page)
     = Inr \<lparr>dr_walletAddress = [7, 2], dr_deployed = True\<rparr>"
proof -
  let ?se = "\<lparr>se_keypair = [7], se_publicKey = [7]\<rparr>"
  obtain r s' where run: "deployWallet online_sdk ?se [2] [4] fresh_page = (r, s')"
    by (cases "deployWallet online_sdk ?se [2] [4] fresh_page")
  have w: "walletAddressFor online_sdk ?se [2] = Inr [7, 2]"
    by (simp add: walletAddressFor_def deriveWalletAddress_def online_sdk_def offline_sdk_def)
  have "\<not> isl (fst (deployWallet online_sdk ?se [2] [4] fresh_page))"
    by (simp add: deployWallet_def w bindM_def catchM_def comp_simps Let_def online_answers fresh_page_def await_contract_eval
        del: await_contract.simps)
  with deploy_wallet [OF run w] run show ?thesis
    by (auto simp: Let_def online_sdk_def fresh_page_def)
qed

section \<open>Submitting a transaction\<close>

definition tx_polls :: "jstr \<Rightarrow> nat \<Rightarrow> wallet_log" where
  "tx_polls h n = concat (replicate n [Call (Sleep 2000), Call (GetTransaction h)])"

lemma tx_polls_simps [simp]:
  "tx_polls h 0 = []" "tx_polls h (Suc n) = Call (Sleep 2000) # Call (GetTransaction h) # tx_polls h n"
  by (simp_all add: tx_polls_def)

text \<open>The transaction was seen to succeed: the last poll of the log said so.\<close>

definition settled :: "stellar_sdk \<Rightarrow> jstr \<Rightarrow> wallet_log \<Rightarrow> bool" where
  "settled k h l \<longleftrightarrow> (\<exists>pre. l = pre @ [Call (GetTransaction h)] \<and> sk_getTransaction k pre h = Inr TxSuccess)"

lemma await_settled_eval:
  "await_settled k h (numeral v) s =
     (let l = w_log s @ [Call (Sleep 2000)]; s' = s\<lparr>w_log := l @ [Call (GetTransaction h)]\<rparr> in
      case sk_getTransaction k l h of
        Inl e \<Rightarrow> (Inl e, s')
      | Inr TxSuccess \<Rightarrow> (Inr h, s')
      | Inr TxFailed \<Rightarrow> (Inl (plain_error (u ''the transaction failed on-chain'')), s')
      | Inr TxNotFound \<Rightarrow> await_settled k h (pred_numeral v) s')"
  by (simp add: numeral_eq_Suc bindM_def comp_simps Let_def split: sum.splits tx_status.splits)

lemma await_settled_outcome:
  "await_settled k h n s = (r, s') \<Longrightarrow>
     \<exists>m \<le> n. s' = s\<lparr>w_log := w_log s @ tx_polls h m\<rparr> \<and> (\<forall>x. r = Inr x \<longrightarrow> x = h \<and> settled k h (w_log s'))"
proof (induction n arbitrary: s)
  case (Suc n)
  let ?l = "w_log s @ [Call (Sleep 2000)]"
  let ?s = "s\<lparr>w_log := w_log s @ tx_polls h 1\<rparr>"
  show ?case
  proof (cases "sk_getTransaction k ?l h = Inr TxNotFound")
    case True
    with Suc.prems have "await_settled k h n ?s = (r, s')"
      by (simp add: bindM_def comp_simps)
    from Suc.IH [OF this] obtain m where "m \<le> n" "s' = ?s\<lparr>w_log := w_log ?s @ tx_polls h m\<rparr>"
      "\<forall>x. r = Inr x \<longrightarrow> x = h \<and> settled k h (w_log s')" by blast
    then show ?thesis by (intro exI [of _ "Suc m"]) auto
  next
    case False
    then consider e where "sk_getTransaction k ?l h = Inl e" | "sk_getTransaction k ?l h = Inr TxSuccess"
      | "sk_getTransaction k ?l h = Inr TxFailed"
      by (cases "sk_getTransaction k ?l h") (auto intro: tx_status.exhaust)
    then show ?thesis
    proof cases
      case 2
      then have "settled k h (?l @ [Call (GetTransaction h)])" unfolding settled_def by blast
      with 2 Suc.prems show ?thesis
        by (intro exI [of _ "Suc 0"]) (auto simp: bindM_def comp_simps)
    qed (use Suc.prems in \<open>intro exI [of _ "Suc 0"], auto simp: bindM_def comp_simps\<close>)+
  qed
qed (auto simp: comp_simps)

lemma prepareSignSubmit_settled: "prepareSignSubmit k se tx s = (Inr h, s') \<Longrightarrow> settled k h (w_log s')"
  by (auto simp: prepareSignSubmit_def bindM_def comp_simps Let_def simp del: await_settled.simps
      split: sum.splits if_splits dest!: await_settled_outcome)

text \<open>C15: A submission is reported with its hash only when the network said it succeeded.  The
  transaction is prepared and sent at most once, signed by the session account on top of what
  the preparation returned; the hash returned is the one of the accepted submission, and the
  last of at most 90 polls of that hash answered SUCCESS.\<close>

theorem submit_settles:
  assumes "prepareSignSubmit k se tx s = (r, s')"
  shows "w_log s' = w_log s @ [Call (Prepare tx)] \<and> isl r
    \<or> (\<exists>prepared. sk_prepare k (w_log s) tx = Inr prepared \<and>
        (let ready = sign k (se_keypair se) prepared; l = w_log s @ [Call (Prepare tx)] in
          w_log s' = l @ [Call (Send ready)] \<and> isl r
          \<or> (\<exists>sent n. sk_send k l ready = Inr sent \<and> sr_status sent \<noteq> SendError \<and> n \<le> 90
              \<and> w_log s' = l @ [Call (Send ready)] @ tx_polls (sr_hash sent) n
              \<and> (\<forall>h. r = Inr h \<longrightarrow> h = sr_hash sent \<and> settled k h (w_log s')))))"
proof (cases "sk_prepare k (w_log s) tx")
  case (Inl e)
  with assms show ?thesis by (auto simp: prepareSignSubmit_def bindM_def comp_simps)
next
  case (Inr prepared)
  let ?ready = "sign k (se_keypair se) prepared"
  let ?l = "w_log s @ [Call (Prepare tx)]"
  show ?thesis
  proof (cases "sk_send k ?l ?ready")
    case (Inl e)
    with Inr assms show ?thesis by (auto simp: prepareSignSubmit_def bindM_def comp_simps Let_def)
  next
    case sent: (Inr sent)
    show ?thesis
    proof (cases "sr_status sent = SendError")
      case True
      with sent Inr assms show ?thesis by (auto simp: prepareSignSubmit_def bindM_def comp_simps Let_def)
    next
      case False
      with sent Inr assms have "await_settled k (sr_hash sent) 90 (s\<lparr>w_log := ?l @ [Call (Send ?ready)]\<rparr>) = (r, s')"
        by (simp add: prepareSignSubmit_def bindM_def comp_simps Let_def del: await_settled.simps)
      from await_settled_outcome [OF this] False sent Inr show ?thesis
        by (intro disjI2 exI [of _ prepared]) (auto simp: Let_def)
    qed
  qed
qed

lemma submit_settles_witness:
  "\<exists>s'. prepareSignSubmit online_sdk \<lparr>se_keypair = [7], se_publicKey = [7]\<rparr>
     \<lparr>tx_account = \<lparr>acc_id = [7], acc_sequence = 1\<rparr>, tx_fee = [], tx_networkPassphrase = [],
      tx_operation = \<lparr>op_func = InvokeContract [] [] [], op_auth = []\<rparr>, tx_timeout = 300, tx_signatures = []\<rparr> fresh_page = (Inr [9], s')
   \<and> settled online_sdk [9] (w_log s')"
proof -
  let ?tx = "\<lparr>tx_account = \<lparr>acc_id = [7], acc_sequence = 1\<rparr>, tx_fee = [], tx_networkPassphrase = [],
      tx_operation = \<lparr>op_func = InvokeContract [] [] [], op_auth = []\<rparr>, tx_timeout = 300, tx_signatures = []\<rparr>"
  obtain r s' where run: "prepareSignSubmit online_sdk \<lparr>se_keypair = [7], se_publicKey = [7]\<rparr> ?tx fresh_page = (r, s')"
    by (cases "prepareSignSubmit online_sdk \<lparr>se_keypair = [7], se_publicKey = [7]\<rparr> ?tx fresh_page")
  have "fst (prepareSignSubmit online_sdk \<lparr>se_keypair = [7], se_publicKey = [7]\<rparr> ?tx fresh_page) = Inr [9]"
    by (simp add: prepareSignSubmit_def bindM_def comp_simps Let_def online_answers await_settled_eval del: await_settled.simps)
  with run have "r = Inr [9]" by simp
  with submit_settles [OF run] run show ?thesis by (auto simp: Let_def)
qed

section \<open>Adding the orchestrator as a signer\<close>

definition bid_tx :: "account \<Rightarrow> operation \<Rightarrow> transaction" where
  "bid_tx acc op =
     \<lparr>tx_account = acc, tx_fee = u ''10000000'', tx_networkPassphrase = NETWORK_PASSPHRASE,
      tx_operation = op, tx_timeout = 300, tx_signatures = []\<rparr>"

lemma buildTx_eval [comp_simps]:
  "buildTx k se op s =
     (case sk_getAccount k (w_log s) (se_publicKey se) of Inl e \<Rightarrow> Inl e | Inr acc \<Rightarrow> Inr (bid_tx acc op),
      s\<lparr>w_log := w_log s @ [Call (GetAccount (se_publicKey se))]\<rparr>)"
  by (simp add: buildTx_def bindM_def comp_simps bid_tx_def split: sum.splits)

lemma phase_eval [comp_simps]: "phase p s = (Inr (), s\<lparr>w_log := w_log s @ [Call (Phase (u p))]\<rparr>)"
  by (simp add: phase_def logM_def comp_eval)

definition is_send :: "wallet_call event \<Rightarrow> bool" where
  "is_send e = (case e of Call (Send t) \<Rightarrow> True | _ \<Rightarrow> False)"

lemma is_send_simps [simp]: "is_send (Call (Send t))" "\<not> is_send (Call (GetAccount a))" "\<not> is_send (Call (Phase p))"
  "\<not> is_send (Call (Simulate t))" "\<not> is_send (Call GetLatestLedger)" "\<not> is_send (Call (SignPayload b))"
  by (simp_all add: is_send_def)

text \<open>The entry the passkey is asked to authorise, and the same entry with its signature.\<close>

definition offered_entry :: "auth_entry \<Rightarrow> address_credentials \<Rightarrow> int \<Rightarrow> auth_entry" where
  "offered_entry entry c latest =
     entry\<lparr>ae_credentials := AddressCredentials (c\<lparr>ac_signatureExpirationLedger := latest + 100\<rparr>)\<rparr>"

definition signed_entry :: "auth_entry \<Rightarrow> address_credentials \<Rightarrow> int \<Rightarrow> assertion \<Rightarrow> auth_entry" where
  "signed_entry entry c latest a =
     entry\<lparr>ae_credentials := AddressCredentials (c\<lparr>ac_signatureExpirationLedger := latest + 100,
       ac_signature := passkeyKitSignatureScVal (as_credentialId a) (as_authenticatorData a) (as_clientDataJSON a) (as_sig a)\<rparr>)\<rparr>"

text \<open>The run up to the submission of \<open>tx\<close>, with the log it writes.\<close>

definition authorised_run ::
  "stellar_sdk \<Rightarrow> session \<Rightarrow> jstr \<Rightarrow> jstr \<Rightarrow> jstr \<Rightarrow> page \<Rightarrow> transaction \<Rightarrow> page \<Rightarrow> bool" where
  "authorised_run k se walletAddress orchestratorAddress registryContract s tx s' \<longleftrightarrow>
     (\<exists>pubKey callArgs wallet acc entry rest c latest payload a acc'.
        sk_decodeEd25519 k orchestratorAddress = Inr pubKey
        \<and> sk_addSignerArgs k (Ed25519Signer pubKey None (Some [(registryContract, None)]) Persistent) = Inr callArgs
        \<and> sk_contract k walletAddress = Inr wallet
        \<and> (let func = InvokeContract wallet (u ''add_signer'') callArgs;
               l0 = w_log s @ [Call (GetAccount (se_publicKey se)), Call (Phase (u ''simulate''))];
               unsignedTx = bid_tx acc \<lparr>op_func = func, op_auth = []\<rparr>;
               l1 = l0 @ [Call (Simulate unsignedTx), Call GetLatestLedger, Call (Phase (u ''sign''))]
           in sk_simulate k l0 unsignedTx = Inr (SimResult (Some (entry # rest)))
              \<and> sk_latestLedger k (l0 @ [Call (Simulate unsignedTx)]) = Inr latest
              \<and> ae_credentials entry = AddressCredentials c
              \<and> payload = authorizationPayload k NETWORK_PASSPHRASE (ac_nonce c) (latest + 100) (ae_rootInvocation entry)
              \<and> sk_signPayload k l1 payload = Inr a
              \<and> tx = bid_tx acc' \<lparr>op_func = func, op_auth = [signed_entry entry c latest a]\<rparr>
              \<and> s' = s\<lparr>w_log := l1 @ [Call (SignPayload payload), Call (GetAccount (se_publicKey se)), Call (Phase (u ''submit''))]\<rparr>))"

lemma on_address_simps [simp]:
  "ae_credentials e = AddressCredentials c \<Longrightarrow> on_address f e = Inr (e\<lparr>ae_credentials := AddressCredentials (f c)\<rparr>)"
  "ae_credentials e = SourceAccount \<Longrightarrow> \<exists>x. on_address f e = Inl x"
  by (simp_all add: on_address_def)

lemma offered_entry_simps [simp]:
  "ae_credentials (offered_entry e c n) = AddressCredentials (c\<lparr>ac_signatureExpirationLedger := n + 100\<rparr>)"
  "ae_rootInvocation (offered_entry e c n) = ae_rootInvocation e"
  by (simp_all add: offered_entry_def)

lemma addOrchestratorSigner_cases:
  assumes "addOrchestratorSigner k se walletAddress orchestratorAddress registryContract s = (r, s')"
  shows "isl r \<and> (\<exists>evs. w_log s' = w_log s @ evs \<and> \<not> list_ex is_send evs)
    \<or> (\<exists>tx s1. authorised_run k se walletAddress orchestratorAddress registryContract s tx s1
         \<and> prepareSignSubmit k se tx s1 = (r, s'))"
proof -
  note run = assms [unfolded addOrchestratorSigner_def]
  note steps = bindM_def comp_simps Let_def payloadForAuthEntry_def attachSignatureToEntry_def on_address_def
  let ?pub = "se_publicKey se"
  show ?thesis
  proof (cases "\<exists>pubKey callArgs wallet acc. sk_decodeEd25519 k orchestratorAddress = Inr pubKey
      \<and> sk_addSignerArgs k (orchestrator_signer pubKey registryContract) = Inr callArgs
      \<and> sk_contract k walletAddress = Inr wallet \<and> sk_getAccount k (w_log s) ?pub = Inr acc")
    case False
    with run show ?thesis
      by (auto simp: steps split: sum.splits) (metis sum.disc(1))+
  next
    case True
    then obtain pubKey callArgs wallet acc where k1: "sk_decodeEd25519 k orchestratorAddress = Inr pubKey"
      "sk_addSignerArgs k (orchestrator_signer pubKey registryContract) = Inr callArgs"
      "sk_contract k walletAddress = Inr wallet" "sk_getAccount k (w_log s) ?pub = Inr acc" by blast
    let ?func = "InvokeContract wallet (u ''add_signer'') callArgs"
    let ?l0 = "w_log s @ [Call (GetAccount ?pub), Call (Phase (u ''simulate''))]"
    let ?tx0 = "bid_tx acc \<lparr>op_func = ?func, op_auth = []\<rparr>"
    let ?l1 = "?l0 @ [Call (Simulate ?tx0), Call GetLatestLedger]"
    show ?thesis
    proof (cases "\<exists>entry rest latest c. sk_simulate k ?l0 ?tx0 = Inr (SimResult (Some (entry # rest)))
        \<and> sk_latestLedger k (?l0 @ [Call (Simulate ?tx0)]) = Inr latest \<and> ae_credentials entry = AddressCredentials c")
      case False
      with run k1 show ?thesis
        by (auto simp: steps split: sum.splits simulation.splits option.splits list.splits credentials.splits)
    next
      case True
      then obtain entry rest latest c where k2: "sk_simulate k ?l0 ?tx0 = Inr (SimResult (Some (entry # rest)))"
        "sk_latestLedger k (?l0 @ [Call (Simulate ?tx0)]) = Inr latest" "ae_credentials entry = AddressCredentials c" by blast
      let ?payload = "authorizationPayload k NETWORK_PASSPHRASE (ac_nonce c) (latest + 100) (ae_rootInvocation entry)"
      let ?l2 = "?l1 @ [Call (Phase (u ''sign''))]"
      show ?thesis
      proof (cases "\<exists>a acc'. sk_signPayload k ?l2 ?payload = Inr a
          \<and> sk_getAccount k (?l2 @ [Call (SignPayload ?payload)]) ?pub = Inr acc'")
        case False
        with run k1 k2 show ?thesis by (auto simp: steps split: sum.splits)
      next
        case True
        then obtain a acc' where k3: "sk_signPayload k ?l2 ?payload = Inr a"
          "sk_getAccount k (?l2 @ [Call (SignPayload ?payload)]) ?pub = Inr acc'" by blast
        let ?tx = "bid_tx acc' \<lparr>op_func = ?func, op_auth = [signed_entry entry c latest a]\<rparr>"
        let ?s1 = "s\<lparr>w_log := ?l2 @ [Call (SignPayload ?payload), Call (GetAccount ?pub), Call (Phase (u ''submit''))]\<rparr>"
        have "prepareSignSubmit k se ?tx ?s1 = (r, s')"
          using run k1 k2 k3 by (simp add: steps bid_tx_def signed_entry_def)
        moreover have "authorised_run k se walletAddress orchestratorAddress registryContract s ?tx ?s1"
          unfolding authorised_run_def Let_def
          by (rule exI [of _ pubKey], rule exI [of _ callArgs], rule exI [of _ wallet], rule exI [of _ acc],
              rule exI [of _ entry], rule exI [of _ rest], rule exI [of _ c], rule exI [of _ latest],
              rule exI [of _ ?payload], rule exI [of _ a], rule exI [of _ acc'],
              insert k1 k2 k3, simp add: orchestrator_signer_def)
        ultimately show ?thesis by blast
      qed
    qed
  qed
qed

text \<open>C16: The orchestrator only becomes a signer that the passkey approved, and only for the one
  registry.  Nothing is submitted unless the run reached the submission with this evidence:
  the arguments of \<open>add_signer\<close> encode an Ed25519 signer with the orchestrator's key, without
  expiry, limited to the registry contract alone; the passkey was asked for the payload of the
  first entry the simulation returned, with an expiry 100 ledgers after the latest, and its
  answer is the signature attached to that entry; and the transaction handed to
  \<open>prepareSignSubmit\<close> calls exactly the simulated function with exactly that entry.  A hash is
  returned only for a submission that settled.\<close>

theorem signer_scoped:
  assumes "addOrchestratorSigner k se walletAddress orchestratorAddress registryContract s = (r, s')"
  shows "(isl r \<and> (\<exists>evs. w_log s' = w_log s @ evs \<and> \<not> list_ex is_send evs)
    \<or> (\<exists>tx s1. authorised_run k se walletAddress orchestratorAddress registryContract s tx s1
         \<and> prepareSignSubmit k se tx s1 = (r, s')))
    \<and> (\<forall>h. r = Inr h \<longrightarrow> settled k h (w_log s'))"
proof
  show "isl r \<and> (\<exists>evs. w_log s' = w_log s @ evs \<and> \<not> list_ex is_send evs)
    \<or> (\<exists>tx s1. authorised_run k se walletAddress orchestratorAddress registryContract s tx s1
         \<and> prepareSignSubmit k se tx s1 = (r, s'))"
    by (rule addOrchestratorSigner_cases [OF assms])
  then show "\<forall>h. r = Inr h \<longrightarrow> settled k h (w_log s')"
    using prepareSignSubmit_settled by fastforce
qed

lemma signer_scoped_witness:
  "\<exists>s' tx s1. addOrchestratorSigner online_sdk \<lparr>se_keypair = [7], se_publicKey = [7]\<rparr> [3] [5] [6] fresh_page = (Inr [9], s')
     \<and> authorised_run online_sdk \<lparr>se_keypair = [7], se_publicKey = [7]\<rparr> [3] [5] [6] fresh_page tx s1
     \<and> settled online_sdk [9] (w_log s')"
proof -
  let ?se = "\<lparr>se_keypair = [7], se_publicKey = [7]\<rparr>"
  obtain r s' where run: "addOrchestratorSigner online_sdk ?se [3] [5] [6] fresh_page = (r, s')"
    by (cases "addOrchestratorSigner online_sdk ?se [3] [5] [6] fresh_page")
  have "fst (addOrchestratorSigner online_sdk ?se [3] [5] [6] fresh_page) = Inr [9]"
    by (simp add: addOrchestratorSigner_def prepareSignSubmit_def bindM_def comp_simps Let_def online_answers
        on_address_def payloadForAuthEntry_def attachSignatureToEntry_def await_settled_eval del: await_settled.simps)
  with run have "r = Inr [9]" by simp
  with signer_scoped [OF run] run show ?thesis by auto
qed

section \<open>The address of a passkey\<close>

lemma keeps_contractExists [keeps_rules]:
  "(\<And>s e. I s \<Longrightarrow> I (s\<lparr>w_log := w_log s @ [e]\<rparr>)) \<Longrightarrow> keeps I (contractExists k w)"
  unfolding contractExists_def by (intro keeps_rules) simp_all

lemma keeps_await_contract [keeps_rules]:
  "(\<And>s e. I s \<Longrightarrow> I (s\<lparr>w_log := w_log s @ [e]\<rparr>)) \<Longrightarrow> keeps I (await_contract k w n)"
  by (induction n) (auto intro!: keeps_rules)

lemma keeps_deployWallet:
  "(\<And>s e. I s \<Longrightarrow> I (s\<lparr>w_log := w_log s @ [e]\<rparr>)) \<Longrightarrow> keeps I (deployWallet k se cid pub)"
  unfolding deployWallet_def Let_def by (intro keeps_rules) simp_all

lemma deployWallet_address: "deployWallet k se cid pub s = (Inr d, s') \<Longrightarrow> walletAddressFor k se cid = Inr (dr_walletAddress d)"
  by (rule deploy_wallet_outcome)

lemma deployWallet_stored: "deployWallet k se cid pub s = (r, s') \<Longrightarrow> pg_stored s' = pg_stored s"
  using keepsD [OF keeps_deployWallet [where I = "\<lambda>t. pg_stored t = pg_stored s" and k = k and se = se and cid = cid and pub = pub], of s]
  by simp

lemma deployWallet_promise: "deployWallet k se cid pub s = (r, s') \<Longrightarrow> pg_sessionPromise s' = pg_sessionPromise s"
  using keepsD [OF keeps_deployWallet [where I = "\<lambda>t. pg_sessionPromise t = pg_sessionPromise s" and k = k and se = se and cid = cid and pub = pub], of s]
  by simp

text \<open>What the browser and the SDK promise about secrets: the store can be read and written, and a
  secret gives back the key pair it came from.\<close>

definition secrets_survive :: "stellar_sdk \<Rightarrow> bool" where
  "secrets_survive k \<longleftrightarrow> (\<forall>l. sk_storageReads k l \<and> sk_storageWrites k l
     \<and> sk_random k l \<noteq> [] \<and> sk_fromSecret k (sk_random k l) = Inr (sk_random k l))
     \<and> (\<forall>x y. sk_fromSecret k x = Inr y \<longrightarrow> y = x)"

lemma restore_stored: "secrets_survive k \<Longrightarrow> pg_stored s = Some kp \<Longrightarrow> kp \<noteq> [] \<Longrightarrow> sk_fromSecret k kp = Inr kp
    \<Longrightarrow> session_keypair k s = kp"
  by (simp add: session_keypair_def restore_def bindM_def comp_simps secrets_survive_def)

lemma session_keypair_valid: "secrets_survive k \<Longrightarrow> session_keypair k s \<noteq> []
    \<and> sk_fromSecret k (session_keypair k s) = Inr (session_keypair k s)"
  by (auto simp: session_keypair_def restore_def bindM_def comp_simps secrets_survive_def split: option.splits sum.splits)

text \<open>C17: One passkey has one wallet.  Provisioning a credential again, in the same page or after a
  reload that loses everything but the stored secret, gives the address it gave before,
  whatever public key comes with it.\<close>

theorem wallet_address_stable:
  assumes "secrets_survive k" "pg_sessionPromise s = None"
    and "provisionWallet k cid pub s = (Inr p, s1)"
    and "t = s1 \<or> t = s1\<lparr>pg_sessionPromise := None\<rparr>"
    and "provisionWallet k cid pub' t = (Inr q, s2)"
  shows "pr_contractAddress q = pr_contractAddress p"
proof -
  obtain se sa d where g: "getSession k s = (Inr se, sa)" "deployWallet k se cid pub sa = (Inr d, s1)"
    "p = \<lparr>pr_contractAddress = dr_walletAddress d, pr_deployed = dr_deployed d\<rparr>"
    using assms(3) by (auto simp: provisionWallet_def bindM_Inr comp_eval)
  obtain se' sb d' where g': "getSession k t = (Inr se', sb)" "deployWallet k se' cid pub' sb = (Inr d', s2)"
    "q = \<lparr>pr_contractAddress = dr_walletAddress d', pr_deployed = dr_deployed d'\<rparr>"
    using assms(5) by (auto simp: provisionWallet_def bindM_Inr comp_eval)
  have so: "se = session_of k s" "pg_sessionPromise sa = Some (Inr se)" "pg_stored sa = Some (se_keypair se)"
    using session_opened_facts [OF assms(2) g(1)] assms(1) by (auto simp: secrets_survive_def)
  have kept: "pg_stored s1 = pg_stored sa" "pg_sessionPromise s1 = pg_sessionPromise sa"
    by (rule deployWallet_stored [OF g(2)], rule deployWallet_promise [OF g(2)])
  have "se' = se"
  proof (cases "t = s1")
    case True
    with kept so g'(1) show ?thesis by (simp add: getSession_def)
  next
    case False
    with assms(4) have t: "t = s1\<lparr>pg_sessionPromise := None\<rparr>" by simp
    then have "se' = session_of k t" using session_opened_facts [OF _ g'(1)] by simp
    moreover have "session_keypair k t = se_keypair se"
      using restore_stored [OF assms(1), of t "se_keypair se"] session_keypair_valid [OF assms(1), of s] t kept so
      by (simp add: session_of_def)
    ultimately show ?thesis using so(1) by (simp add: session_of_def)
  qed
  with deployWallet_address [OF g(2)] deployWallet_address [OF g'(2)] g(3) g'(3) show ?thesis by simp
qed

lemma wallet_address_stable_witness:
  "pr_contractAddress \<lparr>pr_contractAddress = [7, 2], pr_deployed = False\<rparr> = [7, 2]
   \<and> provisionWallet online_sdk [2] [4] (fresh_page\<lparr>w_log := replicate 4 (Call (Sleep 9))\<rparr>)
       = (Inr \<lparr>pr_contractAddress = [7, 2], pr_deployed = False\<rparr>,
          \<lparr>w_log = replicate 4 (Call (Sleep 9)) @ [Call (GetAccount [7]), exists_check [7, 2]],
           pg_sessionPromise = Some (Inr \<lparr>se_keypair = [7], se_publicKey = [7]\<rparr>), pg_stored = Some [7]\<rparr>)"
proof -
  let ?se = "\<lparr>se_keypair = [7], se_publicKey = [7]\<rparr>"
  let ?p = "\<lparr>pr_contractAddress = [7, 2], pr_deployed = False\<rparr>"
  let ?s1 = "\<lparr>w_log = replicate 4 (Call (Sleep 9)) @ [Call (GetAccount [7]), exists_check [7, 2]],
           pg_sessionPromise = Some (Inr ?se), pg_stored = Some [7]\<rparr>"
  have w: "walletAddressFor online_sdk ?se [2] = Inr [7, 2]"
    by (simp add: walletAddressFor_def deriveWalletAddress_def online_sdk_def offline_sdk_def)
  note steps = provisionWallet_def getSession_def createSession_def restore_def deployWallet_def bindM_def catchM_def
    comp_simps Let_def online_answers fresh_page_def w
  have ok: "secrets_survive online_sdk" by (simp add: secrets_survive_def online_answers)
  have one: "provisionWallet online_sdk [2] [4] (fresh_page\<lparr>w_log := replicate 4 (Call (Sleep 9))\<rparr>) = (Inr ?p, ?s1)"
    by (simp add: steps)
  have two: "provisionWallet online_sdk [2] [5] ?s1 = (Inr ?p, ?s1\<lparr>w_log := w_log ?s1 @ [exists_check [7, 2]]\<rparr>)"
    by (simp add: steps)
  from wallet_address_stable [OF ok _ one _ two] one show ?thesis by (simp add: fresh_page_def)
qed

end
