(* ===== verification/Passkey_Ceremony.thy ===== *)
theory Passkey_Ceremony
  imports Passkey_Wallet
begin

text \<open>
  The browser side of a passkey (apps/web/src/lib/passkey/webauthn.ts, capabilities.ts,
  swk-module.ts, wallet-errors.ts): registration, assertion, the support check, the wallet-kit
  adapter and the plain messages for contract errors.  The authenticator, SHA-256 and the
  signature codec of the noble library are parameters.
\<close>

section \<open>webauthn.ts\<close>

definition ES256 :: int where "ES256 = - 7"
definition DEFAULT_TIMEOUT_MS :: nat where "DEFAULT_TIMEOUT_MS = 60000"
definition REGISTRATION_CHALLENGE :: "nat list" where
  "REGISTRATION_CHALLENGE = u ''solva-passkey-registration''"

record create_passkey_input =
  ci_rpName :: jstr
  ci_rpId :: "jstr option"
  ci_userId :: "nat list"
  ci_userName :: jstr
  ci_displayName :: "jstr option"
  ci_timeoutMs :: "nat option"

record sign_with_passkey_input =
  si_challenge :: "nat list"
  si_rpId :: "jstr option"
  si_allowCredentials :: "nat list list option"
  si_timeoutMs :: "nat option"

record create_passkey_result =
  cr_credentialId :: "nat list"
  cr_credentialIdBase64Url :: jstr
  cr_publicKey :: "nat list"
  cr_residentKey :: "bool option"

text \<open>The option objects the browser is called with.\<close>

record creation_options =
  co_rp :: "jstr \<times> jstr option"
  co_userId :: "nat list"
  co_userName :: jstr
  co_userDisplayName :: jstr
  co_challenge :: "nat list"
  co_algs :: "int list"
  co_residentKey :: jstr
  co_requireResidentKey :: bool
  co_userVerification :: jstr
  co_attestation :: jstr
  co_credProps :: bool
  co_timeout :: nat

record request_options =
  ro_challenge :: "nat list"
  ro_userVerification :: jstr
  ro_timeout :: nat
  ro_rpId :: "jstr option"
  ro_allowCredentials :: "nat list list option"

text \<open>What a new credential exposes: \<open>getPublicKey\<close> may be missing or return null,
  \<open>getAuthenticatorData\<close> may be missing, and \<open>credProps.rk\<close> is an untyped value.\<close>

record attestation_credential =
  at_rawId :: "nat list"
  at_getPublicKey :: "nat list option"
  at_getAuthenticatorData :: "nat list option"
  at_credProps :: "json option"

record assertion_credential =
  an_rawId :: "nat list"
  an_authenticatorData :: "nat list"
  an_clientDataJSON :: "nat list"
  an_signature :: "nat list"

text \<open>The browser, the hash and the curve; \<open>bw_compactLowS\<close> is
  \<open>Signature.fromDER(s).normalizeS().toBytes("compact")\<close>.\<close>

record browser =
  bw_create :: "creation_options \<Rightarrow> attestation_credential option result"
  bw_get :: "request_options \<Rightarrow> assertion_credential option result"
  bw_onCurve :: "nat list \<Rightarrow> bool"
  bw_sha256 :: "nat list \<Rightarrow> nat list"
  bw_compactLowS :: "nat list \<Rightarrow> nat list result"

definition js_truthy_str :: "jstr option \<Rightarrow> bool" where
  "js_truthy_str o' \<longleftrightarrow> (case o' of None \<Rightarrow> False | Some s \<Rightarrow> s \<noteq> [])"

definition creation_options_of :: "create_passkey_input \<Rightarrow> creation_options" where
  "creation_options_of i =
     \<lparr>co_rp = (ci_rpName i, if js_truthy_str (ci_rpId i) then ci_rpId i else None),
      co_userId = ci_userId i, co_userName = ci_userName i,
      co_userDisplayName = (case ci_displayName i of Some d \<Rightarrow> d | None \<Rightarrow> ci_userName i),
      co_challenge = REGISTRATION_CHALLENGE, co_algs = [ES256],
      co_residentKey = u ''preferred'', co_requireResidentKey = False, co_userVerification = u ''preferred'',
      co_attestation = u ''none'', co_credProps = True,
      co_timeout = (case ci_timeoutMs i of Some t \<Rightarrow> t | None \<Rightarrow> DEFAULT_TIMEOUT_MS)\<rparr>"

definition createPasskey :: "browser \<Rightarrow> create_passkey_input \<Rightarrow> create_passkey_result result" where
  "createPasskey b i =
     bindR (bw_create b (creation_options_of i)) (\<lambda>c.
     case c of
       None \<Rightarrow> Inl (plain_error (u ''passkey creation was cancelled or returned no credential''))
     | Some cred \<Rightarrow>
         bindR (case at_getPublicKey cred of
             Some spki \<Rightarrow> publicKeyFromSpki (bw_onCurve b) spki
           | None \<Rightarrow>
               (case at_getAuthenticatorData cred of
                  Some d \<Rightarrow> publicKeyFromAuthenticatorData (bw_onCurve b) d
                | None \<Rightarrow> Inl (plain_error
                    (u ''credential exposed no public key; expected getPublicKey or getAuthenticatorData'')))) (\<lambda>publicKey.
         Inr \<lparr>cr_credentialId = at_rawId cred, cr_credentialIdBase64Url = toBase64Url (at_rawId cred),
              cr_publicKey = publicKey,
              cr_residentKey = (case at_credProps cred of Some (JBool rk) \<Rightarrow> Some rk | _ \<Rightarrow> None)\<rparr>))"

definition webauthnSignedDigest :: "browser \<Rightarrow> nat list \<Rightarrow> nat list \<Rightarrow> nat list" where
  "webauthnSignedDigest b authenticatorData clientDataJSON =
     bw_sha256 b (authenticatorData @ bw_sha256 b clientDataJSON)"

definition request_options_of :: "sign_with_passkey_input \<Rightarrow> request_options" where
  "request_options_of i =
     \<lparr>ro_challenge = si_challenge i, ro_userVerification = u ''preferred'',
      ro_timeout = (case si_timeoutMs i of Some t \<Rightarrow> t | None \<Rightarrow> DEFAULT_TIMEOUT_MS),
      ro_rpId = (if js_truthy_str (si_rpId i) then si_rpId i else None),
      ro_allowCredentials = (case si_allowCredentials i of
          Some ids \<Rightarrow> if ids \<noteq> [] then Some ids else None | None \<Rightarrow> None)\<rparr>"

definition signWithPasskey :: "browser \<Rightarrow> sign_with_passkey_input \<Rightarrow> assertion result" where
  "signWithPasskey b i =
     bindR (bw_get b (request_options_of i)) (\<lambda>c.
     case c of
       None \<Rightarrow> Inl (plain_error (u ''passkey assertion was cancelled or returned no credential''))
     | Some cred \<Rightarrow>
         bindR (bw_compactLowS b (an_signature cred)) (\<lambda>sig_bytes.
         Inr \<lparr>as_credentialId = an_rawId cred, as_credentialIdBase64Url = toBase64Url (an_rawId cred),
              as_authenticatorData = an_authenticatorData cred, as_clientDataJSON = an_clientDataJSON cred,
              as_sig = sig_bytes,
              as_signedDigest = webauthnSignedDigest b (an_authenticatorData cred) (an_clientDataJSON cred)\<rparr>))"

section \<open>capabilities.ts\<close>

record passkey_support =
  ps_supported :: bool
  ps_reason :: "jstr option"

text \<open>The environment as the check sees it; the probe may be missing, answer, or throw.\<close>

record environment =
  en_window :: bool
  en_isSecureContext :: bool
  en_credentials :: bool
  en_publicKeyCredential :: bool
  en_probe :: "bool option result"

definition unsupported :: "string \<Rightarrow> passkey_support" where
  "unsupported why = \<lparr>ps_supported = False, ps_reason = Some (u why)\<rparr>"

definition detectPasskeySupport :: "environment \<Rightarrow> passkey_support" where
  "detectPasskeySupport en =
     (if \<not> en_window en then unsupported ''Passkeys are only available in the browser.''
      else if \<not> en_isSecureContext en then unsupported ''Passkeys require a secure (https) connection.''
      else if \<not> en_credentials en \<or> \<not> en_publicKeyCredential en then
        unsupported ''This browser does not support passkeys.''
      else case en_probe en of
          Inr (Some False) \<Rightarrow>
            unsupported ''No passkey authenticator (Face ID, Touch ID, or Windows Hello) is set up on this device.''
        | _ \<Rightarrow> \<lparr>ps_supported = True, ps_reason = None\<rparr>)"

section \<open>swk-module.ts\<close>

definition PASSKEY_MODULE_ID :: jstr where "PASSKEY_MODULE_ID = u ''solva-passkey''"

record sign_options =
  so_networkPassphrase :: "jstr option"
  so_address :: "jstr option"

type_synonym sign_fn = "jstr \<Rightarrow> sign_options option \<Rightarrow> (jstr \<times> jstr option) result"

record passkey_module =
  pm_network :: jstr
  pm_networkPassphrase :: jstr
  pm_getWalletAddress :: "jstr option result"
  pm_signTransaction :: "sign_fn option"
  pm_signAuthEntry :: "sign_fn option"

definition isAvailable :: "environment \<Rightarrow> bool" where
  "isAvailable en = ps_supported (detectPasskeySupport en)"

definition getAddress :: "passkey_module \<Rightarrow> jstr result" where
  "getAddress m =
     bindR (pm_getWalletAddress m) (\<lambda>address.
     if \<not> js_truthy_str address then Inl (plain_error (u ''No passkey wallet is connected. Sign in first.''))
     else Inr (the address))"

definition signTransaction :: "passkey_module \<Rightarrow> jstr \<Rightarrow> sign_options option \<Rightarrow> (jstr \<times> jstr option) result" where
  "signTransaction m x opts =
     (case pm_signTransaction m of
        None \<Rightarrow> Inl (plain_error (u ''signTransaction is not configured; wire the contract-binding signer in.''))
      | Some f \<Rightarrow> f x opts)"

definition signAuthEntry :: "passkey_module \<Rightarrow> jstr \<Rightarrow> sign_options option \<Rightarrow> (jstr \<times> jstr option) result" where
  "signAuthEntry m x opts =
     (case pm_signAuthEntry m of
        None \<Rightarrow> Inl (plain_error (u ''signAuthEntry is not configured; wire the contract-binding signer in.''))
      | Some f \<Rightarrow> f x opts)"

section \<open>wallet-errors.ts\<close>

definition WALLET_ERRORS :: "(nat \<times> jstr) list" where
  "WALLET_ERRORS =
     [(1, u ''That signer was not found on the wallet.''),
      (2, u ''This orchestrator key is already a signer on your wallet. You are all set.''),
      (3, u ''The wallet rejected the request context.''),
      (4, u ''That signer has expired. Add it again.''),
      (5, u ''The signer is not allowed to authorize this contract.''),
      (6, u ''A policy signer rejected the request.''),
      (7, u ''The signature did not match the signer key.''),
      (8, u ''The passkey challenge did not match. Try again.''),
      (9, u ''The wallet could not read the passkey response.'')]"

record wallet_error =
  we_code :: "nat option"
  we_message :: jstr
  we_alreadyExists :: bool

text \<open>The pattern \<open>Error\(Contract,\s*#(\d+)\)\<close> at the start of a string, and its leftmost match.\<close>

definition code_at :: "jstr \<Rightarrow> jstr option" where
  "code_at s =
     (let k = u ''Error(Contract,'' in
      if take (length k) s \<noteq> k then None
      else case dropWhile is_ws (drop (length k) s) of
          [] \<Rightarrow> None
        | h # r \<Rightarrow>
            if h \<noteq> 35 then None
            else let ds = takeWhile is_digit r in
              if ds \<noteq> [] \<and> take 1 (dropWhile is_digit r) = [41] then Some ds else None)"

fun find_code :: "jstr \<Rightarrow> jstr option" where
  "find_code [] = None" |
  "find_code (c # s) = (case code_at (c # s) of Some ds \<Rightarrow> Some ds | None \<Rightarrow> find_code s)"

definition describeWalletError :: "jstr \<Rightarrow> wallet_error" where
  "describeWalletError raw =
     (case find_code raw of
        None \<Rightarrow> \<lparr>we_code = None, we_message = raw, we_alreadyExists = False\<rparr>
      | Some ds \<Rightarrow>
          let code = dec_val ds in
          \<lparr>we_code = Some code,
           we_message = (case map_of WALLET_ERRORS code of
               Some m \<Rightarrow> m
             | None \<Rightarrow> u ''The wallet rejected the request (error '' @ show_nat code @ u '').''),
           we_alreadyExists = (code = 2)\<rparr>)"

section \<open>Properties\<close>

lemma code_at_error:
  assumes "\<forall>c \<in> set ws. is_ws c"
  shows "code_at (u ''Error(Contract,'' @ ws @ 35 # show_nat n @ 41 # post) = Some (show_nat n)"
proof -
  have "\<not> is_ws 35" by (simp add: is_ws_def)
  then have "dropWhile is_ws (ws @ 35 # r) = 35 # r" for r using assms by (simp add: span_stop)
  moreover have "takeWhile is_digit (show_nat n @ 41 # post) = show_nat n"
    "dropWhile is_digit (show_nat n @ 41 # post) = 41 # post"
    using show_nat_all_digits by (simp_all add: span_stop is_digit_def)
  moreover have "take (length k) (k @ r) = k" "drop (length k) (k @ r) = r" for k r :: jstr by simp_all
  ultimately show ?thesis by (simp add: code_at_def Let_def del: length_u)
qed

lemma find_code_prefix:
  "\<forall>i < length pre. code_at (drop i pre @ s) = None \<Longrightarrow> find_code (pre @ s) = find_code s"
proof (induction pre)
  case (Cons c pre)
  from Cons.prems have "code_at ((c # pre) @ s) = None" by (metis drop0 length_greater_0_conv list.distinct(1))
  moreover have "\<forall>i < length pre. code_at (drop i pre @ s) = None"
    using Cons.prems by (metis Suc_less_eq drop_Suc_Cons length_Cons)
  ultimately show ?case using Cons.IH by simp
qed simp

text \<open>Contract errors are recognised exactly.  A message whose first occurrence of the pattern
  carries the code \<open>n\<close>, with any white space before the number sign and any text around it, is
  described by \<open>n\<close>; it counts as "already a signer" exactly for code 2, so that the setup goes
  on only for that one; it has one of the nine plain messages for a known code and names the
  code otherwise; and a text without the pattern is passed through unchanged.\<close>

theorem wallet_errors_described:
  "((\<forall>i < length pre. code_at (drop i pre @ u ''Error(Contract,'' @ ws @ 35 # show_nat n @ 41 # post) = None)
      \<and> (\<forall>c \<in> set ws. is_ws c) \<longrightarrow>
    (let e = describeWalletError (pre @ u ''Error(Contract,'' @ ws @ 35 # show_nat n @ 41 # post) in
      we_code e = Some n \<and> (we_alreadyExists e \<longleftrightarrow> n = 2)
      \<and> (if 1 \<le> n \<and> n \<le> 9 then (n, we_message e) \<in> set WALLET_ERRORS
         else we_message e = u ''The wallet rejected the request (error '' @ show_nat n @ u '').'')))
   \<and> (find_code raw = None \<longrightarrow> describeWalletError raw = \<lparr>we_code = None, we_message = raw, we_alreadyExists = False\<rparr>)"
proof (intro conjI impI)
  assume a: "(\<forall>i < length pre. code_at (drop i pre @ u ''Error(Contract,'' @ ws @ 35 # show_nat n @ 41 # post) = None)
      \<and> (\<forall>c \<in> set ws. is_ws c)"
  let ?t = "u ''Error(Contract,'' @ ws @ 35 # show_nat n @ 41 # post"
  have "code_at ?t = Some (show_nat n)" using a by (intro code_at_error) blast
  then have "find_code ?t = Some (show_nat n)"
    by (cases ?t) (simp_all add: u_def)
  with a have f: "find_code (pre @ ?t) = Some (show_nat n)" by (simp add: find_code_prefix)
  have "1 \<le> n \<and> n \<le> 9 \<Longrightarrow> \<exists>m. map_of WALLET_ERRORS n = Some m"
    by (auto simp: WALLET_ERRORS_def)
  moreover have "\<not> (1 \<le> n \<and> n \<le> 9) \<Longrightarrow> map_of WALLET_ERRORS n = None"
    by (auto simp: WALLET_ERRORS_def)
  ultimately show "let e = describeWalletError (pre @ ?t) in
      we_code e = Some n \<and> (we_alreadyExists e \<longleftrightarrow> n = 2)
      \<and> (if 1 \<le> n \<and> n \<le> 9 then (n, we_message e) \<in> set WALLET_ERRORS
         else we_message e = u ''The wallet rejected the request (error '' @ show_nat n @ u '').'')"
    by (cases "1 \<le> n \<and> n \<le> 9") (auto simp: describeWalletError_def f Let_def dest: map_of_SomeD)
qed (simp add: describeWalletError_def)

lemma wallet_errors_described_witness:
  "we_alreadyExists (describeWalletError (u ''HostError: '' @ u ''Error(Contract,'' @ [32] @ 35 # show_nat 2 @ 41 # []))"
proof -
  have "\<forall>i < length (u ''HostError: ''). code_at (drop i (u ''HostError: '') @ u ''Error(Contract,'' @ [32] @ 35 # show_nat 2 @ 41 # []) = None"
    by (simp add: All_less_Suc code_at_def u_def Let_def eval_nat_numeral)
  then show ?thesis
    using wallet_errors_described [of "u ''HostError: ''" "[32]" 2 "[]"] by (simp add: is_ws_def Let_def)
qed

text \<open>What a finished registration or assertion guarantees to its caller.\<close>

lemma key_is_point:
  "publicKeyFromSpki oc d = Inr p \<or> publicKeyFromAuthenticatorData oc d = Inr p \<Longrightarrow> length p = 65 \<and> hd p = 4 \<and> oc p"
  by (auto simp: publicKeyFromSpki_def publicKeyFromAuthenticatorData_def Let_def result_simps validatePoint_Inr split: if_splits)

lemma createPasskey_sound:
  assumes "createPasskey b i = Inr r"
  shows "length (cr_publicKey r) = 65 \<and> hd (cr_publicKey r) = 4 \<and> bw_onCurve b (cr_publicKey r)
    \<and> (bytes (cr_credentialId r) \<longrightarrow> fromBase64Url (cr_credentialIdBase64Url r) = Inr (cr_credentialId r))"
proof -
  obtain c where "bw_create b (creation_options_of i) = Inr c"
    using assms unfolding createPasskey_def bindR_eq_Inr by blast
  with assms obtain cred where c: "bw_create b (creation_options_of i) = Inr (Some cred)"
    by (cases c) (simp_all add: createPasskey_def)
  have "\<exists>d. publicKeyFromSpki (bw_onCurve b) d = Inr (cr_publicKey r)
      \<or> publicKeyFromAuthenticatorData (bw_onCurve b) d = Inr (cr_publicKey r)"
    and "cr_credentialId r = at_rawId cred" "cr_credentialIdBase64Url r = toBase64Url (at_rawId cred)"
    using assms c by (cases "at_getPublicKey cred"; cases "at_getAuthenticatorData cred";
        auto simp: createPasskey_def bindR_eq_Inr)+
  with key_is_point show ?thesis by (auto simp add: fromBase64Url_inverse)
qed

lemma signWithPasskey_sound:
  assumes "signWithPasskey b i = Inr a"
  shows "\<exists>cred. bw_get b (request_options_of i) = Inr (Some cred) \<and> ro_challenge (request_options_of i) = si_challenge i
    \<and> bw_compactLowS b (an_signature cred) = Inr (as_sig a)
    \<and> as_signedDigest a = webauthnSignedDigest b (as_authenticatorData a) (as_clientDataJSON a)"
proof -
  obtain c where "bw_get b (request_options_of i) = Inr c"
    using assms unfolding signWithPasskey_def bindR_eq_Inr by blast
  with assms show ?thesis
    by (cases c) (auto simp: signWithPasskey_def request_options_of_def bindR_eq_Inr)
qed

end
