(* ===== verification/Contact_View.thy ===== *)
theory Contact_View
  imports Contact Site_Parts
begin

text \<open>
  What the contact and waitlist forms draw in a state of \<open>useSubmission\<close> (apps/website/src/features/
  contact/components): the fields with their labels and errors, the alert, the trap for bots, the
  submit button, the panel shown once a message is sent, and the two forms made of them.  The theorem
  ties a form to the action it submits to: what a browser sends for the form as drawn (\<open>submitted\<close>)
  is read back by the server's \<open>readFields\<close>.  A browser's own clean-up of a value (the line ends of a
  text area, white space around an address) is left out.
\<close>

section \<open>Fields\<close>

definition FieldError :: "jstr \<Rightarrow> jstr option \<Rightarrow> dom list" where
  "FieldError i message =
     (case message of
        None \<Rightarrow> []
      | Some m \<Rightarrow> if m = [] then [] else [El ''p'' [(''id'', i)] [El ''svg'' [(''aria-hidden'', u ''true'')] [], Txt m]])"

definition field_attrs :: "field_binding \<Rightarrow> (string \<times> jstr) list" where
  "field_attrs b =
     [(''id'', fb_id b), (''name'', field_name (fb_name b)), (''value'', fb_defaultValue b)]
     @ (if fb_aria_invalid b then [(''aria-invalid'', u ''true'')] else [])
     @ opt_attr ''aria-describedby'' (fb_aria_describedby b)"

definition TextField :: "field_binding \<Rightarrow> string \<Rightarrow> bool \<Rightarrow> (string \<times> jstr) list \<Rightarrow> dom" where
  "TextField b label optional props =
     El ''div'' []
       ([El ''label'' [(''for'', fb_id b)] (tx label # (if optional then [El ''span'' [] [tx '' (optional)'']] else [])),
         El ''input'' (props @ field_attrs b @ (if optional then [] else [(''aria-required'', u ''true'')])) []]
        @ FieldError (fb_errorId b) (fb_error b))"

definition TextAreaField :: "field_binding \<Rightarrow> string \<Rightarrow> (string \<times> jstr) list \<Rightarrow> dom" where
  "TextAreaField b label props =
     El ''div'' []
       ([El ''label'' [(''for'', fb_id b)] [tx label],
         El ''textarea'' (props @ field_attrs b @ [(''aria-required'', u ''true'')]) []]
        @ FieldError (fb_errorId b) (fb_error b))"

definition role_option :: "field_binding \<Rightarrow> jstr \<Rightarrow> dom" where
  "role_option b r =
     El ''label'' []
       [El ''input'' ([(''type'', u ''radio''), (''name'', field_name (fb_name b)), (''value'', r)]
          @ flag ''checked'' (fb_defaultValue b = r) @ [(''required'', [])]) [],
        Txt r]"

definition RoleField :: "field_binding \<Rightarrow> string \<Rightarrow> jstr list \<Rightarrow> dom" where
  "RoleField b label roles =
     El ''fieldset'' (opt_attr ''aria-describedby'' (fb_aria_describedby b))
       ([El ''legend'' [] [tx label], El ''div'' [] (List.map (role_option b) roles)]
        @ FieldError (fb_errorId b) (fb_error b))"

definition Honeypot :: dom where
  "Honeypot =
     El ''div'' [(''aria-hidden'', u ''true'')]
       [El ''label'' [(''for'', HONEYPOT_FIELD @ u ''-trap'')] [tx ''Leave this field empty''],
        El ''input'' [(''id'', HONEYPOT_FIELD @ u ''-trap''), (''type'', u ''text''), (''name'', HONEYPOT_FIELD),
          (''tabindex'', u ''-1''), (''autocomplete'', u ''off''), (''value'', [])] []]"

definition SubmitButton :: "bool \<Rightarrow> string \<Rightarrow> string \<Rightarrow> dom" where
  "SubmitButton pending label pendingLabel = site_button pending [tx (if pending then pendingLabel else label)]"

definition failureText :: "failure_reason \<Rightarrow> jstr" where
  "failureText r = (case r of
      Unconfigured \<Rightarrow> u ''Our email service is not connected on this server yet, so nothing was sent.''
    | Delivery \<Rightarrow> u ''Our email service did not accept it. Wait a minute, then send it again.'')"

definition FormAlert :: "failure_reason option \<Rightarrow> nat \<Rightarrow> string \<Rightarrow> dom list" where
  "FormAlert failure errors noun =
     (case failure of
        Some r \<Rightarrow>
          [El ''div'' [(''role'', u ''alert'')]
            [El ''p'' [] [tx (''Your '' @ noun @ '' was not sent.'')],
             El ''p'' [] [Txt (failureText r @ u '' You can also write to ''),
               El ''a'' [(''href'', u ''mailto:'' @ contactEmail)] [Txt contactEmail],
               tx ''. Your details are still in the form.'']]]
      | None \<Rightarrow>
          if 0 < errors then
            [El ''p'' [(''role'', u ''alert'')]
              [Txt (if errors = 1 then u ''Check the field marked below.''
                    else u ''Check the '' @ show_nat errors @ u '' fields marked below.'')]]
          else [])"

definition FormCard :: "dom list \<Rightarrow> dom" where
  "FormCard content = El ''div'' [(''data-ui'', u ''true''), (''class'', u ''ruled-marks'')] content"

definition TEAM_REPLIES :: "jstr list" where
  "TEAM_REPLIES = [u ''Sent'', u ''A person on the team replies'']"

definition SentPanel :: "string \<Rightarrow> dom list \<Rightarrow> jstr list \<Rightarrow> dom" where
  "SentPanel title content provenance =
     El ''div'' [(''role'', u ''status'')]
       [El ''span'' [(''aria-hidden'', u ''true'')] [], El ''p'' [] [tx title], El ''div'' [] content,
        Provenance (List.map Txt provenance)]"

section \<open>The two forms\<close>

definition failure_of :: "submission_state \<Rightarrow> failure_reason option" where
  "failure_of st = (case st of Failed r _ \<Rightarrow> Some r | _ \<Rightarrow> None)"

definition prefilled :: "jstr \<times> jstr \<Rightarrow> field_values" where
  "prefilled p = [(FOrganisation, fst p), (FRole, snd p)]"

definition email_props :: "(string \<times> jstr) list" where
  "email_props = [(''type'', u ''email''), (''autocomplete'', u ''email''), (''inputmode'', u ''email'')]"

definition ContactForm :: "jstr \<Rightarrow> bool \<Rightarrow> submission_state \<Rightarrow> jstr \<times> jstr \<Rightarrow> dom" where
  "ContactForm baseId pending st prefill =
     (case st of
        Sent email \<Rightarrow>
          FormCard [SentPanel ''Message sent''
            [El ''p'' [] [tx ''Thank you. A person on the team will reply to '', El ''strong'' [] [Txt email],
                          Txt (u '' from '' @ contactEmail @ u ''.'')],
             El ''p'' [] [link_to (route ''howItWorks'') [tx ''Read how a coverage record is made'']]] TEAM_REPLIES]
      | _ \<Rightarrow>
          let b = bind_field baseId st (prefilled prefill) in
          FormCard [El ''form'' [(''aria-label'', u ''Write to the team'')]
            (FormAlert (failure_of st) (errorCount st) ''message''
             @ [El ''div'' [] [TextField (b FName) ''Name'' False [(''autocomplete'', u ''name'')],
                               TextField (b FEmail) ''Work email'' False email_props],
                El ''div'' [] [TextField (b FOrganisation) ''Organisation'' False [(''autocomplete'', u ''organization'')],
                               TextField (b FAsset) ''Asset or product'' True [(''placeholder'', u ''ARSK, USDC, a wallet'')]],
                RoleField (b FRole) ''You are'' ROLES,
                TextAreaField (b FMessage) ''Message''
                  [(''rows'', u ''5''), (''placeholder'', u ''Which asset, roughly how many customers, and what you want holders to see.'')],
                Honeypot,
                SubmitButton pending ''Send message'' ''Sending''])])"

definition WaitlistForm :: "jstr \<Rightarrow> bool \<Rightarrow> submission_state \<Rightarrow> dom" where
  "WaitlistForm baseId pending st =
     (case st of
        Sent email \<Rightarrow>
          FormCard [SentPanel ''You are on the list''
            [El ''p'' [] [tx ''We sent a confirmation to '', El ''strong'' [] [Txt email],
                          tx '', and we will write there when publishing opens to your organisation.''],
             El ''p'' [] [link_to (route ''contact'') [tx ''Ask about a pilot now'']]]
            [u ''Confirmation sent'', u ''Invited by email'']]
      | _ \<Rightarrow>
          let b = bind_field baseId st [] in
          FormCard [El ''form'' [(''aria-label'', u ''Join the waitlist'')]
            (FormAlert (failure_of st) (errorCount st) ''request''
             @ [TextField (b FEmail) ''Work email'' False email_props,
                TextField (b FOrganisation) ''Organisation'' False [(''autocomplete'', u ''organization'')],
                RoleField (b FRole) ''You are'' ROLES,
                Honeypot,
                SubmitButton pending ''Join the waitlist'' ''Joining''])])"

section \<open>The two pages\<close>

definition NextSteps :: "string \<Rightarrow> string \<Rightarrow> string \<Rightarrow> jstr option \<Rightarrow> (string \<times> string) list \<Rightarrow> dom" where
  "NextSteps ident label title lead steps =
     Chapter None (Some (u ''02'')) (Some (u (ident @ ''-title'')))
       [ChapterHead (u (ident @ ''-title'')) (Some (u label)) (u title) lead,
        El ''ol'' [(''data-rows'', u ''true'')]
          (List.map (\<lambda>(t, b). El ''li'' [] [El ''h3'' [] [tx t], El ''p'' [] [tx b]]) steps)]"

definition AfterYouWrite :: dom where
  "AfterYouWrite = NextSteps ''after'' ''Next'' ''What happens after you write.'' None
     [(''A person reads it and replies'',
       ''Your message lands in the team's own inbox, and the reply comes from hello@joinsolva.xyz within one working day.''),
      (''A short call to scope the pilot'',
       ''We go through which assets you issue or hold, where the reserves are held, and how often you want a proof published.''),
      (''Your first record, proven on Stellar'',
       ''We plan your reserve source together and publish your first proof on Stellar Testnet. Connections to real custodians and a public page for holders are coming soon.'')]"

definition WaitlistNext :: dom where
  "WaitlistNext = NextSteps ''next'' ''Next'' ''What happens after you join.''
     (Some (u ''We keep your address on the waitlist and use it only to invite you to publish. When publishing opens to your organisation, we write to it.''))
     [(''You get a confirmation'',
       ''Your address is saved once on the waitlist, and a confirmation goes to it straight away. Reply to that email to talk about a pilot sooner.''),
      (''Pilot partners open first'',
       ''Anchors and custodial apps in a pilot publish before anyone else. Each group after that is invited by email.''),
      (''Your entry goes on the record'',
       ''Your team signs in with a passkey, connects your reserve source and publishes the first proof. Self-serve onboarding is coming soon; pilot partners are set up with the team.'')]"

definition WriteSection :: "string \<Rightarrow> string \<Rightarrow> string \<Rightarrow> string \<Rightarrow> coverage_record \<Rightarrow> string \<Rightarrow> dom \<Rightarrow> dom" where
  "WriteSection ident label title body r caption content =
     Chapter (Some (u ident)) (Some (u ''01'')) (Some (u (ident @ ''-title'')))
       [El ''div'' []
         [El ''div'' [] [ChapterHead (u (ident @ ''-title'')) (Some (u label)) (u title) (Some (u body)),
                         El ''div'' [] [record_article r False (u caption)]],
          El ''div'' [] [content]]]"

definition securityEmail :: string where "securityEmail = ''security@joinsolva.xyz''"

definition CHANNELS :: "(string \<times> jstr \<times> jstr \<times> string \<times> bool) list" where
  "CHANNELS =
     [(''Security reports'', u securityEmail, u (''mailto:'' @ securityEmail),
       ''Report a vulnerability privately rather than in a public issue. We reply to every report and credit the reporter.'', False),
      (''Code and issues'', u ''Solva on GitHub'', u githubUrl,
       ''Read the code, open an issue or send a pull request. Solva is open source under Apache 2.0.'', True),
      (''Building on the record'', u ''docs.joinsolva.xyz'', u docsUrl,
       ''Guides for wallets, lending pools and auditors that read coverage, plus the contract reference.'', True),
      (''Everything else'', contactEmail, u ''mailto:'' @ contactEmail,
       ''Press, partnerships and anything the form does not cover.'', False)]"

definition OtherChannels :: dom where
  "OtherChannels =
     Chapter None (Some (u ''03'')) (Some (u ''channels-title''))
       [ChapterHead (u ''channels-title'') (Some (u ''Other channels'')) (u ''Other ways to reach us.'') None,
        El ''dl'' [] (List.map (\<lambda>(topic, label, href, note, external).
          El ''div'' []
            [El ''dt'' [] [tx topic],
             El ''dd'' [] [El ''a'' ((''href'', href) # (if external then [(''target'', u ''_blank''), (''rel'', u ''noreferrer'')] else []))
               [Txt label]],
             El ''dd'' [] [tx note]]) CHANNELS)]"

definition ContactFigure :: dom where
  "ContactFigure =
     El ''div'' [(''class'', u ''ruled-marks'')]
       [El ''p'' [] [tx ''Talking to Solva''],
        El ''div'' []
          [LeaderRow (tx ''Who reads it'') (tx ''A person on the team''), LeaderRow (tx ''Reply within'') (tx ''1 working day''),
           LeaderRow (tx ''From'') (Txt contactEmail), LeaderRow (tx ''Pilots'') (tx ''Open'')],
        Provenance [tx ''No ticket queue'', tx ''No customer data needed'']]"

definition ContactPage :: "jstr \<Rightarrow> bool \<Rightarrow> submission_state \<Rightarrow> search_param \<Rightarrow> search_param \<Rightarrow> dom list" where
  "ContactPage baseId pending st organisation role =
     [PageOpening
        \<lparr>po_label = u ''Contact'', po_title = u ''Talk to us.'',
         po_lead = u ''Tell us which asset you issue or hold, or what you want to read from the record. A person on the team reads every message and replies within one working day.'',
         po_primary = Some (u ''Write to the team'', u ''#write''), po_secondary = Some (u ''Join the waitlist'', route ''waitlist''),
         po_figure = Some ContactFigure, po_provenance = None, po_titleId = u ''page-title''\<rparr>,
      WriteSection ''write'' ''Write to us'' ''Write to the team''
        ''The more we know about the asset, the more useful the first reply. Name the token, say roughly how many holders or customers it has, and tell us where the reserves are held.''
        (exampleRecords ! 0) ''Example: what a pilot ends with''
        (ContactForm baseId pending st (readPrefill organisation role)),
      AfterYouWrite, OtherChannels]"

definition WaitlistPage :: "jstr \<Rightarrow> bool \<Rightarrow> submission_state \<Rightarrow> dom list" where
  "WaitlistPage baseId pending st =
     [PageOpening
        \<lparr>po_label = u ''Waitlist'', po_title = u ''Join the waitlist.'',
         po_lead = u ''Publishing a coverage record opens to pilot partners first. Leave three details. We send a confirmation straight away, and write again when publishing opens to your organisation.'',
         po_primary = Some (u ''Join the waitlist'', u ''#join''), po_secondary = Some (u ''Ask about a pilot'', route ''contact''),
         po_figure = Some (SealInstrument (Progress 1 3) None True (Some (u ''Three steps from the waitlist to a published record, one done''))
           [El ''span'' [] [tx ''1/3''], El ''span'' [] [tx ''join, pilot, publish'']]),
         po_provenance = Some [tx ''Pilot partners first'', tx ''Invited by email''], po_titleId = u ''page-title''\<rparr>,
      WriteSection ''join'' ''Your place in line'' ''Three details are enough.''
        ''We use them to invite you to publish, and for nothing else. We do not ask for customer data or balances.''
        (exampleRecords ! 1) ''Example: what you will publish'' (WaitlistForm baseId pending st),
      WaitlistNext, Close None None]"

section \<open>What a browser submits\<close>

definition form_entry :: "(string \<times> jstr) list \<Rightarrow> form_data" where
  "form_entry a =
     (case map_of a ''name'' of
        None \<Rightarrow> []
      | Some n \<Rightarrow>
          if map_of a ''type'' = Some (u ''radio'') \<and> \<not> has_flag ''checked'' a then []
          else [(n, FText (case map_of a ''value'' of Some v \<Rightarrow> v | None \<Rightarrow> []))])"

definition submitted :: "dom \<Rightarrow> form_data" where
  "submitted d = concat (List.map form_entry (inputs d))"

abbreviation field_id :: "jstr \<Rightarrow> contact_field \<Rightarrow> jstr" where
  "field_id b f \<equiv> b @ u ''-'' @ field_name f"

abbreviation error_id :: "jstr \<Rightarrow> contact_field \<Rightarrow> jstr" where
  "error_id b f \<equiv> b @ u ''-'' @ field_name f @ u ''-error''"

lemma field_names [simp]: "field_name f = field_name g \<longleftrightarrow> f = g" "field_name f \<noteq> HONEYPOT_FIELD" "HONEYPOT_FIELD \<noteq> field_name f"
  "field_name f \<noteq> field_name g @ u ''-error''" "field_name f @ u ''-error'' \<noteq> field_name g"
  by (cases f; cases g; simp add: field_name_def HONEYPOT_FIELD_def u_def)+

lemma field_name_not_Nil [simp]: "field_name f \<noteq> []"
  by (cases f) (simp_all add: field_name_def)

lemma trap_apart [simp]:
  "field_id b f \<noteq> HONEYPOT_FIELD @ u ''-trap''" "error_id b f \<noteq> HONEYPOT_FIELD @ u ''-trap''"
  "HONEYPOT_FIELD @ u ''-trap'' \<noteq> field_id b f" "HONEYPOT_FIELD @ u ''-trap'' \<noteq> error_id b f"
proof -
  have "last (field_id b f) \<noteq> 112" "last (error_id b f) \<noteq> 112" "last (HONEYPOT_FIELD @ u ''-trap'') = 112"
    by (cases f; simp add: field_name_def u_def)+
  then show "field_id b f \<noteq> HONEYPOT_FIELD @ u ''-trap''" "error_id b f \<noteq> HONEYPOT_FIELD @ u ''-trap''"
    "HONEYPOT_FIELD @ u ''-trap'' \<noteq> field_id b f" "HONEYPOT_FIELD @ u ''-trap'' \<noteq> error_id b f"
    by metis+
qed

section \<open>The parts of a form\<close>

lemma field_error_reads [simp]:
  "concat (List.map texts (FieldError i m)) = (case m of Some x \<Rightarrow> if x = [] then [] else [x] | None \<Rightarrow> [])"
  "concat (List.map inputs (FieldError i m)) = []" "concat (List.map links (FieldError i m)) = []"
  "concat (List.map (with_attr k) (FieldError i m)) =
     (if k \<in> {''id'', ''aria-hidden''} \<and> (\<exists>x. m = Some x \<and> x \<noteq> []) then [if k = ''id'' then i else u ''true''] else [])"
  by (auto simp: FieldError_def links_El split: option.split)

lemma bind_simps [simp]:
  "fb_id (bind_field b st iv f) = field_id b f" "fb_name (bind_field b st iv f) = f"
  "fb_errorId (bind_field b st iv f) = error_id b f" "fb_error (bind_field b st iv f) = map_of (submission_errors st) f"
  "fb_defaultValue (bind_field b st iv f) = field (submission_values st iv) f"
  "fb_aria_invalid (bind_field b st iv f) \<longleftrightarrow> (\<exists>m. map_of (submission_errors st) f = Some m \<and> m \<noteq> [])"
  "fb_aria_describedby (bind_field b st iv f) =
     (if \<exists>m. map_of (submission_errors st) f = Some m \<and> m \<noteq> [] then Some (error_id b f) else None)"
  by (simp_all add: bind_field_def Let_def)

lemma one_choice: "distinct xs \<Longrightarrow> concat (List.map (\<lambda>x. if d = x then [y] else []) xs) = (if d \<in> set xs then [y] else [])"
  by (induction xs) (auto simp: filter_empty_conv)

lemma role_entries:
  "concat (List.map form_entry (inputs (RoleField b l ROLES))) =
     (if fb_defaultValue b \<in> set ROLES then [(field_name (fb_name b), FText (fb_defaultValue b))] else [])"
proof -
  have "concat (List.map form_entry (inputs (role_option b r))) =
      (if fb_defaultValue b = r then [(field_name (fb_name b), FText (fb_defaultValue b))] else [])" for r
    by (simp add: role_option_def form_entry_def)
  then have "concat (List.map form_entry (inputs (RoleField b l rs))) =
      concat (List.map (\<lambda>r. if fb_defaultValue b = r then [(field_name (fb_name b), FText (fb_defaultValue b))] else []) rs)" for rs
    by (induction rs) (simp_all add: RoleField_def)
  moreover have "distinct ROLES" by (simp add: ROLES_def)
  ultimately show ?thesis by (simp add: one_choice)
qed

lemma text_entries:
  assumes "map_of ps ''name'' = None" "map_of ps ''value'' = None" "map_of ps ''type'' \<noteq> Some (u ''radio'')"
  shows "concat (List.map form_entry (inputs (TextField b l o' ps))) = [(field_name (fb_name b), FText (fb_defaultValue b))]"
    and "concat (List.map form_entry (inputs (TextAreaField b l ps))) = [(field_name (fb_name b), FText (fb_defaultValue b))]"
  using assms
  by (auto simp: TextField_def TextAreaField_def form_entry_def field_attrs_def map_add_def opt_attr_def split: option.splits)

lemma text_reads:
  assumes "map_of ps ''id'' = None" "map_of ps ''for'' = None" "map_of ps ''href'' = None" "map_of ps ''aria-describedby'' = None"
  shows "with_attr ''id'' (TextField b l o' ps) = fb_id b # (if \<exists>x. fb_error b = Some x \<and> x \<noteq> [] then [fb_errorId b] else [])"
    and "with_attr ''id'' (TextAreaField b l ps) = fb_id b # (if \<exists>x. fb_error b = Some x \<and> x \<noteq> [] then [fb_errorId b] else [])"
    and "with_attr ''for'' (TextField b l o' ps) = [fb_id b]" "with_attr ''for'' (TextAreaField b l ps) = [fb_id b]"
    and "with_attr ''aria-describedby'' (TextField b l o' ps) = (case fb_aria_describedby b of Some i \<Rightarrow> [i] | None \<Rightarrow> [])"
    and "with_attr ''aria-describedby'' (TextAreaField b l ps) = (case fb_aria_describedby b of Some i \<Rightarrow> [i] | None \<Rightarrow> [])"
    and "links (TextField b l o' ps) = []" "links (TextAreaField b l ps) = []"
  using assms
  by (auto simp: TextField_def TextAreaField_def field_attrs_def map_add_def opt_attr_def links_El split: option.splits)

lemma error_shown:
  assumes "fb_error b = Some m" "m \<noteq> []"
  shows "m \<in> set (texts (TextField b l o' ps))" "m \<in> set (texts (TextAreaField b l ps))" "m \<in> set (texts (RoleField b l rs))"
  using assms by (simp_all add: TextField_def TextAreaField_def RoleField_def FieldError_def)

lemma trap_reads:
  "with_attr ''id'' Honeypot = [HONEYPOT_FIELD @ u ''-trap'']" "with_attr ''for'' Honeypot = [HONEYPOT_FIELD @ u ''-trap'']"
  "with_attr ''aria-describedby'' Honeypot = []" "links Honeypot = []"
  by (simp_all add: Honeypot_def links_El)

lemma trap_entries: "concat (List.map form_entry (inputs Honeypot)) = [(HONEYPOT_FIELD, FText [])]"
  by (simp add: Honeypot_def form_entry_def)

text \<open>What the two forms hold while nothing has been sent.\<close>

abbreviation faulty :: "submission_state \<Rightarrow> contact_field \<Rightarrow> bool" where
  "faulty st f \<equiv> \<exists>m. map_of (submission_errors st) f = Some m \<and> m \<noteq> []"

abbreviation error_ids :: "jstr \<Rightarrow> submission_state \<Rightarrow> contact_field \<Rightarrow> jstr list" where
  "error_ids b st f \<equiv> if faulty st f then [error_id b f] else []"

definition ids_of :: "jstr \<Rightarrow> submission_state \<Rightarrow> contact_field \<Rightarrow> jstr list" where
  "ids_of b st f = (if f = FRole then [] else [field_id b f]) @ error_ids b st f"

definition trap_id :: jstr where "trap_id = HONEYPOT_FIELD @ u ''-trap''"

text \<open>The ids of a form are pairwise different, whatever id React gives it.\<close>

lemma ids_of_set: "set (ids_of b st f) \<subseteq> {field_id b f, error_id b f}" "distinct (ids_of b st f)"
  "trap_id \<notin> set (ids_of b st f)"
  by (auto simp: ids_of_def trap_id_def)

lemma ids_distinct: "distinct fs \<Longrightarrow> distinct (concat (List.map (ids_of b st) fs) @ [trap_id])"
proof (induction fs)
  case (Cons f fs)
  have "set (ids_of b st f) \<inter> set (ids_of b st g) = {}" if "f \<noteq> g" for g
  proof -
    have "{field_id b f, error_id b f} \<inter> {field_id b g, error_id b g} = {}" using that by auto
    then show ?thesis using ids_of_set(1) [of b st f] ids_of_set(1) [of b st g] by blast
  qed
  then have "set (ids_of b st f) \<inter> set (concat (List.map (ids_of b st) fs)) = {}" using Cons.prems by fastforce
  with Cons ids_of_set(2,3) show ?case by auto
qed simp

definition unsent :: "submission_state \<Rightarrow> bool" where
  "unsent st \<longleftrightarrow> (case st of Sent e \<Rightarrow> False | _ \<Rightarrow> True)"

lemma role_reads [simp]:
  "with_attr ''id'' (RoleField b l rs) = (if \<exists>x. fb_error b = Some x \<and> x \<noteq> [] then [fb_errorId b] else [])"
  "with_attr ''for'' (RoleField b l rs) = []"
  "with_attr ''aria-describedby'' (RoleField b l rs) = (case fb_aria_describedby b of Some i \<Rightarrow> [i] | None \<Rightarrow> [])"
  "links (RoleField b l rs) = []"
proof -
  have "with_attr k (role_option b r) = []" if "k \<notin> {''type'', ''name'', ''value'', ''checked'', ''required''}" for k r
    using that by (auto simp: role_option_def flag_def)
  then show "with_attr ''id'' (RoleField b l rs) = (if \<exists>x. fb_error b = Some x \<and> x \<noteq> [] then [fb_errorId b] else [])"
    "with_attr ''for'' (RoleField b l rs) = []"
    "with_attr ''aria-describedby'' (RoleField b l rs) = (case fb_aria_describedby b of Some i \<Rightarrow> [i] | None \<Rightarrow> [])"
    "links (RoleField b l rs) = []"
    by (auto simp: RoleField_def opt_attr_def comp_def links_def split: option.split)
qed

lemma button_attr [simp]: "k \<notin> {''data-slot'', ''disabled''} \<Longrightarrow> with_attr k (site_button d cs) = concat (List.map (with_attr k) cs)"
  by (auto simp: site_button_def flag_def)

lemma alert_reads [simp]:
  "concat (List.map inputs (FormAlert r n noun)) = []"
  "concat (List.map links (FormAlert r n noun)) = (if r = None then [] else [u ''mailto:'' @ contactEmail])"
  "k \<notin> {''role'', ''href''} \<Longrightarrow> concat (List.map (with_attr k) (FormAlert r n noun)) = []"
  by (auto simp: FormAlert_def links_El split: option.split)

lemma opt_list: "(case if c then Some x else None of None \<Rightarrow> [] | Some i \<Rightarrow> [i]) = (if c then [x] else [])"
  by simp

lemmas form_parts = FormCard_def SubmitButton_def email_props_def text_reads trap_reads links_El opt_list

lemma contact_drawn:
  fixes iv :: "jstr \<times> jstr"
  assumes "unsent st"
  defines "val \<equiv> field (submission_values st (prefilled iv))"
  shows "submitted (ContactForm b pending st iv) =
      List.map (\<lambda>f. (field_name f, FText (val f))) [FName, FEmail, FOrganisation, FAsset]
      @ (if val FRole \<in> set ROLES then [(field_name FRole, FText (val FRole))] else [])
      @ [(field_name FMessage, FText (val FMessage)), (HONEYPOT_FIELD, FText [])]"
    and "with_attr ''id'' (ContactForm b pending st iv) =
      concat (List.map (ids_of b st) [FName, FEmail, FOrganisation, FAsset, FRole, FMessage]) @ [trap_id]"
    and "with_attr ''for'' (ContactForm b pending st iv) =
      List.map (field_id b) [FName, FEmail, FOrganisation, FAsset, FMessage] @ [trap_id]"
    and "with_attr ''aria-describedby'' (ContactForm b pending st iv) =
      concat (List.map (error_ids b st) [FName, FEmail, FOrganisation, FAsset, FRole, FMessage])"
    and "links (ContactForm b pending st iv) = (if failure_of st = None then [] else [u ''mailto:'' @ contactEmail])"
    and "\<And>f m. map_of (submission_errors st) f = Some m \<Longrightarrow> m \<noteq> [] \<Longrightarrow> m \<in> set (texts (ContactForm b pending st iv))"
proof -
  let ?b = "bind_field b st (prefilled iv)"
  have drawn: "ContactForm b pending st iv =
      FormCard [El ''form'' [(''aria-label'', u ''Write to the team'')]
            (FormAlert (failure_of st) (errorCount st) ''message''
             @ [El ''div'' [] [TextField (?b FName) ''Name'' False [(''autocomplete'', u ''name'')],
                               TextField (?b FEmail) ''Work email'' False email_props],
                El ''div'' [] [TextField (?b FOrganisation) ''Organisation'' False [(''autocomplete'', u ''organization'')],
                               TextField (?b FAsset) ''Asset or product'' True [(''placeholder'', u ''ARSK, USDC, a wallet'')]],
                RoleField (?b FRole) ''You are'' ROLES,
                TextAreaField (?b FMessage) ''Message''
                  [(''rows'', u ''5''), (''placeholder'', u ''Which asset, roughly how many customers, and what you want holders to see.'')],
                Honeypot,
                SubmitButton pending ''Send message'' ''Sending''])]"
    using assms(1) by (cases st) (simp_all add: ContactForm_def Let_def unsent_def)
  show "submitted (ContactForm b pending st iv) =
      List.map (\<lambda>f. (field_name f, FText (val f))) [FName, FEmail, FOrganisation, FAsset]
      @ (if val FRole \<in> set ROLES then [(field_name FRole, FText (val FRole))] else [])
      @ [(field_name FMessage, FText (val FMessage)), (HONEYPOT_FIELD, FText [])]"
    by (simp add: submitted_def drawn FormCard_def SubmitButton_def email_props_def text_entries role_entries trap_entries val_def)
  show "with_attr ''id'' (ContactForm b pending st iv) =
      concat (List.map (ids_of b st) [FName, FEmail, FOrganisation, FAsset, FRole, FMessage]) @ [trap_id]"
    by (simp add: drawn form_parts ids_of_def trap_id_def split del: if_split cong: if_cong)
  show "with_attr ''for'' (ContactForm b pending st iv) =
      List.map (field_id b) [FName, FEmail, FOrganisation, FAsset, FMessage] @ [trap_id]"
    by (simp add: drawn form_parts ids_of_def trap_id_def split del: if_split cong: if_cong)
  show "with_attr ''aria-describedby'' (ContactForm b pending st iv) =
      concat (List.map (error_ids b st) [FName, FEmail, FOrganisation, FAsset, FRole, FMessage])"
    by (simp add: drawn form_parts ids_of_def trap_id_def split del: if_split cong: if_cong)
  show "links (ContactForm b pending st iv) = (if failure_of st = None then [] else [u ''mailto:'' @ contactEmail])"
    by (simp add: drawn form_parts split del: if_split cong: if_cong)
  show "m \<in> set (texts (ContactForm b pending st iv))" if "map_of (submission_errors st) f = Some m" "m \<noteq> []" for f m
    using that by (cases f) (simp_all add: drawn FormCard_def error_shown)
qed

lemma waitlist_drawn:
  assumes "unsent st"
  defines "val \<equiv> field (submission_values st [])"
  shows "submitted (WaitlistForm b pending st) =
      List.map (\<lambda>f. (field_name f, FText (val f))) [FEmail, FOrganisation]
      @ (if val FRole \<in> set ROLES then [(field_name FRole, FText (val FRole))] else []) @ [(HONEYPOT_FIELD, FText [])]"
    and "with_attr ''id'' (WaitlistForm b pending st) =
      concat (List.map (ids_of b st) [FEmail, FOrganisation, FRole]) @ [trap_id]"
    and "with_attr ''for'' (WaitlistForm b pending st) =
      List.map (field_id b) [FEmail, FOrganisation] @ [trap_id]"
    and "with_attr ''aria-describedby'' (WaitlistForm b pending st) =
      concat (List.map (error_ids b st) [FEmail, FOrganisation, FRole])"
    and "links (WaitlistForm b pending st) = (if failure_of st = None then [] else [u ''mailto:'' @ contactEmail])"
    and "\<And>f m. map_of (submission_errors st) f = Some m \<Longrightarrow> m \<noteq> [] \<Longrightarrow> f \<in> set WAITLIST_FIELDS
      \<Longrightarrow> m \<in> set (texts (WaitlistForm b pending st))"
proof -
  let ?b = "bind_field b st []"
  have drawn: "WaitlistForm b pending st =
      FormCard [El ''form'' [(''aria-label'', u ''Join the waitlist'')]
            (FormAlert (failure_of st) (errorCount st) ''request''
             @ [TextField (?b FEmail) ''Work email'' False email_props,
                TextField (?b FOrganisation) ''Organisation'' False [(''autocomplete'', u ''organization'')],
                RoleField (?b FRole) ''You are'' ROLES,
                Honeypot,
                SubmitButton pending ''Join the waitlist'' ''Joining''])]"
    using assms(1) by (cases st) (simp_all add: WaitlistForm_def Let_def unsent_def)
  show "submitted (WaitlistForm b pending st) =
      List.map (\<lambda>f. (field_name f, FText (val f))) [FEmail, FOrganisation]
      @ (if val FRole \<in> set ROLES then [(field_name FRole, FText (val FRole))] else []) @ [(HONEYPOT_FIELD, FText [])]"
    by (simp add: submitted_def drawn FormCard_def SubmitButton_def email_props_def text_entries role_entries trap_entries val_def)
  show "with_attr ''id'' (WaitlistForm b pending st) =
      concat (List.map (ids_of b st) [FEmail, FOrganisation, FRole]) @ [trap_id]"
    by (simp add: drawn form_parts ids_of_def trap_id_def split del: if_split cong: if_cong)
  show "with_attr ''for'' (WaitlistForm b pending st) =
      List.map (field_id b) [FEmail, FOrganisation] @ [trap_id]"
    by (simp add: drawn form_parts ids_of_def trap_id_def split del: if_split cong: if_cong)
  show "with_attr ''aria-describedby'' (WaitlistForm b pending st) =
      concat (List.map (error_ids b st) [FEmail, FOrganisation, FRole])"
    by (simp add: drawn form_parts ids_of_def trap_id_def split del: if_split cong: if_cong)
  show "links (WaitlistForm b pending st) = (if failure_of st = None then [] else [u ''mailto:'' @ contactEmail])"
    by (simp add: drawn form_parts split del: if_split cong: if_cong)
  show "m \<in> set (texts (WaitlistForm b pending st))"
    if "map_of (submission_errors st) f = Some m" "m \<noteq> []" "f \<in> set WAITLIST_FIELDS" for f m
    using that by (cases f) (simp_all add: drawn FormCard_def error_shown WAITLIST_FIELDS_def)
qed

section \<open>A form and the action it submits to\<close>

text \<open>The form of a state has kept the answers of a request, and its errors are those of the answer.\<close>

definition errors_of :: "contact_field list \<Rightarrow> (contact_field \<Rightarrow> jstr option) \<Rightarrow> field_values" where
  "errors_of names err = concat (List.map (\<lambda>f. case err f of Some m \<Rightarrow> [(f, m)] | None \<Rightarrow> []) names)"

lemma errors_of_map: "distinct names \<Longrightarrow> map_of (errors_of names err) f = (if f \<in> set names then err f else None)"
  by (induction names) (auto simp: errors_of_def map_of_eq_None_iff[THEN iffD2] split: option.split)

lemma errors_of_length: "length (errors_of names err) = length (filter (\<lambda>f. err f \<noteq> None) names)"
  by (induction names) (auto simp: errors_of_def split: option.split)

lemma validate_errors:
  assumes "validate is_email (readFields fd names) = Invalid errors"
  shows "\<exists>err. errors = errors_of names err \<and> (\<forall>f m. err f = Some m \<longrightarrow> m \<noteq> [])"
proof -
  let ?err = "\<lambda>f. case field_schema is_email f (form_get fd (field_name f)) of Inl (m # _) \<Rightarrow> if m \<noteq> [] then Some m else None | _ \<Rightarrow> None"
  have "List.map_filter (\<lambda>(f, v). case field_schema is_email f v of Inl (m # _) \<Rightarrow> if m \<noteq> [] then Some (f, m) else None | _ \<Rightarrow> None)
      (readFields fd names) = errors_of names ?err"
    by (induction names) (auto simp: readFields_def errors_of_def List.map_filter_simps split: sum.split list.split)
  with assms have "errors = errors_of names ?err" by (auto simp: validate_def split: if_splits)
  then show ?thesis by (intro exI [of _ ?err]) (auto split: sum.splits list.splits if_splits)
qed

definition answers :: "contact_field list \<Rightarrow> form_data \<Rightarrow> submission_state \<Rightarrow> bool" where
  "answers names fd st \<longleftrightarrow>
     (case st of
        Idle \<Rightarrow> False
      | Sent e \<Rightarrow> True
      | Failed r vals \<Rightarrow> vals = readFields fd names
      | InvalidState errors vals \<Rightarrow> vals = readFields fd names
          \<and> (\<exists>err. errors = errors_of names err \<and> (\<forall>f m. err f = Some m \<longrightarrow> m \<noteq> [])))"

lemma contact_answers:
  assumes "sendContact ms prev fd s = (Inr st, s')"
  shows "answers CONTACT_FIELDS fd st"
proof (cases "validate (ms_isEmail ms) (readFields fd CONTACT_FIELDS)")
  case (Invalid errors)
  from assms Invalid have "st = InvalidState errors (readFields fd CONTACT_FIELDS)"
    by (simp add: sendContact_def submit_def comp_simps Let_def)
  with validate_errors [OF Invalid] show ?thesis by (simp add: answers_def)
next
  case (Valid d)
  with assms show ?thesis
    by (auto simp: sendContact_def submit_def deliver_def bindM_def comp_simps Let_def answers_def split: option.splits if_splits)
qed

lemma waitlist_answers:
  assumes "joinWaitlist ms prev fd s = (Inr st, s')"
  shows "answers WAITLIST_FIELDS fd st"
proof (cases "validate (ms_isEmail ms) (readFields fd WAITLIST_FIELDS)")
  case (Invalid errors)
  from assms Invalid have "st = InvalidState errors (readFields fd WAITLIST_FIELDS)"
    by (simp add: joinWaitlist_def submitWaitlist_def comp_simps Let_def)
  with validate_errors [OF Invalid] show ?thesis by (simp add: answers_def)
next
  case (Valid d)
  let ?listed = "\<lambda>f. if f = FEmail then Some ALREADY_LISTED else None"
  have listed: "[(FEmail, ALREADY_LISTED)] = errors_of WAITLIST_FIELDS ?listed" "ALREADY_LISTED \<noteq> []"
    by (simp_all add: errors_of_def WAITLIST_FIELDS_def ALREADY_LISTED_def)
  have "\<exists>err. [(FEmail, ALREADY_LISTED)] = errors_of WAITLIST_FIELDS err \<and> (\<forall>f m. err f = Some m \<longrightarrow> m \<noteq> [])"
    by (rule exI [of _ ?listed]) (use listed in \<open>auto split: if_splits\<close>)
  with assms show ?thesis unfolding joinWaitlist_eval [OF Valid]
    by (auto simp: answers_def split: if_splits option.splits prod.splits sum.splits listing.splits)
qed

text \<open>A form redraws an answer: what was sent is shown, and anything else can be sent again as it is.\<close>

definition redraws :: "contact_field list \<Rightarrow> dom \<Rightarrow> submission_state \<Rightarrow> form_data \<Rightarrow> bool" where
  "redraws names v st fd \<longleftrightarrow>
     (\<forall>email. st = Sent email \<longrightarrow> inputs v = [] \<and> email \<in> set (texts v))
     \<and> (unsent st \<longrightarrow>
          readFields (submitted v) names = readFields fd names \<and> \<not> isBot (submitted v)
          \<and> distinct (with_attr ''id'' v)
          \<and> set (with_attr ''for'' v @ with_attr ''aria-describedby'' v) \<subseteq> set (with_attr ''id'' v)
          \<and> length (with_attr ''aria-describedby'' v) = errorCount st
          \<and> snd ` set (submission_errors st) \<subseteq> set (texts v)
          \<and> links v = (if failure_of st = None then [] else [u ''mailto:'' @ contactEmail]))"

lemma field_readFields: "field (readFields fd names) f = (if f \<in> set names then form_get fd (field_name f) else [])"
proof -
  have "map_of (readFields fd names) f = (if f \<in> set names then Some (form_get fd (field_name f)) else None)"
    by (induction names) (auto simp: readFields_def)
  then show ?thesis by (simp add: field_def)
qed

lemma answer_values: "answers names fd st \<Longrightarrow> unsent st \<Longrightarrow> submission_values st iv = readFields fd names"
  by (auto simp: answers_def unsent_def submission_values_def split: submission_state.splits)

lemma answer_errors:
  assumes "answers names fd st" "unsent st" "distinct names"
  shows "\<exists>err :: contact_field \<Rightarrow> jstr option. (\<forall>f m. err f = Some m \<longrightarrow> m \<noteq> []) \<and> errorCount st = length (filter (\<lambda>f. err f \<noteq> None) names)
    \<and> (\<forall>f. faulty st f \<longleftrightarrow> f \<in> set names \<and> err f \<noteq> None)
    \<and> (\<forall>(f, m) \<in> set (submission_errors st). f \<in> set names \<and> m \<noteq> [] \<and> map_of (submission_errors st) f = Some m)"
proof -
  from assms(1,2) consider (invalid) err vals where "st = InvalidState (errors_of names err) vals" "\<forall>f m. err f = Some m \<longrightarrow> m \<noteq> []"
    | (none) "submission_errors st = []"
    by (auto simp: answers_def unsent_def submission_errors_def split: submission_state.splits)
  then show ?thesis
  proof cases
    case (invalid err vals)
    have "(f, m) \<in> set (errors_of names err) \<Longrightarrow> f \<in> set names \<and> err f = Some m" for f m
      by (auto simp: errors_of_def split: option.splits)
    with invalid show ?thesis
      by (intro exI [of _ err])
        (use assms(3) in \<open>auto simp: submission_errors_def errorCount_def errors_of_length errors_of_map\<close>)
  next
    case none
    show ?thesis by (rule exI [of _ "\<lambda>f :: contact_field. None :: jstr option"]) (use none in \<open>simp add: errorCount_def\<close>)
  qed
qed

lemma sent_panel: "st = Sent e \<Longrightarrow> redraws names (ContactForm b pending st iv) st fd"
  "st = Sent e \<Longrightarrow> redraws names (WaitlistForm b pending st) st fd"
  by (simp_all add: redraws_def unsent_def ContactForm_def WaitlistForm_def FormCard_def SentPanel_def)

lemma no_empty_role: "[] \<notin> set ROLES"
  by (simp add: ROLES_def)

lemma ids_cover:
  "set fs \<subseteq> set gs \<Longrightarrow> set (concat (List.map (error_ids b st) fs)) \<subseteq> set (concat (List.map (ids_of b st) gs) @ [trap_id])"
  "set fs \<subseteq> set gs - {FRole} \<Longrightarrow> set (List.map (field_id b) fs @ [trap_id]) \<subseteq> set (concat (List.map (ids_of b st) gs) @ [trap_id])"
  by (fastforce simp: ids_of_def split: if_splits)+

lemma redrawsI:
  assumes "unsent st" "readFields (submitted v) names = readFields fd names" "\<not> isBot (submitted v)"
    "distinct (with_attr ''id'' v)" "set (with_attr ''for'' v) \<subseteq> set (with_attr ''id'' v)"
    "set (with_attr ''aria-describedby'' v) \<subseteq> set (with_attr ''id'' v)"
    "length (with_attr ''aria-describedby'' v) = errorCount st" "snd ` set (submission_errors st) \<subseteq> set (texts v)"
    "links v = (if failure_of st = None then [] else [u ''mailto:'' @ contactEmail])"
  shows "redraws names v st fd"
proof -
  have "st \<noteq> Sent e" for e using assms(1) by (auto simp: unsent_def)
  with assms show ?thesis unfolding redraws_def set_append by blast
qed

lemma contact_redraws:
  assumes "answers CONTACT_FIELDS fd st" "form_get fd (field_name FRole) \<in> insert [] (set ROLES)"
  shows "redraws CONTACT_FIELDS (ContactForm b pending st iv) st fd"
proof (cases "unsent st")
  case False
  then show ?thesis by (auto simp: unsent_def sent_panel split: submission_state.splits)
next
  case True
  note drawn = contact_drawn [OF True] answer_values [OF assms(1) True] field_readFields
  have fields: "distinct CONTACT_FIELDS" "set CONTACT_FIELDS = UNIV"
    by (auto simp: CONTACT_FIELDS_def) (metis contact_field.exhaust)
  obtain err :: "contact_field \<Rightarrow> jstr option" where err: "errorCount st = length (filter (\<lambda>f. err f \<noteq> None) CONTACT_FIELDS)"
    "\<And>f. faulty st f \<longleftrightarrow> f \<in> set CONTACT_FIELDS \<and> err f \<noteq> None"
    "\<forall>(f, m) \<in> set (submission_errors st). f \<in> set CONTACT_FIELDS \<and> m \<noteq> [] \<and> map_of (submission_errors st) f = Some m"
    using answer_errors [OF assms(1) True fields(1)] by blast
  show ?thesis
  proof (rule redrawsI [OF True])
    let ?v = "ContactForm b pending st iv"
    show "readFields (submitted ?v) CONTACT_FIELDS = readFields fd CONTACT_FIELDS"
      using assms(2) no_empty_role by (auto simp: drawn fields) (simp_all add: readFields_def CONTACT_FIELDS_def form_get_def)
    show "\<not> isBot (submitted ?v)" by (simp add: drawn isBot_def form_get_def trim_def)
    show "distinct (with_attr ''id'' ?v)" unfolding drawn(2) by (rule ids_distinct) simp
    show "set (with_attr ''for'' ?v) \<subseteq> set (with_attr ''id'' ?v)" "set (with_attr ''aria-describedby'' ?v) \<subseteq> set (with_attr ''id'' ?v)"
      unfolding drawn(2-4) by (rule ids_cover, simp)+
    show "length (with_attr ''aria-describedby'' ?v) = errorCount st"
      unfolding drawn(4) err by (simp add: CONTACT_FIELDS_def)
    show "snd ` set (submission_errors st) \<subseteq> set (texts ?v)" using err(3) drawn(6) by fastforce
  qed (rule drawn(5))
qed

lemma waitlist_redraws:
  assumes "answers WAITLIST_FIELDS fd st" "form_get fd (field_name FRole) \<in> insert [] (set ROLES)"
  shows "redraws WAITLIST_FIELDS (WaitlistForm b pending st) st fd"
proof (cases "unsent st")
  case False
  then show ?thesis by (auto simp: unsent_def sent_panel split: submission_state.splits)
next
  case True
  note drawn = waitlist_drawn [OF True] answer_values [OF assms(1) True] field_readFields
  have fields: "distinct WAITLIST_FIELDS" "set WAITLIST_FIELDS = {FEmail, FOrganisation, FRole}"
    by (auto simp: WAITLIST_FIELDS_def)
  obtain err :: "contact_field \<Rightarrow> jstr option" where err: "errorCount st = length (filter (\<lambda>f. err f \<noteq> None) WAITLIST_FIELDS)"
    "\<And>f. faulty st f \<longleftrightarrow> f \<in> set WAITLIST_FIELDS \<and> err f \<noteq> None"
    "\<forall>(f, m) \<in> set (submission_errors st). f \<in> set WAITLIST_FIELDS \<and> m \<noteq> [] \<and> map_of (submission_errors st) f = Some m"
    using answer_errors [OF assms(1) True fields(1)] by blast
  show ?thesis
  proof (rule redrawsI [OF True])
    let ?v = "WaitlistForm b pending st"
    show "readFields (submitted ?v) WAITLIST_FIELDS = readFields fd WAITLIST_FIELDS"
      using assms(2) no_empty_role by (auto simp: drawn fields) (simp_all add: readFields_def WAITLIST_FIELDS_def form_get_def)
    show "\<not> isBot (submitted ?v)" by (simp add: drawn isBot_def form_get_def trim_def)
    show "distinct (with_attr ''id'' ?v)" unfolding drawn(2) by (rule ids_distinct) simp
    show "set (with_attr ''for'' ?v) \<subseteq> set (with_attr ''id'' ?v)" "set (with_attr ''aria-describedby'' ?v) \<subseteq> set (with_attr ''id'' ?v)"
      unfolding drawn(2-4) by (rule ids_cover, simp)+
    show "length (with_attr ''aria-describedby'' ?v) = errorCount st"
      unfolding drawn(4) err by (simp add: WAITLIST_FIELDS_def)
    show "snd ` set (submission_errors st) \<subseteq> set (texts ?v)" using err(3) drawn(6) by fastforce
  qed (rule drawn(5))
qed

text \<open>C39: A form never loses what was typed.  Whatever the action answers, the form it is redrawn in, submitted
  as it stands, sends the server the same fields again, and is not taken for a bot; unless the
  message was sent, in which case no field is left and the address is shown.  Every error of the answer
  is shown; as many fields refer to an error as the alert counts; every label and every such reference
  leads to an element of the form, and no two elements share an id.  The role must be one of the
  options or none, which is all the form can send.\<close>

theorem forms_keep_what_was_typed:
  assumes "form_get fd (field_name FRole) \<in> insert [] (set ROLES)"
  shows "(sendContact ms previous fd s = (Inr st, s') \<longrightarrow> redraws CONTACT_FIELDS (ContactForm b pending st prefill) st fd)
    \<and> (joinWaitlist ms previous fd s = (Inr st, s') \<longrightarrow> redraws WAITLIST_FIELDS (WaitlistForm b pending st) st fd)"
  using contact_redraws [OF contact_answers assms] waitlist_redraws [OF waitlist_answers assms] by blast

lemma forms_keep_what_was_typed_witness:
  "\<exists>st s'. sendContact demo_mail Idle [(u ''name'', FText (u ''Ada''))] \<lparr>w_log = []\<rparr> = (Inr st, s') \<and> unsent st
     \<and> redraws CONTACT_FIELDS (ContactForm (u ''r1'') False st ([], [])) st [(u ''name'', FText (u ''Ada''))]"
proof -
  let ?fd = "[(u ''name'', FText (u ''Ada''))]"
  have role: "form_get ?fd (field_name FRole) \<in> insert [] (set ROLES)" by (simp add: form_get_def field_name_def)
  have "\<not> (\<forall>(f, v) \<in> set (readFields ?fd CONTACT_FIELDS). \<not> isl (field_schema (ms_isEmail demo_mail) f v))"
    by (simp add: readFields_def CONTACT_FIELDS_def form_get_def field_name_def field_schema_def parse_role_def ROLES_def)
  then obtain errors where "validate (ms_isEmail demo_mail) (readFields ?fd CONTACT_FIELDS) = Invalid errors"
    by (auto simp: validate_def)
  then have run: "sendContact demo_mail Idle ?fd \<lparr>w_log = []\<rparr> = (Inr (InvalidState errors (readFields ?fd CONTACT_FIELDS)), \<lparr>w_log = []\<rparr>)"
    by (simp add: sendContact_def submit_def comp_simps Let_def)
  show ?thesis
    by (intro exI conjI, rule run)
      (simp add: unsent_def, use forms_keep_what_was_typed [OF role] run in blast)
qed

section \<open>The pages around the forms\<close>

text \<open>Every link inside a page leads to an element of it, every section is labelled by a heading of it,
  and every other link is a route, a sister site or an address of the team.\<close>

lemma head_attr [simp]: "with_attr ''id'' (ChapterHead i l t le) = [i]" "with_attr ''aria-labelledby'' (ChapterHead i l t le) = []"
  by (auto simp: ChapterHead_def split: option.split)

lemma chapter_attr [simp]:
  "with_attr ''id'' (Chapter i x l cs) = (case i of Some v \<Rightarrow> [v] | None \<Rightarrow> []) @ concat (List.map (with_attr ''id'') cs)"
  "with_attr ''aria-labelledby'' (Chapter i x l cs) = (case l of Some v \<Rightarrow> [v] | None \<Rightarrow> []) @ concat (List.map (with_attr ''aria-labelledby'') cs)"
  by (auto simp: Chapter_def opt_attr_def split: option.split)

lemma opening_reads:
  "with_attr ''id'' (PageOpening p) = po_titleId p # (case po_figure p of Some f \<Rightarrow> with_attr ''id'' f | None \<Rightarrow> [])
     @ (case po_provenance p of Some ps \<Rightarrow> with_attr ''id'' (Provenance ps) | None \<Rightarrow> [])"
  "set (with_attr ''aria-labelledby'' (PageOpening p)) \<supseteq> {po_titleId p}"
  "links (PageOpening p) = (case po_primary p of Some (l, h) \<Rightarrow> [h] | None \<Rightarrow> []) @ (case po_secondary p of Some (l, h) \<Rightarrow> [h] | None \<Rightarrow> [])
     @ (case po_figure p of Some f \<Rightarrow> links f | None \<Rightarrow> []) @ (case po_provenance p of Some ps \<Rightarrow> links (Provenance ps) | None \<Rightarrow> [])"
  by (auto simp: PageOpening_def Let_def links_El split: option.split)

lemma form_links:
  "set (links (ContactForm b pending st iv)) \<subseteq> {u ''mailto:'' @ contactEmail, route ''howItWorks''}"
  "set (links (WaitlistForm b pending st)) \<subseteq> {u ''mailto:'' @ contactEmail, route ''contact''}"
  using contact_drawn(5) [of st b pending iv] waitlist_drawn(5) [of st b pending]
  by (cases st; simp add: unsent_def ContactForm_def WaitlistForm_def FormCard_def SentPanel_def links_El)+

lemma page_links:
  "concat (List.map links (ContactPage b pending st organisation role)) =
     [u ''#write'', route ''waitlist''] @ links (ContactForm b pending st (readPrefill organisation role))
     @ [u (''mailto:'' @ securityEmail), u githubUrl, u docsUrl, u ''mailto:'' @ contactEmail]"
  "concat (List.map links (WaitlistPage b pending st)) =
     [u ''#join'', route ''contact''] @ links (WaitlistForm b pending st) @ links (Close None None)"
  "u ''write'' \<in> set (concat (List.map (with_attr ''id'') (ContactPage b pending st organisation role)))"
  "u ''join'' \<in> set (concat (List.map (with_attr ''id'') (WaitlistPage b pending st)))"
  by (simp_all add: ContactPage_def WaitlistPage_def opening_reads WriteSection_def AfterYouWrite_def WaitlistNext_def NextSteps_def
      OtherChannels_def CHANNELS_def links_El ContactFigure_def)

lemma close_links: "set (links (Close None None)) \<subseteq> set inner_paths"
  by (simp add: Close_def patch_card_def DEFAULT_INSTITUTIONS_def DEFAULT_READERS_def links_El inner_paths_def routes_def)

definition known_links :: "jstr set" where
  "known_links = set inner_paths \<union> set outer_paths \<union> {u ''mailto:'' @ contactEmail, u (''mailto:'' @ securityEmail)}"

lemma known_link: "route ''waitlist'' \<in> known_links" "route ''contact'' \<in> known_links" "route ''howItWorks'' \<in> known_links"
  "u githubUrl \<in> known_links" "u docsUrl \<in> known_links" "u ''mailto:'' @ contactEmail \<in> known_links"
  "u (''mailto:'' @ securityEmail) \<in> known_links" "set inner_paths \<subseteq> known_links"
  by (simp_all add: known_links_def inner_paths_def routes_def outer_paths_def)

theorem contact_pages_anchored:
  assumes "v \<in> {ContactPage b pending st organisation role, WaitlistPage b pending st}"
  shows "\<forall>h \<in> set (concat (List.map links v)).
      h \<in> known_links \<or> (\<exists>i. h = 35 # i \<and> i \<in> set (concat (List.map (with_attr ''id'') v)))"
proof -
  have hash: "u ''#write'' = 35 # u ''write''" "u ''#join'' = 35 # u ''join''" by (simp_all add: u_def)
  from assms consider "v = ContactPage b pending st organisation role" | "v = WaitlistPage b pending st" by blast
  then show ?thesis
  proof cases
    case 1
    have "set (concat (List.map links v)) \<subseteq> {u ''#write''} \<union> known_links"
      unfolding 1 page_links(1) set_append set_simps
      using form_links(1) [of b pending st "readPrefill organisation role"] known_link by blast
    with page_links(3) [of b pending st organisation role] hash(1) show ?thesis unfolding 1 by blast
  next
    case 2
    have "set (concat (List.map links v)) \<subseteq> {u ''#join''} \<union> known_links"
      unfolding 2 page_links(2) set_append set_simps
      using form_links(2) [of b pending st] close_links known_link by blast
    with page_links(4) [of b pending st] hash(2) show ?thesis unfolding 2 by blast
  qed
qed

lemma contact_pages_anchored_witness:
  "\<exists>h \<in> set (concat (List.map links (WaitlistPage [] False Idle))). h = u ''#join''
     \<and> (h \<in> known_links \<or> (\<exists>i. h = 35 # i \<and> i \<in> set (concat (List.map (with_attr ''id'') (WaitlistPage [] False Idle)))))"
  using contact_pages_anchored [of "WaitlistPage [] False Idle" "[]" False Idle] page_links(2) [of "[]" False Idle] by auto

end
