(* ===== verification/Console_Api.thy ===== *)
theory Console_Api
  imports Sandbox_Api
begin

text \<open>
  The console's server routes (apps/web/src/app/api/provision, latest-proof) and the clients
  they use (lib/control-plane.ts, proof-registry.ts, solva.ts).  As in the sandbox routes, a route
  is a computation over the log of requests and contract reads, and the orchestrator and the
  ledger are parameters.
\<close>

section \<open>control-plane.ts\<close>

record console_env =
  ce_orchestratorUrl :: "jstr option"
  ce_apiToken :: "jstr option"
  ce_stellarNetwork :: "jstr option"
  ce_solvaNetwork :: "jstr option"
  ce_rpcUrl :: "jstr option"
  ce_passphrase :: "jstr option"

definition ORCH_URL :: "console_env \<Rightarrow> jstr" where
  "ORCH_URL env = override (u ''http://localhost:8080'') (ce_orchestratorUrl env)"

definition control_headers :: "console_env \<Rightarrow> (jstr \<times> jstr) list" where
  "control_headers env =
     [(u ''content-type'', u ''application/json'')]
     @ (case ce_apiToken env of
          Some t \<Rightarrow> if t \<noteq> [] then [(u ''Authorization'', u ''Bearer '' @ t)] else []
        | None \<Rightarrow> [])"

definition control_request :: "console_env \<Rightarrow> string \<Rightarrow> jstr \<Rightarrow> json \<Rightarrow> http_request" where
  "control_request env verb path body =
     \<lparr>rq_method = u verb, rq_url = ORCH_URL env @ path, rq_headers = control_headers env, rq_body = Some body\<rparr>"

definition control_failure :: "string \<Rightarrow> response \<Rightarrow> exn" where
  "control_failure what res = js_error ''Error'' (u what @ u '': HTTP '' @ show_int (rs_status res))"

text \<open>\<open>JSON.stringify\<close> leaves out a field whose value is undefined.\<close>

definition jfields :: "(string \<times> json) list \<Rightarrow> json" where
  "jfields kvs = JObj (List.map (\<lambda>(k, v). (u k, v)) (filter (\<lambda>(k, v). v \<noteq> JUndef) kvs))"

definition createTenant :: "sdk_net \<Rightarrow> console_env \<Rightarrow> json \<Rightarrow> json \<Rightarrow> (api_state, json) comp" where
  "createTenant net env name plan =
     bindM (fetchM net (control_request env ''POST'' (u ''/v1/tenants'') (jfields [(''name'', name), (''plan'', plan)]))) (\<lambda>res.
     if \<not> res_ok res then throwM (control_failure ''create tenant'' res) else liftR (rs_json res))"

definition setTenantWallet :: "sdk_net \<Rightarrow> console_env \<Rightarrow> json \<Rightarrow> json \<Rightarrow> (api_state, unit) comp" where
  "setTenantWallet net env tenantId walletAddress =
     bindM (liftR (encodeURIComponent (json_to_string tenantId))) (\<lambda>seg.
     bindM (fetchM net (control_request env ''PUT'' (u ''/v1/tenants/'' @ seg @ u ''/wallet'')
              (jfields [(''wallet_address'', walletAddress)]))) (\<lambda>res.
     if \<not> res_ok res then throwM (control_failure ''set tenant wallet'' res) else retM ()))"

definition setTenantContract :: "sdk_net \<Rightarrow> console_env \<Rightarrow> json \<Rightarrow> json \<Rightarrow> json \<Rightarrow> (api_state, unit) comp" where
  "setTenantContract net env tenantId contractId network =
     bindM (liftR (encodeURIComponent (json_to_string tenantId))) (\<lambda>seg.
     bindM (fetchM net (control_request env ''PUT'' (u ''/v1/tenants/'' @ seg @ u ''/contract'')
              (jfields [(''contract_id'', contractId), (''network'', network)]))) (\<lambda>res.
     if \<not> res_ok res then throwM (control_failure ''set tenant contract'' res) else retM ()))"

section \<open>proof-registry.ts, solva.ts\<close>

definition registry_network :: "console_env \<Rightarrow> network" where
  "registry_network env =
     (if ce_stellarNetwork env = Some (u ''mainnet'') then Mainnet
      else if ce_stellarNetwork env = Some (u ''local'') then Local else Testnet)"

definition solva_network :: "console_env \<Rightarrow> network" where
  "solva_network env =
     (if ce_solvaNetwork env = Some (u ''mainnet'') then Mainnet
      else if ce_solvaNetwork env = Some (u ''local'') then Local else Testnet)"

definition solvaClient :: "console_env \<Rightarrow> jstr \<Rightarrow> solva" where
  "solvaClient env tenant =
     new_solva \<lparr>sc_network = solva_network env, sc_tenant = tenant, sc_endpoints = None, sc_apiKey = None\<rparr>"

definition institution_client :: "console_env \<Rightarrow> jstr \<Rightarrow> solva" where
  "institution_client env institution = new_solva
     \<lparr>sc_network = registry_network env, sc_tenant = institution,
      sc_endpoints = Some
        \<lparr>pc_orchestratorUrl = Some (override (u ''http://localhost:8080'') (ce_orchestratorUrl env)),
         pc_rpcUrl = Some (override (u ''https://soroban-testnet.stellar.org'') (ce_rpcUrl env)),
         pc_networkPassphrase = Some (override (u ''Test SDF Network ; September 2015'') (ce_passphrase env)),
         pc_contractId = None\<rparr>,
      sc_apiKey = ce_apiToken env\<rparr>"

definition institutionLatestProof :: "sdk_net \<Rightarrow> soroban \<Rightarrow> console_env \<Rightarrow> jstr \<Rightarrow> (api_state, proof_meta) comp" where
  "institutionLatestProof net ch env institution =
     fresh_solva (getOnChainLatestProof net ch (institution_client env institution))"

definition isUnknownInstitution :: "exn \<Rightarrow> bool" where
  "isUnknownInstitution e \<longleftrightarrow> is_orchestrator_error e \<and> exn_status e = Some 404"

section \<open>Routes\<close>

text \<open>A body that is not JSON is answered; reading the fields of a \<open>null\<close> body throws out of the
  handler.\<close>

definition with_body :: "json result \<Rightarrow> (json \<Rightarrow> (api_state, api_reply) comp) \<Rightarrow> (api_state, api_reply) comp" where
  "with_body body k =
     (case body of Inl _ \<Rightarrow> retM (error_reply 400 (u ''invalid request body'')) | Inr v \<Rightarrow> k v)"

definition nullish_or :: "json \<Rightarrow> json \<Rightarrow> json" where
  "nullish_or v d = (if v = JUndef \<or> v = JNull then d else v)"

definition deploy_command :: "json \<Rightarrow> json \<Rightarrow> jstr" where
  "deploy_command tenantId wallet =
     u ''just provision-tenant '' @ json_to_string tenantId @ u '' '' @ json_to_string wallet @ u '' testnet signor''"

definition provision_POST :: "sdk_net \<Rightarrow> console_env \<Rightarrow> json result \<Rightarrow> (api_state, api_reply) comp" where
  "provision_POST net env body =
     with_body body (\<lambda>v.
       bindM (liftR (jprop v ''name'')) (\<lambda>name. bindM (liftR (jprop v ''plan'')) (\<lambda>plan.
       bindM (liftR (jprop v ''wallet'')) (\<lambda>wallet.
       if \<not> jtruthy name \<or> \<not> jtruthy wallet then retM (error_reply 400 (u ''name and wallet are required''))
       else catchM
         (bindM (createTenant net env name (nullish_or plan (JStr (u ''free'')))) (\<lambda>tenant.
          bindM (liftR (jprop tenant ''id'')) (\<lambda>tenantId.
          bindM (setTenantWallet net env tenantId wallet) (\<lambda>_.
          retM (reply 200 (jfields [(''tenantId'', tenantId), (''deployCommand'', JStr (deploy_command tenantId wallet))]))))))
         (\<lambda>e. retM (error_reply 502 (u ''provisioning failed: '' @ show_exn e)))))))"

definition provision_PUT :: "sdk_net \<Rightarrow> console_env \<Rightarrow> json result \<Rightarrow> (api_state, api_reply) comp" where
  "provision_PUT net env body =
     with_body body (\<lambda>v.
       bindM (liftR (jprop v ''tenantId'')) (\<lambda>tenantId. bindM (liftR (jprop v ''contractId'')) (\<lambda>contractId.
       bindM (liftR (jprop v ''network'')) (\<lambda>network.
       if \<not> jtruthy tenantId \<or> \<not> jtruthy contractId then retM (error_reply 400 (u ''tenantId and contractId are required''))
       else catchM
         (bindM (setTenantContract net env tenantId contractId (nullish_or network (JStr (u ''testnet'')))) (\<lambda>_.
          retM (reply 200 (JObj [(u ''ok'', JBool True)]))))
         (\<lambda>e. retM (error_reply 502 (u ''recording registry failed: '' @ show_exn e)))))))"

definition meta_json :: "proof_meta \<Rightarrow> json" where
  "meta_json m =
     JObj [(u ''rootHash'', JStr (pm_rootHash m)), (u ''reservesTotal'', JStr (pm_reservesTotal m)),
           (u ''liabilitiesTotal'', JStr (pm_liabilitiesTotal m)), (u ''timestamp'', JNum (pm_timestamp m))]"

definition reply_proof :: "proof_meta \<Rightarrow> api_reply" where
  "reply_proof m = reply 200 (JObj [(u ''proof'', meta_json m)])"

definition proof_failure :: "exn \<Rightarrow> api_reply" where
  "proof_failure e =
     (if isUnknownInstitution e then error_reply 404 (u ''unknown institution'')
      else reply 200 (JObj [(u ''proof'', JNull), (u ''note'', JStr (show_exn e))]))"

definition latest_proof_GET :: "sdk_net \<Rightarrow> soroban \<Rightarrow> console_env \<Rightarrow> jstr option \<Rightarrow> (api_state, api_reply) comp" where
  "latest_proof_GET net ch env institution_param =
     (let institution = override [] institution_param in
      if institution = [] then retM (error_reply 400 (u ''institution query parameter is required''))
      else catchM
        (bindM (institutionLatestProof net ch env institution) (\<lambda>proof.
         retM (reply_proof proof)))
        (\<lambda>e. retM (proof_failure e)))"

section \<open>What a fresh SDK client does for a proof\<close>

definition contract_of :: "network_config \<Rightarrow> json \<Rightarrow> contract_options result" where
  "contract_of ep dto =
     bindR (jprop dto ''contract_id'') (\<lambda>c. bindR (jprop dto ''network'') (\<lambda>n. new_chain_client ep c))"

lemma fresh_latest_proof_eval:
  assumes "nc_contractId (sv_endpoints sv) = []" "encodeURIComponent (oc_tenant (sv_orchestrator sv)) = Inr seg"
  shows "fresh_solva (getOnChainLatestProof net ch sv) s =
    (let rq = tenant_contract_request (sv_orchestrator sv) seg; s1 = s\<lparr>w_log := w_log s @ [Http rq]\<rparr> in
     case bindR (fst (request net (sv_orchestrator sv) ''GET'' (u ''/v1/tenants/'' @ seg @ u ''/contract'') None s))
            (contract_of (sv_endpoints sv)) of
       Inl e \<Rightarrow> (Inl e, s1)
     | Inr opts \<Rightarrow>
         (case so_meta ch (w_log s1) (opts, CallLatestProof) of
            Inl _ \<Rightarrow> Inl (ChainError (u ''get_latest_proof call failed''))
          | Inr m \<Rightarrow> Inr (toProofMeta m), s1\<lparr>w_log := w_log s1 @ [Call (opts, CallLatestProof)]\<rparr>))"
proof -
  let ?rq = "tenant_contract_request (sv_orchestrator sv) seg"
  let ?s = "\<lparr>w_log = w_log s, so_chain = None\<rparr>"
  let ?ans = "fst (request net (sv_orchestrator sv) ''GET'' (u ''/v1/tenants/'' @ seg @ u ''/contract'') None s)"
  have ans: "request net (sv_orchestrator sv) ''GET'' (u ''/v1/tenants/'' @ seg @ u ''/contract'') None ?s
      = (?ans, ?s\<lparr>w_log := w_log s @ [Http ?rq]\<rparr>)"
    by (simp add: comp_simps tenant_contract_request_def)
  have sx: "\<lparr>w_log = l\<rparr> = s\<lparr>w_log := l\<rparr>" for l by (cases s) simp
  show ?thesis
  proof (cases "bindR ?ans (contract_of (sv_endpoints sv))")
    case (Inl e)
    then have "fst (resolveChain net sv ?s) = Inl e \<and> w_log (snd (resolveChain net sv ?s)) = w_log s @ [Http ?rq]"
      using assms ans
      by (auto simp: resolveChain_def getTenantContract_def bindM_def comp_eval contract_of_def result_simps
          split: sum.splits prod.splits)
    with Inl show ?thesis
      by (auto simp: fresh_solva_def getOnChainLatestProof_def bindM_def Let_def sx split: prod.splits)
  next
    case (Inr opts)
    then have "resolveChain net sv ?s = (Inr opts, \<lparr>w_log = w_log s @ [Http ?rq], so_chain = Some opts\<rparr>)"
      using assms ans
      by (auto simp: resolveChain_def getTenantContract_def bindM_def comp_eval contract_of_def result_simps
          split: sum.splits prod.splits)
    with Inr show ?thesis
      by (auto simp: fresh_solva_def getOnChainLatestProof_def chain_getLatestProof_def registry_getLatestProof_def
          bindM_def catchM_def comp_simps Let_def sx split: sum.splits)
  qed
qed

section \<open>The institution's own registry\<close>

lemma institution_client_simps [simp]:
  "nc_contractId (sv_endpoints (institution_client env i)) = []"
  "oc_tenant (sv_orchestrator (institution_client env i)) = i"
  "oc_apiKey (sv_orchestrator (institution_client env i)) = ce_apiToken env"
  "oc_baseUrl (sv_orchestrator (institution_client env i)) = ORCH_URL env"
  by (cases "registry_network env"; simp add: institution_client_def new_solva_def resolveConfig_def override_def
      ORCH_URL_def Let_def)+

text \<open>The platform's JSON reader throws its own errors, never one of the SDK's.\<close>

definition json_errors_plain :: "sdk_net \<Rightarrow> bool" where
  "json_errors_plain net \<longleftrightarrow> (\<forall>log rq res e. net log rq = Inr res \<longrightarrow> rs_json res = Inl e \<longrightarrow> \<not> is_orchestrator_error e)"

lemma contract_of_error: "contract_of ep dto = Inl e \<Longrightarrow> \<not> is_orchestrator_error e"
  by (auto simp: contract_of_def result_simps jprop_def new_chain_client_def is_orchestrator_error_def ChainError_def
      js_error_def split: json.splits if_splits)

lemma meta_json_eq [simp]: "meta_json m = meta_json m' \<longleftrightarrow> m = m'"
  by (auto simp: meta_json_def)

lemma latest_proof_GET_eval:
  assumes "institution \<noteq> []" "encodeURIComponent institution = Inr seg"
  shows "latest_proof_GET net ch env (Some institution) s =
    (let sv = institution_client env institution;
         s1 = s\<lparr>w_log := w_log s @ [Http (tenant_contract_request (sv_orchestrator sv) seg)]\<rparr> in
     case bindR (fst (request net (sv_orchestrator sv) ''GET'' (u ''/v1/tenants/'' @ seg @ u ''/contract'') None s))
            (contract_of (sv_endpoints sv)) of
       Inl e \<Rightarrow> (Inr (proof_failure e), s1)
     | Inr opts \<Rightarrow>
         (Inr (case so_meta ch (w_log s1) (opts, CallLatestProof) of
            Inl _ \<Rightarrow> proof_failure (ChainError (u ''get_latest_proof call failed''))
          | Inr m \<Rightarrow> reply_proof (toProofMeta m)), s1\<lparr>w_log := w_log s1 @ [Call (opts, CallLatestProof)]\<rparr>))"
  using assms fresh_latest_proof_eval [of "institution_client env institution" seg net ch s]
  by (simp add: latest_proof_GET_def institutionLatestProof_def catchM_def bindM_def override_def comp_eval Let_def
      split: sum.split)

lemma reply_kinds [simp]:
  "ap_status (reply_proof m) = 200" "ap_status (proof_failure e) = 404 \<longleftrightarrow> isUnknownInstitution e"
  "reply_proof m = reply_proof m' \<longleftrightarrow> m = m'" "proof_failure e \<noteq> reply_proof m"
  by (auto simp: reply_proof_def proof_failure_def error_reply_def reply_def meta_json_def)

text \<open>A console read of the latest proof is scoped to the institution.  The route always
  answers.  It asks the orchestrator for the contract of exactly that institution, under its
  own tenant header; it answers 404 exactly when that request was answered 404; and a proof
  it returns is what the contract named in that answer gave in the one contract read made
  while answering, so two institutions never share a registry.\<close>

theorem latest_proof_own_registry:
  assumes "json_errors_plain net" "institution \<noteq> []" "encodeURIComponent institution = Inr seg"
    and "latest_proof_GET net ch env (Some institution) s = (r, s')"
  shows "let sv = institution_client env institution; rq = tenant_contract_request (sv_orchestrator sv) seg;
             l = w_log s @ [Http rq] in
    rq_url rq = ORCH_URL env @ u ''/v1/tenants/'' @ seg @ u ''/contract''
    \<and> map_of (rq_headers rq) (u ''x-solva-tenant'') = Some institution
    \<and> (\<exists>reply. r = Inr reply
        \<and> (ap_status reply = 404 \<longleftrightarrow> (\<exists>res. net (w_log s) rq = Inr res \<and> rs_status res = 404))
        \<and> (\<forall>m. reply = reply_proof m \<longrightarrow>
             (\<exists>res dto opts a. net (w_log s) rq = Inr res \<and> res_ok res \<and> rs_json res = Inr dto
                \<and> contract_of (sv_endpoints sv) dto = Inr opts
                \<and> so_meta ch l (opts, CallLatestProof) = Inr a \<and> m = toProofMeta a
                \<and> w_log s' = l @ [Call (opts, CallLatestProof)])))"
proof -
  let ?sv = "institution_client env institution"
  let ?rq = "tenant_contract_request (sv_orchestrator ?sv) seg"
  let ?ans = "fst (request net (sv_orchestrator ?sv) ''GET'' (u ''/v1/tenants/'' @ seg @ u ''/contract'') None s)"
  have head: "rq_url ?rq = ORCH_URL env @ u ''/v1/tenants/'' @ seg @ u ''/contract''"
    "map_of (rq_headers ?rq) (u ''x-solva-tenant'') = Some institution"
    by (simp_all add: tenant_contract_request_def the_request_def request_headers_def)
  have ans: "?ans = (case net (w_log s) ?rq of
         Inl _ \<Rightarrow> Inl (OrchestratorError (u ''request to '' @ (u ''/v1/tenants/'' @ seg @ u ''/contract'') @ u '' failed'') 0)
       | Inr res \<Rightarrow> if res_ok res then rs_json res
           else Inl (OrchestratorError (u ''GET'' @ u '' '' @ (u ''/v1/tenants/'' @ seg @ u ''/contract'') @ u '' returned ''
                  @ show_int (rs_status res) @ u '': '' @ (case rs_text res of Inr t \<Rightarrow> t | Inl _ \<Rightarrow> [])) (rs_status res)))"
    by (simp add: comp_simps tenant_contract_request_def)
  have unknown: "(\<exists>e. ?ans = Inl e \<and> isUnknownInstitution e) \<longleftrightarrow> (\<exists>res. net (w_log s) ?rq = Inr res \<and> rs_status res = 404)"
    using assms(1) unfolding json_errors_plain_def
    by (auto simp: ans isUnknownInstitution_def res_ok_def split: sum.splits if_splits)
  have only: "bindR ?ans (contract_of (sv_endpoints ?sv)) = Inl e \<Longrightarrow> isUnknownInstitution e \<longleftrightarrow> ?ans = Inl e \<and> isUnknownInstitution e" for e
    using contract_of_error by (auto simp: result_simps isUnknownInstitution_def)
  note run = assms(4) [unfolded latest_proof_GET_eval [OF assms(2,3)] Let_def]
  show ?thesis
  proof (cases "bindR ?ans (contract_of (sv_endpoints ?sv))")
    case (Inl e)
    then have "r = Inr (proof_failure e)" using run by simp
    moreover have "isUnknownInstitution e \<longleftrightarrow> (\<exists>res. net (w_log s) ?rq = Inr res \<and> rs_status res = 404)"
      using only [OF Inl] unknown Inl by (auto simp: result_simps)
    ultimately show ?thesis using head by (simp add: Let_def)
  next
    case (Inr opts)
    then obtain dto where dto: "?ans = Inr dto" "contract_of (sv_endpoints ?sv) dto = Inr opts" by (auto simp: result_simps)
    then obtain res where res: "net (w_log s) ?rq = Inr res" "res_ok res" "rs_json res = Inr dto"
      by (auto simp: ans split: sum.splits if_splits)
    then have "rs_status res \<noteq> 404" by (auto simp: res_ok_def)
    moreover have "\<not> isUnknownInstitution (ChainError m)" for m by (simp add: isUnknownInstitution_def)
    ultimately show ?thesis using run Inr dto res head by (auto simp: Let_def split: sum.splits)
  qed
qed

lemma latest_proof_own_registry_witness:
  "\<exists>r s'. latest_proof_GET (\<lambda>_ _. Inr \<lparr>rs_status = 404, rs_text = Inr [], rs_json = Inr JNull\<rparr>)
       \<lparr>so_meta = \<lambda>_ _. Inl uri_error, so_bool = \<lambda>_ _. Inl uri_error\<rparr>
       \<lparr>ce_orchestratorUrl = None, ce_apiToken = None, ce_stellarNetwork = None, ce_solvaNetwork = None, ce_rpcUrl = None, ce_passphrase = None\<rparr>
       (Some (u ''arden'')) \<lparr>w_log = []\<rparr> = (Inr r, s') \<and> ap_status r = 404"
proof -
  let ?net = "\<lambda>_ _. Inr \<lparr>rs_status = 404, rs_text = Inr [], rs_json = Inr JNull\<rparr> :: response result"
  let ?ch = "\<lparr>so_meta = \<lambda>_ _. Inl uri_error, so_bool = \<lambda>_ _. Inl uri_error\<rparr>"
  let ?env = "\<lparr>ce_orchestratorUrl = None, ce_apiToken = None, ce_stellarNetwork = None, ce_solvaNetwork = None, ce_rpcUrl = None, ce_passphrase = None\<rparr>"
  obtain r s' where run: "latest_proof_GET ?net ?ch ?env (Some (u ''arden'')) \<lparr>w_log = []\<rparr> = (r, s')"
    by (cases "latest_proof_GET ?net ?ch ?env (Some (u ''arden'')) \<lparr>w_log = []\<rparr>")
  have "json_errors_plain ?net" by (simp add: json_errors_plain_def)
  moreover have "encodeURIComponent (u ''arden'') = Inr (u ''arden'')"
    by (rule encodeURIComponent_plain) (simp add: u_def uri_unreserved_def)
  ultimately show ?thesis
    using latest_proof_own_registry [OF _ _ _ run] run by (auto simp: Let_def)
qed

end
