(* ===== verification/Kyb.thy ===== *)
theory Kyb
  imports Sandbox_Api
begin

text \<open>
  The public KYB submission of the console: the route (apps/web/src/app/api/kyb/route.ts) with its
  origin guard and per-address throttle, the mailer (lib/email/send.ts, config.ts) and the three
  emails (lib/email/templates.ts).  The clock reading, the parsed origin and body of a request
  arrive with it; Resend answers as a function of the log of mails.
\<close>

section \<open>Emails\<close>

record email_env =
  ee_siteUrl :: "jstr option"
  ee_appUrl :: "jstr option"
  ee_resendKey :: "jstr option"

definition SITE_URL :: "email_env \<Rightarrow> jstr" where
  "SITE_URL e = override (u ''https://joinsolva.xyz'') (ee_siteUrl e)"

definition APP_URL :: "email_env \<Rightarrow> jstr" where
  "APP_URL e = override (u ''https://app.joinsolva.xyz'') (ee_appUrl e)"

definition EMAIL_FROM :: jstr where "EMAIL_FROM = u ''Solva <hello@send.joinsolva.xyz>''"
definition SUPPORT_EMAIL :: jstr where "SUPPORT_EMAIL = u ''support@joinsolva.xyz''"

definition BANNER_URL :: "email_env \<Rightarrow> jstr" where
  "BANNER_URL e = SITE_URL e @ u ''/email/solva-email-banner-600x200-2x.png''"

text \<open>The palette and the font stacks by name.\<close>

definition palette :: "string \<Rightarrow> jstr" where
  "palette k = u (the (map_of
     [(''ink'', ''#0a0c06''), (''text'', ''#0b0d07''), (''sec'', ''#51564b''), (''page'', ''#eceee3''),
      (''card'', ''#ffffff''), (''hair'', ''#e3e4db''), (''accent'', ''#cfe524''), (''accentDeep'', ''#6e7a12''),
      (''offwhite'', ''#f5f6ee''), (''onAccent'', ''#0a0c06'')] k))"

definition quoted_name :: "string \<Rightarrow> jstr" where
  "quoted_name s = 39 # u s @ [39]"

definition fonts :: "string \<Rightarrow> jstr" where
  "fonts k =
     (if k = ''display'' then
        quoted_name ''Bricolage Grotesque'' @ u '', '' @ quoted_name ''Helvetica Neue'' @ u '', Arial, sans-serif''
      else if k = ''body'' then
        quoted_name ''Hanken Grotesk'' @ u '', '' @ quoted_name ''Helvetica Neue'' @ u '', Arial, sans-serif''
      else quoted_name ''IBM Plex Mono'' @ u '', ui-monospace, '' @ quoted_name ''SFMono-Regular'' @ u '', Menlo, monospace'')"

text \<open>The replacements run one after the other, so the ampersand goes first.\<close>

definition replace_char :: "nat \<Rightarrow> string \<Rightarrow> jstr \<Rightarrow> jstr" where
  "replace_char c w s = concat (List.map (\<lambda>x. if x = c then u w else [x]) s)"

definition esc :: "jstr \<Rightarrow> jstr" where
  "esc v = replace_char 34 ''&quot;'' (replace_char 62 ''&gt;'' (replace_char 60 ''&lt;'' (replace_char 38 ''&amp;'' v)))"

definition first_word :: "jstr \<Rightarrow> jstr" where
  "first_word s = takeWhile (\<lambda>c. \<not> is_ws c) (trim s)"

definition firstNameOf :: "jstr \<Rightarrow> jstr" where
  "firstNameOf name = esc (first_word name)"

definition paragraph_html :: "jstr \<Rightarrow> jstr" where
  \<open>paragraph_html html =
     u ''<p style="margin:0 0 16px;font-family:'' @ fonts ''body'' @ u '';font-size:15px;line-height:1.65;color:''
     @ palette ''sec'' @ u '';">'' @ html @ u ''</p>''\<close>

definition bulletList :: "jstr list \<Rightarrow> jstr" where
  \<open>bulletList items =
     u ''<table role="presentation" cellpadding="0" cellspacing="0" style="width:100%;margin:0 0 18px;">''
     @ concat (List.map (\<lambda>item.
         u ''<tr><td style="padding:0 0 10px;vertical-align:top;"><span style="color:'' @ palette ''accentDeep''
         @ u '';font-weight:700;">&bull;</span></td>''
         @ u ''<td style="padding:0 0 10px 10px;font-family:'' @ fonts ''body'' @ u '';font-size:15px;line-height:1.6;color:''
         @ palette ''sec'' @ u '';">'' @ item @ u ''</td></tr>'') items)
     @ u ''</table>''\<close>

definition button_html :: "jstr \<Rightarrow> jstr \<Rightarrow> jstr" where
  \<open>button_html label href =
     u ''<table role="presentation" cellpadding="0" cellspacing="0" style="margin:8px 0 4px;"><tr><td style="border-radius:10px;background:''
     @ palette ''accent'' @ u '';">''
     @ u ''<a href="'' @ href @ u ''" style="display:inline-block;padding:13px 26px;font-family:'' @ fonts ''body''
     @ u '';font-size:15px;font-weight:700;color:'' @ palette ''onAccent'' @ u '';text-decoration:none;border-radius:10px;">''
     @ esc label @ u ''</a>'' @ u ''</td></tr></table>''\<close>

definition details_row :: "jstr \<times> jstr \<Rightarrow> jstr" where
  \<open>details_row lv =
     u ''<tr>''
     @ u ''<td style="padding:9px 14px;border-bottom:1px solid '' @ palette ''hair'' @ u '';font-family:'' @ fonts ''mono''
     @ u '';font-size:11px;letter-spacing:0.06em;text-transform:uppercase;color:'' @ palette ''sec''
     @ u '';white-space:nowrap;vertical-align:top;">'' @ esc (fst lv) @ u ''</td>''
     @ u ''<td style="padding:9px 14px;border-bottom:1px solid '' @ palette ''hair'' @ u '';font-family:'' @ fonts ''body''
     @ u '';font-size:14px;color:'' @ palette ''text'' @ u '';">'' @ replace_char 10 ''<br>'' (esc (snd lv)) @ u ''</td>''
     @ u ''</tr>''\<close>

definition detailsTable :: "(jstr \<times> jstr) list \<Rightarrow> jstr" where
  \<open>detailsTable rows =
     u ''<table role="presentation" cellpadding="0" cellspacing="0" style="width:100%;border:1px solid '' @ palette ''hair''
     @ u '';border-radius:10px;border-collapse:separate;overflow:hidden;margin:4px 0 8px;">''
     @ concat (List.map details_row (filter (\<lambda>(label, v). trim v \<noteq> []) rows)) @ u ''</table>''\<close>

definition nl :: jstr where "nl = [10]"

definition shell :: "email_env \<Rightarrow> jstr \<Rightarrow> jstr \<Rightarrow> jstr \<Rightarrow> jstr" where
  \<open>shell e preheader heading body =
     u ''<!doctype html>'' @ nl @ u ''<html lang="en">'' @ nl @ u ''<head>'' @ nl @ u ''<meta charset="utf-8">'' @ nl
     @ u ''<meta name="viewport" content="width=device-width, initial-scale=1">'' @ nl
     @ u ''<meta name="color-scheme" content="light">'' @ nl
     @ u ''<link rel="preconnect" href="https://fonts.googleapis.com">'' @ nl
     @ u ''<link href="https://fonts.googleapis.com/css2?family=Bricolage+Grotesque:wght@600;700&family=Hanken+Grotesk:wght@400;500;600&family=IBM+Plex+Mono&display=swap" rel="stylesheet">'' @ nl
     @ u ''<style>@media only screen and (max-width:600px){.sv-outer{padding-left:0!important;padding-right:0!important;}.sv-card{border-radius:0!important;}.sv-pad{padding-left:24px!important;padding-right:24px!important;}}</style>'' @ nl
     @ u ''<title>'' @ esc heading @ u ''</title>'' @ nl @ u ''</head>'' @ nl
     @ u ''<body style="margin:0;padding:0;background:'' @ palette ''page'' @ u '';">'' @ nl
     @ u ''<span style="display:none;max-height:0;overflow:hidden;opacity:0;color:'' @ palette ''page'' @ u '';">''
     @ esc preheader @ u ''</span>'' @ nl
     @ u ''<table role="presentation" cellpadding="0" cellspacing="0" style="width:100%;background:'' @ palette ''page'' @ u '';">'' @ nl
     @ u ''<tr><td align="center" class="sv-outer" style="padding:32px 16px;">'' @ nl
     @ u ''<table role="presentation" cellpadding="0" cellspacing="0" class="sv-card" style="width:100%;max-width:600px;background:''
     @ palette ''card'' @ u '';border-radius:16px;overflow:hidden;">'' @ nl
     @ u ''  <tr><td style="font-size:0;line-height:0;background:'' @ palette ''ink'' @ u '';">'' @ nl
     @ u ''    <img src="'' @ BANNER_URL e @ u ''" width="600" height="200" alt="Solva. Prove solvency. Privately." style="display:block;width:100%;max-width:600px;height:auto;border:0;">'' @ nl
     @ u ''  </td></tr>'' @ nl
     @ u ''  <tr><td style="height:3px;background:'' @ palette ''accent'' @ u '';font-size:0;line-height:0;">&nbsp;</td></tr>'' @ nl
     @ u ''  <tr><td class="sv-pad" style="padding:34px 32px 8px;">'' @ nl
     @ u ''    <h1 style="margin:0 0 18px;font-family:'' @ fonts ''display'' @ u '';font-size:23px;line-height:1.25;font-weight:700;letter-spacing:-0.02em;color:''
     @ palette ''text'' @ u '';">'' @ heading @ u ''</h1>'' @ nl
     @ u ''    '' @ body @ nl @ u ''  </td></tr>'' @ nl
     @ u ''  <tr><td class="sv-pad" style="padding:22px 32px 30px;">'' @ nl
     @ u ''    <table role="presentation" cellpadding="0" cellspacing="0" style="width:100%;border-top:1px solid '' @ palette ''hair'' @ u '';">'' @ nl
     @ u ''      <tr><td style="padding-top:18px;font-family:'' @ fonts ''body'' @ u '';font-size:12.5px;line-height:1.6;color:''
     @ palette ''sec'' @ u '';">'' @ nl
     @ u ''        <strong style="color:'' @ palette ''text'' @ u '';">Solva</strong> &middot; Zero-knowledge proof of reserves<br>'' @ nl
     @ u ''        Questions? Reach a real person at <a href="mailto:'' @ SUPPORT_EMAIL @ u ''" style="color:'' @ palette ''accentDeep''
     @ u '';text-decoration:none;font-weight:600;">'' @ SUPPORT_EMAIL @ u ''</a><br>'' @ nl
     @ u ''        <a href="'' @ SITE_URL e @ u ''" style="color:'' @ palette ''sec'' @ u '';text-decoration:underline;">joinsolva.xyz</a>'' @ nl
     @ u ''      </td></tr>'' @ nl @ u ''    </table>'' @ nl @ u ''  </td></tr>'' @ nl @ u ''</table>'' @ nl @ u ''</td></tr>'' @ nl
     @ u ''</table>'' @ nl @ u ''</body>'' @ nl @ u ''</html>''\<close>

record kyb_submission =
  ks_legalName :: jstr
  ks_contactName :: jstr
  ks_contactEmail :: jstr
  ks_type :: "jstr option"
  ks_institution :: "jstr option"
  ks_jurisdiction :: "jstr option"
  ks_registrationNumber :: "jstr option"

type_synonym email = "jstr \<times> jstr"

definition sign_off :: "string \<Rightarrow> jstr" where
  \<open>sign_off greeting = paragraph_html (u ''<span style="display:block;margin-top:18px;">'' @ u greeting @ u '',<br>The Solva team</span>'')\<close>

definition company_html :: "kyb_submission \<Rightarrow> jstr" where
  \<open>company_html d = u ''<strong style="color:'' @ palette ''text'' @ u '';">'' @ esc (ks_legalName d) @ u ''</strong>''\<close>

definition kybReceived :: "email_env \<Rightarrow> kyb_submission \<Rightarrow> email" where
  "kybReceived e d =
     (u ''We received your Solva application'',
      shell e (u ''Your institution is in review. We will email you the moment it is approved.'')
        (u ''Thanks, '' @ firstNameOf (ks_contactName d) @ u ''. Your application is in review.'')
        (paragraph_html (u ''We have received the onboarding details for '' @ company_html d
           @ u '', and a Solva reviewer is verifying them now.'')
         @ paragraph_html (u ''Here is what happens next:'')
         @ bulletList
             [u ''A reviewer checks your registration and compliance contact. This is a person, not an automated step.'',
              u ''Once you are approved, you will get an email and full access to your console.'',
              u ''We never ask for customer data, and nothing sensitive is needed to get verified.'']
         @ paragraph_html (u ''If a detail changes or you need to update something, just reply to this email.'')
         @ sign_off ''Talk soon''))"

definition kybApproved :: "email_env \<Rightarrow> kyb_submission \<Rightarrow> email" where
  "kybApproved e d =
     (u ''You are approved. Welcome to Solva.'',
      shell e (u ''Your console is ready. Sign in to run your first proof.'')
        (u ''You are approved, '' @ firstNameOf (ks_contactName d) @ u ''.'')
        (paragraph_html (u ''Good news. '' @ company_html d @ u '' is verified, and your Solva console is ready.'')
         @ paragraph_html (u ''You can now connect reserve sources, run a proof cycle, and publish a proof to Stellar. Sign in with your passkey to get started.'')
         @ button_html (u ''Open your console'') (APP_URL e)
         @ sign_off ''Welcome aboard''))"

definition coalesce :: "jstr option \<Rightarrow> jstr \<Rightarrow> jstr" where
  "coalesce v d = (case v of Some s \<Rightarrow> s | None \<Rightarrow> d)"

definition kybNotification :: "email_env \<Rightarrow> kyb_submission \<Rightarrow> email" where
  "kybNotification e d =
     (u ''New KYB submission: '' @ ks_legalName d,
      shell e (ks_legalName d @ u '' ('' @ ks_contactName d @ u '')'') (u ''New KYB submission'')
        (paragraph_html (u ''A new institution just submitted for KYB review.'')
         @ detailsTable
             [(u ''Legal name'', ks_legalName d),
              (u ''Institution'', coalesce (ks_institution d) (coalesce (ks_type d) [])),
              (u ''Jurisdiction'', coalesce (ks_jurisdiction d) []),
              (u ''Reg. number'', coalesce (ks_registrationNumber d) []),
              (u ''Contact'', ks_contactName d), (u ''Email'', ks_contactEmail d)]
         @ paragraph_html (u ''Reply to this email to reach the compliance contact directly.'')))"

section \<open>send.ts\<close>

record mail =
  ma_from :: jstr
  ma_to :: jstr
  ma_replyTo :: jstr
  ma_subject :: jstr
  ma_html :: jstr

text \<open>Resend answers a mail with the message of an error or none, or throws.\<close>

type_synonym mail_host = "mail event list \<Rightarrow> mail \<Rightarrow> jstr option result"

definition resend_configured :: "email_env \<Rightarrow> bool" where
  "resend_configured e \<longleftrightarrow> (case ee_resendKey e of Some key \<Rightarrow> key \<noteq> [] | None \<Rightarrow> False)"

definition send_email :: "mail_host \<Rightarrow> email_env \<Rightarrow> jstr \<Rightarrow> jstr \<Rightarrow> email \<Rightarrow> ((mail, 'z) world_scheme, unit) comp" where
  "send_email host e dest replyTo message =
     (if \<not> resend_configured e
      then throwM (js_error ''Error'' (u ''RESEND_API_KEY is not set''))
      else
        let m = \<lparr>ma_from = EMAIL_FROM, ma_to = dest, ma_replyTo = replyTo, ma_subject = fst message, ma_html = snd message\<rparr> in
        bindM getM (\<lambda>s. bindM (logM (Call m)) (\<lambda>_.
        bindM (liftR (host (w_log s) m)) (\<lambda>err.
        case err of Some msg \<Rightarrow> throwM (js_error ''Error'' msg) | None \<Rightarrow> retM ()))))"

definition sendKybSubmitted :: "mail_host \<Rightarrow> email_env \<Rightarrow> kyb_submission \<Rightarrow> ((mail, 'z) world_scheme, unit) comp" where
  "sendKybSubmitted host e d =
     bindM (send_email host e (ks_contactEmail d) SUPPORT_EMAIL (kybReceived e d)) (\<lambda>_.
     catchM (send_email host e SUPPORT_EMAIL (ks_contactEmail d) (kybNotification e d)) (\<lambda>_. retM ()))"

definition sendKybApproved :: "mail_host \<Rightarrow> email_env \<Rightarrow> kyb_submission \<Rightarrow> ((mail, 'z) world_scheme, unit) comp" where
  "sendKybApproved host e d = send_email host e (ks_contactEmail d) SUPPORT_EMAIL (kybApproved e d)"

section \<open>route.ts\<close>

record kyb_request =
  kr_origin :: "jstr option"
  kr_host :: "jstr option"
  kr_cfIp :: "jstr option"
  kr_forwardedFor :: "jstr option"
  kr_now :: int
  kr_body :: "json result"

text \<open>The search for \<open>.+@.+\..+\<close>: a dot does not match a line terminator.\<close>

definition line_end :: "nat \<Rightarrow> bool" where
  "line_end c \<longleftrightarrow> c \<in> {10, 13, 0x2028, 0x2029}"

definition emailLooksValid :: "jstr \<Rightarrow> bool" where
  "emailLooksValid v \<longleftrightarrow>
     (\<exists>i < length v. \<exists>j < length v. 0 < i \<and> v ! i = 64 \<and> \<not> line_end (v ! (i - 1))
        \<and> i + 1 < j \<and> v ! j = 46 \<and> (\<forall>k < j. i < k \<longrightarrow> \<not> line_end (v ! k))
        \<and> j + 1 < length v \<and> \<not> line_end (v ! (j + 1)))"

definition trimmed_str :: "json \<Rightarrow> jstr" where
  "trimmed_str v = (case v of JStr s \<Rightarrow> trim s | _ \<Rightarrow> [])"

text \<open>\<open>url_host\<close> is \<open>new URL(origin).host\<close>, which throws on an origin that is not a URL.\<close>

definition sameOrigin :: "(jstr \<Rightarrow> jstr result) \<Rightarrow> kyb_request \<Rightarrow> bool" where
  "sameOrigin url_host r =
     (case (kr_origin r, kr_host r) of
        (Some origin, Some host) \<Rightarrow>
          if origin = [] \<or> host = [] then False
          else (case url_host origin of Inr h \<Rightarrow> h = host | Inl _ \<Rightarrow> False)
      | _ \<Rightarrow> False)"

definition WINDOW_MS :: int where "WINDOW_MS = 60000"
definition MAX_PER_WINDOW :: int where "MAX_PER_WINDOW = 5"

record kyb_state = "mail world" +
  kb_hits :: "jstr \<rightharpoonup> int \<times> int"

definition rateLimited :: "jstr \<Rightarrow> int \<Rightarrow> (kyb_state, bool) comp" where
  "rateLimited ip now =
     bindM getM (\<lambda>s.
     case kb_hits s ip of
       None \<Rightarrow> bindM (modM (kb_hits_update (\<lambda>h. h(ip \<mapsto> (1, now + WINDOW_MS))))) (\<lambda>_. retM False)
     | Some (n, resetAt) \<Rightarrow>
         if resetAt < now then bindM (modM (kb_hits_update (\<lambda>h. h(ip \<mapsto> (1, now + WINDOW_MS))))) (\<lambda>_. retM False)
         else bindM (modM (kb_hits_update (\<lambda>h. h(ip \<mapsto> (n + 1, resetAt))))) (\<lambda>_. retM (MAX_PER_WINDOW < n + 1)))"

definition client_ip :: "kyb_request \<Rightarrow> jstr" where
  "client_ip r =
     (let cf = override [] (kr_cfIp r);
          xff = (case kr_forwardedFor r of Some s \<Rightarrow> trim (takeWhile (\<lambda>c. c \<noteq> 44) s) | None \<Rightarrow> [])
      in if cf \<noteq> [] then cf else if xff \<noteq> [] then xff else u ''unknown'')"

definition kyb_read :: "json \<Rightarrow> kyb_submission result" where
  "kyb_read body =
     bindR (jprop body ''legalName'') (\<lambda>legalName. bindR (jprop body ''contactName'') (\<lambda>contactName.
     bindR (jprop body ''contactEmail'') (\<lambda>contactEmail. bindR (jprop body ''type'') (\<lambda>type.
     bindR (jprop body ''institution'') (\<lambda>institution. bindR (jprop body ''jurisdiction'') (\<lambda>jurisdiction.
     bindR (jprop body ''registrationNumber'') (\<lambda>registration.
     Inr \<lparr>ks_legalName = take 200 (trimmed_str legalName), ks_contactName = take 200 (trimmed_str contactName),
          ks_contactEmail = take 320 (trimmed_str contactEmail), ks_type = Some (take 100 (trimmed_str type)),
          ks_institution = Some (take 100 (trimmed_str institution)),
          ks_jurisdiction = Some (take 120 (trimmed_str jurisdiction)),
          ks_registrationNumber = Some (take 120 (trimmed_str registration))\<rparr>)))))))"

definition kyb_complete :: "kyb_submission \<Rightarrow> bool" where
  "kyb_complete d \<longleftrightarrow> ks_legalName d \<noteq> [] \<and> ks_contactName d \<noteq> [] \<and> emailLooksValid (ks_contactEmail d)"

definition kyb_POST ::
  "(jstr \<Rightarrow> jstr result) \<Rightarrow> mail_host \<Rightarrow> email_env \<Rightarrow> kyb_request \<Rightarrow> (kyb_state, api_reply) comp" where
  "kyb_POST url_host host e r =
     (if \<not> sameOrigin url_host r then retM (error_reply 403 (u ''Forbidden.''))
      else bindM (rateLimited (client_ip r) (kr_now r)) (\<lambda>limited.
        if limited then retM (error_reply 429 (u ''Too many requests.''))
        else case kr_body r of
          Inl _ \<Rightarrow> retM (error_reply 400 (u ''Invalid request.''))
        | Inr body \<Rightarrow>
            bindM (liftR (kyb_read body)) (\<lambda>d.
            if \<not> kyb_complete d then retM (error_reply 400 (u ''Missing institution or contact details.''))
            else catchM
              (bindM (sendKybSubmitted host e d) (\<lambda>_. retM (reply 200 (JObj [(u ''ok'', JBool True)]))))
              (\<lambda>_. retM (error_reply 500 (u ''Could not send the email.''))))))"

text \<open>The requests an instance serves, one after the other.\<close>

fun kyb_serve ::
  "(jstr \<Rightarrow> jstr result) \<Rightarrow> mail_host \<Rightarrow> email_env \<Rightarrow> kyb_request list \<Rightarrow> kyb_state \<Rightarrow> api_reply result list \<times> kyb_state" where
  "kyb_serve url_host host e [] s = ([], s)" |
  "kyb_serve url_host host e (r # rs) s =
     (let (a, s1) = kyb_POST url_host host e r s; (as, s2) = kyb_serve url_host host e rs s1 in (a # as, s2))"

section \<open>The throttle\<close>

definition next_hit :: "int \<Rightarrow> (int \<times> int) option \<Rightarrow> int \<times> int" where
  "next_hit now entry =
     (case entry of None \<Rightarrow> (1, now + WINDOW_MS)
      | Some (n, resetAt) \<Rightarrow> if resetAt < now then (1, now + WINDOW_MS) else (n + 1, resetAt))"

lemma rateLimited_eval:
  "rateLimited ip now s =
     (let h = next_hit now (kb_hits s ip) in
      (Inr (case kb_hits s ip of None \<Rightarrow> False | Some (n, resetAt) \<Rightarrow> resetAt \<ge> now \<and> MAX_PER_WINDOW < fst h),
       s\<lparr>kb_hits := (kb_hits s)(ip \<mapsto> h)\<rparr>))"
  by (auto simp: rateLimited_def next_hit_def Let_def bindM_def comp_eval split: option.splits prod.splits)

lemma send_email_eval:
  "send_email host e dest rt m s =
     (if resend_configured e then
        (let ml = \<lparr>ma_from = EMAIL_FROM, ma_to = dest, ma_replyTo = rt, ma_subject = fst m, ma_html = snd m\<rparr> in
         (case host (w_log s) ml of
            Inl x \<Rightarrow> Inl x | Inr (Some msg) \<Rightarrow> Inl (js_error ''Error'' msg) | Inr None \<Rightarrow> Inr (),
          s\<lparr>w_log := w_log s @ [Call ml]\<rparr>))
      else (Inl (js_error ''Error'' (u ''RESEND_API_KEY is not set'')), s))"
  by (simp add: send_email_def Let_def logM_def bindM_def comp_eval split: sum.split option.split)

lemma keeps_hits_send: "keeps (\<lambda>s. kb_hits s = h) (sendKybSubmitted host e d)"
  unfolding sendKybSubmitted_def
  by (intro keeps_rules) (auto simp: keeps_def send_email_eval Let_def)

lemma hits_bind:
  assumes "\<And>x h. keeps (\<lambda>s. kb_hits s = h) (f x)"
  shows "kb_hits (snd (bindM m f s)) = kb_hits (snd (m s))"
proof -
  have "kb_hits (snd (f x t)) = kb_hits t" for x t
    using assms [of "kb_hits t" x] by (simp add: keeps_def)
  then show ?thesis by (simp add: bindM_def split: prod.split sum.split)
qed

definition throttled :: "api_reply result \<Rightarrow> bool" where
  "throttled a \<longleftrightarrow> (\<exists>rep. a = Inr rep \<and> ap_status rep = 429)"

lemma kyb_POST_admitted:
  assumes "sameOrigin url_host r"
  shows "kyb_POST url_host host e r s =
    (let (limited, s1) = rateLimited (client_ip r) (kr_now r) s in
     if limited = Inr True then (Inr (error_reply 429 (u ''Too many requests.'')), s1)
     else case kr_body r of
       Inl _ \<Rightarrow> (Inr (error_reply 400 (u ''Invalid request.'')), s1)
     | Inr body \<Rightarrow> (case kyb_read body of
         Inl x \<Rightarrow> (Inl x, s1)
       | Inr d \<Rightarrow>
           if \<not> kyb_complete d then (Inr (error_reply 400 (u ''Missing institution or contact details.'')), s1)
           else (case sendKybSubmitted host e d s1 of
               (Inl _, s2) \<Rightarrow> (Inr (error_reply 500 (u ''Could not send the email.'')), s2)
             | (Inr _, s2) \<Rightarrow> (Inr (reply 200 (JObj [(u ''ok'', JBool True)])), s2))))"
  using assms
  by (simp add: kyb_POST_def bindM_def catchM_def comp_eval rateLimited_eval Let_def split: sum.split prod.split)

lemma kyb_POST_hits:
  "kb_hits (snd (kyb_POST url_host host e r s)) =
     (if sameOrigin url_host r then (kb_hits s)(client_ip r \<mapsto> next_hit (kr_now r) (kb_hits s (client_ip r)))
      else kb_hits s)"
proof (cases "sameOrigin url_host r")
  case True
  have "kb_hits (snd (kyb_POST url_host host e r s)) = kb_hits (snd (rateLimited (client_ip r) (kr_now r) s))"
    using True unfolding kyb_POST_def
    by (simp only: not_True_eq_False if_False, intro hits_bind)
      (auto intro!: keeps_rules keeps_hits_send split: sum.split)
  with True show ?thesis by (simp add: rateLimited_eval Let_def)
qed (simp add: kyb_POST_def comp_eval)

lemma kyb_POST_throttled:
  "throttled (fst (kyb_POST url_host host e r s)) \<longleftrightarrow>
     sameOrigin url_host r \<and> (case kb_hits s (client_ip r) of None \<Rightarrow> False
       | Some (n, resetAt) \<Rightarrow> kr_now r \<le> resetAt \<and> MAX_PER_WINDOW < n + 1)"
proof (cases "sameOrigin url_host r")
  case True
  then show ?thesis
    by (auto simp: kyb_POST_admitted rateLimited_eval Let_def throttled_def error_reply_def reply_def next_hit_def
        split: sum.split prod.split option.split)
qed (simp add: kyb_POST_def comp_eval throttled_def error_reply_def reply_def)

text \<open>\<open>kyb_of url_host ip\<close> keeps the served requests of one address that pass the origin guard.\<close>

definition kyb_of :: "(jstr \<Rightarrow> jstr result) \<Rightarrow> jstr \<Rightarrow> kyb_request \<times> api_reply result \<Rightarrow> bool" where
  "kyb_of url_host ip = (\<lambda>(r, a). sameOrigin url_host r \<and> client_ip r = ip)"

lemma kyb_serve_Cons:
  "kyb_serve url_host host e (r # rs) s = (as, s') \<longleftrightarrow>
     (\<exists>a s1 as'. kyb_POST url_host host e r s = (a, s1) \<and> kyb_serve url_host host e rs s1 = (as', s') \<and> as = a # as')"
  by (auto simp: Let_def split: prod.splits)

lemma kyb_window:
  assumes "kyb_serve url_host host e rs s = (as, s')" "kb_hits s ip = Some (int n, t)"
    and "\<forall>x \<in> set (filter (kyb_of url_host ip) (zip rs as)). kr_now (fst x) \<le> t"
  shows "List.map (\<lambda>x. throttled (snd x)) (filter (kyb_of url_host ip) (zip rs as))
    = replicate (min (5 - n) (length (filter (kyb_of url_host ip) (zip rs as)))) False
      @ replicate (length (filter (kyb_of url_host ip) (zip rs as)) - (5 - n)) True"
  using assms
proof (induction rs arbitrary: s as n)
  case (Cons r rs)
  then obtain a s1 as' where post: "kyb_POST url_host host e r s = (a, s1)"
    and rest: "kyb_serve url_host host e rs s1 = (as', s')" and as: "as = a # as'"
    unfolding kyb_serve_Cons by blast
  note hits = kyb_POST_hits [of url_host host e r s, unfolded post, simplified]
  note thr = kyb_POST_throttled [of url_host host e r s, unfolded post, simplified]
  show ?case
  proof (cases "sameOrigin url_host r \<and> client_ip r = ip")
    case True
    then have now: "kr_now r \<le> t" using Cons.prems(3) by (simp add: as kyb_of_def)
    have hit: "kb_hits s1 ip = Some (int (Suc n), t)"
      using True hits Cons.prems(2) now by (auto simp: next_hit_def)
    have first: "filter (kyb_of url_host ip) (zip (r # rs) as) = (r, a) # filter (kyb_of url_host ip) (zip rs as')"
      using True by (simp add: as kyb_of_def)
    have "throttled a \<longleftrightarrow> 5 \<le> n" using thr True Cons.prems(2) now by (auto simp: MAX_PER_WINDOW_def)
    moreover have "5 - n = Suc (5 - Suc n)" if "\<not> 5 \<le> n" using that by simp
    ultimately show ?thesis
      using Cons.IH [OF rest hit] Cons.prems(3) unfolding first
      by (cases "5 \<le> n") auto
  next
    case False
    then have "kb_hits s1 ip = Some (int n, t)" using hits Cons.prems(2) by auto
    moreover have "filter (kyb_of url_host ip) (zip (r # rs) as) = filter (kyb_of url_host ip) (zip rs as')"
      using False by (auto simp: as kyb_of_def)
    ultimately show ?thesis using Cons.IH [OF rest] Cons.prems(3) by simp
  qed
qed simp

text \<open>C20: The throttle admits five submissions of an address per window.  Among the requests an
  instance serves, whatever the others are, take those of one address that pass the origin
  guard.  If no window of the address is open at the first and all of them fall into the window
  the first one opens, then exactly the first five are let through and every later one is
  answered 429.\<close>

theorem kyb_throttle:
  assumes "kyb_serve url_host host e rs s = (as, s')" "filter (kyb_of url_host ip) (zip rs as) = (r0, a0) # later"
    and "case kb_hits s ip of None \<Rightarrow> True | Some (n, t) \<Rightarrow> t < kr_now r0"
    and "\<forall>x \<in> set later. kr_now (fst x) \<le> kr_now r0 + WINDOW_MS"
  shows "List.map (\<lambda>x. throttled (snd x)) ((r0, a0) # later)
    = replicate (min 5 (Suc (length later))) False @ replicate (Suc (length later) - 5) True"
  using assms
proof (induction rs arbitrary: s as)
  case (Cons r rs)
  then obtain a s1 as' where post: "kyb_POST url_host host e r s = (a, s1)"
    and rest: "kyb_serve url_host host e rs s1 = (as', s')" and as: "as = a # as'"
    unfolding kyb_serve_Cons by blast
  note hits = kyb_POST_hits [of url_host host e r s, unfolded post, simplified]
  note thr = kyb_POST_throttled [of url_host host e r s, unfolded post, simplified]
  show ?case
  proof (cases "sameOrigin url_host r \<and> client_ip r = ip")
    case True
    with Cons.prems(2) have r: "r = r0" "a = a0" and later: "filter (kyb_of url_host ip) (zip rs as') = later"
      by (auto simp: as kyb_of_def)
    have "kb_hits s1 ip = Some (int 1, kr_now r0 + WINDOW_MS)"
      using True hits Cons.prems(3) r by (auto simp: next_hit_def split: option.splits)
    moreover have "\<not> throttled a0"
      using thr True Cons.prems(3) r by (auto split: option.splits)
    ultimately show ?thesis
      using kyb_window [OF rest, of ip 1 "kr_now r0 + WINDOW_MS"] Cons.prems(4) unfolding later by auto
  next
    case False
    then have same: "kb_hits s1 ip = kb_hits s ip" using hits by auto
    have "filter (kyb_of url_host ip) (zip (r # rs) as) = filter (kyb_of url_host ip) (zip rs as')"
      using False by (auto simp: as kyb_of_def)
    with Cons.prems(2) show ?thesis
      using Cons.IH [OF rest] Cons.prems(3,4) unfolding same by simp
  qed
qed simp

lemma kyb_serve_length: "kyb_serve url_host host e rs s = (as, s') \<Longrightarrow> length as = length rs"
  by (induction rs arbitrary: s as) (auto simp: kyb_serve_Cons simp del: kyb_serve.simps(2))

definition demo_kyb_request :: "int \<Rightarrow> kyb_request" where
  "demo_kyb_request t =
     \<lparr>kr_origin = Some (u ''https://app''), kr_host = Some (u ''app''), kr_cfIp = Some (u ''1''), kr_forwardedFor = None,
      kr_now = t, kr_body = Inl uri_error\<rparr>"

lemma demo_kyb_simps [simp]:
  "sameOrigin (\<lambda>_. Inr (u ''app'')) (demo_kyb_request t)" "client_ip (demo_kyb_request t) = u ''1''"
  "kr_now (demo_kyb_request t) = t" "kr_body (demo_kyb_request t) = Inl uri_error"
  by (simp_all add: demo_kyb_request_def sameOrigin_def client_ip_def override_def)

lemma kyb_throttle_witness:
  "List.map throttled (fst (kyb_serve (\<lambda>_. Inr (u ''app'')) (\<lambda>_ _. Inr None) \<lparr>ee_siteUrl = None, ee_appUrl = None, ee_resendKey = None\<rparr>
      (List.map demo_kyb_request [0, 10, 20, 30, 40, 60000]) \<lparr>w_log = [], kb_hits = (\<lambda>_. None)\<rparr>))
    = [False, False, False, False, False, True]"
proof -
  let ?uh = "\<lambda>_::jstr. Inr (u ''app'') :: jstr result"
  let ?e = "\<lparr>ee_siteUrl = None, ee_appUrl = None, ee_resendKey = None\<rparr>"
  let ?rs = "List.map demo_kyb_request [0, 10, 20, 30, 40, 60000]"
  obtain as s' where run: "kyb_serve ?uh (\<lambda>_ _. Inr None) ?e ?rs \<lparr>w_log = [], kb_hits = (\<lambda>_. None)\<rparr> = (as, s')"
    by fastforce
  have len: "length as = 6" using kyb_serve_length [OF run] by simp
  have "\<forall>x \<in> set (zip ?rs as). kyb_of ?uh (u ''1'') x" by (auto simp: kyb_of_def dest!: set_zip_leftD)
  then have all: "filter (kyb_of ?uh (u ''1'')) (zip ?rs as) = zip ?rs as" by simp
  obtain a0 as1 where as: "as = a0 # as1" "length as1 = 5" using len by (cases as) auto
  have "\<forall>x \<in> set (zip (tl ?rs) as1). kr_now (fst x) \<le> 0 + WINDOW_MS"
    by (auto simp: WINDOW_MS_def dest!: set_zip_leftD)
  moreover have "List.map throttled as = List.map (\<lambda>x. throttled (snd x)) (zip ?rs as)"
    using len by (simp flip: map_map [unfolded comp_def] add: comp_def)
  ultimately have "List.map throttled as = [False, False, False, False, False, True]"
    using kyb_throttle [OF run, of "u ''1''" "demo_kyb_request 0" a0 "zip (tl ?rs) as1"] all
    by (simp add: as eval_nat_numeral)
  then show ?thesis by (simp only: run fst_conv)
qed

section \<open>The mails\<close>

definition confirmation_mail :: "email_env \<Rightarrow> kyb_submission \<Rightarrow> mail" where
  "confirmation_mail e d =
     \<lparr>ma_from = EMAIL_FROM, ma_to = ks_contactEmail d, ma_replyTo = SUPPORT_EMAIL,
      ma_subject = fst (kybReceived e d), ma_html = snd (kybReceived e d)\<rparr>"

definition operator_mail :: "email_env \<Rightarrow> kyb_submission \<Rightarrow> mail" where
  "operator_mail e d =
     \<lparr>ma_from = EMAIL_FROM, ma_to = SUPPORT_EMAIL, ma_replyTo = ks_contactEmail d,
      ma_subject = fst (kybNotification e d), ma_html = snd (kybNotification e d)\<rparr>"

lemma sendKybSubmitted_eval:
  "sendKybSubmitted host e d s =
     (if resend_configured e then
        (let s1 = s\<lparr>w_log := w_log s @ [Call (confirmation_mail e d)]\<rparr> in
         case host (w_log s) (confirmation_mail e d) of
           Inl x \<Rightarrow> (Inl x, s1)
         | Inr (Some msg) \<Rightarrow> (Inl (js_error ''Error'' msg), s1)
         | Inr None \<Rightarrow> (Inr (), s1\<lparr>w_log := w_log s1 @ [Call (operator_mail e d)]\<rparr>))
      else (Inl (js_error ''Error'' (u ''RESEND_API_KEY is not set'')), s))"
  by (simp add: sendKybSubmitted_def bindM_def catchM_def send_email_eval Let_def comp_eval
      confirmation_mail_def operator_mail_def split: sum.split option.split)

lemma not_the_approval:
  "ma_subject (confirmation_mail e d) \<noteq> fst (kybApproved e d')" "ma_subject (operator_mail e d) \<noteq> fst (kybApproved e d')"
  by (simp_all add: confirmation_mail_def operator_mail_def kybReceived_def kybNotification_def kybApproved_def u_def)

text \<open>C21: A submission sends mail exactly where it should.  A mail is sent exactly when the request is
  of the same origin, let through by the throttle and complete, and a mail key is set: then the
  confirmation goes to the applicant it names and, once that is accepted, the notification to the
  operator.  The request succeeds exactly when the confirmation is accepted, whatever becomes of
  the notification; a complete request that is let through is otherwise answered 500.  No request
  sends the approval mail.\<close>

theorem kyb_mails:
  assumes "kyb_POST url_host host e r s = (a, s')"
  shows "\<exists>ms. w_log s' = w_log s @ List.map Call ms
    \<and> (\<forall>m \<in> set ms. \<forall>d. ma_subject m \<noteq> fst (kybApproved e d))
    \<and> ((\<exists>rep. a = Inr rep \<and> ap_status rep = 200) \<longleftrightarrow> ms \<noteq> [] \<and> host (w_log s) (hd ms) = Inr None)
    \<and> (ms \<noteq> [] \<longleftrightarrow> sameOrigin url_host r \<and> fst (rateLimited (client_ip r) (kr_now r) s) = Inr False
        \<and> resend_configured e \<and> (\<exists>body d. kr_body r = Inr body \<and> kyb_read body = Inr d \<and> kyb_complete d))
    \<and> (ms \<noteq> [] \<longrightarrow> \<not> throttled a
        \<and> (\<exists>body d. kr_body r = Inr body \<and> kyb_read body = Inr d \<and> kyb_complete d
            \<and> ms = confirmation_mail e d # (if host (w_log s) (hd ms) = Inr None then [operator_mail e d] else [])))
    \<and> (\<forall>body d. sameOrigin url_host r \<and> fst (rateLimited (client_ip r) (kr_now r) s) = Inr False
        \<and> kr_body r = Inr body \<and> kyb_read body = Inr d \<and> kyb_complete d
        \<longrightarrow> (\<exists>rep. a = Inr rep \<and> ap_status rep \<in> {200, 500}))"
    (is "\<exists>ms. ?sent ms")
proof (cases "sameOrigin url_host r")
  case False
  then have "?sent []" using assms by (auto simp: kyb_POST_def comp_eval error_reply_def reply_def)
  then show ?thesis by blast
next
  case True
  obtain l s1 where lim: "rateLimited (client_ip r) (kr_now r) s = (Inr l, s1)" and log: "w_log s1 = w_log s"
    by (simp add: rateLimited_eval Let_def)
  note run = assms [unfolded kyb_POST_admitted [OF True] lim, simplified]
  show ?thesis
  proof (cases "l \<or> (\<forall>body d. kr_body r = Inr body \<longrightarrow> kyb_read body = Inr d \<longrightarrow> \<not> kyb_complete d)
      \<or> \<not> resend_configured e")
    case True
    then have "?sent []"
      using run log
      by (auto simp: error_reply_def reply_def sendKybSubmitted_eval lim split: sum.splits if_splits)
    then show ?thesis by blast
  next
    case False
    then obtain body d where d: "\<not> l" "kr_body r = Inr body" "kyb_read body = Inr d" "kyb_complete d"
      and key: "resend_configured e" by blast
    then have "?sent (confirmation_mail e d # (if host (w_log s) (confirmation_mail e d) = Inr None then [operator_mail e d] else []))"
      using run log True
      by (auto simp: sendKybSubmitted_eval Let_def error_reply_def reply_def not_the_approval throttled_def lim
          split: sum.splits option.splits)
    then show ?thesis by blast
  qed
qed

definition kyb_mail_env :: email_env where
  "kyb_mail_env = \<lparr>ee_siteUrl = None, ee_appUrl = None, ee_resendKey = Some (u ''k'')\<rparr>"

definition filed :: kyb_request where
  "filed = demo_kyb_request 0 \<lparr>kr_body := Inr (JObj
     [(u ''legalName'', JStr (u ''Arden'')), (u ''contactName'', JStr (u ''Ada'')), (u ''contactEmail'', JStr (u ''a@b.c''))])\<rparr>"

definition filed_submission :: kyb_submission where
  "filed_submission =
     \<lparr>ks_legalName = u ''Arden'', ks_contactName = u ''Ada'', ks_contactEmail = u ''a@b.c'', ks_type = Some [],
      ks_institution = Some [], ks_jurisdiction = Some [], ks_registrationNumber = Some []\<rparr>"

lemma filed_simps [simp]:
  "sameOrigin (\<lambda>_. Inr (u ''app'')) filed" "client_ip filed = u ''1''" "resend_configured kyb_mail_env"
  by (simp_all add: filed_def demo_kyb_request_def sameOrigin_def client_ip_def override_def resend_configured_def kyb_mail_env_def)

lemma filed_reads: "\<exists>body. kr_body filed = Inr body \<and> kyb_read body = Inr filed_submission"
  by (simp add: filed_def kyb_read_def trimmed_str_def filed_submission_def) (simp add: u_def trim_def is_ws_def)

lemma filed_complete: "kyb_complete filed_submission"
proof -
  have "emailLooksValid (u ''a@b.c'')"
    unfolding emailLooksValid_def
    by (rule exI [of _ 1], simp, rule exI [of _ 3]) (auto simp: u_def line_end_def less_Suc_eq numeral_nat)
  then show ?thesis by (simp add: kyb_complete_def filed_submission_def)
qed

lemma kyb_mails_witness:
  "\<exists>a s'. kyb_POST (\<lambda>_. Inr (u ''app'')) (\<lambda>_ _. Inr None) kyb_mail_env filed \<lparr>w_log = [], kb_hits = (\<lambda>_. None)\<rparr> = (a, s')
     \<and> w_log s' = [Call (confirmation_mail kyb_mail_env filed_submission), Call (operator_mail kyb_mail_env filed_submission)]"
proof -
  let ?s = "\<lparr>w_log = [], kb_hits = (\<lambda>_. None)\<rparr>"
  obtain a s' where run: "kyb_POST (\<lambda>_. Inr (u ''app'')) (\<lambda>_ _. Inr None) kyb_mail_env filed ?s = (a, s')" by fastforce
  obtain body where body: "kr_body filed = Inr body" "kyb_read body = Inr filed_submission" using filed_reads by blast
  have "\<exists>rep. a = Inr rep \<and> ap_status rep = 200"
    using arg_cong [OF run, of fst] body filed_complete
    by (auto simp: kyb_POST_admitted rateLimited_eval Let_def sendKybSubmitted_eval reply_def)
  with kyb_mails [OF run] show ?thesis using run body by auto
qed

section \<open>Escaping\<close>

text \<open>The characters with which markup starts, ends and quotes.\<close>

definition markup :: "jstr \<Rightarrow> jstr" where
  "markup s = filter (\<lambda>c. c \<in> {34, 60, 62}) s"

lemma markup_append [simp]: "markup (s @ t) = markup s @ markup t"
  by (simp add: markup_def)

lemma markup_concat: "markup (concat ss) = concat (List.map markup ss)"
  by (induction ss) (simp_all add: markup_def)

lemma replace_char_set:
  "set (replace_char c w s) \<subseteq> (set s - {c}) \<union> set (u w)"
  by (auto simp: replace_char_def split: if_splits)

lemma markup_esc [simp]: "markup (esc v) = []"
proof -
  have "set (esc v) \<inter> {34, 60, 62} = {}"
    using replace_char_set [of 34 "''&quot;''"] replace_char_set [of 62 "''&gt;''"] replace_char_set [of 60 "''&lt;''"]
    unfolding esc_def by (fastforce simp: u_def)
  then show ?thesis by (auto simp: markup_def filter_empty_conv)
qed

lemma markup_firstNameOf [simp]: "markup (firstNameOf n) = []"
  by (simp add: firstNameOf_def)

lemma markup_frame:
  "markup (shell e p h b) = markup (shell e p' h' b')" if "markup h = markup h'" "markup b = markup b'"
  using that by (simp add: shell_def)

text \<open>An applicant cannot inject markup into a mail.  The characters with which HTML tags
  and attributes start, end and are quoted appear in the confirmation and in the approval
  in the same sequence for any two submissions: the names an applicant chooses only ever
  show up as text.\<close>

theorem email_markup:
  "markup (snd (kybReceived e d)) = markup (snd (kybReceived e d'))
   \<and> markup (snd (kybApproved e d)) = markup (snd (kybApproved e d'))"
proof -
  have company: "markup (company_html d) = markup (company_html d')" by (simp add: company_html_def)
  then show ?thesis
    unfolding kybReceived_def kybApproved_def snd_conv
    by (intro conjI markup_frame) (simp_all only: markup_append paragraph_html_def company markup_firstNameOf)
qed

end
