(* ===== verification/Session.thy ===== *)
theory Session
  imports Passkey_Ceremony Kyb
begin

text \<open>
  Who is signed in to the console: the passkey provider (apps/web/src/lib/auth.ts), the session
  types, permissions and store (lib/session/types.ts, permissions.ts, store.ts), the session
  provider with its operations (lib/session/provider.tsx), the gate of the console shell
  (app/(app)/layout.tsx), the sign-in and onboarding pages and the role filter of the sidebar.

  \<open>localStorage\<close> is split by what its keys hold: the active wallet is plain text, a passkey wallet
  and an institution are JSON text, kept here as what \<open>JSON.parse\<close> makes of it.  Storage
  may be blocked, and then every access throws.  A stored institution is untyped, as in the
  source; a stored wallet address that is not text counts as unreadable.
\<close>

section \<open>types.ts and permissions.ts\<close>

datatype role = Owner | Compliance | Operator | Viewer

datatype institution_type = IT_Anchor | IT_CustodialApp | IT_Exchange | IT_Custodian

datatype console_action = CycleRun | SourceConnect | ReportExport | DisclosureManage | TeamManage | KeysManage

definition type_name :: "institution_type \<Rightarrow> jstr" where
  "type_name t = (case t of IT_Anchor \<Rightarrow> u ''anchor'' | IT_CustodialApp \<Rightarrow> u ''custodial-app''
     | IT_Exchange \<Rightarrow> u ''exchange'' | IT_Custodian \<Rightarrow> u ''custodian'')"

definition INSTITUTION_TYPE_LABELS :: "(jstr \<times> jstr) list" where
  "INSTITUTION_TYPE_LABELS =
     [(u ''anchor'', u ''Anchor''), (u ''custodial-app'', u ''Custodial app''), (u ''exchange'', u ''Exchange''),
      (u ''custodian'', u ''Custodian'')]"

definition isInstitutionType :: "json \<Rightarrow> bool" where
  "isInstitutionType v \<longleftrightarrow> (case v of JStr s \<Rightarrow> s \<in> fst ` set INSTITUTION_TYPE_LABELS | _ \<Rightarrow> False)"

record kyb_input =
  ki_legalName :: jstr
  ki_type :: institution_type
  ki_jurisdiction :: jstr
  ki_registrationNumber :: jstr
  ki_contactName :: jstr
  ki_contactEmail :: jstr

text \<open>An institution is an object: its fields in order.\<close>

type_synonym institution = "(jstr \<times> json) list"

datatype session_status = Loading | Unauthenticated | Onboarding | Active

record console_session =
  sn_walletAddress :: jstr
  sn_operatorLabel :: jstr
  sn_role :: role
  sn_institution :: institution

definition permissions :: "role \<Rightarrow> console_action list" where
  "permissions r = (case r of
      Owner \<Rightarrow> [CycleRun, SourceConnect, ReportExport, DisclosureManage, TeamManage, KeysManage]
    | Compliance \<Rightarrow> [ReportExport, DisclosureManage]
    | Operator \<Rightarrow> [CycleRun, SourceConnect, ReportExport]
    | Viewer \<Rightarrow> [])"

definition can :: "role \<Rightarrow> console_action \<Rightarrow> bool" where
  "can r a \<longleftrightarrow> a \<in> set (permissions r)"

definition ROLE_LABELS :: "role \<Rightarrow> jstr" where
  "ROLE_LABELS r = (case r of Owner \<Rightarrow> u ''Owner'' | Compliance \<Rightarrow> u ''Compliance''
     | Operator \<Rightarrow> u ''Operator'' | Viewer \<Rightarrow> u ''Viewer'')"

section \<open>store.ts\<close>

record browser_storage =
  ls_blocked :: bool
  ls_activeWallet :: "jstr option"
  ls_institutions :: "jstr \<rightharpoonup> json result"
  ls_passkeys :: "jstr \<rightharpoonup> json result"

definition loadActiveWallet :: "browser_storage \<Rightarrow> jstr option" where
  "loadActiveWallet st = (if ls_blocked st then None else ls_activeWallet st)"

definition saveActiveWallet :: "jstr \<Rightarrow> browser_storage \<Rightarrow> browser_storage" where
  "saveActiveWallet wallet st = (if ls_blocked st then st else st\<lparr>ls_activeWallet := Some wallet\<rparr>)"

definition clearActiveWallet :: "browser_storage \<Rightarrow> browser_storage" where
  "clearActiveWallet st = (if ls_blocked st then st else st\<lparr>ls_activeWallet := None\<rparr>)"

text \<open>Only an object has a \<open>type\<close> that can pass the check; reading one of \<open>null\<close> throws and is caught.\<close>

definition loadInstitution :: "jstr \<Rightarrow> browser_storage \<Rightarrow> institution option" where
  "loadInstitution wallet st =
     (if ls_blocked st then None
      else case ls_institutions st wallet of
        Some (Inr (JObj i)) \<Rightarrow> if isInstitutionType (jlookup i (u ''type'')) then Some i else None
      | _ \<Rightarrow> None)"

definition saveInstitution :: "jstr \<Rightarrow> institution \<Rightarrow> browser_storage \<Rightarrow> browser_storage" where
  "saveInstitution wallet i st =
     (if ls_blocked st then st else st\<lparr>ls_institutions := (ls_institutions st)(wallet \<mapsto> Inr (JObj i))\<rparr>)"

section \<open>auth.ts\<close>

record smart_session =
  sm_contractAddress :: jstr
  sm_tenant :: jstr
  sm_label :: jstr

record console_state =
  cs_page :: page
  cs_storage :: browser_storage
  cs_auth :: "smart_session option"
  cs_session :: "console_session option"
  cs_loading :: bool

definition on_page :: "(page, 'a) comp \<Rightarrow> (console_state, 'a) comp" where
  "on_page m s = (case m (cs_page s) of (r, p) \<Rightarrow> (r, s\<lparr>cs_page := p\<rparr>))"

text \<open>What a sign-in runs against: the environment and the browser of the ceremony, the wallet
  SDK, the outcome of loading the wallet module, and the bytes \<open>getRandomValues\<close> draws.\<close>

record auth_host =
  ah_env :: environment
  ah_browser :: browser
  ah_sdk :: stellar_sdk
  ah_import :: "unit result"
  ah_random :: "nat list"

definition DEFAULT_TENANT :: jstr where "DEFAULT_TENANT = u ''demo-institution''"

definition text_field :: "json \<Rightarrow> string \<Rightarrow> jstr result" where
  "text_field v k = bindR (jprop v k) (\<lambda>x.
     case x of JStr s \<Rightarrow> Inr s | _ \<Rightarrow> Inl (js_error ''TypeError'' (u ''not a string'')))"

definition loadWallet :: "jstr \<Rightarrow> browser_storage \<Rightarrow> json option" where
  "loadWallet tenant st =
     (if ls_blocked st then None
      else case ls_passkeys st tenant of
        Some (Inr v) \<Rightarrow> if jtruthy v then Some v else None
      | _ \<Rightarrow> None)"

definition wallet_json :: "jstr \<Rightarrow> jstr \<Rightarrow> json" where
  "wallet_json credential address =
     JObj [(u ''credentialIdBase64Url'', JStr credential), (u ''contractAddress'', JStr address)]"

definition saveWallet :: "jstr \<Rightarrow> json \<Rightarrow> browser_storage \<Rightarrow> browser_storage" where
  "saveWallet tenant w st = (if ls_blocked st then st else st\<lparr>ls_passkeys := (ls_passkeys st)(tenant \<mapsto> Inr w)\<rparr>)"

text \<open>The ellipsis is U+2026.\<close>

definition shortAddress :: "jstr \<Rightarrow> jstr" where
  "shortAddress a = (if 10 < length a then take 5 a @ [0x2026] @ drop (length a - 4) a else a)"

definition assert_input :: "nat list \<Rightarrow> nat list \<Rightarrow> sign_with_passkey_input" where
  "assert_input challenge cid =
     \<lparr>si_challenge = challenge, si_rpId = None, si_allowCredentials = Some [cid], si_timeoutMs = None\<rparr>"

definition register_input :: "stellar_sdk \<Rightarrow> jstr \<Rightarrow> create_passkey_input" where
  "register_input k tenant =
     \<lparr>ci_rpName = u ''Solva'', ci_rpId = None, ci_userId = sk_utf8 k (tenant @ u '':operator''),
      ci_userName = u ''operator@'' @ tenant, ci_displayName = Some (u ''Solva Operator''), ci_timeoutMs = None\<rparr>"

definition returning_operator :: "auth_host \<Rightarrow> json \<Rightarrow> (console_state, jstr) comp" where
  "returning_operator h existing =
     bindM (on_page (phase ''authenticating'')) (\<lambda>_.
     bindM (liftR (bindR (text_field existing ''credentialIdBase64Url'') fromBase64Url)) (\<lambda>cid.
     bindM (liftR (signWithPasskey (ah_browser h) (assert_input (ah_random h) cid))) (\<lambda>_.
     liftR (text_field existing ''contractAddress''))))"

definition first_sign_in :: "auth_host \<Rightarrow> jstr \<Rightarrow> (console_state, jstr) comp" where
  "first_sign_in h tenant =
     bindM (on_page (phase ''registering'')) (\<lambda>_.
     bindM (liftR (createPasskey (ah_browser h) (register_input (ah_sdk h) tenant))) (\<lambda>passkey.
     bindM (on_page (phase ''provisioning'')) (\<lambda>_.
     bindM (liftR (ah_import h)) (\<lambda>_.
     bindM (on_page (provisionWallet (ah_sdk h) (cr_credentialId passkey) (cr_publicKey passkey))) (\<lambda>provisioned.
     bindM (modM (cs_storage_update (saveWallet tenant
              (wallet_json (cr_credentialIdBase64Url passkey) (pr_contractAddress provisioned))))) (\<lambda>_.
     retM (pr_contractAddress provisioned)))))))"

definition auth_signIn :: "auth_host \<Rightarrow> jstr option \<Rightarrow> (console_state, smart_session) comp" where
  "auth_signIn h tenant_option =
     (let tenant = override DEFAULT_TENANT tenant_option; support = detectPasskeySupport (ah_env h) in
      bindM (on_page (phase ''checking'')) (\<lambda>_.
      if \<not> ps_supported support then
        throwM (plain_error (override (u ''Passkeys are not available on this device.'') (ps_reason support)))
      else bindM getM (\<lambda>s.
        bindM (case loadWallet tenant (cs_storage s) of
                 Some existing \<Rightarrow> returning_operator h existing
               | None \<Rightarrow> first_sign_in h tenant) (\<lambda>address.
        let se = \<lparr>sm_contractAddress = address, sm_tenant = tenant, sm_label = shortAddress address\<rparr> in
        bindM (modM (cs_auth_update (\<lambda>_. Some se))) (\<lambda>_. retM se)))))"

definition auth_signOut :: "(console_state, unit) comp" where
  "auth_signOut = modM (cs_auth_update (\<lambda>_. None))"

section \<open>provider.tsx\<close>

fun base36 :: "nat \<Rightarrow> jstr" where
  "base36 n =
     (let d = n mod 36; c = (if d < 10 then 48 + d else 87 + d) in
      if n < 36 then [c] else base36 (n div 36) @ [c])"

declare base36.simps [simp del]

definition freshInstitution :: "nat \<Rightarrow> institution" where
  "freshInstitution now =
     [(u ''id'', JStr (u ''inst_'' @ base36 now)), (u ''legalName'', JStr []), (u ''type'', JStr (u ''anchor'')),
      (u ''jurisdiction'', JStr []), (u ''registrationNumber'', JStr []), (u ''contactName'', JStr []),
      (u ''contactEmail'', JStr []), (u ''kybStatus'', JStr (u ''not_started''))]"

definition buildSession :: "jstr \<Rightarrow> jstr \<Rightarrow> institution \<Rightarrow> console_session" where
  "buildSession wallet label i =
     \<lparr>sn_walletAddress = wallet, sn_operatorLabel = label, sn_role = Owner, sn_institution = i\<rparr>"

definition kyb_status :: "institution \<Rightarrow> json" where
  "kyb_status i = jlookup i (u ''kybStatus'')"

definition deriveStatus :: "console_session option \<Rightarrow> bool \<Rightarrow> session_status" where
  "deriveStatus se loading =
     (if loading then Loading
      else case se of
        None \<Rightarrow> Unauthenticated
      | Some x \<Rightarrow> if kyb_status (sn_institution x) \<noteq> JStr (u ''approved'') then Onboarding else Active)"

text \<open>The properties of a spread override those of the object, in place or at the end.\<close>

fun set_prop :: "jstr \<Rightarrow> json \<Rightarrow> institution \<Rightarrow> institution" where
  "set_prop k v [] = [(k, v)]" |
  "set_prop k v ((k', w) # r) = (if k = k' then (k, v) # r else (k', w) # set_prop k v r)"

definition spread :: "institution \<Rightarrow> (jstr \<times> json) list \<Rightarrow> institution" where
  "spread i kvs = fold (\<lambda>(k, v). set_prop k v) kvs i"

definition kyb_fields :: "kyb_input \<Rightarrow> (jstr \<times> json) list" where
  "kyb_fields x =
     [(u ''legalName'', JStr (ki_legalName x)), (u ''type'', JStr (type_name (ki_type x))),
      (u ''jurisdiction'', JStr (ki_jurisdiction x)), (u ''registrationNumber'', JStr (ki_registrationNumber x)),
      (u ''contactName'', JStr (ki_contactName x)), (u ''contactEmail'', JStr (ki_contactEmail x))]"

definition stored_or_fresh :: "jstr \<Rightarrow> nat \<Rightarrow> browser_storage \<Rightarrow> institution" where
  "stored_or_fresh wallet now st = override (freshInstitution now) (loadInstitution wallet st)"

text \<open>An active wallet of no characters is not resumed.\<close>

definition resume :: "nat \<Rightarrow> console_state \<Rightarrow> console_state" where
  "resume now s =
     (case loadActiveWallet (cs_storage s) of
        Some wallet \<Rightarrow>
          if wallet = [] then s\<lparr>cs_loading := False\<rparr>
          else s\<lparr>cs_session := Some (buildSession wallet (shortAddress wallet) (stored_or_fresh wallet now (cs_storage s))),
                 cs_loading := False\<rparr>
      | None \<Rightarrow> s\<lparr>cs_loading := False\<rparr>)"

definition signIn :: "auth_host \<Rightarrow> nat \<Rightarrow> (console_state, console_session) comp" where
  "signIn h now =
     bindM (auth_signIn h None) (\<lambda>auth.
     bindM getM (\<lambda>s.
     let wallet = sm_contractAddress auth;
         i = stored_or_fresh wallet now (cs_storage s);
         next_session = buildSession wallet (sm_label auth) i in
     bindM (modM (cs_storage_update (saveActiveWallet wallet \<circ> saveInstitution wallet i))) (\<lambda>_.
     bindM (modM (cs_session_update (\<lambda>_. Some next_session))) (\<lambda>_.
     retM next_session))))"

definition with_institution :: "(institution \<Rightarrow> institution) \<Rightarrow> console_state \<Rightarrow> console_state" where
  "with_institution f s =
     (case cs_session s of
        None \<Rightarrow> s
      | Some prev \<Rightarrow>
          let i = f (sn_institution prev) in
          s\<lparr>cs_storage := saveInstitution (sn_walletAddress prev) i (cs_storage s),
            cs_session := Some (prev\<lparr>sn_institution := i\<rparr>)\<rparr>)"

definition submitKyb :: "kyb_input \<Rightarrow> nat \<Rightarrow> console_state \<Rightarrow> console_state" where
  "submitKyb x now =
     with_institution (\<lambda>i. spread i (kyb_fields x
       @ [(u ''kybStatus'', JStr (u ''in_review'')), (u ''submittedAt'', JNum (int now))]))"

definition approveKyb :: "console_state \<Rightarrow> console_state" where
  "approveKyb = with_institution (\<lambda>i. spread i [(u ''kybStatus'', JStr (u ''approved''))])"

definition signOut :: "(console_state, unit) comp" where
  "signOut =
     bindM auth_signOut (\<lambda>_.
     bindM (modM (cs_storage_update clearActiveWallet)) (\<lambda>_. modM (cs_session_update (\<lambda>_. None))))"

section \<open>The pages and their gates\<close>

datatype app_route = HomeRoute | AuthRoute | OnboardingRoute

text \<open>Where the shell, the sign-in page and the onboarding page send a visitor, if anywhere.\<close>

definition shell_gate :: "session_status \<Rightarrow> app_route option" where
  "shell_gate st = (if st = Unauthenticated then Some AuthRoute
     else if st = Onboarding then Some OnboardingRoute else None)"

definition auth_gate :: "session_status \<Rightarrow> app_route option" where
  "auth_gate st = (if st = Active then Some HomeRoute
     else if st = Onboarding then Some OnboardingRoute else None)"

definition onboarding_gate :: "session_status \<Rightarrow> app_route option" where
  "onboarding_gate st = (if st = Unauthenticated then Some AuthRoute
     else if st = Active then Some HomeRoute else None)"

definition dashboard_shown :: "session_status \<Rightarrow> console_session option \<Rightarrow> bool" where
  "dashboard_shown st se \<longleftrightarrow> \<not> (st \<noteq> Active \<or> se = None)"

definition TITLES :: "(jstr \<times> jstr) list" where
  "TITLES = [(u ''/'', u ''Overview''), (u ''/sources'', u ''Sources''), (u ''/activity'', u ''Activity''),
     (u ''/settings'', u ''Settings'')]"

definition page_title :: "jstr \<Rightarrow> jstr" where
  "page_title pathname = override (u ''Overview'') (map_of TITLES pathname)"

definition ALL_ROLES :: "role list" where "ALL_ROLES = [Owner, Compliance, Operator, Viewer]"

definition NAV :: "(jstr \<times> jstr \<times> role list) list" where
  "NAV = [(u ''/'', u ''Overview'', ALL_ROLES), (u ''/sources'', u ''Sources'', ALL_ROLES),
     (u ''/activity'', u ''Activity'', ALL_ROLES), (u ''/settings'', u ''Settings'', [Owner, Compliance])]"

definition nav_items :: "role \<Rightarrow> (jstr \<times> jstr \<times> role list) list" where
  "nav_items r = filter (\<lambda>(href, label, roles). r \<in> set roles) NAV"

definition nav_active :: "jstr \<Rightarrow> jstr \<Rightarrow> bool" where
  "nav_active href pathname \<longleftrightarrow> (if href = u ''/'' then pathname = u ''/'' else prefix href pathname)"

section \<open>auth-client.tsx\<close>

definition PHASE_LABEL :: "jstr \<Rightarrow> jstr" where
  "PHASE_LABEL p =
     (if p = u ''checking'' then u ''Checking your device'' @ [0x2026]
      else if p = u ''provisioning'' then u ''Provisioning your wallet'' @ [0x2026]
      else u ''Waiting for your passkey'' @ [0x2026])"

record auth_page =
  ap_busy :: bool
  ap_phase :: "jstr option"
  ap_error :: "jstr option"
  ap_unsupported :: "jstr option"

definition ascii_lower :: "jstr \<Rightarrow> jstr" where
  "ascii_lower s = List.map (\<lambda>c. if 65 \<le> c \<and> c \<le> 90 then c + 32 else c) s"

definition sign_in_error :: "jstr \<Rightarrow> jstr" where
  "sign_in_error message =
     (if sublist (u ''NotAllowed'') message \<or> sublist (u ''cancel'') (ascii_lower message)
      then u ''The passkey prompt was dismissed. Try again.'' else message)"

definition support_notice :: "passkey_support \<Rightarrow> jstr option" where
  "support_notice p =
     (if \<not> ps_supported p then Some (override (u ''Passkeys are unavailable.'') (ps_reason p)) else None)"

text \<open>Pressing the button: the page afterwards and where it navigates.  A completed sign-in leaves the
  button busy while the router moves on; the last phase stays on it.\<close>

definition last_phase :: "wallet_log \<Rightarrow> jstr option" where
  "last_phase l = (case List.map_filter (\<lambda>e. case e of Call (Phase p) \<Rightarrow> Some p | _ \<Rightarrow> None) (rev l) of
     [] \<Rightarrow> None | p # _ \<Rightarrow> Some p)"

definition signInWithPasskey ::
  "auth_host \<Rightarrow> nat \<Rightarrow> auth_page \<Rightarrow> console_state \<Rightarrow> (auth_page \<times> app_route option) \<times> console_state" where
  "signInWithPasskey h now ap s =
     (case signIn h now s of
        (Inr next_session, s') \<Rightarrow>
          ((ap\<lparr>ap_busy := True, ap_error := None, ap_phase := last_phase (w_log (cs_page s'))\<rparr>,
            Some (if kyb_status (sn_institution next_session) = JStr (u ''approved'') then HomeRoute else OnboardingRoute)), s')
      | (Inl e, s') \<Rightarrow>
          ((ap\<lparr>ap_busy := False, ap_phase := None, ap_error := Some (sign_in_error (exn_msg e))\<rparr>, None), s'))"

section \<open>onboarding-client.tsx\<close>

definition INSTITUTION_TYPES :: "jstr list" where
  "INSTITUTION_TYPES = List.map fst INSTITUTION_TYPE_LABELS"

text \<open>The rules of the form fields: a field is required, and the address must look like one.\<close>

definition required :: "jstr \<Rightarrow> string \<Rightarrow> jstr option" where
  "required v m = (if v = [] then Some (u m) else None)"

definition kyb_form_errors :: "kyb_input \<Rightarrow> jstr option list" where
  "kyb_form_errors x =
     [required (ki_legalName x) ''Enter the registered legal name'',
      required (ki_jurisdiction x) ''Enter the jurisdiction'',
      required (ki_registrationNumber x) ''Enter the registration number'',
      required (ki_contactName x) ''Enter a contact name'',
      (case required (ki_contactEmail x) ''Enter a work email'' of
         Some m \<Rightarrow> Some m
       | None \<Rightarrow> if emailLooksValid (ki_contactEmail x) then None else Some (u ''Enter a valid email''))]"

definition kyb_http :: "kyb_input \<Rightarrow> http_request" where
  "kyb_http x =
     \<lparr>rq_method = u ''POST'', rq_url = u ''/api/kyb'', rq_headers = [(u ''Content-Type'', u ''application/json'')],
      rq_body = Some (JObj ((u ''action'', JStr (u ''submitted'')) # kyb_fields x
        @ [(u ''institution'', JStr (override [] (map_of INSTITUTION_TYPE_LABELS (type_name (ki_type x)))))]))\<rparr>"

definition handleSubmit :: "kyb_input \<Rightarrow> nat \<Rightarrow> console_state \<Rightarrow> console_state" where
  "handleSubmit x now s =
     (let s1 = submitKyb x now s in
      s1\<lparr>cs_page := (cs_page s1)\<lparr>w_log := w_log (cs_page s1) @ [Http (kyb_http x)]\<rparr>\<rparr>)"

definition submit_form :: "kyb_input \<Rightarrow> nat \<Rightarrow> console_state \<Rightarrow> console_state" where
  "submit_form x now s = (if list_all (\<lambda>e. e = None) (kyb_form_errors x) then handleSubmit x now s else s)"

datatype onboarding_view = Nothing_shown | Pending_review jstr | Kyb_form bool

text \<open>The name a pending application greets, as the template prints it.\<close>

definition onboarding_shown :: "session_status \<Rightarrow> console_session option \<Rightarrow> onboarding_view" where
  "onboarding_shown st se =
     (case se of
        None \<Rightarrow> Nothing_shown
      | Some x \<Rightarrow>
          let kyb = (let k = kyb_status (sn_institution x) in if k = JUndef \<or> k = JNull then JStr (u ''not_started'') else k) in
          if st = Active then Nothing_shown
          else if kyb = JStr (u ''in_review'') then
            Pending_review (json_to_string (jlookup (sn_institution x) (u ''legalName'')))
          else Kyb_form (kyb = JStr (u ''rejected'')))"

section \<open>The life of a console\<close>

text \<open>One browser tab: the provider is mounted, operators sign in (the ceremony may fail), file and are
  approved, sign out, and the page may be reloaded, which keeps only the storage and the log.\<close>

definition reload :: "console_state \<Rightarrow> console_state" where
  "reload s = s\<lparr>cs_page := (cs_page s)\<lparr>pg_sessionPromise := None\<rparr>, cs_auth := None, cs_session := None, cs_loading := True\<rparr>"

inductive console_step :: "console_state \<Rightarrow> console_state \<Rightarrow> bool" where
  Resume: "cs_loading s \<Longrightarrow> console_step s (resume now s)"
| SignIn: "console_step s (snd (signIn h now s))"
| Submit: "console_step s (submit_form x now s)"
| Approve: "console_step s (approveKyb s)"
| SignOut: "console_step s (snd (signOut s))"
| Reload: "console_step s (reload s)"

inductive console_reachable :: "console_state \<Rightarrow> console_state \<Rightarrow> bool" for s0 where
  start: "console_reachable s0 s0"
| step: "console_reachable s0 s \<Longrightarrow> console_step s t \<Longrightarrow> console_reachable s0 t"

definition opened :: "console_state \<Rightarrow> bool" where
  "opened s \<longleftrightarrow> cs_session s = None \<and> cs_auth s = None \<and> cs_loading s"

section \<open>Signing in\<close>

lemma on_page_eval [comp_simps]:
  "on_page m s = (fst (m (cs_page s)), s\<lparr>cs_page := snd (m (cs_page s))\<rparr>)"
  by (simp add: on_page_def split: prod.split)

lemma returning_operator_eval:
  "returning_operator h w s =
     (bindR (text_field w ''credentialIdBase64Url'') (\<lambda>c. bindR (fromBase64Url c) (\<lambda>cid.
        bindR (signWithPasskey (ah_browser h) (assert_input (ah_random h) cid)) (\<lambda>_. text_field w ''contractAddress''))),
      s\<lparr>cs_page := (cs_page s)\<lparr>w_log := w_log (cs_page s) @ [Call (Phase (u ''authenticating''))]\<rparr>\<rparr>)"
  by (simp add: returning_operator_def bindM_def comp_simps bindR_def split: sum.split)

lemma first_sign_in_Inl:
  assumes "first_sign_in h tenant s = (Inl e, s')"
  shows "s' = s\<lparr>cs_page := cs_page s'\<rparr>"
  using assms
  by (auto simp: first_sign_in_def bindM_def comp_simps split: sum.splits)

lemma first_sign_in_Inr:
  assumes "first_sign_in h tenant s = (Inr address, s')"
  obtains pk p pg where "createPasskey (ah_browser h) (register_input (ah_sdk h) tenant) = Inr pk"
    "provisionWallet (ah_sdk h) (cr_credentialId pk) (cr_publicKey pk) pg = (Inr p, cs_page s')"
    "w_log pg = w_log (cs_page s) @ [Call (Phase (u ''registering'')), Call (Phase (u ''provisioning''))]"
    "address = pr_contractAddress p"
    "cs_storage s' = saveWallet tenant (wallet_json (cr_credentialIdBase64Url pk) address) (cs_storage s)"
    "cs_session s' = cs_session s" "cs_auth s' = cs_auth s" "cs_loading s' = cs_loading s"
  using assms
  by (auto simp: first_sign_in_def bindM_def comp_simps prod_eq_iff split: sum.splits)

text \<open>A sign-in that fails changes at most the page.\<close>

lemma auth_signIn_Inl:
  assumes "auth_signIn h t s = (Inl e, s')"
  shows "s' = s\<lparr>cs_page := cs_page s'\<rparr>"
proof -
  let ?tenant = "override DEFAULT_TENANT t"
  show ?thesis
  proof (cases "loadWallet ?tenant (cs_storage s)")
    case None
    with assms show ?thesis
      by (auto simp: auth_signIn_def Let_def bindM_def comp_simps split: sum.splits if_splits prod.splits
          dest!: first_sign_in_Inl)
  next
    case (Some w)
    with assms show ?thesis
      by (auto simp: auth_signIn_def Let_def bindM_def comp_simps returning_operator_eval split: sum.splits if_splits)
  qed
qed
lemma auth_signIn_Inr:
  assumes "auth_signIn h t s = (Inr a, s')"
  defines "tenant \<equiv> override DEFAULT_TENANT t"
  shows "ps_supported (detectPasskeySupport (ah_env h)) \<and> cs_auth s' = Some a \<and> cs_session s' = cs_session s
    \<and> cs_loading s' = cs_loading s \<and> a = \<lparr>sm_contractAddress = sm_contractAddress a, sm_tenant = tenant,
        sm_label = shortAddress (sm_contractAddress a)\<rparr>
    \<and> (\<exists>sa. (case loadWallet tenant (cs_storage s) of
          Some w \<Rightarrow> returning_operator h w | None \<Rightarrow> first_sign_in h tenant)
            (s\<lparr>cs_page := (cs_page s)\<lparr>w_log := w_log (cs_page s) @ [Call (Phase (u ''checking''))]\<rparr>\<rparr>)
          = (Inr (sm_contractAddress a), sa) \<and> s' = sa\<lparr>cs_auth := Some a\<rparr> \<and> cs_session sa = cs_session s
          \<and> cs_loading sa = cs_loading s)"
proof (cases "loadWallet tenant (cs_storage s)")
  case None
  with assms show ?thesis
    by (auto simp: auth_signIn_def Let_def bindM_def comp_simps split: sum.splits if_splits prod.splits
        elim!: first_sign_in_Inr)
next
  case (Some w)
  with assms show ?thesis
    by (auto simp: auth_signIn_def Let_def bindM_def comp_simps returning_operator_eval split: sum.splits if_splits prod.splits)
qed

lemma signIn_eval:
  "signIn h now s = (case auth_signIn h None s of
     (Inl e, s1) \<Rightarrow> (Inl e, s1)
   | (Inr a, s1) \<Rightarrow>
      (let wallet = sm_contractAddress a; i = stored_or_fresh wallet now (cs_storage s1);
           se = buildSession wallet (sm_label a) i in
       (Inr se, s1\<lparr>cs_storage := saveActiveWallet wallet (saveInstitution wallet i (cs_storage s1)), cs_session := Some se\<rparr>)))"
  by (simp add: signIn_def bindM_def comp_eval Let_def split: prod.split sum.split)

lemma signIn_Inl: "signIn h now s = (Inl e, s') \<Longrightarrow> s' = s\<lparr>cs_page := cs_page s'\<rparr>"
  by (auto simp: signIn_eval Let_def split: prod.splits sum.splits dest: auth_signIn_Inl)

lemma loadWallet_frame [simp]:
  "loadWallet t (saveActiveWallet w st) = loadWallet t st" "loadWallet t (saveInstitution w i st) = loadWallet t st"
  by (simp_all add: loadWallet_def saveActiveWallet_def saveInstitution_def)

lemma loadWallet_saved: "\<not> ls_blocked st \<Longrightarrow> loadWallet t (saveWallet t (wallet_json c a) st) = Some (wallet_json c a)"
  by (simp add: loadWallet_def saveWallet_def wallet_json_def)

text \<open>What a failed sign-in may have done to the page: announced the phases it went through and, when a
  passkey was registered, run the provisioning of its wallet, which failed.\<close>

definition announced :: "string list \<Rightarrow> page \<Rightarrow> page" where
  "announced ps pg = pg\<lparr>w_log := w_log pg @ List.map (\<lambda>p. Call (Phase (u p))) ps\<rparr>"

definition failed_page :: "auth_host \<Rightarrow> json option \<Rightarrow> exn \<Rightarrow> page \<Rightarrow> page \<Rightarrow> bool" where
  "failed_page h remembered e pg pg' \<longleftrightarrow>
     (case remembered of
        Some w \<Rightarrow> \<exists>n. pg' = announced (take n [''checking'', ''authenticating'']) pg
      | None \<Rightarrow> (\<exists>n. pg' = announced (take n [''checking'', ''registering'', ''provisioning'']) pg)
          \<or> (\<exists>pk. createPasskey (ah_browser h) (register_input (ah_sdk h) DEFAULT_TENANT) = Inr pk
              \<and> provisionWallet (ah_sdk h) (cr_credentialId pk) (cr_publicKey pk)
                  (announced [''checking'', ''registering'', ''provisioning''] pg) = (Inl e, pg')))"

lemma failed_first:
  assumes "first_sign_in h DEFAULT_TENANT s = (Inl e, s')" "cs_page s = announced [''checking''] pg"
  shows "failed_page h None e pg (cs_page s')"
proof -
  have app: "(announced [''checking''] pg)\<lparr>w_log := w_log (announced [''checking''] pg) @ [Call (Phase (u ''registering''))]\<rparr>
      = announced [''checking'', ''registering''] pg"
    "(announced [''checking''] pg)\<lparr>w_log := w_log (announced [''checking''] pg)
        @ [Call (Phase (u ''registering'')), Call (Phase (u ''provisioning''))]\<rparr>
      = announced [''checking'', ''registering'', ''provisioning''] pg"
    "(announced [''checking'', ''registering''] pg)\<lparr>w_log := w_log (announced [''checking'', ''registering''] pg)
        @ [Call (Phase (u ''provisioning''))]\<rparr>
      = announced [''checking'', ''registering'', ''provisioning''] pg"
    by (simp_all add: announced_def)
  have ends: "failed_page h None e pg (announced [''checking'', ''registering''] pg)"
    "failed_page h None e pg (announced [''checking'', ''registering'', ''provisioning''] pg)"
    unfolding failed_page_def option.case by (rule disjI1, rule exI [of _ 2], simp, rule disjI1, rule exI [of _ 3], simp)
  have run: "failed_page h None e pg pg'"
    if "createPasskey (ah_browser h) (register_input (ah_sdk h) DEFAULT_TENANT) = Inr pk"
      "provisionWallet (ah_sdk h) (cr_credentialId pk) (cr_publicKey pk)
        (announced [''checking'', ''registering'', ''provisioning''] pg) = (Inl e, pg')" for pk pg'
    unfolding failed_page_def option.case using that by blast
  show ?thesis
    using assms
    by (auto simp: first_sign_in_def bindM_def comp_simps app ends prod_eq_iff intro: run split: sum.splits)
qed

lemma failed_sign_in_page:
  assumes "signIn h now s = (Inl e, s')"
  shows "failed_page h (loadWallet DEFAULT_TENANT (cs_storage s)) e (cs_page s) (cs_page s')"
proof -
  let ?w = "loadWallet DEFAULT_TENANT (cs_storage s)"
  let ?s0 = "s\<lparr>cs_page := announced [''checking''] (cs_page s)\<rparr>"
  have one: "failed_page h ?w e (cs_page s) (announced [''checking''] (cs_page s))"
    by (auto simp: failed_page_def split: option.split intro!: exI [of _ 1])
  have s0: "s\<lparr>cs_page := (cs_page s)\<lparr>w_log := w_log (cs_page s) @ [Call (Phase (u ''checking''))]\<rparr>\<rparr> = ?s0"
    by (simp add: announced_def)
  from assms have a: "auth_signIn h None s = (Inl e, s')"
    by (auto simp: signIn_eval Let_def split: prod.splits sum.splits)
  show ?thesis
  proof (cases "ps_supported (detectPasskeySupport (ah_env h))")
    case False
    with a one show ?thesis by (auto simp: auth_signIn_def Let_def bindM_def comp_simps announced_def)
  next
    case True
    show ?thesis
    proof (cases ?w)
      case None
      with a True have "first_sign_in h DEFAULT_TENANT ?s0 = (Inl e, s')"
        by (auto simp: auth_signIn_def Let_def bindM_def comp_simps override_def s0 split: prod.splits sum.splits)
      then show ?thesis using failed_first [of h ?s0 e s' "cs_page s"] None by simp
    next
      case (Some w)
      with a True have "cs_page s' = announced [''checking'', ''authenticating''] (cs_page s)"
        by (auto simp: auth_signIn_def Let_def bindM_def comp_simps override_def returning_operator_eval announced_def
            split: prod.splits sum.splits)
      with Some show ?thesis by (auto simp: failed_page_def intro!: exI [of _ 2])
    qed
  qed
qed

text \<open>C22: A sign-in succeeds only by a passkey.  A sign-in that succeeds found the device able to;
  on a browser that remembers a wallet it got an assertion for the remembered credential over the
  freshly drawn challenge and opened the remembered wallet without touching the network; on a
  new one it registered a passkey, provisioned the wallet of exactly that credential and key,
  and remembered both when storage allows, with the credential id in a form that decodes back.
  A sign-in that fails leaves session, signed-in wallet and storage as they were.  The page then
  differs by the phases announced and by nothing else, unless a passkey had been registered: then
  it is the page the failed provisioning of that passkey's wallet left, which keeps the outcome of
  opening the deployer session.  (The resumption of a remembered session when a page loads is no
  sign-in and asks for no passkey.)\<close>

theorem sign_in_proves_passkey:
  assumes "signIn h now s = (r, s')"
  shows "case r of
      Inl e \<Rightarrow> s' = s\<lparr>cs_page := cs_page s'\<rparr>
        \<and> failed_page h (loadWallet DEFAULT_TENANT (cs_storage s)) e (cs_page s) (cs_page s')
    | Inr se \<Rightarrow> cs_session s' = Some se \<and> ps_supported (detectPasskeySupport (ah_env h))
        \<and> (case loadWallet DEFAULT_TENANT (cs_storage s) of
            Some w \<Rightarrow> (\<exists>c cid proof. text_field w ''credentialIdBase64Url'' = Inr c \<and> fromBase64Url c = Inr cid
                \<and> signWithPasskey (ah_browser h) (assert_input (ah_random h) cid) = Inr proof
                \<and> text_field w ''contractAddress'' = Inr (sn_walletAddress se)
                \<and> w_log (cs_page s') = w_log (cs_page s)
                    @ [Call (Phase (u ''checking'')), Call (Phase (u ''authenticating''))])
          | None \<Rightarrow> (\<exists>pk p pg. createPasskey (ah_browser h) (register_input (ah_sdk h) DEFAULT_TENANT) = Inr pk
                \<and> provisionWallet (ah_sdk h) (cr_credentialId pk) (cr_publicKey pk) pg = (Inr p, cs_page s')
                \<and> sn_walletAddress se = pr_contractAddress p
                \<and> (\<not> ls_blocked (cs_storage s) \<longrightarrow> (\<exists>w c. loadWallet DEFAULT_TENANT (cs_storage s') = Some w
                      \<and> text_field w ''credentialIdBase64Url'' = Inr c
                      \<and> (bytes (cr_credentialId pk) \<longrightarrow> fromBase64Url c = Inr (cr_credentialId pk))
                      \<and> text_field w ''contractAddress'' = Inr (sn_walletAddress se)))))"
proof (cases r)
  case (Inl e)
  with assms show ?thesis using signIn_Inl failed_sign_in_page by simp
next
  case (Inr se)
  let ?s0 = "s\<lparr>cs_page := (cs_page s)\<lparr>w_log := w_log (cs_page s) @ [Call (Phase (u ''checking''))]\<rparr>\<rparr>"
  obtain a s1 where auth: "auth_signIn h None s = (Inr a, s1)" and se: "sn_walletAddress se = sm_contractAddress a"
    and s': "cs_session s' = Some se" "cs_page s' = cs_page s1"
      "\<And>t. loadWallet t (cs_storage s') = loadWallet t (cs_storage s1)"
    using assms(1) Inr by (auto simp: signIn_eval Let_def buildSession_def split: prod.splits sum.splits)
  note A = auth_signIn_Inr [OF auth]
  have tenant: "override DEFAULT_TENANT None = DEFAULT_TENANT" by (simp add: override_def)
  show ?thesis
  proof (cases "loadWallet DEFAULT_TENANT (cs_storage s)")
    case None
    with A obtain sa where f: "first_sign_in h DEFAULT_TENANT ?s0 = (Inr (sm_contractAddress a), sa)" "cs_page s1 = cs_page sa"
        "cs_storage s1 = cs_storage sa"
      unfolding tenant by auto
    from f(1) obtain pk p pg where pk: "createPasskey (ah_browser h) (register_input (ah_sdk h) DEFAULT_TENANT) = Inr pk"
      "provisionWallet (ah_sdk h) (cr_credentialId pk) (cr_publicKey pk) pg = (Inr p, cs_page sa)"
      "sm_contractAddress a = pr_contractAddress p"
      "cs_storage sa = saveWallet DEFAULT_TENANT (wallet_json (cr_credentialIdBase64Url pk) (sm_contractAddress a)) (cs_storage s)"
      by (rule first_sign_in_Inr) auto
    have id: "bytes (cr_credentialId pk) \<Longrightarrow> fromBase64Url (cr_credentialIdBase64Url pk) = Inr (cr_credentialId pk)"
      using createPasskey_sound [OF pk(1)] by blast
    have kept: "\<not> ls_blocked (cs_storage s) \<Longrightarrow> loadWallet DEFAULT_TENANT (cs_storage s')
        = Some (wallet_json (cr_credentialIdBase64Url pk) (pr_contractAddress p))"
      using pk(3,4) f(3) s'(3) loadWallet_saved by simp
    show ?thesis
      using None A Inr s' se f(2) pk id kept by (auto simp: wallet_json_def text_field_def)
  next
    case (Some w)
    with A show ?thesis
      using Inr s' se by (auto simp: tenant returning_operator_eval result_simps)
  qed
qed
definition able_env :: environment where
  "able_env = \<lparr>en_window = True, en_isSecureContext = True, en_credentials = True, en_publicKeyCredential = True, en_probe = Inr None\<rparr>"

definition demo_browser :: browser where
  "demo_browser = \<lparr>bw_create = \<lambda>_. Inr None,
     bw_get = \<lambda>_. Inr (Some \<lparr>an_rawId = [1], an_authenticatorData = [2], an_clientDataJSON = [3], an_signature = [4]\<rparr>),
     bw_onCurve = \<lambda>_. True, bw_sha256 = \<lambda>x. x, bw_compactLowS = \<lambda>x. Inr x\<rparr>"

definition demo_host :: auth_host where
  "demo_host = \<lparr>ah_env = able_env, ah_browser = demo_browser, ah_sdk = online_sdk, ah_import = Inr (), ah_random = replicate 32 5\<rparr>"

definition demo_console :: console_state where
  "demo_console =
     \<lparr>cs_page = fresh_page,
      cs_storage = \<lparr>ls_blocked = False, ls_activeWallet = None, ls_institutions = (\<lambda>_. None),
        ls_passkeys = [DEFAULT_TENANT \<mapsto> Inr (wallet_json (toBase64Url [1]) (u ''CABC''))]\<rparr>,
      cs_auth = None, cs_session = None, cs_loading = True\<rparr>"

lemma demo_support: "detectPasskeySupport able_env = \<lparr>ps_supported = True, ps_reason = None\<rparr>"
  by (simp add: detectPasskeySupport_def able_env_def)

lemma demo_wallet [simp]: "loadWallet DEFAULT_TENANT (cs_storage demo_console) = Some (wallet_json (toBase64Url [1]) (u ''CABC''))"
  by (simp add: loadWallet_def demo_console_def wallet_json_def)

lemma demo_log [simp]: "w_log (cs_page demo_console) = []"
  by (simp add: demo_console_def fresh_page_def)

lemma wallet_json_fields [simp]:
  "text_field (wallet_json c a) ''credentialIdBase64Url'' = Inr c" "text_field (wallet_json c a) ''contractAddress'' = Inr a"
  by (simp_all add: wallet_json_def text_field_def)

lemma demo_sign_in: "\<exists>se s'. signIn demo_host 0 demo_console = (Inr se, s') \<and> sn_walletAddress se = u ''CABC''"
proof -
  have "fromBase64Url (toBase64Url [1]) = Inr [1]" by (simp add: fromBase64Url_inverse bytes_def)
  then show ?thesis
    by (simp add: signIn_eval auth_signIn_def Let_def bindM_def comp_simps demo_host_def demo_support
        returning_operator_eval override_def signWithPasskey_def demo_browser_def buildSession_def)
qed

lemma sign_in_proves_passkey_witness:
  "\<exists>se s'. signIn demo_host 0 demo_console = (Inr se, s') \<and> sn_walletAddress se = u ''CABC''
     \<and> length (w_log (cs_page s')) = 2"
proof -
  obtain se s' where run: "signIn demo_host 0 demo_console = (Inr se, s')" "sn_walletAddress se = u ''CABC''"
    using demo_sign_in by blast
  then show ?thesis
    using sign_in_proves_passkey [OF run(1)] by auto
qed

section \<open>Institutions of a session\<close>

lemma jlookup_set_prop: "jlookup (set_prop k v i) k' = (if k = k' then v else jlookup i k')"
  by (induction k v i rule: set_prop.induct) auto

lemma jlookup_spread:
  "jlookup (spread i kvs) k = (case map_of (rev kvs) k of Some v \<Rightarrow> v | None \<Rightarrow> jlookup i k)"
proof (induction kvs arbitrary: i)
  case (Cons kv kvs)
  obtain k' v where "kv = (k', v)" by fastforce
  with Cons show ?case
    by (auto simp: spread_def jlookup_set_prop map_add_def split: option.splits)
qed (simp add: spread_def)

definition typed :: "institution \<Rightarrow> bool" where
  "typed i \<longleftrightarrow> (\<exists>t. jlookup i (u ''type'') = JStr (type_name t))"

lemma isInstitutionType_iff: "isInstitutionType v \<longleftrightarrow> (\<exists>t. v = JStr (type_name t))"
proof
  assume "isInstitutionType v"
  then obtain s where v: "v = JStr s" "s \<in> fst ` set INSTITUTION_TYPE_LABELS" by (auto simp: isInstitutionType_def split: json.splits)
  then have "s \<in> {type_name IT_Anchor, type_name IT_CustodialApp, type_name IT_Exchange, type_name IT_Custodian}"
    by (auto simp: INSTITUTION_TYPE_LABELS_def type_name_def)
  with v(1) show "\<exists>t. v = JStr (type_name t)" by blast
next
  assume "\<exists>t. v = JStr (type_name t)"
  then show "isInstitutionType v"
    by (auto simp: isInstitutionType_def INSTITUTION_TYPE_LABELS_def type_name_def image_iff split: institution_type.split)
qed

lemma loadInstitution_typed: "loadInstitution w st = Some i \<Longrightarrow> typed i"
  by (auto simp: loadInstitution_def typed_def isInstitutionType_iff split: if_splits option.splits sum.splits json.splits)

lemma typed_fresh: "typed (freshInstitution now)"
  by (auto simp: typed_def freshInstitution_def type_name_def intro!: exI [of _ IT_Anchor])

lemma typed_stored_or_fresh: "typed (stored_or_fresh w now st)"
  by (auto simp: stored_or_fresh_def override_def typed_fresh loadInstitution_typed split: option.split)

lemma loadInstitution_saved:
  "typed i \<Longrightarrow> \<not> ls_blocked st \<Longrightarrow> loadInstitution w (saveInstitution w i st) = Some i"
  by (auto simp: loadInstitution_def saveInstitution_def typed_def isInstitutionType_iff)

lemma typed_submit: "typed (spread i (kyb_fields x @ [(u ''kybStatus'', v), (u ''submittedAt'', v')]))"
  by (auto simp: typed_def jlookup_spread kyb_fields_def)

lemma typed_approve: "typed i \<Longrightarrow> typed (spread i [(u ''kybStatus'', v)])"
  by (simp add: typed_def jlookup_spread)

lemma storage_frame [simp]:
  "loadInstitution w (saveActiveWallet a st) = loadInstitution w st" "loadInstitution w (clearActiveWallet st) = loadInstitution w st"
  "loadInstitution w (saveWallet t x st) = loadInstitution w st"
  "ls_blocked (saveActiveWallet a st) = ls_blocked st" "ls_blocked (clearActiveWallet st) = ls_blocked st"
  "ls_blocked (saveWallet t x st) = ls_blocked st" "ls_blocked (saveInstitution w i st) = ls_blocked st"
  by (simp_all add: loadInstitution_def saveActiveWallet_def clearActiveWallet_def saveWallet_def saveInstitution_def)

lemma loadInstitution_other:
  "w \<noteq> w' \<Longrightarrow> loadInstitution w (saveInstitution w' i st) = loadInstitution w st"
  by (simp add: loadInstitution_def saveInstitution_def)
lemma loadInstitution_passkeys [simp]:
  "loadInstitution w (st\<lparr>ls_passkeys := f\<rparr>) = loadInstitution w st"
  by (simp add: loadInstitution_def)

lemma stored_or_fresh_frame [simp]: "stored_or_fresh w now (saveWallet t x st) = stored_or_fresh w now st"
  by (simp add: stored_or_fresh_def)

lemma signIn_Inr:
  assumes "signIn h now s = (Inr se, s')"
  shows "cs_session s' = Some se \<and> sn_role se = Owner
    \<and> sn_institution se = stored_or_fresh (sn_walletAddress se) now (cs_storage s)
    \<and> (\<exists>st. cs_storage s' = saveActiveWallet (sn_walletAddress se) (saveInstitution (sn_walletAddress se) (sn_institution se) st)
        \<and> (\<forall>w. loadInstitution w st = loadInstitution w (cs_storage s)) \<and> ls_blocked st = ls_blocked (cs_storage s))"
proof -
  obtain a s1 where auth: "auth_signIn h None s = (Inr a, s1)"
    and se: "se = buildSession (sm_contractAddress a) (sm_label a) (stored_or_fresh (sm_contractAddress a) now (cs_storage s1))"
    and s': "cs_session s' = Some se"
      "cs_storage s' = saveActiveWallet (sm_contractAddress a) (saveInstitution (sm_contractAddress a) (sn_institution se) (cs_storage s1))"
    using assms by (auto simp: signIn_eval Let_def buildSession_def split: prod.splits sum.splits)
  have "(\<forall>w. loadInstitution w (cs_storage s1) = loadInstitution w (cs_storage s)) \<and> ls_blocked (cs_storage s1) = ls_blocked (cs_storage s)"
  proof (cases "loadWallet (override DEFAULT_TENANT None) (cs_storage s)")
    case None
    then show ?thesis using auth_signIn_Inr [OF auth] by (auto elim!: first_sign_in_Inr)
  next
    case (Some w)
    then show ?thesis using auth_signIn_Inr [OF auth] by (auto simp: returning_operator_eval)
  qed
  then show ?thesis
    using s' se by (auto simp: buildSession_def stored_or_fresh_def intro!: exI [of _ "cs_storage s1"])
qed

text \<open>The invariant: an open session has a valid institution and the owner's role, and an approved one
  is in storage as it is in the session, when storage works.\<close>

definition console_sound :: "console_state \<Rightarrow> bool" where
  "console_sound s \<longleftrightarrow> (\<forall>se. cs_session s = Some se \<longrightarrow> typed (sn_institution se) \<and> sn_role se = Owner
     \<and> (\<not> ls_blocked (cs_storage s) \<longrightarrow> kyb_status (sn_institution se) = JStr (u ''approved'')
          \<longrightarrow> loadInstitution (sn_walletAddress se) (cs_storage s) = Some (sn_institution se)))"

lemma fresh_not_approved: "kyb_status (freshInstitution now) \<noteq> JStr (u ''approved'')"
  by (simp add: kyb_status_def freshInstitution_def)

lemma stored_if_approved:
  "kyb_status (stored_or_fresh w now st) = JStr (u ''approved'') \<Longrightarrow> loadInstitution w st = Some (stored_or_fresh w now st)"
  by (auto simp: stored_or_fresh_def override_def fresh_not_approved split: option.splits)

lemma with_institution_sound:
  assumes "console_sound s" "\<And>i. typed i \<Longrightarrow> typed (f i)"
  shows "console_sound (with_institution f s)"
  using assms by (auto simp: console_sound_def with_institution_def Let_def loadInstitution_saved split: option.splits)

lemma console_sound_page [simp]: "console_sound (s\<lparr>cs_page := p\<rparr>) = console_sound s"
  by (simp add: console_sound_def)

lemma submit_form_sound: "console_sound s \<Longrightarrow> console_sound (submit_form x now s)"
  by (simp add: submit_form_def handleSubmit_def Let_def submitKyb_def with_institution_sound typed_submit)

lemma resume_sound: "console_sound s \<Longrightarrow> console_sound (resume now s)"
  by (auto simp: resume_def console_sound_def buildSession_def typed_stored_or_fresh stored_if_approved split: option.splits)

lemma signIn_sound: "console_sound s \<Longrightarrow> console_sound (snd (signIn h now s))"
proof (cases "signIn h now s")
  case (Pair r s')
  assume s: "console_sound s"
  show ?thesis
  proof (cases r)
    case (Inl e)
    with Pair s signIn_Inl [of h now s e s'] show ?thesis by (metis console_sound_page snd_conv)
  next
    case (Inr se)
    with Pair signIn_Inr [of h now s se s'] show ?thesis
      by (auto simp: console_sound_def typed_stored_or_fresh loadInstitution_saved)
  qed
qed

lemma signOut_eval: "signOut s = (Inr (), s\<lparr>cs_auth := None, cs_storage := clearActiveWallet (cs_storage s), cs_session := None\<rparr>)"
  by (simp add: signOut_def auth_signOut_def bindM_def comp_eval)

lemma closing_sound: "console_sound (snd (signOut s))" "console_sound (reload s)"
  by (simp_all add: console_sound_def signOut_eval reload_def)

lemma console_reachable_sound: "console_reachable s0 s \<Longrightarrow> opened s0 \<Longrightarrow> console_sound s"
proof (induction rule: console_reachable.induct)
  case start
  then show ?case by (simp add: opened_def console_sound_def)
next
  case (step s t)
  then have "console_sound s" by blast
  with step.hyps(2) show ?case
    by (cases rule: console_step.cases)
      (auto simp: submit_form_sound resume_sound signIn_sound approveKyb_def with_institution_sound typed_approve
        closing_sound)
qed

text \<open>C23: The session is well typed at run time.  However operators sign in, file, are approved,
  sign out and reload, and whatever a browser has in storage at the start, the institution of
  an open session has one of the four institution types and its operator the owner's role;
  the dashboard is shown exactly when a loaded session is approved.\<close>

theorem console_session_typed:
  assumes "opened s0" "console_reachable s0 s"
  shows "(\<forall>se. cs_session s = Some se \<longrightarrow>
        (\<exists>t. jlookup (sn_institution se) (u ''type'') = JStr (type_name t)) \<and> (\<forall>a. can (sn_role se) a))
    \<and> (dashboard_shown (deriveStatus (cs_session s) (cs_loading s)) (cs_session s) \<longleftrightarrow>
        (\<exists>se. cs_session s = Some se \<and> \<not> cs_loading s \<and> kyb_status (sn_institution se) = JStr (u ''approved'')))"
proof -
  have owner: "can Owner a" for a by (cases a) (simp_all add: can_def permissions_def)
  show ?thesis
    using console_reachable_sound [OF assms(2,1)] owner
    by (auto simp: console_sound_def typed_def dashboard_shown_def deriveStatus_def split: option.splits)
qed

definition demo_reopened :: console_state where
  "demo_reopened = demo_console\<lparr>cs_storage := (cs_storage demo_console)\<lparr>ls_activeWallet := Some (u ''CABC''),
     ls_institutions := [u ''CABC'' \<mapsto> Inr (JObj [(u ''type'', JStr (u ''casino''))])]\<rparr>\<rparr>"

lemma console_session_typed_witness:
  "\<exists>se. cs_session (resume 0 demo_reopened) = Some se
     \<and> (\<exists>t. jlookup (sn_institution se) (u ''type'') = JStr (type_name t))"
proof -
  have "opened demo_reopened" by (simp add: opened_def demo_reopened_def demo_console_def)
  moreover have "console_reachable demo_reopened (resume 0 demo_reopened)"
    by (rule step [OF start Resume]) (simp add: demo_reopened_def demo_console_def)
  moreover have "cs_session (resume 0 demo_reopened) \<noteq> None"
    by (simp add: resume_def demo_reopened_def demo_console_def loadActiveWallet_def)
  ultimately show ?thesis using console_session_typed by blast
qed

section \<open>Approval survives\<close>

definition idle_step :: "console_state \<Rightarrow> console_state \<Rightarrow> bool" where
  "idle_step s t \<longleftrightarrow> (\<exists>h now. t = snd (signIn h now s)) \<or> t = snd (signOut s) \<or> t = reload s
     \<or> (\<exists>now. cs_loading s \<and> t = resume now s)"

definition remembers :: "jstr \<Rightarrow> institution \<Rightarrow> console_state \<Rightarrow> bool" where
  "remembers w i s \<longleftrightarrow> \<not> ls_blocked (cs_storage s) \<and> loadInstitution w (cs_storage s) = Some i
     \<and> (\<forall>se. cs_session s = Some se \<longrightarrow> sn_walletAddress se = w \<longrightarrow> sn_institution se = i)"

lemma signIn_remembers: "remembers w i s \<Longrightarrow> remembers w i (snd (signIn h now s))"
proof (cases "signIn h now s")
  case (Pair r s')
  assume s: "remembers w i s"
  show ?thesis
  proof (cases r)
    case (Inl e)
    with Pair signIn_Inl [of h now s e s'] have "s' = s\<lparr>cs_page := cs_page s'\<rparr>" by simp
    then have "cs_storage s' = cs_storage s" "cs_session s' = cs_session s" by (metis console_state.select_convs console_state.surjective console_state.update_convs(1))+
    with s Pair show ?thesis by (simp add: remembers_def)
  next
    case (Inr se)
    with Pair signIn_Inr [of h now s se s'] obtain st where st: "cs_session s' = Some se"
      "sn_institution se = stored_or_fresh (sn_walletAddress se) now (cs_storage s)"
      "cs_storage s' = saveActiveWallet (sn_walletAddress se) (saveInstitution (sn_walletAddress se) (sn_institution se) st)"
      "loadInstitution w st = Some i" "\<not> ls_blocked st" using s by (auto simp: remembers_def)
    have "sn_walletAddress se = w \<Longrightarrow> sn_institution se = i"
      using st(2) s by (simp add: remembers_def stored_or_fresh_def override_def)
    moreover have "loadInstitution w (cs_storage s') = Some i"
      using st calculation loadInstitution_typed [OF st(4)]
      by (cases "sn_walletAddress se = w") (simp_all add: loadInstitution_saved loadInstitution_other)
    ultimately show ?thesis using st Pair by (simp add: remembers_def)
  qed
qed

lemma idle_step_remembers: "idle_step s t \<Longrightarrow> remembers w i s \<Longrightarrow> remembers w i t"
  by (auto simp: idle_step_def signIn_remembers)
    (auto simp: remembers_def signOut_eval reload_def resume_def buildSession_def stored_or_fresh_def override_def
      split: option.splits)

text \<open>C24: An approved institution skips review for good.  Once the session of a wallet is approved,
  and storage works, any later session of that wallet on the browser, after any sign-outs,
  reloads and sign-ins of whichever operators, carries the identical institution record, so
  its dashboard opens.\<close>

theorem approval_persists:
  assumes "opened s0" "console_reachable s0 s" "\<not> ls_blocked (cs_storage s)"
    and "cs_session s = Some se" "kyb_status (sn_institution se) = JStr (u ''approved'')"
    and "rtranclp idle_step s t" "cs_session t = Some se'" "sn_walletAddress se' = sn_walletAddress se"
  shows "sn_institution se' = sn_institution se
    \<and> (\<not> cs_loading t \<longrightarrow> dashboard_shown (deriveStatus (cs_session t) (cs_loading t)) (cs_session t))"
proof -
  have "remembers (sn_walletAddress se) (sn_institution se) s"
    using console_reachable_sound [OF assms(2,1)] assms(3,4,5) by (auto simp: remembers_def console_sound_def)
  with assms(6) have "remembers (sn_walletAddress se) (sn_institution se) t"
    by (induction rule: rtranclp_induct) (auto intro: idle_step_remembers)
  with assms(5,7,8) show ?thesis
    by (auto simp: remembers_def dashboard_shown_def deriveStatus_def)
qed

lemma demo_reopened_session:
  "\<exists>se. cs_session (approveKyb (resume 0 demo_reopened)) = Some se \<and> sn_walletAddress se = u ''CABC''
     \<and> kyb_status (sn_institution se) = JStr (u ''approved'')"
  by (simp add: resume_def demo_reopened_def demo_console_def loadActiveWallet_def approveKyb_def with_institution_def
      buildSession_def kyb_status_def jlookup_spread Let_def)

lemma resume_active:
  "\<not> ls_blocked (cs_storage s) \<Longrightarrow> ls_activeWallet (cs_storage s) = Some w \<Longrightarrow> w \<noteq> [] \<Longrightarrow>
     \<exists>se. cs_session (resume n s) = Some se \<and> sn_walletAddress se = w"
  by (simp add: resume_def loadActiveWallet_def buildSession_def)

lemma approval_persists_witness:
  "\<exists>se. cs_session (resume 1 (reload (approveKyb (resume 0 demo_reopened)))) = Some se
     \<and> kyb_status (sn_institution se) = JStr (u ''approved'')"
proof -
  let ?s = "approveKyb (resume 0 demo_reopened)"
  let ?t = "resume 1 (reload ?s)"
  have opened: "opened demo_reopened" by (simp add: opened_def demo_reopened_def demo_console_def)
  have reach: "console_reachable demo_reopened ?s"
    by (rule step [OF step [OF start Resume] Approve]) (simp add: demo_reopened_def demo_console_def)
  have store: "\<not> ls_blocked (cs_storage ?s)" "ls_activeWallet (cs_storage ?s) = Some (u ''CABC'')"
    by (simp_all add: resume_def demo_reopened_def demo_console_def loadActiveWallet_def approveKyb_def with_institution_def
        buildSession_def saveInstitution_def Let_def)
  then obtain se' where se': "cs_session ?t = Some se'" "sn_walletAddress se' = u ''CABC''"
    using resume_active [of "reload ?s" "u ''CABC''" 1] by (auto simp: reload_def)
  obtain se where se: "cs_session ?s = Some se" "sn_walletAddress se = u ''CABC''" "kyb_status (sn_institution se) = JStr (u ''approved'')"
    using demo_reopened_session by blast
  have "idle_step ?s (reload ?s)" by (simp add: idle_step_def)
  moreover have "idle_step (reload ?s) ?t" by (auto simp: idle_step_def reload_def)
  ultimately have "rtranclp idle_step ?s ?t" by (rule converse_rtranclp_into_rtranclp [OF _ r_into_rtranclp])
  then have "sn_institution se' = sn_institution se"
    using approval_persists [OF opened reach store(1) se(1,3) _ se'(1)] se(2) se'(2) by simp
  with se se' show ?thesis by simp
qed

section \<open>Redirects settle\<close>

definition gate :: "app_route \<Rightarrow> session_status \<Rightarrow> app_route option" where
  "gate r st = (case r of HomeRoute \<Rightarrow> shell_gate st | AuthRoute \<Rightarrow> auth_gate st | OnboardingRoute \<Rightarrow> onboarding_gate st)"

lemma gate_stays: "gate r st = Some r' \<Longrightarrow> gate r' st = None"
  by (cases r; cases st) (auto simp: gate_def shell_gate_def auth_gate_def onboarding_gate_def)

text \<open>The pages a visitor sees while the gates redirect.\<close>

function visited :: "app_route \<Rightarrow> session_status \<Rightarrow> app_route list" where
  "visited r st = r # (case gate r st of None \<Rightarrow> [] | Some r' \<Rightarrow> visited r' st)"
  by pat_completeness auto

termination
  by (relation "measure (\<lambda>(r, st). if gate r st = None then 0 else 1)") (auto dest: gate_stays)

declare visited.simps [simp del]

text \<open>C25: The gates never send a visitor in circles.  Whatever the status of the session and wherever
  the visitor is, redirecting ends, after one redirect at most, on a page that keeps the
  visitor: the dashboard for an active session, onboarding for a pending one and sign-in for
  none, while a loading session moves nobody.\<close>

theorem redirects_settle:
  "length (visited r st) \<le> 2 \<and> gate (last (visited r st)) st = None
   \<and> last (visited r st) =
       (case st of Active \<Rightarrow> HomeRoute | Onboarding \<Rightarrow> OnboardingRoute | Unauthenticated \<Rightarrow> AuthRoute | Loading \<Rightarrow> r)"
proof (cases "gate r st")
  case None
  then have "visited r st = [r]" by (simp add: visited.simps [of r st])
  with None show ?thesis
    by (cases r; cases st) (simp_all add: gate_def shell_gate_def auth_gate_def onboarding_gate_def)
next
  case (Some r')
  then have "visited r st = [r, r']" using gate_stays by (simp add: visited.simps [of r st] visited.simps [of r' st])
  with Some show ?thesis
    by (cases r; cases st) (auto simp: gate_def shell_gate_def auth_gate_def onboarding_gate_def)
qed

end
