(* ===== verification/Public_Pages.thy ===== *)
theory Public_Pages
  imports Amounts Shared_Types
begin

text \<open>
  The public pages of the console: proof verification (apps/web/src/app/(public)/verify, with
  lib/mock/proofs.ts and lib/noir.ts) and the customer's inclusion check (app/(public)/inclusion,
  with lib/mock/inclusion.ts).  A page is a state machine over what the visitor does and over the
  answers that arrive, in whichever order; the requests in flight are part of the state.
  The locale \<open>request_panel\<close> is what both pages have in common.  Percentages print through a
  parameter: \<open>toFixed\<close> rounds the binary fraction, not the decimal one.
\<close>

section \<open>Panels that ask and show\<close>

text \<open>Rounds of a question and its answer, one after the other.\<close>

definition rounds :: "('q \<Rightarrow> 's \<Rightarrow> 's) \<Rightarrow> (nat \<Rightarrow> 't \<Rightarrow> 's \<Rightarrow> 's) \<Rightarrow> ('q \<times> 't) list \<Rightarrow> 's \<Rightarrow> 's" where
  "rounds ask answer = fold (\<lambda>(q, t) s. answer 0 t (ask q s))"

locale request_panel =
  fixes ask :: "'q \<Rightarrow> 's \<Rightarrow> 's" and answer :: "nat \<Rightarrow> 't \<Rightarrow> 's \<Rightarrow> 's"
    and pending :: "'s \<Rightarrow> 'q list" and shown :: "'s \<Rightarrow> 'r option" and fits :: "'q \<Rightarrow> 'r \<Rightarrow> bool"
    and askable :: "'q \<Rightarrow> bool"
  assumes answer_pending: "pending s = [] \<Longrightarrow> pending (answer 0 t (ask q s)) = []"
    and answer_fits: "pending s = [] \<Longrightarrow> askable q \<Longrightarrow> shown (answer 0 t (ask q s)) = Some r \<Longrightarrow> fits q r"
begin

lemma rounds_pending: "pending s = [] \<Longrightarrow> pending (rounds ask answer rs s) = []"
  by (induction rs arbitrary: s) (auto simp: rounds_def answer_pending)

text \<open>A visitor who waits for each answer sees the answer to the last question.\<close>

lemma rounds_fit:
  "pending s = [] \<Longrightarrow> askable q \<Longrightarrow> shown (rounds ask answer (rs @ [(q, t)]) s) = Some r \<Longrightarrow> fits q r"
  using answer_fits [OF rounds_pending] by (simp add: rounds_def)

end

section \<open>mock/proofs.ts\<close>

record mock_record =
  mr_id :: jstr
  mr_reservesTotal :: jstr
  mr_liabilitiesTotal :: jstr
  mr_rootHash :: jstr
  mr_prevReserves :: jstr
  mr_ageSeconds :: int

definition RECORDS :: "mock_record list" where
  "RECORDS =
     [\<lparr>mr_id = u ''1042'', mr_reservesTotal = u ''12400000'', mr_liabilitiesTotal = u ''11980000'',
       mr_rootHash = u ''0x7a3f9c2e1b8d4a6f0e5c9d2a7b1f3e8c4d6a9b2e1c7f0d5a8b3e6c9f2a4d7be3'',
       mr_prevReserves = u ''12100000'', mr_ageSeconds = 130\<rparr>,
      \<lparr>mr_id = u ''1041'', mr_reservesTotal = u ''8920000'', mr_liabilitiesTotal = u ''8640000'',
       mr_rootHash = u ''0x3c8e1d7a9b2f4e6c0a5d8b1f7e3c9a2d6b4f0e8c1a7d5b3f9e2c6a4d0b8f1e7c'',
       mr_prevReserves = u ''8810000'', mr_ageSeconds = 5400\<rparr>,
      \<lparr>mr_id = u ''1038'', mr_reservesTotal = u ''45200000'', mr_liabilitiesTotal = u ''44990000'',
       mr_rootHash = u ''0x9f1a4d7b2e8c5a0f3d6b9e1c7a4f2d8b5e0c3a9f6d1b4e7c2a8f5d0b3e6c9a1f'',
       mr_prevReserves = u ''45010000'', mr_ageSeconds = 92000\<rparr>]"

definition EXAMPLE_PROOF_IDS :: "jstr list" where
  "EXAMPLE_PROOF_IDS = List.map mr_id RECORDS"

text \<open>The prefix \<open>/^prf[_-]?/i\<close>.\<close>

definition strip_prf :: "jstr \<Rightarrow> jstr" where
  "strip_prf s =
     (if List.map (\<lambda>c. if 65 \<le> c \<and> c \<le> 90 then c + 32 else c) (take 3 s) = u ''prf''
      then (case drop 3 s of [] \<Rightarrow> [] | c # r \<Rightarrow> if c \<in> {95, 45} then r else c # r)
      else s)"

definition lookupProof :: "jstr \<Rightarrow> int \<Rightarrow> proof_rec option" where
  "lookupProof pid now_ms =
     (let key = strip_prf (trim pid) in
      case List.find (\<lambda>r. mr_id r = key) RECORDS of
        None \<Rightarrow> None
      | Some r \<Rightarrow> Some
         \<lparr>pf_id = mr_id r, pf_proof = u ''VWx0cmFIb25rUHJvb2ZCeXRlc0Jhc2U2NEVuY29kZWRQbGFjZWhvbGRlcg=='',
          pf_publicInputs = \<lparr>pi_reservesTotal = mr_reservesTotal r, pi_liabilitiesTotal = mr_liabilitiesTotal r,
             pi_rootHash = mr_rootHash r, pi_prevReserves = mr_prevReserves r\<rparr>,
          pf_publishedAt = now_ms div 1000 - mr_ageSeconds r\<rparr>)"

section \<open>noir.ts\<close>

record client_verify_result =
  cvr_verified :: bool
  cvr_unavailableReason :: "jstr option"

definition verifyProofClientSide :: "proof_rec \<Rightarrow> client_verify_result" where
  "verifyProofClientSide p =
     \<lparr>cvr_verified = False,
      cvr_unavailableReason = Some (u ''Client-side verification is not wired yet. Trust the on-chain check.'')\<rparr>"

section \<open>verify-client.tsx\<close>

datatype lookup_state = LIdle | LLoading | LFound | LNotfound

datatype check_state = CIdle | CRunning | CDone

record client_check =
  ck_state :: check_state
  ck_verified :: "bool option"
  ck_message :: "jstr option"

definition idle_check :: client_check where
  "idle_check = \<lparr>ck_state = CIdle, ck_verified = None, ck_message = None\<rparr>"

text \<open>\<open>vp_lookups\<close> and \<open>vp_checks\<close> are the lookups and browser checks in flight.\<close>

record verify_page =
  vp_query :: jstr
  vp_state :: lookup_state
  vp_proof :: "proof_rec option"
  vp_missedId :: jstr
  vp_check :: client_check
  vp_lookups :: "jstr list"
  vp_checks :: "proof_rec list"

definition verify_start :: verify_page where
  "verify_start = \<lparr>vp_query = [], vp_state = LIdle, vp_proof = None, vp_missedId = [], vp_check = idle_check,
     vp_lookups = [], vp_checks = []\<rparr>"

definition drop_nth :: "nat \<Rightarrow> 'a list \<Rightarrow> 'a list" where
  "drop_nth i xs = take i xs @ drop (Suc i) xs"

definition lookUp :: "jstr \<Rightarrow> verify_page \<Rightarrow> verify_page" where
  "lookUp rawId v =
     (let pid = trim rawId in
      if pid = [] then v
      else v\<lparr>vp_state := LLoading, vp_proof := None, vp_check := idle_check, vp_lookups := vp_lookups v @ [pid]\<rparr>)"

definition lookUp_answer :: "nat \<Rightarrow> int \<Rightarrow> verify_page \<Rightarrow> verify_page" where
  "lookUp_answer i now v =
     (if i < length (vp_lookups v) then
        (let pid = vp_lookups v ! i; v' = v\<lparr>vp_lookups := drop_nth i (vp_lookups v)\<rparr> in
         case lookupProof pid now of
           Some p \<Rightarrow> v'\<lparr>vp_proof := Some p, vp_state := LFound\<rparr>
         | None \<Rightarrow> v'\<lparr>vp_missedId := pid, vp_state := LNotfound\<rparr>)
      else v)"

definition arrive_with :: "jstr option \<Rightarrow> verify_page \<Rightarrow> verify_page" where
  "arrive_with pid v = (case pid of Some i \<Rightarrow> if i = [] then v else lookUp i (v\<lparr>vp_query := i\<rparr>) | None \<Rightarrow> v)"

definition runClientCheck :: "verify_page \<Rightarrow> verify_page" where
  "runClientCheck v =
     (case vp_proof v of
        None \<Rightarrow> v
      | Some p \<Rightarrow> v\<lparr>vp_check := \<lparr>ck_state = CRunning, ck_verified = None, ck_message = None\<rparr>, vp_checks := vp_checks v @ [p]\<rparr>)"

definition check_message :: "client_verify_result \<Rightarrow> jstr" where
  "check_message r =
     (if cvr_verified r then u ''The proof verified in your browser. You did not trust any server.''
      else case cvr_unavailableReason r of Some m \<Rightarrow> m | None \<Rightarrow> u ''Verification could not run.'')"

definition client_check_answer :: "nat \<Rightarrow> verify_page \<Rightarrow> verify_page" where
  "client_check_answer i v =
     (if i < length (vp_checks v) then
        (let r = verifyProofClientSide (vp_checks v ! i) in
         v\<lparr>vp_check := \<lparr>ck_state = CDone, ck_verified = Some (cvr_verified r), ck_message = Some (check_message r)\<rparr>,
           vp_checks := drop_nth i (vp_checks v)\<rparr>)
      else v)"

definition sample_id :: "jstr \<Rightarrow> verify_page \<Rightarrow> verify_page" where
  "sample_id pid v = (if pid \<in> set EXAMPLE_PROOF_IDS then lookUp pid (v\<lparr>vp_query := pid\<rparr>) else v)"

definition submit_lookup :: "verify_page \<Rightarrow> verify_page" where
  "submit_lookup v = (if vp_state v = LLoading \<or> trim (vp_query v) = [] then v else lookUp (vp_query v) v)"

text \<open>The check button is part of a shown result and disabled while a check runs.\<close>

definition press_check :: "verify_page \<Rightarrow> verify_page" where
  "press_check v = (if vp_state v = LFound \<and> vp_proof v \<noteq> None \<and> ck_state (vp_check v) \<noteq> CRunning then runClientCheck v else v)"

definition verify_coverage :: "jstr \<Rightarrow> jstr \<Rightarrow> int" where
  "verify_coverage reserves liabilities =
     (case bindR (bigint_of reserves) (\<lambda>r. bindR (bigint_of liabilities) (\<lambda>l.
        Inr (if r \<le> 0 then 0 else min 100 (((l * 1000) sdiv r + 5) div 10)))) of Inr c \<Rightarrow> c | Inl _ \<Rightarrow> 0)"

record proof_view =
  pv_pill :: jstr
  pv_id :: jstr
  pv_age :: jstr
  pv_reserves :: jstr
  pv_liabilities :: jstr
  pv_coverage :: int
  pv_margin :: jstr
  pv_root :: jstr
  pv_bytes :: jstr
  pv_check :: "jstr option"

definition proof_result :: "(int \<Rightarrow> jstr) \<Rightarrow> int \<Rightarrow> proof_rec \<Rightarrow> client_check \<Rightarrow> proof_view" where
  "proof_result bps_percent now p c =
     (let x = pf_publicInputs p; bps = marginBps (pi_reservesTotal x) (pi_liabilitiesTotal x) in
      \<lparr>pv_pill = u ''Solvent'', pv_id = pf_id p, pv_age = formatRelativeTime now (pf_publishedAt p),
       pv_reserves = formatAmount_web (pi_reservesTotal x), pv_liabilities = formatAmount_web (pi_liabilitiesTotal x),
       pv_coverage = verify_coverage (pi_reservesTotal x) (pi_liabilitiesTotal x),
       pv_margin = u ''+'' @ bps_percent bps @ u '' margin ('' @ show_int bps @ u '' bps)'',
       pv_root = truncateMiddle (pi_rootHash x) 10 8, pv_bytes = truncateMiddle (pf_proof p) 8 6,
       pv_check = (if ck_state c = CDone then ck_message c else None)\<rparr>)"

datatype verify_view = Trust_points | Result_skeleton | Not_found jstr | Proof_result proof_view | Blank

definition verify_shown :: "(int \<Rightarrow> jstr) \<Rightarrow> int \<Rightarrow> verify_page \<Rightarrow> verify_view" where
  "verify_shown bps_percent now v =
     (case vp_state v of
        LIdle \<Rightarrow> Trust_points
      | LLoading \<Rightarrow> Result_skeleton
      | LNotfound \<Rightarrow> Not_found (vp_missedId v)
      | LFound \<Rightarrow> (case vp_proof v of Some p \<Rightarrow> Proof_result (proof_result bps_percent now p (vp_check v)) | None \<Rightarrow> Blank))"

inductive verify_step :: "verify_page \<Rightarrow> verify_page \<Rightarrow> bool" where
  Arrive: "verify_step v (arrive_with pid v)"
| Edit: "verify_step v (v\<lparr>vp_query := q\<rparr>)"
| Submit: "verify_step v (submit_lookup v)"
| Sample: "verify_step v (sample_id pid v)"
| Look: "verify_step v (lookUp_answer i now v)"
| Press: "verify_step v (press_check v)"
| Checked: "verify_step v (client_check_answer i v)"

abbreviation verify_reachable :: "verify_page \<Rightarrow> bool" where
  "verify_reachable \<equiv> rtranclp verify_step verify_start"

section \<open>mock/inclusion.ts\<close>

definition LATEST_PROOF_ID :: jstr where "LATEST_PROOF_ID = u ''1042''"
definition INCLUDED :: "jstr list" where "INCLUDED = [u ''acct_8842'', u ''ref-1029'', u ''cust_5567'']"
definition EXAMPLE_REFERENCE :: jstr where "EXAMPLE_REFERENCE = u ''acct_8842''"

definition checkInclusion :: "jstr \<Rightarrow> inclusion_result" where
  "checkInclusion reference =
     (let ref = trim reference in \<lparr>ic_included = (ref \<in> set INCLUDED), ic_proofId = LATEST_PROOF_ID\<rparr>)"

section \<open>inclusion-client.tsx\<close>

record inclusion_page =
  ip_reference :: jstr
  ip_state :: check_state
  ip_result :: "inclusion_result option"
  ip_checkedRef :: jstr
  ip_pending :: "jstr list"

definition inclusion_start :: inclusion_page where
  "inclusion_start = \<lparr>ip_reference = [], ip_state = CIdle, ip_result = None, ip_checkedRef = [], ip_pending = []\<rparr>"

definition check_reference :: "jstr \<Rightarrow> inclusion_page \<Rightarrow> inclusion_page" where
  "check_reference rawRef p =
     (let ref = trim rawRef in
      if ref = [] then p
      else p\<lparr>ip_state := CRunning, ip_result := None, ip_checkedRef := ref, ip_pending := ip_pending p @ [ref]\<rparr>)"

definition check_answer :: "nat \<Rightarrow> unit \<Rightarrow> inclusion_page \<Rightarrow> inclusion_page" where
  "check_answer i _ p =
     (if i < length (ip_pending p) then
        p\<lparr>ip_result := Some (checkInclusion (ip_pending p ! i)), ip_state := CDone,
          ip_pending := drop_nth i (ip_pending p)\<rparr>
      else p)"

definition submit_reference :: "inclusion_page \<Rightarrow> inclusion_page" where
  "submit_reference p =
     (if ip_state p = CRunning \<or> trim (ip_reference p) = [] then p else check_reference (ip_reference p) p)"

definition sample_reference :: "inclusion_page \<Rightarrow> inclusion_page" where
  "sample_reference p = check_reference EXAMPLE_REFERENCE (p\<lparr>ip_reference := EXAMPLE_REFERENCE\<rparr>)"

datatype inclusion_view = How_it_works | Checking_card | Included_view jstr jstr | Not_included_view jstr | Empty_view

definition inclusion_shown :: "inclusion_page \<Rightarrow> inclusion_view" where
  "inclusion_shown p =
     (case ip_state p of
        CIdle \<Rightarrow> How_it_works
      | CRunning \<Rightarrow> Checking_card
      | CDone \<Rightarrow> (case ip_result p of
            None \<Rightarrow> Empty_view
          | Some r \<Rightarrow> if ic_included r then Included_view (ip_checkedRef p) (ic_proofId r)
                      else Not_included_view (ip_checkedRef p)))"

inductive inclusion_step :: "inclusion_page \<Rightarrow> inclusion_page \<Rightarrow> bool" where
  EditRef: "inclusion_step p (p\<lparr>ip_reference := r\<rparr>)"
| SubmitRef: "inclusion_step p (submit_reference p)"
| SampleRef: "inclusion_step p (sample_reference p)"
| AnswerRef: "inclusion_step p (check_answer i x p)"

abbreviation inclusion_reachable :: "inclusion_page \<Rightarrow> bool" where
  "inclusion_reachable \<equiv> rtranclp inclusion_step inclusion_start"

section \<open>What the verify page shows\<close>

lemma RECORDS_covered:
  "r \<in> set RECORDS \<Longrightarrow> \<exists>R L. bigint_of (mr_reservesTotal r) = Inr R \<and> bigint_of (mr_liabilitiesTotal r) = Inr L \<and> 0 < L \<and> L \<le> R"
proof -
  have num: "bigint_of s = Inr (int (dec_val s))" if "s \<noteq> []" "\<forall>c \<in> set s. is_digit c" for s
    using bigint_digits [OF that] by (simp add: bigint_of_def)
  assume "r \<in> set RECORDS"
  then have "mr_reservesTotal r \<noteq> [] \<and> (\<forall>c \<in> set (mr_reservesTotal r). is_digit c)
      \<and> mr_liabilitiesTotal r \<noteq> [] \<and> (\<forall>c \<in> set (mr_liabilitiesTotal r). is_digit c)
      \<and> 0 < dec_val (mr_liabilitiesTotal r) \<and> dec_val (mr_liabilitiesTotal r) \<le> dec_val (mr_reservesTotal r)"
    by (auto simp: RECORDS_def u_def is_digit_def dec_val_def)
  then show ?thesis using num by fastforce
qed

lemma lookupProof_record:
  "lookupProof pid now = Some p \<Longrightarrow> \<exists>r \<in> set RECORDS. pf_id p = mr_id r \<and> mr_id r = strip_prf (trim pid)
     \<and> pi_reservesTotal (pf_publicInputs p) = mr_reservesTotal r \<and> pi_liabilitiesTotal (pf_publicInputs p) = mr_liabilitiesTotal r"
  by (auto simp: lookupProof_def Let_def find_Some_iff split: option.splits) (metis nth_mem)

lemma lookupProof_None: "lookupProof pid now = None \<longleftrightarrow> strip_prf (trim pid) \<notin> mr_id ` set RECORDS"
proof (cases "lookupProof pid now")
  case None
  then show ?thesis by (auto simp: lookupProof_def Let_def find_None_iff split: option.splits)
next
  case (Some p)
  with lookupProof_record [OF Some] show ?thesis by force
qed

lemma strip_trim [simp]: "strip_prf (trim (trim s)) = strip_prf (trim s)" by simp

definition published_proof :: "proof_rec \<Rightarrow> bool" where
  "published_proof p \<longleftrightarrow> (\<exists>r \<in> set RECORDS. pf_id p = mr_id r
     \<and> pi_reservesTotal (pf_publicInputs p) = mr_reservesTotal r \<and> pi_liabilitiesTotal (pf_publicInputs p) = mr_liabilitiesTotal r)"

definition verify_ok :: "verify_page \<Rightarrow> bool" where
  "verify_ok v \<longleftrightarrow> (vp_state v = LFound \<longrightarrow> vp_proof v \<noteq> None) \<and> (\<forall>p. vp_proof v = Some p \<longrightarrow> published_proof p)
     \<and> (ck_state (vp_check v) = CDone \<longrightarrow> ck_verified (vp_check v) = Some False
          \<and> ck_message (vp_check v) = Some (u ''Client-side verification is not wired yet. Trust the on-chain check.''))"

lemma lookUp_ok: "verify_ok v \<Longrightarrow> verify_ok (lookUp q v)"
  by (simp add: verify_ok_def lookUp_def Let_def idle_check_def)

lemma query_ok [simp]: "verify_ok (v\<lparr>vp_query := q\<rparr>) = verify_ok v"
  by (simp add: verify_ok_def)

lemma lookUp_answer_ok: "verify_ok v \<Longrightarrow> verify_ok (lookUp_answer i now v)"
  by (auto simp: verify_ok_def lookUp_answer_def Let_def published_proof_def split: option.splits dest!: lookupProof_record)

lemma checks_ok: "verify_ok v \<Longrightarrow> verify_ok (press_check v)" "verify_ok v \<Longrightarrow> verify_ok (client_check_answer i v)"
  by (auto simp: verify_ok_def press_check_def runClientCheck_def client_check_answer_def Let_def verifyProofClientSide_def
      check_message_def split: option.splits)

lemma verify_reachable_ok: "verify_reachable v \<Longrightarrow> verify_ok v"
proof (induction rule: rtranclp_induct)
  case base
  show ?case by (simp add: verify_ok_def verify_start_def idle_check_def)
next
  case (step v w)
  from step.hyps(2) step.IH show ?case
    by (cases rule: verify_step.cases)
      (auto simp: arrive_with_def submit_lookup_def sample_id_def lookUp_ok lookUp_answer_ok checks_ok split: option.splits)
qed

lemma verify_coverage_bounds:
  assumes "bigint_of R = Inr r" "bigint_of L = Inr l" "0 < l" "l \<le> r"
  shows "0 \<le> verify_coverage R L \<and> verify_coverage R L \<le> 100" "0 \<le> marginBps R L"
proof -
  have "0 \<le> (l * 1000) sdiv r" using assms by (simp add: sdiv_nonneg pos_imp_zdiv_nonneg_iff)
  then show "0 \<le> verify_coverage R L \<and> verify_coverage R L \<le> 100"
    using assms by (simp add: verify_coverage_def)
  show "0 \<le> marginBps R L" using assms by (simp add: marginBps_def sdiv_nonneg pos_imp_zdiv_nonneg_iff)
qed

text \<open>C26: The verify page never overstates a proof.  However lookups, sample buttons, links and
  browser checks overlap and in whichever order their answers arrive, a shown result is of a
  published record whose reserves do cover its liabilities, so that the fixed \<open>Solvent\<close> pill and
  the plus sign of the margin are true of it and the coverage bar stays within its track; and
  the page never claims that the proof was verified in the browser.\<close>

theorem verify_page_sound:
  assumes "verify_reachable v" "verify_shown bps_percent now v = Proof_result w"
  shows "\<exists>r R L. r \<in> set RECORDS \<and> pv_id w = mr_id r
    \<and> bigint_of (mr_reservesTotal r) = Inr R \<and> bigint_of (mr_liabilitiesTotal r) = Inr L \<and> L \<le> R
    \<and> pv_reserves w = formatAmount_web (mr_reservesTotal r) \<and> pv_liabilities w = formatAmount_web (mr_liabilitiesTotal r)
    \<and> 0 \<le> marginBps (mr_reservesTotal r) (mr_liabilitiesTotal r)
    \<and> 0 \<le> pv_coverage w \<and> pv_coverage w \<le> 100
    \<and> (\<forall>m. pv_check w = Some m \<longrightarrow> m = u ''Client-side verification is not wired yet. Trust the on-chain check.'')"
proof -
  obtain p where p: "vp_proof v = Some p" "w = proof_result bps_percent now p (vp_check v)"
    using assms(2) by (auto simp: verify_shown_def split: lookup_state.splits option.splits)
  then obtain r where r: "r \<in> set RECORDS" "pf_id p = mr_id r"
    "pi_reservesTotal (pf_publicInputs p) = mr_reservesTotal r" "pi_liabilitiesTotal (pf_publicInputs p) = mr_liabilitiesTotal r"
    using verify_reachable_ok [OF assms(1)] by (auto simp: verify_ok_def published_proof_def)
  obtain R L where n: "bigint_of (mr_reservesTotal r) = Inr R" "bigint_of (mr_liabilitiesTotal r) = Inr L" "0 < L" "L \<le> R"
    using RECORDS_covered [OF r(1)] by blast
  have "pv_check w = Some m \<longrightarrow> m = u ''Client-side verification is not wired yet. Trust the on-chain check.''" for m
    using verify_reachable_ok [OF assms(1)] p(2) by (simp add: verify_ok_def proof_result_def Let_def)
  with verify_coverage_bounds [OF n] n r p(2) show ?thesis
    by (intro exI [of _ r] exI [of _ R] exI [of _ L]) (simp add: proof_result_def Let_def)
qed

definition looked_up :: verify_page where
  "looked_up = lookUp_answer 0 0 (sample_id (u ''1042'') verify_start)"

lemma example_ids: "u ''1042'' \<in> set EXAMPLE_PROOF_IDS" "trim (u ''1042'') = u ''1042''" "strip_prf (u ''1042'') = u ''1042''"
  by (simp add: EXAMPLE_PROOF_IDS_def RECORDS_def, simp_all add: u_def trim_def is_ws_def strip_prf_def)

lemma looked_up_shows: "\<exists>w. verify_shown f 0 looked_up = Proof_result w \<and> pv_id w = u ''1042''"
proof -
  have "lookupProof (u ''1042'') 0 \<noteq> None"
    by (simp add: lookupProof_None example_ids) (simp add: RECORDS_def)
  then obtain p where p: "lookupProof (u ''1042'') 0 = Some p" by auto
  then have "pf_id p = u ''1042''" by (auto simp: example_ids dest: lookupProof_record)
  with p show ?thesis
    by (simp add: looked_up_def sample_id_def example_ids lookUp_def lookUp_answer_def verify_start_def verify_shown_def
        proof_result_def Let_def)
qed

lemma verify_page_sound_witness:
  "\<exists>w r. verify_shown (\<lambda>_. []) 0 looked_up = Proof_result w \<and> r \<in> set RECORDS \<and> pv_id w = mr_id r \<and> pv_coverage w \<le> 100"
proof -
  have "verify_reachable looked_up"
    unfolding looked_up_def by (rule rtranclp.rtrancl_into_rtrancl [OF r_into_rtranclp]) (rule verify_step.intros)+
  moreover obtain w where "verify_shown (\<lambda>_. []) 0 looked_up = Proof_result w" using looked_up_shows by blast
  ultimately show ?thesis using verify_page_sound by blast
qed
section \<open>What the inclusion page answers\<close>

text \<open>The answer a reference should get.\<close>

definition right_answer :: "jstr \<Rightarrow> inclusion_view" where
  "right_answer reference =
     (if trim reference \<in> set INCLUDED then Included_view (trim reference) LATEST_PROOF_ID
      else Not_included_view (trim reference))"

definition right_record :: "jstr \<Rightarrow> jstr option \<Rightarrow> bool" where
  "right_record q shown_id \<longleftrightarrow>
     shown_id = (if strip_prf (trim q) \<in> set EXAMPLE_PROOF_IDS then Some (strip_prf (trim q)) else None)"

interpretation inclusion: request_panel check_reference check_answer ip_pending "\<lambda>p. Some (inclusion_shown p)"
    "\<lambda>q view. view = right_answer q" "\<lambda>q. trim q \<noteq> []"
  by unfold_locales
    (auto simp: check_reference_def check_answer_def Let_def drop_nth_def inclusion_shown_def checkInclusion_def right_answer_def)

definition shown_proof_id :: "verify_page \<Rightarrow> jstr option" where
  "shown_proof_id v = (if vp_state v = LFound then map_option pf_id (vp_proof v) else None)"

interpretation verification: request_panel lookUp lookUp_answer vp_lookups "\<lambda>v. Some (shown_proof_id v)"
    right_record "\<lambda>q. trim q \<noteq> []"
proof
  fix s :: verify_page and t q
  assume "vp_lookups s = []"
  then show "vp_lookups (lookUp_answer 0 t (lookUp q s)) = []"
    by (simp add: lookUp_def lookUp_answer_def Let_def drop_nth_def split: option.split)
next
  fix s :: verify_page and t q r
  assume s: "vp_lookups s = []" "trim q \<noteq> []" "Some (shown_proof_id (lookUp_answer 0 t (lookUp q s))) = Some r"
  show "right_record q r"
  proof (cases "lookupProof (trim q) t")
    case None
    with s show ?thesis
      by (auto simp: lookUp_def lookUp_answer_def Let_def shown_proof_id_def right_record_def lookupProof_None EXAMPLE_PROOF_IDS_def)
  next
    case (Some p)
    with lookupProof_record [OF Some] have "strip_prf (trim q) \<in> set EXAMPLE_PROOF_IDS" "pf_id p = strip_prf (trim q)"
      by (auto simp: EXAMPLE_PROOF_IDS_def intro: rev_image_eqI)
    with s Some show ?thesis
      by (auto simp: lookUp_def lookUp_answer_def Let_def shown_proof_id_def right_record_def)
  qed
qed

text \<open>A customer who waits gets the right answer.  After any questions, each answered before
  the next is asked, the page shows for the last reference whether it is committed, under that
  very reference; and a visitor of the verify page who waits sees exactly the record asked for
  last, or none when there is none.\<close>

theorem waiting_gets_the_right_answer:
  assumes "trim q \<noteq> []"
  shows "inclusion_shown (rounds check_reference check_answer (rs @ [(q, ())]) inclusion_start) = right_answer q
    \<and> right_record q (shown_proof_id (rounds lookUp lookUp_answer (ls @ [(q, now)]) verify_start))"
  using inclusion.rounds_fit [of inclusion_start q rs "()", OF _ assms]
    verification.rounds_fit [of verify_start q ls now, OF _ assms]
  by (simp add: inclusion_start_def verify_start_def)

lemma reference_trims: "trim (u ''acct_8842'') = u ''acct_8842''" "trim (u ''stranger'') = u ''stranger''"
  by (simp_all add: u_def trim_def is_ws_def)

lemma waiting_gets_the_right_answer_witness:
  "inclusion_shown (rounds check_reference check_answer [(u ''stranger'', ()), (u ''acct_8842'', ())] inclusion_start)
     = Included_view (u ''acct_8842'') (u ''1042'')"
  using waiting_gets_the_right_answer [of "u ''acct_8842''" "[(u ''stranger'', ())]"]
  by (simp add: reference_trims right_answer_def INCLUDED_def LATEST_PROOF_ID_def)

text \<open>A customer who does not wait can be told the wrong thing.  The sample button stays enabled
  while a check runs and an answer carries no trace of its question, so there is a way through
  the page that ends, with nothing left in flight but one answer on its way, in the statement
  that a reference nobody committed is included in the latest proof.\<close>

theorem stale_answer_possible:
  "\<exists>p. inclusion_reachable p \<and> inclusion_shown p = Included_view (u ''stranger'') LATEST_PROOF_ID
     \<and> u ''stranger'' \<notin> set INCLUDED"
proof -
  let ?p1 = "check_answer 0 () (sample_reference (sample_reference inclusion_start))"
  let ?p2 = "check_answer 0 () (submit_reference (?p1\<lparr>ip_reference := u ''stranger''\<rparr>))"
  note go = rtranclp.rtrancl_into_rtrancl [where r = inclusion_step]
  have "inclusion_reachable (sample_reference (sample_reference inclusion_start))"
    by (rule go [OF r_into_rtranclp SampleRef]) (rule SampleRef)
  then have "inclusion_reachable (?p1\<lparr>ip_reference := u ''stranger''\<rparr>)"
    by (rule go [OF go [OF _ AnswerRef] EditRef])
  then have "inclusion_reachable ?p2" by (rule go [OF go [OF _ SubmitRef] AnswerRef])
  moreover have "inclusion_shown ?p2 = Included_view (u ''stranger'') LATEST_PROOF_ID"
    by (simp add: inclusion_shown_def check_answer_def submit_reference_def sample_reference_def check_reference_def
        inclusion_start_def EXAMPLE_REFERENCE_def reference_trims drop_nth_def checkInclusion_def INCLUDED_def Let_def)
  moreover have "u ''stranger'' \<notin> set INCLUDED" by (simp add: INCLUDED_def)
  ultimately show ?thesis by blast
qed

end
