(* ===== verification/Dashboard.thy ===== *)
theory Dashboard
  imports Session Anomaly Amounts
begin

text \<open>
  The console's dashboard: the mock orchestrator behind it (apps/web/src/lib/mock/dashboard.ts), the
  provider (lib/dashboard/provider.tsx), the report (lib/report.ts) and the panels with behaviour:
  status hero, margin trend, anomaly watch and the dialog that connects a reserve source
  (components/dashboard), with the permission checks of the sections.  A run or a
  connection is a request in flight until its timer ends; the clock arrives with each event.
  The report's time stamps and percentages print through parameters.
\<close>

section \<open>mock/dashboard.ts\<close>

datatype source_type = AttestedSource | OnchainSource

record connect_config =
  cfg_type :: source_type
  cfg_label :: jstr
  cfg_settings :: jstr

record dash_source =
  src_id :: jstr
  src_type :: source_type
  src_label :: jstr
  src_detail :: jstr
  src_connectedAt :: int

record cycle_record =
  cy_id :: jstr
  cy_proofId :: jstr
  cy_at :: int
  cy_status :: solvency_status
  cy_reservesTotal :: jstr
  cy_liabilitiesTotal :: jstr
  cy_durationMs :: "int option"

record dashboard_data =
  dd_sources :: "dash_source list"
  dd_cycles :: "cycle_record list"

text \<open>\<open>0xB7\<close> is the middle dot, \<open>0x2022\<close> the bullet, \<open>0x2026\<close> the ellipsis.\<close>

definition middot :: jstr where "middot = [32, 0xB7, 32]"

definition new_source_id :: "nat \<Rightarrow> jstr" where
  "new_source_id now_ms = u ''src'' @ u ''_'' @ base36 now_ms"

definition cycle_of :: "jstr \<Rightarrow> int \<Rightarrow> jstr \<Rightarrow> jstr \<Rightarrow> int option \<Rightarrow> cycle_record" where
  "cycle_of proofId stamp reserves liabilities duration =
     \<lparr>cy_id = u ''cyc_'' @ proofId, cy_proofId = proofId, cy_at = stamp, cy_status = Solvent,
      cy_reservesTotal = reserves, cy_liabilitiesTotal = liabilities, cy_durationMs = duration\<rparr>"

definition initialDashboard :: "nat \<Rightarrow> dashboard_data" where
  "initialDashboard now_ms =
     (let now = int (now_ms div 1000) in
      \<lparr>dd_sources =
         [\<lparr>src_id = u ''src_kestrel'', src_type = AttestedSource, src_label = u ''Kestrel Custody'',
           src_detail = u ''Signed balance'' @ middot @ u ''account '' @ [0x2022, 0x2022] @ u ''4821'',
           src_connectedAt = now - 86400 * 9\<rparr>,
          \<lparr>src_id = u ''src_treasury'', src_type = OnchainSource, src_label = u ''Treasury wallet'',
           src_detail = u ''On-chain'' @ middot @ u ''GBQ'' @ [0x2026] @ u ''7XF'',
           src_connectedAt = now - 86400 * 9\<rparr>],
       dd_cycles =
         [cycle_of (u ''1042'') (now - 130) (u ''12400000'') (u ''11980000'') (Some 1820),
          cycle_of (u ''1041'') (now - 5400) (u ''12310000'') (u ''11940000'') (Some 1760),
          cycle_of (u ''1038'') (now - 92000) (u ''12100000'') (u ''11890000'') (Some 1910),
          cycle_of (u ''1035'') (now - 180000) (u ''12050000'') (u ''10000000'') (Some 1880)]\<rparr>)"

definition connectSourceMock :: "connect_config \<Rightarrow> nat \<Rightarrow> dash_source" where
  "connectSourceMock c now_ms =
     (let or_else = (\<lambda>d. if cfg_settings c \<noteq> [] then cfg_settings c else u d) in
      \<lparr>src_id = new_source_id now_ms, src_type = cfg_type c, src_label = cfg_label c,
       src_detail = (case cfg_type c of
           AttestedSource \<Rightarrow> u ''Signed balance'' @ middot @ or_else ''account connected''
         | OnchainSource \<Rightarrow> u ''On-chain'' @ middot @ or_else ''wallet connected''),
       src_connectedAt = int (now_ms div 1000)\<rparr>)"

text \<open>\<open>Number\<close> of a string, which is a numeral on this path; a sum with anything else prints \<open>NaN\<close>.\<close>

definition js_sum :: "jstr \<Rightarrow> int \<Rightarrow> jstr" where
  "js_sum s k = (case digits_val s of Some n \<Rightarrow> show_int (n + k) | None \<Rightarrow> u ''NaN'')"

definition runCycleMock :: "cycle_record option \<Rightarrow> nat \<Rightarrow> cycle_record" where
  "runCycleMock previous now_ms =
     (let nextProofId = (case previous of Some p \<Rightarrow> js_sum (cy_proofId p) 1 | None \<Rightarrow> u ''1043'');
          baseReserves = (case previous of Some p \<Rightarrow> cy_reservesTotal p | None \<Rightarrow> u ''12400000'');
          baseLiabilities = (case previous of Some p \<Rightarrow> cy_liabilitiesTotal p | None \<Rightarrow> u ''11980000'')
      in cycle_of nextProofId (int (now_ms div 1000)) (js_sum baseReserves 30000) (js_sum baseLiabilities 18000)
           (map_option (\<lambda>n. 1600 + (n mod 5) * 40) (digits_val nextProofId)))"

section \<open>connect-source-dialog.tsx\<close>

definition CUSTODIANS :: "jstr list" where
  "CUSTODIANS = List.map u [''Kestrel Custody'', ''Northbridge Custody'', ''Sterling Reserve'', ''Atlas Safekeeping'', ''Harbor Trust Co.'']"

datatype dialog_step = Choose | Custodians | Consent | WalletForm

record connect_dialog =
  dg_open :: bool
  dg_step :: dialog_step
  dg_custodian :: jstr
  dg_walletLabel :: jstr
  dg_walletAddress :: jstr
  dg_busy :: bool

definition dialog_reset :: "connect_dialog \<Rightarrow> connect_dialog" where
  "dialog_reset g = g\<lparr>dg_step := Choose, dg_custodian := [], dg_walletLabel := [], dg_walletAddress := [], dg_busy := False\<rparr>"

definition dialog_close :: "connect_dialog \<Rightarrow> connect_dialog" where
  "dialog_close g = dialog_reset (g\<lparr>dg_open := False\<rparr>)"

definition onOpenChange :: "bool \<Rightarrow> connect_dialog \<Rightarrow> connect_dialog" where
  "onOpenChange next g = (let g' = g\<lparr>dg_open := next\<rparr> in if \<not> next then dialog_reset g' else g')"

datatype dialog_event =
    OpenDialog | DismissDialog | PickCustodianAccount | PickWallet | GoBack
  | PickCustodian jstr | EditLabel jstr | EditAddress jstr

text \<open>The controls a step shows.\<close>

definition dialog_input :: "dialog_event \<Rightarrow> connect_dialog \<Rightarrow> connect_dialog" where
  "dialog_input ev g =
     (case ev of
        OpenDialog \<Rightarrow> g\<lparr>dg_open := True\<rparr>
      | DismissDialog \<Rightarrow> if dg_open g then onOpenChange False g else g
      | PickCustodianAccount \<Rightarrow> if dg_open g \<and> dg_step g = Choose then g\<lparr>dg_step := Custodians\<rparr> else g
      | PickWallet \<Rightarrow> if dg_open g \<and> dg_step g = Choose then g\<lparr>dg_step := WalletForm\<rparr> else g
      | GoBack \<Rightarrow>
          if \<not> dg_open g then g
          else (case dg_step g of
              Choose \<Rightarrow> g
            | Custodians \<Rightarrow> g\<lparr>dg_step := Choose\<rparr>
            | Consent \<Rightarrow> g\<lparr>dg_step := Custodians\<rparr>
            | WalletForm \<Rightarrow> g\<lparr>dg_step := Choose\<rparr>)
      | PickCustodian name \<Rightarrow>
          if dg_open g \<and> dg_step g = Custodians \<and> name \<in> set CUSTODIANS
          then g\<lparr>dg_custodian := name, dg_step := Consent\<rparr> else g
      | EditLabel s \<Rightarrow> if dg_open g \<and> dg_step g = WalletForm then g\<lparr>dg_walletLabel := s\<rparr> else g
      | EditAddress s \<Rightarrow> if dg_open g \<and> dg_step g = WalletForm then g\<lparr>dg_walletAddress := s\<rparr> else g)"

text \<open>The configuration the finishing button of a step would connect, when it is enabled.\<close>

definition finish_config :: "connect_dialog \<Rightarrow> connect_config option" where
  "finish_config g =
     (if \<not> dg_open g \<or> dg_busy g then None
      else case dg_step g of
        Consent \<Rightarrow> Some \<lparr>cfg_type = AttestedSource, cfg_label = dg_custodian g, cfg_settings = u ''read-only balance consent''\<rparr>
      | WalletForm \<Rightarrow>
          if trim (dg_walletLabel g) = [] \<or> trim (dg_walletAddress g) = [] then None
          else Some \<lparr>cfg_type = OnchainSource, cfg_label = trim (dg_walletLabel g), cfg_settings = trim (dg_walletAddress g)\<rparr>
      | _ \<Rightarrow> None)"

section \<open>provider.tsx\<close>

datatype schedule = Manual | Hourly | Daily

text \<open>\<open>db_runs\<close> are the cycles in flight with the record each started from, \<open>db_connects\<close> the
  connections in flight.\<close>

record dashboard =
  db_data :: dashboard_data
  db_running :: bool
  db_schedule :: schedule
  db_dialog :: connect_dialog
  db_runs :: "cycle_record option list"
  db_connects :: "connect_config list"

definition dashboard_start :: "nat \<Rightarrow> dashboard" where
  "dashboard_start now =
     \<lparr>db_data = initialDashboard now, db_running = False, db_schedule = Manual,
      db_dialog = \<lparr>dg_open = False, dg_step = Choose, dg_custodian = [], dg_walletLabel = [], dg_walletAddress = [], dg_busy = False\<rparr>,
      db_runs = [], db_connects = []\<rparr>"

definition head_cycle :: "dashboard \<Rightarrow> cycle_record option" where
  "head_cycle d = (case dd_cycles (db_data d) of [] \<Rightarrow> None | c # _ \<Rightarrow> Some c)"

definition runCycle :: "dashboard \<Rightarrow> dashboard" where
  "runCycle d = d\<lparr>db_running := True, db_runs := db_runs d @ [head_cycle d]\<rparr>"

definition cycle_done :: "nat \<Rightarrow> nat \<Rightarrow> dashboard \<Rightarrow> dashboard" where
  "cycle_done i now d =
     (if i < length (db_runs d) then
        d\<lparr>db_data := (db_data d)\<lparr>dd_cycles := runCycleMock (db_runs d ! i) now # dd_cycles (db_data d)\<rparr>,
          db_running := False, db_runs := take i (db_runs d) @ drop (Suc i) (db_runs d)\<rparr>
      else d)"

definition provider_connectSource :: "connect_config \<Rightarrow> dashboard \<Rightarrow> dashboard" where
  "provider_connectSource c d = d\<lparr>db_connects := db_connects d @ [c]\<rparr>"

definition finish_connect :: "dashboard \<Rightarrow> dashboard" where
  "finish_connect d =
     (case finish_config (db_dialog d) of
        None \<Rightarrow> d
      | Some c \<Rightarrow> provider_connectSource c (d\<lparr>db_dialog := (db_dialog d)\<lparr>dg_busy := True\<rparr>\<rparr>))"

definition connect_done :: "nat \<Rightarrow> nat \<Rightarrow> dashboard \<Rightarrow> dashboard" where
  "connect_done i now d =
     (if i < length (db_connects d) then
        d\<lparr>db_data := (db_data d)\<lparr>dd_sources := dd_sources (db_data d) @ [connectSourceMock (db_connects d ! i) now]\<rparr>,
          db_dialog := dialog_close (db_dialog d),
          db_connects := take i (db_connects d) @ drop (Suc i) (db_connects d)\<rparr>
      else d)"

section \<open>The sections and their permissions\<close>

definition press_run :: "role \<Rightarrow> dashboard \<Rightarrow> dashboard" where
  "press_run r d = (if can r CycleRun \<and> \<not> db_running d then runCycle d else d)"

definition set_schedule :: "role \<Rightarrow> schedule \<Rightarrow> dashboard \<Rightarrow> dashboard" where
  "set_schedule r sc d = (if can r CycleRun then d\<lparr>db_schedule := sc\<rparr> else d)"

definition connect_input :: "role \<Rightarrow> dialog_event \<Rightarrow> dashboard \<Rightarrow> dashboard" where
  "connect_input r ev d = (if can r SourceConnect then d\<lparr>db_dialog := dialog_input ev (db_dialog d)\<rparr> else d)"

definition press_connect :: "role \<Rightarrow> dashboard \<Rightarrow> dashboard" where
  "press_connect r d = (if can r SourceConnect then finish_connect d else d)"

inductive dashboard_step :: "role \<Rightarrow> dashboard \<Rightarrow> dashboard \<Rightarrow> bool" for r where
  Run: "dashboard_step r d (press_run r d)"
| RunDone: "dashboard_step r d (cycle_done i now d)"
| Schedule: "dashboard_step r d (set_schedule r sc d)"
| Dialog: "dashboard_step r d (connect_input r ev d)"
| Connect: "dashboard_step r d (press_connect r d)"
| ConnectDone: "dashboard_step r d (connect_done i now d)"

abbreviation dashboard_reachable :: "role \<Rightarrow> nat \<Rightarrow> dashboard \<Rightarrow> bool" where
  "dashboard_reachable r now \<equiv> rtranclp (dashboard_step r) (dashboard_start now)"

section \<open>report.ts and the panels\<close>

definition status_text :: "solvency_status \<Rightarrow> jstr" where
  "status_text st = (case st of Solvent \<Rightarrow> u ''solvent'' | Breach \<Rightarrow> u ''breach'' | Unknown \<Rightarrow> u ''unknown'')"

definition buildReport :: "(int \<Rightarrow> jstr) \<Rightarrow> (int \<Rightarrow> jstr) \<Rightarrow> nat \<Rightarrow> jstr \<Rightarrow> dashboard_data \<Rightarrow> jstr" where
  "buildReport timestamp bps_percent now_ms institution d =
     (let header = [u ''SOLVA SOLVENCY REPORT'', u ''====================='', u ''Institution:  '' @ institution,
            u ''Generated:    '' @ timestamp (int (now_ms div 1000)), []];
          latest = (case dd_cycles d of
              [] \<Rightarrow> []
            | c # _ \<Rightarrow>
                let bps = marginBps (cy_reservesTotal c) (cy_liabilitiesTotal c) in
                [u ''LATEST PROOF'',
                 u ''  Status:       '' @ (if cy_status c = Solvent then u ''Solvent (reserves cover liabilities)'' else status_text (cy_status c)),
                 u ''  Proof id:     '' @ cy_proofId c,
                 u ''  Reserves (R): '' @ formatAmount_web (cy_reservesTotal c),
                 u ''  Liabilities:  '' @ formatAmount_web (cy_liabilitiesTotal c),
                 u ''  Margin:       +'' @ bps_percent bps @ u '' ('' @ show_int bps @ u '' bps)'',
                 u ''  Verified:     on Stellar, '' @ timestamp (cy_at c), []]);
          sources = (if dd_sources d = [] then [u ''  (none)'']
            else List.map (\<lambda>s. u ''  - '' @ src_label s @ u '' ('' @ (case src_type s of AttestedSource \<Rightarrow> u ''attested'' | OnchainSource \<Rightarrow> u ''onchain'') @ u '')'')
                   (dd_sources d));
          cycles = List.map (\<lambda>c. u ''  '' @ timestamp (cy_at c) @ u ''  proof '' @ cy_proofId c @ u ''  '' @ status_text (cy_status c)
              @ u ''  R '' @ formatAmount_web (cy_reservesTotal c) @ u ''  L '' @ formatAmount_web (cy_liabilitiesTotal c)) (dd_cycles d)
      in join [10] (header @ latest @ [u ''CONNECTED SOURCES''] @ sources @ [[]] @ [u ''RECENT CYCLES''] @ cycles @ [[]]
           @ [u ''Verify any proof independently at /verify. This report reflects proofs published'',
              u ''on-chain; nothing here exposes individual customer balances.'']))"

definition report_of :: "(int \<Rightarrow> jstr) \<Rightarrow> (int \<Rightarrow> jstr) \<Rightarrow> nat \<Rightarrow> console_session option \<Rightarrow> dashboard \<Rightarrow> jstr \<times> jstr" where
  "report_of timestamp bps_percent now_ms se d =
     (let prop = (\<lambda>k. case se of None \<Rightarrow> JUndef | Some x \<Rightarrow> jlookup (sn_institution x) (u k));
          name = (if jtruthy (prop ''legalName'') then json_to_string (prop ''legalName'') else u ''Solva institution'');
          key = (if prop ''id'' = JUndef \<or> prop ''id'' = JNull then u ''demo'' else json_to_string (prop ''id''))
      in (u ''solva-report-'' @ key @ u ''.txt'', buildReport timestamp bps_percent now_ms name (db_data d)))"

definition can_export :: "role \<Rightarrow> dashboard \<Rightarrow> bool" where
  "can_export r d \<longleftrightarrow> can r ReportExport \<and> dd_cycles (db_data d) \<noteq> []"

definition toProofs :: "cycle_record list \<Rightarrow> proof_rec list" where
  "toProofs cs = List.map (\<lambda>c. \<lparr>pf_id = cy_proofId c, pf_proof = [],
     pf_publicInputs = \<lparr>pi_reservesTotal = cy_reservesTotal c, pi_liabilitiesTotal = cy_liabilitiesTotal c,
        pi_rootHash = [], pi_prevReserves = []\<rparr>,
     pf_publishedAt = cy_at c\<rparr>) cs"

definition panel_flags :: "cycle_record list \<Rightarrow> anomaly_flag list result" where
  "panel_flags cs =
     bindR (detectAnomalies (toProofs cs) DEFAULT_THRESHOLDS) (\<lambda>fs. Inr (sort_key (\<lambda>f. - fl_detectedAt f) fs))"

definition margin_series :: "cycle_record list \<Rightarrow> (jstr \<times> int) list" where
  "margin_series cs = List.map (\<lambda>c. (u ''#'' @ cy_proofId c, marginBps (cy_reservesTotal c) (cy_liabilitiesTotal c))) (rev cs)"

definition HEADLINE :: "solvency_status \<Rightarrow> jstr" where
  "HEADLINE st = (case st of Solvent \<Rightarrow> u ''Reserves cover deposits'' | Breach \<Rightarrow> u ''Reserves do not cover deposits''
     | Unknown \<Rightarrow> u ''No proof published yet'')"

definition hero_status :: "cycle_record option \<Rightarrow> solvency_status" where
  "hero_status latest = (case latest of Some c \<Rightarrow> cy_status c | None \<Rightarrow> Unknown)"

definition hero_bps :: "cycle_record option \<Rightarrow> int" where
  "hero_bps latest = (case latest of Some c \<Rightarrow> marginBps (cy_reservesTotal c) (cy_liabilitiesTotal c) | None \<Rightarrow> 0)"

section \<open>The record of cycles\<close>

lemma digits_val_show [simp]: "0 \<le> i \<Longrightarrow> digits_val (show_int i) = Some i"
  using show_nat_digits by (auto simp: show_int_def digits_val_def)

lemma digits_val_bigint: "digits_val s = Some n \<Longrightarrow> bigint_of s = Inr n \<and> 0 \<le> n"
  using bigint_digits [of s] by (auto simp: digits_val_def bigint_of_def split: if_splits)

definition cycle_covered :: "cycle_record \<Rightarrow> bool" where
  "cycle_covered c \<longleftrightarrow> cy_status c = Solvent \<and> digits_val (cy_proofId c) \<noteq> None
     \<and> (\<exists>R L. digits_val (cy_reservesTotal c) = Some R \<and> digits_val (cy_liabilitiesTotal c) = Some L \<and> 0 < L \<and> L \<le> R)"

definition cycle_no :: "cycle_record \<Rightarrow> int" where
  "cycle_no c = (case digits_val (cy_proofId c) of Some n \<Rightarrow> n | None \<Rightarrow> 0)"

lemma digits_val_nonneg: "digits_val s = Some n \<Longrightarrow> 0 \<le> n"
  using digits_val_bigint by blast

lemma runCycleMock_covered:
  assumes "cycle_covered p"
  shows "cycle_covered (runCycleMock (Some p) now) \<and> cycle_no (runCycleMock (Some p) now) = cycle_no p + 1"
proof -
  obtain n R L where p: "digits_val (cy_proofId p) = Some n" "digits_val (cy_reservesTotal p) = Some R"
    "digits_val (cy_liabilitiesTotal p) = Some L" "0 < L" "L \<le> R"
    using assms by (auto simp: cycle_covered_def)
  moreover have "0 \<le> n" using p(1) by (rule digits_val_nonneg)
  ultimately show ?thesis
    by (simp add: cycle_covered_def cycle_no_def runCycleMock_def cycle_of_def js_sum_def Let_def)
qed

lemma initial_cycles:
  "\<forall>c \<in> set (dd_cycles (initialDashboard now)). cycle_covered c"
  "sorted_wrt (\<lambda>a b. cycle_no b < cycle_no a) (dd_cycles (initialDashboard now))"
  "dd_cycles (initialDashboard now) \<noteq> []"
  by (simp_all add: initialDashboard_def Let_def cycle_of_def cycle_covered_def cycle_no_def digits_val_def u_def is_digit_def dec_val_def)

definition log_ok :: "dashboard \<Rightarrow> bool" where
  "log_ok d \<longleftrightarrow> dd_cycles (db_data d) \<noteq> [] \<and> (\<forall>c \<in> set (dd_cycles (db_data d)). cycle_covered c)
     \<and> sorted_wrt (\<lambda>a b. cycle_no b < cycle_no a) (dd_cycles (db_data d))
     \<and> db_runs d = (if db_running d then [head_cycle d] else [])"

lemma log_ok_frame [simp]:
  "log_ok (d\<lparr>db_dialog := g\<rparr>) = log_ok d" "log_ok (d\<lparr>db_schedule := sc\<rparr>) = log_ok d" "log_ok (d\<lparr>db_connects := cs\<rparr>) = log_ok d"
  "log_ok (d\<lparr>db_data := (db_data d)\<lparr>dd_sources := ss\<rparr>\<rparr>) = log_ok d"
  by (simp_all add: log_ok_def head_cycle_def)

lemma cycle_done_ok:
  assumes "log_ok d"
  shows "log_ok (cycle_done i now d)"
proof (cases "i < length (db_runs d)")
  case True
  obtain c cs where cs: "dd_cycles (db_data d) = c # cs" using assms by (cases "dd_cycles (db_data d)") (auto simp: log_ok_def)
  have run: "db_running d" "db_runs d = [Some c]" "i = 0"
    using True assms cs by (auto simp: log_ok_def head_cycle_def split: if_splits)
  have c: "cycle_covered c" "\<forall>x \<in> set cs. cycle_no x < cycle_no c" using assms cs by (auto simp: log_ok_def)
  with assms run cs runCycleMock_covered [OF c(1), of now] show ?thesis
    by (fastforce simp: log_ok_def cycle_done_def)
qed (simp add: cycle_done_def assms)

lemma dashboard_log_ok: "dashboard_reachable r now d \<Longrightarrow> log_ok d"
proof (induction rule: rtranclp_induct)
  case base
  show ?case using initial_cycles by (simp add: log_ok_def dashboard_start_def)
next
  case (step d d')
  from step.hyps(2) step.IH show ?case
    by (cases rule: dashboard_step.cases)
      (auto simp: press_run_def set_schedule_def connect_input_def press_connect_def cycle_done_ok connect_done_def
        finish_connect_def provider_connectSource_def Let_def split: option.splits, auto simp: log_ok_def runCycle_def head_cycle_def)
qed
lemma cycle_no_show: "cycle_covered c \<Longrightarrow> bigint_of (cy_proofId c) = Inr (cycle_no c)"
  using digits_val_bigint by (auto simp: cycle_covered_def cycle_no_def)

lemma log_numbers:
  "log_ok d \<Longrightarrow> c \<in> set (dd_cycles (db_data d)) \<Longrightarrow>
     \<exists>R L. bigint_of (cy_reservesTotal c) = Inr R \<and> bigint_of (cy_liabilitiesTotal c) = Inr L \<and> 0 < L \<and> L \<le> R"
  using digits_val_bigint by (fastforce simp: log_ok_def cycle_covered_def)

lemma flags_total:
  assumes "log_ok d"
  shows "\<exists>fs. panel_flags (dd_cycles (db_data d)) = Inr fs"
proof -
  have "\<forall>p \<in> set (toProofs (dd_cycles (db_data d))). totals_ok p"
    using log_numbers [OF assms] by (force simp: toProofs_def totals_ok_def reserves_of_def liabilities_of_def bigint_of_Inr)
  then show ?thesis unfolding panel_flags_def bindR_total using detect_total by blast
qed

text \<open>C27: The cycle log of the dashboard is consistent.  In every reachable state the log is not
  empty, proof numbers fall strictly from the newest entry on, every entry is stamped solvent
  and its reserves do cover its liabilities; at most one cycle is in flight, exactly while the
  button says so, and it extends the newest entry; and the anomaly watch over the log never
  fails while rendering.\<close>

theorem dashboard_log_sound:
  assumes "dashboard_reachable r now d"
  shows "(let log = dd_cycles (db_data d) in
    log \<noteq> [] \<and> sorted_wrt (\<lambda>a b. cycle_no b < cycle_no a) log
    \<and> (\<forall>c \<in> set log. cy_status c = Solvent \<and> bigint_of (cy_proofId c) = Inr (cycle_no c)
         \<and> (\<exists>R L. bigint_of (cy_reservesTotal c) = Inr R \<and> bigint_of (cy_liabilitiesTotal c) = Inr L \<and> L \<le> R))
    \<and> db_runs d = (if db_running d then [Some (hd log)] else [])
    \<and> (\<exists>fs. panel_flags log = Inr fs))"
proof -
  have ok: "log_ok d" by (rule dashboard_log_ok [OF assms])
  have "\<exists>R L. bigint_of (cy_reservesTotal c) = Inr R \<and> bigint_of (cy_liabilitiesTotal c) = Inr L \<and> L \<le> R"
    if "c \<in> set (dd_cycles (db_data d))" for c
    using log_numbers [OF ok that] by blast
  with ok flags_total [OF ok] show ?thesis
    by (auto simp: log_ok_def Let_def cycle_covered_def head_cycle_def cycle_no_show split: list.splits)
qed

lemma dashboard_log_sound_witness:
  "\<exists>d. dashboard_reachable Owner 0 d \<and> length (dd_cycles (db_data d)) = 5
     \<and> sorted_wrt (\<lambda>a b. cycle_no b < cycle_no a) (dd_cycles (db_data d))"
proof -
  let ?d = "cycle_done 0 1600 (press_run Owner (dashboard_start 0))"
  have reach: "dashboard_reachable Owner 0 ?d"
    by (rule rtranclp.rtrancl_into_rtrancl [where r = "dashboard_step Owner", OF r_into_rtranclp [where r = "dashboard_step Owner", OF Run] RunDone])
  moreover have "length (dd_cycles (db_data ?d)) = 5"
    by (simp add: cycle_done_def press_run_def can_def permissions_def dashboard_start_def runCycle_def initialDashboard_def Let_def)
  ultimately show ?thesis using dashboard_log_sound [OF reach] by (auto simp: Let_def)
qed

section \<open>Sources and permissions\<close>

definition dialog_ok :: "connect_dialog \<Rightarrow> bool" where
  "dialog_ok g \<longleftrightarrow> (\<not> dg_open g \<longrightarrow> g = dialog_close g) \<and> (dg_step g = Consent \<longrightarrow> dg_custodian g \<in> set CUSTODIANS)"

definition config_ok :: "connect_config \<Rightarrow> bool" where
  "config_ok c \<longleftrightarrow> (case cfg_type c of
      AttestedSource \<Rightarrow> cfg_label c \<in> set CUSTODIANS \<and> cfg_settings c = u ''read-only balance consent''
    | OnchainSource \<Rightarrow> cfg_label c \<noteq> [] \<and> cfg_settings c \<noteq> [])"

definition source_ok :: "dash_source \<Rightarrow> bool" where
  "source_ok s \<longleftrightarrow> (\<exists>c now. config_ok c \<and> s = connectSourceMock c now)"

lemma dialog_close_simps [simp]:
  "dg_open (dialog_close g) = False" "dg_step (dialog_close g) = Choose" "dialog_close (dialog_close g) = dialog_close g"
  by (simp_all add: dialog_close_def dialog_reset_def)

lemma dialog_close_ok [simp]: "dialog_ok (dialog_close g)"
  by (simp add: dialog_ok_def)

lemma dialog_dismiss: "onOpenChange False g = dialog_close g"
  by (simp add: onOpenChange_def dialog_close_def Let_def)

lemma dialog_input_ok: "dialog_ok g \<Longrightarrow> dialog_ok (dialog_input ev g)"
  by (cases ev) (auto simp: dialog_input_def dialog_dismiss split: dialog_step.splits, auto simp: dialog_ok_def)

lemma finish_config_ok: "dialog_ok g \<Longrightarrow> finish_config g = Some c \<Longrightarrow> config_ok c \<and> dg_open g"
  by (auto simp: finish_config_def dialog_ok_def config_ok_def split: if_splits dialog_step.splits)

definition sources_ok :: "nat \<Rightarrow> dashboard \<Rightarrow> bool" where
  "sources_ok now d \<longleftrightarrow> dialog_ok (db_dialog d) \<and> (\<forall>c \<in> set (db_connects d). config_ok c)
     \<and> (\<exists>new. dd_sources (db_data d) = dd_sources (initialDashboard now) @ new \<and> (\<forall>s \<in> set new. source_ok s))"

lemma connect_done_sources:
  assumes "sources_ok now d"
  shows "sources_ok now (connect_done i at_ms d)"
proof (cases "i < length (db_connects d)")
  case True
  then have "config_ok (db_connects d ! i)" using assms by (simp add: sources_ok_def)
  moreover have "set (take i (db_connects d) @ drop (Suc i) (db_connects d)) \<subseteq> set (db_connects d)"
    using set_take_subset set_drop_subset by fastforce
  ultimately show ?thesis
    using assms True by (fastforce simp: sources_ok_def connect_done_def source_ok_def)
qed (simp add: connect_done_def assms)

lemma finish_connect_sources: "sources_ok now d \<Longrightarrow> sources_ok now (finish_connect d)"
  using finish_config_ok [of "db_dialog d"]
  by (auto simp: finish_connect_def sources_ok_def provider_connectSource_def dialog_ok_def split: option.split)

lemma dashboard_sources_ok: "dashboard_reachable r now d \<Longrightarrow> sources_ok now d"
proof (induction rule: rtranclp_induct)
  case base
  show ?case by (simp add: sources_ok_def dashboard_start_def dialog_ok_def dialog_close_def dialog_reset_def)
next
  case (step d d')
  from step.hyps(2) step.IH show ?case
    by (cases rule: dashboard_step.cases)
      (auto simp: connect_done_sources press_connect_def finish_connect_sources connect_input_def,
       auto simp: sources_ok_def press_run_def runCycle_def cycle_done_def set_schedule_def dialog_input_ok)
qed

definition untouched :: "role \<Rightarrow> nat \<Rightarrow> dashboard \<Rightarrow> bool" where
  "untouched r now d \<longleftrightarrow> (\<not> can r CycleRun \<longrightarrow> dd_cycles (db_data d) = dd_cycles (initialDashboard now) \<and> db_runs d = [] \<and> db_schedule d = Manual)
     \<and> (\<not> can r SourceConnect \<longrightarrow> dd_sources (db_data d) = dd_sources (initialDashboard now) \<and> db_connects d = [] \<and> \<not> dg_open (db_dialog d))"

lemma dashboard_untouched: "dashboard_reachable r now d \<Longrightarrow> untouched r now d"
proof (induction rule: rtranclp_induct)
  case base
  show ?case by (simp add: untouched_def dashboard_start_def)
next
  case (step d d')
  from step.hyps(2) step.IH show ?case
    by (cases rule: dashboard_step.cases)
      (auto simp: untouched_def press_run_def runCycle_def cycle_done_def set_schedule_def connect_input_def press_connect_def
        finish_connect_def provider_connectSource_def connect_done_def split: option.splits)
qed

text \<open>The dashboard only grows as its controls allow.  Every source beyond the two it opens with
  came from a connection with a custodian of the list, whose consent screen named it, or with
  a wallet that has a name and an address; a closed connect dialog keeps nothing typed or
  picked; a role that may not connect never changes the sources, and one that may not run a
  cycle never changes the log or the schedule.\<close>

theorem dashboard_gated:
  assumes "dashboard_reachable r now d"
  shows "(\<exists>new. dd_sources (db_data d) = dd_sources (initialDashboard now) @ new
        \<and> (\<forall>s \<in> set new. (src_type s = AttestedSource \<longrightarrow> src_label s \<in> set CUSTODIANS) \<and> src_label s \<noteq> []))
    \<and> (dg_step (db_dialog d) = Consent \<longrightarrow> dg_custodian (db_dialog d) \<in> set CUSTODIANS)
    \<and> (\<not> dg_open (db_dialog d) \<longrightarrow> db_dialog d = dialog_close (db_dialog d))
    \<and> (\<not> can r SourceConnect \<longrightarrow> dd_sources (db_data d) = dd_sources (initialDashboard now))
    \<and> (\<not> can r CycleRun \<longrightarrow> dd_cycles (db_data d) = dd_cycles (initialDashboard now) \<and> db_schedule d = Manual)"
proof -
  have named: "x \<noteq> []" if "x \<in> set CUSTODIANS" for x
    using that by (auto simp: CUSTODIANS_def)
  have "(src_type s = AttestedSource \<longrightarrow> src_label s \<in> set CUSTODIANS) \<and> src_label s \<noteq> []" if "source_ok s" for s
  proof -
    from that obtain c now' where c: "config_ok c" "s = connectSourceMock c now'" by (auto simp: source_ok_def)
    then show ?thesis using named by (cases "cfg_type c") (auto simp: config_ok_def connectSourceMock_def Let_def)
  qed
  with dashboard_sources_ok [OF assms] dashboard_untouched [OF assms] show ?thesis
    by (auto simp: sources_ok_def dialog_ok_def untouched_def)
qed

lemma dashboard_gated_witness:
  "\<not> can Viewer CycleRun \<and> dd_cycles (db_data (press_run Viewer (dashboard_start 0))) = dd_cycles (initialDashboard 0)"
proof -
  have "dashboard_reachable Viewer 0 (press_run Viewer (dashboard_start 0))"
    by (rule r_into_rtranclp [where r = "dashboard_step Viewer", OF Run])
  then show ?thesis using dashboard_gated by (auto simp: can_def permissions_def)
qed

end
