(* ===== verification/Key_Cards.thy ===== *)
theory Key_Cards
  imports Session Console_Api Amounts
begin

text \<open>
  The two setup cards of the settings page: the publishing key (components/dashboard/
  publishing-key-card.tsx), which runs the add-signer ceremony of Passkey_Wallet and narrates its
  phases, and the provisioning card (provisioning-card.tsx), which drives the provisioning route
  of Console_Api; and the tabs of the settings section that guard them.
\<close>

section \<open>settings-section.tsx\<close>

definition TABS :: "(string \<times> string \<times> console_action option) list" where
  "TABS =
     [(''institution'', ''Institution'', None), (''team'', ''Team & roles'', Some TeamManage),
      (''disclosures'', ''Disclosures'', Some DisclosureManage), (''registry'', ''Registry'', Some KeysManage),
      (''publishing'', ''Publishing'', Some KeysManage), (''keys'', ''Developer keys'', Some KeysManage)]"

definition visible_tabs :: "role \<Rightarrow> string list" where
  "visible_tabs r = List.map fst (filter (\<lambda>(i, label, req). case req of None \<Rightarrow> True | Some a \<Rightarrow> can r a) TABS)"

section \<open>publishing-key-card.tsx\<close>

datatype key_step = StepSession | StepSimulate | StepSign | StepSubmit

datatype key_status = StepPending | StepActive | StepDone | StepError

definition KEY_STEPS :: "(key_step \<times> jstr) list" where
  "KEY_STEPS = [(StepSession, u ''Prepare the deployer account''), (StepSimulate, u ''Build the add-signer request''),
     (StepSign, u ''Approve with your passkey''), (StepSubmit, u ''Add the signer on-chain'')]"

definition initialStatuses :: "key_step \<Rightarrow> key_status" where
  "initialStatuses i = StepPending"

definition looksLikeAddress :: "jstr \<Rightarrow> string \<Rightarrow> bool" where
  "looksLikeAddress v p \<longleftrightarrow> take (length p) v = u p \<and> length v = 56"

datatype notice_kind = NoticeError | NoticeInfo

record key_card =
  kc_orchestrator :: jstr
  kc_registry :: jstr
  kc_statuses :: "key_step \<Rightarrow> key_status"
  kc_running :: bool
  kc_notice :: "(notice_kind \<times> jstr) option"
  kc_txHash :: "jstr option"

definition key_card_start :: key_card where
  "key_card_start = \<lparr>kc_orchestrator = [], kc_registry = [], kc_statuses = initialStatuses, kc_running = False,
     kc_notice = None, kc_txHash = None\<rparr>"

definition canRun :: "key_card \<Rightarrow> bool" where
  "canRun c \<longleftrightarrow> looksLikeAddress (trim (kc_orchestrator c)) ''G'' \<and> looksLikeAddress (trim (kc_registry c)) ''C'' \<and> \<not> kc_running c"

text \<open>The phases an add-signer run announced between two logs.\<close>

definition phases :: "wallet_log \<Rightarrow> jstr list" where
  "phases l = List.map_filter (\<lambda>e. case e of Call (Phase p) \<Rightarrow> Some p | _ \<Rightarrow> None) l"

definition step_of_phase :: "jstr \<Rightarrow> key_step" where
  "step_of_phase p = (if p = u ''simulate'' then StepSimulate else if p = u ''sign'' then StepSign else StepSubmit)"

definition on_phase :: "jstr \<Rightarrow> key_step \<times> (key_step \<Rightarrow> key_status) \<Rightarrow> key_step \<times> (key_step \<Rightarrow> key_status)" where
  "on_phase p = (\<lambda>(current, st). (step_of_phase p, st(current := StepDone, step_of_phase p := StepActive)))"

definition key_card_failed :: "exn \<Rightarrow> key_step \<Rightarrow> key_card \<Rightarrow> key_card" where
  "key_card_failed e current c =
     (let d = describeWalletError (exn_msg e) in
      if we_alreadyExists d
      then c\<lparr>kc_statuses := (kc_statuses c)(current := StepDone), kc_notice := Some (NoticeInfo, we_message d), kc_running := False\<rparr>
      else c\<lparr>kc_statuses := (kc_statuses c)(current := StepError), kc_notice := Some (NoticeError, we_message d), kc_running := False\<rparr>)"

definition key_card_run :: "stellar_sdk \<Rightarrow> jstr \<Rightarrow> key_card \<Rightarrow> page \<Rightarrow> key_card \<times> page" where
  "key_card_run k walletAddress c p =
     (let c0 = c\<lparr>kc_notice := None, kc_txHash := None, kc_statuses := initialStatuses(StepSession := StepActive), kc_running := True\<rparr> in
      case getSession k p of
        (Inl e, p1) \<Rightarrow> (key_card_failed e StepSession c0, p1)
      | (Inr deployer, p1) \<Rightarrow>
          (case addOrchestratorSigner k deployer walletAddress (trim (kc_orchestrator c)) (trim (kc_registry c)) p1 of
             (r, p2) \<Rightarrow>
               let announced = drop (length (phases (w_log p1))) (phases (w_log p2));
                   (current, st) = fold on_phase announced (StepSession, (kc_statuses c0)(StepSession := StepDone));
                   c1 = c0\<lparr>kc_statuses := st\<rparr>
               in (case r of
                     Inr h \<Rightarrow> (c1\<lparr>kc_statuses := st(current := StepDone), kc_txHash := Some h, kc_running := False\<rparr>, p2)
                   | Inl e \<Rightarrow> (key_card_failed e current c1, p2))))"

definition press_add :: "stellar_sdk \<Rightarrow> jstr \<Rightarrow> key_card \<Rightarrow> page \<Rightarrow> key_card \<times> page" where
  "press_add k walletAddress c p = (if canRun c then key_card_run k walletAddress c p else (c, p))"

section \<open>provisioning-card.tsx\<close>

record prov_card =
  pc_tenantId :: "json option"
  pc_deployCommand :: "json option"
  pc_registryId :: jstr
  pc_busy :: bool
  pc_error :: "jstr option"
  pc_done :: bool

definition prov_card_start :: prov_card where
  "prov_card_start = \<lparr>pc_tenantId = None, pc_deployCommand = None, pc_registryId = [], pc_busy = False, pc_error = None, pc_done = False\<rparr>"

definition regValid :: "prov_card \<Rightarrow> bool" where
  "regValid c \<longleftrightarrow> take 1 (trim (pc_registryId c)) = u ''C'' \<and> length (trim (pc_registryId c)) = 56"

definition provision_call :: "string \<Rightarrow> json \<Rightarrow> http_request" where
  "provision_call verb body =
     \<lparr>rq_method = u verb, rq_url = u ''/api/provision'', rq_headers = [(u ''content-type'', u ''application/json'')], rq_body = Some body\<rparr>"

definition nullish_opt :: "json \<Rightarrow> json option" where
  "nullish_opt v = (if v = JUndef \<or> v = JNull then None else Some v)"

text \<open>\<open>api\<close> is the page's \<open>fetch\<close>.  The body is read before the status is looked at.\<close>

definition provision_answer :: "(http_request \<Rightarrow> ('s, response) comp) \<Rightarrow> http_request \<Rightarrow> ('s, json) comp" where
  "provision_answer api rq =
     bindM (api rq) (\<lambda>res.
     bindM (liftR (rs_json res)) (\<lambda>d.
     if res_ok res then retM d
     else bindM (liftR (jprop d ''error'')) (\<lambda>err.
       throwM (js_error ''Error'' (case nullish_opt err of Some m \<Rightarrow> json_to_string m | None \<Rightarrow> u ''HTTP '' @ show_int (rs_status res))))))"

definition prov_create :: "(http_request \<Rightarrow> ('s, response) comp) \<Rightarrow> jstr \<Rightarrow> jstr \<Rightarrow> prov_card \<Rightarrow> 's \<Rightarrow> prov_card \<times> 's" where
  "prov_create api institution wallet c s =
     (case bindM (provision_answer api (provision_call ''POST''
              (JObj [(u ''name'', JStr institution), (u ''plan'', JStr (u ''growth'')), (u ''wallet'', JStr wallet)]))) (\<lambda>d.
            bindM (liftR (jprop d ''tenantId'')) (\<lambda>t. bindM (liftR (jprop d ''deployCommand'')) (\<lambda>cmd. retM (t, cmd)))) s of
        (Inr (t, cmd), s') \<Rightarrow> (c\<lparr>pc_error := None, pc_busy := False, pc_tenantId := nullish_opt t, pc_deployCommand := nullish_opt cmd\<rparr>, s')
      | (Inl e, s') \<Rightarrow> (c\<lparr>pc_error := Some (exn_msg e), pc_busy := False\<rparr>, s'))"

definition prov_record :: "(http_request \<Rightarrow> ('s, response) comp) \<Rightarrow> prov_card \<Rightarrow> 's \<Rightarrow> prov_card \<times> 's" where
  "prov_record api c s =
     (case provision_answer api (provision_call ''PUT''
              (JObj [(u ''tenantId'', case pc_tenantId c of Some t \<Rightarrow> t | None \<Rightarrow> JNull),
                     (u ''contractId'', JStr (trim (pc_registryId c))), (u ''network'', JStr (u ''testnet''))])) s of
        (Inr d, s') \<Rightarrow> (c\<lparr>pc_error := None, pc_busy := False, pc_done := True\<rparr>, s')
      | (Inl e, s') \<Rightarrow> (c\<lparr>pc_error := Some (exn_msg e), pc_busy := False\<rparr>, s'))"

text \<open>The buttons as the card shows them.\<close>

definition press_create :: "(http_request \<Rightarrow> ('s, response) comp) \<Rightarrow> jstr \<Rightarrow> jstr \<Rightarrow> prov_card \<Rightarrow> 's \<Rightarrow> prov_card \<times> 's" where
  "press_create api institution wallet c s =
     (if (case pc_tenantId c of None \<Rightarrow> True | Some t \<Rightarrow> \<not> jtruthy t) \<and> \<not> pc_busy c
      then prov_create api institution wallet c s else (c, s))"

definition press_record :: "(http_request \<Rightarrow> ('s, response) comp) \<Rightarrow> prov_card \<Rightarrow> 's \<Rightarrow> prov_card \<times> 's" where
  "press_record api c s =
     (if (case pc_deployCommand c of None \<Rightarrow> False | Some v \<Rightarrow> jtruthy v) \<and> \<not> pc_done c \<and> \<not> pc_busy c \<and> regValid c
      then prov_record api c s else (c, s))"

definition institution_name :: "institution \<Rightarrow> jstr" where
  "institution_name i =
     (let n = jlookup i (u ''legalName'') in if jtruthy n then json_to_string n else u ''My Institution'')"

text \<open>The card's requests answered by the route of this console.\<close>

definition provision_api :: "sdk_net \<Rightarrow> console_env \<Rightarrow> http_request \<Rightarrow> (api_state, response) comp" where
  "provision_api net env rq =
     (let body = (case rq_body rq of Some b \<Rightarrow> Inr b | None \<Rightarrow> Inl (js_error ''SyntaxError'' [])) in
      bindM (if rq_method rq = u ''POST'' then provision_POST net env body else provision_PUT net env body) (\<lambda>a.
      retM \<lparr>rs_status = ap_status a, rs_text = Inr [], rs_json = Inr (ap_body a)\<rparr>))"

section \<open>The phases of an add-signer run\<close>

lemma phases_append [simp]: "phases (l @ l') = phases l @ phases l'"
  by (simp add: phases_def map_filter_def)

lemma phases_simps [simp]:
  "phases [] = []" "phases (Http rq # l) = phases l" "phases (Call (Phase p) # l) = p # phases l"
  by (simp_all add: phases_def map_filter_def)

definition announces :: "wallet_call \<Rightarrow> bool" where
  "announces c \<longleftrightarrow> (case c of Phase p \<Rightarrow> True | _ \<Rightarrow> False)"

lemma phases_quiet [simp]: "\<not> announces c \<Longrightarrow> phases (Call c # l) = phases l"
  by (auto simp: phases_def map_filter_def announces_def split: wallet_call.splits)

lemma announces_simps [simp]:
  "\<not> announces (GetAccount a)" "\<not> announces (Simulate t)" "\<not> announces GetLatestLedger" "\<not> announces (SignPayload b)"
  "\<not> announces (Prepare t)" "\<not> announces (Send t)" "\<not> announces (GetTransaction h)" "\<not> announces (Sleep n)"
  by (simp_all add: announces_def)

definition signer_phases :: "jstr list" where
  "signer_phases = [u ''simulate'', u ''sign'', u ''submit'']"

definition at_phase :: "jstr list \<Rightarrow> nat \<Rightarrow> page \<Rightarrow> bool" where
  "at_phase base n s \<longleftrightarrow> phases (w_log s) = base @ take n signer_phases"

definition some_phase :: "jstr list \<Rightarrow> page \<Rightarrow> bool" where
  "some_phase base s \<longleftrightarrow> (\<exists>n \<le> 3. at_phase base n s)"

lemma at_some: "at_phase base n s \<Longrightarrow> n \<le> 3 \<Longrightarrow> some_phase base s"
  by (auto simp: some_phase_def)

lemma triple_lift_at: "n \<le> 3 \<Longrightarrow> triple (at_phase base n) (liftR r) (\<lambda>_. at_phase base n) (\<lambda>_. some_phase base)"
  by (rule triple_lift) (simp_all add: at_some)

lemma triple_ask_at:
  "n \<le> 3 \<Longrightarrow> \<not> announces c \<Longrightarrow> triple (at_phase base n) (ask f c) (\<lambda>_. at_phase base n) (\<lambda>_. some_phase base)"
  by (auto simp: triple_def ask_eval at_some at_phase_def some_phase_def split: sum.splits)

lemma triple_buildTx_at: "n \<le> 3 \<Longrightarrow> triple (at_phase base n) (buildTx k se op) (\<lambda>_. at_phase base n) (\<lambda>_. some_phase base)"
  unfolding buildTx_def by (rule triple_bind [OF triple_ask_at]) (simp_all add: triple_ret)

lemma triple_phase_at:
  "n < 3 \<Longrightarrow> signer_phases ! n = u p \<Longrightarrow> triple (at_phase base n) (phase p) (\<lambda>_. at_phase base (Suc n)) (\<lambda>_. some_phase base)"
proof -
  assume n: "n < 3" "signer_phases ! n = u p"
  then have "take (Suc n) signer_phases = take n signer_phases @ [u p]"
    using take_Suc_conv_app_nth [of n signer_phases] by (simp add: signer_phases_def [THEN arg_cong [of _ _ length]])
  then show ?thesis by (auto simp: triple_def phase_eval at_phase_def)
qed

lemma keeps_at_settle: "keeps (at_phase base n) (await_settled k h m)"
  by (induction m) (auto intro!: keeps_rules simp: at_phase_def)

lemma triple_submit_at: "triple (at_phase base 3) (prepareSignSubmit k se tx) (\<lambda>_. at_phase base 3) (\<lambda>_. some_phase base)"
proof -
  have "keeps (at_phase base 3) (prepareSignSubmit k se tx)"
    unfolding prepareSignSubmit_def by (auto intro!: keeps_rules keeps_at_settle simp: Let_def at_phase_def)
  then show ?thesis
    by (rule triple_weaken [OF triple_keeps]) (simp_all add: at_some)
qed

lemma addOrchestratorSigner_phases:
  "triple (at_phase base 0) (addOrchestratorSigner k se w orch reg) (\<lambda>_. at_phase base 3) (\<lambda>_. some_phase base)"
proof -
  note b0 = triple_bind [where R = "\<lambda>_. at_phase base 0"] and b1 = triple_bind [where R = "\<lambda>_. at_phase base 1"]
    and b2 = triple_bind [where R = "\<lambda>_. at_phase base 2"] and b3 = triple_bind [where R = "\<lambda>_. at_phase base 3"]
  have fail: "triple (at_phase base 1) (throwM e) (\<lambda>_. at_phase base 3) (\<lambda>_. some_phase base)" for e
    by (rule triple_throw) (simp add: at_some)
  have p: "triple (at_phase base 0) (phase ''simulate'') (\<lambda>_. at_phase base 1) (\<lambda>_. some_phase base)"
    "triple (at_phase base 1) (phase ''sign'') (\<lambda>_. at_phase base 2) (\<lambda>_. some_phase base)"
    "triple (at_phase base 2) (phase ''submit'') (\<lambda>_. at_phase base 3) (\<lambda>_. some_phase base)"
    using triple_phase_at [of 0 "''simulate''" base] triple_phase_at [of 1 "''sign''" base] triple_phase_at [of 2 "''submit''" base]
    by (simp_all add: signer_phases_def numeral_nat)
  show ?thesis
    unfolding addOrchestratorSigner_def Let_def
    apply (rule b0, rule triple_lift_at, simp)+
    apply (rule b0, rule triple_buildTx_at, simp)
    apply (rule b1, rule p)
    apply (rule b1, rule triple_ask_at, simp, simp)
    apply (split simulation.split, intro conjI allI impI, rule fail)
    apply (split option.split, intro conjI allI impI, rule fail)
    apply (split list.split, intro conjI allI impI, rule fail)
    apply (rule b1, rule triple_ask_at, simp, simp)
    apply (rule b1, rule triple_lift_at, simp)+
    apply (rule b2, rule p)
    apply (rule b2, rule triple_ask_at, simp, simp)
    apply (rule b2, rule triple_lift_at, simp)
    apply (rule b2, rule triple_buildTx_at, simp)
    apply (rule b3, rule p)
    apply (rule triple_submit_at)
    done
qed
section \<open>The publishing card\<close>

definition narrated :: "nat \<Rightarrow> key_status \<Rightarrow> key_step \<Rightarrow> key_status" where
  "narrated n st = (\<lambda>i. let j = (case i of StepSession \<Rightarrow> 0 | StepSimulate \<Rightarrow> 1 | StepSign \<Rightarrow> 2 | StepSubmit \<Rightarrow> 3) in
     if j < n then StepDone else if j = n then st else StepPending)"

lemma le3_cases: "(n::nat) \<le> 3 \<Longrightarrow> n = 0 \<or> n = 1 \<or> n = 2 \<or> n = 3"
  by auto

text \<open>The handler is first told \<open>simulate\<close> with the session step current and done.\<close>

lemma fold_on_phase:
  assumes "n \<le> 3"
  shows "let (current, st) = fold on_phase (take n signer_phases) (StepSession, initialStatuses(StepSession := StepDone))
    in st(current := x) = narrated n x"
proof -
  have phase_eqs: "step_of_phase (u ''simulate'') = StepSimulate" "step_of_phase (u ''sign'') = StepSign"
    "step_of_phase (u ''submit'') = StepSubmit"
    by (simp_all add: step_of_phase_def)
  show ?thesis
    using le3_cases [OF assms]
    by (elim disjE; simp add: signer_phases_def on_phase_def phase_eqs fun_eq_iff Let_def)
      (auto simp: narrated_def initialStatuses_def Let_def split: key_step.splits)
qed

lemma addSigner_announced:
  assumes "addOrchestratorSigner k se w orch reg p1 = (r, p2)"
  shows "\<exists>n \<le> 3. phases (w_log p2) = phases (w_log p1) @ take n signer_phases \<and> (\<not> isl r \<longrightarrow> n = 3)"
proof -
  have start: "at_phase (phases (w_log p1)) 0 p1" by (simp add: at_phase_def)
  note T = addOrchestratorSigner_phases [of "phases (w_log p1)" k se w orch reg]
  show ?thesis
  proof (cases r)
    case (Inl e)
    with triple_Inl [OF T start] assms have "some_phase (phases (w_log p1)) p2" by blast
    with Inl show ?thesis by (auto simp: some_phase_def at_phase_def)
  next
    case (Inr h)
    with triple_Inr [OF T start] assms have "at_phase (phases (w_log p1)) 3 p2" by blast
    with Inr show ?thesis by (auto simp: at_phase_def intro: exI [of _ 3])
  qed
qed

lemma addSigner_settled: "addOrchestratorSigner k se w orch reg s = (Inr h, s') \<Longrightarrow> settled k h (w_log s')"
  using addOrchestratorSigner_cases [of k se w orch reg s "Inr h" s'] prepareSignSubmit_settled by fastforce

text \<open>How a run of the card failed, with the number of phases announced before: opening the deployer
  session threw, or it was opened and adding the signer threw after announcing that many phases.\<close>

definition run_failed :: "stellar_sdk \<Rightarrow> jstr \<Rightarrow> key_card \<Rightarrow> page \<Rightarrow> page \<Rightarrow> nat \<Rightarrow> exn \<Rightarrow> bool" where
  "run_failed k wallet c p p' n e \<longleftrightarrow>
     n = 0 \<and> getSession k p = (Inl e, p')
     \<or> n \<le> 3 \<and> (\<exists>deployer p1. getSession k p = (Inr deployer, p1)
          \<and> addOrchestratorSigner k deployer wallet (trim (kc_orchestrator c)) (trim (kc_registry c)) p1 = (Inl e, p')
          \<and> phases (w_log p') = phases (w_log p1) @ take n signer_phases)"

definition run_succeeded :: "stellar_sdk \<Rightarrow> jstr \<Rightarrow> key_card \<Rightarrow> page \<Rightarrow> page \<Rightarrow> jstr \<Rightarrow> bool" where
  "run_succeeded k wallet c p p' h \<longleftrightarrow>
     (\<exists>deployer p1. getSession k p = (Inr deployer, p1)
        \<and> addOrchestratorSigner k deployer wallet (trim (kc_orchestrator c)) (trim (kc_registry c)) p1 = (Inr h, p')
        \<and> phases (w_log p') = phases (w_log p1) @ signer_phases)"

lemma run_outcome:
  "(\<exists>h. run_succeeded k wallet c p p' h) \<or> (\<exists>n e. run_failed k wallet c p p' n e)"
  if "key_card_run k wallet c p = (c', p')"
proof -
  obtain g p1 where g: "getSession k p = (g, p1)" by fastforce
  show ?thesis
  proof (cases g)
    case (Inl e)
    with that g show ?thesis by (auto simp: key_card_run_def Let_def run_failed_def)
  next
    case (Inr deployer)
    obtain r p2 where add: "addOrchestratorSigner k deployer wallet (trim (kc_orchestrator c)) (trim (kc_registry c)) p1 = (r, p2)"
      by fastforce
    with that g Inr have "p' = p2" by (auto simp: key_card_run_def Let_def split: sum.splits prod.splits)
    with add g Inr addSigner_announced [OF add] show ?thesis
      by (cases r) (auto simp: run_failed_def run_succeeded_def signer_phases_def)
  qed
qed

lemma run_narrates:
  assumes "n \<le> 3"
  obtains current st where "fold on_phase (take n signer_phases) (StepSession, initialStatuses(StepSession := StepDone)) = (current, st)"
    "\<And>x. st(current := x) = narrated n x"
  using fold_on_phase [OF assms] that
  by (cases "fold on_phase (take n signer_phases) (StepSession, initialStatuses(StepSession := StepDone))") simp

lemma run_succeeded_card:
  assumes "run_succeeded k wallet c p p' h"
  shows "\<exists>c'. key_card_run k wallet c p = (c', p') \<and> kc_txHash c' = Some h \<and> kc_statuses c' = narrated 3 StepDone
    \<and> kc_notice c' = None \<and> settled k h (w_log p')"
proof -
  from assms obtain deployer p1 where run: "getSession k p = (Inr deployer, p1)"
    "addOrchestratorSigner k deployer wallet (trim (kc_orchestrator c)) (trim (kc_registry c)) p1 = (Inr h, p')"
    "phases (w_log p') = phases (w_log p1) @ take 3 signer_phases"
    by (auto simp: run_succeeded_def signer_phases_def)
  obtain current st where "fold on_phase (take 3 signer_phases) (StepSession, initialStatuses(StepSession := StepDone)) = (current, st)"
    "\<And>x. st(current := x) = narrated 3 x" using run_narrates [of 3] by blast
  with run addSigner_settled [OF run(2)] show ?thesis by (simp add: key_card_run_def Let_def)
qed

lemma run_failed_card:
  assumes "run_failed k wallet c p p' n e"
  shows "\<exists>current st. (\<forall>x. st(current := x) = narrated n x)
    \<and> key_card_run k wallet c p = (key_card_failed e current
        (c\<lparr>kc_notice := None, kc_txHash := None, kc_running := True, kc_statuses := st\<rparr>), p')"
proof (cases "getSession k p = (Inl e, p') \<and> n = 0")
  case True
  have "(initialStatuses(StepSession := y))(StepSession := x) = narrated 0 x" for x y
    by (auto simp: narrated_def initialStatuses_def fun_eq_iff Let_def split: key_step.splits)
  moreover have "c\<lparr>kc_notice := None, kc_txHash := None, kc_statuses := st, kc_running := True\<rparr>
      = c\<lparr>kc_notice := None, kc_txHash := None, kc_running := True, kc_statuses := st\<rparr>" for st by simp
  ultimately show ?thesis
    using True
    by (intro exI [of _ StepSession] exI [of _ "initialStatuses(StepSession := StepActive)"])
      (simp only: key_card_run_def Let_def, simp)
next
  case False
  with assms obtain deployer p1 where n: "n \<le> 3" and run: "getSession k p = (Inr deployer, p1)"
    "addOrchestratorSigner k deployer wallet (trim (kc_orchestrator c)) (trim (kc_registry c)) p1 = (Inl e, p')"
    "phases (w_log p') = phases (w_log p1) @ take n signer_phases"
    by (auto simp: run_failed_def)
  obtain current st where "fold on_phase (take n signer_phases) (StepSession, initialStatuses(StepSession := StepDone)) = (current, st)"
    "\<And>x. st(current := x) = narrated n x" using run_narrates [OF n] by blast
  with run show ?thesis by (intro exI [of _ current] exI [of _ st]) (simp add: key_card_run_def Let_def)
qed

text \<open>C28: The publishing card tells the truth about a run.  Pressing the button does nothing unless
  both addresses look right and no run is on.  Otherwise the run ends with the button free, and
  it either succeeded or failed.  When it succeeded, all four steps are done, no notice is shown, and
  the hash shown is the one the run returned and was seen settled on-chain.  When it failed, no hash
  is shown, the steps before the last phase the run announced are done and those after it
  pending, and the notice is the description of the very exception the run threw: an error on
  that step, or, exactly when the wallet says the signer is already there, an information on a
  step marked done.\<close>

theorem publishing_card_honest:
  assumes "press_add k wallet c p = (c', p')"
  shows "if \<not> canRun c then c' = c \<and> p' = p
    else \<not> kc_running c' \<and> kc_orchestrator c' = kc_orchestrator c \<and> kc_registry c' = kc_registry c
      \<and> ((\<exists>h. run_succeeded k wallet c p p' h) \<or> (\<exists>n e. run_failed k wallet c p p' n e))
      \<and> (\<forall>h. run_succeeded k wallet c p p' h \<longrightarrow>
           kc_txHash c' = Some h \<and> kc_statuses c' = narrated 3 StepDone \<and> kc_notice c' = None \<and> settled k h (w_log p'))
      \<and> (\<forall>n e. run_failed k wallet c p p' n e \<longrightarrow>
           (let d = describeWalletError (exn_msg e) in
            kc_txHash c' = None
            \<and> kc_statuses c' = narrated n (if we_alreadyExists d then StepDone else StepError)
            \<and> kc_notice c' = Some (if we_alreadyExists d then NoticeInfo else NoticeError, we_message d)))"
proof (cases "canRun c")
  case True
  then have run: "key_card_run k wallet c p = (c', p')" using assms by (simp add: press_add_def)
  have ends: "\<not> kc_running c' \<and> kc_orchestrator c' = kc_orchestrator c \<and> kc_registry c' = kc_registry c"
    using run by (auto simp: key_card_run_def Let_def key_card_failed_def split: prod.splits sum.splits if_splits)
  have won: "kc_txHash c' = Some h \<and> kc_statuses c' = narrated 3 StepDone \<and> kc_notice c' = None \<and> settled k h (w_log p')"
    if "run_succeeded k wallet c p p' h" for h
    using run_succeeded_card [OF that] run by simp
  have lost: "let d = describeWalletError (exn_msg e) in
       kc_txHash c' = None
       \<and> kc_statuses c' = narrated n (if we_alreadyExists d then StepDone else StepError)
       \<and> kc_notice c' = Some (if we_alreadyExists d then NoticeInfo else NoticeError, we_message d)"
    if f: "run_failed k wallet c p p' n e" for n e
  proof -
    obtain current st where "\<And>x. st(current := x) = narrated n x" "key_card_run k wallet c p = (key_card_failed e current
        (c\<lparr>kc_notice := None, kc_txHash := None, kc_running := True, kc_statuses := st\<rparr>), p')"
      using run_failed_card [OF f] by blast
    with run show ?thesis
      by (cases "we_alreadyExists (describeWalletError (exn_msg e))") (auto simp: key_card_failed_def Let_def)
  qed
  show ?thesis using True run_outcome [OF run] ends won lost by simp
qed (use assms in \<open>simp add: press_add_def\<close>)

definition ready_card :: key_card where
  "ready_card = key_card_start\<lparr>kc_orchestrator := 71 # replicate 55 65, kc_registry := 67 # replicate 55 65\<rparr>"

lemma ready_card_runs: "canRun ready_card"
proof -
  have "trim (c # replicate 55 65) = c # replicate 55 65" if "c \<in> {71, 67}" for c
    using that by (intro trim_no_ws) (auto simp: is_ws_def)
  then show ?thesis by (simp add: canRun_def ready_card_def key_card_start_def looksLikeAddress_def u_def)
qed

lemma publishing_card_honest_witness:
  "\<exists>e c' p'. getSession offline_sdk fresh_page = (Inl e, p') \<and> press_add offline_sdk (u ''CABC'') ready_card fresh_page = (c', p')
     \<and> (let d = describeWalletError (exn_msg e) in
          kc_statuses c' = narrated 0 (if we_alreadyExists d then StepDone else StepError)
          \<and> kc_notice c' = Some (if we_alreadyExists d then NoticeInfo else NoticeError, we_message d))"
proof -
  obtain c' p' where run: "press_add offline_sdk (u ''CABC'') ready_card fresh_page = (c', p')" by fastforce
  have "\<exists>e. fst (getSession offline_sdk fresh_page) = Inl e"
    by (simp add: getSession_def createSession_def restore_def bindM_def catchM_def comp_simps offline_sdk_def fresh_page_def
        eval_nat_numeral Let_def)
  then obtain e p1 where e: "getSession offline_sdk fresh_page = (Inl e, p1)" by (metis prod.collapse)
  with run ready_card_runs have "p1 = p'" by (simp add: press_add_def key_card_run_def Let_def)
  with e have "run_failed offline_sdk (u ''CABC'') ready_card fresh_page p' 0 e" by (simp add: run_failed_def)
  with publishing_card_honest [OF run] ready_card_runs have
    "let d = describeWalletError (exn_msg e) in
       kc_statuses c' = narrated 0 (if we_alreadyExists d then StepDone else StepError)
       \<and> kc_notice c' = Some (if we_alreadyExists d then NoticeInfo else NoticeError, we_message d)"
    by (simp add: Let_def)
  with e run \<open>p1 = p'\<close> show ?thesis by blast
qed

section \<open>Provisioning through the route\<close>

lemma catchM_Inr:
  "catchM m h s = (Inr y, s') \<longleftrightarrow> m s = (Inr y, s') \<or> (\<exists>e s1. m s = (Inl e, s1) \<and> h e s1 = (Inr y, s'))"
  by (auto simp: catchM_def split: prod.splits sum.splits)

text \<open>A request of the control plane that was accepted.\<close>

definition accepted :: "sdk_net \<Rightarrow> chain_read event list \<Rightarrow> http_request \<Rightarrow> bool" where
  "accepted net l rq \<longleftrightarrow> (\<exists>res. net l rq = Inr res \<and> res_ok res)"

definition tenant_request :: "console_env \<Rightarrow> json \<Rightarrow> json \<Rightarrow> http_request" where
  "tenant_request env name plan = control_request env ''POST'' (u ''/v1/tenants'') (jfields [(''name'', name), (''plan'', plan)])"

definition wallet_request :: "console_env \<Rightarrow> jstr \<Rightarrow> json \<Rightarrow> http_request" where
  "wallet_request env seg wallet =
     control_request env ''PUT'' (u ''/v1/tenants/'' @ seg @ u ''/wallet'') (jfields [(''wallet_address'', wallet)])"

definition contract_request :: "console_env \<Rightarrow> jstr \<Rightarrow> json \<Rightarrow> json \<Rightarrow> http_request" where
  "contract_request env seg contract net_name =
     control_request env ''PUT'' (u ''/v1/tenants/'' @ seg @ u ''/contract'') (jfields [(''contract_id'', contract), (''network'', net_name)])"

lemma createTenant_Inr:
  "createTenant net env name plan s = (Inr v, s') \<longleftrightarrow>
     (\<exists>res. net (w_log s) (tenant_request env name plan) = Inr res \<and> res_ok res \<and> rs_json res = Inr v
        \<and> s' = s\<lparr>w_log := w_log s @ [Http (tenant_request env name plan)]\<rparr>)"
  by (auto simp: createTenant_def bindM_Inr comp_simps tenant_request_def split: if_splits)

lemma setTenantWallet_Inr:
  "setTenantWallet net env t wallet s = (Inr x, s') \<longleftrightarrow>
     (\<exists>seg. encodeURIComponent (json_to_string t) = Inr seg \<and> accepted net (w_log s) (wallet_request env seg wallet)
        \<and> s' = s\<lparr>w_log := w_log s @ [Http (wallet_request env seg wallet)]\<rparr>)"
  by (auto simp: setTenantWallet_def bindM_Inr comp_simps wallet_request_def accepted_def split: if_splits)

lemma setTenantContract_Inr:
  "setTenantContract net env t contract n s = (Inr x, s') \<longleftrightarrow>
     (\<exists>seg. encodeURIComponent (json_to_string t) = Inr seg \<and> accepted net (w_log s) (contract_request env seg contract n)
        \<and> s' = s\<lparr>w_log := w_log s @ [Http (contract_request env seg contract n)]\<rparr>)"
  by (auto simp: setTenantContract_def bindM_Inr comp_simps contract_request_def accepted_def split: if_splits)

definition good_status :: "api_reply \<Rightarrow> bool" where
  "good_status a \<longleftrightarrow> 200 \<le> ap_status a \<and> ap_status a \<le> 299"

lemma good_status_simps [simp]: "good_status (error_reply n m) \<longleftrightarrow> 200 \<le> n \<and> n \<le> 299" "good_status (reply n b) \<longleftrightarrow> 200 \<le> n \<and> n \<le> 299"
  by (simp_all add: good_status_def error_reply_def reply_def)

lemma provision_POST_good:
  assumes "provision_POST net env (Inr body) s = (Inr a, s')" "good_status a"
    and "jprop body ''name'' = Inr name" "jprop body ''plan'' = Inr plan" "jprop body ''wallet'' = Inr wallet"
  shows "\<exists>tenant t s1. createTenant net env name (nullish_or plan (JStr (u ''free''))) s = (Inr tenant, s1)
    \<and> jprop tenant ''id'' = Inr t \<and> setTenantWallet net env t wallet s1 = (Inr (), s')
    \<and> ap_body a = jfields [(''tenantId'', t), (''deployCommand'', JStr (deploy_command t wallet))]"
  using assms
  by (auto simp: provision_POST_def with_body_def bindM_Inr catchM_Inr comp_eval reply_def error_reply_def good_status_def
      split: if_splits)

lemma provision_PUT_good:
  assumes "provision_PUT net env (Inr body) s = (Inr a, s')" "good_status a"
    and "jprop body ''tenantId'' = Inr t" "jprop body ''contractId'' = Inr contract" "jprop body ''network'' = Inr n"
  shows "setTenantContract net env t contract (nullish_or n (JStr (u ''testnet''))) s = (Inr (), s')"
  using assms
  by (auto simp: provision_PUT_def with_body_def bindM_Inr catchM_Inr comp_eval reply_def error_reply_def good_status_def
      split: if_splits)

lemma provision_answer_Inr:
  "provision_answer (provision_api net env) rq s = (Inr d, s') \<longleftrightarrow>
     (\<exists>a. (if rq_method rq = u ''POST'' then provision_POST net env (case rq_body rq of Some b \<Rightarrow> Inr b | None \<Rightarrow> Inl (js_error ''SyntaxError'' []))
           else provision_PUT net env (case rq_body rq of Some b \<Rightarrow> Inr b | None \<Rightarrow> Inl (js_error ''SyntaxError'' []))) s = (Inr a, s')
        \<and> good_status a \<and> ap_body a = d)"
  by (auto simp: provision_answer_def provision_api_def Let_def bindM_Inr comp_eval res_ok_def good_status_def split: if_splits)

lemma prov_create_ok:
  assumes "prov_create (provision_api net env) name wallet c s = (c1, s1)" "pc_tenantId c = None" "pc_tenantId c1 = Some t"
  shows "\<exists>seg. encodeURIComponent (json_to_string t) = Inr seg
    \<and> (let q1 = tenant_request env (JStr name) (JStr (u ''growth'')); q2 = wallet_request env seg (JStr wallet) in
       accepted net (w_log s) q1 \<and> accepted net (w_log s @ [Http q1]) q2 \<and> w_log s1 = w_log s @ [Http q1, Http q2])
    \<and> pc_deployCommand c1 = Some (JStr (deploy_command t (JStr wallet)))"
proof -
  let ?body = "JObj [(u ''name'', JStr name), (u ''plan'', JStr (u ''growth'')), (u ''wallet'', JStr wallet)]"
  obtain d t' cmd where d: "provision_answer (provision_api net env) (provision_call ''POST'' ?body) s = (Inr d, s1)"
    "jprop d ''tenantId'' = Inr t'" "jprop d ''deployCommand'' = Inr cmd"
    "pc_tenantId c1 = nullish_opt t'" "pc_deployCommand c1 = nullish_opt cmd"
    using assms by (auto simp: prov_create_def bindM_def comp_eval split: prod.splits sum.splits)
  then obtain a where a: "provision_POST net env (Inr ?body) s = (Inr a, s1)" "good_status a" "ap_body a = d"
    by (auto simp: provision_answer_Inr provision_call_def)
  obtain tenant t'' s0 where s0: "createTenant net env (JStr name) (JStr (u ''growth'')) s = (Inr tenant, s0)"
    "setTenantWallet net env t'' (JStr wallet) s0 = (Inr (), s1)"
    "d = jfields [(''tenantId'', t''), (''deployCommand'', JStr (deploy_command t'' (JStr wallet)))]"
    using provision_POST_good [OF a(1,2)] a(3) by (fastforce simp: nullish_or_def)
  have "t'' = t"
    using assms(3) d s0(3) by (cases "t'' = JUndef") (auto simp: jfields_def nullish_opt_def split: if_splits)
  with s0 d assms(3) show ?thesis
    by (auto simp: createTenant_Inr setTenantWallet_Inr Let_def accepted_def jfields_def nullish_opt_def split: if_splits)
qed

text \<open>C29: A registry reads as provisioned only when the orchestrator took every step.  From a fresh
  card, creating the institution and recording the contract through this console's own route
  turns the card to done only after exactly three requests, in this order and all accepted: the
  tenant was created under the institution's name, the passkey wallet recorded for that
  tenant, and the contract, which has the form of a contract address, recorded for the same
  tenant; and the command shown in between names that tenant and that wallet.\<close>

theorem provisioning_recorded:
  assumes "press_create (provision_api net env) name wallet prov_card_start s = (c1, s1)"
    and "press_record (provision_api net env) (c1\<lparr>pc_registryId := reg\<rparr>) s1 = (c2, s2)" "pc_done c2"
  shows "\<exists>t seg. pc_tenantId c1 = Some t \<and> encodeURIComponent (json_to_string t) = Inr seg
    \<and> pc_deployCommand c1 = Some (JStr (deploy_command t (JStr wallet)))
    \<and> length (trim reg) = 56 \<and> take 1 (trim reg) = u ''C''
    \<and> (let q1 = tenant_request env (JStr name) (JStr (u ''growth'')); q2 = wallet_request env seg (JStr wallet);
           q3 = contract_request env seg (JStr (trim reg)) (JStr (u ''testnet'')) in
       w_log s2 = w_log s @ [Http q1, Http q2, Http q3]
       \<and> accepted net (w_log s) q1 \<and> accepted net (w_log s @ [Http q1]) q2 \<and> accepted net (w_log s @ [Http q1, Http q2]) q3)"
proof -
  let ?c = "c1\<lparr>pc_registryId := reg\<rparr>"
  have create: "prov_create (provision_api net env) name wallet prov_card_start s = (c1, s1)"
    using assms(1) by (simp add: press_create_def prov_card_start_def)
  have undone: "\<not> pc_done c1" using create by (auto simp: prov_create_def prov_card_start_def split: prod.splits sum.splits)
  then have run: "prov_record (provision_api net env) ?c s1 = (c2, s2)" "regValid ?c" "pc_deployCommand c1 \<noteq> None"
    using assms(2,3) by (auto simp: press_record_def split: if_splits option.splits)
  have "pc_tenantId c1 \<noteq> None"
  proof
    assume none: "pc_tenantId c1 = None"
    from run(1) assms(3) undone obtain d where "provision_answer (provision_api net env)
        (provision_call ''PUT'' (JObj [(u ''tenantId'', JNull), (u ''contractId'', JStr (trim reg)), (u ''network'', JStr (u ''testnet''))])) s1 = (Inr d, s2)"
      by (auto simp: prov_record_def none split: prod.splits sum.splits)
    then show False
      by (auto simp: provision_answer_Inr provision_call_def provision_PUT_def with_body_def comp_eval)
  qed
  then obtain t where t: "pc_tenantId c1 = Some t" by auto
  from run(1) assms(3) undone t obtain d where "provision_answer (provision_api net env)
      (provision_call ''PUT'' (JObj [(u ''tenantId'', t), (u ''contractId'', JStr (trim reg)), (u ''network'', JStr (u ''testnet''))])) s1 = (Inr d, s2)"
    by (auto simp: prov_record_def split: prod.splits sum.splits)
  then obtain a where "provision_PUT net env (Inr (JObj [(u ''tenantId'', t), (u ''contractId'', JStr (trim reg)), (u ''network'', JStr (u ''testnet''))])) s1 = (Inr a, s2)"
    "good_status a" by (auto simp: provision_answer_Inr provision_call_def)
  from provision_PUT_good [OF this] have "setTenantContract net env t (JStr (trim reg)) (JStr (u ''testnet'')) s1 = (Inr (), s2)"
    by (simp add: nullish_or_def)
  moreover from prov_create_ok [OF create _ t] obtain seg where "encodeURIComponent (json_to_string t) = Inr seg"
    "let q1 = tenant_request env (JStr name) (JStr (u ''growth'')); q2 = wallet_request env seg (JStr wallet) in
       accepted net (w_log s) q1 \<and> accepted net (w_log s @ [Http q1]) q2 \<and> w_log s1 = w_log s @ [Http q1, Http q2]"
    "pc_deployCommand c1 = Some (JStr (deploy_command t (JStr wallet)))"
    by (auto simp: prov_card_start_def)
  ultimately show ?thesis
    using t run(2) by (auto simp: setTenantContract_Inr Let_def regValid_def)
qed

definition open_net :: sdk_net where
  "open_net = (\<lambda>_ _. Inr \<lparr>rs_status = 200, rs_text = Inr [], rs_json = Inr (JObj [(u ''id'', JStr (u ''t1''))])\<rparr>)"

definition open_env :: console_env where
  "open_env = \<lparr>ce_orchestratorUrl = None, ce_apiToken = None, ce_stellarNetwork = None, ce_solvaNetwork = None, ce_rpcUrl = None, ce_passphrase = None\<rparr>"

lemma open_net_steps:
  "createTenant open_net open_env n p s = (Inr (JObj [(u ''id'', JStr (u ''t1''))]), s\<lparr>w_log := w_log s @ [Http (tenant_request open_env n p)]\<rparr>)"
  "setTenantWallet open_net open_env (JStr (u ''t1'')) w s = (Inr (), s\<lparr>w_log := w_log s @ [Http (wallet_request open_env (u ''t1'') w)]\<rparr>)"
  "setTenantContract open_net open_env (JStr (u ''t1'')) w n s = (Inr (), s\<lparr>w_log := w_log s @ [Http (contract_request open_env (u ''t1'') w n)]\<rparr>)"
proof -
  have "encodeURIComponent (u ''t1'') = Inr (u ''t1'')"
    by (rule encodeURIComponent_plain) (simp add: u_def uri_unreserved_def is_digit_def)
  then show "setTenantWallet open_net open_env (JStr (u ''t1'')) w s = (Inr (), s\<lparr>w_log := w_log s @ [Http (wallet_request open_env (u ''t1'') w)]\<rparr>)"
    "setTenantContract open_net open_env (JStr (u ''t1'')) w n s = (Inr (), s\<lparr>w_log := w_log s @ [Http (contract_request open_env (u ''t1'') w n)]\<rparr>)"
    by (simp_all add: setTenantWallet_Inr setTenantContract_Inr accepted_def open_net_def res_ok_def)
  show "createTenant open_net open_env n p s = (Inr (JObj [(u ''id'', JStr (u ''t1''))]), s\<lparr>w_log := w_log s @ [Http (tenant_request open_env n p)]\<rparr>)"
    by (simp add: createTenant_Inr open_net_def res_ok_def)
qed

lemma provisioning_recorded_witness:
  "\<exists>c1 s1 c2 s2. press_create (provision_api open_net open_env) (u ''Arden'') (u ''CABC'') prov_card_start \<lparr>w_log = []\<rparr> = (c1, s1)
     \<and> press_record (provision_api open_net open_env) (c1\<lparr>pc_registryId := 67 # replicate 55 65\<rparr>) s1 = (c2, s2)
     \<and> pc_done c2 \<and> length (w_log s2) = 3"
proof -
  let ?api = "provision_api open_net open_env"
  let ?reg = "67 # replicate 55 65 :: jstr"
  have trim: "trim ?reg = ?reg" by (intro trim_no_ws) (auto simp: is_ws_def)
  note steps = provision_answer_def provision_api_def provision_call_def provision_POST_def provision_PUT_def with_body_def Let_def
    bindM_def catchM_def comp_eval nullish_or_def open_net_steps reply_def res_ok_def
  obtain c1 s1 where one: "press_create ?api (u ''Arden'') (u ''CABC'') prov_card_start \<lparr>w_log = []\<rparr> = (c1, s1)" by fastforce
  have c1: "pc_tenantId c1 = Some (JStr (u ''t1''))" "pc_deployCommand c1 = Some (JStr (deploy_command (JStr (u ''t1'')) (JStr (u ''CABC''))))"
    "\<not> pc_done c1" "\<not> pc_busy c1"
    using one by (auto simp: press_create_def prov_create_def prov_card_start_def steps jfields_def nullish_opt_def)
  obtain c2 s2 where two: "press_record ?api (c1\<lparr>pc_registryId := ?reg\<rparr>) s1 = (c2, s2)" by fastforce
  have "pc_done c2"
    using two c1 trim by (auto simp: press_record_def prov_record_def steps deploy_command_def regValid_def u_def [of "''C''"])
  with provisioning_recorded [OF one two] one two show ?thesis by (auto simp: Let_def)
qed

end
