(* ===== verification/Blog.thy ===== *)
theory Blog
  imports Site_Widgets
begin

text \<open>
  The blog of the web site: apps/website/src/features/blog/server/posts.ts with
  lib/reading-time.ts, lib/format-date.ts and types.ts.  The front matter parser \<open>matter\<close> is a
  parameter: it splits a source into its data, as JSON, and its content, or throws.  The
  sources are the entries of a record in their order.
\<close>

section \<open>lib/reading-time.ts and lib/format-date.ts\<close>

fun ws_words :: "jstr \<Rightarrow> jstr \<Rightarrow> jstr list" where
  "ws_words w [] = (if w = [] then [] else [w])" |
  "ws_words w (c # cs) =
     (if is_ws c then (if w = [] then ws_words [] cs else w # ws_words [] cs) else ws_words (w @ [c]) cs)"

definition WORDS_PER_MINUTE :: nat where "WORDS_PER_MINUTE = 220"

text \<open>\<open>Math.round\<close> rounds half up.\<close>

definition readingMinutes :: "jstr \<Rightarrow> nat" where
  "readingMinutes text =
     max 1 ((2 * length (ws_words [] (trim text)) + WORDS_PER_MINUTE) div (2 * WORDS_PER_MINUTE))"

definition MONTHS :: "jstr list" where
  "MONTHS = List.map u [''January'', ''February'', ''March'', ''April'', ''May'', ''June'', ''July'', ''August'',
     ''September'', ''October'', ''November'', ''December'']"

definition iso_re :: "jstr \<Rightarrow> bool" where
  "iso_re s \<longleftrightarrow> length s = 10 \<and> s ! 4 = 45 \<and> s ! 7 = 45
     \<and> list_all is_digit (take 4 s @ take 2 (drop 5 s) @ drop 8 s)"

definition formatPostDate :: "jstr \<Rightarrow> jstr result" where
  "formatPostDate d =
     (if \<not> iso_re d then Inl (js_error ''Error'' (u ''Not an ISO date: '' @ d))
      else let year = take 4 d; month = dec_val (take 2 (drop 5 d)); day = dec_val (drop 8 d)
           in if 1 \<le> month \<and> month \<le> 12
              then Inr (show_nat day @ u '' '' @ MONTHS ! (month - 1) @ u '' '' @ year)
              else Inl (js_error ''Error'' (u ''Not a month: '' @ d)))"

section \<open>server/posts.ts\<close>

record post_meta =
  po_slug :: jstr
  po_title :: jstr
  po_excerpt :: jstr
  po_category :: jstr
  po_author :: jstr
  po_date :: jstr
  po_cover :: jstr
  po_coverAlt :: jstr
  po_featured :: bool
  po_readingMinutes :: nat

record post =
  po_meta :: post_meta
  po_body :: jstr

datatype source = Text jstr | Object_function

definition slug_char :: "nat \<Rightarrow> bool" where
  "slug_char c \<longleftrightarrow> 97 \<le> c \<and> c \<le> 122 \<or> is_digit c"

fun single_dashes :: "jstr \<Rightarrow> bool" where
  "single_dashes (a # b # s) = (\<not> (a = 45 \<and> b = 45) \<and> single_dashes (b # s))" |
  "single_dashes _ = True"

text \<open>Runs of slug characters with single dashes between them.\<close>

definition slug_re :: "jstr \<Rightarrow> bool" where
  "slug_re s \<longleftrightarrow> s \<noteq> [] \<and> list_all (\<lambda>c. slug_char c \<or> c = 45) s \<and> hd s \<noteq> 45 \<and> last s \<noteq> 45
     \<and> single_dashes s"

definition text_min1 :: "json \<Rightarrow> string \<Rightarrow> jstr option" where
  "text_min1 data k = (case jprop data k of Inr (JStr s) \<Rightarrow> if s \<noteq> [] then Some s else None | _ \<Rightarrow> None)"

definition text_where :: "(jstr \<Rightarrow> bool) \<Rightarrow> json \<Rightarrow> string \<Rightarrow> jstr option" where
  "text_where ok data k = (case jprop data k of Inr (JStr s) \<Rightarrow> if ok s then Some s else None | _ \<Rightarrow> None)"

definition bool_default :: "bool \<Rightarrow> json \<Rightarrow> string \<Rightarrow> bool option" where
  "bool_default d data k =
     (case jprop data k of Inr (JBool b) \<Rightarrow> Some b | Inr JUndef \<Rightarrow> Some d | _ \<Rightarrow> None)"

definition frontmatterSchema :: "json \<Rightarrow> jstr \<Rightarrow> nat \<Rightarrow> post_meta option" where
  "frontmatterSchema data slug minutes =
     Option.bind (text_min1 data ''title'') (\<lambda>title.
     Option.bind (text_min1 data ''excerpt'') (\<lambda>excerpt.
     Option.bind (text_min1 data ''category'') (\<lambda>category.
     Option.bind (text_min1 data ''author'') (\<lambda>author.
     Option.bind (text_where iso_re data ''date'') (\<lambda>date.
     Option.bind (text_where (prefix (u ''/images/'')) data ''cover'') (\<lambda>cover.
     Option.bind (text_min1 data ''coverAlt'') (\<lambda>coverAlt.
     Option.bind (bool_default False data ''featured'') (\<lambda>featured.
     Some \<lparr>po_slug = slug, po_title = title, po_excerpt = excerpt, po_category = category, po_author = author,
           po_date = date, po_cover = cover, po_coverAlt = coverAlt, po_featured = featured,
           po_readingMinutes = minutes\<rparr>))))))))"

definition parsePost :: "(source \<Rightarrow> (json \<times> jstr) result) \<Rightarrow> (json \<Rightarrow> jstr) \<Rightarrow> jstr \<Rightarrow> source \<Rightarrow> post result" where
  "parsePost matter zodMessage slug raw =
     (if \<not> slug_re slug then Inl (js_error ''Error'' (u ''Invalid post slug: '' @ slug))
      else bindR (matter raw) (\<lambda>(data, content).
        case frontmatterSchema data slug (readingMinutes content) of
          None \<Rightarrow> Inl (js_error ''Error'' (u ''Invalid frontmatter in '' @ slug @ u '': '' @ zodMessage data))
        | Some m \<Rightarrow> Inr \<lparr>po_meta = m, po_body = content\<rparr>))"

text \<open>What a record read at a slug yields: an own entry or, for the one slug that names a
  property every object inherits, the function \<open>Object\<close>.\<close>

definition source_at :: "(jstr \<times> jstr) list \<Rightarrow> jstr \<Rightarrow> source option" where
  "source_at sources slug =
     (case map_of sources slug of
        Some raw \<Rightarrow> Some (Text raw)
      | None \<Rightarrow> if slug = u ''constructor'' then Some Object_function else None)"

definition getPost :: "(source \<Rightarrow> (json \<times> jstr) result) \<Rightarrow> (json \<Rightarrow> jstr) \<Rightarrow> jstr \<Rightarrow> (jstr \<times> jstr) list \<Rightarrow> post option result" where
  "getPost matter zodMessage slug sources =
     (if \<not> slug_re slug then Inr None
      else case source_at sources slug of
             None \<Rightarrow> Inr None
           | Some raw \<Rightarrow> bindR (parsePost matter zodMessage slug raw) (\<lambda>p. Inr (Some p)))"

text \<open>\<open>localeCompare\<close> orders texts of the form of an ISO date by their digits; the sort is
  stable and puts the newest first.\<close>

definition listPosts :: "(source \<Rightarrow> (json \<times> jstr) result) \<Rightarrow> (json \<Rightarrow> jstr) \<Rightarrow> (jstr \<times> jstr) list \<Rightarrow> post_meta list result" where
  "listPosts matter zodMessage sources =
     bindR (mapR (\<lambda>(slug, raw). bindR (parsePost matter zodMessage slug (Text raw)) (\<lambda>p. Inr (po_meta p))) sources)
       (\<lambda>metas. Inr (sort_key (\<lambda>m. - int (dec_val (filter is_digit (po_date m)))) metas))"

section \<open>The list and its posts agree\<close>

definition date_key :: "post_meta \<Rightarrow> nat" where
  "date_key m = dec_val (filter is_digit (po_date m))"

lemma frontmatter_fields:
  assumes "frontmatterSchema data slug n = Some m"
  shows "po_slug m = slug \<and> po_title m \<noteq> [] \<and> iso_re (po_date m) \<and> prefix (u ''/images/'') (po_cover m) \<and> po_readingMinutes m = n"
  using assms
  by (auto simp: frontmatterSchema_def text_min1_def text_where_def bind_eq_Some_conv
      split: sum.splits json.splits if_splits)

lemma readingMinutes_pos: "1 \<le> readingMinutes t"
  by (simp add: readingMinutes_def)

lemma parsePost_Inr:
  assumes "parsePost matter z slug raw = Inr p"
  shows "slug_re slug \<and> po_slug (po_meta p) = slug \<and> po_title (po_meta p) \<noteq> [] \<and> iso_re (po_date (po_meta p))
    \<and> prefix (u ''/images/'') (po_cover (po_meta p)) \<and> po_readingMinutes (po_meta p) = readingMinutes (po_body p)"
  using assms frontmatter_fields
  by (fastforce simp: parsePost_def result_simps split: if_splits option.splits)

definition listed_meta :: "(source \<Rightarrow> (json \<times> jstr) result) \<Rightarrow> (json \<Rightarrow> jstr) \<Rightarrow> jstr \<times> jstr \<Rightarrow> post_meta result" where
  "listed_meta matter z e = (case e of (slug, raw) \<Rightarrow> bindR (parsePost matter z slug (Text raw)) (\<lambda>p. Inr (po_meta p)))"

lemma listPosts_Inr:
  "listPosts matter z sources = Inr ms \<longleftrightarrow>
     (\<exists>metas. list_all2 (\<lambda>e m. listed_meta matter z e = Inr m) sources metas \<and> ms = sort_key (\<lambda>m. - int (date_key m)) metas)"
  by (auto simp: listPosts_def result_simps mapR_Inr listed_meta_def date_key_def case_prod_beta)

lemma listed_meta_slugs:
  "list_all2 (\<lambda>e m. listed_meta matter z e = Inr m) sources metas \<Longrightarrow> List.map po_slug metas = List.map fst sources"
  by (induction rule: list_all2_induct) (auto simp: listed_meta_def result_simps dest: parsePost_Inr)

text \<open>The blog's list and its pages agree.  When the list can be built, it names every
  source exactly once, the newest dates first; each entry has a valid slug, a date, a cover
  under the images and at least one minute of reading, and opening its slug gives the very post
  the entry describes.  A slug that the list does not name is not a post, except the one slug
  that reads an inherited property.\<close>

theorem blog_list:
  assumes "listPosts matter z sources = Inr ms" "distinct (List.map fst sources)"
  shows "mset (List.map po_slug ms) = mset (List.map fst sources)
    \<and> sorted_wrt (\<lambda>a b. date_key b \<le> date_key a) ms
    \<and> (\<forall>m \<in> set ms. slug_re (po_slug m) \<and> iso_re (po_date m) \<and> prefix (u ''/images/'') (po_cover m) \<and> 1 \<le> po_readingMinutes m
        \<and> (\<exists>p. getPost matter z (po_slug m) sources = Inr (Some p) \<and> po_meta p = m))
    \<and> (\<forall>slug. slug \<notin> po_slug ` set ms \<and> slug \<noteq> u ''constructor'' \<longrightarrow> getPost matter z slug sources = Inr None)"
proof -
  obtain metas where l: "list_all2 (\<lambda>e m. listed_meta matter z e = Inr m) sources metas"
    and ms: "ms = sort_key (\<lambda>m. - int (date_key m)) metas" using assms(1) by (auto simp: listPosts_Inr)
  have slugs: "mset (List.map po_slug ms) = mset (List.map fst sources)"
    using listed_meta_slugs [OF l] unfolding ms by (metis mset_map mset_sort)
  have "sorted (List.map (\<lambda>m. - int (date_key m)) ms)" by (simp add: ms)
  then have order: "sorted_wrt (\<lambda>a b. date_key b \<le> date_key a) ms" by (simp add: sorted_map)
  have each: "slug_re (po_slug m) \<and> iso_re (po_date m) \<and> prefix (u ''/images/'') (po_cover m) \<and> 1 \<le> po_readingMinutes m
        \<and> (\<exists>p. getPost matter z (po_slug m) sources = Inr (Some p) \<and> po_meta p = m)" if "m \<in> set ms" for m
  proof -
    from that have "m \<in> set metas" by (simp add: ms)
    then obtain slug raw where e: "(slug, raw) \<in> set sources" "listed_meta matter z (slug, raw) = Inr m"
      using l by (auto simp: list_all2_conv_all_nth in_set_conv_nth) (metis nth_mem surj_pair)
    then obtain p where p: "parsePost matter z slug (Text raw) = Inr p" "m = po_meta p"
      by (auto simp: listed_meta_def result_simps)
    have "source_at sources slug = Some (Text raw)" using e(1) assms(2) by (simp add: source_at_def)
    with p parsePost_Inr [OF p(1)] readingMinutes_pos show ?thesis by (simp add: getPost_def)
  qed
  have "getPost matter z slug sources = Inr None" if "slug \<notin> po_slug ` set ms" "slug \<noteq> u ''constructor''" for slug
  proof -
    have "po_slug ` set ms = fst ` set sources" using slugs by (metis mset_eq_setD set_map)
    with that have "map_of sources slug = None" by (simp add: map_of_eq_None_iff)
    with that show ?thesis by (simp add: getPost_def source_at_def)
  qed
  with slugs order each show ?thesis by blast
qed

definition demo_matter :: "source \<Rightarrow> (json \<times> jstr) result" where
  "demo_matter s = (case s of
     Text d \<Rightarrow> Inr (JObj [(u ''title'', JStr (u ''T'')), (u ''excerpt'', JStr (u ''E'')), (u ''category'', JStr (u ''C'')),
       (u ''author'', JStr (u ''A'')), (u ''date'', JStr d), (u ''cover'', JStr (u ''/images/c'')), (u ''coverAlt'', JStr (u ''X''))], [])
   | Object_function \<Rightarrow> Inl (js_error ''TypeError'' (u ''expected input to be a string or buffer'')))"

definition demo_sources :: "(jstr \<times> jstr) list" where
  "demo_sources = [(u ''first'', u ''2026-06-03''), (u ''second'', u ''2026-07-01'')]"

lemma blog_list_witness:
  "\<exists>ms. listPosts demo_matter (\<lambda>_. []) demo_sources = Inr ms \<and> set (List.map po_slug ms) = {u ''first'', u ''second''}
    \<and> getPost demo_matter (\<lambda>_. []) (u ''third'') demo_sources = Inr None"
proof -
  have "\<exists>ms. listPosts demo_matter (\<lambda>_. []) demo_sources = Inr ms"
    by (simp add: listPosts_def demo_sources_def parsePost_def demo_matter_def frontmatterSchema_def text_min1_def text_where_def
        bool_default_def iso_re_def slug_re_def slug_char_def u_def is_digit_def jprop_def jlookup_def prefix_def All_less_Suc)
  then obtain ms where ms: "listPosts demo_matter (\<lambda>_. []) demo_sources = Inr ms" by blast
  have d: "distinct (List.map fst demo_sources)" by (simp add: demo_sources_def)
  note b = blog_list [OF ms d]
  have s: "set (List.map po_slug ms) = {u ''first'', u ''second''}"
    using arg_cong [OF conjunct1 [OF b], of set_mset] by (simp add: demo_sources_def)
  moreover have "u ''third'' \<notin> po_slug ` set ms" using s by simp
  ultimately show ?thesis using ms b by auto
qed

end
