(* ===== verification/Js_Double.thy ===== *)
theory Js_Double
  imports Amounts "HOL-Library.Log_Nat"
begin

text \<open>
  JavaScript numbers as the doubles they are, for the code whose result depends on rounding: the
  double nearest to a rational (ties to even, gradual underflow; overflow to infinity is left out,
  no value here comes near \<open>2^1024\<close>), \<open>toFixed\<close> and the fixed-point form of
  \<open>toLocaleString\<close>, which print the exact value of the double.  The lemmas bound the rounding
  error by one part in \<open>2^53\<close> and show that a printed decimal survives the trip through a double.
\<close>

section \<open>The nearest double\<close>

text \<open>The exponent \<open>e\<close> with \<open>2^e <= q < 2^(e+1)\<close>.\<close>

definition bin_exp :: "rat \<Rightarrow> int" where
  "bin_exp q = (if 1 \<le> q then bitlen \<lfloor>q\<rfloor> - 1 else - bitlen (\<lceil>1 / q\<rceil> - 1))"

definition round_even :: "rat \<Rightarrow> int" where
  "round_even q =
     (let f = \<lfloor>q\<rfloor>; r = q - of_int f
      in if r < 1 / 2 then f else if 1 / 2 < r then f + 1 else if even f then f else f + 1)"

definition dbl :: "rat \<Rightarrow> rat" where
  "dbl q =
     (if q = 0 then 0
      else let p = 2 powi (max (bin_exp \<bar>q\<bar> - 52) (- 1074))
           in sgn q * (of_int (round_even (\<bar>q\<bar> / p)) * p))"

section \<open>Printing a double\<close>

text \<open>The form of \<open>String(x)\<close> for \<open>10^21\<close> and more: the fewest digits whose decimal rounds to
  \<open>x\<close>, the nearest first, and a decimal exponent.\<close>

definition digit_candidates :: "rat \<Rightarrow> nat \<Rightarrow> nat \<Rightarrow> (nat \<times> nat) list" where
  "digit_candidates x n k =
     (let s = 10 ^ (n - k); lo = \<lfloor>x / s\<rfloor>
      in List.map (\<lambda>m. (nat m, n - k))
           (if x - of_int lo * s \<le> of_int (lo + 1) * s - x then [lo, lo + 1] else [lo + 1, lo]))"

definition shortest_digits :: "rat \<Rightarrow> nat \<times> nat" where
  "shortest_digits x =
     (let n = length (show_nat (nat \<lfloor>x\<rfloor>))
      in case find (\<lambda>(m, p). dbl (of_nat m * 10 ^ p) = x)
                (concat (List.map (digit_candidates x n) [1..<18])) of
           Some r \<Rightarrow> r
         | None \<Rightarrow> (nat \<lfloor>x\<rfloor>, 0))"

definition exponent_text :: "rat \<Rightarrow> jstr" where
  "exponent_text x =
     (let (m, p) = shortest_digits x; ds = strip_zeros (show_nat m)
      in take 1 ds @ (if length ds = 1 then [] else u ''.'' @ drop 1 ds)
           @ u ''e+'' @ show_nat (length (show_nat m) - 1 + p))"

text \<open>The integer nearest to a magnitude, a tie going up.\<close>

definition nearest :: "rat \<Rightarrow> nat" where
  "nearest x = nat \<lfloor>x + 1 / 2\<rfloor>"

definition decimal_text :: "nat \<Rightarrow> nat \<Rightarrow> jstr" where
  "decimal_text k n = (if k = 0 then show_nat n else fixed_digits k n)"

definition to_fixed :: "nat \<Rightarrow> rat \<Rightarrow> jstr" where
  "to_fixed k x =
     (if x < 0 then u ''-'' else [])
     @ (if 10 ^ 21 \<le> \<bar>x\<bar> then exponent_text \<bar>x\<bar> else decimal_text k (nearest (\<bar>x\<bar> * 10 ^ k)))"

text \<open>\<open>toLocaleString("en-US")\<close> with both fraction limits at \<open>k\<close>.\<close>

definition to_locale :: "nat \<Rightarrow> rat \<Rightarrow> jstr" where
  "to_locale k x =
     (let n = nearest (\<bar>x\<bar> * 10 ^ k); whole = group_digits (show_nat (n div 10 ^ k))
      in (if x < 0 then u ''-'' else [])
         @ (if k = 0 then whole else whole @ u ''.'' @ pad_left k (show_nat (n mod 10 ^ k))))"

section \<open>Rounding error\<close>

lemma pow2_neg: "(2::rat) powi (- int k) = 1 / 2 ^ k"
  by (simp add: power_int_minus inverse_eq_divide)

lemma bin_exp_bounds:
  assumes "0 < q"
  shows "2 powi bin_exp q \<le> q" "q < 2 powi (bin_exp q + 1)"
proof -
  have "2 powi bin_exp q \<le> q \<and> q < 2 powi (bin_exp q + 1)"
  proof (cases "1 \<le> q")
    case True
    define n where "n = \<lfloor>q\<rfloor>"
    have n: "0 < n" using True by (simp add: n_def)
    have p: "1 \<le> bitlen n" using n bitlen_nonneg [of n] bitlen_eq_zero_iff [of n] by linarith
    have b: "2 ^ nat (bitlen n - 1) \<le> n" "n < 2 ^ nat (bitlen n)" using bitlen_bounds [OF n] by blast+
    have "of_int (2 ^ nat (bitlen n - 1)) \<le> q" using b(1) by (simp only: n_def le_floor_iff)
    moreover have "q < of_int (2 ^ nat (bitlen n))" using b(2) by (simp only: n_def floor_less_iff)
    ultimately show ?thesis
      using True p by (simp add: bin_exp_def power_int_def n_def [symmetric])
  next
    case False
    define m where "m = \<lceil>1 / q\<rceil> - 1"
    have "1 < 1 / q" using False assms by simp
    then have m: "0 < m" unfolding m_def by linarith
    have p: "1 \<le> bitlen m" using m bitlen_nonneg [of m] bitlen_eq_zero_iff [of m] by linarith
    have b: "2 ^ nat (bitlen m - 1) \<le> m" "m < 2 ^ nat (bitlen m)" using bitlen_bounds [OF m] by blast+
    have "2 ^ nat (bitlen m - 1) < \<lceil>1 / q\<rceil>" using b(1) unfolding m_def by linarith
    then have "of_int (2 ^ nat (bitlen m - 1)) < 1 / q" by (simp only: less_ceiling_iff)
    then have hi: "q < 1 / 2 ^ nat (bitlen m - 1)" using assms by (simp add: field_simps)
    have "\<lceil>1 / q\<rceil> \<le> 2 ^ nat (bitlen m)" using b(2) unfolding m_def by linarith
    then have "1 / q \<le> of_int (2 ^ nat (bitlen m))" by (simp only: ceiling_le_iff)
    then have lo: "1 / 2 ^ nat (bitlen m) \<le> q" using assms by (simp add: field_simps)
    have "bin_exp q = - bitlen m" using False by (simp add: bin_exp_def m_def)
    moreover have "(2::rat) powi (- bitlen m) = 1 / 2 ^ nat (bitlen m)"
      "(2::rat) powi (- bitlen m + 1) = 1 / 2 ^ nat (bitlen m - 1)"
      using pow2_neg [of "nat (bitlen m)"] pow2_neg [of "nat (bitlen m - 1)"] p by simp_all
    ultimately show ?thesis using lo hi by (simp only:)
  qed
  then show "2 powi bin_exp q \<le> q" "q < 2 powi (bin_exp q + 1)" by blast+
qed

lemma round_even_error: "\<bar>of_int (round_even q) - q\<bar> \<le> 1 / 2"
proof -
  have "of_int \<lfloor>q\<rfloor> \<le> q" "q < of_int \<lfloor>q\<rfloor> + 1" by linarith+
  then show ?thesis by (simp add: round_even_def Let_def abs_le_iff)
qed

lemma round_even_int [simp]: "round_even (of_int n) = n"
  by (simp add: round_even_def)

lemma dbl_0 [simp]: "dbl 0 = 0"
  by (simp add: dbl_def)

text \<open>A normal number is rounded by at most one part in \<open>2^53\<close>, an integer below \<open>2^53\<close> not at all.\<close>

lemma dbl_error:
  assumes "1 \<le> \<bar>q\<bar> * 2 ^ 1000"
  shows "\<bar>dbl q - q\<bar> \<le> \<bar>q\<bar> / 2 ^ 53"
proof -
  define a e p where "a = \<bar>q\<bar>" and "e = bin_exp a" and "p = (2::rat) powi (e - 52)"
  have a: "0 < a" using assms by (auto simp: a_def)
  have lo: "2 powi e \<le> a" and hi: "a < 2 powi (e + 1)" using bin_exp_bounds [OF a] by (simp_all add: e_def)
  have e: "- 1022 \<le> e"
  proof (rule ccontr)
    assume "\<not> ?thesis"
    then have "(2::rat) powi (e + 1) \<le> 2 powi (- int 1000)" by (intro power_int_increasing) auto
    with hi have "a < 1 / 2 ^ 1000" unfolding pow2_neg by linarith
    then have "a * 2 ^ 1000 < 1" by (simp only: pos_less_divide_eq zero_less_power zero_less_numeral)
    with assms show False unfolding a_def by linarith
  qed
  have p: "0 < p" by (simp add: p_def)
  have m: "max (bin_exp \<bar>q\<bar> - 52) (- 1074) = e - 52" using e by (simp add: e_def a_def)
  have q: "q = sgn q * a" by (simp add: a_def sgn_mult_abs)
  have "dbl q - q = sgn q * (of_int (round_even (a / p)) * p) - sgn q * a"
    using a q unfolding dbl_def Let_def m by (auto simp: p_def a_def)
  also have "\<dots> = sgn q * ((of_int (round_even (a / p)) - a / p) * p)" using p by (simp add: field_simps)
  finally have "\<bar>dbl q - q\<bar> \<le> \<bar>of_int (round_even (a / p)) - a / p\<bar> * p"
    using p by (simp add: abs_mult abs_sgn_eq)
  also have "\<dots> \<le> 1 / 2 * p" using p round_even_error by (intro mult_right_mono) auto
  also have "p = 2 powi e / 2 ^ 52" by (simp add: p_def power_int_diff)
  also have "1 / 2 * (2 powi e / 2 ^ 52) = (2 powi e :: rat) / 2 ^ 53" by simp
  also have "\<dots> \<le> a / 2 ^ 53" using lo by (intro divide_right_mono) simp_all
  finally show ?thesis by (simp only: a_def)
qed

lemma dbl_minus [simp]: "dbl (- q) = - dbl q"
  by (simp add: dbl_def Let_def sgn_minus)

lemma dbl_pos: "0 < q \<Longrightarrow> 1 \<le> q * 2 ^ 1000 \<Longrightarrow> 0 < dbl q"
proof -
  assume q: "0 < q" and n: "1 \<le> q * 2 ^ 1000"
  from q have a: "\<bar>q\<bar> = q" by simp
  have "\<bar>dbl q - q\<bar> \<le> q / 2 ^ 53" using dbl_error [of q] n unfolding a by blast
  moreover have "q / 2 ^ 53 < q" using q by simp
  ultimately show "0 < dbl q" by linarith
qed

lemma nearest_near: "\<bar>x - of_nat n\<bar> < 1 / 2 \<Longrightarrow> nearest x = n"
proof -
  assume "\<bar>x - of_nat n\<bar> < 1 / 2"
  then have "of_nat n - 1 / 2 < x" "x < of_nat n + 1 / 2" by linarith+
  then have "\<lfloor>x + 1 / 2\<rfloor> = int n" by (intro floor_unique) simp_all
  then show ?thesis by (simp add: nearest_def)
qed

lemma normal_decimal: "k \<le> 300 \<Longrightarrow> 0 < n \<Longrightarrow> 1 \<le> of_nat n / 10 ^ k * (2 ^ 1000 :: rat)"
proof -
  assume k: "k \<le> 300" and n: "0 < n"
  have "(10::rat) ^ k \<le> 10 ^ 300" using k by (intro power_increasing) simp_all
  also have "\<dots> \<le> (2 ^ 10) ^ 100" by simp
  also have "\<dots> = 2 ^ 1000" by (simp flip: power_mult)
  finally have "(10::rat) ^ k * 1 \<le> 2 ^ 1000 * of_nat n" using n by (intro mult_mono) simp_all
  then show ?thesis by (simp add: field_simps)
qed

lemma small_over_pow:
  fixes n :: nat
  assumes "n < 2 ^ 52"
  shows "(of_nat n :: rat) / 2 ^ 53 < 1 / 2"
proof -
  have "(of_nat n :: rat) < of_nat (2 ^ 52)" using assms by (simp only: of_nat_less_iff)
  then show ?thesis by simp
qed

text \<open>A decimal of up to \<open>2^52\<close> units in the last place keeps its digits through a double.\<close>

lemma nearest_dbl:
  assumes "n < 2 ^ 52" "k \<le> 300"
  shows "nearest (\<bar>dbl (of_nat n / 10 ^ k)\<bar> * 10 ^ k) = n" "\<not> dbl (of_nat n / 10 ^ k) < 0"
    "\<bar>dbl (of_nat n / 10 ^ k)\<bar> < 10 ^ 21"
proof -
  define q where "q = (of_nat n :: rat) / 10 ^ k"
  have "nearest (\<bar>dbl q\<bar> * 10 ^ k) = n \<and> \<not> dbl q < 0 \<and> \<bar>dbl q\<bar> < 10 ^ 21"
  proof (cases "n = 0")
    case True
    then show ?thesis by (simp add: q_def nearest_def)
  next
    case False
    have q: "0 < q" "q * 10 ^ k = of_nat n" "1 \<le> q * 2 ^ 1000" "q \<le> of_nat n"
      using False normal_decimal [OF assms(2), of n] by (simp_all add: q_def divide_le_eq)
    have pos: "0 < dbl q" using dbl_pos q by blast
    have e: "\<bar>dbl q - q\<bar> \<le> q / 2 ^ 53" using dbl_error [of q] q by simp
    then have "\<bar>dbl q - q\<bar> * 10 ^ k \<le> q / 2 ^ 53 * 10 ^ k" by (rule mult_right_mono) simp
    also have "\<dots> = of_nat n / 2 ^ 53" using q(2) by simp
    also have "\<dots> < 1 / 2" using assms(1) by (rule small_over_pow)
    finally have "\<bar>dbl q * 10 ^ k - of_nat n\<bar> < 1 / 2"
      by (simp only: q(2) [symmetric] left_diff_distrib [symmetric] abs_mult) simp
    then have "nearest (dbl q * 10 ^ k) = n" by (rule nearest_near)
    moreover have "q / 2 ^ 53 < 1 / 2"
      using q(4) small_over_pow [OF assms(1)] by (meson divide_right_mono le_less_trans zero_le_numeral zero_le_power)
    with e have "dbl q < of_nat n + 1 / 2" using q(4) by linarith
    moreover have "(of_nat n :: rat) < of_nat (2 ^ 52)" using assms(1) by (simp only: of_nat_less_iff)
    ultimately show ?thesis using pos by simp
  qed
  then show "nearest (\<bar>dbl (of_nat n / 10 ^ k)\<bar> * 10 ^ k) = n" "\<not> dbl (of_nat n / 10 ^ k) < 0"
    "\<bar>dbl (of_nat n / 10 ^ k)\<bar> < 10 ^ 21" by (simp_all only: q_def simp_thms)
qed

lemma to_fixed_decimal: "n < 2 ^ 52 \<Longrightarrow> k \<le> 300 \<Longrightarrow> to_fixed k (dbl (of_nat n / 10 ^ k)) = decimal_text k n"
  using nearest_dbl [of n k] by (simp add: to_fixed_def)

lemma to_locale_decimal:
  "n < 2 ^ 52 \<Longrightarrow> k \<le> 300 \<Longrightarrow> to_locale k (dbl (of_nat n / 10 ^ k)) = formatAmount (int n) k"
proof -
  assume n: "n < 2 ^ 52" "k \<le> 300"
  have "int n div 10 ^ k = int (n div 10 ^ k)" "int n mod 10 ^ k = int (n mod 10 ^ k)"
    by (simp_all add: zdiv_int zmod_int)
  then have "formatAmount (int n) k =
      (if k = 0 then group_digits (show_nat (n div 10 ^ k))
       else group_digits (show_nat (n div 10 ^ k)) @ u ''.'' @ pad_left k (show_nat (n mod 10 ^ k)))"
    by (simp only: formatAmount_def Let_def show_int_def of_nat_less_0_iff if_False nat_int append_Nil)
  then show ?thesis
    unfolding to_locale_def Let_def nearest_dbl(1) [OF n] using nearest_dbl(2) [OF n] by simp
qed

end
