(* ===== verification/Motion.thy ===== *)
theory Motion
  imports Dom Js_Double Site_Widgets
begin

text \<open>
  The motion of the web site: apps/website/src/hooks/use-motion-director.ts,
  features/home/hooks/use-opening-loop.ts and use-record-stage.ts, with the calendar they animate
  (features/home/components/calendar-field.tsx) and the gate of lib/motion-gate.ts.  The director
  searches a document (\<open>Dom\<close>) and answers the acts it performs: what it hides, and the scroll
  triggers that show it again.  A timeline of the gsap library is its progress; easing, staggering
  and offsets in pixels are left out, what a tween starts from and ends on is not.
\<close>

section \<open>use-motion-director.ts: what is animated\<close>

definition MARKED :: "dom \<Rightarrow> path \<Rightarrow> bool" where
  "MARKED d = has_attr d [''data-reveal'', ''data-rows'', ''data-seal'', ''data-ticks'', ''data-calendar'',
     ''data-part'', ''data-draw'', ''data-intro'']"

definition in_chrome :: "dom \<Rightarrow> path \<Rightarrow> bool" where
  "in_chrome d p \<longleftrightarrow> closest (\<lambda>q. has_tag d [''header'', ''footer'', ''nav''] q \<or> has_attr d [''popover''] q) p \<noteq> None"

definition AUTO_FIGURES :: "dom \<Rightarrow> path \<Rightarrow> bool" where
  "AUTO_FIGURES d p \<longleftrightarrow> inside (has_tag d [''main'']) p
     \<and> (has_tag d [''figure'', ''article'', ''table''] p \<or> has_class d [''ruled-marks'', ''ruled-grid''] p)"

definition AUTO_LISTS :: "dom \<Rightarrow> path \<Rightarrow> bool" where
  "AUTO_LISTS d p \<longleftrightarrow> inside (has_tag d [''main'']) p \<and> has_tag d [''ul'', ''ol'', ''dl''] p"

definition isFree :: "dom \<Rightarrow> path \<Rightarrow> path list \<Rightarrow> bool" where
  "isFree d element claimed \<longleftrightarrow>
     closest (MARKED d) element = None \<and> select_in d element (MARKED d) = []
     \<and> \<not> list_ex (\<lambda>other. other \<noteq> element \<and> contains other element) claimed"

definition auto_figures :: "dom \<Rightarrow> path list" where
  "auto_figures d =
     foldl (\<lambda>figures figure.
         if in_chrome d figure then figures
         else if isFree d figure figures then figures @ [figure] else figures)
       [] (select_all d (AUTO_FIGURES d))"

definition auto_lists :: "dom \<Rightarrow> path list \<Rightarrow> path list" where
  "auto_lists d figures =
     foldl (\<lambda>lists list.
         if length (kids d list) < 2 \<or> in_chrome d list then lists
         else if list_ex (\<lambda>figure. contains figure list) figures then lists
         else if isFree d list lists then lists @ [list] else lists)
       [] (select_all d (AUTO_LISTS d))"

definition autoMark :: "dom \<Rightarrow> path list \<times> path list" where
  "autoMark d = (auto_figures d, auto_lists d (auto_figures d))"

text \<open>An act hides a property of elements, or creates a scroll trigger that shows elements when its
  element reaches the given percentage of the viewport, counts a figure up, or runs a calendar;
  or it plays at once, from hidden to shown, without waiting for a trigger.\<close>

datatype fade = AutoAlpha | Opacity | ScaleX | Dash

datatype act =
    Hide path fade
  | Reveal path nat "(path \<times> fade) list"
  | Count path path
  | RunCalendar path "path list"
  | Play path fade

definition hide_all :: "fade \<Rightarrow> path list \<Rightarrow> act list" where
  "hide_all f ps = List.map (\<lambda>p. Hide p f) ps"

definition batch :: "path list \<Rightarrow> act list" where
  "batch ps = List.map (\<lambda>p. Reveal p 92 [(p, AutoAlpha)]) ps"

definition with_fade :: "fade \<Rightarrow> path list \<Rightarrow> (path \<times> fade) list" where
  "with_fade f ps = List.map (\<lambda>p. (p, f)) ps"

definition animateDrawing :: "dom \<Rightarrow> path \<Rightarrow> act list" where
  "animateDrawing d svg =
     (let q = (\<lambda>v. select_in d svg (attr_is d ''data-draw'' v));
          rows = q ''row''; bars = q ''bar''; lines = q ''line''; pops = q ''pop''
      in hide_all AutoAlpha rows @ hide_all ScaleX bars @ hide_all Dash lines @ hide_all AutoAlpha pops
         @ [Reveal svg 85 (with_fade AutoAlpha rows @ with_fade ScaleX bars @ with_fade Dash lines @ with_fade AutoAlpha pops)])"

definition set_add :: "'a list \<Rightarrow> 'a \<Rightarrow> 'a list" where
  "set_add xs x = (if x \<in> set xs then xs else xs @ [x])"

definition drawings :: "dom \<Rightarrow> path list" where
  "drawings d =
     foldl (\<lambda>ds mark. case closest (has_tag d [''svg'']) mark of Some svg \<Rightarrow> set_add ds svg | None \<Rightarrow> ds)
       [] (select_all d (has_attr d [''data-draw'']))"

definition animate_rows :: "dom \<Rightarrow> path \<Rightarrow> act list" where
  "animate_rows d list =
     (let rows = kids d list in hide_all AutoAlpha rows @ [Reveal list 90 (with_fade AutoAlpha rows)])"

definition animate_strip :: "dom \<Rightarrow> path \<Rightarrow> act list" where
  "animate_strip d strip =
     (let ticks = kids d strip
      in if ticks = [] then [] else hide_all Opacity ticks @ [Reveal strip 90 (with_fade Opacity ticks)])"

definition animate_seal :: "dom \<Rightarrow> path \<Rightarrow> act list" where
  "animate_seal d seal =
     (let ticks = select_in d seal (has_class d [''gauge-tick'']); counts = select_in d seal (has_attr d [''data-count''])
      in hide_all Opacity ticks @ [Reveal seal 88 (with_fade Opacity ticks)]
         @ (case counts of [] \<Rightarrow> [] | c # _ \<Rightarrow> [Count seal c]))"

definition animate_count :: "dom \<Rightarrow> path \<Rightarrow> act list" where
  "animate_count d c = (if closest (has_attr d [''data-seal'']) c \<noteq> None then [] else [Count c c])"

definition calendar_lines :: "dom \<Rightarrow> path \<Rightarrow> path list" where
  "calendar_lines d svg = select_in d svg (has_tag d [''line''])"

definition animate_calendar :: "dom \<Rightarrow> path \<Rightarrow> act list" where
  "animate_calendar d svg =
     (let ticks = calendar_lines d svg in if ticks = [] then [] else hide_all Opacity ticks @ [RunCalendar svg ticks])"

definition direct :: "dom \<Rightarrow> act list" where
  "direct d =
     (let (figures, listed) = autoMark d;
          all = (\<lambda>k. select_all d (has_attr d [k]))
      in List.map (\<lambda>p. Play p AutoAlpha) (select_all d (has_tag d [''main'']))
         @ hide_all AutoAlpha (all ''data-reveal'')
         @ hide_all AutoAlpha figures @ batch figures
         @ concat (List.map (animate_rows d) listed)
         @ concat (List.map (animateDrawing d) (drawings d))
         @ batch (all ''data-reveal'')
         @ concat (List.map (\<lambda>list. if kids d list = [] then [] else animate_rows d list) (all ''data-rows''))
         @ concat (List.map (animate_strip d) (all ''data-ticks''))
         @ concat (List.map (animate_seal d) (all ''data-seal''))
         @ concat (List.map (animate_count d) (all ''data-count''))
         @ concat (List.map (animate_calendar d) (all ''data-calendar'')))"

text \<open>The page while the visitor scrolls: what is hidden, and the triggers that have not fired.\<close>

definition act_shows :: "act \<Rightarrow> (path \<times> fade) list" where
  "act_shows a = (case a of Reveal t s xs \<Rightarrow> xs | RunCalendar t ps \<Rightarrow> with_fade Opacity ps | _ \<Rightarrow> [])"

definition act_trigger :: "act \<Rightarrow> path option" where
  "act_trigger a = (case a of Reveal t s xs \<Rightarrow> Some t | RunCalendar t ps \<Rightarrow> Some t | Count t c \<Rightarrow> Some t | Hide p f \<Rightarrow> None | Play p f \<Rightarrow> None)"

definition hidden_by :: "act list \<Rightarrow> (path \<times> fade) set" where
  "hidden_by acts = {(p, f). Hide p f \<in> set acts}"

definition hidden_after :: "act list \<Rightarrow> path set \<Rightarrow> (path \<times> fade) set" where
  "hidden_after acts entered =
     hidden_by acts - (\<Union>a \<in> {a \<in> set acts. \<exists>t \<in> entered. act_trigger a = Some t}. set (act_shows a))"

section \<open>No two owners\<close>

lemma isFree_iff:
  "isFree d p claimed \<longleftrightarrow> (\<forall>q. prefix q p \<longrightarrow> \<not> MARKED d q) \<and> (\<forall>q \<in> set (paths d). strict_prefix p q \<longrightarrow> \<not> MARKED d q)
     \<and> (\<forall>c \<in> set claimed. c = p \<or> \<not> prefix c p)"
  by (auto simp: isFree_def contains_def select_in_def list_ex_iff filter_empty_conv)

text \<open>What a marking loop keeps: the picked elements are free, in document order and un-nested, and every
  candidate that was passed over for being nested lies in a picked one.\<close>

lemma pick_loop:
  assumes ord: "sorted_wrt (\<lambda>p q. \<not> prefix q p) ps"
    and step: "\<And>acc p. pick acc p = (if ok p \<and> isFree d p acc then acc @ [p] else acc)"
  defines "R \<equiv> foldl pick [] ps"
  shows "set R \<subseteq> {p \<in> set ps. ok p \<and> isFree d p []}"
    and "sorted_wrt (\<lambda>p q. \<not> prefix q p \<and> \<not> prefix p q) R"
    and "\<forall>p \<in> set ps. ok p \<and> isFree d p [] \<longrightarrow> (\<exists>r \<in> set R. prefix r p)"
proof -
  have "set R \<subseteq> {p \<in> set ps. ok p \<and> isFree d p []} \<and> sorted_wrt (\<lambda>p q. \<not> prefix q p \<and> \<not> prefix p q) R
      \<and> (\<forall>p \<in> set ps. ok p \<and> isFree d p [] \<longrightarrow> (\<exists>r \<in> set R. prefix r p))"
    using ord unfolding R_def
  proof (induction ps rule: rev_induct)
    case (snoc x ps)
    define Q where "Q = foldl pick [] ps"
    have before: "\<forall>p \<in> set ps. \<not> prefix x p" using snoc.prems by (auto simp: sorted_wrt_append)
    have IH: "set Q \<subseteq> {p \<in> set ps. ok p \<and> isFree d p []}" "sorted_wrt (\<lambda>p q. \<not> prefix q p \<and> \<not> prefix p q) Q"
      "\<forall>p \<in> set ps. ok p \<and> isFree d p [] \<longrightarrow> (\<exists>r \<in> set Q. prefix r p)"
      using snoc unfolding Q_def by (auto simp: sorted_wrt_append)
    have notin: "x \<notin> set Q" "\<forall>p \<in> set Q. \<not> prefix x p" using IH(1) before by auto
    have last: "foldl pick [] (ps @ [x]) = (if ok x \<and> isFree d x Q then Q @ [x] else Q)"
      by (simp add: step [of Q] flip: Q_def)
    show ?case
    proof (cases "ok x \<and> isFree d x Q")
      case True
      then have "isFree d x []" "\<forall>r \<in> set Q. \<not> prefix r x" using notin(1) by (auto simp: isFree_iff)
      with True IH notin show ?thesis unfolding last by (auto simp: sorted_wrt_append)
    next
      case False
      then have "ok x \<and> isFree d x [] \<longrightarrow> (\<exists>r \<in> set Q. prefix r x)" by (auto simp: isFree_iff)
      with False IH show ?thesis unfolding last by auto
    qed
  qed simp
  then show "set R \<subseteq> {p \<in> set ps. ok p \<and> isFree d p []}" "sorted_wrt (\<lambda>p q. \<not> prefix q p \<and> \<not> prefix p q) R"
    "\<forall>p \<in> set ps. ok p \<and> isFree d p [] \<longrightarrow> (\<exists>r \<in> set R. prefix r p)" by blast+
qed

lemma figures_loop:
  "auto_figures d = foldl (\<lambda>acc p. if \<not> in_chrome d p \<and> isFree d p acc then acc @ [p] else acc) [] (select_all d (AUTO_FIGURES d))"
  unfolding auto_figures_def by (rule foldl_cong) auto

lemma lists_loop:
  "auto_lists d figures =
     foldl (\<lambda>acc p. if (2 \<le> length (kids d p) \<and> \<not> in_chrome d p \<and> \<not> list_ex (\<lambda>f. contains f p) figures) \<and> isFree d p acc
       then acc @ [p] else acc) [] (select_all d (AUTO_LISTS d))"
  unfolding auto_lists_def by (rule foldl_cong) auto

lemma figures_pick:
  "set (auto_figures d) \<subseteq> {p \<in> set (select_all d (AUTO_FIGURES d)). \<not> in_chrome d p \<and> isFree d p []}"
  "sorted_wrt (\<lambda>p q. \<not> prefix q p \<and> \<not> prefix p q) (auto_figures d)"
  "\<forall>p \<in> set (select_all d (AUTO_FIGURES d)). \<not> in_chrome d p \<and> isFree d p [] \<longrightarrow> (\<exists>r \<in> set (auto_figures d). prefix r p)"
  unfolding figures_loop by (rule pick_loop [OF select_all_order(1)], rule refl)+

lemma lists_pick:
  "set (auto_lists d fs) \<subseteq> {p \<in> set (select_all d (AUTO_LISTS d)). (2 \<le> length (kids d p) \<and> \<not> in_chrome d p
     \<and> \<not> list_ex (\<lambda>f. contains f p) fs) \<and> isFree d p []}"
  "sorted_wrt (\<lambda>p q. \<not> prefix q p \<and> \<not> prefix p q) (auto_lists d fs)"
  unfolding lists_loop by (rule pick_loop [OF select_all_order(1)], rule refl)+

lemma has_attr_path: "has_attr d ks p \<Longrightarrow> p \<in> set (paths d)"
  by (auto simp: has_attr_def paths_mem list_ex_iff split: option.splits) (metis attr.simps(1) dom.exhaust option.distinct(1))

lemma free_marks: "isFree d p [] \<longleftrightarrow> (\<forall>q. MARKED d q \<longrightarrow> \<not> prefix q p \<and> \<not> prefix p q)"
  using has_attr_path by (auto simp: isFree_iff MARKED_def strict_prefix_def)

lemma sorted_pairs:
  "sorted_wrt R xs \<Longrightarrow> x \<in> set xs \<Longrightarrow> y \<in> set xs \<Longrightarrow> x \<noteq> y \<Longrightarrow> R x y \<or> R y x"
  by (induction xs) auto

text \<open>The automatic motion never gives an element two owners.  In every document the figures it picks are
  candidates inside main, none of them in another, so are the lists, and no list lies in a picked
  figure; nothing picked is in a header, a footer, a navigation or a popover, and nothing picked
  carries, contains or lies in a mark that another animation reads.  No unmarked candidate is
  forgotten: it lies in a picked figure.\<close>

theorem motion_targets_disjoint:
  assumes "autoMark d = (figures, listed)"
  shows "distinct figures \<and> distinct listed
    \<and> (\<forall>p \<in> set figures. AUTO_FIGURES d p) \<and> (\<forall>p \<in> set listed. AUTO_LISTS d p \<and> 2 \<le> length (kids d p))
    \<and> (\<forall>p \<in> set figures. \<forall>q \<in> set figures. p \<noteq> q \<longrightarrow> \<not> contains p q)
    \<and> (\<forall>p \<in> set listed. \<forall>q \<in> set listed. p \<noteq> q \<longrightarrow> \<not> contains p q)
    \<and> (\<forall>p \<in> set figures. \<forall>q \<in> set listed. \<not> contains p q)
    \<and> (\<forall>p \<in> set figures \<union> set listed. \<not> in_chrome d p \<and> (\<forall>q. MARKED d q \<longrightarrow> \<not> contains q p \<and> \<not> contains p q))
    \<and> (\<forall>p \<in> set (paths d). AUTO_FIGURES d p \<and> \<not> in_chrome d p \<and> (\<forall>q. MARKED d q \<longrightarrow> \<not> contains q p \<and> \<not> contains p q)
         \<longrightarrow> (\<exists>f \<in> set figures. contains f p))"
proof -
  have e: "figures = auto_figures d" "listed = auto_lists d figures" using assms by (auto simp: autoMark_def)
  note f = figures_pick [of d, folded e(1)] and l = lists_pick [of d figures, folded e(2)]
  have "distinct figures" "distinct listed"
    using f(2) l(2) by (auto intro: sorted_prefix_distinct elim: sorted_wrt_mono_rel [rotated])
  moreover have "\<forall>p \<in> set figures. \<forall>q \<in> set figures. p \<noteq> q \<longrightarrow> \<not> prefix p q"
    "\<forall>p \<in> set listed. \<forall>q \<in> set listed. p \<noteq> q \<longrightarrow> \<not> prefix p q"
    using sorted_pairs [OF f(2)] sorted_pairs [OF l(2)] by blast+
  ultimately show ?thesis
    using f(1,3) l(1) by (auto simp: contains_def free_marks list_ex_iff subset_iff)
qed

definition sample_page :: dom where
  "sample_page = El ''body'' []
     [El ''nav'' [] [El ''ul'' [] [El ''li'' [] [], El ''li'' [] []]],
      El ''main'' []
        [El ''figure'' [] [El ''table'' [] []], El ''ul'' [] [El ''li'' [] [], El ''li'' [] []],
         El ''table'' [] [El ''tr'' [(''data-reveal'', [])] []]]]"

lemmas doc_simps = select_all_def AUTO_FIGURES_def AUTO_LISTS_def in_chrome_def inside_def closest_def ancestors_def
  has_tag_def has_attr_def has_class_def isFree_def select_in_def contains_def MARKED_def kids_def strict_prefix_def

lemma sample_marked: "autoMark sample_page = ([[1, 0]], [[1, 1]])"
proof -
  have "select_all sample_page (AUTO_FIGURES sample_page) = [[1, 0], [1, 0, 0], [1, 2]]"
    "select_all sample_page (AUTO_LISTS sample_page) = [[1, 1]]"
    by (simp_all add: doc_simps sample_page_def)
  then show ?thesis
    by (simp add: autoMark_def auto_figures_def auto_lists_def doc_simps sample_page_def)
qed

lemma motion_targets_disjoint_witness:
  "autoMark sample_page = ([[1, 0]], [[1, 1]]) \<and> \<not> contains [1, 0] [1, 1] \<and> \<not> MARKED sample_page [1]"
  using sample_marked motion_targets_disjoint [OF sample_marked] by (auto simp: contains_def)

section \<open>Nothing stays hidden\<close>

definition covered_acts :: "act set \<Rightarrow> bool" where
  "covered_acts A \<longleftrightarrow> (\<forall>p f. Hide p f \<in> A \<longrightarrow>
     (\<exists>a \<in> A. (p, f) \<in> set (act_shows a) \<and> (\<exists>t. act_trigger a = Some t \<and> prefix t p)))"

lemma covered_Un [intro]: "covered_acts A \<Longrightarrow> covered_acts B \<Longrightarrow> covered_acts (A \<union> B)"
  unfolding covered_acts_def by blast

lemma covered_UN [intro]: "(\<And>x. x \<in> X \<Longrightarrow> covered_acts (g x)) \<Longrightarrow> covered_acts (\<Union>x \<in> X. g x)"
  unfolding covered_acts_def by blast

lemma covered_empty [simp]: "covered_acts {}"
  by (simp add: covered_acts_def)

lemma hide_all_mem [simp]: "Hide p f \<in> set (hide_all g ps) \<longleftrightarrow> g = f \<and> p \<in> set ps"
  "Reveal t s xs \<notin> set (hide_all g ps)" "RunCalendar t qs \<notin> set (hide_all g ps)" "Count t c \<notin> set (hide_all g ps)"
  by (auto simp: hide_all_def)

lemma with_fade_mem [simp]: "(p, f) \<in> set (with_fade g ps) \<longleftrightarrow> g = f \<and> p \<in> set ps"
  by (auto simp: with_fade_def)

lemma select_in_under: "q \<in> set (select_in d p sel) \<Longrightarrow> prefix p q"
  by (simp add: select_in_def strict_prefix_def)

lemma kids_prefix: "q \<in> set (kids d p) \<Longrightarrow> prefix p q"
  using kids_under by (auto simp: strict_prefix_def)

lemma act_simps [simp]:
  "act_shows (Reveal t s xs) = xs" "act_shows (RunCalendar t ps) = with_fade Opacity ps" "act_shows (Hide p f) = []"
  "act_trigger (Reveal t s xs) = Some t" "act_trigger (RunCalendar t ps) = Some t" "act_trigger (Hide p f) = None"
  by (simp_all add: act_shows_def act_trigger_def)

lemma covered_by:
  "a \<in> A \<Longrightarrow> act_trigger a = Some t \<Longrightarrow>
   (\<And>p f. Hide p f \<in> A \<Longrightarrow> (p, f) \<in> set (act_shows a) \<and> prefix t p) \<Longrightarrow> covered_acts A"
  unfolding covered_acts_def by blast

lemma covered_rows: "covered_acts (set (animate_rows d p))"
  by (rule covered_by [of "Reveal p 90 (with_fade AutoAlpha (kids d p))" _ p])
    (auto simp: animate_rows_def Let_def kids_prefix)

lemma covered_strip: "covered_acts (set (animate_strip d p))"
proof (cases "kids d p = []")
  case False
  then show ?thesis
    by (intro covered_by [of "Reveal p 90 (with_fade Opacity (kids d p))" _ p])
      (auto simp: animate_strip_def Let_def kids_prefix)
qed (simp add: animate_strip_def)

lemma covered_calendar: "covered_acts (set (animate_calendar d p))"
proof (cases "calendar_lines d p = []")
  case False
  then show ?thesis
    by (intro covered_by [of "RunCalendar p (calendar_lines d p)" _ p])
      (auto simp: animate_calendar_def Let_def calendar_lines_def dest: select_in_under)
qed (simp add: animate_calendar_def)

lemma covered_seal: "covered_acts (set (animate_seal d p))"
proof -
  define ts where "ts = select_in d p (has_class d [''gauge-tick''])"
  have "\<And>q. q \<in> set ts \<Longrightarrow> prefix p q" by (auto simp: ts_def dest: select_in_under)
  then show ?thesis
    by (intro covered_by [of "Reveal p 88 (with_fade Opacity ts)" _ p])
      (auto simp: animate_seal_def Let_def split: list.splits simp flip: ts_def)
qed

lemma covered_drawing: "covered_acts (set (animateDrawing d p))"
proof -
  define q where "q = (\<lambda>v. select_in d p (attr_is d ''data-draw'' v))"
  have "\<And>v x. x \<in> set (q v) \<Longrightarrow> prefix p x" by (auto simp: q_def dest: select_in_under)
  then show ?thesis
    by (intro covered_by [of "Reveal p 85 (with_fade AutoAlpha (q ''row'') @ with_fade ScaleX (q ''bar'')
          @ with_fade Dash (q ''line'') @ with_fade AutoAlpha (q ''pop''))" _ p])
      (auto simp: animateDrawing_def Let_def simp flip: q_def)
qed

lemma covered_count: "covered_acts (set (animate_count d p))"
  by (simp add: covered_acts_def animate_count_def)

lemma covered_batch: "covered_acts (set (hide_all AutoAlpha ps @ batch ps))"
  unfolding covered_acts_def batch_def by (auto intro: bexI [of _ "Reveal p 92 [(p, AutoAlpha)]" for p])

lemma covered_play: "covered_acts ((\<lambda>p. Play p f) ` S)"
  by (auto simp: covered_acts_def)

lemmas covered_parts = covered_play covered_batch covered_rows covered_drawing covered_strip covered_seal covered_count covered_calendar

lemma direct_covered: "covered_acts (set (direct d))"
proof -
  obtain fs ls where m: "autoMark d = (fs, ls)" by (cases "autoMark d")
  define R where "R = select_all d (has_attr d [''data-reveal''])"
  have "set (direct d) =
      (\<lambda>p. Play p AutoAlpha) ` set (select_all d (has_tag d [''main'']))
      \<union> set (hide_all AutoAlpha R @ batch R) \<union> set (hide_all AutoAlpha fs @ batch fs)
      \<union> (\<Union>l \<in> set ls. set (animate_rows d l)) \<union> (\<Union>s \<in> set (drawings d). set (animateDrawing d s))
      \<union> (\<Union>l \<in> set (select_all d (has_attr d [''data-rows''])). set (if kids d l = [] then [] else animate_rows d l))
      \<union> (\<Union>l \<in> set (select_all d (has_attr d [''data-ticks''])). set (animate_strip d l))
      \<union> (\<Union>l \<in> set (select_all d (has_attr d [''data-seal''])). set (animate_seal d l))
      \<union> (\<Union>l \<in> set (select_all d (has_attr d [''data-count''])). set (animate_count d l))
      \<union> (\<Union>l \<in> set (select_all d (has_attr d [''data-calendar''])). set (animate_calendar d l))"
    unfolding direct_def m Let_def prod.case set_append set_concat set_map image_image R_def by (simp only: Un_ac)
  moreover have "covered_acts (set (if kids d l = [] then [] else animate_rows d l))" for l
    using covered_rows by simp
  ultimately show ?thesis
    by (simp only:) (intro covered_Un covered_UN covered_parts)
qed

lemma hidden_blocked:
  assumes "covered_acts (set acts)" "(p, f) \<in> hidden_after acts entered"
  shows "\<exists>a \<in> set acts. \<exists>t. act_trigger a = Some t \<and> prefix t p \<and> (p, f) \<in> set (act_shows a) \<and> t \<notin> entered"
proof -
  have "Hide p f \<in> set acts" using assms(2) by (auto simp: hidden_after_def hidden_by_def)
  with assms(1) obtain a t where a: "a \<in> set acts" "(p, f) \<in> set (act_shows a)" "act_trigger a = Some t" "prefix t p"
    unfolding covered_acts_def by blast
  moreover have "t \<notin> entered" using assms(2) a(1-3) unfolding hidden_after_def by blast
  ultimately show ?thesis by blast
qed

text \<open>C33: The motion never loses an element.  Whatever the director hides in a document, some trigger it
  creates shows again, with the same property, and that trigger is the element itself or contains
  it, so it fires when the element scrolls into reach; an element is still hidden only while such a
  trigger has not fired, and once the visitor has passed all triggers nothing is hidden.  (The
  opening fade of main is no hiding of this kind: it plays to its end at once.)\<close>

theorem motion_nothing_lost:
  "((p, f) \<in> hidden_by (direct d) \<longrightarrow>
     (\<exists>a \<in> set (direct d). (p, f) \<in> set (act_shows a) \<and> (\<exists>t. act_trigger a = Some t \<and> contains t p)))
   \<and> ((p, f) \<in> hidden_after (direct d) entered \<longrightarrow>
     (\<exists>a \<in> set (direct d). \<exists>t. act_trigger a = Some t \<and> contains t p \<and> (p, f) \<in> set (act_shows a) \<and> t \<notin> entered))
   \<and> hidden_after (direct d) {t. \<exists>a \<in> set (direct d). act_trigger a = Some t} = {}"
proof (intro conjI impI)
  show "\<exists>a \<in> set (direct d). (p, f) \<in> set (act_shows a) \<and> (\<exists>t. act_trigger a = Some t \<and> contains t p)"
    if "(p, f) \<in> hidden_by (direct d)"
    using that direct_covered [of d] by (auto simp: hidden_by_def covered_acts_def contains_def)
  show "\<exists>a \<in> set (direct d). \<exists>t. act_trigger a = Some t \<and> contains t p \<and> (p, f) \<in> set (act_shows a) \<and> t \<notin> entered"
    if "(p, f) \<in> hidden_after (direct d) entered"
    using hidden_blocked [OF direct_covered that] by (simp add: contains_def)
  show "hidden_after (direct d) {t. \<exists>a \<in> set (direct d). act_trigger a = Some t} = {}"
    using hidden_blocked [OF direct_covered] by fastforce
qed

lemma motion_nothing_lost_witness:
  "([1, 1, 0], AutoAlpha) \<in> hidden_by (direct sample_page)
   \<and> (\<exists>a \<in> set (direct sample_page). ([1, 1, 0], AutoAlpha) \<in> set (act_shows a) \<and> (\<exists>t. act_trigger a = Some t \<and> contains t [1, 1, 0]))"
proof -
  have "Hide [1, 1, 0] AutoAlpha \<in> set (animate_rows sample_page [1, 1])"
    by (simp add: animate_rows_def kids_def Let_def sample_page_def)
  then have "([1, 1, 0], AutoAlpha) \<in> hidden_by (direct sample_page)"
    by (simp add: hidden_by_def direct_def sample_marked)
  then show ?thesis using motion_nothing_lost [of "[1, 1, 0]" AutoAlpha sample_page "{}"] by blast
qed

section \<open>calendar-field.tsx\<close>

definition WEEKS :: nat where "WEEKS = 52"
definition CAL_DAYS :: nat where "CAL_DAYS = 7"
definition CAL_MISSED :: "nat list" where "CAL_MISSED = [3 * 7 + 2, 11 * 7 + 5, 19 * 7 + 1, 33 * 7 + 4, 40 * 7 + 6]"

record calendar_totals =
  ct_days :: nat
  ct_missed :: nat
  ct_proofs :: nat

definition calendarTotals :: calendar_totals where
  "calendarTotals =
     \<lparr>ct_days = WEEKS * CAL_DAYS, ct_missed = card (set CAL_MISSED), ct_proofs = WEEKS * CAL_DAYS - card (set CAL_MISSED)\<rparr>"

record cal_cell =
  ce_x :: nat
  ce_y :: nat
  ce_missed :: bool
  ce_today :: bool

definition cal_cell_of :: "nat \<Rightarrow> nat \<Rightarrow> cal_cell" where
  "cal_cell_of week day =
     (let index = week * CAL_DAYS + day
      in \<lparr>ce_x = week * 14 + 2, ce_y = day * 14 + 2, ce_missed = index \<in> set CAL_MISSED,
          ce_today = (index = WEEKS * CAL_DAYS - 1)\<rparr>)"

definition cal_cells :: "cal_cell list" where
  "cal_cells = concat (List.map (\<lambda>week. List.map (cal_cell_of week) [0..<CAL_DAYS]) [0..<WEEKS])"

definition cell_day :: "cal_cell \<Rightarrow> jstr" where
  "cell_day c = (if ce_today c then u ''today'' else if ce_missed c then u ''missed'' else u ''proof'')"

definition cell_base :: "cal_cell \<Rightarrow> jstr" where
  "cell_base c = (if ce_today c then u ''1'' else if ce_missed c then u ''0.9'' else u ''0.22'')"

definition cell_line :: "cal_cell \<Rightarrow> dom" where
  "cell_line c = El ''line''
     ([(''data-day'', cell_day c), (''data-base'', cell_base c), (''x1'', show_nat (ce_x c + 5)), (''y1'', show_nat (ce_y c)),
       (''x2'', show_nat (ce_x c + 5)), (''y2'', show_nat (ce_y c + 10)), (''stroke-width'', u ''2'')]
      @ (if ce_missed c then [(''stroke-dasharray'', u ''2 2'')] else [])
      @ [(''opacity'', cell_base c)]) []"

definition CalendarField :: dom where
  "CalendarField = El ''svg''
     [(''aria-hidden'', u ''true''), (''data-calendar'', []),
      (''viewBox'', u ''0 0 '' @ show_nat (WEEKS * 14) @ u '' '' @ show_nat (CAL_DAYS * 14))]
     (List.map cell_line cal_cells)"

section \<open>animateCalendar\<close>

text \<open>The three figures of the caption: the attributes of each output that is there, and its text.\<close>

record cal_output =
  co_attrs :: "(string \<times> jstr) list"
  co_text :: jstr

record calendar_run =
  ca_day :: "cal_output option"
  ca_proofs :: "cal_output option"
  ca_missed :: "cal_output option"
  ca_progress :: rat
  ca_playing :: bool
  ca_sweep :: bool
  ca_view :: bool

definition write_out :: "nat \<Rightarrow> cal_output option \<Rightarrow> cal_output option" where
  "write_out n = map_option (\<lambda>c. c\<lparr>co_text := show_nat n\<rparr>)"

definition cal_write :: "nat \<Rightarrow> nat \<Rightarrow> nat \<Rightarrow> calendar_run \<Rightarrow> calendar_run" where
  "cal_write day proofs missed s =
     s\<lparr>ca_day := write_out day (ca_day s), ca_proofs := write_out proofs (ca_proofs s), ca_missed := write_out missed (ca_missed s)\<rparr>"

definition printed_text :: "(string \<times> jstr) list \<Rightarrow> jstr" where
  "printed_text a =
     (case map_of a ''data-cal-day'' of Some v \<Rightarrow> v
      | None \<Rightarrow> (case map_of a ''data-cal-proofs'' of Some v \<Rightarrow> v
          | None \<Rightarrow> (case map_of a ''data-cal-missed'' of Some v \<Rightarrow> v | None \<Rightarrow> [])))"

definition restore_out :: "cal_output option \<Rightarrow> cal_output option" where
  "restore_out = map_option (\<lambda>c. c\<lparr>co_text := printed_text (co_attrs c)\<rparr>)"

definition cal_restore :: "calendar_run \<Rightarrow> calendar_run" where
  "cal_restore s =
     s\<lparr>ca_day := restore_out (ca_day s), ca_proofs := restore_out (ca_proofs s), ca_missed := restore_out (ca_missed s)\<rparr>"

text \<open>The loop that counts the missed days before each tick, and all of them.\<close>

fun missed_loop :: "jstr option list \<Rightarrow> nat \<Rightarrow> nat list \<times> nat" where
  "missed_loop [] soFar = ([], soFar)" |
  "missed_loop (day # ds) soFar =
     (let (before, total) = missed_loop ds (if day = Some (u ''missed'') then soFar + 1 else soFar)
      in (soFar # before, total))"

definition frame_missed :: "jstr option list \<Rightarrow> nat \<Rightarrow> nat" where
  "frame_missed days day =
     (let (before, total) = missed_loop days 0
      in if length days \<le> day then total else if day < length before then before ! day else 0)"

definition intro_frame :: "jstr option list \<Rightarrow> rat \<Rightarrow> calendar_run \<Rightarrow> calendar_run" where
  "intro_frame days q s =
     (let day = nat \<lfloor>q * of_nat (length days) + 1 / 2\<rfloor>; missed = frame_missed days day
      in (cal_write day (day - missed) missed s)\<lparr>ca_progress := q\<rparr>)"

definition intro_complete :: "calendar_run \<Rightarrow> calendar_run" where
  "intro_complete s = (cal_restore s)\<lparr>ca_playing := False, ca_sweep := True\<rparr>"

definition cal_enter :: "calendar_run \<Rightarrow> calendar_run" where
  "cal_enter s =
     (let s = s\<lparr>ca_view := True\<rparr>
      in if ca_progress s = 0 then s\<lparr>ca_playing := True\<rparr>
         else if ca_progress s = 1 then s\<lparr>ca_sweep := True\<rparr> else s)"

definition cal_enter_back :: "calendar_run \<Rightarrow> calendar_run" where
  "cal_enter_back s =
     (let s = s\<lparr>ca_view := True\<rparr> in if ca_progress s = 1 then s\<lparr>ca_sweep := True\<rparr> else s)"

definition cal_leave :: "calendar_run \<Rightarrow> calendar_run" where
  "cal_leave s = s\<lparr>ca_view := False, ca_sweep := False\<rparr>"

definition cal_start :: "cal_output option \<Rightarrow> cal_output option \<Rightarrow> cal_output option \<Rightarrow> calendar_run" where
  "cal_start d p m =
     cal_write 0 0 0 \<lparr>ca_day = d, ca_proofs = p, ca_missed = m, ca_progress = 0, ca_playing = False, ca_sweep = False, ca_view = False\<rparr>"

inductive cal_step :: "jstr option list \<Rightarrow> calendar_run \<Rightarrow> calendar_run \<Rightarrow> bool" for days where
  enter: "cal_step days s (cal_enter s)"
| enter_back: "cal_step days s (cal_enter_back s)"
| leave: "cal_step days s (cal_leave s)"
| frame: "ca_playing s \<Longrightarrow> ca_progress s \<le> q \<Longrightarrow> q < 1 \<Longrightarrow> cal_step days s (intro_frame days q s)"
| finish: "ca_playing s \<Longrightarrow> cal_step days s (intro_complete (intro_frame days 1 s))"

definition tick_days :: "dom \<Rightarrow> path \<Rightarrow> jstr option list" where
  "tick_days d svg = List.map (\<lambda>p. case node_at d p of Some e \<Rightarrow> attr ''data-day'' e | None \<Rightarrow> None) (calendar_lines d svg)"

definition sweep_ticks :: "jstr option list \<Rightarrow> nat list" where
  "sweep_ticks days = filter (\<lambda>i. days ! i = Some (u ''proof'')) [0..<length days]"

section \<open>The calendar counts what it shows\<close>

definition missed_among :: "jstr option list \<Rightarrow> nat" where
  "missed_among ds = length (filter (\<lambda>x. x = Some (u ''missed'')) ds)"

lemma missed_loop_spec:
  "missed_loop ds k = (List.map (\<lambda>i. k + missed_among (take i ds)) [0..<length ds], k + missed_among ds)"
proof (induction ds arbitrary: k)
  case (Cons d ds)
  have "[0..<length (d # ds)] = 0 # List.map Suc [0..<length ds]" by (simp add: map_Suc_upt upt_conv_Cons del: upt_Suc)
  then show ?case by (simp add: Cons missed_among_def)
qed (simp add: missed_among_def)

lemma frame_missed_spec: "frame_missed ds day = missed_among (take day ds)"
  by (simp add: frame_missed_def missed_loop_spec)

lemma missed_among_le: "missed_among (take day ds) \<le> day"
  by (metis missed_among_def length_filter_le length_take min.boundedE)

definition shown_texts :: "calendar_run \<Rightarrow> jstr option \<times> jstr option \<times> jstr option" where
  "shown_texts s = (map_option co_text (ca_day s), map_option co_text (ca_proofs s), map_option co_text (ca_missed s))"

definition caption :: "nat \<Rightarrow> nat \<Rightarrow> nat \<Rightarrow> calendar_run \<Rightarrow> jstr option \<times> jstr option \<times> jstr option" where
  "caption a b c s = (map_option (\<lambda>_. show_nat a) (ca_day s), map_option (\<lambda>_. show_nat b) (ca_proofs s), map_option (\<lambda>_. show_nat c) (ca_missed s))"

definition printed :: "calendar_run \<Rightarrow> jstr option \<times> jstr option \<times> jstr option" where
  "printed s = (map_option (\<lambda>o'. printed_text (co_attrs o')) (ca_day s), map_option (\<lambda>o'. printed_text (co_attrs o')) (ca_proofs s),
     map_option (\<lambda>o'. printed_text (co_attrs o')) (ca_missed s))"

definition cal_ok :: "jstr option list \<Rightarrow> calendar_run \<Rightarrow> bool" where
  "cal_ok days s \<longleftrightarrow> 0 \<le> ca_progress s \<and> ca_progress s \<le> 1
     \<and> (ca_progress s < 1 \<longrightarrow> (\<exists>day \<le> length days.
          shown_texts s = caption day (day - missed_among (take day days)) (missed_among (take day days)) s))
     \<and> (ca_progress s = 1 \<longrightarrow> shown_texts s = printed s)
     \<and> (ca_sweep s \<longrightarrow> ca_progress s = 1) \<and> (ca_playing s \<longrightarrow> ca_progress s < 1)"

lemma write_shown [simp]:
  "shown_texts (cal_write a b c s) = caption a b c s" "caption x y z (cal_write a b c s) = caption x y z s"
  "printed (cal_write a b c s) = printed s" "shown_texts (cal_restore s) = printed s" "printed (cal_restore s) = printed s"
  "ca_progress (cal_write a b c s) = ca_progress s" "ca_sweep (cal_write a b c s) = ca_sweep s"
  "ca_playing (cal_write a b c s) = ca_playing s" "ca_progress (cal_restore s) = ca_progress s"
  by (cases "ca_day s"; cases "ca_proofs s"; cases "ca_missed s";
      simp add: shown_texts_def caption_def printed_def cal_write_def write_out_def cal_restore_def restore_out_def)+

lemma shown_frame [simp]:
  "shown_texts (s\<lparr>ca_progress := q\<rparr>) = shown_texts s" "caption a b c (s\<lparr>ca_progress := q\<rparr>) = caption a b c s" "printed (s\<lparr>ca_progress := q\<rparr>) = printed s"
  "shown_texts (s\<lparr>ca_playing := y\<rparr>) = shown_texts s" "caption a b c (s\<lparr>ca_playing := y\<rparr>) = caption a b c s" "printed (s\<lparr>ca_playing := y\<rparr>) = printed s"
  "shown_texts (s\<lparr>ca_sweep := y\<rparr>) = shown_texts s" "caption a b c (s\<lparr>ca_sweep := y\<rparr>) = caption a b c s" "printed (s\<lparr>ca_sweep := y\<rparr>) = printed s"
  "shown_texts (s\<lparr>ca_view := y\<rparr>) = shown_texts s" "caption a b c (s\<lparr>ca_view := y\<rparr>) = caption a b c s" "printed (s\<lparr>ca_view := y\<rparr>) = printed s"
  by (simp_all add: shown_texts_def caption_def printed_def)

lemma frame_day_le: "0 \<le> q \<Longrightarrow> q \<le> (1::rat) \<Longrightarrow> nat \<lfloor>q * of_nat n + 1 / 2\<rfloor> \<le> n"
proof -
  assume q: "0 \<le> q" "q \<le> 1"
  then have "q * of_nat n \<le> of_nat n" by (simp add: mult_left_le_one_le)
  then have "q * of_nat n + 1 / 2 < of_int (int n + 1)" by simp
  then have "\<lfloor>q * of_nat n + 1 / 2\<rfloor> < int n + 1" by (simp only: floor_less_iff)
  then show ?thesis by simp
qed

lemma cal_step_ok: "cal_step days s s' \<Longrightarrow> cal_ok days s \<Longrightarrow> cal_ok days s'"
proof (induction rule: cal_step.induct)
  case (frame s q)
  define day where "day = nat \<lfloor>q * of_nat (length days) + 1 / 2\<rfloor>"
  have q: "0 \<le> q" using frame by (auto simp: cal_ok_def)
  have "day \<le> length days" unfolding day_def using q frame by (intro frame_day_le) auto
  then show ?case using frame q
    by (auto simp: cal_ok_def intro_frame_def Let_def frame_missed_spec simp flip: day_def)
next
  case (finish s)
  then show ?case by (simp add: cal_ok_def intro_frame_def intro_complete_def Let_def)
qed (auto simp: cal_ok_def cal_enter_def cal_enter_back_def cal_leave_def Let_def)

lemma cal_reachable_ok: "(cal_step days)\<^sup>*\<^sup>* (cal_start d p m) s \<Longrightarrow> cal_ok days s"
proof (induction rule: rtranclp_induct)
  case base
  show ?case by (simp add: cal_ok_def cal_start_def missed_among_def) (rule exI [of _ 0], simp)
qed (rule cal_step_ok)

lemma cal_days_field: "tick_days CalendarField [] = List.map (\<lambda>c. Some (cell_day c)) cal_cells"
proof -
  have lines: "kid_paths k (List.map cell_line cs) = List.map (\<lambda>i. [i]) [k..<k + length cs]" for k cs
    by (induction cs arbitrary: k) (simp_all add: cell_line_def upt_conv_Cons del: upt_Suc)
  have "calendar_lines CalendarField [] = List.map (\<lambda>i. [i]) [0..<length cal_cells]"
    by (auto simp: calendar_lines_def select_in_def CalendarField_def lines has_tag_def cell_line_def filter_id_conv)
  then show ?thesis
    by (auto simp: tick_days_def CalendarField_def cell_line_def intro: nth_equalityI)
qed

lemma concat_grid:
  "concat (List.map (\<lambda>w. List.map (\<lambda>i. f (w * k + i)) [0..<k]) [0..<n]) = List.map f [0..<n * k]"
proof (induction n)
  case (Suc n)
  have "Suc n * k = n * k + k" by simp
  then have "[0..<Suc n * k] = [0..<n * k] @ [n * k..<n * k + k]" by (simp only: upt_add_eq_append [OF le0])
  moreover have "List.map f [n * k..<n * k + k] = List.map (\<lambda>i. f (n * k + i)) [0..<k]"
    by (rule nth_equalityI) simp_all
  ultimately show ?case using Suc by simp
qed simp

definition day_at :: "nat \<Rightarrow> jstr" where
  "day_at i = (if i = WEEKS * CAL_DAYS - 1 then u ''today'' else if i \<in> set CAL_MISSED then u ''missed'' else u ''proof'')"

lemma cell_day_at: "cell_day (cal_cell_of week day) = day_at (week * CAL_DAYS + day)"
  by (cases "week * CAL_DAYS + day = WEEKS * CAL_DAYS - 1"; cases "week * CAL_DAYS + day \<in> set CAL_MISSED")
    (simp_all add: cell_day_def cal_cell_of_def day_at_def Let_def)

lemma field_days: "tick_days CalendarField [] = List.map (\<lambda>i. Some (day_at i)) [0..<WEEKS * CAL_DAYS]"
proof -
  have "List.map cell_day cal_cells = List.map day_at [0..<WEEKS * CAL_DAYS]"
    unfolding concat_grid [symmetric]
    by (simp add: cal_cells_def map_concat comp_def cell_day_at)
  then have "List.map Some (List.map cell_day cal_cells) = List.map Some (List.map day_at [0..<WEEKS * CAL_DAYS])" by simp
  then show ?thesis by (simp add: cal_days_field comp_def)
qed

lemma field_missed: "missed_among (tick_days CalendarField []) = ct_missed calendarTotals"
proof -
  have "{i. i < WEEKS * CAL_DAYS \<and> day_at i = u ''missed''} = set CAL_MISSED"
    by (auto simp: day_at_def CAL_MISSED_def WEEKS_def CAL_DAYS_def)
  moreover have "set (filter (\<lambda>i. day_at i = u ''missed'') [0..<WEEKS * CAL_DAYS]) = {i. i < WEEKS * CAL_DAYS \<and> day_at i = u ''missed''}"
    by auto
  ultimately have "length (filter (\<lambda>i. day_at i = u ''missed'') [0..<WEEKS * CAL_DAYS]) = card (set CAL_MISSED)"
    by (metis distinct_card distinct_filter distinct_upt)
  then show ?thesis by (simp add: field_days missed_among_def filter_map comp_def calendarTotals_def)
qed

text \<open>C34: The animated calendar never shows a count that is not true of the days drawn.  However the
  visitor scrolls, while the introduction runs the caption reads some day within the calendar, the
  missed days among the days up to it, and the proofs as the rest, and from its end on the printed
  figures; the sweep runs only after the end.  On the calendar the site draws, the last frame of
  the introduction shows the totals the page prints.\<close>

theorem calendar_counts:
  assumes "(cal_step days)\<^sup>*\<^sup>* (cal_start d p m) s"
  shows "(ca_progress s < 1 \<longrightarrow> (\<exists>day \<le> length days.
           shown_texts s = caption day (length (filter (\<lambda>x. x \<noteq> Some (u ''missed'')) (take day days)))
             (length (filter (\<lambda>x. x = Some (u ''missed'')) (take day days))) s))
    \<and> (ca_progress s = 1 \<longrightarrow> shown_texts s = printed s) \<and> ca_progress s \<le> 1
    \<and> (ca_sweep s \<longrightarrow> ca_progress s = 1)
    \<and> shown_texts (intro_frame (tick_days CalendarField []) 1 s)
        = caption (ct_days calendarTotals) (ct_proofs calendarTotals) (ct_missed calendarTotals) s"
proof -
  have ok: "cal_ok days s" by (rule cal_reachable_ok [OF assms])
  have c: "length (filter (\<lambda>x. x \<noteq> Some (u ''missed'')) (take day days)) = day - missed_among (take day days)"
    if "day \<le> length days" for day
    using sum_length_filter_compl [of "\<lambda>x. x = Some (u ''missed'')" "take day days"] that
    by (simp add: missed_among_def)
  have "\<lfloor>(364::rat) + 1 / 2\<rfloor> = 364" by (simp add: floor_eq_iff)
  then have "shown_texts (intro_frame (tick_days CalendarField []) 1 s)
      = caption (ct_days calendarTotals) (ct_proofs calendarTotals) (ct_missed calendarTotals) s"
    using field_missed field_days
    by (simp add: intro_frame_def Let_def frame_missed_spec calendarTotals_def WEEKS_def CAL_DAYS_def)
  with ok c show ?thesis by (auto simp: cal_ok_def missed_among_def)
qed

lemma calendar_counts_witness:
  "\<exists>s. (cal_step [Some (u ''proof''), Some (u ''missed'')])\<^sup>*\<^sup>* (cal_start None None None) s \<and> ca_sweep s \<and> \<not> ca_view s
     \<and> ca_progress s = 1"
proof -
  let ?ds = "[Some (u ''proof''), Some (u ''missed'')]" and ?a = "cal_start None None None"
  let ?s = "intro_complete (intro_frame ?ds 1 (cal_leave (cal_enter ?a)))"
  have e: "ca_playing (cal_leave (cal_enter ?a))"
    by (simp add: cal_leave_def cal_enter_def cal_start_def)
  have r: "(cal_step ?ds)\<^sup>*\<^sup>* ?a ?s"
    by (meson cal_step.enter cal_step.leave cal_step.finish [OF e] rtranclp.rtrancl_into_rtrancl rtranclp.rtrancl_refl)
  have "ca_sweep ?s" by (simp add: intro_complete_def)
  moreover have "\<not> ca_view ?s"
    by (simp add: intro_complete_def intro_frame_def cal_restore_def cal_write_def cal_leave_def Let_def)
  ultimately show ?thesis using r calendar_counts [OF r] by blast
qed

end
