(* ===== verification/Opening.thy ===== *)
theory Opening
  imports Motion
begin

text \<open>
  The loop of the home page's opening (apps/website/src/features/home/hooks/use-opening-loop.ts), the
  stage that scrolls through the five steps of a record (hooks/use-record-stage.ts,
  components/record-stage.tsx) and the figures that count up (\<open>countUp\<close> of
  hooks/use-motion-director.ts).  The browser's part is a sequence of events: entries of the
  intersection observer, changes of the motion preference and of the page's visibility, timer
  ticks, frames of a tween with the value it has reached, scroll positions.
\<close>

section \<open>Numbers in texts\<close>

text \<open>\<open>Number(s)\<close> on the texts these hooks read: a plain decimal, or something that is not a number.\<close>

definition decimal_number :: "jstr \<Rightarrow> rat option" where
  "decimal_number s =
     (let w = takeWhile is_digit s; r = dropWhile is_digit s
      in case r of
           [] \<Rightarrow> if w = [] then None else Some (dbl (of_nat (dec_val w)))
         | c # f \<Rightarrow>
             if c = 46 \<and> list_all is_digit f \<and> w @ f \<noteq> []
             then Some (dbl (of_nat (dec_val (w @ f)) / 10 ^ length f)) else None)"

section \<open>use-opening-loop.ts\<close>

record opening_loop =
  ol_index :: int
  ol_running :: bool
  ol_visible :: bool
  ol_reduced :: bool
  ol_hidden :: bool

definition loop_sync :: "opening_loop \<Rightarrow> opening_loop" where
  "loop_sync s = s\<lparr>ol_running := ol_visible s \<and> \<not> ol_reduced s \<and> \<not> ol_hidden s\<rparr>"

definition loop_start :: "int \<Rightarrow> bool \<Rightarrow> bool \<Rightarrow> opening_loop" where
  "loop_start days reduced hidden =
     \<lparr>ol_index = days - 1, ol_running = False, ol_visible = False, ol_reduced = reduced, ol_hidden = hidden\<rparr>"

text \<open>The second effect runs a timer exactly while the loop runs and there is more than one day.\<close>

definition loop_ticking :: "int \<Rightarrow> opening_loop \<Rightarrow> bool" where
  "loop_ticking days s \<longleftrightarrow> ol_running s \<and> \<not> days < 2"

inductive loop_step :: "int \<Rightarrow> opening_loop \<Rightarrow> opening_loop \<Rightarrow> bool" for days where
  observe: "loop_step days s (loop_sync (s\<lparr>ol_visible := list_ex (\<lambda>intersecting. intersecting) entries\<rparr>))"
| preference: "loop_step days s (loop_sync (s\<lparr>ol_reduced := r\<rparr>))"
| visibility: "loop_step days s (loop_sync (s\<lparr>ol_hidden := h\<rparr>))"
| tick: "loop_ticking days s \<Longrightarrow> loop_step days s (s\<lparr>ol_index := nextDay (ol_index s) days\<rparr>)"

inductive_cases loop_stepE: "loop_step days s s'"

text \<open>The figure of the meter while its tween runs.  The attributes hold numbers: \<open>None\<close> is not a
  number, and the attribute \<open>data-hero-from\<close> is missing before the first tween.\<close>

record hero_figure =
  hf_value :: "rat option"
  hf_from :: "rat option option"
  hf_state :: "rat option"
  hf_text :: jstr

definition hero_begin :: "jstr \<Rightarrow> hero_figure \<Rightarrow> hero_figure" where
  "hero_begin value f =
     (let target = decimal_number value; from = (case hf_from f of Some x \<Rightarrow> x | None \<Rightarrow> target)
      in f\<lparr>hf_value := target, hf_state := (if from \<noteq> None then from else target), hf_from := Some target\<rparr>)"

definition hero_frame :: "rat option \<Rightarrow> hero_figure \<Rightarrow> hero_figure" where
  "hero_frame v f =
     f\<lparr>hf_state := v, hf_text := (case v of Some x \<Rightarrow> to_fixed 2 x | None \<Rightarrow> u ''NaN'') @ u ''%''\<rparr>"

definition hero_end :: "hero_figure \<Rightarrow> hero_figure" where
  "hero_end f = hero_frame (hf_value f) f"

text \<open>What the opening renders for a day: the text, and the attribute the tween reads.\<close>

definition hero_percent :: "day_result \<Rightarrow> jstr" where
  "hero_percent day = (case coveragePercent (dr_owed day) (dr_held day) of Some p \<Rightarrow> p | None \<Rightarrow> u ''Unknown'')"

definition drop_percent :: "jstr \<Rightarrow> jstr" where
  "drop_percent s = takeWhile (\<lambda>c. c \<noteq> 37) s @ drop 1 (dropWhile (\<lambda>c. c \<noteq> 37) s)"

section \<open>countUp\<close>

definition count_match :: "jstr \<Rightarrow> (jstr \<times> jstr \<times> jstr) option" where
  "count_match text =
     (let t = trim text; dc = (\<lambda>c. is_digit c \<or> c = 44); whole = takeWhile dc t; r = dropWhile dc t;
          f = takeWhile is_digit (drop 1 r);
          dotted = (take 1 r = [46] \<and> f \<noteq> []);
          fraction = (if dotted then f else []);
          sfx = (if dotted then dropWhile is_digit (drop 1 r) else r)
      in if whole = [] \<or> list_ex line_break_char sfx then None else Some (whole, fraction, sfx))"

record counted =
  cn_text :: jstr
  cn_saved :: "jstr option"
  cn_run :: "(rat \<times> nat \<times> jstr \<times> jstr) option"

text \<open>A run is its target, its decimals, its suffix and the text it began with.\<close>

definition countUp :: "counted \<Rightarrow> counted" where
  "countUp e =
     (let text = (case cn_saved e of Some t \<Rightarrow> t | None \<Rightarrow> cn_text e); e = e\<lparr>cn_saved := Some text\<rparr>
      in case count_match text of
           None \<Rightarrow> e
         | Some (whole, fraction, sfx) \<Rightarrow>
             (case decimal_number (filter (\<lambda>c. c \<noteq> 44) whole @ 46 # (if fraction = [] then u ''0'' else fraction)) of
                None \<Rightarrow> e
              | Some target \<Rightarrow> if target = 0 then e else e\<lparr>cn_run := Some (target, length fraction, sfx, text)\<rparr>))"

definition count_frame :: "rat \<Rightarrow> counted \<Rightarrow> counted" where
  "count_frame v e =
     (case cn_run e of None \<Rightarrow> e
      | Some (target, decimals, sfx, text) \<Rightarrow> e\<lparr>cn_text := to_locale decimals v @ sfx\<rparr>)"

text \<open>\<open>onComplete\<close> and \<open>onInterrupt\<close> do the same.\<close>

definition count_end :: "counted \<Rightarrow> counted" where
  "count_end e =
     (case cn_run e of None \<Rightarrow> e
      | Some (target, decimals, sfx, text) \<Rightarrow> e\<lparr>cn_text := text, cn_run := None\<rparr>)"

inductive count_step :: "counted \<Rightarrow> counted \<Rightarrow> bool" where
  started: "cn_run e = None \<Longrightarrow> count_step e (countUp e)"
| frame: "count_step e (count_frame v e)"
| finish: "count_step e (count_end e)"

section \<open>use-record-stage.ts\<close>

record record_stage =
  rs_step :: int
  rs_pinned :: bool
  rs_trigger :: "(rat \<times> rat) option"

definition stage_start :: record_stage where
  "stage_start = \<lparr>rs_step = 1, rs_pinned = False, rs_trigger = None\<rparr>"

text \<open>The media query, and the effect that builds or takes down the trigger between two scroll positions.\<close>

definition stage_media :: "bool \<Rightarrow> (rat \<times> rat) option \<Rightarrow> record_stage \<Rightarrow> record_stage" where
  "stage_media matches extent s =
     (if matches = rs_pinned s then s
      else s\<lparr>rs_pinned := matches, rs_trigger := (if matches then extent else None)\<rparr>)"

definition stage_scroll :: "int \<Rightarrow> rat \<Rightarrow> record_stage \<Rightarrow> record_stage" where
  "stage_scroll steps progress s = (if rs_trigger s = None then s else s\<lparr>rs_step := stepAt progress steps\<rparr>)"

definition goTo :: "int \<Rightarrow> int \<Rightarrow> record_stage \<Rightarrow> record_stage \<times> rat option" where
  "goTo steps next s =
     (case rs_trigger s of
        Some (start, end') \<Rightarrow>
          if rs_pinned s then (s, Some (start + stepOffset next steps * (end' - start))) else (s\<lparr>rs_step := next\<rparr>, None)
      | None \<Rightarrow> (s\<lparr>rs_step := next\<rparr>, None))"

inductive stage_step :: "int \<Rightarrow> record_stage \<Rightarrow> record_stage \<Rightarrow> bool" for steps where
  media: "stage_step steps s (stage_media b extent s)"
| scroll: "0 \<le> p \<Longrightarrow> p \<le> 1 \<Longrightarrow> stage_step steps s (stage_scroll steps p s)"
| button: "1 \<le> n \<Longrightarrow> n \<le> steps \<Longrightarrow> stage_step steps s (fst (goTo steps n s))"

definition STAGE_STEPS :: "jstr list" where
  "STAGE_STEPS = List.map u [''Balances'', ''Commit'', ''Proof'', ''Verify'', ''Record'']"

definition stage_caption :: "int \<Rightarrow> jstr" where
  "stage_caption step =
     u ''Step '' @ show_int step @ u '' of '' @ show_nat (length STAGE_STEPS) @ [32, 0xB7, 32]
       @ (if 1 \<le> step \<and> step \<le> int (length STAGE_STEPS) then STAGE_STEPS ! nat (step - 1) else [])"

section \<open>The loop\<close>

definition loop_ok :: "int \<Rightarrow> opening_loop \<Rightarrow> bool" where
  "loop_ok days s \<longleftrightarrow> 0 \<le> ol_index s \<and> ol_index s < days
     \<and> (ol_running s \<longrightarrow> ol_visible s \<and> \<not> ol_reduced s \<and> \<not> ol_hidden s)"

lemma loop_step_ok: "loop_step days s s' \<Longrightarrow> 0 < days \<Longrightarrow> loop_ok days s \<Longrightarrow> loop_ok days s'"
  by (induction rule: loop_step.induct) (auto simp: loop_ok_def loop_sync_def nextDay_range)

lemma loop_reachable_ok: "(loop_step days)\<^sup>*\<^sup>* (loop_start days r h) s \<Longrightarrow> 0 < days \<Longrightarrow> loop_ok days s"
proof (induction rule: rtranclp_induct)
  case base
  then show ?case by (simp add: loop_ok_def loop_start_def)
qed (auto intro: loop_step_ok)

section \<open>Texts through numbers\<close>

lemma takeWhile_digits_dot:
  "\<forall>c \<in> set w. is_digit c \<Longrightarrow> takeWhile is_digit (w @ 46 # f) = w" "\<forall>c \<in> set w. is_digit c \<Longrightarrow> dropWhile is_digit (w @ 46 # f) = 46 # f"
  by (rule span_stop; simp add: is_digit_def)+

lemma decimal_number_dot:
  assumes "\<forall>c \<in> set w. is_digit c" "\<forall>c \<in> set f. is_digit c" "w @ f \<noteq> []"
  shows "decimal_number (w @ 46 # f) = Some (dbl (of_nat (dec_val w * 10 ^ length f + dec_val f) / 10 ^ length f))"
  using assms takeWhile_digits_dot [OF assms(1), of f]
  by (simp add: decimal_number_def Let_def list_all_iff dec_val_append)

lemma decimal_text_parts:
  assumes "0 < k"
  shows "fixed_digits k n = show_nat (n div 10 ^ k) @ 46 # pad_left k (show_nat (n mod 10 ^ k))"
    "length (pad_left k (show_nat (n mod 10 ^ k))) = k"
  using pad_show_length [of "n mod 10 ^ k" k] assms by (simp_all add: fixed_digits_def u_def)

lemma decimal_number_fixed:
  assumes "0 < k"
  shows "decimal_number (fixed_digits k n) = Some (dbl (of_nat n / 10 ^ k))"
proof -
  have "decimal_number (fixed_digits k n) = Some (dbl (of_nat (n div 10 ^ k * 10 ^ k + n mod 10 ^ k) / 10 ^ k))"
    unfolding decimal_text_parts(1) [OF assms]
    using decimal_number_dot [OF show_nat_all_digits pad_left_digits [OF show_nat_all_digits],
        of "n div 10 ^ k" k "n mod 10 ^ k"] decimal_text_parts(2) [OF assms, of n]
    by simp
  then show ?thesis by (simp only: div_mult_mod_eq)
qed

lemma drop_percent_fixed: "drop_percent (fixed_digits k n @ u ''%'') = fixed_digits k n"
proof -
  have p: "u ''%'' = [37]" by (simp add: u_def)
  have "\<forall>c \<in> set (fixed_digits k n). c \<noteq> 37"
    using show_nat_all_digits [of "n div 10 ^ k"] pad_left_digits [OF show_nat_all_digits, of k "n mod 10 ^ k"]
    by (auto simp: fixed_digits_def u_def is_digit_def)
  then show ?thesis unfolding drop_percent_def p by (simp add: span_stop)
qed

text \<open>The opening of the home page names a day of its record, moves on only when it may, and its
  meter settles on the printed coverage.  In every reachable state the index is a day of the
  list; it changes only by one day forward, cyclically, and only while the figure is in view, motion is not
  reduced and the page is visible.  For a day with a positive amount owed, whatever the meter
  showed before, its tween ends on the very percentage the page prints, although it passed through
  a double.\<close>

theorem opening_loop_sound:
  assumes "(loop_step days)\<^sup>*\<^sup>* (loop_start days r h) s" "0 < days"
    and "0 < dr_owed day" "0 \<le> dr_held day" "dr_held day * 10000 div dr_owed day < 2 ^ 52"
  shows "0 \<le> ol_index s \<and> ol_index s < days
    \<and> (loop_step days s s' \<and> ol_index s' \<noteq> ol_index s \<longrightarrow>
         ol_index s' = (ol_index s + 1) mod days \<and> ol_visible s \<and> \<not> ol_reduced s \<and> \<not> ol_hidden s)
    \<and> hf_text (hero_end (hero_begin (drop_percent (hero_percent day)) f)) = hero_percent day
    \<and> Some (hero_percent day) = coveragePercent (dr_owed day) (dr_held day)"
proof -
  have ok: "loop_ok days s" by (rule loop_reachable_ok [OF assms(1,2)])
  define b where "b = nat (dr_held day * 10000 div dr_owed day)"
  have p: "coveragePercent (dr_owed day) (dr_held day) = Some (fixed_digits 2 b @ u ''%'')"
    using coveragePercent_nonneg [OF assms(3,4)] by (simp add: b_def)
  have b: "b < 2 ^ 52" using assms(5) by (simp add: b_def nat_less_iff)
  have n: "decimal_number (drop_percent (hero_percent day)) = Some (dbl (of_nat b / 10 ^ 2))"
    by (simp only: hero_percent_def p option.case drop_percent_fixed) (simp add: decimal_number_fixed)
  have "hf_text (hero_end (hero_begin (drop_percent (hero_percent day)) f)) = to_fixed 2 (dbl (of_nat b / 10 ^ 2)) @ u ''%''"
    by (simp add: hero_end_def hero_begin_def hero_frame_def Let_def n)
  also have "\<dots> = fixed_digits 2 b @ u ''%''"
    using to_fixed_decimal [OF b, of 2] by (simp add: decimal_text_def)
  finally have "hf_text (hero_end (hero_begin (drop_percent (hero_percent day)) f)) = hero_percent day"
    by (simp add: hero_percent_def p)
  moreover have "ol_index s' = (ol_index s + 1) mod days \<and> ol_visible s \<and> \<not> ol_reduced s \<and> \<not> ol_hidden s"
    if "loop_step days s s'" "ol_index s' \<noteq> ol_index s"
    using that ok by (elim loop_stepE) (auto simp: loop_sync_def loop_ticking_def loop_ok_def nextDay_def)
  ultimately show ?thesis using ok p by (auto simp: loop_ok_def hero_percent_def)
qed

lemma opening_loop_sound_witness:
  "ol_index (loop_start 7 False False) = 6
   \<and> hf_text (hero_end (hero_begin (drop_percent (hero_percent \<lparr>dr_date = [], dr_state = Short, dr_owed = 290455000, dr_held = 286100410, dr_ledger = None\<rparr>))
       \<lparr>hf_value = None, hf_from = None, hf_state = None, hf_text = []\<rparr>)) = u ''98.50%''"
proof -
  let ?day = "\<lparr>dr_date = [], dr_state = Short, dr_owed = 290455000, dr_held = 286100410, dr_ledger = None\<rparr>"
  note t = opening_loop_sound [of 7 False False "loop_start 7 False False" ?day "loop_start 7 False False"
      "\<lparr>hf_value = None, hf_from = None, hf_state = None, hf_text = []\<rparr>"]
  have "coveragePercent (dr_owed ?day) (dr_held ?day) = Some (u ''98.50%'')"
    by (simp add: coveragePercent_def Let_def sdiv_nonneg show_int_def show_nat.simps pad_left_def u_def)
  then have "hero_percent ?day = u ''98.50%''" by (simp add: hero_percent_def)
  with t show ?thesis by (simp add: loop_start_def)
qed

section \<open>Counting up\<close>

definition digit_or_comma :: "nat \<Rightarrow> bool" where "digit_or_comma c \<longleftrightarrow> is_digit c \<or> c = 44"

lemma group_digits_chars: "\<forall>c \<in> set ds. is_digit c \<Longrightarrow> \<forall>c \<in> set (group_digits ds). digit_or_comma c"
  by (induction ds rule: group_digits.induct) (auto simp: digit_or_comma_def split: if_splits)

lemma ungroup_digits: "\<forall>c \<in> set ds. is_digit c \<Longrightarrow> filter (\<lambda>c. c \<noteq> 44) (group_digits ds) = ds"
  by (induction ds rule: group_digits.induct) (auto simp: is_digit_def)

lemma group_digits_Nil [simp]: "group_digits ds = [] \<longleftrightarrow> ds = []"
  by (cases ds) auto

lemma format_amount_parts:
  "formatAmount (int n) k =
     group_digits (show_nat (n div 10 ^ k)) @ (if k = 0 then [] else 46 # pad_left k (show_nat (n mod 10 ^ k)))"
proof -
  have "int n div 10 ^ k = int (n div 10 ^ k)" "int n mod 10 ^ k = int (n mod 10 ^ k)"
    by (simp_all add: zdiv_int zmod_int)
  then show ?thesis
    by (simp only: formatAmount_def Let_def show_int_def of_nat_less_0_iff if_False nat_int append_Nil) (simp add: u_def)
qed

lemma pad_show_not_Nil [simp]: "pad_left k (show_nat n) \<noteq> []"
  by (simp add: pad_left_def)

lemma doc_not_ws: "digit_or_comma c \<Longrightarrow> \<not> is_ws c" "digit_or_comma c \<or> c = 46 \<Longrightarrow> \<not> is_ws c"
  by (auto simp: digit_or_comma_def is_digit_def is_ws_def)

text \<open>A suffix the regular expression leaves alone.\<close>

definition plain_suffix :: "jstr \<Rightarrow> bool" where
  "plain_suffix s \<longleftrightarrow> \<not> list_ex line_break_char s \<and> (s = [] \<or> \<not> digit_or_comma (hd s) \<and> hd s \<noteq> 46 \<and> \<not> is_ws (last s))"

lemma plain_stop:
  assumes "plain_suffix s"
  shows "takeWhile digit_or_comma s = []" "dropWhile digit_or_comma s = s" "takeWhile is_digit s = []" "dropWhile is_digit s = s" "take 1 s \<noteq> [46]"
  using assms by (cases s; simp add: plain_suffix_def digit_or_comma_def)+

lemma span_app:
  "\<forall>c \<in> set w. P c \<Longrightarrow> takeWhile P (w @ r) = w @ takeWhile P r" "\<forall>c \<in> set w. P c \<Longrightarrow> dropWhile P (w @ r) = dropWhile P r"
  by (simp_all add: takeWhile_append2 dropWhile_append2)

lemma amount_trim:
  assumes "plain_suffix sfx"
  shows "trim (formatAmount (int n) k @ sfx) = formatAmount (int n) k @ sfx"
proof (rule trim_id)
  let ?a = "formatAmount (int n) k"
  have "\<forall>c \<in> set ?a. digit_or_comma c \<or> c = 46"
    using group_digits_chars [OF show_nat_all_digits, of "n div 10 ^ k"] pad_left_digits [OF show_nat_all_digits, of k "n mod 10 ^ k"]
    by (auto simp: format_amount_parts digit_or_comma_def)
  then have c: "\<not> is_ws c" if "c \<in> set ?a" for c using that doc_not_ws by blast
  have a: "?a \<noteq> []" by (simp add: format_amount_parts)
  then show "?a @ sfx \<noteq> []" by simp
  show "\<not> is_ws (hd (?a @ sfx))" using a c by simp
  show "\<not> is_ws (last (?a @ sfx))" using a c [of "last ?a"] assms by (cases "sfx = []") (auto simp: plain_suffix_def)
qed

lemma amount_match:
  assumes "plain_suffix sfx"
  shows "count_match (formatAmount (int n) k @ sfx) =
    Some (group_digits (show_nat (n div 10 ^ k)), if k = 0 then [] else pad_left k (show_nat (n mod 10 ^ k)), sfx)"
proof -
  let ?w = "group_digits (show_nat (n div 10 ^ k))" and ?f = "pad_left k (show_nat (n mod 10 ^ k))"
  have w: "\<forall>c \<in> set ?w. digit_or_comma c" by (rule group_digits_chars [OF show_nat_all_digits])
  have f: "\<forall>c \<in> set ?f. is_digit c" by (rule pad_left_digits [OF show_nat_all_digits])
  have dot: "\<not> digit_or_comma 46" by (simp add: digit_or_comma_def is_digit_def)
  have lb: "\<not> list_ex line_break_char sfx" using assms by (simp add: plain_suffix_def)
  have dc: "(\<lambda>c. is_digit c \<or> c = 44) = digit_or_comma" by (simp add: digit_or_comma_def fun_eq_iff)
  note sp = span_app [OF w] span_app [OF f] plain_stop [OF assms]
  show ?thesis
  proof (cases "k = 0")
    case True
    then show ?thesis
      unfolding count_match_def amount_trim [OF assms] dc Let_def using lb sp
      by (simp add: format_amount_parts)
  next
    case False
    then show ?thesis
      unfolding count_match_def amount_trim [OF assms] dc Let_def using lb sp False dot
      by (simp add: format_amount_parts)
  qed
qed

lemma amount_number:
  "decimal_number (filter (\<lambda>c. c \<noteq> 44) (group_digits (show_nat (n div 10 ^ k))) @ 46 #
      (if (if k = 0 then [] else pad_left k (show_nat (n mod 10 ^ k))) = [] then u ''0'' else (if k = 0 then [] else pad_left k (show_nat (n mod 10 ^ k)))))
   = Some (dbl (of_nat n / 10 ^ k))"
proof (cases "k = 0")
  case True
  have z: "u ''0'' = [48]" "dec_val [48] = 0" by (simp_all add: u_def dec_val_Cons)
  have "decimal_number (show_nat n @ 46 # [48]) = Some (dbl (of_nat n))"
    using decimal_number_dot [OF show_nat_all_digits [of n], of "[48]"] by (simp add: z is_digit_def)
  then show ?thesis using True by (simp add: ungroup_digits show_nat_all_digits z)
next
  case False
  then have k: "0 < k" by simp
  then show ?thesis
    using False decimal_number_fixed [OF k, of n] decimal_text_parts(1) [OF k, of n]
    by (simp add: ungroup_digits show_nat_all_digits)
qed

definition count_ok :: "jstr \<Rightarrow> counted \<Rightarrow> bool" where
  "count_ok t e \<longleftrightarrow> (case cn_run e of None \<Rightarrow> cn_text e = t | Some (target, k, sfx, text) \<Rightarrow> text = t \<and> target \<noteq> 0 \<and> cn_saved e = Some t)
     \<and> (cn_saved e = None \<or> cn_saved e = Some t)"

lemma countUp_cases:
  "cn_run e = None \<Longrightarrow>
   countUp e = e\<lparr>cn_saved := Some (case cn_saved e of Some t \<Rightarrow> t | None \<Rightarrow> cn_text e)\<rparr>
   \<or> (\<exists>target k sfx. target \<noteq> 0 \<and> countUp e = e\<lparr>cn_saved := Some (case cn_saved e of Some t \<Rightarrow> t | None \<Rightarrow> cn_text e),
        cn_run := Some (target, k, sfx, case cn_saved e of Some t \<Rightarrow> t | None \<Rightarrow> cn_text e)\<rparr>)"
  unfolding countUp_def Let_def by (auto split: option.splits)

lemma count_step_ok: "count_step e e' \<Longrightarrow> count_ok t e \<Longrightarrow> count_ok t e'"
proof (induction rule: count_step.induct)
  case (started e)
  then have "(case cn_saved e of Some x \<Rightarrow> x | None \<Rightarrow> cn_text e) = t" by (auto simp: count_ok_def)
  with countUp_cases [OF started(1)] started show ?case by (auto simp: count_ok_def)
next
  case (frame e v)
  then show ?case by (auto simp: count_ok_def count_frame_def split: option.splits)
next
  case (finish e)
  then show ?case by (auto simp: count_ok_def count_end_def split: option.splits)
qed

text \<open>A figure that counts up ends on the text it began with.  However often the tween is started,
  drawn, finished or interrupted, at rest the element shows its own text, and ending a running
  tween restores it.  For a text that is a printed amount of less than \<open>2^52\<close> units, with any
  suffix the expression leaves alone, the run begins, its target is that amount as a double, and
  already the frame at the target shows the text: rounding through the double and the locale
  format loses no digit.\<close>

theorem count_up_restores:
  assumes "count_step\<^sup>*\<^sup>* \<lparr>cn_text = t, cn_saved = None, cn_run = None\<rparr> e"
  shows "(cn_run e = None \<longrightarrow> cn_text e = t) \<and> cn_text (count_end e) = t \<and> cn_run (count_end e) = None
    \<and> (t = formatAmount (int n) k @ sfx \<and> 0 < n \<and> n < 2 ^ 52 \<and> k \<le> 300 \<and> plain_suffix sfx \<and> cn_run e = None \<longrightarrow>
        cn_run (countUp e) = Some (dbl (of_nat n / 10 ^ k), k, sfx, t)
        \<and> cn_text (count_frame (dbl (of_nat n / 10 ^ k)) (countUp e)) = t)"
proof -
  have ok: "count_ok t e" using assms
  proof (induction rule: rtranclp_induct)
    case base
    show ?case by (simp add: count_ok_def)
  qed (rule count_step_ok)
  have "cn_run (countUp e) = Some (dbl (of_nat n / 10 ^ k), k, sfx, t)
      \<and> cn_text (count_frame (dbl (of_nat n / 10 ^ k)) (countUp e)) = t"
    if h: "t = formatAmount (int n) k @ sfx" "0 < n" "n < 2 ^ 52" "k \<le> 300" "plain_suffix sfx" "cn_run e = None"
  proof -
    have t: "(case cn_saved e of Some x \<Rightarrow> x | None \<Rightarrow> cn_text e) = t" using ok h(6) by (auto simp: count_ok_def)
    have "0 < dbl (of_nat n / 10 ^ k)"
      using dbl_pos normal_decimal [OF h(4,2)] h(2) by simp
    then have run: "cn_run (countUp e) = Some (dbl (of_nat n / 10 ^ k), k, sfx, t)"
      using amount_match [OF h(5), of n k] amount_number [of n k] h(1) decimal_text_parts(2) [of k n]
      by (simp add: countUp_def Let_def t)
    have "to_locale k (dbl (of_nat n / 10 ^ k)) @ sfx = t" using to_locale_decimal [OF h(3,4)] h(1) by simp
    with run show ?thesis by (simp add: count_frame_def)
  qed
  with ok show ?thesis by (auto simp: count_ok_def count_end_def split: option.splits)
qed

lemma count_up_restores_witness:
  "cn_text (count_frame (dbl (of_nat 25190211550 / 10 ^ 2)) (countUp \<lparr>cn_text = formatAmount 25190211550 2 @ u '' ARSK'', cn_saved = None, cn_run = None\<rparr>))
     = formatAmount 25190211550 2 @ u '' ARSK''"
  using count_up_restores [of "formatAmount 25190211550 2 @ u '' ARSK''"
      "\<lparr>cn_text = formatAmount 25190211550 2 @ u '' ARSK'', cn_saved = None, cn_run = None\<rparr>" 25190211550 2 "u '' ARSK''"]
  by (simp add: plain_suffix_def u_def line_break_char_def digit_or_comma_def is_digit_def is_ws_def)

section \<open>The stage\<close>

definition stage_ok :: "int \<Rightarrow> record_stage \<Rightarrow> bool" where
  "stage_ok steps s \<longleftrightarrow> 1 \<le> rs_step s \<and> rs_step s \<le> steps \<and> (rs_trigger s \<noteq> None \<longrightarrow> rs_pinned s)"

lemma stage_step_ok: "stage_step steps s s' \<Longrightarrow> 1 \<le> steps \<Longrightarrow> stage_ok steps s \<Longrightarrow> stage_ok steps s'"
  by (induction rule: stage_step.induct)
    (auto simp: stage_ok_def stage_media_def stage_scroll_def goTo_def stepAt_range split: option.splits)

text \<open>The stage of the five steps always shows one of them, and a picked step is the one shown.  In every
  reachable state the step is in range, so the caption names it; picking a step shows it at once
  when the page is not pinned, and otherwise scrolls to a position from which the trigger's own
  progress selects exactly that step.\<close>

theorem record_stage_sound:
  assumes "(stage_step steps)\<^sup>*\<^sup>* stage_start s" "1 \<le> steps" "1 \<le> n" "n \<le> steps"
    and "\<forall>a b. rs_trigger s = Some (a, b) \<longrightarrow> a < b"
  shows "1 \<le> rs_step s \<and> rs_step s \<le> steps
    \<and> (case goTo steps n s of
         (s', None) \<Rightarrow> rs_step s' = n
       | (s', Some y) \<Rightarrow> s' = s \<and> (\<exists>a b. rs_trigger s = Some (a, b)
            \<and> rs_step (stage_scroll steps ((y - a) / (b - a)) s) = n))"
proof -
  have ok: "stage_ok steps s" using assms(1)
  proof (induction rule: rtranclp_induct)
    case base
    show ?case using assms(2) by (simp add: stage_ok_def stage_start_def)
  qed (auto intro: stage_step_ok assms(2))
  show ?thesis
  proof (cases "rs_trigger s")
    case (Some ab)
    obtain a b where ab: "ab = (a, b)" by (cases ab)
    with Some assms(5) have "a < b" by blast
    then have "(a + stepOffset n steps * (b - a) - a) / (b - a) = stepOffset n steps" by (simp add: field_simps)
    moreover have "stepAt (stepOffset n steps) steps = n" using assms by (intro stepAt_stepOffset) auto
    ultimately show ?thesis using ok Some ab by (simp add: goTo_def stage_scroll_def stage_ok_def)
  qed (use ok in \<open>simp add: goTo_def stage_ok_def\<close>)
qed

section \<open>The gate\<close>

text \<open>lib/motion-gate.ts: the style sheet hides marked elements while the document has the class \<open>motion\<close>;
  the script sets it before the first paint, and takes it back after 2.5 seconds unless a motion hook
  has run by then.\<close>

record motion_gate =
  mg_class :: bool
  mg_ready :: bool
  mg_timer :: bool

definition gate_script :: "bool \<Rightarrow> motion_gate \<Rightarrow> motion_gate" where
  "gate_script reduced g = (if reduced then g else g\<lparr>mg_class := True, mg_timer := True\<rparr>)"

definition markMotionReady :: "motion_gate \<Rightarrow> motion_gate" where
  "markMotionReady g = g\<lparr>mg_ready := True\<rparr>"

definition gate_timer :: "motion_gate \<Rightarrow> motion_gate" where
  "gate_timer g = (if mg_timer g then g\<lparr>mg_timer := False, mg_class := (mg_class g \<and> mg_ready g)\<rparr> else g)"

inductive gate_reach :: "bool \<Rightarrow> motion_gate \<Rightarrow> bool" for reduced where
  loaded: "gate_reach reduced (gate_script reduced \<lparr>mg_class = False, mg_ready = False, mg_timer = False\<rparr>)"
| ready: "gate_reach reduced g \<Longrightarrow> gate_reach reduced (markMotionReady g)"
| timer: "gate_reach reduced g \<Longrightarrow> gate_reach reduced (gate_timer g)"

text \<open>Without a motion hook the page is readable from the end of the timer on, and with reduced motion
  from the start.\<close>

lemma gate_never_traps:
  "gate_reach reduced g \<Longrightarrow> (mg_class g \<longrightarrow> \<not> reduced \<and> (mg_ready g \<or> mg_timer g))"
  by (induction rule: gate_reach.induct) (auto simp: gate_script_def markMotionReady_def gate_timer_def)

end
