(* ===== verification/Site_Figures.thy ===== *)
theory Site_Figures
  imports Opening Site_Parts
begin

text \<open>
  The drawn explanations of the web site: the figure of the home page with its five steps
  (apps/website/src/features/home/components/stage-figure.tsx, record-stage.tsx) and the figures and
  the walk of the page that explains a record (features/product/components/how-it-works/
  step-figures.tsx, step-details.tsx, result-meanings.tsx, steps.tsx).  Drawings are \<open>Dom\<close> trees
  with their coordinates, which are whole numbers; the ends of the ring's ticks, which need sine and
  cosine, and all fills and fonts are left out.
\<close>

section \<open>Drawing\<close>

definition num :: "string \<Rightarrow> nat \<Rightarrow> string \<times> jstr" where
  "num k n = (k, show_nat n)"

definition svg_rect :: "nat \<Rightarrow> nat \<Rightarrow> nat \<Rightarrow> nat \<Rightarrow> (string \<times> jstr) list \<Rightarrow> dom" where
  "svg_rect x y w h a = El ''rect'' ([num ''x'' x, num ''y'' y, num ''width'' w, num ''height'' h] @ a) []"

definition svg_text :: "nat \<Rightarrow> nat \<Rightarrow> (string \<times> jstr) list \<Rightarrow> jstr \<Rightarrow> dom" where
  "svg_text x y a s = El ''text'' ([num ''x'' x, num ''y'' y] @ a) [Txt s]"

definition svg_line :: "nat \<Rightarrow> nat \<Rightarrow> nat \<Rightarrow> nat \<Rightarrow> dom" where
  "svg_line x1 y1 x2 y2 = El ''line'' [num ''x1'' x1, num ''y1'' y1, num ''x2'' x2, num ''y2'' y2] []"

text \<open>A branch of the drawn tree: from a point to a point, with the two control abscissas of its curve.\<close>

record branch =
  br_from :: "nat \<times> nat"
  br_bend :: "nat \<times> nat"
  br_to :: "nat \<times> nat"

definition branch_path :: "branch \<Rightarrow> jstr" where
  "branch_path b =
     (let pair = (\<lambda>x y. show_nat x @ u '' '' @ show_nat y); (x1, y1) = br_from b; (c1, c2) = br_bend b; (x2, y2) = br_to b
      in u ''M '' @ pair x1 y1 @ u '' C '' @ pair c1 y1 @ u '', '' @ pair c2 y2 @ u '', '' @ pair x2 y2)"

definition svg_branch :: "(string \<times> jstr) list \<Rightarrow> branch \<Rightarrow> dom" where
  "svg_branch a b = El ''path'' (a @ [(''pathLength'', u ''1''), (''d'', branch_path b)]) []"

section \<open>stage-figure.tsx\<close>

definition LEAVES :: nat where "LEAVES = 8"
definition LEAF_X :: nat where "LEAF_X = 24"
definition LEAF_W :: nat where "LEAF_W = 96"
definition L1_X :: nat where "L1_X = 196"
definition L2_X :: nat where "L2_X = 272"
definition ROOT_X :: nat where "ROOT_X = 348"
definition RING_X :: nat where "RING_X = 476"
definition RING_Y :: nat where "RING_Y = 150"
definition RING_R :: nat where "RING_R = 46"
definition RING_TICKS :: nat where "RING_TICKS = 36"

definition leafY :: "nat \<Rightarrow> nat" where "leafY index = 48 + index * 38"
definition pairY :: "nat \<Rightarrow> nat \<Rightarrow> nat" where "pairY a b = (leafY a + leafY b) div 2"

definition L1 :: "nat list" where "L1 = List.map (\<lambda>i. pairY i (i + 1)) [0, 2, 4, 6]"
definition L2 :: "nat list" where "L2 = [pairY 0 3, pairY 4 7]"
definition ROOT_Y :: nat where "ROOT_Y = pairY 0 7"

definition leaf_branches :: "branch list" where
  "leaf_branches =
     List.map (\<lambda>i. \<lparr>br_from = (LEAF_X + LEAF_W, leafY i), br_bend = (LEAF_X + LEAF_W + 36, L1_X - 36),
                 br_to = (L1_X - 6, L1 ! (i div 2))\<rparr>) [0..<LEAVES]"

definition L1_branches :: "branch list" where
  "L1_branches =
     List.map (\<lambda>(i, y). \<lparr>br_from = (L1_X + 6, y), br_bend = (L1_X + 36, L2_X - 36), br_to = (L2_X - 6, L2 ! (i div 2))\<rparr>)
       (enumerate 0 L1)"

definition L2_branches :: "branch list" where
  "L2_branches =
     List.map (\<lambda>y. \<lparr>br_from = (L2_X + 6, y), br_bend = (L2_X + 36, ROOT_X - 36), br_to = (ROOT_X - 7, ROOT_Y)\<rparr>) L2"

definition data_part :: "string \<Rightarrow> (string \<times> jstr) list" where
  "data_part p = [(''data-part'', u p)]"

definition pad_customer :: "nat \<Rightarrow> jstr" where
  "pad_customer n = u ''cust-'' @ replicate (3 - length (show_nat n)) 48 @ show_nat n"

definition stage_leaf :: "bool \<Rightarrow> nat \<Rightarrow> dom" where
  "stage_leaf scrub i =
     El ''g'' (data_part ''leaf'' @ (if scrub then [] else [(''class'', u ''stage-part'')]))
       [svg_rect LEAF_X (leafY i - 9) LEAF_W 18 [], svg_text (LEAF_X + 8) (leafY i + 4) [] (pad_customer (i + 1)),
        svg_rect (LEAF_X + 60) (leafY i - 4) (14 + (i * 7) mod 18) 8 []]"

definition stage_tree :: "dom list" where
  "stage_tree =
     List.map (svg_branch (data_part ''tree-line'')) (leaf_branches @ L1_branches @ L2_branches)
     @ List.map (\<lambda>y. svg_rect (L1_X - 6) (y - 6) 12 12 (data_part ''node'')) L1
     @ List.map (\<lambda>y. svg_rect (L2_X - 6) (y - 6) 12 12 (data_part ''node'')) L2
     @ [svg_rect (ROOT_X - 7) (ROOT_Y - 7) 14 14 (data_part ''node''),
        svg_text (L2_X - 6) (leafY (LEAVES - 1) + 30) (data_part ''tree-caption'') (u ''ONE COMMITMENT'')]"

definition stage_ring :: "int \<Rightarrow> dom" where
  "stage_ring step =
     El ''g'' (data_part ''ring'')
       (List.map (\<lambda>i. El ''line'' [(''stroke-width'', u (if i mod 3 = 0 then ''2.4'' else ''1.8'')),
            (''class'', u ''gauge-tick '' @ u (if 4 \<le> step \<and> i = RING_TICKS - 1 then ''stroke-signal''
               else if 3 \<le> step then ''stroke-text'' else ''stroke-line-strong''))] []) [0..<RING_TICKS]
        @ [svg_text RING_X (RING_Y + 4) [(''text-anchor'', u ''middle'')]
             (u (if 4 \<le> step then ''VERIFIED'' else if 3 \<le> step then ''VERIFY'' else ''STELLAR'')),
           svg_text RING_X (RING_Y + RING_R + 18) [(''text-anchor'', u ''middle'')]
             (if 4 \<le> step then u ''LEDGER 3,412,088'' @ mid_dot @ u ''0.012 XLM'' else u ''SOROBAN CONTRACT'')])"

definition stage_bars :: "dom list" where
  "stage_bars =
     [svg_text (RING_X + RING_R + 24) (RING_Y - 26) (data_part ''bar-label'') (u ''OWED''),
      svg_rect (RING_X + RING_R + 24) (RING_Y - 20) 78 8 (data_part ''bar''),
      svg_text (RING_X + RING_R + 24) (RING_Y + 4) (data_part ''bar-label'') (u ''HELD''),
      svg_rect (RING_X + RING_R + 24) (RING_Y + 10) 84 8 (data_part ''bar''),
      svg_rect (RING_X + RING_R + 102) (RING_Y + 10) 2 8 (data_part ''bar-mark''),
      El ''line'' (data_part ''bar-mark'' @ [num ''x1'' (RING_X + RING_R + 102), num ''y1'' (RING_Y - 28),
        num ''x2'' (RING_X + RING_R + 102), num ''y2'' (RING_Y + 26)]) []]"

definition stage_record :: "dom list" where
  "stage_record =
     [svg_rect (RING_X - 90) (RING_Y + 90) 250 78 [],
      svg_text (RING_X - 78) (RING_Y + 110) [] (u ''COVERAGE RECORD'' @ mid_dot @ u ''2026-11-02''),
      svg_text (RING_X - 78) (RING_Y + 140) [] (u ''103.61%''),
      svg_rect (RING_X + 56) (RING_Y + 120) 78 20 [],
      svg_text (RING_X + 95) (RING_Y + 134) [(''text-anchor'', u ''middle'')] (u ''COVERED''),
      svg_text (RING_X - 78) (RING_Y + 158) [] (u ''ARSK'' @ mid_dot @ u ''LEDGER 3,412,088'')]"

definition StageFigure :: "int \<Rightarrow> bool \<Rightarrow> dom" where
  "StageFigure step scrub =
     (let part = (\<lambda>n extra. if scrub then opt_attr ''class'' (map_option u extra)
            else [(''class'', u ((case extra of Some e \<Rightarrow> ''stage-part '' @ e | None \<Rightarrow> ''stage-part'')
                    @ (if n \<le> step then '' stage-on'' else '' stage-off'')))]) in
      El ''svg'' [(''viewBox'', u ''0 0 640 360''), (''role'', u ''img''),
                  (''aria-label'', u ''How a record is made, step '' @ show_int step @ u '' of 5''), (''data-step'', show_int step)]
        [El ''g'' (part 1 None)
           (List.map (stage_leaf scrub) [0..<LEAVES]
            @ [svg_text LEAF_X (leafY (LEAVES - 1) + 30) (data_part ''leaves-caption'') (u ''BALANCES'' @ mid_dot @ u ''PRIVATE'')]),
         El ''g'' (part 2 (Some ''stage-lines'')) stage_tree,
         El ''g'' (part 3 None)
           [svg_branch (data_part ''proof-line'') \<lparr>br_from = (ROOT_X + 7, ROOT_Y), br_bend = (ROOT_X + 40, RING_X - RING_R - 40),
              br_to = (RING_X - RING_R - 4, RING_Y)\<rparr>,
            svg_text (ROOT_X - 4) (ROOT_Y + 26) (data_part ''proof-label'') (u ''PROOF'')],
         stage_ring step,
         El ''g'' (part 3 None) stage_bars,
         El ''g'' (part 5 None @ data_part ''record'') stage_record])"

section \<open>record-stage.tsx\<close>

definition STAGE_BODIES :: "jstr list" where
  "STAGE_BODIES = List.map u
     [''What is owed enters as a list of balances: a custodial app's customers, or an anchor's token holders. No balance on the list is ever published.'',
      ''The list is folded into one commitment that also carries its total. Drop a balance or change one afterwards, and the commitment changes with it.'',
      ''A proof shows that the total behind the commitment is at most the reserve balance, signed by a custodian or read from Stellar. No balance is a public input, so none is published.'',
      ''A contract on Stellar checks the proof itself, so no server and no company has to be trusted with the answer. One check costs about 0.012 XLM.'',
      ''The verified totals are written once, with the ledger they were checked at. Anyone can read them, and nobody can edit them. Covered, short and stale labels on each record are coming soon.'']"

definition stage_button :: "int \<Rightarrow> nat \<times> jstr \<times> jstr \<Rightarrow> dom" where
  "stage_button step = (\<lambda>(index, title, body).
     let n = index + 1 in
     El ''li'' []
       [El ''button'' (if step = int n then [(''aria-current'', u ''step'')] else [])
          [El ''span'' [(''aria-hidden'', u ''true'')] [],
           El ''span'' [] [El ''span'' [] [Txt (replicate (2 - length (show_nat n)) 48 @ show_nat n)], El ''span'' [] [Txt title]],
           El ''span'' [] [Txt body]]])"

definition RecordStage :: "record_stage \<Rightarrow> dom" where
  "RecordStage s =
     El ''section'' [(''id'', u ''how-a-record-is-made''), (''aria-labelledby'', u ''stage-title'')]
       [El ''span'' [(''aria-hidden'', u ''true'')] [tx ''02''],
        El ''div'' []
          [El ''div'' []
             [El ''div'' [] [El ''p'' [] [tx ''How a record is made''],
                             El ''h2'' [(''id'', u ''stage-title'')] [tx ''Five steps to a daily record.'']],
              El ''p'' [] [tx ''The same five steps are designed to run every day for every asset. On Testnet today a cycle runs on request. Scroll through them, or pick a step.'']],
           El ''div'' []
             [El ''ol'' [(''data-rows'', u ''true'')]
                (List.map (stage_button (rs_step s)) (enumerate 0 (zip STAGE_STEPS STAGE_BODIES))),
              El ''div'' [(''class'', u ''ruled-marks'')]
                [StageFigure (rs_step s) (rs_pinned s), El ''p'' [] [Txt (stage_caption (rs_step s))]]]]]"

section \<open>step-figures.tsx\<close>

definition data_draw :: "string \<Rightarrow> (string \<times> jstr) list" where
  "data_draw v = [(''data-draw'', u v)]"

definition figure_svg :: "string \<Rightarrow> jstr \<Rightarrow> (string \<times> jstr) list \<Rightarrow> dom list \<Rightarrow> dom" where
  "figure_svg viewBox label a content =
     El ''svg'' ([(''viewBox'', u viewBox), (''role'', u ''img''), (''aria-label'', label)] @ a) content"

definition rowY :: "nat \<Rightarrow> nat" where "rowY index = 24 + index * 22"
definition row_pairY :: "nat \<Rightarrow> nat \<Rightarrow> nat" where "row_pairY a b = (rowY a + rowY b) div 2"

definition ruled_caption :: "nat \<Rightarrow> jstr \<Rightarrow> dom list" where
  "ruled_caption y t = [svg_line 16 y 304 y, svg_text 16 (y + 16) [] t]"

definition balance_row :: "nat \<Rightarrow> dom" where
  "balance_row i =
     El ''g'' (data_draw ''row'')
       [svg_rect 16 (rowY i - 5) 10 10 [], svg_text 36 (rowY i + 4) [] (u ''row '' @ show_nat (i + 1)),
        svg_rect 100 (rowY i - 4) (60 + (i * 29) mod 110) 8 (data_draw ''bar''),
        svg_rect 100 (rowY i - 5) 180 10 []]"

definition BalancesFigure :: dom where
  "BalancesFigure =
     figure_svg ''0 0 320 224'' (u ''A list of balances entering the proof, each one kept private'') []
       (List.map balance_row [0..<LEAVES]
        @ ruled_caption (rowY (LEAVES - 1) + 18) (u ''every row private'' @ mid_dot @ u ''0 published''))"

definition FIG_L1_X :: nat where "FIG_L1_X = 150"
definition FIG_L2_X :: nat where "FIG_L2_X = 210"
definition FIG_ROOT_X :: nat where "FIG_ROOT_X = 270"
definition FIG_L1 :: "nat list" where "FIG_L1 = List.map (\<lambda>i. row_pairY i (i + 1)) [0, 2, 4, 6]"
definition FIG_L2 :: "nat list" where "FIG_L2 = [row_pairY 0 3, row_pairY 4 7]"
definition FIG_ROOT_Y :: nat where "FIG_ROOT_Y = row_pairY 0 7"

definition fig_branches :: "branch list list" where
  "fig_branches =
     [List.map (\<lambda>i. \<lparr>br_from = (26, rowY i), br_bend = (70, FIG_L1_X - 40), br_to = (FIG_L1_X - 6, FIG_L1 ! (i div 2))\<rparr>) [0..<LEAVES],
      List.map (\<lambda>(i, y). \<lparr>br_from = (FIG_L1_X + 6, y), br_bend = (FIG_L1_X + 30, FIG_L2_X - 30),
                          br_to = (FIG_L2_X - 6, FIG_L2 ! (i div 2))\<rparr>) (enumerate 0 FIG_L1),
      List.map (\<lambda>y. \<lparr>br_from = (FIG_L2_X + 6, y), br_bend = (FIG_L2_X + 30, FIG_ROOT_X - 30),
                     br_to = (FIG_ROOT_X - 7, FIG_ROOT_Y)\<rparr>) FIG_L2]"

definition CommitFigure :: dom where
  "CommitFigure =
     figure_svg ''0 0 320 224'' (u ''A list of balances folded into one commitment'') []
       (El ''g'' [] (List.map (svg_branch (data_draw ''line'')) (concat fig_branches))
        # List.map (\<lambda>i. svg_rect 16 (rowY i - 5) 10 10 []) [0..<LEAVES]
        @ List.map (\<lambda>y. svg_rect (FIG_L1_X - 6) (y - 6) 12 12 (data_draw ''pop'')) FIG_L1
        @ List.map (\<lambda>y. svg_rect (FIG_L2_X - 6) (y - 6) 12 12 (data_draw ''pop'')) FIG_L2
        @ [svg_rect (FIG_ROOT_X - 7) (FIG_ROOT_Y - 7) 14 14 (data_draw ''pop''),
           svg_text FIG_ROOT_X (FIG_ROOT_Y - 16) [(''text-anchor'', u ''middle'')] (u ''commitment'')]
        @ ruled_caption (rowY (LEAVES - 1) + 18) (u ''one commitment'' @ mid_dot @ u ''total carried with it''))"

definition PROOF_W :: nat where "PROOF_W = 260"

definition ProofFigure :: dom where
  "ProofFigure =
     figure_svg ''0 0 320 208'' (u ''One proof, built from the commitment and the reserve balance, with no balance published'') []
       ([svg_rect 16 24 14 14 [], El ''path'' [(''d'', u ''M 30 31 L 58 31'')] [],
         svg_text 64 35 [] (u ''commitment + reserve balance '' @ [0x2192] @ u '' proof''),
         svg_text 16 76 [] (u ''proof''), svg_rect 16 84 PROOF_W 18 [], svg_rect 16 84 PROOF_W 18 (data_draw ''bar'')]
        @ List.map (\<lambda>i. svg_line (16 + ((i + 1) * PROOF_W) div 13) 84 (16 + ((i + 1) * PROOF_W) div 13) 102) [0..<12]
        @ [svg_text (16 + PROOF_W + 8) 97 [] (u ''one''), svg_text 16 132 [] (u ''never published''),
           svg_text 16 150 [] (u ''every balance on the list''), svg_text 16 168 [] (u ''public: the totals and the result'')]
        @ ruled_caption 180 (u ''small enough for a contract to check''))"

definition verified_ledger :: jstr where "verified_ledger = locale_int (ve_verifiedAtLedger verifierEvidence)"

definition FIG_RING_TICKS :: nat where "FIG_RING_TICKS = 48"

definition VerifyFigure :: dom where
  "VerifyFigure =
     figure_svg ''0 0 320 208'' (u ''The verifier contract on Stellar Testnet checked the proof at ledger '' @ verified_ledger)
       [(''data-seal'', u ''true'')]
       (List.map (\<lambda>i. El ''line'' [(''stroke-width'', u (if i mod 4 = 0 then ''2.4'' else ''1.6'')),
            (''class'', u (if i = FIG_RING_TICKS - 1 then ''gauge-tick stroke-signal'' else ''gauge-tick stroke-text''))] [])
          [0..<FIG_RING_TICKS]
        @ [svg_text 96 (96 + 4) [(''text-anchor'', u ''middle'')] (u ''verified''),
           svg_text 190 54 [] (u ''ledger''), svg_text 190 70 [] verified_ledger, svg_line 190 82 304 82,
           svg_text 190 102 [] (u ''fee''), svg_text 190 118 [] (ve_feeXlm verifierEvidence @ u '' XLM''), svg_line 190 130 304 130,
           svg_text 190 150 [] (u ''checked by''), svg_text 190 166 [] (u ''the contract'')]
        @ ruled_caption 180 (u ''stellar '' @ label_lower (ve_network verifierEvidence) @ mid_dot @ u ''checked on the network''))"

definition RecordFigure :: dom where
  "RecordFigure =
     (let r = exampleRecords ! 0; percent = (case coveragePercent (cr_owed r) (cr_held r) of Some p \<Rightarrow> p | None \<Rightarrow> []) in
      figure_svg ''0 0 320 208''
        (u ''The written record: '' @ cr_institution r @ u '' '' @ cr_asset r @ u '', '' @ percent @ u '', covered, at ledger ''
          @ locale_int (cr_ledger r)) []
        ([svg_rect 16 20 288 150 [], svg_line 16 48 304 48,
          svg_text 28 38 [] (u ''coverage record'' @ mid_dot @ u ''2026-11-02''), svg_text 28 98 [] percent,
          El ''g'' (data_draw ''pop'')
            [svg_rect 214 66 78 20 [], svg_line 224 71 224 81, svg_text 258 80 [(''text-anchor'', u ''middle'')] (u ''COVERED'')],
          svg_line 16 118 304 118, svg_text 28 136 [] (label_lower (cr_institution r) @ mid_dot @ cr_asset r),
          svg_text 28 156 [] (u ''ledger '' @ locale_int (cr_ledger r))]
         @ ruled_caption 180 (u ''written once'' @ mid_dot @ u ''read by anyone'')))"

section \<open>step-details.tsx and result-meanings.tsx\<close>

definition Facts :: "(string \<times> string) list \<Rightarrow> dom" where
  "Facts items =
     El ''dl'' [] (List.map (\<lambda>(label, value). El ''div'' [] [El ''dt'' [] [tx label], El ''dd'' [] [tx value]]) items)"

definition EvidenceLink :: "jstr \<Rightarrow> jstr \<Rightarrow> dom" where
  "EvidenceLink href text =
     El ''a'' [(''href'', href), (''target'', u ''_blank''), (''rel'', u ''noreferrer'')] [Txt text]"

definition BalancesDetail :: dom where
  "BalancesDetail = Facts
     [(''For an anchor'', ''What is owed is a stored list of holder balances. Reading the token supply straight from Stellar at the record's ledger is coming soon.''),
      (''For a custodial app'', ''What is owed is the list of customer balances the app commits that day.''),
      (''Published'', ''Nothing from the list. Today Solva holds the list and passes it to its prover over a private connection; no balance is written anywhere public.'')]"

definition CommitDetail :: dom where
  "CommitDetail = Facts
     [(''Commitment'', ''One value that stands for the whole list and its total. Change a single balance, and the commitment changes with it.''),
      (''Published'', ''The commitment and the total. Never the list.''),
      (''Holder check'', ''A customer can confirm that their own balance sits behind the commitment. No other customer is named; the path shows unnamed subtotals, including one neighbouring balance.'')]"

definition ProofDetail :: dom where
  "ProofDetail = Facts
     [(''What it proves'', ''Every balance on the list was counted, none is negative, and the total is at most the reserve balance.''),
      (''What it publishes'', ''Only the totals and the commitment. No balance is a public input. The proof system's hiding mode is in development.''),
      (''Who checks it'', ''A contract on Stellar. Solva never checks its own work. The next step shows the contract on Testnet.''),
      (''The detail'', ''How the proof is built is set out in the documentation, alongside the source code.'')]"

definition VerifyDetail :: dom where
  "VerifyDetail =
     (let e = verifierEvidence in
      El ''div'' []
        [RuledGrid
           [Cell (tx ''Verifier contract'') (EvidenceLink (explorer_contract (ve_contractId e)) (shortHash (ve_contractId e) 10 6))
              (Some (Txt (u ''Stellar '' @ ve_network e))),
            Cell (tx ''Verified transaction'') (EvidenceLink (explorer_tx (ve_verifyTx e)) (shortHash (ve_verifyTx e) 10 6))
              (Some (Txt (ledgerLabel (ve_verifiedAtLedger e)))),
            Cell (tx ''Ledger'') (Txt verified_ledger) (Some (tx ''where the contract checked the proof'')),
            Cell (tx ''Fee'') (Txt (ve_feeXlm e)) (Some (Txt (u ''XLM, '' @ locale_int (ve_feeStroops e) @ u '' stroops'')))],
         Facts
           [(''Who is trusted'', ''Nobody. The contract checks the proof itself, on the network. Anyone can open the transaction where it was verified and rerun the open-source verifier on the same proof.''),
            (''Outcome'', ''A proof that fails to verify writes nothing. Reserves below what is owed produce no proof at all, so a shortfall can never be written as covered. A proof that verifies stores both totals at that ledger.'')],
         Provenance [Txt (u ''Stellar '' @ ve_network e), tx ''Links open stellar.expert'']])"

definition MEANINGS :: "(coverage_state \<times> string \<times> string) list" where
  "MEANINGS =
     [(Covered, ''Reserves were at least what was owed at that ledger.'',
       ''The record shows the percentage and the surplus. It describes that ledger only; the next day needs its own proof.''),
      (Short, ''Reserves were less than what was owed.'',
       ''The record shows the gap in full. The percentage is cut off, never rounded up, so 98.999% reads as 98.99%.''),
      (Stale, ''No recent proof. Treat coverage as unknown.'',
       ''Whatever the last result said no longer counts until a new proof is recorded.'')]"

definition ResultMeanings :: dom where
  "ResultMeanings =
     El ''ul'' [] (List.map (\<lambda>(st, statement, detail).
        El ''li'' [] [StateStamp st None, El ''div'' [] [El ''p'' [] [tx statement], El ''p'' [] [tx detail]]]) MEANINGS)"

definition cadence_view :: "coverage_record \<Rightarrow> day_result list \<Rightarrow> dom" where
  "cadence_view r history =
     Ruled False
       [El ''div'' [] [El ''p'' [] [Txt (u ''Proof schedule for '' @ cr_asset r)], El ''p'' [] [tx ''Daily, 06:00 UTC'']],
        El ''table'' []
          [El ''caption'' [] [Txt (u ''The last seven daily results for '' @ cr_asset r)],
           El ''thead'' [] [El ''tr'' [] [El ''th'' [] [tx ''Date''], El ''th'' [] [tx ''Ledger''], El ''th'' [] [tx ''Coverage''], El ''th'' [] [tx ''State'']]],
           El ''tbody'' [] (List.map (\<lambda>(date, ledger, percent, st).
              El ''tr'' [] [El ''td'' [] [Txt date], El ''td'' [] [Txt ledger],
                El ''td'' [] (case percent of Some p \<Rightarrow> [Txt p] | None \<Rightarrow> []), El ''td'' [] [StateStamp st None]])
              (UpdateCadence r history))],
        El ''div'' []
          [El ''p'' [] [tx ''In this example the next proof is due at 06:00 UTC, and if it does not arrive the record turns stale. Scheduled publishing and freshness checks are coming soon.''],
           Provenance [tx ''Example'', Txt (cr_institution r @ mid_dot @ cr_asset r), tx ''Last 7 days'']]]"

definition RecordDetail :: "coverage_record \<Rightarrow> day_result list \<Rightarrow> dom" where
  "RecordDetail r history =
     El ''div'' []
       [El ''div'' []
          [El ''p'' [] [tx ''Three states, nothing in between'', StatusTag ComingSoon], El ''div'' [] [ResultMeanings]],
        El ''div'' []
          [El ''p'' [] [tx ''Cadence''],
           El ''p'' [] [tx ''Designed to run daily by default, or on the schedule the institution agrees. Each result names a Stellar ledger, so it carries a time anyone can look up. When a proof does not arrive on schedule, the record will turn stale by itself. Scheduled publishing and freshness checks are coming soon; on Testnet today a cycle runs on request.''],
           El ''div'' [] [cadence_view r history]]]"

section \<open>steps.tsx\<close>

record walk_step =
  ws_id :: string
  ws_title :: string
  ws_lead :: string
  ws_body :: string
  ws_figure :: dom
  ws_provenance :: "jstr list"
  ws_detail :: dom

definition WALK_STEPS :: "coverage_record \<Rightarrow> day_result list \<Rightarrow> walk_step list" where
  "WALK_STEPS r history =
     (let latest = exampleRecords ! 0; e = verifierEvidence in
      [\<lparr>ws_id = ''balances'', ws_title = ''Balances'', ws_lead = ''What is owed enters as a list of balances.'',
        ws_body = ''A custodial app's customers, or an anchor's token holders. The list is the private input to everything that follows. No balance on it is ever published. Today Solva holds the list and passes it to its prover over a private connection.'',
        ws_figure = BalancesFigure, ws_provenance = [u ''Example'', u ''No balance published''], ws_detail = BalancesDetail\<rparr>,
       \<lparr>ws_id = ''commit'', ws_title = ''Commit'', ws_lead = ''The list is folded into one commitment.'',
        ws_body = ''The commitment stands for every balance on the list and for their total. Drop a balance or change one, and the commitment changes with it, so nothing can be left out or edited after the fact.'',
        ws_figure = CommitFigure, ws_provenance = [u ''Example'', u ''One commitment'', u ''Total carried with it''],
        ws_detail = CommitDetail\<rparr>,
       \<lparr>ws_id = ''proof'', ws_title = ''Proof'', ws_lead = ''A proof shows the total is covered.'',
        ws_body = ''The proof takes the commitment and the reserve balance and shows that what is owed is at most what the reserve accounts hold. No balance is a public input, so none is published. It is small enough for a contract on Stellar to check in one call. The proof system's hiding mode is in development.'',
        ws_figure = ProofFigure, ws_provenance = [u ''Example'', u ''No balance published'', u ''Totals public''],
        ws_detail = ProofDetail\<rparr>,
       \<lparr>ws_id = ''verify'', ws_title = ''Verify'', ws_lead = ''A contract on Stellar checks the proof itself.'',
        ws_body = ''The verifier contract runs the check on the network itself, so no server and no company has to be trusted with the answer. One verification on Testnet cost the fee shown here.'',
        ws_figure = VerifyFigure,
        ws_provenance = [u ''Stellar '' @ ve_network e, ledgerLabel (ve_verifiedAtLedger e), ve_feeXlm e @ u '' XLM''],
        ws_detail = VerifyDetail\<rparr>,
       \<lparr>ws_id = ''record'', ws_title = ''Record'', ws_lead = ''The result is written once, for anyone to read.'',
        ws_body = ''The verified totals are written once, with the ledger they were checked at. Holders, wallets, lending pools and auditors read them without asking anyone. Each new proof adds the next line, and nothing is edited after the fact. Covered, short and stale labels on each record are coming soon.'',
        ws_figure = RecordFigure,
        ws_provenance = [u ''Example'', cr_institution latest @ mid_dot @ cr_asset latest, ledgerLabel (cr_ledger latest)],
        ws_detail = RecordDetail r history\<rparr>])"

definition walk_entry :: "nat \<Rightarrow> bool \<Rightarrow> nat \<times> walk_step \<Rightarrow> dom" where
  "walk_entry active isTracking = (\<lambda>(index, step).
     let on = (index = active) in
     El ''li'' []
       [El ''a'' ((''href'', u (''#step-'' @ ws_id step)) # (if isTracking \<and> on then [(''aria-current'', u ''step'')] else []))
          [El ''span'' [(''aria-hidden'', u ''true'')] [], tx (ws_title step)]])"

definition walk_section :: "nat \<times> walk_step \<Rightarrow> dom" where
  "walk_section = (\<lambda>(index, step).
     El ''li'' [(''id'', u (''step-'' @ ws_id step)), (''data-step'', show_nat index)]
       [El ''h3'' [] [tx (ws_title step)], El ''p'' [] [tx (ws_lead step)], El ''p'' [] [tx (ws_body step)],
        El ''div'' []
          [El ''figure'' []
             [El ''div'' [(''class'', u ''ruled-marks'')] [ws_figure step],
              El ''figcaption'' [] [Provenance (List.map Txt (ws_provenance step))]],
           El ''div'' [] [ws_detail step]]])"

definition walk_entries :: "coverage_record \<Rightarrow> day_result list \<Rightarrow> nat \<Rightarrow> bool \<Rightarrow> dom" where
  "walk_entries r history active tracking = El ''ol'' [] (List.map (walk_entry active tracking) (enumerate 0 (WALK_STEPS r history)))"

definition Steps :: "coverage_record \<Rightarrow> day_result list \<Rightarrow> nat \<Rightarrow> bool \<Rightarrow> dom" where
  "Steps r history active isTracking =
     (let steps = WALK_STEPS r history; current = (if active < length steps then steps ! active else steps ! 0) in
      Chapter (Some (u ''the-steps'')) (Some (u ''01'')) (Some (u ''steps-title''))
        [ChapterHead (u ''steps-title'') (Some (u ''The five steps'')) (u ''From a list of balances to a public record.'')
           (Some (u ''The same five steps are designed to run every day for every asset; on Testnet today a cycle runs on request. The home page shows them in motion. This page walks through each one, with the evidence beside it.'')),
         El ''div'' []
           [El ''aside'' [(''aria-label'', u ''Where you are in the five steps'')]
              [El ''div'' []
                 [SealInstrument (Progress (of_nat active + 1) (of_nat (length steps))) None False None
                    [El ''span'' [] [tx (ws_title current)]],
                  walk_entries r history active isTracking]],
            El ''ol'' [] (List.map walk_section (enumerate 0 steps))]])"

section \<open>The figures\<close>

text \<open>The lines of both figures make a tree over the nodes that are drawn: from the right edge of a leaf, over
  the left and right edges of a node of the first and of the second row, to the left edge of the root.
  A node is drawn as a box around its centre.\<close>

fun chain :: "branch list list \<Rightarrow> nat \<times> nat \<Rightarrow> (nat \<times> nat) list" where
  "chain [] p = [p]" |
  "chain (bs # rest) p = concat (List.map (\<lambda>b. chain rest (fst (br_to b) + 12, snd (br_to b))) (filter (\<lambda>b. br_from b = p) bs))"

lemmas stage_layout = LEAVES_def LEAF_X_def LEAF_W_def L1_X_def L2_X_def ROOT_X_def leafY_def pairY_def L1_def L2_def ROOT_Y_def
lemmas figure_layout = LEAVES_def rowY_def row_pairY_def FIG_L1_X_def FIG_L2_X_def FIG_ROOT_X_def FIG_L1_def FIG_L2_def FIG_ROOT_Y_def

lemma branches_eval:
  "leaf_branches = List.map (\<lambda>i. \<lparr>br_from = (120, 48 + i * 38), br_bend = (156, 160), br_to = (190, [67, 143, 219, 295] ! (i div 2))\<rparr>) [0, 1, 2, 3, 4, 5, 6, 7]"
  "L1_branches = List.map (\<lambda>(y, y'). \<lparr>br_from = (202, y), br_bend = (232, 236), br_to = (266, y')\<rparr>) [(67, 105), (143, 105), (219, 257), (295, 257)]"
  "L2_branches = List.map (\<lambda>y. \<lparr>br_from = (278, y), br_bend = (308, 312), br_to = (341, 181)\<rparr>) [105, 257]"
  by (simp_all add: leaf_branches_def L1_branches_def L2_branches_def stage_layout upt_rec)

lemma fig_branches_eval:
  "fig_branches =
     [List.map (\<lambda>i. \<lparr>br_from = (26, 24 + i * 22), br_bend = (70, 110), br_to = (144, [35, 79, 123, 167] ! (i div 2))\<rparr>) [0, 1, 2, 3, 4, 5, 6, 7],
      List.map (\<lambda>(y, y'). \<lparr>br_from = (156, y), br_bend = (180, 180), br_to = (204, y')\<rparr>) [(35, 57), (79, 57), (123, 145), (167, 145)],
      List.map (\<lambda>y. \<lparr>br_from = (216, y), br_bend = (240, 240), br_to = (263, 101)\<rparr>) [57, 145]]"
  by (simp add: fig_branches_def figure_layout upt_rec)

lemma leaf_cases: "i < LEAVES \<Longrightarrow> i = 0 \<or> i = 1 \<or> i = 2 \<or> i = 3 \<or> i = 4 \<or> i = 5 \<or> i = 6 \<or> i = 7"
  by (auto simp: LEAVES_def)

theorem figures_are_trees:
  assumes "i < LEAVES"
  shows "chain [leaf_branches, L1_branches, L2_branches] (LEAF_X + LEAF_W, leafY i) = [(ROOT_X + 5, ROOT_Y)]
    \<and> chain fig_branches (26, rowY i) = [(FIG_ROOT_X + 5, FIG_ROOT_Y)]
    \<and> snd (br_to (leaf_branches ! i)) \<in> set L1 \<and> snd (br_to (hd fig_branches ! i)) \<in> set FIG_L1"
  using leaf_cases [OF assms]
  by (elim disjE) (simp_all add: branches_eval fig_branches_eval stage_layout figure_layout)

lemma figures_are_trees_witness:
  "chain [leaf_branches, L1_branches, L2_branches] (LEAF_X + LEAF_W, leafY 5) = [(ROOT_X + 5, ROOT_Y)]"
  using figures_are_trees [of 5] by (simp add: LEAVES_def)

section \<open>The stage and the walk say where the reader is\<close>

text \<open>The elements of a view marked as the current step.\<close>

fun current_of :: "dom \<Rightarrow> dom list" where
  "current_of (Txt s) = []" |
  "current_of (El t a cs) = (if map_of a ''aria-current'' = None then concat (List.map current_of cs) else [El t a cs])"

lemma nothing_current: "with_attr ''aria-current'' d = [] \<Longrightarrow> current_of d = []"
  by (induction d) (auto simp: concat_eq_Nil_conv split: option.splits)

lemma svg_attr [simp]:
  "k \<notin> {''x'', ''y'', ''width'', ''height''} \<Longrightarrow> with_attr k (svg_rect x y w h a) = (case map_of a k of Some v \<Rightarrow> [v] | None \<Rightarrow> [])"
  "k \<notin> {''x'', ''y''} \<Longrightarrow> with_attr k (svg_text x y a t) = (case map_of a k of Some v \<Rightarrow> [v] | None \<Rightarrow> [])"
  "k \<notin> {''x1'', ''y1'', ''x2'', ''y2''} \<Longrightarrow> with_attr k (svg_line p q r w) = []"
  "k \<notin> {''pathLength'', ''d''} \<Longrightarrow> with_attr k (svg_branch a b) = (case map_of a k of Some v \<Rightarrow> [v] | None \<Rightarrow> [])"
  by (auto simp: svg_rect_def svg_text_def svg_line_def svg_branch_def num_def map_add_def split: option.split)

lemma stage_figure_attr: "with_attr ''aria-current'' (StageFigure step scrub) = []"
  by (auto simp: StageFigure_def Let_def stage_leaf_def stage_tree_def stage_ring_def stage_bars_def stage_record_def data_part_def
      comp_def opt_attr_def num_def split: option.split)

lemma stage_buttons:
  "enumerate 0 (zip STAGE_STEPS STAGE_BODIES) =
     [(0, STAGE_STEPS ! 0, STAGE_BODIES ! 0), (1, STAGE_STEPS ! 1, STAGE_BODIES ! 1), (2, STAGE_STEPS ! 2, STAGE_BODIES ! 2),
      (3, STAGE_STEPS ! 3, STAGE_BODIES ! 3), (4, STAGE_STEPS ! 4, STAGE_BODIES ! 4)]"
  by (simp add: STAGE_STEPS_def STAGE_BODIES_def)

lemma stage_button_current:
  "current_of (stage_button step (i, t, b)) =
     (if step = int (i + 1) then
        [El ''button'' [(''aria-current'', u ''step'')]
          [El ''span'' [(''aria-hidden'', u ''true'')] [],
           El ''span'' [] [El ''span'' [] [Txt (replicate (2 - length (show_nat (i + 1))) 48 @ show_nat (i + 1))], El ''span'' [] [Txt t]],
           El ''span'' [] [Txt b]]]
      else [])"
  by (simp add: stage_button_def Let_def)

lemma five_cases: "1 \<le> k \<Longrightarrow> k \<le> 5 \<Longrightarrow> k = 1 \<or> k = 2 \<or> k = 3 \<or> k = 4 \<or> k = (5 :: int)"
  by arith

text \<open>In every state a reader can reach, the stage marks exactly one of its five buttons as the current step;
  the button carries the number and the title that the caption under the figure names, and the
  figure is drawn for that step.\<close>

theorem stage_shows_one_step:
  assumes "(stage_step 5)\<^sup>*\<^sup>* stage_start s"
  shows "\<exists>b title. current_of (RecordStage s) = [b] \<and> title = STAGE_STEPS ! nat (rs_step s - 1) \<and> title \<in> set (texts b)
    \<and> stage_caption (rs_step s) \<in> set (texts (RecordStage s)) \<and> suffix title (stage_caption (rs_step s))
    \<and> u ''How a record is made, step '' @ show_int (rs_step s) @ u '' of 5'' \<in> set (with_attr ''aria-label'' (RecordStage s))"
proof -
  have "stage_ok 5 s" using assms
  proof (induction rule: rtranclp_induct)
    case base
    show ?case by (simp add: stage_ok_def stage_start_def)
  qed (auto intro: stage_step_ok)
  then have range: "1 \<le> rs_step s" "rs_step s \<le> 5" by (simp_all add: stage_ok_def)
  have buttons: "current_of (RecordStage s) = concat (List.map (\<lambda>e. current_of (stage_button (rs_step s) e)) (enumerate 0 (zip STAGE_STEPS STAGE_BODIES)))"
    by (simp add: RecordStage_def nothing_current [OF stage_figure_attr] comp_def)
  have "\<exists>b. current_of (RecordStage s) = [b] \<and> STAGE_STEPS ! nat (rs_step s - 1) \<in> set (texts b)"
    using five_cases [OF range] unfolding buttons stage_buttons by (elim disjE) (simp_all add: stage_button_current)
  moreover have "suffix (STAGE_STEPS ! nat (rs_step s - 1)) (stage_caption (rs_step s))"
    using range by (simp add: stage_caption_def STAGE_STEPS_def suffix_def)
  moreover have "stage_caption (rs_step s) \<in> set (texts (RecordStage s))" by (simp add: RecordStage_def)
  moreover have "u ''How a record is made, step '' @ show_int (rs_step s) @ u '' of 5'' \<in> set (with_attr ''aria-label'' (RecordStage s))"
    by (simp add: RecordStage_def StageFigure_def Let_def)
  ultimately show ?thesis by blast
qed

lemma stage_shows_one_step_witness: "\<exists>b. current_of (RecordStage stage_start) = [b] \<and> u ''Balances'' \<in> set (texts b)"
  using stage_shows_one_step [OF rtranclp.rtrancl_refl] by (auto simp: stage_start_def STAGE_STEPS_def)

text \<open>The walk: what an entry and a section of it hold.\<close>

lemma walk_length: "length (WALK_STEPS r history) = 5"
  by (simp add: WALK_STEPS_def Let_def)

lemma walk_ids: "List.map ws_id (WALK_STEPS r history) = [''balances'', ''commit'', ''proof'', ''verify'', ''record'']"
  by (simp add: WALK_STEPS_def Let_def)

lemma entry_current:
  "current_of (walk_entry active tracking (i, st)) =
     (if tracking \<and> i = active
      then [El ''a'' [(''href'', u (''#step-'' @ ws_id st)), (''aria-current'', u ''step'')]
             [El ''span'' [(''aria-hidden'', u ''true'')] [], tx (ws_title st)]] else [])"
  by (simp add: walk_entry_def Let_def)

lemma ex_section: "with_attr ''id'' (walk_section (i, st)) \<noteq> [] \<and> hd (with_attr ''id'' (walk_section (i, st))) = u (''step-'' @ ws_id st)
    \<and> with_attr ''data-step'' (walk_section (i, st)) \<noteq> [] \<and> hd (with_attr ''data-step'' (walk_section (i, st))) = show_nat i"
  by (simp add: walk_section_def)

lemma entries_current:
  "n + length ss = m \<Longrightarrow> concat (List.map (\<lambda>e. current_of (walk_entry active tracking e)) (enumerate n ss)) =
     (if tracking \<and> n \<le> active \<and> active < m then current_of (walk_entry active True (active, ss ! (active - n))) else [])"
proof (induction ss arbitrary: n)
  case (Cons st ss)
  from Cons.IH [of "Suc n"] Cons.prems show ?case
    by (auto simp: entry_current nth_Cons' le_Suc_eq Suc_le_eq less_Suc_eq)
qed auto

text \<open>While the reader's place is followed, the list beside the walk marks exactly one entry: the section that
  came into view last, as the observer reads it off the section's \<open>data-step\<close>; the entry leads to that
  section.  Where no observer is available, nothing is marked.\<close>

theorem walk_follows_reading:
  "\<exists>a st e. a < 5 \<and> step_entries 5 entries 0 = int a \<and> st = WALK_STEPS r history ! a
     \<and> current_of (walk_entries r history a True) = [e] \<and> links e = [35 # u (''step-'' @ ws_id st)]
     \<and> hd (with_attr ''id'' (walk_section (a, st))) = u (''step-'' @ ws_id st)
     \<and> hd (with_attr ''data-step'' (walk_section (a, st))) = show_nat a
     \<and> step_entries 5 (entries @ [(True, Some (of_nat a))]) 0 = int a
     \<and> current_of (walk_entries r history a False) = []"
proof -
  obtain a where a: "step_entries 5 entries 0 = int a" "a < 5"
    using step_entries_range [of 0 5 entries] by (metis nat_0_le nat_less_iff zero_less_numeral order_refl of_nat_numeral)
  let ?st = "WALK_STEPS r history ! a"
  have "current_of (walk_entries r history a True) =
      [El ''a'' [(''href'', u (''#step-'' @ ws_id ?st)), (''aria-current'', u ''step'')]
             [El ''span'' [(''aria-hidden'', u ''true'')] [], tx (ws_title ?st)]]"
    "current_of (walk_entries r history a False) = []"
    using a(2) by (simp_all add: walk_entries_def comp_def entries_current [of 0 _ 5] walk_length entry_current)
  moreover have "u (''#step-'' @ ws_id ?st) = 35 # u (''step-'' @ ws_id ?st)" by (simp add: u_def)
  moreover have "step_entries 5 (entries @ [(True, Some (of_nat a))]) 0 = int a"
    using a(2) by (simp add: step_entries_def)
  ultimately show ?thesis using a ex_section [of a ?st] by (intro exI conjI) (auto simp: links_El)
qed

end
