(* ===== verification/Site_Pages.thy ===== *)
theory Site_Pages
  imports Site_Figures Motion Supply
begin

text \<open>
  The pages of the web site that print figures: the market supply (apps/website/src/components/ui/
  supply-figure.tsx) and the sentence over the registry (features/home/components/stat-sentence.tsx),
  the record and its calendar (the-record.tsx), the sheet of a record's fields (features/product/
  components/coverage-record/record-sheet.tsx), and the solution pages (features/solutions/components):
  evidence, alerts, verdicts, the lending rule, one call to the registry, the comparison with an
  attestation, the public asset page, the costs and the customer check.  The theorems hold the figures
  that are written into these pages by hand against the records the rest of the site computes with.
\<close>

section \<open>Market supply\<close>

text \<open>A number of the snapshot as \<open>toLocaleString("en-US")\<close> prints it.\<close>

definition count_text :: "json \<Rightarrow> jstr" where
  "count_text v = (case v of JNum n \<Rightarrow> locale_int n | _ \<Rightarrow> json_to_string v)"

definition supply_row :: "asset_supply \<Rightarrow> dom" where
  "supply_row row =
     El ''tr'' []
       [El ''th'' []
          [El ''a'' [(''href'', assetExplorerUrl (as_asset row))] [Txt (sa_code (as_asset row))],
           El ''span'' [] [Txt (sa_issuerName (as_asset row))]],
        El ''td'' [] [Txt (wholeUnits (as_supply row))], El ''td'' [] [Txt (count_text (as_holders row))]]"

definition SupplyFigure :: "supply_snapshot option \<Rightarrow> dom" where
  "SupplyFigure snapshot =
     El ''div'' [(''data-reveal'', u ''true''), (''class'', u ''ruled-marks'')]
       [El ''div'' [] [El ''p'' [] [tx ''Read from Stellar when this page loaded''], El ''p'' [] [Txt (u ''Mainnet'' @ mid_dot @ u ''Horizon'')]],
        (case snapshot of
           Some snap \<Rightarrow>
             El ''table'' []
               [El ''thead'' [] [El ''tr'' [] [El ''th'' [] [tx ''Asset''], El ''th'' [] [tx ''In circulation''], El ''th'' [] [tx ''Trustlines'']]],
                El ''tbody'' [] (List.map supply_row (ss_rows snap))]
         | None \<Rightarrow>
             El ''p'' [] [tx ''Stellar could not be read when this page loaded. Nothing is shown in its place; reload to try again.'']),
        El ''div'' []
          [Provenance (case snapshot of
              Some snap \<Rightarrow> [Txt (u ''Ledger '' @ count_text (ss_ledger snap)), Txt (formatClosedAt (json_to_string (ss_closedAt snap))),
                            tx ''Supply as Horizon reports it'']
            | None \<Rightarrow> [tx ''Horizon unreachable'', tx ''No figure shown''])]]"

definition WORDS :: "string list" where
  "WORDS = [''zero'', ''one'', ''two'', ''three'', ''four'', ''five'', ''six'']"

definition word :: "nat \<Rightarrow> jstr" where
  "word n = (if n < length WORDS then u (WORDS ! n) else show_nat n)"

definition count_state :: "coverage_state \<Rightarrow> nat" where
  "count_state st = length (filter (\<lambda>r. cr_state r = st) exampleRecords)"

definition newest_record :: "coverage_record list \<Rightarrow> coverage_record" where
  "newest_record rs = foldl (\<lambda>a b. if cr_ledger b < cr_ledger a then a else b) (hd rs) (tl rs)"

definition registry_sentence :: dom where
  "registry_sentence =
     (let strong = (\<lambda>t. El ''span'' [] [Txt t]); n = word (length exampleRecords) in
      El ''p'' []
        [El ''span'' [] [tx ''Example registry''], El ''br'' [] [], strong (n @ u '' records''), tx '' for '', strong (n @ u '' assets''), tx '': '',
         strong (word (count_state Covered) @ u '' covered''), tx '', '', strong (word (count_state Short) @ u '' short''), tx '', '',
         strong (word (count_state Stale) @ u '' stale''), tx ''. The latest was checked at ledger '',
         strong (locale_int (cr_ledger (newest_record exampleRecords))), tx '', and each one costs about '', strong (u ''0.012 XLM''),
         tx '' to verify.''])"

definition StatSentence :: "supply_snapshot option \<Rightarrow> dom" where
  "StatSentence snapshot =
     El ''section'' [(''aria-label'', u ''The registry in two sentences''), (''data-rows'', u ''true'')]
       [El ''p'' []
          ([El ''span'' [] [tx ''On Stellar right now''], El ''br'' [] []]
           @ (case snapshot of
                Some snap \<Rightarrow>
                  (case ss_rows snap of
                     row # _ \<Rightarrow>
                       [El ''span'' [] [Txt (wholeUnits (as_supply row) @ u '' '' @ sa_code (as_asset row))], tx '' is in circulation, with '',
                        El ''span'' [] [Txt (count_text (as_holders row) @ u '' accounts'')], tx '' set up to hold it, read at ledger '',
                        El ''span'' [] [Txt (count_text (ss_ledger snap))],
                        tx ''. The supply is public. Whether reserves cover it is what a record proves.'']
                   | [] \<Rightarrow> [Txt (u ''A token'' @ [0x2019] @ u ''s supply is public on the ledger. What backs it usually is not. A record puts the two side by side.'')])
              | None \<Rightarrow> [Txt (u ''A token'' @ [0x2019] @ u ''s supply is public on the ledger. What backs it usually is not. A record puts the two side by side.'')])),
        registry_sentence]"

section \<open>The record\<close>

definition label_list :: "(string \<times> string) list \<Rightarrow> dom" where
  "label_list items = El ''dl'' [] (List.map (\<lambda>(l, v). El ''div'' [] [El ''dt'' [] [tx l], El ''dd'' [] [tx v]]) items)"

definition TheRecord :: dom where
  "TheRecord =
     (let output = (\<lambda>k n. El ''span'' [(k, show_nat n)] [Txt (show_nat n)]); t = calendarTotals in
      Chapter (Some (u ''the-record'')) (Some (u ''01'')) (Some (u ''record-title''))
        [ChapterHead (u ''record-title'') (Some (u ''The record'')) (u ''One record, every day.'')
           (Some (u ''Everything Solva does ends in this document. It is small on purpose: six fields that a holder, a partner or an auditor can read in a minute, and that a contract on Stellar can read in one call.'')),
         El ''figure'' [(''data-reveal'', u ''true'')]
           [El ''div'' [] [CalendarField],
            El ''figcaption'' []
              [El ''span'' [] [Txt (u ''Last '' @ show_nat (ct_days t div 7) @ u '' weeks'' @ mid_dot @ u ''day ''), output ''data-cal-day'' (ct_days t)],
               El ''span'' [] [output ''data-cal-proofs'' (ct_proofs t), Txt (u '' proofs landed'' @ mid_dot), output ''data-cal-missed'' (ct_missed t),
                  tx '' days missed, left hollow'']]],
         El ''div'' []
           [El ''div'' []
              [record_article (exampleRecords ! 0) True (u ''Example record''),
               El ''div'' []
                 [El ''p'' [] [tx ''What each field means''],
                  label_list
                    [(''Institution and asset'', ''Who owes, and in what''), (''Owed'', ''Holder or customer balances, committed''),
                     (''Held'', ''The balance of the reserve accounts, signed by the custodian or read from Stellar''),
                     (''Coverage'', ''Held divided by owed, never rounded up''), (''State'', ''Covered, short or stale (coming soon)''),
                     (''Ledger'', ''Where and when the proof was checked'')],
                  El ''p'' [] [tx ''A year of records reads like a calendar: a solid tick for each day a proof landed, a hollow tick for each day it did not. Nothing is edited after the fact.'']]]]])"

section \<open>features/solutions/components: evidence, alerts and verdicts\<close>

record evidence_proof =
  ep_owed :: string
  ep_held :: string
  ep_ratio :: string
  ep_ledger :: string

record evidence_row =
  er_date :: string
  er_state :: coverage_state
  er_proof :: "evidence_proof option"

definition EVIDENCE_ROWS :: "evidence_row list" where
  "EVIDENCE_ROWS =
     (let row = (\<lambda>(d, owed, held, ratio, ledger). \<lparr>er_date = d, er_state = Covered,
             er_proof = Some \<lparr>ep_owed = owed, ep_held = held, ep_ratio = ratio, ep_ledger = ledger\<rparr>\<rparr>) in
      List.map row
        [(''2026-11-02'', ''243,118,400.00'', ''251,902,115.50'', ''103.61%'', ''3,412,088''),
         (''2026-11-01'', ''243,090,150.00'', ''251,644,020.00'', ''103.51%'', ''3,396,210''),
         (''2026-10-31'', ''242,870,500.00'', ''248,102,330.00'', ''102.15%'', ''3,380,447''),
         (''2026-10-30'', ''242,615,000.00'', ''252,310,900.00'', ''103.99%'', ''3,364,915'')]
      @ [\<lparr>er_date = ''2026-10-29'', er_state = Stale, er_proof = None\<rparr>,
         row (''2026-10-28'', ''242,402,800.00'', ''252,104,600.00'', ''104.00%'', ''3,333,876'')])"

definition evidence_cells :: "evidence_row \<Rightarrow> dom" where
  "evidence_cells row =
     El ''tr'' []
       ([El ''th'' [(''scope'', u ''row'')] [tx (er_date row)]]
        @ (case er_proof row of
             Some p \<Rightarrow> List.map (\<lambda>t. El ''td'' [] [tx t]) [ep_owed p, ep_held p, ep_ratio p, ep_ledger p]
           | None \<Rightarrow> [El ''td'' [(''colspan'', u ''2'')] [tx ''No proof''], El ''td'' [(''colspan'', u ''4'')] [tx ''No proof arrived that day'']])
        @ [El ''td'' [] [StateStamp (er_state row) None]])"

definition column_head :: "string \<Rightarrow> dom" where
  "column_head label = El ''th'' [(''scope'', u ''col'')] [tx label]"

definition EvidenceExportFragment :: dom where
  "EvidenceExportFragment =
     El ''div'' [(''class'', u ''ruled-marks'')]
       [El ''div'' [] [El ''p'' [] [Txt (u ''Daily evidence'' @ mid_dot @ u ''example'')],
          El ''p'' [] [tx ''Kestrel Anchor '', El ''span'' [] [Txt ([0xB7, 32] @ u ''ARSK'')]]],
        El ''div'' []
          [El ''table'' []
             [El ''caption'' [] [tx ''Daily coverage results for ARSK''],
              El ''thead'' [] [El ''tr'' [] (List.map column_head [''Date'', ''Owed'', ''Held'', ''Coverage'', ''Ledger'', ''Result''])],
              El ''tbody'' [] (List.map evidence_cells EVIDENCE_ROWS)]],
        El ''div'' [] [Provenance (List.map tx [''Example'', ''One row per day'', ''CSV export coming soon''])]]"

definition PartnerAuditor :: dom where
  "PartnerAuditor =
     Chapter (Some (u ''auditors'')) (Some (u ''03'')) (Some (u ''auditor-title''))
       [ChapterHead (u ''auditor-title'') (Some (u ''Auditors'')) (u ''Dated evidence, tied to a ledger.'')
          (Some (u ''Every result carries the time it was made and the Stellar ledger it was checked at, so an auditor can check the days between audits. A daily history that shows at a glance where a proof did not arrive is coming soon.'')),
        El ''div'' [] [EvidenceExportFragment]]"

record partner_alert =
  pa_title :: string
  pa_state :: coverage_state
  pa_body :: string
  pa_when :: string

definition ALERTS :: "partner_alert list" where
  "ALERTS =
     [\<lparr>pa_title = ''EURC at Arden Pay turned short'', pa_state = Short,
       pa_body = ''Reserves were 98.50% of what is owed at ledger 3,411,640. The gap is 43,545.90 EURC.'', pa_when = ''4 hours ago''\<rparr>,
      \<lparr>pa_title = ''USDC at Halden Exchange is stale'', pa_state = Stale,
       pa_body = ''No proof in the last 24 hours. The last result was covered, at ledger 3,389,212.'', pa_when = ''7 hours ago''\<rparr>,
      \<lparr>pa_title = ''ARSK at Kestrel Anchor is covered'', pa_state = Covered,
       pa_body = ''Reserves were 103.61% of the tokens in circulation at ledger 3,412,088.'', pa_when = ''2 hours ago''\<rparr>]"

definition alert_entry :: "partner_alert \<Rightarrow> dom" where
  "alert_entry a =
     El ''li'' []
       [El ''div'' [] [El ''p'' [] [tx (pa_title a)], StateStamp (pa_state a) None], El ''p'' [] [tx (pa_body a)], Provenance [tx (pa_when a)]]"

definition PartnerAlerts :: dom where
  "PartnerAlerts =
     Chapter (Some (u ''alerts'')) (Some (u ''04'')) (Some (u ''alerts-title''))
       [El ''div'' []
          [ChapterHead (u ''alerts-title'') (Some (u ''Alerts'')) (u ''Know the moment an asset turns.'')
             (Some (u ''Partners watch the assets they hold or accept, and act the moment one turns short or stale, before their own customers start asking. Alerts are coming soon.'')),
           El ''div'' [(''class'', u ''ruled-marks'')]
             [El ''div'' [] [El ''p'' [] [Txt (u ''Watched assets'' @ mid_dot @ u ''example'')], El ''p'' [] [Txt (show_nat (length ALERTS) @ u '' watched'')]],
              El ''ul'' [] (List.map alert_entry ALERTS)]]]"

datatype verdict_reader = Wallet_Reader | Pool_Reader | Auditor_Reader

record verdict =
  vd_state :: coverage_state
  vd_meaning :: string
  vd_says :: "verdict_reader \<Rightarrow> string"

definition VERDICTS :: "verdict list" where
  "VERDICTS =
     (let says = (\<lambda>w p a r. case r of Wallet_Reader \<Rightarrow> w | Pool_Reader \<Rightarrow> p | Auditor_Reader \<Rightarrow> a) in
     [\<lparr>vd_state = Covered, vd_meaning = ''Reserves were at least what is owed at the last proof.'',
       vd_says = says ''Show the mark beside the balance, with the percentage and when it was proven.''
         ''Accept the asset as collateral and record the ledger it was checked at.''
         ''One more dated result for the file, tied to a ledger.''\<rparr>,
      \<lparr>vd_state = Short, vd_meaning = ''Reserves were below what is owed. The record shows the gap.'',
       vd_says = says ''Show the gap, so holders know before they send or swap.''
         ''Pause new borrowing against it until a proof shows it covered again.''
         ''A dated shortfall with its size, never rounded away.''\<rparr>,
      \<lparr>vd_state = Stale, vd_meaning = ''No new proof arrived inside the expected window.'',
       vd_says = says ''Say that no recent proof arrived. Never show the last result as current.''
         ''Treat coverage as unknown and pause until the next proof lands.''
         ''A missing day, visible as a gap in the daily evidence.''\<rparr>])"

definition READERS :: "(verdict_reader \<times> string) list" where
  "READERS = [(Wallet_Reader, ''For a wallet''), (Pool_Reader, ''For a lending pool''), (Auditor_Reader, ''For an auditor'')]"

definition verdict_row :: "verdict \<Rightarrow> dom" where
  "verdict_row v =
     El ''div'' []
       (El ''div'' [] [StateStamp (vd_state v) None, El ''p'' [] [tx (vd_meaning v)]]
        # List.map (\<lambda>(k, l). El ''div'' [] [El ''p'' [] [tx l], El ''p'' [] [tx (vd_says v k)]]) READERS)"

definition PartnerVerdicts :: dom where
  "PartnerVerdicts =
     Chapter (Some (u ''verdicts'')) (Some (u ''01'')) (Some (u ''verdicts-title''))
       [ChapterHead (u ''verdicts-title'') (Some (u ''Reading a verdict'')) (u ''Three verdicts, and what each reader does with them.'')
          (Some (u ''Each record will carry one of three verdicts. Read it, check the ledger it was made at, and act on it. Verdicts are coming soon: today a reader gets the verified totals and works out the verdict itself.'')),
        El ''div'' [] (List.map verdict_row VERDICTS),
        Provenance (List.map tx [''Coming soon'', ''One verdict per record''])]"

section \<open>The lending rule and one call to the registry\<close>

definition state_word :: "coverage_state \<Rightarrow> string" where
  "state_word st = (case st of Covered \<Rightarrow> ''covered'' | Short \<Rightarrow> ''short'' | Stale \<Rightarrow> ''stale'')"

definition LENDING_OPTIONS :: "(coverage_state \<times> string) list" where
  "LENDING_OPTIONS = [(Covered, ''Covered''), (Short, ''Short''), (Stale, ''Stale'')]"

definition record_parts :: "coverage_record \<Rightarrow> dom list" where
  "record_parts r = [tx ''Example'', Txt (cr_institution r @ mid_dot @ cr_asset r), Txt (ledgerLabel (cr_ledger r))]"

text \<open>\<open>state\<close> is the choice of the radio buttons, \<open>covered\<close> at first.\<close>

definition lending_option :: "coverage_state \<Rightarrow> coverage_state \<times> string \<Rightarrow> dom" where
  "lending_option state option =
     (case option of (v, l) \<Rightarrow> El ''label'' [] [radio (u ''lending-state'') (Some (u (state_word v))) (state = v) False, tx l])"

definition PartnerLending :: "coverage_state \<Rightarrow> dom" where
  "PartnerLending state =
     (let r = exampleRecords ! 0; d = collateralDecision (cr_asset r) state in
      Chapter (Some (u ''lending-pools'')) (Some (u ''02'')) (Some (u ''lending-title''))
        [El ''div'' []
          [El ''div'' []
            [ChapterHead (u ''lending-title'') (Some (u ''Lending pools'')) (u ''Accept collateral while it is covered.'')
              (Some (u ''A lending pool will check the verdict before each deposit with one call, is_covered, which is coming soon. Covered assets are accepted; short or stale assets wait until a new proof shows them covered again. Today a pool reads the latest proof''
                @ [39] @ u ''s totals from the institution'' @ [39] @ u ''s contract with get_latest_proof.'')),
             El ''fieldset'' []
               [El ''legend'' [] [Txt (u ''Set the verdict for '' @ cr_asset r)],
                El ''div'' [] (List.map (lending_option state) LENDING_OPTIONS)]],
           El ''div'' [(''aria-live'', u ''polite''), (''class'', u ''ruled-marks'')]
            [El ''div'' []
               [El ''div'' [] [El ''p'' [] [Txt (u ''Lending pool rule'' @ mid_dot @ u ''example'')], El ''p'' [] [Txt (cr_asset r @ u '' deposits'')]],
                StateStamp state None],
             El ''div'' []
               [LeaderRow (tx ''Call (planned)'') (tx ''is_covered(issuer, asset)''), LeaderRow (tx ''Verdict'') (tx (state_word state)),
                LeaderRow (tx ''Accept when'') (tx ''covered''), LeaderRow (tx ''Decision'') (Txt (cd_status d))],
             El ''p'' [] [Txt (cd_reason d)],
             Provenance (record_parts r)]]])"

definition CALLS :: "(string \<times> string) list" where
  "CALLS = [(''Rust'', ''registry.is_covered(&issuer, &asset)''), (''TypeScript'', ''await registry.is_covered({ issuer, asset })'')]"

definition evidence_tail :: "dom list" where
  "evidence_tail = [Txt (u ''Stellar '' @ ve_network verifierEvidence), Txt (u ''Protocol '' @ show_nat (ve_protocol verifierEvidence))]"

definition IsCoveredFigure :: dom where
  "IsCoveredFigure =
     (let r = exampleRecords ! 0; contract = ve_contractId verifierEvidence in
      El ''figure'' [(''class'', u ''ruled-marks'')]
        [El ''figcaption'' [] [El ''span'' [] [Txt (u ''One call'' @ mid_dot @ u ''planned registry interface'')], StateStamp (cr_state r) None],
         El ''div'' []
           (List.map (\<lambda>(l, c). El ''div'' [] [El ''p'' [] [tx l], El ''pre'' [] [El ''code'' [] [tx c]]]) CALLS
            @ [El ''div'' []
                [LeaderRow (tx ''Returns'') (Txt (u ''covered'' @ mid_dot @ u ''short'' @ mid_dot @ u ''stale'')),
                 LeaderRow (tx ''Checked at'') (Txt (ledgerLabel (cr_ledger r))), LeaderRow (tx ''Cost to read'') (tx ''Free''),
                 LeaderRow (tx ''Today'') (tx ''get_latest_proof(), get_proof(id)'')]]),
         El ''footer'' [] [Provenance (link_to (explorer_contract contract) [Txt (u ''Verifier '' @ shortHash contract 8 4)] # evidence_tail)]])"

section \<open>The comparison, the supply and the costs\<close>

definition COMPARE_ROWS :: "(string \<times> string \<times> string) list" where
  "COMPARE_ROWS =
     [(''Documents per year'', ''12'', ''365''), (''Days stale at worst'', ''30 to 90'', ''1''), (''Who can check'', ''Those it is sent to'', ''Anyone''),
      (''Cost to read'', ''A request and a wait'', ''Free''), (''Tied to a Stellar ledger'', ''No'', ''Every result'')]"

definition CustodyCompare :: dom where
  "CustodyCompare =
     Chapter (Some (u ''the-record-compare'')) (Some (u ''02'')) (Some (u ''compare-title''))
       [ChapterHead (u ''compare-title'') (Some (u ''Alongside your auditor'')) (u ''A monthly attestation, and a record every day.'')
          (Some (u ''In November 2026 the Stellar Anchor Directory listed 30 exchanges and marked none of them as publishing reserve evidence. If you publish a monthly attestation, keep it. This is what changes, counted for one asset over one year, once a record also lands every day. Daily publishing is coming soon.'')),
        El ''table'' []
          [El ''caption'' [] [tx ''A monthly PDF attestation compared with a daily coverage record''],
           El ''thead'' [] [El ''tr'' [] (List.map column_head [''Fact'', ''Monthly PDF attestation'', ''Daily coverage record''])],
           El ''tbody'' [] (List.map (\<lambda>(f, a, r). El ''tr'' [] [El ''th'' [(''scope'', u ''row'')] [tx f], El ''td'' [] [tx a], El ''td'' [] [tx r]]) COMPARE_ROWS)],
        Provenance (List.map tx [''Counted for one asset over one year'', ''Example''])]"

definition SUPPLY_FIELDS :: "(string \<times> string) list" where
  "SUPPLY_FIELDS =
     [(''Owed'', ''Today, a stored list of holder balances. Reading the supply from Stellar at the proof's ledger is coming soon.''),
      (''Held'', ''The balance of your reserve accounts, signed by the custodian that holds them, or read from Stellar for reserves held there.''),
      (''Coverage'', ''Held divided by owed, never rounded up.''),
      (''State'', ''Covered at or above 100%, short below it, and stale when no proof arrived in time. Coming soon.'')]"

definition YOUR_PART :: "string list" where
  "YOUR_PART =
     [''Tell Solva where the reserves for each asset are held.'',
      ''Have your custodian sign the reserve balance, or name the Stellar accounts that hold your reserves.'',
      ''Own your entry with your team's passkey.'']"

definition AnchorSupply :: "supply_snapshot option \<Rightarrow> dom" where
  "AnchorSupply snapshot =
     Chapter (Some (u ''supply-and-reserves'')) (Some (u ''01'')) (Some (u ''supply-title''))
       [ChapterHead (u ''supply-title'') (Some (u ''Supply and reserves'')) (u ''Supply is public on Stellar. The record adds your reserves.'')
          (Some (u ''What you owe is the token supply, which is already public on Stellar. What you hold is the balance of your reserve accounts, signed by your custodian or read from Stellar. Solva proves that the second covers the first and writes the result where anyone can read it. Using the supply read from Stellar in the proof is coming soon; today what is owed is a stored list of holder balances.'')),
        El ''div'' []
          [El ''div'' []
             [SupplyFigure snapshot,
              El ''p'' [] [tx ''Fiat tokens issued on Stellar today, with the supply the ledger reports for each. That is the half of the question anyone can already answer. The record adds the other half: whether reserves cover that supply. The record below is an example of what that looks like.''],
              record_article (exampleRecords ! 0) True (u ''Example record'')],
           El ''div'' []
             [El ''p'' [] [tx ''Where each number comes from''], label_list SUPPLY_FIELDS, El ''p'' [] [tx ''Your part''],
              El ''ul'' [] (List.map (\<lambda>t. El ''li'' [] [tx t]) YOUR_PART)]]]"

definition COST_FIGURES :: "(jstr \<times> jstr \<times> jstr) list" where
  "COST_FIGURES =
     [(u ''To read a record'', u ''Free'', u ''Holders, wallets, lending pools and auditors''),
      (u ''To verify one record on Stellar'', u ''0.012 XLM'',
       ve_feeXlm verifierEvidence @ u '' XLM'' @ mid_dot @ ledgerLabel (ve_verifiedAtLedger verifierEvidence)),
      (u ''To publish'', u ''Pilot terms'', u ''Agreed with each institution before the first proof'')]"

definition CostFigures :: dom where
  "CostFigures =
     (let tr = ve_verifyTx verifierEvidence in
      El ''div'' []
        [RuledGrid (List.map (\<lambda>(l, v, n). Cell (Txt l) (Txt v) (Some (Txt n))) COST_FIGURES),
         Provenance (link_to (explorer_tx tr) [Txt (u ''Verified transaction '' @ shortHash tr 8 4)] # evidence_tail)])"

definition AboutFacts :: dom where
  "AboutFacts =
     (let v = verifierEvidence; cell = (\<lambda>l x n. Cell (tx l) (Txt x) (Some (Txt n))) in
      Chapter None (Some (u ''03'')) (Some (u ''facts-title''))
        [ChapterHead (u ''facts-title'') (Some (u ''What is true today'')) (u ''Open, on Testnet, and cheap to check.'')
           (Some (u ''These are the facts a reviewer can verify today. The rest of the site says what the product does. This section says where it stands.'')),
         RuledGrid
           [cell ''Source code'' (u ''Open'') (u ''Apache 2.0, on GitHub''), cell ''Network'' (ve_network v) (u ''Protocol '' @ show_nat (ve_protocol v)),
            cell ''One verification'' (ve_feeXlm v @ u '' XLM'') (u ''Measured on Testnet''), cell ''Security audit'' (u ''Still ahead'') (u ''Mainnet follows the audit'')],
         Provenance
           [link_to (explorer_contract (ve_contractId v)) [Txt (u ''Verifier '' @ shortHash (ve_contractId v) 8 6)],
            link_to (explorer_tx (ve_verifyTx v)) [Txt (u ''Verified at ledger '' @ locale_int (ve_verifiedAtLedger v))],
            link_to (u githubUrl) [tx ''Source code on GitHub'']]])"

section \<open>The public asset page and the sheet of a record\<close>

definition day_tone :: "coverage_state \<Rightarrow> bool \<Rightarrow> string" where
  "day_tone st newest =
     (if newest \<and> st = Covered then ''bg-signal''
      else case st of Covered \<Rightarrow> ''bg-text'' | Short \<Rightarrow> ''bg-short-fill'' | Stale \<Rightarrow> ''border-l-2 border-dotted border-line-strong bg-transparent'')"

definition DayTicks :: "coverage_state list \<Rightarrow> jstr \<Rightarrow> dom" where
  "DayTicks days label =
     El ''div'' [(''role'', u ''img''), (''aria-label'', label @ u '': '' @ summarizeDays days), (''data-ticks'', u ''true'')]
       (List.map (\<lambda>(i, st). El ''span'' [(''aria-hidden'', u ''true''), (''class'', u (day_tone st (Suc i = length days)))] []) (enumerate 0 days))"

definition ASSET_DAYS :: "coverage_state list" where
  "ASSET_DAYS = dailyHistory 28 (\<lambda>d. if d = 9 then Some Stale else None)"

definition backed_answer :: "coverage_state \<Rightarrow> string" where
  "backed_answer st = (case st of Covered \<Rightarrow> ''Yes'' | Short \<Rightarrow> ''No'' | Stale \<Rightarrow> ''Unknown'')"

definition AnchorAssetPage :: dom where
  "AnchorAssetPage =
     (let r = exampleRecords ! 0;
          percent = (case coveragePercent (cr_owed r) (cr_held r) of Some p \<Rightarrow> p | None \<Rightarrow> u ''Unknown'');
          amount = (\<lambda>a. Txt (formatAmount a (cr_decimals r))) in
      El ''article'' [(''aria-label'', u ''Public asset page for '' @ cr_asset r @ u '', example''), (''class'', u ''ruled-marks'')]
        [El ''header'' [] [El ''p'' [] [tx ''joinsolva.xyz/registry/kestrel-anchor/ARSK'']],
         El ''div'' []
           [El ''div'' [] [El ''div'' [] [El ''p'' [] [Txt (cr_institution r)], El ''p'' [] [Txt (cr_asset r)]], StateStamp (cr_state r) None],
            El ''p'' [] [tx ''Is this token backed today?''],
            El ''p'' []
              [Txt (u (backed_answer (cr_state r)) @ u ''. At ledger ''), El ''span'' [] [Txt (locale_int (cr_ledger r))], tx '', reserves were '',
               El ''span'' [] [Txt percent], Txt (u '' of the tokens in circulation. Proven '' @ cr_provenAgo r @ u ''.'')],
            El ''div'' []
              [SealInstrument (Meter (heldShare r) (cr_state r)) None True None
                 [El ''span'' [(''data-count'', u ''true'')] [Txt percent], El ''span'' [] [tx ''Coverage'']],
               El ''div'' [(''data-rows'', u ''true'')]
                 [LeaderRow (tx ''In circulation'') (amount (cr_owed r)), LeaderRow (tx ''Reserves'') (amount (cr_held r)), LeaderRow (tx ''Coverage'') (Txt percent)]],
            El ''div'' [] [El ''p'' [] [tx ''Last 28 days''], El ''p'' [] [Txt (summarizeDays ASSET_DAYS)]],
            DayTicks ASSET_DAYS (u ''Coverage over the last 28 days'')],
         El ''footer'' [] [Provenance [tx ''Example'', Txt (ledgerLabel (cr_ledger r)), Txt (cr_provenAgo r)]]])"

definition KESTREL_ISSUER :: jstr where
  "KESTREL_ISSUER = u ''GKESTRLQ7VD2MNXW4HAJ5RCF3YTB6UPKZEZGSLXQOVN2WXHDMB547QXA''"

text \<open>\<open>coveragePercent\<close> may be null here; then the figure is empty.\<close>

definition sheet_fields :: "coverage_record \<Rightarrow> (string \<times> dom \<times> string) list" where
  "sheet_fields r =
     (let figure = (\<lambda>t. El ''span'' [(''data-count'', u ''true'')] t); amount = (\<lambda>a. figure [Txt (formatAmount a (cr_decimals r))]);
          surplus = (if cr_owed r < cr_held r then cr_held r - cr_owed r else 0) in
      [(''Institution'', El ''span'' [] [Txt (cr_institution r)], ''Who owes the asset. An anchor that issues it, or a custodial app that holds it for customers.''),
       (''Asset'', El ''span'' [] [Txt (cr_asset r @ u '' ''), El ''span'' [(''title'', KESTREL_ISSUER)] [Txt ([0xB7, 32] @ truncateAddress KESTREL_ISSUER)]],
        ''The token and its issuing account on Stellar. One registry per institution today. Separate records for each asset are coming soon, never a blended figure.''),
       (''Owed'', amount (cr_owed r),
        ''Today, the total of a stored list of balances: an anchor's holder balances or a custodial app's customer balances. Reading an anchor's supply from Stellar at the ledger named below is coming soon.''),
       (''Held'', amount (cr_held r), ''The balance of the reserve accounts, signed by the custodian that holds them or read from Stellar.''),
       (''Coverage'', figure (case coveragePercent (cr_owed r) (cr_held r) of Some p \<Rightarrow> [Txt p] | None \<Rightarrow> []),
        ''Held divided by owed, cut off at two decimals. It is never rounded up.''),
       (''Surplus'', amount surplus, ''Held minus owed. On a short day this line reads shortfall and shows the gap in full.''),
       (''State'', StateStamp (cr_state r) None, ''Covered, short or stale. Nothing in between, and never shown by colour alone. Coming soon.''),
       (''Ledger'', figure [Txt (locale_int (cr_ledger r))],
        ''The ledger at which the contract on Stellar checked the proof. It serves as the timestamp, and anyone can look it up.''),
       (''Proven'', Txt (cr_provenAgo r), ''How old the latest proof is. Once it passes the agreed window, the state will turn stale by itself. Coming soon.''),
       (''Schedule'', tx ''Daily, 06:00 UTC'', ''The cadence agreed with the institution. Daily by default. Scheduled publishing is coming soon.'')])"

definition RecordSheet :: "coverage_record \<Rightarrow> dom" where
  "RecordSheet r =
     Chapter (Some (u ''field-by-field'')) (Some (u ''01'')) (Some (u ''sheet-title''))
       [ChapterHead (u ''sheet-title'') (Some (u ''Field by field'')) (u ''Ten lines, and what stands behind each.'')
          (Some (u ''Reserves are signed by the custodian that holds them or read from Stellar, and a contract on Stellar checks the proof before the result is written. This example shows the full record as designed; states, supply read from Stellar and the daily schedule are coming soon.'')),
        Ruled True
          [El ''header'' []
             [El ''div'' [] [El ''p'' [] [Txt (u ''Coverage record'' @ mid_dot @ u ''Example'')],
                El ''p'' [] [Txt (cr_institution r @ u '' ''), El ''span'' [] [Txt ([0xB7, 32] @ cr_asset r)]]], StateStamp (cr_state r) None],
           El ''dl'' [(''data-rows'', u ''true'')]
             (List.map (\<lambda>(l, v, n). El ''div'' [] [El ''dt'' [] [tx l], El ''dd'' [] [v], El ''dd'' [] [tx n]]) (sheet_fields r)),
           El ''footer'' [] [Provenance [tx ''Example record'', Txt (ledgerLabel (cr_ledger r)), Txt (cr_provenAgo r), tx ''Proof checked on Stellar'']]]]"

section \<open>The customer check\<close>

definition result_view :: "snapshot_result \<Rightarrow> inclusion_snapshot \<Rightarrow> dom" where
  "result_view result snap =
     (let p = InclusionResultPanel result snap;
          head = El ''p'' [] [Txt (rp_title p)];
          stamped = El ''div'' [] (head # (case rp_stamp p of Some (st, l) \<Rightarrow> [StateStamp st (Some l)] | None \<Rightarrow> [])) in
      El ''div'' [(''aria-live'', u ''polite'')]
        (case result of
           ICounted r b t l \<Rightarrow>
             [stamped, El ''div'' [] (List.map (\<lambda>(l, v). LeaderRow (Txt l) (Txt v)) (rp_rows p)),
              El ''p'' [] [tx ''The reserves behind this total covered it at the same ledger. No other customer is named; the path shows unnamed subtotals, including one neighbouring balance.'']]
         | INot_found r \<Rightarrow>
             [stamped,
              El ''p'' [] [El ''span'' [] [Txt r], tx '' is not in the proof at ledger '', El ''span'' [] [Txt (locale_int (is_ledger snap))],
                Txt (u ''. If you hold a balance with '' @ is_institution snap @ u '', raise it with them. Catching this is what the check is for.'')]]
         | IInvalid i \<Rightarrow>
             [head, El ''p'' [] [tx ''An account reference has three letters and four digits, for example '', El ''span'' [] [tx ''NWC-0418''], tx ''.'']]
         | IIdle \<Rightarrow> [head, El ''p'' [] [tx ''Pick an example customer or enter a reference, then run the check.'']]))"

definition customer_radio :: "snapshot_result \<Rightarrow> customer_leaf \<Rightarrow> dom" where
  "customer_radio result c =
     El ''label'' [] [radio (u ''inclusion-customer'') (Some (cl_reference c)) (picked result = Some (cl_reference c)) False, Txt (cl_reference c)]"

text \<open>\<open>titleId\<close>, \<open>inputId\<close> and \<open>hintId\<close> are the ids \<open>useId\<close> makes.\<close>

definition InclusionCheck :: "jstr \<Rightarrow> jstr \<Rightarrow> jstr \<Rightarrow> inclusion_snapshot \<Rightarrow> checker \<Rightarrow> dom" where
  "InclusionCheck titleId inputId hintId snap c =
     (let result = ck_result c in
      El ''div'' [(''id'', u ''inclusion''), (''role'', u ''group''), (''aria-labelledby'', titleId), (''class'', u ''ruled-marks'')]
        [El ''div'' []
           [El ''div'' [] [El ''p'' [] [Txt (u ''Customer check'' @ mid_dot @ u ''example'')],
              El ''p'' [(''id'', titleId)] [Txt (is_institution snap @ u '' ''), El ''span'' [] [Txt ([0xB7, 32] @ is_asset snap)]]],
            El ''p'' [] [Txt (ledgerLabel (is_ledger snap))]],
         El ''div'' [] [result_view result snap],
         El ''fieldset'' []
           [El ''legend'' [] [tx ''Check as one of these customers''], El ''div'' [] (List.map (customer_radio result) (is_customers snap))],
         El ''form'' []
           [El ''label'' [(''for'', inputId)] [tx ''Or enter an account reference''],
            El ''div'' []
              [El ''input'' [(''id'', inputId), (''value'', ck_query c), (''autocomplete'', u ''off''), (''spellcheck'', u ''false''),
                 (''aria-describedby'', hintId), (''aria-invalid'', u (case result of IInvalid i \<Rightarrow> ''true'' | _ \<Rightarrow> ''false''))] [],
               site_button False [tx ''Check'']],
            El ''p'' [(''id'', hintId)] [tx ''Three letters and four digits, exactly as shown in the customer's app.'']],
         El ''p'' [] [tx ''In a pilot, and in the holder step of the demo, this check runs against the contract on Stellar with verify_inclusion.''],
         Provenance [tx ''Example'', Txt (ledgerLabel (is_ledger snap)), tx ''Lookup simulated on this page'']])"

section \<open>Figures written by hand\<close>

text \<open>What a row of the evidence table says of an example record, and when a row is true to itself: its
  percentage is that of its own amounts, and a row without figures is stale.\<close>

definition row_of_record :: "evidence_row \<Rightarrow> coverage_record \<Rightarrow> bool" where
  "row_of_record row r \<longleftrightarrow>
     er_state row = cr_state r \<and>
     (case er_proof row of
        Some p \<Rightarrow> u (ep_owed p) = formatAmount (cr_owed r) (cr_decimals r) \<and> u (ep_held p) = formatAmount (cr_held r) (cr_decimals r)
          \<and> Some (u (ep_ratio p)) = coveragePercent (cr_owed r) (cr_held r) \<and> u (ep_ledger p) = locale_int (cr_ledger r)
      | None \<Rightarrow> False)"

definition row_honest :: "evidence_row \<Rightarrow> bool" where
  "row_honest row =
     (case er_proof row of
        Some p \<Rightarrow>
          (case (parseAmount (u (ep_owed p)) 2, parseAmount (u (ep_held p)) 2) of
             (Some owed, Some held) \<Rightarrow> Some (u (ep_ratio p)) = coveragePercent owed held \<and> er_state row = (if owed \<le> held then Covered else Short)
           | _ \<Rightarrow> False)
      | None \<Rightarrow> er_state row = Stale)"

definition alert_text :: "coverage_record \<Rightarrow> jstr" where
  "alert_text r =
     (let percent = percent_text (cr_owed r) (cr_held r); ledger = locale_int (cr_ledger r) in
      case cr_state r of
        Short \<Rightarrow> u ''Reserves were '' @ percent @ u '' of what is owed at ledger '' @ ledger @ u ''. The gap is ''
          @ formatAmount (coverageShortfall r) (cr_decimals r) @ u '' '' @ cr_asset r @ u ''.''
      | Stale \<Rightarrow> u ''No proof in the last 24 hours. The last result was covered, at ledger '' @ ledger @ u ''.''
      | Covered \<Rightarrow> u ''Reserves were '' @ percent @ u '' of the tokens in circulation at ledger '' @ ledger @ u ''.'')"

definition alert_of :: "partner_alert \<Rightarrow> coverage_record \<Rightarrow> bool" where
  "alert_of a r \<longleftrightarrow> pa_state a = cr_state r \<and> u (pa_body a) = alert_text r
     \<and> prefix (cr_asset r @ u '' at '' @ cr_institution r @ u '' '') (u (pa_title a))"

lemmas print_simps = formatAmount_def coveragePercent_def Let_def sdiv_nonneg show_int_def show_nat.simps pad_left_def u_def

lemma row_honest_I:
  assumes "u owed = formatAmount a 2" "u held = formatAmount b 2" "0 \<le> a" "0 \<le> b" "Some (u ratio) = coveragePercent a b"
    and "st = (if a \<le> b then Covered else Short)"
  shows "row_honest \<lparr>er_date = d, er_state = st, er_proof = Some \<lparr>ep_owed = owed, ep_held = held, ep_ratio = ratio, ep_ledger = l\<rparr>\<rparr>"
  using assms by (simp add: row_honest_def parse_format_nonneg)

lemma row_honest_stale: "row_honest \<lparr>er_date = d, er_state = Stale, er_proof = None\<rparr>"
  by (simp add: row_honest_def)

lemma evidence_row_facts:
  "row_honest \<lparr>er_date = d1, er_state = Covered, er_proof = Some \<lparr>ep_owed = ''243,118,400.00'', ep_held = ''251,902,115.50'', ep_ratio = ''103.61%'', ep_ledger = l1\<rparr>\<rparr>"
  "row_honest \<lparr>er_date = d2, er_state = Covered, er_proof = Some \<lparr>ep_owed = ''243,090,150.00'', ep_held = ''251,644,020.00'', ep_ratio = ''103.51%'', ep_ledger = l2\<rparr>\<rparr>"
  "row_honest \<lparr>er_date = d3, er_state = Covered, er_proof = Some \<lparr>ep_owed = ''242,870,500.00'', ep_held = ''248,102,330.00'', ep_ratio = ''102.15%'', ep_ledger = l3\<rparr>\<rparr>"
  "row_honest \<lparr>er_date = d4, er_state = Covered, er_proof = Some \<lparr>ep_owed = ''242,615,000.00'', ep_held = ''252,310,900.00'', ep_ratio = ''103.99%'', ep_ledger = l4\<rparr>\<rparr>"
  "row_honest \<lparr>er_date = d5, er_state = Covered, er_proof = Some \<lparr>ep_owed = ''242,402,800.00'', ep_held = ''252,104,600.00'', ep_ratio = ''104.00%'', ep_ledger = l5\<rparr>\<rparr>"
  subgoal by (rule row_honest_I [of _ 24311840000 _ 25190211550]) (simp_all add: print_simps)
  subgoal by (rule row_honest_I [of _ 24309015000 _ 25164402000]) (simp_all add: print_simps)
  subgoal by (rule row_honest_I [of _ 24287050000 _ 24810233000]) (simp_all add: print_simps)
  subgoal by (rule row_honest_I [of _ 24261500000 _ 25231090000]) (simp_all add: print_simps)
  subgoal by (rule row_honest_I [of _ 24240280000 _ 25210460000]) (simp_all add: print_simps)
  done

lemma evidence_rows_honest: "list_all row_honest EVIDENCE_ROWS"
  by (simp add: EVIDENCE_ROWS_def evidence_row_facts row_honest_stale)

lemma row_is_record: "row_of_record (EVIDENCE_ROWS ! 0) (exampleRecords ! 0)"
  by (simp add: row_of_record_def EVIDENCE_ROWS_def exampleRecords_def print_simps locale_int_def)

lemma evidence_ledgers:
  "concat (List.map (\<lambda>row. case er_proof row of Some p \<Rightarrow> [u (ep_ledger p)] | None \<Rightarrow> []) EVIDENCE_ROWS)
     = List.map locale_int [3412088, 3396210, 3380447, 3364915, 3333876]"
  by (simp add: EVIDENCE_ROWS_def locale_int_def print_simps)

lemma evidence_dates:
  "List.map (\<lambda>row. u (er_date row)) EVIDENCE_ROWS =
     List.map date_text [(2026, 11, 2), (2026, 11, 1), (2026, 10, 31), (2026, 10, 30), (2026, 10, 29), (2026, 10, 28)]"
  by (simp add: EVIDENCE_ROWS_def year_text_def pad_left_def show_nat.simps u_def)

lemma alerts_true: "list_all2 alert_of ALERTS [exampleRecords ! 2, exampleRecords ! 3, exampleRecords ! 0]"
  by (simp add: ALERTS_def alert_of_def alert_text_def exampleRecords_def print_simps percent_text_def locale_int_def coverageShortfall_def)

text \<open>The figures typed into the evidence table and into the alerts are those of the site's example records: the
  first row is the record of ARSK, every row with figures has the percentage and the state of its own amounts, a
  row without is stale, the dates are consecutive days and the ledgers fall with them, and every alert names the state,
  the percentage, the ledger and the gap of the record it is about.\<close>

theorem hand_written_figures:
  "row_of_record (EVIDENCE_ROWS ! 0) (exampleRecords ! 0) \<and> list_all row_honest EVIDENCE_ROWS
   \<and> List.map (\<lambda>row. u (er_date row)) EVIDENCE_ROWS =
       List.map date_text [(2026, 11, 2), (2026, 11, 1), (2026, 10, 31), (2026, 10, 30), (2026, 10, 29), (2026, 10, 28)]
   \<and> (\<exists>ledgers. sorted_wrt (>) ledgers
        \<and> concat (List.map (\<lambda>row. case er_proof row of Some p \<Rightarrow> [u (ep_ledger p)] | None \<Rightarrow> []) EVIDENCE_ROWS) = List.map locale_int ledgers)
   \<and> list_all2 alert_of ALERTS [exampleRecords ! 2, exampleRecords ! 3, exampleRecords ! 0]"
proof -
  have "sorted_wrt (>) [3412088, 3396210, 3380447, 3364915, 3333876 :: int]" by simp
  with evidence_ledgers evidence_rows_honest row_is_record evidence_dates alerts_true show ?thesis by blast
qed

lemma table_date: "date_text (2026, 10, 29) = u ''2026-10-29''" "date_text (2026, 11, 1) = u ''2026-11-01''"
  by (simp_all add: year_text_def pad_left_def show_nat.simps u_def)

lemma kestrel_built: "\<exists>ds. kestrelHistory = Inr ds"
proof -
  obtain r where r: "kestrelRecord = Inr r" by (simp add: kestrelRecord_def exampleRecords_def)
  have p: "parse_date (hp_latestDate (kestrel_plan r)) = Some (make_day (2026, 11, 2))"
      "year_start 0 \<le> make_day (2026, 11, 2) - int (hp_days (kestrel_plan r))"
    by (simp_all only: kestrel_plan_def history_plan.simps kestrel_latest YEAR_DAYS_def)
      (simp add: year_start_def numeral_eq_Suc month_length_def)
  show ?thesis by (simp add: kestrelHistory_def kestrelYear_def r buildHistory_entries [OF p])
qed

text \<open>The evidence table and the history page show the same record, ARSK of Kestrel Anchor, and disagree: the table
  has no proof for a day on which the history has one, and other amounts for the day before the last.\<close>

theorem example_histories_disagree:
  "\<exists>ds. kestrelHistory = Inr ds
     \<and> dr_date (ds ! 85) = u (er_date (EVIDENCE_ROWS ! 4)) \<and> dr_state (ds ! 85) = Covered \<and> er_state (EVIDENCE_ROWS ! 4) = Stale
     \<and> dr_date (ds ! 88) = u (er_date (EVIDENCE_ROWS ! 1)) \<and> formatAmount (dr_owed (ds ! 88)) 2 = u ''242,805,900.00''
     \<and> map_option ep_owed (er_proof (EVIDENCE_ROWS ! 1)) = Some ''243,090,150.00''"
proof -
  obtain ds where ds: "kestrelHistory = Inr ds"
    using kestrel_built ..
  obtain r where r: "kestrelRecord = Inr r" "cr_owed r = 24311840000" by (simp add: kestrelRecord_def exampleRecords_def)
  have d: "ds ! i = day_entry (kestrel_plan r) (history_date (make_day (2026, 11, 2)) 365) (275 + i)" if "i < 90" for i
    by (metis kestrel_days [OF ds that] r(1) sum.inject(2))
  have c: "civil_of (make_day (2026, 11, 2) - int 4) = (2026, 10, 29)" "civil_of (make_day (2026, 11, 2) - int 1) = (2026, 11, 1)"
    using civil_of_make_day [of "(2026, 10, 29)"] civil_of_make_day [of "(2026, 11, 1)"]
    by (simp_all add: valid_civil_def month_length_def numeral_eq_Suc leap_year_def add.commute)
  note [simp] = day_entry_def kestrel_plan_def YEAR_DAYS_def HISTORY_START_def HISTORY_DAYS_def history_date_def day_owed_def day_held_def
    basis_points_def SUPPLY_GROWTH_PER_DAY_def sdiv_nonneg r(2)
  have "dr_date (ds ! 85) = u ''2026-10-29'' \<and> dr_state (ds ! 85) = Covered" "dr_date (ds ! 88) = u ''2026-11-01'' \<and> dr_owed (ds ! 88) = 24280590000"
    using c by (simp_all add: d table_date del: date_text.simps make_day.simps)
  moreover have "formatAmount 24280590000 2 = u ''242,805,900.00''" by (simp add: print_simps)
  moreover have "EVIDENCE_ROWS ! 4 = \<lparr>er_date = ''2026-10-29'', er_state = Stale, er_proof = None\<rparr>"
    "er_date (EVIDENCE_ROWS ! 1) = ''2026-11-01'' \<and> map_option ep_owed (er_proof (EVIDENCE_ROWS ! 1)) = Some ''243,090,150.00''"
    by (simp_all add: EVIDENCE_ROWS_def)
  ultimately show ?thesis using ds by (intro exI [of _ ds]) simp
qed

section \<open>The sentence over the registry\<close>

lemma registry_counts:
  "word (length exampleRecords) = u ''four''" "word (count_state Covered) = u ''two''" "word (count_state Short) = u ''one''"
  "word (count_state Stale) = u ''one''"
  by (simp_all add: count_state_def word_def WORDS_def exampleRecords_def)

lemma registry_newest:
  "cr_ledger (newest_record exampleRecords) = Max (cr_ledger ` set exampleRecords)"
  by (simp add: newest_record_def exampleRecords_def)

lemma registry_assets: "card (cr_asset ` set exampleRecords) = 3"
  by (simp add: exampleRecords_def card_insert_if)

text \<open>The sentence counts the example records and their states, and names the last ledger.  It says four assets, but
  two of the records are of the same asset.\<close>

theorem registry_sentence_counts:
  "concat (drop 1 (texts registry_sentence)) =
     u ''four records for four assets: two covered, one short, one stale. The latest was checked at ledger ''
     @ locale_int (Max (cr_ledger ` set exampleRecords)) @ u '', and each one costs about 0.012 XLM to verify.''
   \<and> card (cr_asset ` set exampleRecords) = 3"
  by (simp add: registry_sentence_def Let_def registry_counts registry_newest registry_assets flip: u_append)

section \<open>The lending rule and the customer check\<close>

definition checked_inputs :: "dom \<Rightarrow> jstr option list" where
  "checked_inputs d = List.map (\<lambda>a. map_of a ''value'') (filter (has_flag ''checked'') (inputs d))"

lemma lending_choice: "checked_inputs (PartnerLending st) = [Some (u (state_word st))]"
  by (cases st) (simp_all add: PartnerLending_def Let_def checked_inputs_def lending_option_def LENDING_OPTIONS_def record_parts_def opt_attr_def flag_def)

text \<open>The customer check selects the customer it has counted and no other, keeps what was typed in its field, and marks
  the field invalid exactly when the reference is.\<close>

theorem customer_check_view:
  "checked_inputs (InclusionCheck ti ii hi snap c)
     = List.map (\<lambda>l. Some (cl_reference l)) (filter (\<lambda>l. picked (ck_result c) = Some (cl_reference l)) (is_customers snap))
   \<and> map_of (last (inputs (InclusionCheck ti ii hi snap c))) ''value'' = Some (ck_query c)
   \<and> (map_of (last (inputs (InclusionCheck ti ii hi snap c))) ''aria-invalid'' = Some (u ''true'') \<longleftrightarrow> (\<exists>i. ck_result c = IInvalid i))
   \<and> controls (InclusionCheck ti ii hi snap c) = [(u ''Check'', True)]"
proof -
  have r: "inputs (result_view res snap) = []" "controls (result_view res snap) = []" for res
    by (cases res; simp add: result_view_def Let_def comp_def)+
  have rad: "concat (List.map (inputs \<circ> customer_radio res) cs) =
      List.map (\<lambda>l. [(''type'', u ''radio''), (''name'', u ''inclusion-customer''), (''value'', cl_reference l)]
         @ flag ''checked'' (picked res = Some (cl_reference l))) cs" "concat (List.map (controls \<circ> customer_radio res) cs) = []" for res cs
    by (induction cs) (simp_all add: customer_radio_def opt_attr_def flag_def)
  have chosen: "List.map (\<lambda>a. map_of a ''value'') (filter (has_flag ''checked'') (List.map (\<lambda>l. (''type'', u ''radio'')
        # (''name'', u ''inclusion-customer'') # (''value'', cl_reference l) # flag ''checked'' (P l)) cs))
      = List.map (\<lambda>l. Some (cl_reference l)) (filter P cs)" for P and cs :: "customer_leaf list"
    by (induction cs) simp_all
  show ?thesis
    by (simp add: InclusionCheck_def Let_def r rad chosen checked_inputs_def split: snapshot_result.split)
qed

end
