(* ===== verification/Blog_View.thy ===== *)
theory Blog_View
  imports Blog Site_Pages
begin

text \<open>
  The pages of the blog (apps/website/src/features/blog/components and app/blog): the list with its
  featured note, the article with its related notes, and the headings of a body with the anchors they
  get (mdx-components.tsx).  The renderer of a body is a parameter \<open>render\<close>: it gives the elements of
  a source.  With them the button that leads back to the top (hooks/use-back-to-top.ts,
  components/layout/back-to-top.tsx) and the picture credits (components/layout/picture-credits.tsx
  over config/credits.ts).
\<close>

section \<open>mdx-components.tsx\<close>

text \<open>\<open>toLowerCase\<close> as far as it can reach the letters of an anchor: besides the capital ASCII letters
  only the Kelvin sign and the dotted capital I have an ASCII letter in their lower case.\<close>

definition lower_case :: "nat \<Rightarrow> jstr" where
  "lower_case c =
     (if 65 \<le> c \<and> c \<le> 90 then [c + 32] else if c = 0x212A then [107] else if c = 0x130 then [105, 0x307] else [c])"

text \<open>Each run of other characters becomes one dash.\<close>

fun dashed :: "bool \<Rightarrow> jstr \<Rightarrow> jstr" where
  "dashed inrun [] = []" |
  "dashed inrun (c # s) =
     (if slug_char c then c # dashed False s else if inrun then dashed True s else 45 # dashed True s)"

definition strip_dashes :: "jstr \<Rightarrow> jstr" where
  "strip_dashes s =
     (let t = (case s of c # r \<Rightarrow> if c = 45 then r else s | [] \<Rightarrow> [])
      in if t \<noteq> [] \<and> last t = 45 then butlast t else t)"

definition slugify :: "jstr \<Rightarrow> jstr" where
  "slugify text = strip_dashes (dashed False (concat (List.map lower_case text)))"

text \<open>The children of a heading: a text, a list of children, or anything else.\<close>

datatype mdx_children = Heading_text jstr | Heading_list "mdx_children list" | Heading_other dom

fun textOf :: "mdx_children \<Rightarrow> jstr" where
  "textOf (Heading_text t) = t" |
  "textOf (Heading_list hs) = concat (List.map textOf hs)" |
  "textOf (Heading_other d) = []"

fun heading_nodes :: "mdx_children \<Rightarrow> dom list" where
  "heading_nodes (Heading_text t) = [Txt t]" |
  "heading_nodes (Heading_list hs) = concat (List.map heading_nodes hs)" |
  "heading_nodes (Heading_other d) = [d]"

definition mdx_h2 :: "mdx_children \<Rightarrow> dom" where
  "mdx_h2 content = El ''h2'' [(''id'', slugify (textOf content))] (heading_nodes content)"

section \<open>post-cover.tsx, post-list.tsx and post-article.tsx\<close>

definition PostCover :: "jstr \<Rightarrow> jstr \<Rightarrow> dom" where
  "PostCover src alt = El ''div'' [] [El ''img'' [(''src'', src), (''alt'', alt)] []]"

definition PostBody :: "(jstr \<Rightarrow> dom list) \<Rightarrow> jstr \<Rightarrow> dom" where
  "PostBody render source = El ''div'' [] (render source)"

definition post_href :: "post_meta \<Rightarrow> jstr" where
  "post_href m = route ''blog'' @ u ''/'' @ po_slug m"

definition post_time :: "post_meta \<Rightarrow> jstr \<Rightarrow> dom" where
  "post_time m date = El ''time'' [(''datetime'', po_date m)] [Txt date]"

definition post_minutes :: "post_meta \<Rightarrow> dom" where
  "post_minutes m = El ''span'' [] [Txt (show_nat (po_readingMinutes m) @ u '' min'')]"

definition featured_note :: "post_meta \<Rightarrow> dom result" where
  "featured_note m =
     bindR (formatPostDate (po_date m)) (\<lambda>date. Inr
       (link_to (post_href m)
          [PostCover (po_cover m) (po_coverAlt m),
           El ''div'' []
             [El ''div'' []
                [El ''p'' [] [El ''span'' [] [Txt (po_category m)], post_time m date, post_minutes m],
                 El ''h3'' [] [Txt (post_meta.po_title m)], El ''p'' [] [Txt (po_excerpt m)]],
              El ''span'' [] [tx ''Read the note'']]]))"

definition note_entry :: "post_meta \<Rightarrow> dom result" where
  "note_entry m =
     bindR (formatPostDate (po_date m)) (\<lambda>date. Inr
       (El ''li'' []
          [link_to (post_href m)
             [El ''p'' [] [post_time m date, El ''span'' [] [Txt (po_category m)], post_minutes m],
              El ''div'' [] [El ''h3'' [] [Txt (post_meta.po_title m)], El ''p'' [] [Txt (po_excerpt m)]],
              PostCover (po_cover m) (po_coverAlt m)]]))"

definition featured_first :: "post_meta list \<Rightarrow> post_meta list" where
  "featured_first posts = sort_key (\<lambda>m. - (of_bool (po_featured m) :: int)) posts"

definition PostList :: "post_meta list \<Rightarrow> dom result" where
  "PostList posts =
     (let sorted = featured_first posts in
      bindR (mapR featured_note (take 1 sorted)) (\<lambda>featured.
      bindR (mapR note_entry (drop 1 sorted)) (\<lambda>rest. Inr
        (Chapter None None (Some (u ''blog-list-title''))
           ([El ''h2'' [(''id'', u ''blog-list-title'')] [tx ''All notes'']] @ featured @ [El ''ol'' [] rest])))))"

definition related_entry :: "post_meta \<Rightarrow> dom result" where
  "related_entry m =
     bindR (formatPostDate (po_date m)) (\<lambda>date. Inr
       (El ''li'' [] [link_to (post_href m) [El ''span'' [] [Txt date], El ''span'' [] [Txt (post_meta.po_title m)]]]))"

definition PostArticle :: "(jstr \<Rightarrow> dom list) \<Rightarrow> post \<Rightarrow> post_meta list \<Rightarrow> dom result" where
  "PostArticle render p related =
     (let m = po_meta p in
      bindR (formatPostDate (po_date m)) (\<lambda>date.
      bindR (mapR related_entry related) (\<lambda>entries. Inr
        (El ''article'' []
           ([El ''header'' []
               [El ''div'' []
                  [link_to (route ''blog'') [tx ''Blog''], El ''p'' [] [Txt (po_category m)],
                   El ''h1'' [] [Txt (post_meta.po_title m)], El ''p'' [] [Txt (po_excerpt m)],
                   Provenance [Txt (po_author m), post_time m date, Txt (show_nat (po_readingMinutes m) @ u '' min read'')]],
                El ''figure'' [] [PostCover (po_cover m) (po_coverAlt m), El ''figcaption'' [] [Txt (po_coverAlt m @ [46])]]],
             El ''div'' [] [El ''div'' [] [], El ''div'' [] [PostBody render (po_body p)], El ''div'' [] []]]
            @ (if related \<noteq> []
               then [El ''aside'' [(''aria-labelledby'', u ''related-title'')]
                       [El ''h2'' [(''id'', u ''related-title'')] [tx ''More notes''], El ''ol'' [] entries]]
               else []))))))"

section \<open>app/blog\<close>

definition BlogPage :: "post_meta list result \<Rightarrow> dom list result" where
  "BlogPage posts =
     bindR posts (\<lambda>ms. bindR (PostList ms) (\<lambda>l. Inr
       [PageOpening (page_opening.make (u ''Blog'') (u ''Notes on reserves and coverage.'')
          (u ''Short notes in plain language. What a coverage record proves, why no balance can be left out of it, and why the check lives on Stellar.'')
          None None None (Some [Txt (show_nat (length ms) @ u '' notes''), tx ''Written by the Solva team'']) (u ''page-title'')),
        l, Close None None]))"

definition generateStaticParams :: "post_meta list result \<Rightarrow> jstr list result" where
  "generateStaticParams posts = bindR posts (\<lambda>ms. Inr (List.map po_slug ms))"

text \<open>What the head of a post's page says; the address is the canonical one and the one of the preview.\<close>

record post_head =
  ph_title :: jstr
  ph_description :: jstr
  ph_author :: jstr
  ph_canonical :: jstr
  ph_published :: jstr
  ph_image :: "jstr \<times> jstr"

definition generateMetadata :: "jstr \<Rightarrow> post option \<Rightarrow> jstr + post_head" where
  "generateMetadata slug p =
     (case p of
        None \<Rightarrow> Inl (u ''Note not found'')
      | Some q \<Rightarrow> let m = po_meta q in
          Inr \<lparr>ph_title = post_meta.po_title m, ph_description = po_excerpt m, ph_author = po_author m,
               ph_canonical = route ''blog'' @ u ''/'' @ slug, ph_published = po_date m,
               ph_image = (po_cover m, po_coverAlt m)\<rparr>)"

definition related_notes :: "jstr \<Rightarrow> post_meta list \<Rightarrow> post_meta list" where
  "related_notes slug ms = take 3 (filter (\<lambda>m. po_slug m \<noteq> slug) ms)"

text \<open>No page is the answer that the note is not found.\<close>

definition PostPage :: "(jstr \<Rightarrow> dom list) \<Rightarrow> jstr \<Rightarrow> post option result \<Rightarrow> post_meta list result \<Rightarrow> dom list option result" where
  "PostPage render slug found posts =
     bindR found (\<lambda>p. case p of
        None \<Rightarrow> Inr None
      | Some q \<Rightarrow> bindR posts (\<lambda>ms. bindR (PostArticle render q (related_notes slug ms))
          (\<lambda>a. Inr (Some [a, Close None None]))))"

section \<open>use-back-to-top.ts and back-to-top.tsx\<close>

record top_button =
  tb_scrollY :: rat
  tb_scrollHeight :: rat
  tb_viewport :: rat
  tb_frame :: bool
  tb_offset :: rat
  tb_visible :: bool

definition top_update :: "top_button \<Rightarrow> top_button" where
  "top_update b =
     b\<lparr>tb_frame := False,
       tb_offset := 1 - scrollProgress (tb_scrollY b) (tb_scrollHeight b) (tb_viewport b),
       tb_visible := showBackToTop (tb_scrollY b) (tb_viewport b)\<rparr>"

definition top_schedule :: "top_button \<Rightarrow> top_button" where
  "top_schedule b = (if tb_frame b then b else b\<lparr>tb_frame := True\<rparr>)"

definition top_mount :: "rat \<Rightarrow> rat \<Rightarrow> rat \<Rightarrow> top_button" where
  "top_mount y h v =
     top_update \<lparr>tb_scrollY = y, tb_scrollHeight = h, tb_viewport = v, tb_frame = False, tb_offset = 1, tb_visible = False\<rparr>"

text \<open>The page scrolls or is resized, with an event; its height can also change without one.\<close>

inductive top_step :: "top_button \<Rightarrow> top_button \<Rightarrow> bool" where
  scrolled: "top_step b (top_schedule (b\<lparr>tb_scrollY := y\<rparr>))" |
  resized: "top_step b (top_schedule (b\<lparr>tb_scrollY := y, tb_scrollHeight := h, tb_viewport := v\<rparr>))" |
  grown: "top_step b (b\<lparr>tb_scrollHeight := h\<rparr>)" |
  drawn: "tb_frame b \<Longrightarrow> top_step b (top_update b)"

definition toTop :: "scroll_page \<Rightarrow> bool \<Rightarrow> scroll_call \<times> jstr option" where
  "toTop s main = (scrollToY 0 s, if main then Some (u ''main'') else None)"

definition BackToTop :: "top_button \<Rightarrow> dom" where
  "BackToTop b =
     El ''button'' ([(''type'', u ''button''), (''aria-label'', u ''Back to top'')] @ flag ''inert'' (\<not> tb_visible b)
         @ [(''class'', u (if tb_visible b then ''translate-y-0 opacity-100'' else ''pointer-events-none translate-y-3 opacity-0''))])
       [El ''svg'' [(''aria-hidden'', u ''true'')] [El ''circle'' [] [], El ''circle'' [] []]]"

section \<open>config/credits.ts and picture-credits.tsx\<close>

record picture_credit =
  pc_title :: jstr
  pc_creator :: "jstr option"
  pc_source :: jstr
  pc_sourceUrl :: jstr
  pc_licence :: jstr
  pc_licenceUrl :: jstr

definition pictureCredits :: "picture_credit list" where
  "pictureCredits =
     [\<lparr>pc_title = u ''A Dutch gold coin scale (M'' @ [0xFC] @ u ''nzwaage)'',
       pc_creator = Some (u ''Jan Linderman (object), Reinhard Saczewski (photograph)''), pc_source = u ''Wikimedia Commons'',
       pc_sourceUrl = u ''https://commons.wikimedia.org/wiki/File:A_Dutch_gold_coin_scale_(M%C3%BCnzwaage)_Nemat_Zadeh_Mohammad.jpg'',
       pc_licence = u ''public domain'', pc_licenceUrl = u ''https://creativecommons.org/publicdomain/mark/1.0/''\<rparr>,
      \<lparr>pc_title = u ''Pittsboro Merchant Business Ledger'', pc_creator = None, pc_source = u ''Wikimedia Commons'',
       pc_sourceUrl = u ''https://commons.wikimedia.org/wiki/File:Pittsboro_Merchant_Business_Ledger_-_DPLA_-_4cbfce8f8f08c14f851ab74af046c082_(page_258).jpg'',
       pc_licence = u ''public domain'', pc_licenceUrl = u ''https://creativecommons.org/publicdomain/mark/1.0/''\<rparr>,
      \<lparr>pc_title = u ''Banknote vignette with three putti symbolizing trade and agriculture'',
       pc_creator = Some (u ''Asher Brown Durand, ca. 1824 to 1837''), pc_source = u ''The Metropolitan Museum of Art'',
       pc_sourceUrl = u ''https://www.metmuseum.org/art/collection/search/393925'',
       pc_licence = u ''CC0'', pc_licenceUrl = u ''https://creativecommons.org/publicdomain/zero/1.0/''\<rparr>,
      \<lparr>pc_title = u ''Bo'' @ [0xFF] @ u ''ers (Dutch cargo ship)'', pc_creator = Some (u ''1647''),
       pc_source = u ''The Metropolitan Museum of Art'',
       pc_sourceUrl = u ''https://www.metmuseum.org/art/collection/search/361527'',
       pc_licence = u ''CC0'', pc_licenceUrl = u ''https://creativecommons.org/publicdomain/zero/1.0/''\<rparr>]"

definition credit_entry :: "picture_credit \<Rightarrow> dom" where
  "credit_entry c =
     El ''li'' []
       [link_to (pc_sourceUrl c) [Txt (pc_title c)],
        El ''p'' []
          [Txt ((case pc_creator c of Some n \<Rightarrow> if n = [] then [] else n @ u ''. '' | None \<Rightarrow> []) @ pc_source c @ u '', ''),
           link_to (pc_licenceUrl c) [Txt (pc_licence c)], tx ''.'']]"

definition PictureCredits :: dom where
  "PictureCredits =
     Chapter (Some (u ''picture-credits'')) None (Some (u ''picture-credits-title''))
       [ChapterHead (u ''picture-credits-title'') (Some (u ''Pictures'')) (u ''Picture credits'')
          (Some (u ''Every picture on this site is a historical work from a public collection. None of them shows Solva, or any institution that uses it.'')),
        El ''ul'' [] (List.map credit_entry pictureCredits)]"


section \<open>Anchors and the button\<close>

lemma single_dashes_Cons: "single_dashes (a # s) \<longleftrightarrow> s = [] \<or> \<not> (a = 45 \<and> hd s = 45) \<and> single_dashes s"
  by (cases s) auto

lemma single_dashes_append:
  "single_dashes (s @ t) \<longleftrightarrow> single_dashes s \<and> single_dashes t \<and> (s = [] \<or> t = [] \<or> \<not> (last s = 45 \<and> hd t = 45))"
  by (induction s) (auto simp: single_dashes_Cons)

lemma dashed_form:
  "single_dashes (dashed r s) \<and> list_all (\<lambda>c. slug_char c \<or> c = 45) (dashed r s)
    \<and> (r \<longrightarrow> dashed r s = [] \<or> hd (dashed r s) \<noteq> 45)"
  by (induction r s rule: dashed.induct) (auto simp: single_dashes_Cons slug_char_def is_digit_def)

lemma strip_dashes_form:
  assumes "single_dashes s" "list_all (\<lambda>c. slug_char c \<or> c = 45) s"
  shows "strip_dashes s = [] \<or> slug_re (strip_dashes s)"
proof -
  obtain t where t: "t = (case s of c # r \<Rightarrow> if c = 45 then r else s | [] \<Rightarrow> [])" by simp
  have 1: "single_dashes t" "list_all (\<lambda>c. slug_char c \<or> c = 45) t" "t = [] \<or> hd t \<noteq> 45"
    using assms by (auto simp: t single_dashes_Cons split: list.split)
  show ?thesis
  proof (cases "t \<noteq> [] \<and> last t = 45")
    case True
    then have b: "t = butlast t @ [45]" by (metis append_butlast_last_id)
    then have "single_dashes (butlast t)" "butlast t = [] \<or> last (butlast t) \<noteq> 45"
      using 1(1) by (metis list.sel(1) not_Cons_self2 single_dashes_append)+
    moreover have "list_all (\<lambda>c. slug_char c \<or> c = 45) (butlast t)" using 1(2) by (metis b list_all_append)
    moreover have "butlast t = [] \<or> hd (butlast t) \<noteq> 45" using 1(3) b by (metis True hd_append2)
    ultimately show ?thesis using True by (auto simp: strip_dashes_def t [symmetric] slug_re_def)
  qed (use 1 in \<open>auto simp: strip_dashes_def t [symmetric] slug_re_def\<close>)
qed

lemma dashed_slug:
  "list_all (\<lambda>c. slug_char c \<or> c = 45) s \<Longrightarrow> single_dashes s \<Longrightarrow> (r \<longrightarrow> s = [] \<or> hd s \<noteq> 45) \<Longrightarrow> dashed r s = s"
  by (induction r s rule: dashed.induct) (auto simp: single_dashes_Cons)

lemma lower_slug: "list_all (\<lambda>c. slug_char c \<or> c = 45) s \<Longrightarrow> concat (List.map lower_case s) = s"
  by (induction s) (auto simp: lower_case_def slug_char_def is_digit_def)

lemma slugify_slug: "slug_re s \<Longrightarrow> slugify s = s"
  by (auto simp: slugify_def slug_re_def lower_slug dashed_slug strip_dashes_def split: list.split)

text \<open>The anchor of a heading is empty or has the form of a slug, and taking the anchor of an anchor
  changes nothing.\<close>

theorem heading_anchor:
  "(slugify t = [] \<or> slug_re (slugify t)) \<and> slugify (slugify t) = slugify t"
proof -
  have "slugify t = [] \<or> slug_re (slugify t)" unfolding slugify_def using dashed_form strip_dashes_form by blast
  moreover have "slugify [] = []" by (simp add: slugify_def strip_dashes_def)
  ultimately show ?thesis using slugify_slug by auto
qed

text \<open>Whenever no frame is due the button shows exactly below the first screen, and its ring is never
  drawn past its ends.\<close>

lemma top_current:
  assumes "top_step\<^sup>*\<^sup>* (top_mount y h v) b"
  shows "0 \<le> tb_offset b \<and> tb_offset b \<le> 1
    \<and> (\<not> tb_frame b \<longrightarrow> tb_visible b = showBackToTop (tb_scrollY b) (tb_viewport b))"
  using assms
proof (induction rule: rtranclp_induct)
  case base
  show ?case using scrollProgress_range by (simp add: top_mount_def top_update_def)
next
  case (step b c)
  from step.hyps(2) step.IH show ?case
    by cases (use scrollProgress_range in \<open>auto simp: top_update_def top_schedule_def\<close>)
qed


section \<open>The list leads to its pages\<close>

lemma post_cover_reads [simp]: "links (PostCover s a) = []"
  by (simp add: PostCover_def links_El)

lemma post_parts_read [simp]: "links (post_time m t) = []" "links (post_minutes m) = []"
  by (simp_all add: post_time_def post_minutes_def links_El)

lemma featured_note_Inr: "featured_note m = Inr d \<Longrightarrow> links d = [post_href m] \<and> (\<exists>t. formatPostDate (po_date m) = Inr t)"
  by (auto simp: featured_note_def result_simps links_El split: sum.splits)

lemma note_entry_Inr: "note_entry m = Inr d \<Longrightarrow> links d = [post_href m] \<and> (\<exists>t. formatPostDate (po_date m) = Inr t)"
  by (auto simp: note_entry_def result_simps links_El split: sum.splits)

lemma related_entry_Inr: "related_entry m = Inr d \<Longrightarrow> links d = [post_href m]"
  by (auto simp: related_entry_def result_simps links_El split: sum.splits)

lemma related_entry_ok: "formatPostDate (po_date m) = Inr t \<Longrightarrow> \<exists>d. related_entry m = Inr d"
  by (simp add: related_entry_def result_simps)

lemma entries_links:
  assumes "list_all2 (\<lambda>m d. f m = Inr d) ms ds" "\<And>m d. f m = Inr d \<Longrightarrow> links d = [post_href m]"
  shows "concat (List.map links ds) = List.map post_href ms"
  using assms by (induction rule: list_all2_induct) auto

lemma list_all2_dated:
  assumes "list_all2 (\<lambda>m d. f m = Inr d) ms ds" "\<And>m d. f m = Inr d \<Longrightarrow> \<exists>t. formatPostDate (po_date m) = Inr t" "m \<in> set ms"
  shows "\<exists>t. formatPostDate (po_date m) = Inr t"
  using assms by (induction rule: list_all2_induct) auto

lemma PostList_Inr:
  assumes "PostList ms = Inr d"
  shows "links d = List.map post_href (featured_first ms)" "m \<in> set ms \<Longrightarrow> \<exists>t. formatPostDate (po_date m) = Inr t"
proof -
  obtain fs rs where f: "list_all2 (\<lambda>m d. featured_note m = Inr d) (take 1 (featured_first ms)) fs"
    and r: "list_all2 (\<lambda>m d. note_entry m = Inr d) (drop 1 (featured_first ms)) rs"
    and d: "links d = concat (List.map links fs) @ concat (List.map links rs)"
    using assms by (auto simp: PostList_def Let_def result_simps mapR_Inr links_El split: sum.splits)
  show "links d = List.map post_href (featured_first ms)"
    using entries_links [OF f] entries_links [OF r] featured_note_Inr note_entry_Inr d
    by (metis append_take_drop_id map_append)
  assume "m \<in> set ms"
  then have "m \<in> set (take 1 (featured_first ms) @ drop 1 (featured_first ms))" by (simp add: featured_first_def)
  then show "\<exists>t. formatPostDate (po_date m) = Inr t"
    using list_all2_dated [OF f] list_all2_dated [OF r] featured_note_Inr note_entry_Inr by (metis Un_iff set_append)
qed

lemma featured_first_filter: "featured_first ms = filter po_featured ms @ filter (\<lambda>m. \<not> po_featured m) ms"
proof -
  define k where "k = (\<lambda>m :: post_meta. - (of_bool (po_featured m) :: int))"
  have ins: "insort_key k a (filter po_featured xs @ ys)
      = (if po_featured a then a # filter po_featured xs @ ys else filter po_featured xs @ a # ys)"
    if "\<forall>y \<in> set ys. \<not> po_featured y" for a xs ys
  proof -
    have "insort_key k a ys = a # ys" using that by (cases ys) (auto simp: k_def)
    then show ?thesis by (induction xs) (auto simp: k_def)
  qed
  have "sort_key k ms = filter po_featured ms @ filter (\<lambda>m. \<not> po_featured m) ms"
    by (induction ms) (auto simp: ins)
  then show ?thesis by (simp add: featured_first_def k_def)
qed

lemma hd_featured_first:
  "ms \<noteq> [] \<Longrightarrow> hd (featured_first ms) = (case List.find po_featured ms of Some m \<Rightarrow> m | None \<Rightarrow> hd ms)"
proof -
  have "case List.find po_featured ms of
      Some m \<Rightarrow> filter po_featured ms \<noteq> [] \<and> hd (filter po_featured ms) = m
    | None \<Rightarrow> filter po_featured ms = [] \<and> filter (\<lambda>m. \<not> po_featured m) ms = ms"
    by (induction ms) (auto split: option.splits)
  then show ?thesis by (auto simp: featured_first_filter split: option.splits)
qed

lemma PostArticle_ok:
  assumes "formatPostDate (po_date (po_meta p)) = Inr t" "\<forall>m \<in> set related. \<exists>t. formatPostDate (po_date m) = Inr t"
  shows "\<exists>a. PostArticle render p related = Inr a
    \<and> links a = route ''blog'' # concat (List.map links (render (po_body p))) @ List.map post_href related"
proof -
  have "\<exists>es. mapR related_entry related = Inr es"
    unfolding mapR_total using assms(2) related_entry_ok by blast
  then obtain es where es: "mapR related_entry related = Inr es" by blast
  then have "concat (List.map links es) = List.map post_href related"
    using entries_links related_entry_Inr by (auto simp: mapR_Inr)
  then show ?thesis
    by (simp add: PostArticle_def Let_def assms(1) es result_simps links_El PostBody_def)
qed

text \<open>When the page of the blog can be built, so can the page of every note, and its list leads to
  every note once, the first link to the newest featured note, or to the newest note when none is
  featured.  The page of a note links back to the blog and to at most three other listed notes, never
  to itself.\<close>

theorem blog_pages:
  assumes "BlogPage (listPosts matter z sources) = Inr page" "distinct (List.map fst sources)"
  shows "\<exists>ms l. listPosts matter z sources = Inr ms \<and> PostList ms = Inr l
    \<and> mset (links l) = mset (List.map (\<lambda>e. route ''blog'' @ u ''/'' @ fst e) sources)
    \<and> (ms \<noteq> [] \<longrightarrow> hd (links l) = post_href (case List.find po_featured ms of Some m \<Rightarrow> m | None \<Rightarrow> hd ms))
    \<and> (\<forall>m \<in> set ms. \<exists>p a. PostPage render (po_slug m) (getPost matter z (po_slug m) sources) (listPosts matter z sources)
          = Inr (Some [a, Close None None])
        \<and> getPost matter z (po_slug m) sources = Inr (Some p) \<and> po_meta p = m
        \<and> links a = route ''blog'' # concat (List.map links (render (po_body p)))
            @ List.map post_href (related_notes (po_slug m) ms)
        \<and> post_href m \<notin> set (List.map post_href (related_notes (po_slug m) ms)))"
proof -
  obtain ms l where ms: "listPosts matter z sources = Inr ms" and l: "PostList ms = Inr l"
    using assms(1) by (auto simp: BlogPage_def result_simps split: sum.splits)
  note b = blog_list [OF ms assms(2)]
  note pl = PostList_Inr [OF l]
  have "mset (links l) = image_mset (\<lambda>s. route ''blog'' @ u ''/'' @ s) (mset (List.map po_slug ms))"
    by (simp add: pl(1) featured_first_def post_href_def [abs_def] multiset.map_comp comp_def)
  also have "\<dots> = mset (List.map (\<lambda>e. route ''blog'' @ u ''/'' @ fst e) sources)"
    using b by (simp add: multiset.map_comp comp_def)
  finally have all: "mset (links l) = mset (List.map (\<lambda>e. route ''blog'' @ u ''/'' @ fst e) sources)" .
  have first: "hd (links l) = post_href (case List.find po_featured ms of Some m \<Rightarrow> m | None \<Rightarrow> hd ms)" if "ms \<noteq> []"
    using that hd_featured_first [OF that] by (metis pl(1) hd_map featured_first_def length_0_conv length_sort)
  have "\<exists>p a. PostPage render (po_slug m) (getPost matter z (po_slug m) sources) (listPosts matter z sources)
          = Inr (Some [a, Close None None])
        \<and> getPost matter z (po_slug m) sources = Inr (Some p) \<and> po_meta p = m
        \<and> links a = route ''blog'' # concat (List.map links (render (po_body p)))
            @ List.map post_href (related_notes (po_slug m) ms)
        \<and> post_href m \<notin> set (List.map post_href (related_notes (po_slug m) ms))" if m: "m \<in> set ms" for m
  proof -
    obtain p where p: "getPost matter z (po_slug m) sources = Inr (Some p)" "po_meta p = m" using b m by blast
    have r: "set (related_notes (po_slug m) ms) \<subseteq> {x \<in> set ms. po_slug x \<noteq> po_slug m}"
      unfolding related_notes_def using set_take_subset by fastforce
    then have "post_href m \<notin> set (List.map post_href (related_notes (po_slug m) ms))" by (auto simp: post_href_def)
    moreover obtain t where t: "formatPostDate (po_date (po_meta p)) = Inr t" using pl(2) [OF m] p(2) by blast
    moreover have dated: "\<forall>x \<in> set (related_notes (po_slug m) ms). \<exists>t. formatPostDate (po_date x) = Inr t" using pl(2) r by blast
    moreover obtain a where a: "PostArticle render p (related_notes (po_slug m) ms) = Inr a"
      "links a = route ''blog'' # concat (List.map links (render (po_body p))) @ List.map post_href (related_notes (po_slug m) ms)"
      using PostArticle_ok [OF t dated] by blast
    moreover have "PostPage render (po_slug m) (getPost matter z (po_slug m) sources) (listPosts matter z sources) = Inr (Some [a, Close None None])"
      by (simp add: PostPage_def p(1) ms a(1) result_simps)
    ultimately show ?thesis using p by blast
  qed
  with ms l all first show ?thesis by blast
qed

lemma blog_pages_witness:
  "\<exists>page. BlogPage (listPosts demo_matter (\<lambda>_. []) demo_sources) = Inr page
    \<and> (\<exists>ms l. listPosts demo_matter (\<lambda>_. []) demo_sources = Inr ms \<and> PostList ms = Inr l \<and> length (links l) = 2)"
proof -
  have "\<exists>page. BlogPage (listPosts demo_matter (\<lambda>_. []) demo_sources) = Inr page"
    by (simp add: BlogPage_def PostList_def featured_first_def featured_note_def note_entry_def formatPostDate_def
        listPosts_def demo_sources_def parsePost_def demo_matter_def frontmatterSchema_def text_min1_def text_where_def
        bool_default_def iso_re_def slug_re_def slug_char_def u_def is_digit_def jprop_def jlookup_def prefix_def All_less_Suc
        dec_val_def result_simps)
  then obtain page where page: "BlogPage (listPosts demo_matter (\<lambda>_. []) demo_sources) = Inr page" by blast
  have d: "distinct (List.map fst demo_sources)" by (simp add: demo_sources_def)
  from blog_pages [OF page d, of "\<lambda>_. []"] obtain ms l where
    "listPosts demo_matter (\<lambda>_. []) demo_sources = Inr ms" "PostList ms = Inr l"
    "mset (links l) = mset (List.map (\<lambda>e. route ''blog'' @ u ''/'' @ fst e) demo_sources)" by blast
  moreover from this(3) have "length (links l) = 2" by (drule_tac arg_cong [of _ _ size]) (simp add: demo_sources_def)
  ultimately show ?thesis using page by blast
qed

text \<open>The schema takes any ten characters of the form of a date, so a note dated in a thirteenth month is a
  post, and then neither the list nor the page of the note can be built.\<close>

lemma thirteenth_month:
  "(\<exists>ms. listPosts demo_matter (\<lambda>_. []) [(u ''odd'', u ''2026-13-01'')] = Inr ms)
    \<and> (\<exists>e. BlogPage (listPosts demo_matter (\<lambda>_. []) [(u ''odd'', u ''2026-13-01'')]) = Inl e)"
  by (simp add: BlogPage_def PostList_def featured_first_def featured_note_def note_entry_def formatPostDate_def
      listPosts_def parsePost_def demo_matter_def frontmatterSchema_def text_min1_def text_where_def
      bool_default_def iso_re_def slug_re_def slug_char_def u_def is_digit_def jprop_def jlookup_def prefix_def All_less_Suc
      dec_val_def result_simps)

end
