(* ===== verification/Console_Format.thy ===== *)
theory Console_Format
  imports Js_Double Dashboard Record_History
begin

text \<open>
  The two formats of apps/web/src/lib/format.ts that depend on doubles and on the calendar,
  \<open>formatBpsPercent\<close> and \<open>formatTimestamp\<close>, and the report of lib/report.ts printed with them.
  The locale en-US prints the hour of midnight as 0 or 24, whichever the runtime's data says: the
  hour is a parameter.  A margin is the double nearest to the exact quotient.
\<close>

section \<open>formatBpsPercent\<close>

definition formatBpsPercent :: "int \<Rightarrow> jstr" where
  "formatBpsPercent bps = to_fixed (if bps mod 100 = 0 then 0 else 1) (dbl (of_int bps / 100)) @ u ''%''"

definition sign_text :: "int \<Rightarrow> jstr" where
  "sign_text i = (if i < 0 then u ''-'' else [])"

lemma to_fixed_minus: "0 < x \<Longrightarrow> to_fixed k (- x) = 45 # to_fixed k x"
  by (simp add: to_fixed_def u_def)

lemma bps_normal: "b \<noteq> 0 \<Longrightarrow> 1 \<le> \<bar>of_int b / 100 :: rat\<bar> * 2 ^ 1000"
proof -
  assume "b \<noteq> 0"
  then have "1 \<le> \<bar>b\<bar>" by simp
  then have "(1::rat) \<le> of_int \<bar>b\<bar>" by (simp only: of_int_1_le_iff)
  then have a: "1 \<le> \<bar>of_int b :: rat\<bar>" by simp
  have "(100::rat) * 1 \<le> 2 ^ 1000 * \<bar>of_int b\<bar>" using a by (intro mult_mono) simp_all
  then show ?thesis by (simp add: field_simps)
qed

text \<open>The tenth that is printed is within half a tenth of the exact margin: the rounding to a double
  can only decide a tie.\<close>

lemma nearest_tenth:
  assumes "0 < b" "b < 2 ^ 53"
  defines "x \<equiv> dbl (of_nat b / 100)"
  shows "0 < x" "x < 10 ^ 21" "10 * nearest (x * 10) \<le> b + 5" "b \<le> 10 * nearest (x * 10) + 5"
    "b mod 100 = 0 \<Longrightarrow> nearest x = b div 100"
proof -
  define q where "q = (of_nat b :: rat) / 100"
  have n: "1 \<le> \<bar>q\<bar> * 2 ^ 1000" using bps_normal [of "int b"] assms(1) by (simp add: q_def)
  have q: "0 < q" "100 * q = of_nat b" using assms(1) by (simp_all add: q_def)
  have e: "\<bar>x - q\<bar> \<le> q / 2 ^ 53" using dbl_error [OF n] q(1) by (simp add: x_def q_def)
  have b: "(of_nat b :: rat) < 2 ^ 53"
  proof -
    have "(of_nat b :: rat) < of_nat (2 ^ 53)" using assms(2) by (simp only: of_nat_less_iff)
    then show ?thesis by simp
  qed
  have "100 * (q / 2 ^ 53) < 1" using q(2) b by simp
  moreover have "100 * \<bar>x - q\<bar> \<le> 100 * (q / 2 ^ 53)" using e by (intro mult_left_mono) simp_all
  ultimately have d: "100 * \<bar>x - q\<bar> < 1" by (rule le_less_trans [rotated])
  then have "\<bar>x - q\<bar> < 1 / 100" by (simp only: pos_less_divide_eq zero_less_numeral mult.commute)
  then have d1: "x - q < 1 / 100" and d2: "q - x < 1 / 100" by (simp_all only: abs_less_iff minus_diff_eq)
  show pos: "0 < x" using dbl_pos [of q] q(1) n by (simp add: x_def q_def)
  have "x < q + 1" using d1 by linarith
  moreover have "q < 2 ^ 53" using q b by linarith
  ultimately show "x < 10 ^ 21" by simp
  have t: "of_nat (nearest (x * 10)) \<le> x * 10 + 1 / 2" "x * 10 + 1 / 2 < of_nat (nearest (x * 10)) + 1"
    using pos floor_correct [of "x * 10 + 1 / 2"] by (simp_all add: nearest_def)
  have "(of_nat (10 * nearest (x * 10)) :: rat) < of_nat (b + 6)" using t(1) d1 q(2) by simp
  then have "10 * nearest (x * 10) < b + 6" by (simp only: of_nat_less_iff)
  then show "10 * nearest (x * 10) \<le> b + 5" by simp
  have "(of_nat b :: rat) < of_nat (10 * nearest (x * 10) + 6)" using t(2) d2 q(2) by simp
  then have "b < 10 * nearest (x * 10) + 6" by (simp only: of_nat_less_iff)
  then show "b \<le> 10 * nearest (x * 10) + 5" by simp
  show "nearest x = b div 100" if "b mod 100 = 0"
  proof (rule nearest_near)
    have "b = 100 * (b div 100)" using that by (metis add.right_neutral mult_div_mod_eq)
    then have "q = of_nat (b div 100)" using q(2) by (metis mult_cancel_left of_nat_mult of_nat_numeral zero_neq_numeral)
    then show "\<bar>x - of_nat (b div 100)\<bar> < 1 / 2" using \<open>\<bar>x - q\<bar> < 1 / 100\<close> by linarith
  qed
qed

definition tenths_text :: "int \<Rightarrow> nat \<Rightarrow> jstr" where
  "tenths_text b t =
     sign_text b @ (if b mod 100 = 0 then show_nat (nat \<bar>b\<bar> div 100) else fixed_digits 1 t) @ u ''%''"

text \<open>A margin prints to the nearest tenth of a percent, whatever the rounding to a double does.  For
  every margin a double can hold exactly, the text is the sign, the magnitude in tenths with one decimal
  and a percent sign, where the tenths are within half a tenth of the margin, or the whole percent
  without a decimal when the margin is one.\<close>

theorem bps_percent_nearest:
  assumes "\<bar>bps\<bar> < 2 ^ 53"
  shows "\<exists>t. formatBpsPercent bps = tenths_text bps t \<and> \<bar>10 * int t - \<bar>bps\<bar>\<bar> \<le> 5"
proof (cases "bps = 0")
  case True
  then show ?thesis by (intro exI [of _ 0]) (simp add: formatBpsPercent_def tenths_text_def sign_text_def to_fixed_def decimal_text_def nearest_def)
next
  case False
  define b where "b = nat \<bar>bps\<bar>"
  define x where "x = dbl (of_nat b / 100)"
  have b: "0 < b" "b < 2 ^ 53" "int b = \<bar>bps\<bar>" using False assms by (auto simp: b_def nat_less_iff)
  note t = nearest_tenth [OF b(1,2), folded x_def]
  have "100 dvd bps \<longleftrightarrow> 100 dvd int b" by (simp add: b(3))
  also have "\<dots> \<longleftrightarrow> 100 dvd b" by (metis int_dvd_int_iff of_nat_numeral)
  finally have m: "bps mod 100 = 0 \<longleftrightarrow> b mod 100 = 0" by (simp only: dvd_eq_mod_eq_0)
  have x: "to_fixed k (dbl (of_int bps / 100)) = sign_text bps @ to_fixed k x" for k
  proof (cases "bps < 0")
    case True
    then have "of_int bps / 100 = - (of_nat b / 100 :: rat)" using b(3) by (simp add: b_def)
    then show ?thesis using True to_fixed_minus [OF t(1)] by (simp add: x_def sign_text_def u_def)
  next
    case False
    then have "of_int bps / 100 = (of_nat b / 100 :: rat)" by (simp add: b_def)
    then show ?thesis using False by (simp add: x_def sign_text_def)
  qed
  have "formatBpsPercent bps = tenths_text bps (nearest (x * 10))"
    unfolding formatBpsPercent_def tenths_text_def x using t m
    by (simp add: to_fixed_def decimal_text_def b_def)
  moreover have "\<bar>10 * int (nearest (x * 10)) - \<bar>bps\<bar>\<bar> \<le> 5" using t(3,4) b(3) by linarith
  ultimately show ?thesis by blast
qed

lemma bps_percent_nearest_witness:
  "\<exists>t. formatBpsPercent (- 351) = tenths_text (- 351) t \<and> \<bar>10 * int t - \<bar>- 351\<bar>\<bar> \<le> 5"
  using bps_percent_nearest [of "- 351"] by simp

section \<open>formatTimestamp\<close>

definition SHORT_MONTHS :: "jstr list" where
  "SHORT_MONTHS = List.map u [''Jan'', ''Feb'', ''Mar'', ''Apr'', ''May'', ''Jun'', ''Jul'', ''Aug'', ''Sep'', ''Oct'', ''Nov'', ''Dec'']"

definition era_year :: "int \<Rightarrow> jstr" where
  "era_year y = (if 1 \<le> y then show_nat (nat y) else show_nat (nat (1 - y)))"

definition two_digits :: "nat \<Rightarrow> jstr" where
  "two_digits n = pad_left 2 (show_nat n)"

definition clock_hour :: "nat \<Rightarrow> nat \<Rightarrow> nat" where
  "clock_hour midnight h = (if h = 0 then midnight else h)"

definition utc_text :: "nat \<Rightarrow> int \<Rightarrow> jstr" where
  "utc_text midnight minutes =
     (let (y, m, d) = civil_of (minutes div 1440); h = nat (minutes div 60 mod 24)
      in SHORT_MONTHS ! (m - 1) @ 32 # show_nat (nat d) @ 44 # 32 # era_year y @ 44 # 32 #
           two_digits (clock_hour midnight h) @ 58 # two_digits (nat (minutes mod 60)))"

definition formatTimestamp :: "nat \<Rightarrow> int \<Rightarrow> jstr" where
  "formatTimestamp midnight unixSeconds =
     (if \<bar>unixSeconds * 1000\<bar> \<le> 8640000000000000 then utc_text midnight (unixSeconds div 60) else u ''Invalid Date'') @ u '' UTC''"

lemma digits_split:
  "show_nat a @ 44 # s = show_nat b @ 44 # t \<longleftrightarrow> a = b \<and> s = t"
proof
  assume e: "show_nat a @ 44 # s = show_nat b @ 44 # t"
  have c: "\<not> is_digit 44" by (simp add: is_digit_def)
  have "takeWhile is_digit (show_nat a @ 44 # s) = show_nat a" "takeWhile is_digit (show_nat b @ 44 # t) = show_nat b"
    using span_stop(1) [OF show_nat_all_digits c] by blast+
  with e have "show_nat a = show_nat b" by simp
  with e show "a = b \<and> s = t" by simp
qed simp

lemma length_two_digits: "n < 100 \<Longrightarrow> length (two_digits n) = 2"
  using pad_show_length [of n 2] by (simp add: two_digits_def)

lemma two_digits_inj: "two_digits m = two_digits n \<longleftrightarrow> m = n"
  by (metis dec_val_pad_left dec_val_show_nat two_digits_def)

lemma short_months: "m < 12 \<Longrightarrow> length (SHORT_MONTHS ! m) = 3" "length SHORT_MONTHS = 12" "distinct SHORT_MONTHS"
proof -
  have "\<forall>s \<in> set SHORT_MONTHS. length s = 3" by (simp add: SHORT_MONTHS_def)
  moreover show "length SHORT_MONTHS = 12" by (simp add: SHORT_MONTHS_def)
  ultimately show "m < 12 \<Longrightarrow> length (SHORT_MONTHS ! m) = 3" by simp
  show "distinct SHORT_MONTHS" by (simp add: SHORT_MONTHS_def)
qed

lemma clock_minutes: "q = 1440 * (q div 1440) + (60 * (q div 60 mod 24) + q mod (60::int))"
  using zmod_zmult2_eq [of 24 q 60] mult_div_mod_eq [of 1440 q] by simp

lemma utc_text_inj:
  assumes "midnight = 0 \<or> midnight = 24"
    and "1 \<le> fst (civil_of (q div 1440))" "1 \<le> fst (civil_of (r div 1440))"
  shows "utc_text midnight q = utc_text midnight r \<longleftrightarrow> q = r"
proof
  assume e: "utc_text midnight q = utc_text midnight r"
  obtain y m d where c: "civil_of (q div 1440) = (y, m, d)" by (cases "civil_of (q div 1440)") auto
  obtain y' m' d' where c': "civil_of (r div 1440) = (y', m', d')" by (cases "civil_of (r div 1440)") auto
  define h h' where "h = q div 60 mod 24" and "h' = r div 60 mod 24"
  have v: "1 \<le> m" "m \<le> 12" "1 \<le> d" "1 \<le> m'" "m' \<le> 12" "1 \<le> d'"
    using civil_of_valid(1) [of "q div 1440"] civil_of_valid(1) [of "r div 1440"] by (simp_all add: c c' valid_civil_def)
  have y: "1 \<le> y" "1 \<le> y'" using assms(2,3) by (simp_all add: c c')
  let ?hh = "\<lambda>h. clock_hour midnight (nat h)"
  have b: "0 \<le> h" "h < 24" "0 \<le> h'" "h' < 24" by (simp_all add: h_def h'_def)
  have len: "length (SHORT_MONTHS ! (m - 1)) = length (SHORT_MONTHS ! (m' - 1))" using v by (simp add: short_months)
  have e1: "SHORT_MONTHS ! (m - 1) @ 32 # show_nat (nat d) @ 44 # 32 # show_nat (nat y) @ 44 # 32 # two_digits (?hh h) @ 58 # two_digits (nat (q mod 60))
      = SHORT_MONTHS ! (m' - 1) @ 32 # show_nat (nat d') @ 44 # 32 # show_nat (nat y') @ 44 # 32 # two_digits (?hh h') @ 58 # two_digits (nat (r mod 60))"
    using e y by (simp add: utc_text_def c c' Let_def era_year_def h_def h'_def)
  have months: "SHORT_MONTHS ! (m - 1) = SHORT_MONTHS ! (m' - 1)" and rest: "nat d = nat d'" "nat y = nat y'"
    "two_digits (?hh h) @ 58 # two_digits (nat (q mod 60)) = two_digits (?hh h') @ 58 # two_digits (nat (r mod 60))"
    using e1 by (simp_all only: append_eq_append_conv [OF disjI1 [OF len]] list.inject digits_split simp_thms)
  have "m - 1 = m' - 1" using months v nth_eq_iff_index_eq [OF short_months(3)] by (simp add: short_months(2))
  then have "m = m'" "d = d'" "y = y'" using rest(1,2) v y by auto
  then have day: "q div 1440 = r div 1440"
    using civil_of_valid(2) [of "q div 1440"] civil_of_valid(2) [of "r div 1440"] by (simp add: c c')
  have "?hh h < 100" "?hh h' < 100" using b assms(1) by (auto simp: clock_hour_def)
  then have "two_digits (?hh h) = two_digits (?hh h')" "two_digits (nat (q mod 60)) = two_digits (nat (r mod 60))"
    using rest(3) by (simp_all only: append_eq_append_conv [OF disjI1] length_two_digits list.inject simp_thms)
  then have "?hh h = ?hh h'" "nat (q mod 60) = nat (r mod 60)" by (simp_all only: two_digits_inj)
  then have "h = h'" "q mod 60 = r mod 60" using b assms(1) by (auto simp: clock_hour_def split: if_splits)
  moreover have "q = 1440 * (q div 1440) + (60 * h + q mod 60)" unfolding h_def by (rule clock_minutes)
  moreover have "r = 1440 * (r div 1440) + (60 * h' + r mod 60)" unfolding h'_def by (rule clock_minutes)
  ultimately show "q = r" using day by metis
qed simp

text \<open>The date is the calendar's: the printed month, day and year are the civil date of the minute, and two
  instants of the range of dates print the same time stamp exactly when they lie in the same minute.\<close>

theorem timestamp_tells_minute:
  assumes "midnight = 0 \<or> midnight = 24" "\<bar>s * 1000\<bar> \<le> 8640000000000000" "\<bar>t * 1000\<bar> \<le> 8640000000000000"
    and "1 \<le> fst (civil_of (s div 86400))" "1 \<le> fst (civil_of (t div 86400))"
  shows "(formatTimestamp midnight s = formatTimestamp midnight t \<longleftrightarrow> s div 60 = t div 60)
    \<and> make_day (civil_of (s div 86400)) * 86400 \<le> s \<and> s < make_day (civil_of (s div 86400)) * 86400 + 86400"
proof -
  have d: "x div 86400 = x div 60 div 1440" for x :: int using zdiv_zmult2_eq [of 1440 x 60] by simp
  have "s = 86400 * (s div 86400) + s mod 86400" "0 \<le> s mod 86400" "s mod 86400 < 86400" by simp_all
  then have "s div 86400 * 86400 \<le> s" "s < s div 86400 * 86400 + 86400" by linarith+
  then show ?thesis using utc_text_inj [OF assms(1)] assms by (simp add: formatTimestamp_def d)
qed

end
