(* ===== verification/Console_Views.thy ===== *)
theory Console_Views
  imports Dom Console_Format Key_Cards
begin

text \<open>
  What the console's dashboard pages show and offer: the components of apps/web/src/components
  (dashboard, sections, the shell) as documents over the states of \<open>Dashboard\<close>, \<open>Key_Cards\<close> and
  \<open>Session\<close>, with the parts of packages/ui they use.  Icons and class names that only style are left
  out; the class of a status pill is its tone.  The chart library is a parameter: what draws the
  margin series once it has loaded.  The walkthrough, the theme and the copy button keep small states
  of their own, with the storage of the browser, which may be blocked.
\<close>

section \<open>packages/ui and shared parts\<close>

datatype status_tone = ToneSolvent | ToneBreach | ToneWarning | ToneUnknown

definition toneClasses :: "status_tone \<Rightarrow> jstr" where
  "toneClasses t = (case t of
      ToneSolvent \<Rightarrow> u ''bg-solvent/10 text-solvent'' | ToneBreach \<Rightarrow> u ''bg-breach/10 text-breach''
    | ToneWarning \<Rightarrow> u ''bg-warning/10 text-warning'' | ToneUnknown \<Rightarrow> u ''bg-muted text-muted-foreground'')"

definition StatusPill :: "status_tone \<Rightarrow> jstr \<Rightarrow> dom" where
  "StatusPill tone label = El ''span'' [(''class'', toneClasses tone)] [El ''span'' [(''aria-hidden'', u ''true'')] [], Txt label]"

definition Button :: "bool \<Rightarrow> dom list \<Rightarrow> dom" where
  "Button disabled content = El ''button'' (flag ''disabled'' disabled) content"

definition DialogHeader :: "dom list \<Rightarrow> dom" where
  "DialogHeader content = El ''div'' [] content"

definition DialogTitle :: "dom list \<Rightarrow> dom" where
  "DialogTitle content = El ''h2'' [] content"

definition DialogDescription :: "dom list \<Rightarrow> dom" where
  "DialogDescription content = El ''p'' [] content"

text \<open>The content of a dialog is in the document only while the dialog is open.\<close>

definition DialogContent :: "bool \<Rightarrow> dom list \<Rightarrow> dom list" where
  "DialogContent shown content = (if shown then [El ''div'' [(''role'', u ''dialog'')] content] else [])"

definition Logo :: dom where
  "Logo = El ''a'' [(''href'', u ''/''), (''aria-label'', u ''Solva'')] [El ''span'' [] [tx ''Solva'']]"

definition ExternalLink :: "jstr \<Rightarrow> dom list \<Rightarrow> dom" where
  "ExternalLink href content =
     El ''a'' [(''href'', href), (''target'', u ''_blank''), (''rel'', u ''noopener noreferrer'')] content"

definition page_link :: "jstr \<Rightarrow> dom list \<Rightarrow> dom" where
  "page_link href content = El ''a'' [(''href'', href)] content"

definition verify_href :: "jstr \<Rightarrow> jstr" where
  "verify_href i = u ''/verify?id='' @ i"

text \<open>\<open>copied\<close> is the state of the button.\<close>

definition CopyButton :: "bool \<Rightarrow> jstr \<Rightarrow> dom" where
  "CopyButton copied label =
     El ''button'' [(''type'', u ''button''), (''aria-label'', label)] [El ''span'' [] [if copied then tx ''Copied'' else tx ''Copy'']]"

section \<open>status-hero.tsx\<close>

definition SCHEDULE_OPTIONS :: "(jstr \<times> schedule \<times> jstr) list" where
  "SCHEDULE_OPTIONS =
     [(u ''manual'', Manual, u ''Manual''), (u ''hourly'', Hourly, u ''Every hour''), (u ''daily'', Daily, u ''Every day'')]"

definition TONE :: "solvency_status \<Rightarrow> status_tone" where
  "TONE st = (case st of Solvent \<Rightarrow> ToneSolvent | Breach \<Rightarrow> ToneBreach | Unknown \<Rightarrow> ToneUnknown)"

definition TONE_LABEL :: "solvency_status \<Rightarrow> jstr" where
  "TONE_LABEL st = (case st of Solvent \<Rightarrow> u ''Solvent'' | Breach \<Rightarrow> u ''Breach'' | Unknown \<Rightarrow> u ''Unknown'')"

definition dash :: jstr where "dash = [0x2014]"

definition HeroFigure :: "string \<Rightarrow> jstr \<Rightarrow> jstr option \<Rightarrow> dom" where
  "HeroFigure label value hint =
     El ''div'' [] ([El ''div'' [] [tx label], El ''div'' [] [Txt value]]
       @ (case hint of Some h \<Rightarrow> if h = [] then [] else [El ''div'' [] [Txt h]] | None \<Rightarrow> []))"

definition schedule_select :: "schedule \<Rightarrow> dom" where
  "schedule_select sc =
     El ''select'' [(''value'', concat (List.map (\<lambda>(v, s, l). if s = sc then v else []) SCHEDULE_OPTIONS))]
       (List.map (\<lambda>(v, s, l). El ''option'' [(''value'', v)] [Txt l]) SCHEDULE_OPTIONS)"

definition StatusHero :: "int \<Rightarrow> cycle_record option \<Rightarrow> bool \<Rightarrow> schedule \<Rightarrow> bool \<Rightarrow> dom" where
  "StatusHero now_ms latest running sc canRunCycle =
     (let status = hero_status latest; bps = hero_bps latest in
      El ''section'' []
        ([El ''div'' []
            (El ''div'' []
               [StatusPill (TONE status) (TONE_LABEL status),
                El ''h2'' [] [Txt (HEADLINE status)],
                El ''p'' [] (case latest of
                    Some c \<Rightarrow> [Txt (u ''Proof #'' @ cy_proofId c @ middot @ u ''verified on Stellar '' @ formatRelativeTime now_ms (cy_at c) @ middot),
                               page_link (verify_href (cy_proofId c)) [tx ''view'']]
                  | None \<Rightarrow> [tx ''Run a cycle to publish your first proof.''])]
             # (if canRunCycle then
                  [El ''div'' []
                     [Button running [if running then El ''span'' [] [tx ''Running cycle''] else tx ''Run proof cycle''],
                      El ''label'' [] [tx ''Schedule'', schedule_select sc]]]
                else [])),
          El ''div'' []
            [HeroFigure ''Reserves (R)'' (case latest of Some c \<Rightarrow> formatAmount_web (cy_reservesTotal c) | None \<Rightarrow> dash) None,
             HeroFigure ''Liabilities (L)'' (case latest of Some c \<Rightarrow> formatAmount_web (cy_liabilitiesTotal c) | None \<Rightarrow> dash) None,
             HeroFigure ''Margin'' (case latest of Some c \<Rightarrow> 43 # formatBpsPercent bps | None \<Rightarrow> dash)
               (case latest of Some c \<Rightarrow> Some (show_int bps @ u '' bps'') | None \<Rightarrow> None)]]
         @ (if sc \<noteq> Manual then
              [El ''p'' [] [Txt (u ''Continuous proving is on. A cycle runs automatically ''
                 @ (if sc = Hourly then u ''every hour'' else u ''every day'') @ u ''.'')]]
            else [])))"

section \<open>margin-trend.tsx, anomaly-panel.tsx and audit-log.tsx\<close>

definition MarginTrend :: "((jstr \<times> int) list \<Rightarrow> dom) \<Rightarrow> cycle_record list \<Rightarrow> dom" where
  "MarginTrend chart cs =
     El ''section'' []
       [El ''h2'' [] [tx ''Margin trend''],
        El ''p'' [] [tx ''Basis points of reserves over liabilities, per published cycle.''],
        El ''div'' [] [chart (margin_series cs)]]"

text \<open>The placeholder until the chart has loaded.\<close>

definition margin_trend_shown :: "((jstr \<times> int) list \<Rightarrow> dom) option \<Rightarrow> cycle_record list \<Rightarrow> dom" where
  "margin_trend_shown chart cs =
     (case chart of Some c \<Rightarrow> MarginTrend c cs | None \<Rightarrow> El ''section'' [] [El ''div'' [] [], El ''div'' [] []])"

definition SEVERITY :: "anomaly_severity \<Rightarrow> status_tone \<times> jstr" where
  "SEVERITY s = (case s of Critical \<Rightarrow> (ToneBreach, u ''Critical'') | Warning \<Rightarrow> (ToneWarning, u ''Warning'') | Info \<Rightarrow> (ToneUnknown, u ''Info''))"

text \<open>A log the detector throws on takes the page down with it.\<close>

definition AnomalyPanel :: "int \<Rightarrow> cycle_record list \<Rightarrow> dom result" where
  "AnomalyPanel now_ms cs =
     bindR (panel_flags cs) (\<lambda>flags. Inr (
       El ''section'' []
         [El ''div'' []
            [El ''h2'' [] [tx ''Anomaly watch''],
             El ''p'' [] [tx ''Early warnings from the proof history, before a breach.'']],
          if flags = [] then
            El ''div'' [] [tx ''No anomalies. Reserves, liabilities, and cycle timing are within range.'']
          else
            El ''ul'' [] (List.map (\<lambda>f. El ''li'' []
               [El ''div'' []
                  [El ''p'' [] [Txt (fl_message f)],
                   page_link (verify_href (fl_proofId f))
                     [Txt (u ''Proof #'' @ fl_proofId f @ middot @ formatRelativeTime now_ms (fl_detectedAt f))]],
                StatusPill (fst (SEVERITY (fl_severity f))) (snd (SEVERITY (fl_severity f)))]) flags)]))"

definition status_label :: "solvency_status \<Rightarrow> jstr" where
  "status_label st = (if st = Solvent then u ''Solvent'' else status_text st)"

definition duration_text :: "int option \<Rightarrow> jstr" where
  "duration_text ms = (case ms of Some d \<Rightarrow> to_fixed 1 (dbl (of_int d / 1000)) | None \<Rightarrow> u ''NaN'') @ u ''s''"

definition AuditLog :: "nat \<Rightarrow> int \<Rightarrow> cycle_record list \<Rightarrow> bool \<Rightarrow> dom" where
  "AuditLog midnight now_ms cs canExport =
     El ''section'' []
       [El ''div'' []
          (El ''div'' [] [El ''h2'' [] [tx ''Audit log''], El ''p'' [] [tx ''Every cycle, with a regulator-ready export.'']]
           # (if canExport then [Button (cs = []) [tx ''Export report'']] else [])),
        if cs = [] then El ''p'' [] [tx ''No cycles yet.'']
        else El ''ul'' [] (List.map (\<lambda>c. El ''li'' []
           [El ''div'' []
              [El ''div'' [] [Txt (u ''Proof #'' @ cy_proofId c)],
               El ''div'' [(''title'', formatTimestamp midnight (cy_at c))]
                 [Txt (formatRelativeTime now_ms (cy_at c) @ middot @ duration_text (cy_durationMs c))]],
            El ''div'' []
              [El ''div'' [] [Txt (u ''R '' @ formatAmount_web (cy_reservesTotal c))],
               El ''div'' [] [Txt (u ''L '' @ formatAmount_web (cy_liabilitiesTotal c))]],
            StatusPill (TONE (cy_status c)) (status_label (cy_status c))]) cs)]"

section \<open>connect-source-dialog.tsx and sources-panel.tsx\<close>

definition ChoiceCard :: "string \<Rightarrow> string \<Rightarrow> dom" where
  "ChoiceCard title detail =
     El ''button'' [(''type'', u ''button'')] [El ''span'' [] [El ''span'' [] [tx title], El ''span'' [] [tx detail]]]"

definition BackHeader :: "string \<Rightarrow> dom" where
  "BackHeader title = DialogHeader [El ''button'' [(''type'', u ''button'')] [tx ''Back''], DialogTitle [tx title]]"

definition connecting_label :: "bool \<Rightarrow> string \<Rightarrow> dom" where
  "connecting_label busy resting = Txt (if busy then u ''Connecting'' @ [0x2026] else u resting)"

definition wallet_field :: "string \<Rightarrow> jstr \<Rightarrow> jstr \<Rightarrow> dom" where
  "wallet_field label value placeholder =
     El ''label'' [] [El ''span'' [] [tx label], El ''input'' [(''value'', value), (''placeholder'', placeholder)] []]"

definition dialog_content :: "connect_dialog \<Rightarrow> dom list" where
  "dialog_content g =
     (case dg_step g of
        Choose \<Rightarrow>
          [DialogHeader [DialogTitle [tx ''Connect a reserve source''],
             DialogDescription [tx ''Add a custodian-signed balance, or an on-chain wallet.'']],
           El ''div'' []
             [ChoiceCard ''Custodian account'' ''Read signed balances from your custodian. Read-only, with your consent.'',
              ChoiceCard ''On-chain wallet'' ''Add a wallet holding by its address.'']]
      | Custodians \<Rightarrow>
          [BackHeader ''Choose your custodian'',
           El ''div'' [] (List.map (\<lambda>name. El ''button'' [(''type'', u ''button'')] [El ''span'' [] [Txt name]]) CUSTODIANS)]
      | Consent \<Rightarrow>
          [BackHeader ''Authorize access'',
           El ''div'' []
             [El ''p'' [] [tx ''Allow Solva to read balances from '', El ''span'' [] [Txt (dg_custodian g)], tx ''.''],
              El ''p'' [] [tx ''Read-only access to account balances. Solva never moves funds and never sees transactions. You can revoke access at any time.'']],
           Button (dg_busy g) [connecting_label (dg_busy g) ''Authorize and connect'']]
      | WalletForm \<Rightarrow>
          [BackHeader ''Add an on-chain wallet'',
           El ''div'' []
             [wallet_field ''Display name'' (dg_walletLabel g) (u ''Treasury wallet''),
              wallet_field ''Wallet address'' (dg_walletAddress g) (u ''G'' @ [0x2026])],
           Button (dg_busy g \<or> trim (dg_walletLabel g) = [] \<or> trim (dg_walletAddress g) = [])
             [connecting_label (dg_busy g) ''Connect wallet'']])"

definition ConnectSourceDialog :: "connect_dialog \<Rightarrow> dom list" where
  "ConnectSourceDialog g = Button False [tx ''Connect a source''] # DialogContent (dg_open g) (dialog_content g)"

definition SourcesPanel :: "int \<Rightarrow> dash_source list \<Rightarrow> connect_dialog \<Rightarrow> bool \<Rightarrow> dom" where
  "SourcesPanel now_ms ss g canConnect =
     El ''section'' []
       [El ''div'' []
          (El ''div'' [] [El ''h2'' [] [tx ''Reserve sources''], El ''p'' [] [tx ''Custodians and wallets that back your reserves.'']]
           # (if canConnect then ConnectSourceDialog g else [])),
        if ss = [] then El ''p'' [] [tx ''No sources connected yet. Connect a custodian or wallet to begin.'']
        else El ''ul'' [] (List.map (\<lambda>s. El ''li'' []
           [El ''div'' [] [El ''div'' [] [Txt (src_label s)], El ''div'' [] [Txt (src_detail s)]],
            El ''span'' [] [Txt (u ''connected '' @ formatRelativeTime now_ms (src_connectedAt s))]]) ss)]"

section \<open>The sections\<close>

definition session_can :: "console_session option \<Rightarrow> console_action \<Rightarrow> bool" where
  "session_can se a = (case se of Some x \<Rightarrow> can (sn_role x) a | None \<Rightarrow> False)"

definition Walkthrough :: dom where
  "Walkthrough = El ''button'' [(''type'', u ''button'')] [tx ''Take a tour'']"

definition OverviewSection ::
  "((jstr \<times> int) list \<Rightarrow> dom) option \<Rightarrow> int \<Rightarrow> console_session option \<Rightarrow> dashboard \<Rightarrow> dom result" where
  "OverviewSection chart now_ms se d =
     (let cs = dd_cycles (db_data d) in
      bindR (AnomalyPanel now_ms cs) (\<lambda>panel. Inr (
        El ''div'' []
          [El ''div'' [] [Walkthrough],
           El ''div'' [(''id'', u ''tour-status'')]
             [StatusHero now_ms (head_cycle d) (db_running d) (db_schedule d) (session_can se CycleRun)],
           El ''div'' []
             [margin_trend_shown chart cs,
              El ''section'' []
                [El ''div'' [] [El ''h2'' [] [tx ''Recent cycles''], El ''p'' [] [tx ''The latest published proofs.'']],
                 El ''ul'' [] (List.map (\<lambda>c. El ''li'' []
                    [El ''div'' []
                       [page_link (verify_href (cy_proofId c)) [Txt (u ''Proof #'' @ cy_proofId c)],
                        El ''div'' [] [Txt (formatRelativeTime now_ms (cy_at c))]],
                     StatusPill (TONE (cy_status c)) (status_label (cy_status c))]) (take 4 cs))]],
           panel])))"

definition ActivitySection :: "nat \<Rightarrow> int \<Rightarrow> console_session option \<Rightarrow> dashboard \<Rightarrow> dom" where
  "ActivitySection midnight now_ms se d =
     El ''div'' []
       [El ''p'' [] [tx ''Every proof cycle is recorded here. Export a regulator-ready summary that reflects on-chain proofs without exposing any customer balance.''],
        AuditLog midnight now_ms (dd_cycles (db_data d)) (session_can se ReportExport)]"

definition SourcesSection :: "int \<Rightarrow> console_session option \<Rightarrow> dashboard \<Rightarrow> dom" where
  "SourcesSection now_ms se d =
     El ''div'' []
       [El ''div'' [] [El ''p'' [] [tx ''Connect the custodian accounts and on-chain wallets that back your reserves. Custodian balances are signed at the source and read with your authorization; nothing is moved.'']],
        SourcesPanel now_ms (dd_sources (db_data d)) (db_dialog d) (session_can se SourceConnect)]"

section \<open>settings-section.tsx\<close>

text \<open>A value of an institution is text (\<open>Session\<close>); nothing or the empty text prints as a dash.\<close>

definition Row :: "string \<Rightarrow> json \<Rightarrow> dom" where
  "Row label v = El ''div'' [] [El ''span'' [] [tx label], El ''span'' [] [Txt (if jtruthy v then json_to_string v else dash)]]"

definition type_label :: "json \<Rightarrow> json" where
  "type_label v =
     (case v of JStr s \<Rightarrow> (case map_of INSTITUTION_TYPE_LABELS s of Some l \<Rightarrow> JStr l | None \<Rightarrow> JUndef) | _ \<Rightarrow> JUndef)"

definition wallet_shown :: "bool \<Rightarrow> jstr \<Rightarrow> dom" where
  "wallet_shown copied wallet =
     El ''span'' [] [El ''span'' [(''title'', wallet)] [Txt (truncateMiddle wallet 8 6)], CopyButton copied (u ''Copy wallet address'')]"

definition InstitutionTab :: "bool \<Rightarrow> console_session \<Rightarrow> dom" where
  "InstitutionTab copied se =
     (let inst = (\<lambda>k. jlookup (sn_institution se) (u k)) in
      El ''div'' []
        [El ''div'' [] [El ''h2'' [] [tx ''Institution''], El ''span'' [] [tx ''KYB approved'']],
         Row ''Legal name'' (inst ''legalName''), Row ''Type'' (type_label (inst ''type'')),
         Row ''Jurisdiction'' (inst ''jurisdiction''), Row ''Registration number'' (inst ''registrationNumber''),
         Row ''Compliance contact'' (JStr (json_to_string (inst ''contactName'') @ middot @ json_to_string (inst ''contactEmail''))),
         El ''div'' [] [El ''span'' [] [tx ''Wallet''], wallet_shown copied (sn_walletAddress se)]])"

definition TeamTab :: "role \<Rightarrow> jstr \<Rightarrow> dom" where
  "TeamTab r operatorLabel =
     El ''div'' []
       [El ''div'' [] [El ''h2'' [] [tx ''Team & roles''], Button True [tx ''Invite member'']],
        El ''div'' []
          [El ''div'' [] [El ''div'' [] [tx ''You''], El ''div'' [] [Txt operatorLabel]], El ''span'' [] [Txt (ROLE_LABELS r)]],
        El ''p'' [] [tx ''Roles scope what each member can do: owners manage everything, operators run cycles and connect sources, compliance handles disclosures and exports, viewers read only.'']]"

definition DisclosuresTab :: dom where
  "DisclosuresTab =
     El ''div'' []
       [El ''h2'' [] [tx ''Selective disclosures''],
        El ''p'' [] [tx ''Share a single attested figure with a supervisor without exposing anything else.''],
        El ''div'' [] [El ''p'' [] [tx ''No disclosures yet.''], Button True [tx ''Create disclosure'']]]"

definition demoKey :: jstr where "demoKey = u ''sk_live_solva_9f3a8c2e1b7d4a6f0e5c9d2a''"

definition KeysTab :: "bool \<Rightarrow> dom" where
  "KeysTab copied =
     El ''div'' []
       [El ''h2'' [] [tx ''Developer keys''],
        El ''p'' [] [tx ''Your systems automate the same actions as this dashboard through '', El ''span'' [] [tx ''@solva/sdk-ts''],
          tx '' using this key: connect sources, run cycles, and read proofs.''],
        El ''div'' [] [El ''code'' [] [Txt (take 16 demoKey @ replicate 8 0x2022)], CopyButton copied (u ''Copy API key'')]]"

section \<open>provisioning-card.tsx and publishing-key-card.tsx\<close>

definition ProvStep :: "nat \<Rightarrow> string \<Rightarrow> dom list \<Rightarrow> dom" where
  "ProvStep n label content = El ''li'' [] [El ''span'' [] [Txt (show_nat n)], El ''div'' [] (El ''span'' [] [tx label] # content)]"

definition truthy_opt :: "json option \<Rightarrow> json option" where
  "truthy_opt v = (case v of Some x \<Rightarrow> if jtruthy x then Some x else None | None \<Rightarrow> None)"

definition ProvisioningCard :: "bool \<Rightarrow> jstr \<Rightarrow> prov_card \<Rightarrow> dom" where
  "ProvisioningCard copied wallet c =
     El ''div'' []
       ([El ''h2'' [] [tx ''Registry provisioning''],
         El ''p'' [] [tx ''Create your institution, record your passkey wallet, and deploy a proof registry owned by that wallet so publishing is authorized through it.''],
         El ''div'' [] [El ''span'' [] [tx ''Wallet''], wallet_shown copied wallet],
         El ''ol'' []
           (ProvStep 1 ''Create your institution and record the wallet''
              [case truthy_opt (pc_tenantId c) of
                 None \<Rightarrow> Button (pc_busy c) [Txt (if pc_busy c then u ''Creating'' @ [0x2026] else u ''Create institution'')]
               | Some t \<Rightarrow> El ''p'' [] [Txt (u ''tenant '' @ truncateMiddle (json_to_string t) 8 6)]]
            # (case truthy_opt (pc_deployCommand c) of
                 None \<Rightarrow> []
               | Some cmd \<Rightarrow>
                   [ProvStep 2 ''Deploy your registry, owned by your wallet''
                      [El ''p'' [] [tx ''Run this on a machine with the Stellar CLI:''],
                       El ''div'' [] [El ''code'' [] [Txt (json_to_string cmd)], CopyButton copied (u ''Copy deploy command'')]]]
                   @ (if pc_done c then []
                      else [ProvStep 3 ''Record your deployed registry''
                        [El ''input'' [(''value'', pc_registryId c), (''placeholder'', u ''C'' @ [0x2026] @ u '' (the deployed registry id)'')] [],
                         Button (pc_busy c \<or> \<not> regValid c)
                           [Txt (if pc_busy c then u ''Recording'' @ [0x2026] else u ''Record registry'')]]])))]
        @ (case pc_error c of Some e \<Rightarrow> if e = [] then [] else [El ''p'' [] [Txt e]] | None \<Rightarrow> [])
        @ (if pc_done c then
             [El ''p'' [] [tx ''Provisioned. Your registry is recorded. Next, grant the orchestrator a scoped signer in the Publishing tab so it can publish for you.'']]
           else []))"

definition LabeledInput :: "string \<Rightarrow> jstr \<Rightarrow> string \<Rightarrow> bool \<Rightarrow> bool \<Rightarrow> dom" where
  "LabeledInput label value placeholder invalid disabled =
     El ''label'' []
       [El ''span'' [] [Txt (u label @ u '' ('' @ u placeholder @ [0x2026] @ u '')'')],
        El ''input'' ([(''value'', value), (''placeholder'', u placeholder @ [0x2026]),
            (''class'', if invalid then u ''border-red'' else u ''border-hair'')] @ flag ''disabled'' disabled) []]"

definition dot_class :: "key_status \<Rightarrow> jstr" where
  "dot_class st = (case st of StepPending \<Rightarrow> u ''bg-hair-strong'' | StepActive \<Rightarrow> u ''bg-acc animate-pulse''
     | StepDone \<Rightarrow> u ''bg-acc'' | StepError \<Rightarrow> u ''bg-red'')"

definition StepRow :: "jstr \<Rightarrow> key_status \<Rightarrow> dom" where
  "StepRow label st = El ''li'' [] [El ''span'' [(''class'', dot_class st), (''aria-hidden'', u ''true'')] [], El ''span'' [] [Txt label]]"

definition PublishingKeyCard :: "bool \<Rightarrow> jstr \<Rightarrow> key_card \<Rightarrow> dom" where
  "PublishingKeyCard copied wallet c =
     (let orch = trim (kc_orchestrator c); reg = trim (kc_registry c) in
      El ''div'' []
        ([El ''h2'' [] [tx ''Publishing key''],
          El ''p'' [] [tx ''Give the orchestrator a signer on your wallet so it can publish proofs for you. The signer is scoped to your registry contract only, and you approve it with your passkey.''],
          El ''div'' []
            [El ''div'' [] [El ''span'' [] [tx ''Wallet''], wallet_shown copied wallet],
             LabeledInput ''Orchestrator address'' (kc_orchestrator c) ''G'' (orch \<noteq> [] \<and> \<not> looksLikeAddress orch ''G'') (kc_running c),
             LabeledInput ''Registry contract'' (kc_registry c) ''C'' (reg \<noteq> [] \<and> \<not> looksLikeAddress reg ''C'') (kc_running c)],
          El ''ol'' [] (List.map (\<lambda>(i, label). StepRow label (kc_statuses c i)) KEY_STEPS)]
         @ (case kc_notice c of Some (k, text) \<Rightarrow> [El ''p'' [(''class'', if k = NoticeError then u ''text-red'' else u ''text-fg'')] [Txt text]] | None \<Rightarrow> [])
         @ (case kc_txHash c of
              Some h \<Rightarrow> if h = [] then [] else
                [El ''div'' []
                   [El ''div'' [] [El ''div'' [] [tx ''Signer added.''], El ''code'' [] [Txt (truncateMiddle h 8 8)]],
                    El ''a'' [(''href'', EXPLORER @ u ''/tx/'' @ h), (''target'', u ''_blank''), (''rel'', u ''noreferrer'')] [tx ''View on explorer'']]]
            | None \<Rightarrow> [])
         @ [Button (\<not> canRun c) [Txt (if kc_running c then u ''Adding signer'' @ [0x2026] else u ''Add publishing signer'')]]))"

text \<open>The settings page: its tab, and the cards of the tabs.  Only a tab that is shown can be picked.\<close>

definition pick_tab :: "role \<Rightarrow> string \<Rightarrow> string \<Rightarrow> string" where
  "pick_tab r t tab = (if t \<in> set (visible_tabs r) then t else tab)"

definition tab_button :: "string \<times> string \<times> console_action option \<Rightarrow> dom" where
  "tab_button t = El ''button'' [(''type'', u ''button'')] [tx (fst (snd t))]"

definition SettingsSection :: "bool \<Rightarrow> console_session option \<Rightarrow> string \<Rightarrow> prov_card \<Rightarrow> key_card \<Rightarrow> dom list" where
  "SettingsSection copied session tab pc kc =
     (case session of None \<Rightarrow> []
      | Some se \<Rightarrow>
          [El ''div'' []
             ([El ''div'' [] (List.map tab_button
                 (filter (\<lambda>(i, label, req). case req of None \<Rightarrow> True | Some a \<Rightarrow> can (sn_role se) a) TABS))]
              @ (if tab = ''institution'' then [InstitutionTab copied se] else [])
              @ (if tab = ''team'' then [TeamTab (sn_role se) (sn_operatorLabel se)] else [])
              @ (if tab = ''disclosures'' then [DisclosuresTab] else [])
              @ (if tab = ''registry'' then [ProvisioningCard copied (sn_walletAddress se) pc] else [])
              @ (if tab = ''publishing'' then [PublishingKeyCard copied (sn_walletAddress se) kc] else [])
              @ (if tab = ''keys'' then [KeysTab copied] else []))])"

section \<open>The shell: sidebar, topbar, footer and the layouts\<close>

definition not_below :: jstr where "not_below = u ''eserves '' @ [0x2265] @ u '' liabilities''"

definition Sidebar :: "jstr \<Rightarrow> role \<Rightarrow> bool \<Rightarrow> dom list" where
  "Sidebar pathname r mobileOpen =
     [El ''div'' [(''class'', if mobileOpen then u ''block'' else u ''hidden''), (''aria-hidden'', u ''true'')] [],
      El ''aside'' [(''class'', if mobileOpen then u ''translate-x-0'' else u ''-translate-x-full'')]
        [El ''div'' [] [Logo],
         El ''nav'' [(''id'', u ''tour-nav'')]
           (List.map (\<lambda>(href, label, roles). El ''a''
              ((''href'', href) # (if nav_active href pathname then [(''aria-current'', u ''page'')] else []))
              [El ''span'' [] [], Txt label]) (nav_items r)),
         El ''div'' [] [El ''p'' [] [Txt (82 # not_below)]]]]"

definition ThemeToggle :: "bool \<Rightarrow> dom" where
  "ThemeToggle dark =
     El ''button'' [(''type'', u ''button''), (''aria-label'', u ''Switch to '' @ (if dark then u ''light'' else u ''dark'') @ u '' theme'')] []"

definition Topbar :: "bool \<Rightarrow> jstr \<Rightarrow> console_session \<Rightarrow> dom" where
  "Topbar dark title se =
     El ''header'' []
       [El ''div'' []
          [El ''button'' [(''type'', u ''button''), (''aria-label'', u ''Open menu'')] [], El ''h1'' [] [Txt title]],
        El ''div'' [(''id'', u ''tour-account'')]
          [El ''div'' []
             [El ''div'' [] [let n = jlookup (sn_institution se) (u ''legalName'') in
                Txt (if jtruthy n then json_to_string n else u ''Your institution'')],
              El ''div'' [] [Txt (ROLE_LABELS (sn_role se) @ middot @ sn_operatorLabel se)]],
           El ''button'' [(''type'', u ''button'')] [tx ''Sign out''],
           ThemeToggle dark]]"

text \<open>\<open>siteUrl\<close> and \<open>docsUrl\<close> of lib/links.ts: an environment variable or the production origin.\<close>

record origins =
  og_site :: "jstr option"
  og_docs :: "jstr option"

definition console_siteUrl :: "origins \<Rightarrow> jstr" where
  "console_siteUrl env = (case og_site env of Some x \<Rightarrow> x | None \<Rightarrow> u ''https://joinsolva.xyz'')"

definition console_docsUrl :: "origins \<Rightarrow> jstr" where
  "console_docsUrl env = (case og_docs env of Some x \<Rightarrow> x | None \<Rightarrow> u ''https://docs.joinsolva.xyz'')"

definition copyright_line :: dom where
  "copyright_line = El ''p'' [] [Txt ([0xA9] @ u '' 2026 Solva'' @ middot @ u ''r'' @ not_below)]"

definition Footer :: "origins \<Rightarrow> dom" where
  "Footer env =
     El ''footer'' []
       [El ''div'' []
         [copyright_line,
          El ''div'' []
            [page_link (u ''/verify'') [tx ''Verify a proof''], page_link (u ''/inclusion'') [tx ''Check inclusion''],
             ExternalLink (console_siteUrl env) [tx ''Website''], ExternalLink (console_docsUrl env) [tx ''Docs'']]]]"

definition PublicNav :: "origins \<Rightarrow> bool \<Rightarrow> dom" where
  "PublicNav env dark =
     El ''header'' []
       [El ''nav'' []
         [El ''div'' []
            [Logo,
             El ''div'' []
               [page_link (u ''/verify'') [tx ''Verify''], page_link (u ''/inclusion'') [tx ''Inclusion''],
                ExternalLink (console_docsUrl env) [tx ''Docs'']]],
          El ''div'' [] [page_link (u ''/'') [tx ''Launch app''], ThemeToggle dark]]]"

definition PublicLayout :: "origins \<Rightarrow> bool \<Rightarrow> dom list \<Rightarrow> dom" where
  "PublicLayout env dark content =
     El ''div'' [] [PublicNav env dark, El ''main'' [] [El ''div'' [] content], Footer env]"

definition selling_points :: "(string \<times> string) list" where
  "selling_points =
     [(''Zero-knowledge proofs'', ''Prove reserves cover liabilities without exposing a single customer balance.''),
      (''Verified on Stellar'', ''Every proof is published on-chain, so anyone can check it independently.''),
      (''Passkey sign-in'', ''No seed phrase. We provision a smart wallet for your institution on first sign-in.'')]"

definition EntryLayout :: "origins \<Rightarrow> bool \<Rightarrow> dom list \<Rightarrow> dom" where
  "EntryLayout env dark content =
     El ''div'' []
       [El ''aside'' []
          [El ''div'' [(''aria-hidden'', u ''true'')] [], El ''div'' [] [Logo],
           El ''div'' []
             [El ''p'' [] [tx ''Proof of reserves''], El ''h2'' [] [tx ''Prove solvency. Not promises.''],
              El ''p'' [] [tx ''The Solva console lets your institution prove that reserves meet liabilities, every block, and publish the proof on Stellar.''],
              El ''ul'' [] (List.map (\<lambda>(title, body). El ''li'' []
                [El ''span'' [] [], El ''div'' [] [El ''p'' [] [tx title], El ''p'' [] [tx body]]]) selling_points)],
           El ''div'' [] [copyright_line, ExternalLink (console_siteUrl env) [Txt (u ''joinsolva.xyz '' @ [0x2197])]]],
        El ''div'' []
          [El ''header'' [] [El ''span'' [] [Logo], ThemeToggle dark],
           El ''main'' [] content,
           El ''footer'' [] [copyright_line]]]"

text \<open>The authenticated shell around a page; before a session is active it shows a spinner only.\<close>

definition AppLayout :: "origins \<Rightarrow> bool \<Rightarrow> jstr \<Rightarrow> session_status \<Rightarrow> console_session option \<Rightarrow> bool \<Rightarrow> dom list \<Rightarrow> dom list" where
  "AppLayout env dark pathname st session mobileOpen content =
     (case session of
        Some se \<Rightarrow>
          if dashboard_shown st session then
            Sidebar pathname (sn_role se) mobileOpen
            @ [El ''div'' [] [Topbar dark (page_title pathname) se, El ''main'' [] content, Footer env]]
          else [El ''div'' [] []]
      | None \<Rightarrow> [El ''div'' [] []])"

section \<open>The theme\<close>

text \<open>The choice in the local storage (absent in a browser that blocks it), the attribute of the document and
  the state of the provider; \<open>True\<close> is dark.  A page load runs the script, then the provider's effect.\<close>

record theme_page =
  th_store :: "jstr option option"
  th_light_os :: bool
  th_attr :: "jstr option"
  th_dark :: bool

definition themeScript :: "theme_page \<Rightarrow> theme_page" where
  "themeScript t =
     (case th_store t of
        None \<Rightarrow> t\<lparr>th_attr := Some (u ''dark'')\<rparr>
      | Some saved \<Rightarrow>
          t\<lparr>th_attr := Some (case saved of
               Some s \<Rightarrow> if s = u ''light'' \<or> s = u ''dark'' then s else if th_light_os t then u ''light'' else u ''dark''
             | None \<Rightarrow> if th_light_os t then u ''light'' else u ''dark'')\<rparr>)"

definition theme_mount :: "theme_page \<Rightarrow> theme_page" where
  "theme_mount t =
     (if th_attr t = Some (u ''light'') \<or> th_attr t = Some (u ''dark'') then t\<lparr>th_dark := (th_attr t = Some (u ''dark''))\<rparr> else t)"

definition theme_toggle :: "theme_page \<Rightarrow> theme_page" where
  "theme_toggle t =
     (let dark = \<not> th_dark t; name = (if dark then u ''dark'' else u ''light'') in
      t\<lparr>th_dark := dark, th_attr := Some name, th_store := map_option (\<lambda>_. Some name) (th_store t)\<rparr>)"

definition theme_load :: "theme_page \<Rightarrow> theme_page" where
  "theme_load t = theme_mount (themeScript (t\<lparr>th_attr := None, th_dark := True\<rparr>))"

inductive theme_step :: "theme_page \<Rightarrow> theme_page \<Rightarrow> bool" where
  Toggle: "theme_step t (theme_toggle t)"
| Reload: "theme_step t (theme_load t)"
| OsTheme: "theme_step t (t\<lparr>th_light_os := l\<rparr>)"

section \<open>The product tour\<close>

text \<open>\<open>tr_seen\<close> is the mark in the storage (absent when it is blocked), \<open>tr_timer\<close> the delay before the
  first run and \<open>tr_started\<close> the tours started, with whether the visitor asked.\<close>

record tour =
  tr_seen :: "bool option"
  tr_timer :: bool
  tr_started :: "bool list"

definition hasSeenTour :: "tour \<Rightarrow> bool" where
  "hasSeenTour t = (tr_seen t = Some True)"

definition markSeen :: "tour \<Rightarrow> tour" where
  "markSeen t = t\<lparr>tr_seen := map_option (\<lambda>_. True) (tr_seen t)\<rparr>"

definition tour_mount :: "tour \<Rightarrow> tour" where
  "tour_mount t = (if hasSeenTour t then t else t\<lparr>tr_timer := True\<rparr>)"

definition tour_unmount :: "tour \<Rightarrow> tour" where
  "tour_unmount t = t\<lparr>tr_timer := False\<rparr>"

definition tour_timer :: "tour \<Rightarrow> tour" where
  "tour_timer t = (if tr_timer t then t\<lparr>tr_timer := False, tr_started := tr_started t @ [False]\<rparr> else t)"

definition tour_press :: "tour \<Rightarrow> tour" where
  "tour_press t = t\<lparr>tr_started := tr_started t @ [True]\<rparr>"

text \<open>What the tour points at, and says.\<close>

definition TOUR_STEPS :: "(string \<times> string \<times> string) list" where
  "TOUR_STEPS =
     [(''tour-status'', ''Your live solvency'',
       ''Reserves against liabilities, with the latest proof verified on Stellar. Run a cycle to publish a fresh one.''),
      (''tour-nav'', ''The console'',
       ''Connect reserve sources, review the audit log, and manage your institution. You only see what your role allows.''),
      (''tour-account'', ''Your institution'', ''Your role and sign-out live here. Roles control what each member can do.'')]"

section \<open>The copy button\<close>

text \<open>The clipboard, whether the button confirms, and the timers that take the confirmation back.\<close>

record copy_button =
  cb_clipboard :: jstr
  cb_copied :: bool
  cb_timers :: nat

definition copy_pressed :: "bool \<Rightarrow> jstr \<Rightarrow> copy_button \<Rightarrow> copy_button" where
  "copy_pressed blocked v b =
     (if blocked then b else b\<lparr>cb_clipboard := v, cb_copied := True, cb_timers := Suc (cb_timers b)\<rparr>)"

definition copy_timer :: "copy_button \<Rightarrow> copy_button" where
  "copy_timer b = (if cb_timers b = 0 then b else b\<lparr>cb_copied := False, cb_timers := cb_timers b - 1\<rparr>)"

section \<open>What the parts offer\<close>

lemma controls_pill [simp]: "controls (StatusPill t l) = []" "links (StatusPill t l) = []"
  by (simp_all add: StatusPill_def links_El)

lemma controls_button [simp]:
  "controls (Button b cs) = [(concat (concat (List.map texts cs)), \<not> b)]" "links (Button b cs) = concat (List.map links cs)"
  by (simp_all add: Button_def links_El flag_def)

lemma page_link_simps [simp]: "controls (page_link h cs) = concat (List.map controls cs)"
  "links (page_link h cs) = h # concat (List.map links cs)"
  by (simp_all add: page_link_def links_El)

lemma controls_figure [simp]: "controls (HeroFigure l v h) = []" "links (HeroFigure l v h) = []"
  by (auto simp: HeroFigure_def links_El split: option.split)

lemma schedule_controls [simp]:
  "controls (schedule_select sc) = [(u ''ManualEvery hourEvery day'', True)]" "links (schedule_select sc) = []"
  by (simp_all add: schedule_select_def SCHEDULE_OPTIONS_def links_El, simp add: u_def)

lemma hero_controls:
  "controls (StatusHero now latest running sc c) =
     (if c then [(if running then u ''Running cycle'' else u ''Run proof cycle'', \<not> running), (u ''ManualEvery hourEvery day'', True)] else [])"
  by (simp add: StatusHero_def Let_def split: option.split)

lemma hero_links:
  "links (StatusHero now latest running sc c) = (case latest of Some x \<Rightarrow> [verify_href (cy_proofId x)] | None \<Rightarrow> [])"
  by (simp add: StatusHero_def Let_def links_El split: option.split)

lemma hero_texts:
  "HEADLINE (hero_status latest) \<in> set (texts (StatusHero now latest running sc c))"
  "latest = Some x \<Longrightarrow> 43 # formatBpsPercent (hero_bps latest) \<in> set (texts (StatusHero now latest running sc c))"
  by (simp_all add: StatusHero_def HeroFigure_def Let_def)

lemma panel_controls:
  assumes "AnomalyPanel now cs = Inr v"
  shows "controls v = []" "\<exists>fs. panel_flags cs = Inr fs \<and> links v = List.map (\<lambda>f. verify_href (fl_proofId f)) fs"
proof -
  obtain fs where "panel_flags cs = Inr fs" using assms by (cases "panel_flags cs") (auto simp: AnomalyPanel_def)
  with assms show "controls v = []" "\<exists>fs. panel_flags cs = Inr fs \<and> links v = List.map (\<lambda>f. verify_href (fl_proofId f)) fs"
    by (auto simp: AnomalyPanel_def links_El comp_def)
qed

lemma audit_controls:
  "controls (AuditLog m now cs e) = (if e then [(u ''Export report'', cs \<noteq> [])] else [])"
  by (simp add: AuditLog_def comp_def)

lemma dialog_controls:
  "concat (List.map controls (dialog_content g)) =
     (case dg_step g of
        Choose \<Rightarrow> [(u ''Custodian account'' @ u ''Read signed balances from your custodian. Read-only, with your consent.'', True),
                   (u ''On-chain wallet'' @ u ''Add a wallet holding by its address.'', True)]
      | Custodians \<Rightarrow> (u ''Back'', True) # List.map (\<lambda>n. (n, True)) CUSTODIANS
      | Consent \<Rightarrow> [(u ''Back'', True), (if dg_busy g then u ''Connecting'' @ [0x2026] else u ''Authorize and connect'', \<not> dg_busy g)]
      | WalletForm \<Rightarrow> [(u ''Back'', True), (if dg_busy g then u ''Connecting'' @ [0x2026] else u ''Connect wallet'',
            \<not> dg_busy g \<and> trim (dg_walletLabel g) \<noteq> [] \<and> trim (dg_walletAddress g) \<noteq> [])])"
proof -
  have "concat (List.map (\<lambda>n. [(n, True)]) ns) = List.map (\<lambda>n. (n, True)) ns" for ns :: "jstr list" by (induction ns) simp_all
  then show ?thesis
    by (simp add: dialog_content_def DialogHeader_def DialogTitle_def DialogDescription_def ChoiceCard_def BackHeader_def
      connecting_label_def wallet_field_def comp_def split: dialog_step.split)
qed

lemma sources_controls:
  "controls (SourcesSection now (Some se) d) =
     (if can (sn_role se) SourceConnect then
        (u ''Connect a source'', True)
          # (if dg_open (db_dialog d) then concat (List.map controls (dialog_content (db_dialog d))) else [])
      else [])"
  by (simp add: SourcesSection_def SourcesPanel_def ConnectSourceDialog_def DialogContent_def session_can_def comp_def)

lemma overview_eval:
  assumes "OverviewSection chart now (Some se) d = Inr v"
  obtains panel where "AnomalyPanel now (dd_cycles (db_data d)) = Inr panel"
    "controls v = (u ''Take a tour'', True)
       # controls (StatusHero now (head_cycle d) (db_running d) (db_schedule d) (can (sn_role se) CycleRun))
       @ controls (margin_trend_shown chart (dd_cycles (db_data d))) @ controls panel"
    "links v = links (StatusHero now (head_cycle d) (db_running d) (db_schedule d) (can (sn_role se) CycleRun))
       @ links (margin_trend_shown chart (dd_cycles (db_data d)))
       @ List.map (\<lambda>c. verify_href (cy_proofId c)) (take 4 (dd_cycles (db_data d))) @ links panel"
    "set (texts (StatusHero now (head_cycle d) (db_running d) (db_schedule d) (can (sn_role se) CycleRun))) \<subseteq> set (texts v)"
proof -
  have map_one: "concat (List.map (\<lambda>c. [f c]) xs) = List.map f xs" for f :: "cycle_record \<Rightarrow> jstr" and xs by (induction xs) simp_all
  obtain panel where p: "AnomalyPanel now (dd_cycles (db_data d)) = Inr panel"
    using assms by (cases "AnomalyPanel now (dd_cycles (db_data d))") (auto simp: OverviewSection_def Let_def)
  show thesis
    using assms by (intro that [OF p]) (auto simp: OverviewSection_def Let_def p session_can_def Walkthrough_def links_El comp_def map_one)
qed

definition draws_only :: "((jstr \<times> int) list \<Rightarrow> dom) option \<Rightarrow> bool" where
  "draws_only chart \<longleftrightarrow> (\<forall>c s. chart = Some c \<longrightarrow> controls (c s) = [] \<and> links (c s) = [])"

lemma trend_empty:
  "draws_only chart \<Longrightarrow> controls (margin_trend_shown chart cs) = [] \<and> links (margin_trend_shown chart cs) = []"
  by (auto simp: draws_only_def margin_trend_shown_def MarginTrend_def links_El split: option.split)

text \<open>Buttons that are enabled are those whose handler does something.\<close>

lemma press_run_iff: "press_run r d \<noteq> d \<longleftrightarrow> can r CycleRun \<and> \<not> db_running d"
proof -
  have "db_runs (runCycle d) \<noteq> db_runs d" by (simp add: runCycle_def)
  then have "runCycle d \<noteq> d" by metis
  then show ?thesis by (simp add: press_run_def)
qed

lemma press_connect_iff: "press_connect r d \<noteq> d \<longleftrightarrow> can r SourceConnect \<and> finish_config (db_dialog d) \<noteq> None"
proof (cases "finish_config (db_dialog d)")
  case (Some c)
  then have "db_connects (finish_connect d) \<noteq> db_connects d" by (simp add: finish_connect_def provider_connectSource_def)
  then have "finish_connect d \<noteq> d" by metis
  with Some show ?thesis by (simp add: press_connect_def)
qed (simp add: press_connect_def finish_connect_def)

lemma finish_controls:
  "(u ''Authorize and connect'', True) \<in> set (controls (SourcesSection now (Some se) d))
     \<or> (u ''Connect wallet'', True) \<in> set (controls (SourcesSection now (Some se) d))
   \<longleftrightarrow> can (sn_role se) SourceConnect \<and> finish_config (db_dialog d) \<noteq> None"
proof -
  have app: "u s @ u t = u (s @ t)" for s t by (simp add: u_def)
  have busy: "u ''Connecting'' @ [0x2026] \<noteq> u s" for s
  proof
    assume "u ''Connecting'' @ [0x2026] = u s"
    then have "(0x2026::nat) \<in> set (u s)" by (metis in_set_conv_decomp)
    then obtain c :: char where "of_char c = (0x2026::nat)" by (auto simp: u_def)
    then show False using nat_of_char_less_256 [of c] by simp
  qed
  show ?thesis
    by (cases "dg_step (db_dialog d)") (auto simp: sources_controls dialog_controls finish_config_def image_iff CUSTODIANS_def busy [symmetric] app)
qed

lemma overview_renders:
  assumes "log_ok d"
  shows "\<exists>v. OverviewSection chart now_ms se d = Inr v"
  using flags_total [OF assms] by (auto simp: OverviewSection_def AnomalyPanel_def Let_def)

text \<open>C36: The dashboard's pages offer exactly what can be done.  In every reachable dashboard the overview
  renders; an operator sees the enabled run button exactly when pressing it starts a cycle, the connect
  dialog exactly with the permission, an enabled finishing button exactly when it starts a connection,
  and the enabled export exactly when there is something to export that the role may; the overview
  offers nothing else but the tour and, with the permission, the schedule.\<close>

theorem console_controls_permitted:
  assumes "dashboard_reachable (sn_role se) now d" "draws_only chart"
  shows "\<exists>v. OverviewSection chart now_ms (Some se) d = Inr v
    \<and> ((u ''Run proof cycle'', True) \<in> set (controls v) \<longleftrightarrow> press_run (sn_role se) d \<noteq> d)
    \<and> (\<not> can (sn_role se) CycleRun \<longrightarrow> controls v = [(u ''Take a tour'', True)])
    \<and> ((u ''Connect a source'', True) \<in> set (controls (SourcesSection now_ms (Some se) d)) \<longleftrightarrow> can (sn_role se) SourceConnect)
    \<and> ((u ''Authorize and connect'', True) \<in> set (controls (SourcesSection now_ms (Some se) d))
        \<or> (u ''Connect wallet'', True) \<in> set (controls (SourcesSection now_ms (Some se) d)) \<longleftrightarrow> press_connect (sn_role se) d \<noteq> d)
    \<and> ((u ''Export report'', True) \<in> set (controls (ActivitySection midnight now_ms (Some se) d)) \<longleftrightarrow> can_export (sn_role se) d)"
proof -
  obtain v where v: "OverviewSection chart now_ms (Some se) d = Inr v"
    using overview_renders [OF dashboard_log_ok [OF assms(1)]] by blast
  obtain panel where panel: "AnomalyPanel now_ms (dd_cycles (db_data d)) = Inr panel"
    and c: "controls v = (u ''Take a tour'', True)
       # controls (StatusHero now_ms (head_cycle d) (db_running d) (db_schedule d) (can (sn_role se) CycleRun))
       @ controls (margin_trend_shown chart (dd_cycles (db_data d))) @ controls panel"
    using overview_eval [OF v] by metis
  have "controls v = (u ''Take a tour'', True) # controls (StatusHero now_ms (head_cycle d) (db_running d) (db_schedule d) (can (sn_role se) CycleRun))"
    using c panel_controls(1) [OF panel] trend_empty [OF assms(2)] by simp
  then have "(u ''Run proof cycle'', True) \<in> set (controls v) \<longleftrightarrow> press_run (sn_role se) d \<noteq> d"
    "\<not> can (sn_role se) CycleRun \<longrightarrow> controls v = [(u ''Take a tour'', True)]"
    by (auto simp: hero_controls press_run_iff)
  moreover have "(u ''Connect a source'', True) \<in> set (controls (SourcesSection now_ms (Some se) d)) \<longleftrightarrow> can (sn_role se) SourceConnect"
    by (simp add: sources_controls)
  moreover have "(u ''Export report'', True) \<in> set (controls (ActivitySection midnight now_ms (Some se) d)) \<longleftrightarrow> can_export (sn_role se) d"
    by (auto simp: ActivitySection_def audit_controls session_can_def can_export_def)
  moreover note finish_controls [of now_ms se d, folded press_connect_iff]
  ultimately show ?thesis using v by (intro exI [of _ v] conjI)
qed

definition demo_session :: "role \<Rightarrow> console_session" where
  "demo_session r = \<lparr>sn_walletAddress = [], sn_operatorLabel = [], sn_role = r, sn_institution = []\<rparr>"

lemma console_controls_permitted_witness:
  "\<exists>v. OverviewSection None 0 (Some (demo_session Viewer)) (dashboard_start 0) = Inr v \<and> controls v = [(u ''Take a tour'', True)]"
proof -
  have "dashboard_reachable (sn_role (demo_session Viewer)) 0 (dashboard_start 0)" by simp
  moreover have "draws_only None" by (simp add: draws_only_def)
  ultimately show ?thesis
    using console_controls_permitted [of "demo_session Viewer" 0 "dashboard_start 0" None 0 0]
    by (auto simp: demo_session_def can_def permissions_def)
qed

section \<open>What the overview states\<close>

lemma flags_of_log:
  assumes "panel_flags cs = Inr fs" "f \<in> set fs"
  shows "\<exists>c \<in> set cs. fl_proofId f = cy_proofId c \<and> fl_detectedAt f = cy_at c"
proof -
  obtain gs where gs: "detectAnomalies (toProofs cs) DEFAULT_THRESHOLDS = Inr gs" "set fs = set gs"
    using assms(1) by (auto simp: panel_flags_def result_simps)
  then obtain p q hs where "consecutive (toProofs cs) p q" "step_flags DEFAULT_THRESHOLDS p q = Inr hs" "f \<in> set hs"
    using detect_mem [OF gs(1)] assms(2) by blast
  then have "q \<in> set (toProofs cs)" "fl_proofId f = pf_id q" "fl_detectedAt f = pf_publishedAt q"
    using step_flags_props consecutive_mem by blast+
  then show ?thesis by (auto simp: toProofs_def)
qed

text \<open>C37: The overview states what the log holds.  In every reachable dashboard its headline says that
  reserves cover deposits, and they do in the newest cycle; the margin it prints with a plus sign is not
  negative; every proof it links is one of the log, and the newest is among them.\<close>

theorem overview_states_log:
  assumes "dashboard_reachable r now d" "OverviewSection chart now_ms (Some se) d = Inr v" "draws_only chart"
  shows "(let log = dd_cycles (db_data d) in
    u ''Reserves cover deposits'' \<in> set (texts v)
    \<and> (\<exists>R L. bigint_of (cy_reservesTotal (hd log)) = Inr R \<and> bigint_of (cy_liabilitiesTotal (hd log)) = Inr L \<and> L \<le> R)
    \<and> (\<exists>m \<ge> 0. m = marginBps (cy_reservesTotal (hd log)) (cy_liabilitiesTotal (hd log)) \<and> 43 # formatBpsPercent m \<in> set (texts v))
    \<and> set (links v) \<subseteq> (\<lambda>c. verify_href (cy_proofId c)) ` set log
    \<and> verify_href (cy_proofId (hd log)) \<in> set (links v))"
proof -
  have ok: "log_ok d" by (rule dashboard_log_ok [OF assms(1)])
  then obtain c cs where log: "dd_cycles (db_data d) = c # cs" by (cases "dd_cycles (db_data d)") (auto simp: log_ok_def)
  then have newest: "head_cycle d = Some c" "cy_status c = Solvent" using ok by (auto simp: head_cycle_def log_ok_def cycle_covered_def)
  obtain R L where RL: "bigint_of (cy_reservesTotal c) = Inr R" "bigint_of (cy_liabilitiesTotal c) = Inr L" "0 < L" "L \<le> R"
    using log_numbers [OF ok, of c] log by auto
  then have m: "0 \<le> marginBps (cy_reservesTotal c) (cy_liabilitiesTotal c)"
    by (simp add: marginBps_def sdiv_nonneg pos_imp_zdiv_nonneg_iff)
  obtain panel where panel: "AnomalyPanel now_ms (c # cs) = Inr panel"
    and l: "links v = links (StatusHero now_ms (Some c) (db_running d) (db_schedule d) (can (sn_role se) CycleRun))
       @ links (margin_trend_shown chart (c # cs)) @ List.map (\<lambda>c. verify_href (cy_proofId c)) (take 4 (c # cs)) @ links panel"
    and t: "set (texts (StatusHero now_ms (Some c) (db_running d) (db_schedule d) (can (sn_role se) CycleRun))) \<subseteq> set (texts v)"
    using overview_eval [OF assms(2)] unfolding log newest by metis
  obtain fs where "panel_flags (c # cs) = Inr fs" "links panel = List.map (\<lambda>f. verify_href (fl_proofId f)) fs"
    using panel_controls(2) [OF panel] by blast
  then have "set (links panel) \<subseteq> (\<lambda>c. verify_href (cy_proofId c)) ` set (c # cs)" using flags_of_log by fastforce
  moreover have "set (take 4 (c # cs)) \<subseteq> set (c # cs)" by (rule set_take_subset)
  ultimately have "set (links v) \<subseteq> (\<lambda>c. verify_href (cy_proofId c)) ` set (c # cs)" "verify_href (cy_proofId c) \<in> set (links v)"
    unfolding l using trend_empty [OF assms(3)] by (auto simp: hero_links)
  moreover have "u ''Reserves cover deposits'' \<in> set (texts v)" "43 # formatBpsPercent (marginBps (cy_reservesTotal c) (cy_liabilitiesTotal c)) \<in> set (texts v)"
    using t hero_texts(1) [of "Some c"] hero_texts(2) [of "Some c" c] newest by (auto simp: hero_status_def hero_bps_def HEADLINE_def)
  ultimately show ?thesis using m RL unfolding Let_def log list.sel by blast
qed

lemma overview_states_log_witness:
  "\<exists>v. OverviewSection None 0 (Some (demo_session Viewer)) (dashboard_start 0) = Inr v
     \<and> u ''Reserves cover deposits'' \<in> set (texts v) \<and> u ''/verify?id=1042'' \<in> set (links v)"
proof -
  have reach: "dashboard_reachable Viewer 0 (dashboard_start 0)" by simp
  obtain v where v: "OverviewSection None 0 (Some (demo_session Viewer)) (dashboard_start 0) = Inr v"
    using overview_renders [OF dashboard_log_ok [OF reach]] by blast
  moreover have "draws_only None" by (simp add: draws_only_def)
  moreover have "verify_href (cy_proofId (hd (dd_cycles (db_data (dashboard_start 0))))) = u ''/verify?id=1042''"
    by (simp add: dashboard_start_def initialDashboard_def cycle_of_def verify_href_def Let_def u_def)
  ultimately show ?thesis using overview_states_log [OF reach v] by (auto simp: Let_def)
qed

section \<open>Theme, tour and copy button\<close>

lemma theme_names [simp]: "u ''light'' \<noteq> u ''dark''" by simp

definition theme_in_sync :: "theme_page \<Rightarrow> bool" where
  "theme_in_sync t \<longleftrightarrow> th_attr t = Some (if th_dark t then u ''dark'' else u ''light'')"

lemma theme_load_sync: "theme_in_sync (theme_load t)"
  by (auto simp: theme_in_sync_def theme_load_def theme_mount_def themeScript_def split: option.splits)

lemma theme_toggle_sync: "theme_in_sync (theme_toggle t)"
  by (simp add: theme_in_sync_def theme_toggle_def Let_def)

lemma theme_reachable_sync: "rtranclp theme_step (theme_load t0) t \<Longrightarrow> theme_in_sync t"
proof (induction rule: rtranclp_induct)
  case (step t t')
  from step.hyps(2) step.IH show ?case by (cases rule: theme_step.cases) (auto simp: theme_load_sync theme_toggle_sync, simp add: theme_in_sync_def)
qed (rule theme_load_sync)

text \<open>The theme of the console is the document's.  After any sequence of page loads, toggles and changes
  of the system theme, the provider and the attribute agree; toggling twice comes back; and a chosen theme
  survives the next load whatever the system prefers, as long as the storage is not blocked.\<close>

theorem theme_survives_reload:
  assumes "rtranclp theme_step (theme_load t0) t"
  shows "th_attr t = Some (if th_dark t then u ''dark'' else u ''light'')
    \<and> th_attr (theme_toggle (theme_toggle t)) = th_attr t
    \<and> (th_store t \<noteq> None \<longrightarrow> theme_load (theme_toggle t\<lparr>th_light_os := l\<rparr>) = theme_toggle t\<lparr>th_light_os := l\<rparr>)"
  using theme_reachable_sync [OF assms]
  by (auto simp: theme_in_sync_def theme_toggle_def theme_load_def theme_mount_def themeScript_def Let_def)

definition light_visitor :: theme_page where
  "light_visitor = \<lparr>th_store = Some None, th_light_os = True, th_attr = None, th_dark = True\<rparr>"

lemma theme_survives_reload_witness:
  "th_dark (theme_load (theme_toggle (theme_load light_visitor)\<lparr>th_light_os := True\<rparr>))"
proof -
  have "rtranclp theme_step (theme_load light_visitor) (theme_load light_visitor)" by simp
  moreover have "th_store (theme_load light_visitor) \<noteq> None" "\<not> th_dark (theme_load light_visitor)"
    by (simp_all add: light_visitor_def theme_load_def theme_mount_def themeScript_def)
  ultimately show ?thesis using theme_survives_reload [of light_visitor "theme_load light_visitor" True] by (simp add: theme_toggle_def Let_def)
qed

inductive tour_step :: "tour \<Rightarrow> tour \<Rightarrow> bool" where
  Mount: "tour_step t (tour_mount t)"
| Unmount: "tour_step t (tour_unmount t)"
| Timer: "tour_step t (tour_timer t)"
| PressTour: "tour_step t (tour_press t)"
| Destroyed: "tour_step t (markSeen t)"

text \<open>A tour that was seen, with the mark stored and no first run under way, starts again only when asked.\<close>

lemma tour_step_seen:
  assumes "tour_step a b" "hasSeenTour a" "\<not> tr_timer a"
  shows "hasSeenTour b" "\<not> tr_timer b" "tr_started b = tr_started a \<or> tr_started b = tr_started a @ [True]"
  using assms
  by (auto elim!: tour_step.cases simp: tour_mount_def tour_unmount_def tour_timer_def tour_press_def markSeen_def hasSeenTour_def)

lemma tour_seen_only_asked:
  assumes "rtranclp tour_step t t'" "hasSeenTour t" "\<not> tr_timer t"
  shows "hasSeenTour t' \<and> \<not> tr_timer t' \<and> (\<exists>ps. tr_started t' = tr_started t @ ps \<and> set ps \<subseteq> {True})"
  using assms(1)
proof (induction rule: rtranclp_induct)
  case (step a b)
  from step.IH obtain ps where a: "hasSeenTour a" "\<not> tr_timer a" and ps: "tr_started a = tr_started t @ ps" "set ps \<subseteq> {True}" by blast
  note b = tour_step_seen [OF step.hyps(2) a]
  from b(3) show ?case
  proof
    assume "tr_started b = tr_started a"
    with b(1,2) ps show ?thesis by auto
  next
    assume "tr_started b = tr_started a @ [True]"
    then have "tr_started b = tr_started t @ (ps @ [True])" "set (ps @ [True]) \<subseteq> {True}" using ps by auto
    with b(1,2) show ?thesis by blast
  qed
qed (use assms(2,3) in simp)

inductive copy_step :: "jstr \<Rightarrow> copy_button \<Rightarrow> copy_button \<Rightarrow> bool" for v where
  CopyPress: "copy_step v b (copy_pressed blocked v b)"
| CopyTimer: "copy_step v b (copy_timer b)"
| CopyOther: "copy_step v b (b\<lparr>cb_clipboard := x\<rparr>)"

text \<open>A confirmation is always taken back: while the button says so, a timer is running.\<close>

lemma copy_confirmation_ends:
  assumes "rtranclp (copy_step v) \<lparr>cb_clipboard = x, cb_copied = False, cb_timers = 0\<rparr> b" "cb_copied b"
  shows "0 < cb_timers b"
proof -
  from assms(1) have "cb_copied b \<longrightarrow> 0 < cb_timers b"
  proof (induction rule: rtranclp_induct)
    case (step a b)
    from step.hyps(2) step.IH show ?case by (cases rule: copy_step.cases) (auto simp: copy_pressed_def copy_timer_def)
  qed simp
  with assms(2) show ?thesis by simp
qed

end
