(* ===== verification/Page_Views.thy ===== *)
theory Page_Views
  imports Console_Views Public_Pages
begin

text \<open>
  What the pages outside the dashboard show and offer, as documents over their states: proof
  verification and the inclusion check (\<open>Public_Pages\<close>), sign-in and onboarding (\<open>Session\<close>), with the
  files of apps/web/src/app they are in.  Icons, drawings and classes that only style are left out;
  the style of the coverage bar, which states a number, is kept.
\<close>

section \<open>(public)/verify\<close>

definition proof_figure :: "string \<Rightarrow> jstr \<Rightarrow> dom" where
  "proof_figure label value = El ''div'' [] [El ''div'' [] [tx label], El ''div'' [] [Txt value]]"

definition Meta :: "string \<Rightarrow> dom list \<Rightarrow> dom" where
  "Meta label content = El ''div'' [] [El ''dt'' [] [tx label], El ''dd'' [] content]"

definition ProofResult :: "bool \<Rightarrow> nat \<Rightarrow> int \<Rightarrow> proof_rec \<Rightarrow> client_check \<Rightarrow> dom" where
  "ProofResult copied midnight now p c =
     (let v = proof_result formatBpsPercent now p c; checking = (ck_state c = CRunning) in
      El ''section'' [(''aria-live'', u ''polite'')]
        ([El ''div'' []
            [El ''div'' [] [StatusPill ToneSolvent (pv_pill v), El ''span'' [] [Txt (u ''Proof #'' @ pv_id v)]],
             El ''div'' [] [Txt (u ''Verified on Stellar'' @ middot @ pv_age v)]],
          El ''div'' []
            [El ''div'' [] [proof_figure ''Reserves (R)'' (pv_reserves v), proof_figure ''Liabilities (L)'' (pv_liabilities v)],
             El ''div'' []
               [El ''div'' []
                  [El ''span'' [] [Txt (u ''Liabilities '' @ show_int (pv_coverage v) @ u ''% of reserves'')],
                   El ''span'' [] [Txt (pv_margin v)]],
                El ''div'' [] [El ''div'' [(''style'', u ''width: '' @ show_int (pv_coverage v) @ u ''%'')] []],
                El ''p'' [] [tx ''Reserves cover every liability committed in this proof, with headroom to spare.'']]],
          El ''dl'' []
            [Meta ''Published'' [El ''span'' [] [Txt (formatTimestamp midnight (pf_publishedAt p))]],
             Meta ''Proof id'' [El ''span'' [] [Txt (pv_id v)], CopyButton copied (u ''Copy proof id'')],
             Meta ''Sum-tree root'' [El ''span'' [] [Txt (pv_root v)], CopyButton copied (u ''Copy root hash'')],
             Meta ''Proof bytes'' [El ''span'' [] [Txt (pv_bytes v)], CopyButton copied (u ''Copy proof bytes'')]],
          El ''div'' []
            [El ''div'' []
               [El ''h2'' [] [tx ''Verify in your browser''],
                El ''p'' [] [tx ''Re-check the proof locally with noir, trusting no one.'']],
             Button checking [if checking then El ''span'' [] [tx ''Checking''] else tx ''Verify locally'']]]
         @ (case pv_check v of Some m \<Rightarrow> [El ''p'' [(''role'', u ''status'')] [Txt m]] | None \<Rightarrow> [])))"

definition trust_points :: "(jstr \<times> jstr) list" where
  "trust_points =
     [(u ''Read on-chain'', u ''Totals come straight from the Stellar contract, not from us.''),
      (u ''Reveals nothing'', u ''A proof shows reserves '' @ [0x2265] @ u '' liabilities and no individual balance.''),
      (u ''Re-check yourself'', u ''Verify the proof in your own browser, trusting no server.'')]"

definition TrustPoints :: dom where
  "TrustPoints = El ''div'' [] (List.map (\<lambda>(title, body). El ''div'' [] [El ''div'' [] [], El ''h2'' [] [Txt title], El ''p'' [] [Txt body]]) trust_points)"

definition LookupNotFound :: "jstr \<Rightarrow> dom" where
  "LookupNotFound i =
     El ''section'' [(''aria-live'', u ''polite'')]
       [El ''h2'' [] [tx ''No proof found''],
        El ''p'' [] [tx ''Nothing published under '', El ''span'' [] [Txt i], tx ''. Check the id and try again.'']]"

definition ResultSkeleton :: dom where
  "ResultSkeleton =
     El ''section'' [(''aria-hidden'', u ''true'')]
       [El ''div'' [] [El ''div'' [] [], El ''div'' [] []],
        El ''div'' [] (List.map (\<lambda>i. El ''div'' [] [El ''div'' [] [], El ''div'' [] []]) [0..<2]),
        El ''div'' [] [El ''div'' [] []]]"

definition lookup_form :: "verify_page \<Rightarrow> dom" where
  "lookup_form v =
     (let waiting = (vp_state v = LLoading) in
      El ''form'' []
        [El ''div'' []
           [El ''input'' [(''aria-label'', u ''Proof id''), (''value'', vp_query v), (''placeholder'', u ''Enter a proof id, e.g. 1042'')] [],
            Button (waiting \<or> trim (vp_query v) = []) [if waiting then El ''span'' [] [tx ''Verifying''] else tx ''Verify proof'']],
         El ''div'' []
           (El ''span'' [] [tx ''Try a sample:'']
            # List.map (\<lambda>i. El ''button'' [(''type'', u ''button'')] [Txt i]) EXAMPLE_PROOF_IDS)])"

definition VerifyClient :: "bool \<Rightarrow> nat \<Rightarrow> int \<Rightarrow> verify_page \<Rightarrow> dom list" where
  "VerifyClient copied midnight now v =
     [lookup_form v,
      El ''div'' []
        ((if vp_state v = LIdle then [TrustPoints] else [])
         @ (if vp_state v = LLoading then [ResultSkeleton] else [])
         @ (if vp_state v = LNotfound then [LookupNotFound (vp_missedId v)] else [])
         @ (case vp_proof v of
              Some p \<Rightarrow> if vp_state v = LFound then [ProofResult copied midnight now p (vp_check v)] else []
            | None \<Rightarrow> []))]"

definition VerifyPage :: "dom list \<Rightarrow> dom" where
  "VerifyPage content =
     El ''div'' []
       (El ''header'' []
          [El ''p'' [] [tx ''Public verification''],
           El ''h1'' [] [Txt (u ''Don'' @ [0x2019] @ u ''t trust. ''), El ''span'' [] [tx ''Verify.'']],
           El ''p'' [] [tx ''Paste a proof id to read the totals it published and confirm reserves cover liabilities, settled on Stellar. Anyone can check; no wallet, no account.'']]
        # content)"

section \<open>(public)/inclusion\<close>

definition Included :: "jstr \<Rightarrow> jstr \<Rightarrow> dom" where
  "Included reference proofId =
     El ''section'' [(''aria-live'', u ''polite'')]
       [El ''div'' []
          [El ''h2'' [] [tx ''Your balance is included''],
           El ''p'' [] [El ''span'' [] [Txt reference], Txt (u '' is committed in proof #'' @ proofId @ u '', verified on Stellar.'')]],
        El ''div'' []
          [page_link (verify_href proofId) [Txt (u ''See the proof on the verify page '' @ [0x2192])]]]"

definition NotIncluded :: "jstr \<Rightarrow> dom" where
  "NotIncluded reference =
     El ''section'' [(''aria-live'', u ''polite'')]
       [El ''h2'' [] [Txt (u ''We couldn'' @ [0x2019] @ u ''t find that reference'')],
        El ''p'' []
          [tx ''Nothing matched '', El ''span'' [] [Txt reference],
           tx '' in the latest proof. Double-check the reference, or contact your institution. A no can also mean the latest proof predates your account.'']]"

definition InclusionAnswer :: "inclusion_result \<Rightarrow> jstr \<Rightarrow> dom" where
  "InclusionAnswer r reference = (if ic_included r then Included reference (ic_proofId r) else NotIncluded reference)"

definition inclusion_steps :: "(string \<times> string \<times> string) list" where
  "inclusion_steps =
     [(''1'', ''Enter your reference'', ''The id your institution issued for your account.''),
      (''2'', ''We check on-chain'', ''Solva verifies it against the latest published proof.''),
      (''3'', ''You get a clear answer'', ''Included or not, with nothing else revealed.'')]"

definition HowItWorks :: dom where
  "HowItWorks =
     El ''div'' []
       [El ''h2'' [] [tx ''How this works''],
        El ''ol'' [] (List.map (\<lambda>(n, title, body). El ''li'' []
           [El ''span'' [] [tx n], El ''div'' [] [El ''div'' [] [tx title], El ''p'' [] [tx body]]]) inclusion_steps)]"

definition CheckingCard :: dom where
  "CheckingCard =
     El ''section'' [(''aria-hidden'', u ''true'')] [El ''div'' [] [El ''svg'' [] []], El ''div'' [] [], El ''div'' [] []]"

definition InclusionClient :: "inclusion_page \<Rightarrow> dom" where
  "InclusionClient p =
     (let waiting = (ip_state p = CRunning) in
      El ''div'' []
        [El ''header'' []
           [El ''p'' [] [tx ''Customer check''],
            El ''h1'' [] [tx ''Is your balance '', El ''span'' [] [tx ''backed?'']],
            El ''p'' [] [tx ''Enter the reference your institution gave you. We check it against the latest proof on Stellar and answer yes or no, in seconds.'']],
         El ''form'' []
           [El ''div'' []
              [El ''input'' [(''aria-label'', u ''Your reference''), (''value'', ip_reference p),
                 (''placeholder'', u ''Enter your reference, e.g. acct_8842'')] [],
               Button (waiting \<or> trim (ip_reference p) = []) [if waiting then El ''span'' [] [tx ''Checking''] else tx ''Check inclusion'']],
            El ''div'' []
              [El ''span'' [] [tx ''Try a sample:''], El ''button'' [(''type'', u ''button'')] [Txt EXAMPLE_REFERENCE]]],
         El ''div'' []
           ((if ip_state p = CIdle then [HowItWorks] else [])
            @ (if ip_state p = CRunning then [CheckingCard] else [])
            @ (case ip_result p of
                 Some r \<Rightarrow> if ip_state p = CDone then [InclusionAnswer r (ip_checkedRef p)] else []
               | None \<Rightarrow> [])),
         El ''p'' [] [Txt (u ''This check reveals only whether your reference is in the proof. It never exposes your balance or anyone else'' @ [0x2019] @ u ''s.'')]])"

section \<open>(entry)/auth and (entry)/onboarding\<close>

text \<open>The empty text counts as nothing.\<close>

definition text_or_none :: "jstr option \<Rightarrow> jstr option" where
  "text_or_none v = (case v of Some [] \<Rightarrow> None | _ \<Rightarrow> v)"

definition AuthClient :: "auth_page \<Rightarrow> dom" where
  "AuthClient a =
     El ''div'' []
       [El ''div'' []
          ([El ''h1'' [] [tx ''Sign in to Solva''],
            El ''p'' [] [tx ''Use your passkey. No seed phrase. We provision a smart wallet for your institution on first sign-in.'']]
           @ (case text_or_none (ap_unsupported a) of
                Some m \<Rightarrow> [El ''p'' [(''role'', u ''alert'')] [Txt m]]
              | None \<Rightarrow>
                  Button (ap_busy a)
                    [if ap_busy a then El ''span'' [] [Txt (case ap_phase a of Some ph \<Rightarrow> PHASE_LABEL ph | None \<Rightarrow> u ''Signing in'' @ [0x2026])]
                     else tx ''Sign in with passkey'']
                  # (case text_or_none (ap_error a) of Some e \<Rightarrow> [El ''p'' [(''role'', u ''alert'')] [Txt e]] | None \<Rightarrow> []))),
        El ''p'' [] [tx ''New institution? Signing in starts your onboarding.'']]"

definition KybField :: "string \<Rightarrow> jstr option \<Rightarrow> dom \<Rightarrow> dom" where
  "KybField label err control =
     El ''label'' [] ([El ''span'' [] [tx label], control]
       @ (case text_or_none err of Some e \<Rightarrow> [El ''span'' [] [Txt e]] | None \<Rightarrow> []))"

definition text_input :: "jstr \<Rightarrow> string \<Rightarrow> dom" where
  "text_input value placeholder = El ''input'' [(''value'', value), (''placeholder'', u placeholder)] []"

text \<open>\<open>shown\<close> are the errors the form shows, in the order of \<open>kyb_form_errors\<close>; it shows none before the
  first attempt to submit.\<close>

definition form_error :: "jstr option list \<Rightarrow> nat \<Rightarrow> jstr option" where
  "form_error shown i = (if i < length shown then shown ! i else None)"

definition KybForm :: "kyb_input \<Rightarrow> jstr option list \<Rightarrow> bool \<Rightarrow> bool \<Rightarrow> dom" where
  "KybForm x shown rejected submitting =
     El ''div'' []
       (El ''div'' []
          [El ''p'' [] [Txt (u ''Onboarding'' @ middot @ u ''Step 1 of 1'')],
           El ''h1'' [] [tx ''Verify your institution''],
           El ''p'' [] [tx ''We review every institution before it can publish proofs. A Solva reviewer approves your application; this is not automated.'']]
        # (if rejected then [El ''p'' [(''role'', u ''alert'')] [tx ''Your previous application needs changes. Update the details and resubmit.'']] else [])
        @ [El ''form'' []
             [El ''fieldset'' []
                [El ''legend'' [] [tx ''Legal entity''],
                 KybField ''Registered legal name'' (form_error shown 0) (text_input (ki_legalName x) ''Kestrel Anchor Ltd''),
                 El ''div'' []
                   [KybField ''Institution type'' None
                      (El ''select'' [(''value'', type_name (ki_type x))]
                         (List.map (\<lambda>(v, l). El ''option'' [(''value'', v)] [Txt l]) INSTITUTION_TYPE_LABELS)),
                    KybField ''Jurisdiction'' (form_error shown 1) (text_input (ki_jurisdiction x) ''United Kingdom'')],
                 KybField ''Company registration number'' (form_error shown 2) (text_input (ki_registrationNumber x) ''12345678'')],
              El ''fieldset'' []
                [El ''legend'' [] [tx ''Compliance contact''],
                 El ''div'' []
                   [KybField ''Contact name'' (form_error shown 3) (text_input (ki_contactName x) ''Jordan Okafor''),
                    KybField ''Work email'' (form_error shown 4) (text_input (ki_contactEmail x) ''jordan@kestrel.example'')]],
              Button submitting [tx ''Submit for review'']]])"

definition PendingReview :: "jstr \<Rightarrow> dom" where
  "PendingReview legalName =
     El ''div'' []
       [El ''div'' []
          [El ''h1'' [] [tx ''Application under review''],
           El ''p'' [] [Txt (u ''Thanks'' @ (if legalName \<noteq> [] then u '', '' @ legalName else [])
             @ u ''. A Solva reviewer is verifying your details. You will get access to the console once approved.'')]],
        El ''div'' []
          [El ''p'' [] [tx ''Demo: approval is handled by a Solva system operator. Stand in for that step here.''],
           Button False [tx ''Simulate reviewer approval'']]]"

definition OnboardingClient :: "kyb_input \<Rightarrow> jstr option list \<Rightarrow> bool \<Rightarrow> session_status \<Rightarrow> console_session option \<Rightarrow> dom list" where
  "OnboardingClient x shown submitting st se =
     (case onboarding_shown st se of
        Nothing_shown \<Rightarrow> []
      | Pending_review name \<Rightarrow> [PendingReview name]
      | Kyb_form rejected \<Rightarrow> [KybForm x shown rejected submitting])"

section \<open>What the public pages offer and state\<close>

lemma buttons_of [simp]: "concat (List.map (\<lambda>i. [(i, True)]) xs) = List.map (\<lambda>i. (i, True)) xs"
  by (induction xs) simp_all

lemma lookup_controls:
  "controls (lookup_form v) = (if vp_state v = LLoading then u ''Verifying'' else u ''Verify proof'', vp_state v \<noteq> LLoading \<and> trim (vp_query v) \<noteq> [])
     # List.map (\<lambda>i. (i, True)) EXAMPLE_PROOF_IDS"
  by (simp add: lookup_form_def Let_def comp_def)

lemma proof_controls:
  "set (controls (ProofResult copied m now p c)) =
     {(if copied then u ''Copied'' else u ''Copy'', True), (if ck_state c = CRunning then u ''Checking'' else u ''Verify locally'', ck_state c \<noteq> CRunning)}"
  by (auto simp: ProofResult_def Let_def proof_figure_def Meta_def CopyButton_def split: option.split)

lemma resting_controls [simp]:
  "controls TrustPoints = []" "controls ResultSkeleton = []" "controls (LookupNotFound i) = []" "controls HowItWorks = []"
  "controls CheckingCard = []" "controls (Included r i) = []" "controls (NotIncluded r) = []"
  by (simp_all add: TrustPoints_def trust_points_def ResultSkeleton_def LookupNotFound_def HowItWorks_def inclusion_steps_def
    CheckingCard_def Included_def NotIncluded_def)

lemma verify_controls:
  "set (controls (VerifyPage (VerifyClient copied m now v))) = set (controls (lookup_form v))
     \<union> (case vp_proof v of Some p \<Rightarrow> if vp_state v = LFound then set (controls (ProofResult copied m now p (vp_check v))) else {} | None \<Rightarrow> {})"
  by (auto simp: VerifyPage_def VerifyClient_def simp del: controls.simps(2) split: option.splits) (auto split: if_splits)

lemma submit_lookup_iff: "submit_lookup v \<noteq> v \<longleftrightarrow> vp_state v \<noteq> LLoading \<and> trim (vp_query v) \<noteq> []"
proof -
  have "vp_lookups (lookUp (vp_query v) v) \<noteq> vp_lookups v" if "trim (vp_query v) \<noteq> []" using that by (simp add: lookUp_def Let_def)
  then have "trim (vp_query v) \<noteq> [] \<Longrightarrow> lookUp (vp_query v) v \<noteq> v" by metis
  then show ?thesis by (auto simp: submit_lookup_def)
qed

lemma press_check_iff:
  "press_check v \<noteq> v \<longleftrightarrow> vp_state v = LFound \<and> vp_proof v \<noteq> None \<and> ck_state (vp_check v) \<noteq> CRunning"
proof -
  have "vp_checks (runClientCheck v) \<noteq> vp_checks v" if "vp_proof v \<noteq> None" using that by (auto simp: runClientCheck_def)
  then have "vp_proof v \<noteq> None \<Longrightarrow> runClientCheck v \<noteq> v" by metis
  then show ?thesis by (auto simp: press_check_def)
qed

lemma proof_attrs:
  "with_attr ''style'' (ProofResult copied m now p c) =
     [u ''width: '' @ show_int (verify_coverage (pi_reservesTotal (pf_publicInputs p)) (pi_liabilitiesTotal (pf_publicInputs p))) @ u ''%'']"
  "links (ProofResult copied m now p c) = []"
  by (auto simp: ProofResult_def proof_result_def Let_def proof_figure_def Meta_def CopyButton_def StatusPill_def Button_def flag_def links_El split: option.split)

lemma proof_texts:
  "{formatAmount_web (pi_reservesTotal (pf_publicInputs p)), formatAmount_web (pi_liabilitiesTotal (pf_publicInputs p)), u ''Proof #'' @ pf_id p}
     \<subseteq> set (texts (ProofResult copied m now p c))"
  by (simp add: ProofResult_def proof_result_def Let_def proof_figure_def)

lemma verify_attr:
  assumes "k \<in> {''style'', ''class'', ''href''}"
  shows "with_attr k (VerifyPage (VerifyClient copied m now v)) =
     (case vp_proof v of Some p \<Rightarrow> if vp_state v = LFound then with_attr k (ProofResult copied m now p (vp_check v)) else [] | None \<Rightarrow> [])"
  using assms
  by (auto simp: VerifyPage_def VerifyClient_def lookup_form_def Let_def Button_def flag_def TrustPoints_def trust_points_def ResultSkeleton_def
    LookupNotFound_def comp_def split: option.split)

lemma verify_texts:
  "vp_proof v = Some p \<Longrightarrow> vp_state v = LFound \<Longrightarrow> texts (ProofResult copied m now p (vp_check v)) = ts \<Longrightarrow>
     set ts \<subseteq> set (texts (VerifyPage (VerifyClient copied m now v)))"
  by (auto simp: VerifyPage_def VerifyClient_def)

text \<open>The verify page states only what was published.  In every reachable state the enabled form button
  and the enabled check button are there exactly when pressing them does something; a pill is shown only
  for a published record whose reserves cover its liabilities, with its two totals and its number; and
  the coverage bar stays within its track.\<close>

theorem verify_view_honest:
  assumes "verify_reachable v"
  shows "(let page = VerifyPage (VerifyClient copied m now v) in
    ((u ''Verify proof'', True) \<in> set (controls page) \<longleftrightarrow> submit_lookup v \<noteq> v)
    \<and> ((u ''Verify locally'', True) \<in> set (controls page) \<longleftrightarrow> press_check v \<noteq> v)
    \<and> (with_attr ''class'' page \<noteq> [] \<longrightarrow> (\<exists>r R L. r \<in> set RECORDS
         \<and> bigint_of (mr_reservesTotal r) = Inr R \<and> bigint_of (mr_liabilitiesTotal r) = Inr L \<and> L \<le> R
         \<and> {formatAmount_web (mr_reservesTotal r), formatAmount_web (mr_liabilitiesTotal r), u ''Proof #'' @ mr_id r} \<subseteq> set (texts page)))
    \<and> (\<forall>s \<in> set (with_attr ''style'' page). \<exists>c. 0 \<le> c \<and> c \<le> 100 \<and> s = u ''width: '' @ show_int c @ u ''%''))"
proof -
  note ok = verify_reachable_ok [OF assms]
  have ids: "u ''Verify proof'' \<notin> set EXAMPLE_PROOF_IDS" "u ''Verify locally'' \<notin> set EXAMPLE_PROOF_IDS"
    by (simp_all add: EXAMPLE_PROOF_IDS_def RECORDS_def)
  then have "(u ''Verify proof'', True) \<in> set (controls (VerifyPage (VerifyClient copied m now v))) \<longleftrightarrow> submit_lookup v \<noteq> v"
    "(u ''Verify locally'', True) \<in> set (controls (VerifyPage (VerifyClient copied m now v))) \<longleftrightarrow> press_check v \<noteq> v"
    unfolding verify_controls submit_lookup_iff press_check_iff
    by (auto simp: lookup_controls proof_controls split: option.split)
  moreover have "\<exists>r R L. r \<in> set RECORDS
       \<and> bigint_of (mr_reservesTotal r) = Inr R \<and> bigint_of (mr_liabilitiesTotal r) = Inr L \<and> L \<le> R
       \<and> {formatAmount_web (mr_reservesTotal r), formatAmount_web (mr_liabilitiesTotal r), u ''Proof #'' @ mr_id r}
           \<subseteq> set (texts (VerifyPage (VerifyClient copied m now v)))
       \<and> with_attr ''style'' (VerifyPage (VerifyClient copied m now v)) = [u ''width: '' @ show_int (verify_coverage (mr_reservesTotal r) (mr_liabilitiesTotal r)) @ u ''%'']
       \<and> 0 \<le> verify_coverage (mr_reservesTotal r) (mr_liabilitiesTotal r) \<and> verify_coverage (mr_reservesTotal r) (mr_liabilitiesTotal r) \<le> 100"
    if found: "vp_proof v = Some p" "vp_state v = LFound" for p
  proof -
    obtain r where r: "r \<in> set RECORDS" "pf_id p = mr_id r"
      "pi_reservesTotal (pf_publicInputs p) = mr_reservesTotal r" "pi_liabilitiesTotal (pf_publicInputs p) = mr_liabilitiesTotal r"
      using ok found(1) unfolding verify_ok_def published_proof_def by blast
    obtain R L where n: "bigint_of (mr_reservesTotal r) = Inr R" "bigint_of (mr_liabilitiesTotal r) = Inr L" "0 < L" "L \<le> R"
      using RECORDS_covered [OF r(1)] by blast
    have "{formatAmount_web (mr_reservesTotal r), formatAmount_web (mr_liabilitiesTotal r), u ''Proof #'' @ mr_id r}
        \<subseteq> set (texts (VerifyPage (VerifyClient copied m now v)))"
      using proof_texts [of p copied m now "vp_check v"] verify_texts [OF found refl, of copied m now] unfolding r(2-4) by (rule subset_trans)
    with r n verify_coverage_bounds [OF n] found show ?thesis
      by (intro exI [of _ r] exI [of _ R] exI [of _ L]) (simp add: verify_attr proof_attrs)
  qed
  moreover have "with_attr k (VerifyPage (VerifyClient copied m now v)) = []"
    if "\<not> (\<exists>p. vp_proof v = Some p \<and> vp_state v = LFound)" "k \<in> {''style'', ''class'', ''href''}" for k
    using that(1) unfolding verify_attr [OF that(2)] by (auto split: option.split)
  ultimately show ?thesis
    unfolding Let_def by (cases "\<exists>p. vp_proof v = Some p \<and> vp_state v = LFound") (fastforce, simp)
qed

lemma looked_up_reachable: "verify_reachable looked_up"
  unfolding looked_up_def by (rule rtranclp.rtrancl_into_rtrancl [OF r_into_rtranclp]) (rule verify_step.intros)+

lemma verify_view_honest_witness:
  "(u ''Verify locally'', True) \<in> set (controls (VerifyPage (VerifyClient False 0 0 looked_up)))"
proof -
  obtain w where w: "verify_shown (\<lambda>_. []) 0 looked_up = Proof_result w" using looked_up_shows by blast
  then have "vp_state looked_up = LFound" "vp_proof looked_up \<noteq> None"
    by (auto simp: verify_shown_def split: lookup_state.splits option.splits)
  moreover have "vp_check looked_up = idle_check"
    by (auto simp: looked_up_def sample_id_def example_ids lookUp_def lookUp_answer_def verify_start_def Let_def split: option.split)
  ultimately have "press_check looked_up \<noteq> looked_up" by (simp add: press_check_iff idle_check_def)
  then show ?thesis using verify_view_honest [OF looked_up_reachable] by (auto simp: Let_def)
qed

section \<open>What the other pages offer\<close>

text \<open>The inclusion page, the sign-in page and onboarding: a button is enabled exactly when it does something,
  and the stand-in for the reviewer is offered only while an application is in review.\<close>

lemma submit_reference_iff: "submit_reference p \<noteq> p \<longleftrightarrow> ip_state p \<noteq> CRunning \<and> trim (ip_reference p) \<noteq> []"
proof -
  have "ip_pending (check_reference (ip_reference p) p) \<noteq> ip_pending p" if "trim (ip_reference p) \<noteq> []" using that by (simp add: check_reference_def Let_def)
  then have "trim (ip_reference p) \<noteq> [] \<Longrightarrow> check_reference (ip_reference p) p \<noteq> p" by metis
  then show ?thesis by (auto simp: submit_reference_def)
qed

lemma inclusion_view_offers:
  "(u ''Check inclusion'', True) \<in> set (controls (InclusionClient p)) \<longleftrightarrow> submit_reference p \<noteq> p"
  unfolding submit_reference_iff
  by (auto simp: InclusionClient_def Let_def EXAMPLE_REFERENCE_def InclusionAnswer_def split: option.splits if_splits)

lemma inclusion_view_shows:
  "inclusion_shown p = Included_view ref i \<Longrightarrow> links (InclusionClient p) = [verify_href i] \<and> ref \<in> set (texts (InclusionClient p))"
  by (auto simp: inclusion_shown_def InclusionClient_def Let_def Button_def flag_def InclusionAnswer_def Included_def links_El
    split: check_state.splits option.splits if_splits)

lemma auth_view_offers:
  "(u ''Sign in with passkey'', True) \<in> set (controls (AuthClient a)) \<longleftrightarrow> \<not> ap_busy a \<and> text_or_none (ap_unsupported a) = None"
  by (auto simp: AuthClient_def split: option.splits)

lemma onboarding_view_offers:
  "(u ''Simulate reviewer approval'', True) \<in> set (concat (List.map controls (OnboardingClient x shown submitting st se)))
     \<longleftrightarrow> (\<exists>s. se = Some s \<and> st \<noteq> Active \<and> kyb_status (sn_institution s) = JStr (u ''in_review''))"
proof -
  have app: "u s @ u t = u (s @ t)" for s t by (simp add: u_def)
  have form: "(u ''Simulate reviewer approval'', True) \<notin> set (controls (KybForm x shown rejected submitting))" for rejected
    by (auto simp: KybForm_def KybField_def text_input_def INSTITUTION_TYPE_LABELS_def app split: option.splits)
  have review: "(u ''Simulate reviewer approval'', True) \<in> set (controls (PendingReview n))" for n
    by (simp add: PendingReview_def)
  show ?thesis
    by (cases se) (auto simp: OnboardingClient_def onboarding_shown_def Let_def form review)
qed

end
