(* ===== verification/Site_Documents.thy ===== *)
theory Site_Documents
  imports Contact_View Site_Figures
begin

text \<open>
  The two long documents of the web site: terms and privacy (apps/website/src/features/legal) and the
  trust page (features/company/components/trust-document.tsx), each with the list of contents that
  follows the reader (legal-contents.tsx, trust-contents.tsx, hooks/use-active-section.ts).  The
  theorems say that the contents lead to the sections, in their order, and that the mail the privacy
  notice prints is the mail the contact form sends.
\<close>

section \<open>Sections and contents\<close>

type_synonym doc_section = "string \<times> string \<times> dom list"

definition LegalSection :: "doc_section \<Rightarrow> dom" where
  "LegalSection s =
     (case s of (i, t, content) \<Rightarrow>
        El ''section'' [(''id'', u i), (''aria-labelledby'', u (i @ ''-title''))]
          [El ''h2'' [(''id'', u (i @ ''-title''))] [tx t], El ''div'' [] content])"

definition contents_entry :: "jstr option \<Rightarrow> string \<times> string \<Rightarrow> dom" where
  "contents_entry active e =
     El ''li'' []
       [El ''a'' ((''href'', 35 # u (fst e)) # (if active = Some (u (fst e)) then [(''aria-current'', u ''location'')] else []))
         [El ''span'' [(''aria-hidden'', u ''true'')] [], tx (snd e)]]"

definition LegalContents :: "(string \<times> string) list \<Rightarrow> jstr option \<Rightarrow> dom" where
  "LegalContents entries active =
     El ''nav'' [(''aria-labelledby'', u ''contents-title'')]
       [El ''h2'' [(''id'', u ''contents-title'')] [tx ''On this page''], El ''ol'' [] (List.map (contents_entry active) entries)]"

definition TrustContents :: "(string \<times> string) list \<Rightarrow> jstr \<Rightarrow> dom" where
  "TrustContents entries active =
     El ''nav'' [(''aria-label'', u ''On this page'')]
       [El ''p'' [] [tx ''On this page''], El ''ol'' [] (List.map (contents_entry (Some active)) entries)]"

text \<open>The observer of the trust page: of the entries of one report, each a section with its top edge
  and whether it is in view, the one highest up becomes the active one.\<close>

definition highest_section :: "(jstr \<times> rat \<times> bool) list \<Rightarrow> jstr \<Rightarrow> jstr" where
  "highest_section entries active =
     (case sort_key (\<lambda>(_, top, _). top) (filter (\<lambda>(_, _, visible). visible) entries) of
        [] \<Rightarrow> active
      | (i, _) # _ \<Rightarrow> i)"

definition highest_start :: "jstr list \<Rightarrow> jstr" where
  "highest_start ids = (case ids of i # _ \<Rightarrow> i | [] \<Rightarrow> [])"

section \<open>Terms and privacy\<close>

definition LEGAL_CONTENTS :: "(string \<times> string) list" where
  "LEGAL_CONTENTS =
     [(''who-we-are'', ''Who runs this site''), (''using-this-site'', ''Using this site''), (''coverage-records'', ''Coverage records on this site''),
      (''eligibility'', ''Who can register''), (''open-source'', ''Open source code and our name''),
      (''responsibility'', ''Limits of our responsibility''), (''what-we-collect'', ''What our forms collect''),
      (''why-and-how-long'', ''Why we use it and how long we keep it''), (''processors'', ''Who processes it''),
      (''cookies'', ''Cookies and analytics''), (''your-rights'', ''Your rights and requests''), (''changes'', ''Changes to this page'')]"

definition RecordExample :: "dom list" where
  "RecordExample =
     (case find (\<lambda>r. cr_state r = Stale) exampleRecords of
        None \<Rightarrow> []
      | Some r \<Rightarrow>
          [El ''figure'' []
             [El ''div'' [] [record_article r False (u ''Example, a stale day'')],
              El ''figcaption'' [] [tx ''A record that has gone stale. It keeps the last proven figures in view and says plainly that no new proof has arrived.'']]])"

definition MAIL_HEADERS :: "(string \<times> string) list" where
  "MAIL_HEADERS =
     [(''From'', ''Solva <hello@send.joinsolva.xyz>''), (''To'', ''hello@joinsolva.xyz''), (''Reply to'', ''ines@ardenpay.example''),
      (''Subject'', ''Contact: Arden Pay (Custodial app)'')]"

definition MAIL_BODY :: "string list" where
  "MAIL_BODY =
     [''Name: Ines Arden'', ''Email: ines@ardenpay.example'', ''Organisation: Arden Pay'', ''Role: Custodial app'', ''Asset or product: EURC'']"

definition MAIL_MESSAGE :: string where
  "MAIL_MESSAGE = ''We hold EURC for about 9,000 customers and want to publish coverage each day.''"

definition mail_sheet :: dom where
  "mail_sheet =
     El ''div'' [(''class'', u ''ruled-marks'')]
       [El ''dl'' [] (List.map (\<lambda>(l, v). El ''div'' [] [El ''dt'' [] [tx l], El ''dd'' [] [tx v]]) MAIL_HEADERS),
        El ''div'' [] (List.map (\<lambda>t. El ''p'' [] [tx t]) MAIL_BODY @ [El ''p'' [] [tx MAIL_MESSAGE]])]"

definition MAIL_CAPTION :: jstr where
  "MAIL_CAPTION = u ''The whole message our team receives when you send the contact form. A waitlist request is not emailed to the team: the email, organisation and role are saved once on the waitlist, and a confirmation goes to your address.''"

definition TeamEmail :: dom where
  "TeamEmail =
     El ''figure'' []
       [mail_sheet,
        El ''figcaption'' [] [Txt MAIL_CAPTION]]"

definition PROCESSORS :: "(string \<times> string \<times> string) list" where
  "PROCESSORS =
     [(''Resend'', ''Delivers the emails our forms send, and keeps the waitlist'', ''Everything you type into a form''),
      (''Cloudflare'', ''Hosts this site and protects it from abuse'', ''Request details such as IP address, browser and the page asked for'')]"

definition processor_row :: "string \<times> string \<times> string \<Rightarrow> dom" where
  "processor_row p =
     (case p of (name, role, data) \<Rightarrow> El ''tr'' [] [El ''th'' [(''scope'', u ''row'')] [tx name], El ''td'' [] [tx role], El ''td'' [] [tx data]])"

definition LEGAL_SECTIONS :: "doc_section list" where
  "LEGAL_SECTIONS =
    [(''who-we-are'', ''Who runs this site'',
      [El ''p'' [] [Txt (u ''joinsolva.xyz is the website of Solva. In this page, '' @ [0x201C] @ u ''we'' @ [0x201D] @ u '' and '' @ [0x201C] @ u ''us'' @ [0x201D] @ u '' mean '' @ u ''Solva'' @ u '', and '' @ [0x201C] @ u ''you'' @ [0x201D] @ u '' means anyone who visits the site or sends us a form.'')],
      El ''p'' [] [tx ''Write to '',
        El ''a'' [(''href'', u ''mailto:'' @ contactEmail)] [Txt (contactEmail)],
        tx '' with any question about this page.'']]),
     (''using-this-site'', ''Using this site'',
      [El ''p'' [] [tx ''This site explains what Solva is and how it works. You may read it, link to it and share it. You may not try to break it, overload it, or use our forms to send anything unlawful, abusive or automated.''],
      El ''p'' [] [tx ''Nothing on this site is financial, legal or investment advice. Descriptions of planned work are targets, not promises, and they can change.'']]),
     (''coverage-records'', ''Coverage records on this site'',
      [El ''p'' [] [tx ''The institutions and figures shown in the interface examples on this site, such as Kestrel Anchor or Arden Pay, are fictional. They show how a record looks, not the position of any real institution.'']] @ RecordExample @
      [El ''p'' [] [Txt (u ''A real coverage record states whether an institution'' @ [0x2019] @ u ''s reported reserves covered what it owed at the last proof. It is evidence that an auditor can check. It is not an audit, and it is not a judgement on the quality of an institution or its assets. Read a record as of the ledger it names.'')]]),
     (''eligibility'', ''Who can register'',
      [El ''p'' [] [tx ''Solva is for anchors that issue assets on Stellar and for custodial apps and exchanges that hold customer money on it. We do not register institutions or assets where local law or our compliance policy does not allow it.''],
      El ''p'' [] [tx ''Registration will be assessed case by case once self-serve onboarding opens, and we may decline or remove an entry when the law or that policy requires it.'']]),
     (''open-source'', ''Open source code and our name'',
      [El ''p'' [] [Txt (u ''Solva'' @ [0x2019] @ u ''s code is open source under the Apache License 2.0, published at ''),
        El ''a'' [(''href'', u githubUrl), (''target'', u ''_blank''), (''rel'', u ''noreferrer'')] [tx ''GitHub''],
        tx ''. That licence governs the code.''],
      El ''p'' [] [tx ''The licence does not cover the Solva name, the seal mark or the design of this site. Do not use them in a way that suggests we made, checked or approve something we did not.'']]),
     (''responsibility'', ''Limits of our responsibility'',
      [El ''p'' [] [tx ''We work to keep this site accurate and available, but we provide it as it is. We are not responsible for losses that come from relying on its content, from it being unavailable, or from sites we link to.''],
      El ''p'' [] [tx ''Nothing on this page limits any right you have that the law does not allow us to limit.'']]),
     (''what-we-collect'', ''What our forms collect'',
      [El ''p'' [] [tx ''This site has two forms. Each one collects only what you type into it:''],
      El ''ul'' [] [El ''li'' [] [El ''strong'' [] [tx ''Talk to us''],
          tx '': your name, work email, organisation, role, the asset or product if you give one, and your message.''],
        El ''li'' [] [El ''strong'' [] [tx ''Join the waitlist''],
          tx '': your work email, organisation and role.'']],
      TeamEmail,
      El ''p'' [] [tx ''We do not ask for balances, customer data or keys through these forms. Do not send them.'']]),
     (''why-and-how-long'', ''Why we use it and how long we keep it'',
      [El ''p'' [] [tx ''We use what you send to reply to you, to plan a pilot with you, and to invite you to publish when publishing opens to your organisation. We do not sell it, and we do not add you to a marketing list.''],
      El ''ul'' [] [El ''li'' [] [tx ''Messages are kept for as long as the conversation is active, and deleted within 24 months of our last exchange.''],
        El ''li'' [] [tx ''Waitlist requests are kept until publishing opens to you or you ask to leave the list.'']],
      El ''p'' [] [tx ''We keep something longer only when the law requires it.'']]),
     (''processors'', ''Who processes it'',
      [El ''p'' [] [tx ''Two services handle data for us. Each acts on our instructions only.''],
      El ''div'' [] [El ''table'' [] [El ''thead'' [] [El ''tr'' [] [El ''th'' [(''scope'', u ''col'')] [tx ''Service''],
              El ''th'' [(''scope'', u ''col'')] [tx ''What it does''],
              El ''th'' [(''scope'', u ''col'')] [tx ''What it sees'']]],
          El ''tbody'' [] (List.map processor_row PROCESSORS)]],
      El ''p'' [] [tx ''Our own team reads form messages in our email inbox. Apart from the two services above, nobody outside Solva sees them unless the law requires it.'']]),
     (''cookies'', ''Cookies and analytics'',
      [El ''p'' [] [tx ''This site runs no analytics or advertising scripts and sets no tracking cookies. Cloudflare may set a strictly necessary cookie to tell people from automated traffic.'']]),
     (''your-rights'', ''Your rights and requests'',
      [El ''p'' [] [tx ''You can ask us to show you what we hold about you, to correct it, to delete it, or to stop using it. Write to '',
        El ''a'' [(''href'', u ''mailto:'' @ contactEmail)] [Txt (contactEmail)],
        tx '' from the address you used, and we will act on it within 30 days.''],
      El ''p'' [] [tx ''Report a security problem to '',
        El ''a'' [(''href'', u (''mailto:'' @ securityEmail))] [Txt (u securityEmail)],
        tx ''.'']]),
     (''changes'', ''Changes to this page'',
      [El ''p'' [] [tx ''When this page changes, we update the date at the top. If a change affects how we use data you already sent, we write to tell you before it takes effect.'']])]"

definition LegalDocument :: "jstr option \<Rightarrow> dom" where
  "LegalDocument active =
     El ''section'' [(''aria-label'', u ''Terms of use and privacy notice'')]
       [El ''div'' [] [LegalContents LEGAL_CONTENTS active],
        El ''div'' []
          [El ''p'' [] [tx ''Last updated '', El ''time'' [(''datetime'', u ''2026-11-04'')] [tx ''4 November 2026'']],
           El ''article'' [] (List.map LegalSection LEGAL_SECTIONS)]]"

section \<open>The trust page\<close>

definition TRUST_CONTENTS :: "(string \<times> string) list" where
  "TRUST_CONTENTS =
     [(''proven'', ''What the proof establishes''), (''attested'', ''What comes from outside the proof''), (''not-proven'', ''What no record claims''),
      (''assumptions'', ''Who has to be honest''), (''verifier'', ''The verifier on Stellar''), (''status'', ''Status and the audit''),
      (''security'', ''How the entry is protected''), (''corrections'', ''Corrections''), (''changes'', ''Changes to this page'')]"

definition trust_section :: "doc_section \<Rightarrow> dom" where
  "trust_section s =
     (case s of (i, t, content) \<Rightarrow>
        El ''section'' [(''id'', u i), (''aria-labelledby'', u (i @ ''-title''))]
          [El ''h2'' [(''id'', u (i @ ''-title''))] [tx t], El ''div'' [] content])"

definition trust_rows :: "jstr list \<Rightarrow> dom" where
  "trust_rows items = El ''ul'' [] (List.map (\<lambda>t. El ''li'' [] [El ''span'' [(''aria-hidden'', u ''true'')] [], El ''span'' [] [Txt t]]) items)"

definition trust_verifier :: dom where
  "trust_verifier =
     (let e = verifierEvidence; cell = (\<lambda>l v n. Cell (tx l) v (Some (Txt n))) in
      RuledGrid
        [cell ''Verifier contract'' (link_to (explorer_contract (ve_contractId e)) [Txt (shortHash (ve_contractId e) 8 6)])
           (u ''Code hash '' @ shortHash (ve_wasmHash e) 8 6),
         cell ''A verified proof'' (link_to (explorer_tx (ve_verifyTx e)) [Txt (shortHash (ve_verifyTx e) 8 6)])
           (u ''Ledger '' @ locale_int (ve_verifiedAtLedger e)),
         cell ''Fee per verification'' (Txt (ve_feeXlm e @ u '' XLM'')) (locale_int (ve_feeStroops e) @ u '' stroops, identical on a second run''),
         cell ''Network'' (Txt (u ''Stellar '' @ ve_network e)) (u ''Protocol '' @ show_nat (ve_protocol e) @ u ''. No mainnet contract yet.'')])"

definition trust_version :: dom where
  "trust_version = Provenance [tx ''Version 2'', tx ''4 November 2026'', tx ''Revised'']"

definition TRUST_SECTIONS :: "doc_section list" where
  "TRUST_SECTIONS =
    [(''proven'', ''What the proof establishes'',
      [El ''p'' [] [tx ''Each record rests on one proof, and a contract on Stellar checks that proof before the record is written. When the contract accepts a proof, the proof has established all of the following at the ledger it names:''],
      trust_rows
      [u ''Every balance in the committed list was counted, and none of them is negative.'',
       u ''The total of the list is at most the reserve balance that the proof was given.'',
       u ''The commitment written in the record stands for exactly that list, so nothing can be left out or changed later without the commitment changing too.'',
       u ''Any holder who asks can be shown that their own balance is in the list. The check shows no names; it does show unnamed subtotals of nearby entries, including one neighbouring balance.''],
      El ''p'' [] [tx ''Today, for every institution, the list is a stored list of balances. For an anchor, it is the balances of the token holders. For a custodial app, it is its customer balances. Using an anchor's supply read from Stellar in the proof is coming soon.''],
      El ''p'' [] [tx ''One point of precision about the words zero-knowledge. The prover and verifier running on Testnet today keep every balance out of the public inputs, but the proof is not yet in its formally hiding configuration. That configuration is in development, and this page will say so when it ships.'']]),
     (''attested'', ''What comes from outside the proof'',
      [El ''p'' [] [tx ''A proof is only as good as its inputs. Two inputs come from outside the proof, and the proof cannot vouch for them:''],
      trust_rows
      [u ''The reserve balance. For reserves held with a custodian, it is a statement from the accounts that hold them, signed by that source and read at the time of the proof; Solva records which source signed, and when. For reserves held in Stellar accounts, Solva reads the balance from the ledger itself, which anyone can check.'',
       u ''The committed list. The institution supplies it, and today Solva's orchestrator holds it and passes it to the prover. The proof guarantees that the list was counted in full, but it cannot know whether a balance was left out before the list reached the prover. That is what the holder check is for.''],
      El ''p'' [] [tx ''In the public demo, the custodian is a stand-in run by Solva, except for Harbor Wallet, whose reserves are read from its Stellar account. The demo names the reserve source on every run.'']]),
     (''not-proven'', ''What no record claims'',
      [trust_rows
      [u ''That reserves held with a custodian exist beyond its signed statement.'',
       u ''For reserves read from Stellar, anything beyond the balance of the account. The record does not judge the asset held in it.'',
       u ''That an institution is sound in any sense other than coverage at one ledger. A record is evidence for your auditor. It does not replace an audit, and it never will.'',
       u ''Anything about a day with no record. Writing a missed day as stale is coming soon.'',
       u ''That the reserve figure is private. No balance in the list is published, but the reserve total and the result are public by design.'']]),
     (''assumptions'', ''Who has to be honest'',
      [El ''p'' [] [tx ''The prover does not have to be. Solva runs the prover today, and a dishonest prover still cannot produce a proof that the contract accepts. The total is whatever the proof computes, whatever the prover claims. Running the prover inside the institution's own infrastructure is coming soon.''],
      El ''p'' [] [tx ''The reserve source has to be. If a custodian's signed statement is wrong, the record is wrong, which is why Solva logs which source signed, and when. Reserves held in Stellar accounts are read from the ledger, so anyone can compare that balance with the record.''],
      El ''p'' [] [tx ''The list has to be complete. An institution could leave a customer out of the list before proving. The defence is the holder check: a customer who is not in the list will fail it, and a pattern of failed checks is visible to everyone.''],
      El ''p'' [] [tx ''Stale will be applied by rule, with no judgement involved: a record turns stale when no new proof arrives inside the expected window, daily by default. Freshness checks are coming soon; today each record carries its timestamp, so a reader can judge its age. How old a record may be before a reader stops relying on it is the reader's own decision.'']]),
     (''verifier'', ''The verifier on Stellar'',
      [El ''p'' [] [tx ''The contract that checks proofs runs on Stellar Testnet today. Before building the registry on it, we deployed the reference verifier unchanged and ran a known-good proof through it, then a proof with a single byte altered, which it rejected.''],
      trust_verifier]),
     (''status'', ''Status and the audit'',
      [trust_rows
      [u ''Everything on this site runs on Stellar Testnet. No mainnet contract is deployed.'',
       u ''The proof system, the prover and the contract have not had a security audit. Mainnet comes after the audit, never before it.'',
       u ''In the public demo, two example institutions prove against a stand-in custodian run by Solva, and a third, Harbor Wallet, proves against real Testnet USDC read from its Stellar account. The customer lists in the demo are example data. Pilot records with real reserve sources are agreed with each institution.'',
       u ''Example records on this site are labelled as examples and are not read from any contract. The demo is the exception: its record step and holder check run against each institution's contract on Stellar Testnet.'']]),
     (''security'', ''How the entry is protected'',
      [trust_rows
      [u ''An institution's entry is owned by a passkey its team holds, with no raw owner key to copy or leak. The passkey grants Solva's orchestrator a scoped publishing key that can publish proofs to that registry only. The passkey stays the owner and can revoke that key at any time.'',
       u ''No customer balance is ever written anywhere public. Today the customer list is held by Solva's orchestrator and passed to the prover, which runs on Solva's side, over a private connection. Only the proof, the commitment and the totals reach Stellar.'',
       u ''Every line of the prover, the contract and this site is open source under Apache 2.0.'',
       u ''To report a security problem, write to '' @ u securityEmail @ u ''. We answer every report and credit the reporter.'']]),
     (''corrections'', ''Corrections'',
      [El ''p'' [] [tx ''A record is never edited. If an institution believes a record is wrong, it writes to '',
        El ''a'' [(''href'', u ''mailto:'' @ contactEmail)] [Txt (contactEmail)],
        tx '', and the next proof supersedes it. Correction notes that name the record they correct are coming soon.'']]),
     (''changes'', ''Changes to this page'',
      [trust_version])]"

definition TrustDocument :: "jstr \<Rightarrow> dom" where
  "TrustDocument active =
     El ''div'' []
       [El ''div'' [] [TrustContents TRUST_CONTENTS active], El ''article'' [] (List.map trust_section TRUST_SECTIONS)]"

lemma contents_reads:
  "concat (List.map (links \<circ> contents_entry active) es) = List.map (\<lambda>e. 35 # u (fst e)) es"
  "concat (List.map (current_of \<circ> contents_entry active) es) =
     List.map (\<lambda>e. El ''a'' [(''href'', 35 # u (fst e)), (''aria-current'', u ''location'')] [El ''span'' [(''aria-hidden'', u ''true'')] [], tx (snd e)])
       (filter (\<lambda>e. active = Some (u (fst e))) es)"
  by (induction es; simp add: contents_entry_def links_El)+

lemma entry_attr: "k \<notin> {''href'', ''aria-current'', ''aria-hidden''} \<Longrightarrow> with_attr k (contents_entry active e) = []"
  by (simp add: contents_entry_def)

lemma section_reads:
  "concat (List.map (with_attr k \<circ> LegalSection) ss) =
     concat (List.map (\<lambda>(i, t, cs). (if k = ''id'' then [u i, u (i @ ''-title'')] else if k = ''aria-labelledby'' then [u (i @ ''-title'')] else [])
       @ concat (List.map (with_attr k) cs)) ss)"
  "concat (List.map (links \<circ> LegalSection) ss) = concat (List.map (\<lambda>(i, t, cs). concat (List.map links cs)) ss)"
  by (induction ss; auto simp: LegalSection_def links_El)+
section \<open>Contents and sections\<close>

lemma stamp_attr: "k \<noteq> ''aria-hidden'' \<Longrightarrow> with_attr k (StateStamp st l) = []"
  by (simp add: StateStamp_def)

lemma row_attr: "k \<noteq> ''aria-hidden'' \<Longrightarrow> with_attr k (LeaderRow (Txt a) (Txt b)) = []"
  by (simp add: LeaderRow_def)

lemma parts_attr: "k \<noteq> ''aria-hidden'' \<Longrightarrow> with_attr k (Provenance (List.map Txt ps)) = []"
proof -
  assume "k \<noteq> ''aria-hidden''"
  then have "concat (List.map (with_attr k \<circ> (\<lambda>(i, p). El ''span'' []
      ((if 0 < i then [El ''span'' [(''aria-hidden'', u ''true'')] [Txt [0xB7]]] else []) @ [p]))) (enumerate n (List.map Txt ps))) = []" for n :: nat
    by (induction ps arbitrary: n) auto
  then show ?thesis by (simp add: Provenance_def comp_def)
qed

lemma article_attr:
  "k \<in> {''id'', ''aria-labelledby'', ''aria-current''} \<Longrightarrow> with_attr k (record_article r full c) = []"
  unfolding record_article_def Let_def case_prod_unfold
  by (elim insertE emptyE; simp add: stamp_attr row_attr parts_attr split del: if_split)

lemma example_reads:
  "concat (List.map links RecordExample) = []"
  "k \<in> {''id'', ''aria-labelledby'', ''aria-current''} \<Longrightarrow> d \<in> set RecordExample \<Longrightarrow> with_attr k d = []"
  by (auto simp: RecordExample_def links_El article_attr split: option.split)

lemma rows_reads:
  "links (trust_rows ts) = []" "k \<noteq> ''aria-hidden'' \<Longrightarrow> with_attr k (trust_rows ts) = []"
  by (induction ts; simp add: trust_rows_def links_El)+

lemma cell_reads:
  "with_attr k (Cell a b n) = with_attr k a @ with_attr k b @ (case n of Some d \<Rightarrow> with_attr k d | None \<Rightarrow> [])"
  "links (Cell a b n) = links a @ links b @ (case n of Some d \<Rightarrow> links d | None \<Rightarrow> [])"
  by (simp_all add: Cell_def links_El split: option.split)

lemma verifier_reads:
  "links trust_verifier = [explorer_contract (ve_contractId verifierEvidence), explorer_tx (ve_verifyTx verifierEvidence)]"
  "k \<notin> {''data-rows'', ''class'', ''href''} \<Longrightarrow> with_attr k trust_verifier = []"
  by (auto simp: trust_verifier_def Let_def RuledGrid_def cell_reads links_El link_to_def)

lemma version_reads: "links trust_version = []" "k \<noteq> ''aria-hidden'' \<Longrightarrow> with_attr k trust_version = []"
  by (simp_all add: trust_version_def Provenance_def links_El)

lemma mail_reads:
  "links TeamEmail = []" "k \<noteq> ''class'' \<Longrightarrow> with_attr k TeamEmail = []"
  by (auto simp: TeamEmail_def mail_sheet_def MAIL_HEADERS_def MAIL_BODY_def links_El)

lemma processor_reads: "links (processor_row p) = []" "k \<noteq> ''scope'' \<Longrightarrow> with_attr k (processor_row p) = []"
  by (cases p; simp add: processor_row_def links_El)+

lemmas body_reads = example_reads rows_reads verifier_reads version_reads mail_reads processor_reads

lemma legal_bodies:
  "k \<in> {''id'', ''aria-labelledby'', ''aria-current''} \<Longrightarrow> list_all (\<lambda>(i, t, cs). concat (List.map (with_attr k) cs) = []) LEGAL_SECTIONS"
  unfolding LEGAL_SECTIONS_def by (elim insertE emptyE; simp add: body_reads)

lemma trust_bodies:
  "k \<in> {''id'', ''aria-labelledby'', ''aria-current''} \<Longrightarrow> list_all (\<lambda>(i, t, cs). concat (List.map (with_attr k) cs) = []) TRUST_SECTIONS"
  unfolding TRUST_SECTIONS_def by (auto simp: body_reads)

lemma legal_links:
  "concat (List.map (\<lambda>(i, t, cs). concat (List.map links cs)) LEGAL_SECTIONS) =
     [u ''mailto:'' @ contactEmail, u githubUrl, u ''mailto:'' @ contactEmail, u (''mailto:'' @ securityEmail)]"
  unfolding LEGAL_SECTIONS_def by (simp add: body_reads links_El processor_row_def PROCESSORS_def)

lemma trust_links:
  "concat (List.map (\<lambda>(i, t, cs). concat (List.map links cs)) TRUST_SECTIONS) =
     [explorer_contract (ve_contractId verifierEvidence), explorer_tx (ve_verifyTx verifierEvidence), u ''mailto:'' @ contactEmail]"
  unfolding TRUST_SECTIONS_def by (simp add: body_reads links_El)
definition heading :: "doc_section \<Rightarrow> string \<times> string" where
  "heading s = (fst s, fst (snd s))"

lemma headings: "List.map heading LEGAL_SECTIONS = LEGAL_CONTENTS" "List.map heading TRUST_SECTIONS = TRUST_CONTENTS"
  by (simp_all add: heading_def LEGAL_SECTIONS_def LEGAL_CONTENTS_def TRUST_SECTIONS_def TRUST_CONTENTS_def)

lemma trust_section_eq: "trust_section = LegalSection"
  by (simp add: fun_eq_iff trust_section_def LegalSection_def)

lemma bodies_attr:
  assumes "list_all (\<lambda>(i, t, cs). concat (List.map (with_attr k) cs) = []) ss" "k \<in> {''id'', ''aria-labelledby'', ''aria-current''}"
  shows "concat (List.map (with_attr k \<circ> LegalSection) ss) =
     concat (List.map (\<lambda>s. (if k = ''id'' then [u (fst s), u (fst s @ ''-title'')] else if k = ''aria-labelledby'' then [u (fst s @ ''-title'')] else [])) ss)"
  using assms(1) unfolding section_reads by (induction ss) (auto simp: section_reads)

text \<open>What a page with contents is to its reader: one entry for each section, in order and under its title, leading to
  the section's anchor; every section named by its own heading; no anchor twice; every other link known.\<close>

definition contents_lead :: "dom \<Rightarrow> (string \<times> string) list \<Rightarrow> doc_section list \<Rightarrow> dom \<Rightarrow> bool" where
  "contents_lead nav entries sections page \<longleftrightarrow>
     links nav = List.map (\<lambda>s. 35 # u (fst s)) sections \<and> entries = List.map heading sections
     \<and> distinct (with_attr ''id'' page) \<and> set (with_attr ''aria-labelledby'' page) \<subseteq> set (with_attr ''id'' page)
     \<and> (\<lambda>s. u (fst s)) ` set sections \<subseteq> set (with_attr ''id'' page)
     \<and> set (links page) \<subseteq> set (links nav) \<union> known_links \<union> {explorer_contract (ve_contractId verifierEvidence), explorer_tx (ve_verifyTx verifierEvidence)}"

lemma contents_leadI:
  assumes "links nav = List.map (\<lambda>e. 35 # u (fst e)) es" "List.map heading ss = es"
    and "with_attr ''id'' page = h @ concat (List.map (\<lambda>s. [u (fst s), u (fst s @ ''-title'')]) ss)"
    and "with_attr ''aria-labelledby'' page = h @ List.map (\<lambda>s. u (fst s @ ''-title'')) ss"
    and "distinct (h @ concat (List.map (\<lambda>e. [u (fst e), u (fst e @ ''-title'')]) es))" "links page = links nav @ ls"
    and "set ls \<subseteq> known_links \<union> {explorer_contract (ve_contractId verifierEvidence), explorer_tx (ve_verifyTx verifierEvidence)}"
  shows "contents_lead nav es ss page"
proof -
  have "concat (List.map (\<lambda>e. [u (fst e), u (fst e @ ''-title'')]) es) = concat (List.map (\<lambda>s. [u (fst s), u (fst s @ ''-title'')]) ss)"
    "links nav = List.map (\<lambda>s. 35 # u (fst s)) ss"
    unfolding assms(1) assms(2) [symmetric] by (simp_all add: comp_def heading_def)
  with assms show ?thesis unfolding contents_lead_def by auto
qed

lemma doc_links: "set [u ''mailto:'' @ contactEmail, u githubUrl, u (''mailto:'' @ securityEmail)] \<subseteq> known_links"
  by (simp only: list.set insert_subset empty_subsetI known_link simp_thms)

lemma legal_page:
  "with_attr ''id'' (LegalDocument active) = [u ''contents-title''] @ concat (List.map (\<lambda>s. [u (fst s), u (fst s @ ''-title'')]) LEGAL_SECTIONS)"
  "with_attr ''aria-labelledby'' (LegalDocument active) = [u ''contents-title''] @ List.map (\<lambda>s. u (fst s @ ''-title'')) LEGAL_SECTIONS"
  "links (LegalContents LEGAL_CONTENTS active) = List.map (\<lambda>e. 35 # u (fst e)) LEGAL_CONTENTS"
  "links (LegalDocument active) = links (LegalContents LEGAL_CONTENTS active)
     @ [u ''mailto:'' @ contactEmail, u githubUrl, u ''mailto:'' @ contactEmail, u (''mailto:'' @ securityEmail)]"
  by (simp_all add: LegalDocument_def LegalContents_def contents_reads entry_attr comp_def [of "with_attr k" for k] bodies_attr [OF legal_bodies, unfolded comp_def]
      links_El section_reads legal_links)

lemma trust_page:
  "with_attr ''id'' (TrustDocument here) = [] @ concat (List.map (\<lambda>s. [u (fst s), u (fst s @ ''-title'')]) TRUST_SECTIONS)"
  "with_attr ''aria-labelledby'' (TrustDocument here) = [] @ List.map (\<lambda>s. u (fst s @ ''-title'')) TRUST_SECTIONS"
  "links (TrustContents TRUST_CONTENTS here) = List.map (\<lambda>e. 35 # u (fst e)) TRUST_CONTENTS"
  "links (TrustDocument here) = links (TrustContents TRUST_CONTENTS here)
     @ [explorer_contract (ve_contractId verifierEvidence), explorer_tx (ve_verifyTx verifierEvidence), u ''mailto:'' @ contactEmail]"
  by (simp_all add: TrustDocument_def TrustContents_def contents_reads entry_attr comp_def [of "with_attr k" for k] bodies_attr [OF trust_bodies, unfolded comp_def]
      links_El section_reads trust_links trust_section_eq)

lemma legal_distinct: "distinct ([u ''contents-title''] @ concat (List.map (\<lambda>e. [u (fst e), u (fst e @ ''-title'')]) LEGAL_CONTENTS))"
  by (simp add: LEGAL_CONTENTS_def)

lemma trust_distinct: "distinct ([] @ concat (List.map (\<lambda>e. [u (fst e), u (fst e @ ''-title'')]) TRUST_CONTENTS))"
  by (simp add: TRUST_CONTENTS_def)

text \<open>The contents of both documents lead to their sections, whatever entry is marked: the list of contents and the
  sections are written down apart from each other and agree.\<close>

theorem documents_anchored:
  "contents_lead (LegalContents LEGAL_CONTENTS active) LEGAL_CONTENTS LEGAL_SECTIONS (LegalDocument active)
   \<and> contents_lead (TrustContents TRUST_CONTENTS here) TRUST_CONTENTS TRUST_SECTIONS (TrustDocument here)"
  using contents_leadI [OF legal_page(3) headings(1) legal_page(1,2) legal_distinct legal_page(4)]
    contents_leadI [OF trust_page(3) headings(2) trust_page(1,2) trust_distinct trust_page(4)] doc_links
  by auto

section \<open>Following the reader\<close>

lemma highest_in: "a \<in> ids \<Longrightarrow> fst ` set es \<subseteq> ids \<Longrightarrow> highest_section es a \<in> ids"
proof -
  have "set (sort_key (\<lambda>(_, top, _). top) (filter (\<lambda>(_, _, visible). visible) es)) \<subseteq> set es" by auto
  then show "a \<in> ids \<Longrightarrow> fst ` set es \<subseteq> ids \<Longrightarrow> ?thesis"
    by (cases "sort_key (\<lambda>(_, top, _). top) (filter (\<lambda>(_, _, visible). visible) es)") (auto simp: highest_section_def)
qed

lemma one_current:
  assumes "distinct (List.map fst es)" "e \<in> set es"
  shows "concat (List.map (current_of \<circ> contents_entry (Some (u (fst e)))) es) =
    [El ''a'' [(''href'', 35 # u (fst e)), (''aria-current'', u ''location'')] [El ''span'' [(''aria-hidden'', u ''true'')] [], tx (snd e)]]"
proof -
  have "filter (\<lambda>e'. Some (u (fst e)) = Some (u (fst e'))) es = [e]"
    using assms by (induction es) (auto simp: filter_empty_conv image_iff)
  then show ?thesis by (simp add: contents_reads)
qed

text \<open>On the trust page exactly one entry is marked, at any time: after a report the section of it that is in view and
  highest up, and as before when none is.\<close>

theorem trust_contents_follow:
  assumes "fst ` set report \<subseteq> set (List.map (\<lambda>e. u (fst e)) TRUST_CONTENTS)"
    and "before \<in> set (List.map (\<lambda>e. u (fst e)) TRUST_CONTENTS)" "now = highest_section report before"
  shows "(\<exists>e \<in> set TRUST_CONTENTS. now = u (fst e) \<and> List.map links (current_of (TrustContents TRUST_CONTENTS now)) = [[35 # u (fst e)]])
    \<and> (if \<exists>i top. (i, top, True) \<in> set report
       then \<exists>top. (now, top, True) \<in> set report \<and> (\<forall>(i, t, visible) \<in> set report. visible \<longrightarrow> top \<le> t)
       else now = before)"
proof -
  let ?seen = "filter (\<lambda>(_, _, visible). visible) report"
  let ?sorted = "sort_key (\<lambda>(_, top, _). top) ?seen"
  have "now \<in> set (List.map (\<lambda>e. u (fst e)) TRUST_CONTENTS)"
    unfolding assms(3) by (rule highest_in [OF assms(2,1)])
  then obtain e where e: "e \<in> set TRUST_CONTENTS" "now = u (fst e)" by auto
  have "distinct (List.map fst TRUST_CONTENTS)" by (simp add: TRUST_CONTENTS_def)
  from one_current [OF this e(1)] have c: "List.map links (current_of (TrustContents TRUST_CONTENTS now)) = [[35 # u (fst e)]]"
    by (simp add: TrustContents_def e(2) comp_def links_El)
  have d: "if \<exists>i top. (i, top, True) \<in> set report
       then \<exists>top. (now, top, True) \<in> set report \<and> (\<forall>(i, t, visible) \<in> set report. visible \<longrightarrow> top \<le> t) else now = before"
  proof (cases ?sorted)
    case Nil
    then have "?seen = []" by (metis set_sort set_empty)
    with Nil assms(3) show ?thesis by (auto simp: highest_section_def filter_empty_conv)
  next
    case (Cons x xs)
    obtain i top v where x: "x = (i, top, v)" by (cases x)
    have m: "y \<in> set (x # xs) \<longleftrightarrow> y \<in> set report \<and> snd (snd y)" for y
      unfolding Cons [symmetric] by (auto simp: case_prod_unfold)
    have "sorted (List.map (\<lambda>(_, top, _). top) (x # xs))" unfolding Cons [symmetric] by simp
    then have le: "y \<in> set (x # xs) \<Longrightarrow> top \<le> fst (snd y)" for y by (auto simp: x case_prod_unfold)
    have n: "now = i" "(i, top, True) \<in> set report" using m [of x] x Cons assms(3) by (auto simp: highest_section_def)
    have "\<forall>y \<in> set report. snd (snd y) \<longrightarrow> top \<le> fst (snd y)" using le m by blast
    then have "\<forall>(i, t, visible) \<in> set report. visible \<longrightarrow> top \<le> t" by (simp add: case_prod_unfold)
    with n have "\<exists>top. (now, top, True) \<in> set report \<and> (\<forall>(i, t, visible) \<in> set report. visible \<longrightarrow> top \<le> t)" by blast
    moreover have "\<exists>i top. (i, top, True) \<in> set report" using n(2) by blast
    ultimately show ?thesis by simp
  qed
  show ?thesis
  proof (rule conjI)
    show "\<exists>e \<in> set TRUST_CONTENTS. now = u (fst e) \<and> List.map links (current_of (TrustContents TRUST_CONTENTS now)) = [[35 # u (fst e)]]"
      by (rule bexI [of _ e], rule conjI, rule e(2), rule c, rule e(1))
  qed (rule d)
qed
lemma trust_contents_follow_witness:
  "\<exists>e \<in> set TRUST_CONTENTS. highest_section [(u ''status'', 300, True), (u ''verifier'', 40, True)] (u ''proven'') = u (fst e)
     \<and> List.map links (current_of (TrustContents TRUST_CONTENTS (u ''verifier''))) = [[35 # u (fst e)]]"
proof -
  have h: "highest_section [(u ''status'', 300, True), (u ''verifier'', 40, True)] (u ''proven'') = u ''verifier''"
    by (simp add: highest_section_def)
  show ?thesis
    using trust_contents_follow [of "[(u ''status'', 300, True), (u ''verifier'', 40, True)]" "u ''proven''" "u ''verifier''"] h
    by (simp add: TRUST_CONTENTS_def)
qed

section \<open>The mail the notice prints\<close>

text \<open>A mail the way the notice prints one: its headers with their labels, then the lines of its text that are not empty.\<close>

fun text_lines :: "jstr \<Rightarrow> jstr list" where
  "text_lines [] = [[]]" |
  "text_lines (c # s) = (if c = 10 then [] # text_lines s else (c # hd (text_lines s)) # tl (text_lines s))"

definition mail_as_printed :: "jstr \<Rightarrow> outgoing_message \<Rightarrow> jstr list" where
  "mail_as_printed from m =
     [u ''From'', from, u ''To'', om_to m, u ''Reply to'', om_replyTo m, u ''Subject'', om_subject m]
     @ filter (\<lambda>l. l \<noteq> []) (text_lines (om_text m))"

definition printed_values :: field_values where
  "printed_values =
     [(FName, u ''Ines Arden''), (FEmail, u ''ines@ardenpay.example''), (FOrganisation, u ''Arden Pay''), (FRole, u ''Custodial app''),
      (FAsset, u ''EURC''), (FMessage, u MAIL_MESSAGE)]"

lemma text_lines_no_break: "10 \<notin> set s \<Longrightarrow> text_lines s = [s]"
  by (induction s) auto

lemma text_lines_break: "10 \<notin> set s \<Longrightarrow> text_lines (s @ 10 # t) = s # text_lines t"
  by (induction s) auto

lemma lines_join: "list_all (\<lambda>l. 10 \<notin> set l) ls \<Longrightarrow> ls \<noteq> [] \<Longrightarrow> text_lines (join [10] ls) = ls"
proof (induction ls rule: induct_list012)
  case (3 a b ls)
  then show ?case by (simp add: text_lines_break)
qed (simp_all add: text_lines_no_break)

lemma printed_mail: "mail_as_printed MAIL_FROM (contactMessage printed_values) = texts mail_sheet"
proof -
  let ?ls = "[u ''Name: '' @ u ''Ines Arden'', u ''Email: '' @ u ''ines@ardenpay.example'', u ''Organisation: '' @ u ''Arden Pay'',
    u ''Role: '' @ u ''Custodial app'', u ''Asset or product: '' @ u ''EURC'', [], u MAIL_MESSAGE]"
  have "list_all (\<lambda>l. 10 \<notin> set l) ?ls" by (simp add: u_def MAIL_MESSAGE_def)
  then have l: "text_lines (join [10] ?ls) = ?ls" by (rule lines_join) simp
  have "om_text (contactMessage printed_values) = join [10] ?ls" by (simp add: contactMessage_def printed_values_def field_def u_eq_Nil)
  with l have t: "text_lines (om_text (contactMessage printed_values)) = ?ls" by simp
  show ?thesis
    unfolding mail_as_printed_def t by (simp add: contactMessage_def printed_values_def field_def mail_sheet_def MAIL_HEADERS_def MAIL_BODY_def
       MAIL_FROM_def contactEmail_def MAIL_MESSAGE_def flip: u_append)
qed

lemma plain_text: "normalise (u ''Ines Arden'') = u ''Ines Arden''" "normalise (u ''Arden Pay'') = u ''Arden Pay''" "normalise (u ''EURC'') = u ''EURC''"
  "trim (u ''ines@ardenpay.example'') = u ''ines@ardenpay.example''" "trim (u MAIL_MESSAGE) = u MAIL_MESSAGE"
  by (simp_all add: normalise_def trim_def u_def is_ws_def MAIL_MESSAGE_def)

lemma printed_valid: "is_email (u ''ines@ardenpay.example'') \<Longrightarrow> validate is_email printed_values = Valid printed_values"
  by (simp add: validate_def printed_values_def field_schema_def parse_line_def parse_email_def parse_role_def parse_asset_def parse_message_def
      Let_def check_def plain_text ROLES_def) (simp add: MAIL_MESSAGE_def)

text \<open>C40: The privacy notice prints the whole mail the team receives.  Whoever sends the contact form with the values
  the notice shows, with an address the schema accepts, a mail key set and the trap left empty, makes the site
  send exactly one mail, and its sender, recipient, reply address, subject and lines are the texts of the figure in the
  notice, one for one and in order.\<close>

theorem notice_prints_the_mail:
  assumes "readFields fd CONTACT_FIELDS = printed_values" "\<not> isBot fd" "ms_isEmail ms (u ''ines@ardenpay.example'')"
    and "me_resendApiKey (ms_env ms) \<noteq> None" "sendContact ms previous fd s = (r, s')"
  shows "\<exists>m. w_log s' = w_log s @ [Call (SendEmail MAIL_FROM m)] \<and> texts TeamEmail = mail_as_printed MAIL_FROM m @ [MAIL_CAPTION]"
proof -
  have "w_log s' = w_log s @ [Call (SendEmail MAIL_FROM (contactMessage printed_values))]"
    using assms printed_valid [of "ms_isEmail ms", OF assms(3)]
    by (auto simp: sendContact_def submit_def deliver_def bindM_def comp_simps Let_def split: option.splits if_splits)
  with printed_mail show ?thesis by (simp add: TeamEmail_def)
qed

lemma notice_prints_the_mail_witness:
  "\<exists>r s' m. sendContact demo_mail Idle (List.map (\<lambda>(f, v). (field_name f, FText v)) printed_values) \<lparr>w_log = []\<rparr> = (r, s')
     \<and> w_log s' = [Call (SendEmail MAIL_FROM m)] \<and> texts TeamEmail = mail_as_printed MAIL_FROM m @ [MAIL_CAPTION]"
proof -
  let ?fd = "List.map (\<lambda>(f, v). (field_name f, FText v)) printed_values"
  obtain r s' where run: "sendContact demo_mail Idle ?fd \<lparr>w_log = []\<rparr> = (r, s')"
    by (cases "sendContact demo_mail Idle ?fd \<lparr>w_log = []\<rparr>")
  have "readFields ?fd CONTACT_FIELDS = printed_values" by (simp add: readFields_def CONTACT_FIELDS_def printed_values_def form_get_def)
  moreover have "\<not> isBot ?fd" by (simp add: isBot_def form_get_def printed_values_def trim_def)
  moreover have "ms_isEmail demo_mail (u ''ines@ardenpay.example'')" by (simp add: demo_mail_def u_def)
  moreover have "me_resendApiKey (ms_env demo_mail) \<noteq> None" by (simp add: demo_mail_def readMailEnv_def optionalSetting_def trim_def u_def is_ws_def)
  ultimately show ?thesis using notice_prints_the_mail [OF _ _ _ _ run] run by auto
qed

section \<open>app/trust/page.tsx\<close>

definition TrustPage :: "jstr \<Rightarrow> dom list" where
  "TrustPage active =
     [PageOpening
        \<lparr>po_label = u ''Trust'', po_title = u ''What a record proves, and what it does not.'',
         po_lead = u ''Written for the person who has to sign off on relying on a record. Every claim on this page has a stated limit, and the verifier that checks each proof is linked, so anyone can open the transaction where the contract verified it and rerun the open-source verifier on the same proof.'',
         po_primary = Some (u ''Start with what is proven'', u ''#proven''), po_secondary = Some (u ''Ask a question'', route ''contact''),
         po_figure = Some (record_article (exampleRecords ! 2) False (u ''Example, a short day'')),
         po_provenance = Some [tx ''Version 2'', tx ''4 November 2026'', tx ''Stellar Testnet''], po_titleId = u ''page-title''\<rparr>,
      TrustDocument active,
      Close None (Some trust_card)]"

end
