(* ===== verification/Spec2Isabelle.thy ===== *)
theory Spec2Isabelle
  imports Oracle Sandbox_View Passkey_Ceremony Contact_View Console_Api Kyb Session Public_Pages Dashboard Key_Cards Blog_View Record_Pages Opening Site_Nav Page_Views Site_Pages Site_Documents
begin

text \<open>
  Solva lets an institution prove that its reserves cover its liabilities.  This development
  models the TypeScript of the repository: the packages a third party integrates
  (\<open>packages/shared-types\<close>, \<open>packages/contract-bindings\<close>, \<open>packages/sdk-ts\<close>), the solvency
  oracle (\<open>services/oracle\<close>), the operator console (\<open>apps/web\<close>, with the parts of
  \<open>packages/ui\<close> it draws with) and the public web site (\<open>apps/website\<close>).  All paths below are
  under src/.

  \<^bold>\<open>The parts and how they interact.\<close>  The orchestrator, a service of another language, keeps
  proofs per tenant and is reached over HTTP; the registry contract on Stellar holds the
  latest proof of an institution.  The SDK wraps both.  The oracle answers a question about a
  tenant from the SDK's two views and flags anomalies in its history.  The web site runs a
  sandbox: server routes that drive the orchestrator, and a panel that walks through six
  steps over those routes.  The console signs an operator in with a passkey, which controls a
  smart wallet on Stellar, files the institution's KYB form, provisions its registry and shows
  its cycles.

  \<^bold>\<open>Theories, from the ground up.\<close>
  \<^item> \<open>Prelude\<close>: strings as UTF-16 code units, thrown values, decimal numerals and
    \<open>BigInt\<close>; the locale \<open>codec\<close>.  \<open>Js_Number\<close>: numbers as rationals with an
    infinity, padding and \<open>toFixed\<close>.  \<open>Js_Double\<close>: the rounding of binary64 where a
    printed percentage depends on it.  \<open>Json\<close>: JSON values and the reading of fields.
    \<open>Effects\<close>: computations over a state that may throw (\<open>bindM\<close>, \<open>catchM\<close>) and a
    log of external events.  \<open>Network\<close>: HTTP requests and responses, \<open>fetch\<close> as a
    parameter that answers as a function of the log.  \<open>Dom\<close>: documents as trees of elements
    and texts, and what is read of them (links, controls, texts, attributes).
  \<^item> \<open>Shared_Types\<close> (\<open>packages/shared-types/src\<close>), \<open>Bindings\<close>
    (\<open>packages/contract-bindings/src\<close>, the wrapper around the generated client),
    \<open>Sdk\<close> (\<open>packages/sdk-ts/src\<close>).
  \<^item> \<open>Anomaly\<close> and \<open>Oracle\<close> (\<open>services/oracle/src\<close>): the features and flags over a
    proof history, the verdict, the two tools; the locale \<open>solvency_provider\<close> states what the
    verdict needs of its two sources and is interpreted on the production dependencies.
  \<^item> \<open>Amounts\<close>, \<open>Supply\<close>, \<open>Record_History\<close>, \<open>Record_Pages\<close>, \<open>Site_Widgets\<close>,
    \<open>Blog\<close>, \<open>Contact\<close>, \<open>Sandbox_Api\<close>, \<open>Sandbox_Machine\<close> (\<open>apps/website/src\<close>): amounts
    and coverage arithmetic, the market supply snapshot and its cache, the record history with
    its calendar, what the record pages print of it, the scroll lock, the inclusion checker and
    other hooks, the blog, the contact and waitlist forms down to the mailer, the sandbox routes,
    and the sandbox panel.
  \<^item> \<open>Motion\<close>, \<open>Opening\<close> (\<open>hooks/use-motion-director.ts\<close>, \<open>features/home/hooks\<close>,
    \<open>lib/motion-gate.ts\<close>): what is animated on a page, the calendar, the opening loop, counters
    and the pinned stage, as step relations over browser events.  \<open>Site_Nav\<close>: routes, menus,
    header, footer, closing cards, redirects, site map.  \<open>Site_Parts\<close>, \<open>Sandbox_View\<close>, \<open>Contact_View\<close>,
    \<open>Site_Figures\<close>, \<open>Site_Pages\<close>, \<open>Site_Documents\<close>, \<open>Blog_View\<close>: the components of
    the pages as documents over the states of the other theories; \<open>Blog_View\<close> also holds the
    anchors of headings and the button that leads back to the top.
  \<^item> \<open>Passkey_Bytes\<close>, \<open>Passkey_Wallet\<close>, \<open>Passkey_Ceremony\<close>
    (\<open>apps/web/src/lib/passkey\<close>): base64url and public keys, the wallet's session,
    deployment, submission and scoped signer, the two WebAuthn ceremonies and the messages of
    contract errors.
  \<^item> \<open>Console_Api\<close> (\<open>app/api/provision\<close>, \<open>app/api/latest-proof\<close>,
    \<open>lib/control-plane.ts\<close>, \<open>lib/proof-registry.ts\<close>), \<open>Kyb\<close> (\<open>app/api/kyb\<close>,
    \<open>lib/email\<close>), \<open>Session\<close> (\<open>lib/auth.ts\<close>, \<open>lib/session\<close>, the shell and the
    entry pages), \<open>Public_Pages\<close> (the verify and inclusion pages; the locale
    \<open>request_panel\<close> is interpreted on both), \<open>Dashboard\<close> (\<open>lib/dashboard\<close>,
    \<open>lib/mock\<close>, the panels) and \<open>Key_Cards\<close> (the publishing key, provisioning and
    settings cards).  \<open>Console_Format\<close> (\<open>lib/format.ts\<close>), \<open>Console_Views\<close> and
    \<open>Page_Views\<close>: what those pages render, the theme, the tour and the copy button.

  Within a theory the definitions follow the files: an interface is a record, a union of string
  literals a datatype, a function a definition of its name, a React state a record with one
  definition per handler, a page an inductive step relation whose guards are the enabled
  controls and the pending answers, and a component a function from its props and state to a
  document.

  \<^bold>\<open>What the lemmas show.\<close>
  \<^item> Verdicts: the oracle says solvent only when the latest reported totals cover and the
    contract's own totals do too; drift flags are raised exactly at the threshold; the order of
    the history does not matter; every failure of the SDK is one of its two error classes or
    one of three named escapes; no request or contract read of a client leaves its tenant; an inclusion check finds
    its contract and hands the leaf and the path to it unchanged.
  \<^item> Sandbox: a run publishes what the chosen scenario seeded and nothing after a rejected
    seed; the panel opens its steps in order, marks none done without evidence, and can always
    recover; what is drawn enables exactly the steps of the relation.
  \<^item> Wallet: codecs are inverse to each other, a session is opened once, a wallet is deployed
    at its derived address, a submission returns only a settled hash, the added signer is
    limited to the registry, and the address of an operator never changes.
  \<^item> Forms and mail: what is delivered, to whom and how often, that input is escaped in every
    email, how many KYB requests pass in a window, that a form drawn again keeps what was
    typed, and that the mail the privacy notice shows is the mail the form sends.
  \<^item> Console: a sign-in needs an assertion of the stored credential or a new registration,
    a stored institution of
    any shape gives a well-formed session or none, approval survives sign-out and reload, the
    redirects settle, and the dashboard, the cards and the public pages show only what
    happened, in every interleaving of clicks and answers; the controls of a view are those its
    state permits.
  \<^item> Web site: printed amounts read back exactly, percentages are rounded down, the cache
    serves no snapshot older than its time, dates follow the calendar, the record history is
    honest and its pages never round a shortfall away, a page is locked exactly while a menu is
    open, the blog's list and pages agree and lead to each other.
  \<^item> Motion and navigation: what the motion director hides it shows again, the calendar counts
    its days, a counter ends on the text it started from; every link of the shell leads to a
    page, an anchor or one of the site's addresses; the figures drawn are trees over all leaves;
    the figures typed into the pages are those of the example records; the contents of the legal
    and the trust page lead to their sections.

  \<^bold>\<open>Idealisations and bounds.\<close>  Progress values and ratios that are compared are rationals;
  where a percentage is printed from a double, \<open>Js_Double\<close> rounds as binary64 does for normal
  numbers, overflow and subnormals left out.  Numbers in JSON are integers, and
  whole numbers the code adds up stay integers beyond 2^53.  Requests made with \<open>Promise.all\<close>
  are made in order.  A handler runs
  without interleaving between its awaits, except on pages where an answer in flight is part of
  the state.  Polling loops keep their bounds from the code
  (45 attempts for a contract, 90 for a transaction, 3 for funding) as structural recursion, so
  that every operation is a total function; no fuel is introduced.  Browser storage holds typed
  entries by key, and clocks are arguments.  A form submits its inputs as drawn; the browser's own
  clean-up of values (line breaks, white space of an email field) is left out.

  \<^bold>\<open>Parameters.\<close>  HTTP back ends, the Soroban client and ledger, the Stellar SDK with its RPC
  server and friendbot, the authenticator and browser capabilities, SHA-256 and the curve
  check, the Resend API, the address pattern of zod, the front matter parser, \<open>toUpperCase\<close>,
  the renderer of a note's body, the chart library, the hour a locale prints at midnight and \<open>JSON.parse\<close> on unknown bodies.
  Hypotheses on them are named in the theorems and state their documented behaviour; each such
  theorem has a witness with a concrete instance.

  \<^bold>\<open>Not modelled.\<close>  Easing, staggers, offsets and fades of the gsap timelines and the order of
  the parts of the pinned stage; icons, drawn brand marks, fonts, colours and classes that only
  style; coordinates that need sine and cosine; what the chart library and the tour library
  draw; sections of prose and questions alone, with the sections for readers that set example
  records beside it; generated bindings; the MCP transport; the
  documentation site and the brand package; and the code in Rust, Go, Noir and Soroban, which
  the parameters stand for.
\<close>

end
